(* ===== verification/Prelude.thy ===== *)
theory Prelude
  imports Main "HOL-Library.Word"
begin

text \<open>
  Shared vocabulary of the development: the machine integers, identifiers and
  timestamps the Rust sources use, Rust's \<open>str\<close> as a UTF-8 byte sequence with
  its character view (\<open>chars\<close>, \<open>trim\<close>, \<open>char::is_control\<close>), the checked
  arithmetic of the standard library, and the generic list and association-list
  lemmas that the component theories rely on.
\<close>

named_theorems io_rules \<open>Hoare rules of the I/O programs\<close>
named_theorems path_simps \<open>equations on paths and trees\<close>

subsection \<open>Scalars\<close>

type_synonym u32 = "32 word"
type_synonym u64 = "64 word"
type_synonym uuid = "128 word"

text \<open>\<open>chrono::DateTime<Utc>\<close>: nanoseconds since the Unix epoch.\<close>

type_synonym timestamp = int
type_synonym bytes = string
type_synonym path = "string list"

definition checked_add_u64 :: "u64 \<Rightarrow> u64 \<Rightarrow> u64 option" where
  "checked_add_u64 a b = (if unat a + unat b < 2 ^ 64 then Some (a + b) else None)"

lemma checked_add_u64_SomeD:
  assumes "checked_add_u64 a b = Some c"
  shows "unat c = unat a + unat b"
  using assms
  by (auto simp: checked_add_u64_def unat_word_ariths split: if_splits)

lemma checked_add_u64_None_iff:
  "checked_add_u64 a b = None \<longleftrightarrow> 2 ^ 64 \<le> unat a + unat b"
  by (auto simp: checked_add_u64_def)

subsection \<open>Rust strings\<close>

text \<open>
  A Rust \<open>String\<close> is a UTF-8 byte sequence: \<open>len\<close> counts bytes, \<open>chars\<close>
  yields characters. A character is kept as its own bytes, so \<open>chars\<close> cuts the
  sequence before every byte that is not a continuation byte.
\<close>

definition is_continuation :: "char \<Rightarrow> bool" where
  "is_continuation c \<longleftrightarrow> 128 \<le> (of_char c :: nat) \<and> (of_char c :: nat) < 192"

function chars :: "string \<Rightarrow> string list" where
  "chars [] = []"
| "chars (b # bs) = (b # takeWhile is_continuation bs) # chars (dropWhile is_continuation bs)"
  by pat_completeness auto
termination
  by (relation "measure length") (auto simp: le_imp_less_Suc length_dropWhile_le)

definition char_is_control :: "string \<Rightarrow> bool" where
  "char_is_control c =
     (case map of_char c of
        [b] \<Rightarrow> b < (32 :: nat) \<or> b = 127
      | [b, b'] \<Rightarrow> b = 194 \<and> b' < 160
      | _ \<Rightarrow> False)"

text \<open>The code points with the Unicode property \<open>White_Space\<close>, in UTF-8.\<close>

definition char_is_whitespace :: "string \<Rightarrow> bool" where
  "char_is_whitespace c =
     (case map of_char c of
        [b] \<Rightarrow> (9 \<le> b \<and> b \<le> (13 :: nat)) \<or> b = 32
      | [b, b'] \<Rightarrow> b = 194 \<and> (b' = 133 \<or> b' = 160)
      | [b, b', b''] \<Rightarrow>
          (b = 225 \<and> b' = 154 \<and> b'' = 128)
          \<or> (b = 226 \<and> b' = 128 \<and> (b'' \<le> 138 \<or> b'' = 168 \<or> b'' = 169 \<or> b'' = 175))
          \<or> (b = 226 \<and> b' = 129 \<and> b'' = 159)
          \<or> (b = 227 \<and> b' = 128 \<and> b'' = 128)
      | _ \<Rightarrow> False)"

definition str_trim :: "string \<Rightarrow> string" where
  "str_trim s =
     concat (rev (dropWhile char_is_whitespace (rev (dropWhile char_is_whitespace (chars s)))))"

definition is_ascii_digit :: "char \<Rightarrow> bool" where
  "is_ascii_digit c \<longleftrightarrow> 48 \<le> (of_char c :: nat) \<and> (of_char c :: nat) \<le> 57"

definition is_ascii_alphanumeric :: "char \<Rightarrow> bool" where
  "is_ascii_alphanumeric c \<longleftrightarrow>
     is_ascii_digit c
     \<or> (65 \<le> (of_char c :: nat) \<and> (of_char c :: nat) \<le> 90)
     \<or> (97 \<le> (of_char c :: nat) \<and> (of_char c :: nat) \<le> 122)"

definition is_lower_hex :: "char \<Rightarrow> bool" where
  "is_lower_hex c \<longleftrightarrow>
     is_ascii_digit c \<or> (97 \<le> (of_char c :: nat) \<and> (of_char c :: nat) \<le> 102)"

text \<open>Decimal display of an unsigned integer.\<close>

fun show_nat :: "nat \<Rightarrow> string" where
  "show_nat n =
     (if n < 10 then [char_of (48 + n)] else show_nat (n div 10) @ [char_of (48 + n mod 10)])"

declare show_nat.simps [simp del]

text \<open>Replacing each control character by a space, as the diagnostics do.\<close>

definition blank_control :: "string \<Rightarrow> string" where
  "blank_control c = (if char_is_control c then '' '' else c)"

lemma concat_chars [simp]: "concat (chars s) = s"
  by (induction s rule: chars.induct) simp_all

lemma chars_eq_Nil_iff [simp]: "chars s = [] \<longleftrightarrow> s = []"
  by (cases s) simp_all

lemma chars_nonempty: "c \<in> set (chars s) \<Longrightarrow> c \<noteq> []"
  by (induction s rule: chars.induct) auto

lemma chars_length: "length (chars s) \<le> length s"
proof (induction s rule: chars.induct)
  case 1
  then show ?case by simp
next
  case (2 b bs)
  have "length (dropWhile is_continuation bs) \<le> length bs"
    by (rule length_dropWhile_le)
  with "2.IH" show ?case by simp
qed

text \<open>
  A list of chunks is \<^emph>\<open>separated\<close> when it is the \<open>chars\<close> view of its own
  concatenation: every chunk is one head byte and continuation bytes, and every
  chunk but the first starts with a byte that is not a continuation.
\<close>

definition chunk :: "string \<Rightarrow> bool" where
  "chunk c \<longleftrightarrow> c \<noteq> [] \<and> (\<forall>b \<in> set (tl c). is_continuation b)"

definition leads :: "string \<Rightarrow> bool" where
  "leads c \<longleftrightarrow> c \<noteq> [] \<and> \<not> is_continuation (hd c)"

lemma chars_chunks: "c \<in> set (chars s) \<Longrightarrow> chunk c"
  by (induction s rule: chars.induct) (auto simp: chunk_def dest: set_takeWhileD)

lemma hd_dropWhile_leads:
  "dropWhile is_continuation bs = b # bs' \<Longrightarrow> \<not> is_continuation b"
  by (metis hd_dropWhile list.distinct(1) list.sel(1))

lemma chars_tl_leads: "c \<in> set (tl (chars s)) \<Longrightarrow> leads c"
proof (induction s arbitrary: c rule: chars.induct)
  case 1
  then show ?case by simp
next
  case (2 b bs)
  show ?case
  proof (cases "dropWhile is_continuation bs")
    case Nil
    with 2 show ?thesis by simp
  next
    case (Cons d ds)
    then have "\<not> is_continuation d" by (rule hd_dropWhile_leads)
    with 2 Cons show ?thesis by (auto simp: leads_def)
  qed
qed

lemma leads_stops:
  assumes "\<forall>d \<in> set ds. leads d"
  shows "takeWhile is_continuation (concat ds) = []"
    and "dropWhile is_continuation (concat ds) = concat ds"
  using assms by (cases ds; auto simp: leads_def neq_Nil_conv)+

lemma takeWhile_chunk:
  assumes "\<forall>b \<in> set c. is_continuation b" and "\<forall>d \<in> set ds. leads d"
  shows "takeWhile is_continuation (c @ concat ds) = c"
    and "dropWhile is_continuation (c @ concat ds) = concat ds"
  using assms by (simp_all add: leads_stops)

lemma chars_concat:
  assumes "\<forall>c \<in> set cs. chunk c" and "\<forall>c \<in> set (tl cs). leads c"
  shows "chars (concat cs) = cs"
  using assms
proof (induction cs)
  case Nil
  then show ?case by simp
next
  case (Cons c cs)
  obtain b bs where c: "c = b # bs" and bs: "\<forall>x \<in> set bs. is_continuation x"
    using Cons.prems(1) by (cases c) (auto simp: chunk_def)
  have "\<forall>d \<in> set cs. leads d" using Cons.prems(2) by simp
  moreover from this have "chars (concat cs) = cs"
    using Cons by (cases cs) auto
  ultimately show ?case using bs by (simp add: c leads_stops)
qed

lemma blank_control_chunk: "chunk c \<Longrightarrow> chunk (blank_control c)"
  by (simp add: blank_control_def chunk_def)

lemma blank_control_leads: "leads c \<Longrightarrow> leads (blank_control c)"
  by (simp add: blank_control_def leads_def is_continuation_def)

lemma blank_control_not_control [simp]: "\<not> char_is_control (blank_control c)"
  by (simp add: blank_control_def char_is_control_def)

text \<open>Cleaning a diagnostic and cutting it keeps the cut list of characters.\<close>

lemma chars_clean:
  "chars (concat (take n (map blank_control (chars s)))) = take n (map blank_control (chars s))"
proof (rule chars_concat)
  show "\<forall>c \<in> set (take n (map blank_control (chars s))). chunk c"
    by (fastforce dest: in_set_takeD intro: blank_control_chunk chars_chunks)
  show "\<forall>c \<in> set (tl (take n (map blank_control (chars s)))). leads c"
  proof
    fix c
    assume "c \<in> set (tl (take n (map blank_control (chars s))))"
    then obtain d where "c = blank_control d" and "d \<in> set (tl (chars s))"
      by (cases n; cases "chars s") (auto dest!: in_set_takeD)
    then show "leads c" by (simp add: blank_control_leads chars_tl_leads)
  qed
qed

subsection \<open>The \<open>uuid\<close> crate\<close>

text \<open>
  \<open>Uuid::parse_str\<close> and the hyphenated display form are library code: the
  definitions that use them take them as an argument. What the code relies on is
  that parsing a displayed identifier gives the identifier back.
\<close>

record uuid_lib =
  parse_str :: "string \<Rightarrow> uuid option"
  hyphenated :: "uuid \<Rightarrow> string"

definition uuid_displays :: "uuid_lib \<Rightarrow> uuid \<Rightarrow> bool" where
  "uuid_displays U u \<longleftrightarrow> parse_str U (hyphenated U u) = Some u"

text \<open>The canonical-form test the sources share: the text parses and displays as itself.\<close>

definition canonical_uuid :: "uuid_lib \<Rightarrow> string \<Rightarrow> bool" where
  "canonical_uuid U s = (case parse_str U s of None \<Rightarrow> False | Some u \<Rightarrow> hyphenated U u = s)"

lemma canonical_uuid_hyphenated [simp]:
  "uuid_displays U u \<Longrightarrow> canonical_uuid U (hyphenated U u)"
  by (simp add: canonical_uuid_def uuid_displays_def)

subsection \<open>File names\<close>

text \<open>\<open>Path::file_stem\<close> and \<open>Path::extension\<close>: the name is cut at its last dot, unless
  that dot starts the name.\<close>

definition name_before_dot :: "string \<Rightarrow> string" where
  "name_before_dot n = rev (tl (dropWhile (\<lambda>c. c \<noteq> CHR ''.'') (rev n)))"

definition file_stem :: "path \<Rightarrow> string option" where
  "file_stem p =
     (if p = [] \<or> last p = ''..'' then None
      else if name_before_dot (last p) = [] then Some (last p)
      else Some (name_before_dot (last p)))"

definition file_extension :: "path \<Rightarrow> string option" where
  "file_extension p =
     (if p = [] \<or> last p = ''..'' \<or> name_before_dot (last p) = [] then None
      else Some (rev (takeWhile (\<lambda>c. c \<noteq> CHR ''.'') (rev (last p)))))"

lemma name_before_dot_json [simp]: "name_before_dot (n @ ''.json'') = n"
  by (simp add: name_before_dot_def)

lemma file_stem_json: "n \<noteq> [] \<Longrightarrow> file_stem (d @ [n @ ''.json'']) = Some n"
  by (auto simp: file_stem_def Cons_eq_append_conv append_eq_Cons_conv)

lemma file_extension_json: "n \<noteq> [] \<Longrightarrow> file_extension (d @ [n @ ''.json'']) = Some ''json''"
  by (auto simp: file_extension_def Cons_eq_append_conv append_eq_Cons_conv)

lemma json_name_distinct: "n @ ''.json'' \<noteq> m @ ''.tmp''" "n @ ''.json'' \<noteq> ''write.lock''"
proof -
  have "last (n @ ''.json'') \<noteq> last (m @ ''.tmp'')" "last (n @ ''.json'') \<noteq> last ''write.lock''"
    by simp_all
  then show "n @ ''.json'' \<noteq> m @ ''.tmp''" "n @ ''.json'' \<noteq> ''write.lock''" by metis+
qed

text \<open>\<open>Path::display\<close> of an absolute path.\<close>

definition display_path :: "path \<Rightarrow> string" where
  "display_path p = concat (map (\<lambda>c. CHR ''/'' # c) p)"

subsection \<open>Sequences of checks\<close>

text \<open>
  A validation function is a list of checks of which the first that fails decides
  the result, as the early returns of the source do.
\<close>

definition check :: "bool \<Rightarrow> 'e \<Rightarrow> 'e + unit" where
  "check failed e = (if failed then Inl e else Inr ())"

fun first_error :: "('e + unit) list \<Rightarrow> 'e + unit" where
  "first_error [] = Inr ()"
| "first_error (r # rs) = (case r of Inl e \<Rightarrow> Inl e | Inr _ \<Rightarrow> first_error rs)"

lemma check_ok [simp]: "check c e = Inr u \<longleftrightarrow> \<not> c"
  by (simp add: check_def)

lemma check_error [simp]: "check c e = Inl e' \<longleftrightarrow> c \<and> e' = e"
  by (auto simp: check_def)

lemma first_error_ok [simp]: "first_error rs = Inr u \<longleftrightarrow> (\<forall>r \<in> set rs. r = Inr ())"
  by (induction rs) (auto split: sum.splits)

declare first_error.simps [simp del]

lemma first_error_in: "first_error rs = Inl e \<Longrightarrow> Inl e \<in> set rs"
  by (induction rs) (auto simp: first_error.simps split: sum.splits)

subsection \<open>Association lists\<close>

lemma map_of_filter_key:
  "map_of (filter (\<lambda>(k, v). P k) xs) k = (if P k then map_of xs k else None)"
  by (induction xs) auto

lemma map_of_map_inj:
  assumes "inj_on f (insert k (fst ` set xs))"
  shows "map_of (map (\<lambda>(k, v). (f k, v)) xs) (f k) = map_of xs k"
  using assms by (induction xs) (auto simp: inj_on_def)

lemma map_of_map_outside:
  "k \<notin> f ` fst ` set xs \<Longrightarrow> map_of (map (\<lambda>(k, v). (f k, v)) xs) k = None"
  by (induction xs) auto

end
