(* ===== verification/Retention.thy ===== *)
theory Retention
  imports Prelude
begin

text \<open>
  The grandfather-father-son retention policy of
  \<open>snapshots-manager-common/src/retention_v2.rs\<close>: the policy with its validation,
  the facts about one snapshot, and \<open>evaluate_retention\<close>, the loop that turns a
  list of snapshots into explainable keep, delete and skip decisions. The loop with
  its four hash sets is proved equal to a reference in which every snapshot competes
  for one slot and the newest competitor wins; on it rest the safety properties of
  the decisions.

  Calendar fields of a local time are computed by \<open>chrono\<close>; they are an argument of
  the definitions.
\<close>

subsection \<open>Data\<close>

record chrono_lib =
  east_opt :: "int \<Rightarrow> bool"
  local_year :: "timestamp \<Rightarrow> int \<Rightarrow> int"
  local_month :: "timestamp \<Rightarrow> int \<Rightarrow> nat"
  local_day :: "timestamp \<Rightarrow> int \<Rightarrow> nat"
  iso_week_year :: "timestamp \<Rightarrow> int \<Rightarrow> int"
  iso_week_week :: "timestamp \<Rightarrow> int \<Rightarrow> nat"

datatype CleanupPolicy = CleanupAutomatic | KeepForever

record RetentionPolicy =
  is_auto_snapshot_enabled :: bool
  snapshot_interval_hours :: u32
  is_auto_cleanup_enabled :: bool
  keep_all_hours :: u32
  keep_daily_days :: u32
  keep_weekly_days :: u32
  keep_monthly_days :: u32
  keep_yearly :: bool

definition RetentionPolicy_default :: RetentionPolicy where
  "RetentionPolicy_default =
     \<lparr>is_auto_snapshot_enabled = True, snapshot_interval_hours = 1,
      is_auto_cleanup_enabled = True, keep_all_hours = 24, keep_daily_days = 7,
      keep_weekly_days = 30, keep_monthly_days = 365, keep_yearly = True\<rparr>"

definition system_default :: RetentionPolicy where
  "system_default = RetentionPolicy_default\<lparr>snapshot_interval_hours := 24\<rparr>"

definition home_default :: RetentionPolicy where
  "home_default = RetentionPolicy_default\<lparr>snapshot_interval_hours := 2\<rparr>"

datatype RetentionPolicyError =
  ZeroBoundary | NonMonotonicBoundaries | InvalidLocalOffset | InvalidSnapshotInterval

definition RetentionPolicy_validate :: "RetentionPolicy \<Rightarrow> RetentionPolicyError + unit" where
  "RetentionPolicy_validate p =
     (if \<not> (1 \<le> snapshot_interval_hours p \<and> snapshot_interval_hours p \<le> 24)
      then Inl InvalidSnapshotInterval
      else if keep_all_hours p = 0 \<or> keep_daily_days p = 0
        \<or> keep_weekly_days p = 0 \<or> keep_monthly_days p = 0
      then Inl ZeroBoundary
      else if (ucast (keep_daily_days p) :: u64) * 24 < ucast (keep_all_hours p)
        \<or> keep_weekly_days p < keep_daily_days p
        \<or> keep_monthly_days p < keep_weekly_days p
      then Inl NonMonotonicBoundaries
      else Inr ())"

record SnapshotCandidate =
  sc_id :: string
  sc_created_at :: timestamp
  sc_local_offset_seconds :: int
  sc_cleanup_policy :: CleanupPolicy
  sc_is_ready :: bool
  sc_is_busy :: bool
  sc_is_restore_referenced :: bool

datatype RetentionTier = TierNone | Yearly | Monthly | Weekly | Daily | TierAll

datatype RetentionAction = Keep | Delete | Skip

datatype RetentionReason =
  AllWithinRecentWindow | NewestInDay | NewestInWeek | NewestInMonth | NewestInYear
  | BucketAlreadyOccupied | AutomaticCleanupDisabled | ReasonKeepForever | FutureTimestamp
  | NotReady | Busy | RestoreReferenced | LastUsableSnapshot

record RetentionDecision =
  rd_snapshot_id :: string
  rd_tier :: RetentionTier
  rd_action :: RetentionAction
  rd_reason :: RetentionReason

subsection \<open>Operations\<close>

definition decision ::
  "SnapshotCandidate \<Rightarrow> RetentionAction \<Rightarrow> RetentionTier \<Rightarrow> RetentionReason \<Rightarrow> RetentionDecision" where
  "decision s action tier reason =
     \<lparr>rd_snapshot_id = sc_id s, rd_tier = tier, rd_action = action, rd_reason = reason\<rparr>"

text \<open>The match is reached with the four bucket tiers only; the others are \<open>unreachable!\<close>.\<close>

fun claim_reason :: "RetentionTier \<Rightarrow> RetentionReason option" where
  "claim_reason Daily = Some NewestInDay"
| "claim_reason Weekly = Some NewestInWeek"
| "claim_reason Monthly = Some NewestInMonth"
| "claim_reason Yearly = Some NewestInYear"
| "claim_reason _ = None"

definition bucket_decision ::
  "SnapshotCandidate \<Rightarrow> RetentionTier \<Rightarrow> bool \<Rightarrow> RetentionDecision option" where
  "bucket_decision s tier claimed =
     (if claimed
      then (case claim_reason tier of
              None \<Rightarrow> None
            | Some reason \<Rightarrow> Some (decision s Keep tier reason))
      else Some (decision s Delete TierNone BucketAlreadyOccupied))"

record seen_buckets =
  seen_days :: "(int \<times> nat \<times> nat) set"
  seen_weeks :: "(int \<times> nat) set"
  seen_months :: "(int \<times> nat) set"
  seen_years :: "int set"

definition no_buckets :: seen_buckets where
  "no_buckets = \<lparr>seen_days = {}, seen_weeks = {}, seen_months = {}, seen_years = {}\<rparr>"

definition hours :: "u32 \<Rightarrow> int" where
  "hours n = int (unat n) * 3600000000000"

definition days :: "u32 \<Rightarrow> int" where
  "days n = int (unat n) * 86400000000000"

text \<open>
  One iteration of the loop. The outer option is \<open>None\<close> where the source would
  reach \<open>unreachable!\<close>.
\<close>

definition evaluate_one ::
  "chrono_lib \<Rightarrow> RetentionPolicy \<Rightarrow> timestamp \<Rightarrow> seen_buckets \<Rightarrow> SnapshotCandidate \<Rightarrow>
   RetentionPolicyError + (RetentionDecision option \<times> seen_buckets)" where
  "evaluate_one C policy now b s =
     (if \<not> sc_is_ready s then Inr (Some (decision s Skip TierNone NotReady), b)
      else if sc_is_busy s then Inr (Some (decision s Skip TierNone Busy), b)
      else if sc_is_restore_referenced s
      then Inr (Some (decision s Skip TierNone RestoreReferenced), b)
      else if sc_cleanup_policy s = KeepForever
      then Inr (Some (decision s Keep TierNone ReasonKeepForever), b)
      else if \<not> is_auto_cleanup_enabled policy
      then Inr (Some (decision s Keep TierNone AutomaticCleanupDisabled), b)
      else
        let age = now - sc_created_at s in
        if age < 0 then Inr (Some (decision s Keep TierNone FutureTimestamp), b)
        else if age < hours (keep_all_hours policy)
        then Inr (Some (decision s Keep TierAll AllWithinRecentWindow), b)
        else if \<not> east_opt C (sc_local_offset_seconds s) then Inl InvalidLocalOffset
        else
          let t = sc_created_at s; off = sc_local_offset_seconds s in
          if age < days (keep_daily_days policy) then
            let key = (local_year C t off, local_month C t off, local_day C t off) in
            Inr (bucket_decision s Daily (key \<notin> seen_days b),
                 b\<lparr>seen_days := insert key (seen_days b)\<rparr>)
          else if age < days (keep_weekly_days policy) then
            let key = (iso_week_year C t off, iso_week_week C t off) in
            Inr (bucket_decision s Weekly (key \<notin> seen_weeks b),
                 b\<lparr>seen_weeks := insert key (seen_weeks b)\<rparr>)
          else if age < days (keep_monthly_days policy) then
            let key = (local_year C t off, local_month C t off) in
            Inr (bucket_decision s Monthly (key \<notin> seen_months b),
                 b\<lparr>seen_months := insert key (seen_months b)\<rparr>)
          else if keep_yearly policy then
            let key = local_year C t off in
            Inr (bucket_decision s Yearly (key \<notin> seen_years b),
                 b\<lparr>seen_years := insert key (seen_years b)\<rparr>)
          else Inr (Some (decision s Delete TierNone BucketAlreadyOccupied), b))"

fun evaluate_loop ::
  "chrono_lib \<Rightarrow> RetentionPolicy \<Rightarrow> timestamp \<Rightarrow> seen_buckets \<Rightarrow> SnapshotCandidate list \<Rightarrow>
   RetentionPolicyError + RetentionDecision option list" where
  "evaluate_loop C policy now b [] = Inr []"
| "evaluate_loop C policy now b (s # ss) =
     (case evaluate_one C policy now b s of
        Inl e \<Rightarrow> Inl e
      | Inr (d, b') \<Rightarrow>
          (case evaluate_loop C policy now b' ss of Inl e \<Rightarrow> Inl e | Inr ds \<Rightarrow> Inr (d # ds)))"

fun promote_first_delete :: "RetentionDecision list \<Rightarrow> RetentionDecision list" where
  "promote_first_delete [] = []"
| "promote_first_delete (d # ds) =
     (if rd_action d = Delete
      then d\<lparr>rd_action := Keep, rd_tier := TierNone, rd_reason := LastUsableSnapshot\<rparr> # ds
      else d # promote_first_delete ds)"

definition keep_last_usable :: "RetentionDecision list \<Rightarrow> RetentionDecision list" where
  "keep_last_usable ds =
     (if \<not> list_ex (\<lambda>d. rd_action d = Keep) ds then promote_first_delete ds else ds)"

definition newest_first :: "SnapshotCandidate list \<Rightarrow> SnapshotCandidate list" where
  "newest_first snapshots = sort_key (\<lambda>s. - sc_created_at s) snapshots"

definition evaluate_retention ::
  "chrono_lib \<Rightarrow> SnapshotCandidate list \<Rightarrow> RetentionPolicy \<Rightarrow> timestamp \<Rightarrow>
   RetentionPolicyError + RetentionDecision list option" where
  "evaluate_retention C snapshots policy now =
     (case RetentionPolicy_validate policy of
        Inl e \<Rightarrow> Inl e
      | Inr _ \<Rightarrow>
          (case evaluate_loop C policy now no_buckets (newest_first snapshots) of
             Inl e \<Rightarrow> Inl e
           | Inr ds \<Rightarrow>
               (if list_all (\<lambda>d. d \<noteq> None) ds
                then Inr (Some (keep_last_usable (map the ds))) else Inr None)))"

subsection \<open>The reference: one slot per snapshot, the newest competitor wins\<close>

datatype slot =
  DaySlot "int \<times> nat \<times> nat" | WeekSlot "int \<times> nat" | MonthSlot "int \<times> nat" | YearSlot int

fun slot_tier :: "slot \<Rightarrow> RetentionTier" where
  "slot_tier (DaySlot k) = Daily"
| "slot_tier (WeekSlot k) = Weekly"
| "slot_tier (MonthSlot k) = Monthly"
| "slot_tier (YearSlot k) = Yearly"

fun slot_reason :: "slot \<Rightarrow> RetentionReason" where
  "slot_reason (DaySlot k) = NewestInDay"
| "slot_reason (WeekSlot k) = NewestInWeek"
| "slot_reason (MonthSlot k) = NewestInMonth"
| "slot_reason (YearSlot k) = NewestInYear"

text \<open>A snapshot is up for a slot when no protection applies to it and it is old enough.\<close>

definition up_for_slot :: "RetentionPolicy \<Rightarrow> timestamp \<Rightarrow> SnapshotCandidate \<Rightarrow> bool" where
  "up_for_slot policy now s \<longleftrightarrow>
     sc_is_ready s \<and> \<not> sc_is_busy s \<and> \<not> sc_is_restore_referenced s
     \<and> sc_cleanup_policy s = CleanupAutomatic \<and> is_auto_cleanup_enabled policy
     \<and> 0 \<le> now - sc_created_at s \<and> hours (keep_all_hours policy) \<le> now - sc_created_at s"

definition slot_of ::
  "chrono_lib \<Rightarrow> RetentionPolicy \<Rightarrow> timestamp \<Rightarrow> SnapshotCandidate \<Rightarrow> slot option" where
  "slot_of C policy now s =
     (let t = sc_created_at s; off = sc_local_offset_seconds s; age = now - t in
      if age < days (keep_daily_days policy)
      then Some (DaySlot (local_year C t off, local_month C t off, local_day C t off))
      else if age < days (keep_weekly_days policy)
      then Some (WeekSlot (iso_week_year C t off, iso_week_week C t off))
      else if age < days (keep_monthly_days policy)
      then Some (MonthSlot (local_year C t off, local_month C t off))
      else if keep_yearly policy then Some (YearSlot (local_year C t off))
      else None)"

definition protected_decision ::
  "RetentionPolicy \<Rightarrow> timestamp \<Rightarrow> SnapshotCandidate \<Rightarrow> RetentionDecision" where
  "protected_decision policy now s =
     (if \<not> sc_is_ready s then decision s Skip TierNone NotReady
      else if sc_is_busy s then decision s Skip TierNone Busy
      else if sc_is_restore_referenced s then decision s Skip TierNone RestoreReferenced
      else if sc_cleanup_policy s = KeepForever then decision s Keep TierNone ReasonKeepForever
      else if \<not> is_auto_cleanup_enabled policy
      then decision s Keep TierNone AutomaticCleanupDisabled
      else if now - sc_created_at s < 0 then decision s Keep TierNone FutureTimestamp
      else decision s Keep TierAll AllWithinRecentWindow)"

definition slot_decision :: "slot set \<Rightarrow> slot option \<Rightarrow> SnapshotCandidate \<Rightarrow> RetentionDecision" where
  "slot_decision taken k s =
     (case k of
        Some k \<Rightarrow>
          (if k \<in> taken then decision s Delete TierNone BucketAlreadyOccupied
           else decision s Keep (slot_tier k) (slot_reason k))
      | None \<Rightarrow> decision s Delete TierNone BucketAlreadyOccupied)"

definition reference_decision ::
  "chrono_lib \<Rightarrow> RetentionPolicy \<Rightarrow> timestamp \<Rightarrow> slot set \<Rightarrow> SnapshotCandidate \<Rightarrow> RetentionDecision" where
  "reference_decision C policy now taken s =
     (if up_for_slot policy now s then slot_decision taken (slot_of C policy now s) s
      else protected_decision policy now s)"

text \<open>The slots the snapshots of a list compete for.\<close>

definition slots_used ::
  "chrono_lib \<Rightarrow> RetentionPolicy \<Rightarrow> timestamp \<Rightarrow> SnapshotCandidate list \<Rightarrow> slot set" where
  "slots_used C policy now ss =
     {k. \<exists>s \<in> set ss. up_for_slot policy now s \<and> slot_of C policy now s = Some k}"

definition slots_in :: "seen_buckets \<Rightarrow> slot set" where
  "slots_in b = DaySlot ` seen_days b \<union> WeekSlot ` seen_weeks b
     \<union> MonthSlot ` seen_months b \<union> YearSlot ` seen_years b"

lemma slots_in_no_buckets [simp]: "slots_in no_buckets = {}"
  by (simp add: slots_in_def no_buckets_def)

lemma slots_in_member [simp]:
  "DaySlot k \<in> slots_in b \<longleftrightarrow> k \<in> seen_days b"
  "WeekSlot k' \<in> slots_in b \<longleftrightarrow> k' \<in> seen_weeks b"
  "MonthSlot k' \<in> slots_in b \<longleftrightarrow> k' \<in> seen_months b"
  "YearSlot y \<in> slots_in b \<longleftrightarrow> y \<in> seen_years b"
  by (auto simp: slots_in_def)

lemma slots_used_Cons:
  "slots_used C policy now (s # ss) =
     (if up_for_slot policy now s then set_option (slot_of C policy now s) else {})
     \<union> slots_used C policy now ss"
  by (auto simp: slots_used_def)

lemma evaluate_one_protected:
  assumes "\<not> up_for_slot policy now s"
  shows "evaluate_one C policy now b s = Inr (Some (protected_decision policy now s), b)"
  using assms
  by (cases "sc_cleanup_policy s")
    (auto simp: evaluate_one_def protected_decision_def up_for_slot_def Let_def)

lemma evaluate_one_bad_offset:
  assumes "up_for_slot policy now s" and "\<not> east_opt C (sc_local_offset_seconds s)"
  shows "evaluate_one C policy now b s = Inl InvalidLocalOffset"
  using assms by (auto simp: evaluate_one_def up_for_slot_def Let_def)

lemma evaluate_one_slot:
  assumes "up_for_slot policy now s" and "east_opt C (sc_local_offset_seconds s)"
  obtains b' where "evaluate_one C policy now b s =
      Inr (Some (slot_decision (slots_in b) (slot_of C policy now s) s), b')"
    and "slots_in b' = set_option (slot_of C policy now s) \<union> slots_in b"
proof -
  have "\<exists>b'. evaluate_one C policy now b s =
      Inr (Some (slot_decision (slots_in b) (slot_of C policy now s) s), b')
    \<and> slots_in b' = set_option (slot_of C policy now s) \<union> slots_in b"
    using assms
    by (simp add: evaluate_one_def up_for_slot_def slot_decision_def slot_of_def Let_def
        bucket_decision_def)
      (auto simp: slots_in_def)
  then show ?thesis using that by blast
qed

text \<open>The loop computes the reference decision of every snapshot, or stops at a bad offset.\<close>

definition bad_offset :: "chrono_lib \<Rightarrow> RetentionPolicy \<Rightarrow> timestamp \<Rightarrow> SnapshotCandidate \<Rightarrow> bool" where
  "bad_offset C policy now s \<longleftrightarrow>
     up_for_slot policy now s \<and> \<not> east_opt C (sc_local_offset_seconds s)"

lemma evaluate_one_reference:
  assumes "\<not> bad_offset C policy now s"
  shows "\<exists>b'. evaluate_one C policy now b s =
      Inr (Some (reference_decision C policy now (slots_in b) s), b')
    \<and> slots_in b' = (if up_for_slot policy now s then set_option (slot_of C policy now s) else {})
        \<union> slots_in b"
proof (cases "up_for_slot policy now s")
  case True
  with assms have "east_opt C (sc_local_offset_seconds s)" by (simp add: bad_offset_def)
  from evaluate_one_slot [OF True this, of b] True show ?thesis
    by (metis reference_decision_def)
next
  case False
  then show ?thesis by (simp add: evaluate_one_protected reference_decision_def)
qed

lemma evaluate_loop_error:
  assumes "s \<in> set ss" and "bad_offset C policy now s"
  shows "evaluate_loop C policy now b ss = Inl InvalidLocalOffset"
  using assms
proof (induction ss arbitrary: b)
  case Nil
  then show ?case by simp
next
  case (Cons t ts)
  show ?case
  proof (cases "bad_offset C policy now t")
    case True
    then show ?thesis by (simp add: bad_offset_def evaluate_one_bad_offset)
  next
    case False
    with Cons.prems have "s \<in> set ts" by auto
    then have IH: "evaluate_loop C policy now b' ts = Inl InvalidLocalOffset" for b'
      using Cons.IH Cons.prems(2) by blast
    show ?thesis
    proof (cases "up_for_slot policy now t")
      case up: True
      with False obtain b' where "evaluate_one C policy now b t =
          Inr (Some (slot_decision (slots_in b) (slot_of C policy now t) t), b')"
        using evaluate_one_slot [of policy now t C b] by (auto simp: bad_offset_def)
      then show ?thesis by (simp add: IH)
    qed (simp add: evaluate_one_protected IH)
  qed
qed

lemma evaluate_loop_reference:
  assumes "\<forall>s \<in> set ss. \<not> bad_offset C policy now s"
  shows "evaluate_loop C policy now b ss =
    Inr (map (\<lambda>i. Some (reference_decision C policy now
                  (slots_in b \<union> slots_used C policy now (take i ss)) (ss ! i))) [0..<length ss])"
  using assms
proof (induction ss arbitrary: b)
  case Nil
  then show ?case by simp
next
  case (Cons t ts)
  obtain d b' where one: "evaluate_one C policy now b t = Inr (Some d, b')"
    and d: "d = reference_decision C policy now (slots_in b) t"
    and b': "slots_in b' = (if up_for_slot policy now t then set_option (slot_of C policy now t) else {})
      \<union> slots_in b"
    using evaluate_one_reference [of C policy now t b] Cons.prems by auto
  have "map (\<lambda>i. Some (reference_decision C policy now
          (slots_in b \<union> slots_used C policy now (take i (t # ts))) ((t # ts) ! i))) [0..<length (t # ts)]
    = Some d # map (\<lambda>i. Some (reference_decision C policy now
          (slots_in b' \<union> slots_used C policy now (take i ts)) (ts ! i))) [0..<length ts]"
    (is "?lhs = _")
  proof -
    have upt: "[0..<length (t # ts)] = 0 # map Suc [0..<length ts]"
      by (simp add: map_Suc_upt upt_conv_Cons del: upt_Suc)
    have "slots_in b \<union> slots_used C policy now (take (Suc i) (t # ts)) =
        slots_in b' \<union> slots_used C policy now (take i ts)" for i
      by (auto simp: b' slots_used_Cons)
    moreover have "slots_used C policy now [] = {}" by (simp add: slots_used_def)
    ultimately show ?thesis unfolding upt by (simp add: d del: take_Suc_Cons)
  qed
  with Cons show ?case by (simp add: one)
qed

definition reference_decisions ::
  "chrono_lib \<Rightarrow> RetentionPolicy \<Rightarrow> timestamp \<Rightarrow> SnapshotCandidate list \<Rightarrow> RetentionDecision list" where
  "reference_decisions C policy now ordered =
     map (\<lambda>i. reference_decision C policy now
            (slots_used C policy now (take i ordered)) (ordered ! i)) [0..<length ordered]"

lemma set_newest_first [simp]: "set (newest_first ss) = set ss"
  by (simp add: newest_first_def)

lemma length_newest_first [simp]: "length (newest_first ss) = length ss"
  by (simp add: newest_first_def)

lemma newest_first_sorted:
  "i \<le> j \<Longrightarrow> j < length ss \<Longrightarrow>
     sc_created_at (newest_first ss ! j) \<le> sc_created_at (newest_first ss ! i)"
proof -
  assume ij: "i \<le> j" "j < length ss"
  have "sorted (map (\<lambda>s. - sc_created_at s) (newest_first ss))"
    by (simp add: newest_first_def)
  from sorted_nth_mono [OF this ij(1)] ij show ?thesis by simp
qed

lemma evaluate_retention_ok:
  assumes "RetentionPolicy_validate policy = Inr ()"
    and "\<forall>s \<in> set ss. \<not> bad_offset C policy now s"
  shows "evaluate_retention C ss policy now =
     Inr (Some (keep_last_usable (reference_decisions C policy now (newest_first ss))))"
proof -
  from assms(2) have "\<forall>s \<in> set (newest_first ss). \<not> bad_offset C policy now s" by simp
  from evaluate_loop_reference [OF this, of no_buckets] show ?thesis
    by (simp add: evaluate_retention_def assms(1) reference_decisions_def list_all_iff o_def)
qed

lemma evaluate_retention_error_iff:
  "evaluate_retention C ss policy now = Inl e \<longleftrightarrow>
     RetentionPolicy_validate policy = Inl e
     \<or> (RetentionPolicy_validate policy = Inr () \<and> e = InvalidLocalOffset
         \<and> (\<exists>s \<in> set ss. bad_offset C policy now s))"
proof (cases "RetentionPolicy_validate policy")
  case (Inl e')
  then show ?thesis by (auto simp: evaluate_retention_def)
next
  case (Inr u)
  show ?thesis
  proof (cases "\<exists>s \<in> set ss. bad_offset C policy now s")
    case True
    then obtain s where "s \<in> set (newest_first ss)" "bad_offset C policy now s" by auto
    then have "evaluate_loop C policy now no_buckets (newest_first ss) = Inl InvalidLocalOffset"
      by (rule evaluate_loop_error)
    with Inr True show ?thesis by (auto simp: evaluate_retention_def)
  next
    case False
    with Inr show ?thesis by (simp add: evaluate_retention_ok)
  qed
qed

lemma evaluate_retention_SomeD:
  assumes "evaluate_retention C ss policy now = Inr (Some ds)"
  shows "ds = keep_last_usable (reference_decisions C policy now (newest_first ss))"
proof -
  from assms have "\<not> (\<exists>s \<in> set ss. bad_offset C policy now s)"
    and "RetentionPolicy_validate policy = Inr ()"
    using evaluate_retention_error_iff [of C ss policy now]
    by (auto simp: evaluate_retention_def split: sum.splits)
  with assms show ?thesis by (simp add: evaluate_retention_ok)
qed

subsection \<open>Deletions are always covered by a kept snapshot\<close>

lemma length_promote [simp]: "length (promote_first_delete ds) = length ds"
  by (induction ds) auto

lemma length_keep_last_usable [simp]: "length (keep_last_usable ds) = length ds"
  by (simp add: keep_last_usable_def)

lemma promote_keeps_one:
  "list_ex (\<lambda>d. rd_action d = Delete) ds \<Longrightarrow>
     list_ex (\<lambda>d. rd_action d = Keep) (promote_first_delete ds)"
  by (induction ds) auto

lemma promote_deletes_subset:
  "i < length ds \<Longrightarrow> rd_action (promote_first_delete ds ! i) = Delete \<Longrightarrow>
     promote_first_delete ds ! i = ds ! i"
  by (induction ds arbitrary: i) (auto simp: nth_Cons split: nat.splits if_splits)

lemma keep_last_usable_delete:
  assumes "i < length ds" and "rd_action (keep_last_usable ds ! i) = Delete"
  shows "keep_last_usable ds ! i = ds ! i"
  using assms promote_deletes_subset [of i ds]
  by (cases "list_ex (\<lambda>d. rd_action d = Keep) ds") (simp_all add: keep_last_usable_def)

lemma keep_last_usable_has_keep:
  assumes "list_ex (\<lambda>d. rd_action d = Delete) (keep_last_usable ds)"
  shows "list_ex (\<lambda>d. rd_action d = Keep) (keep_last_usable ds)"
proof (cases "list_ex (\<lambda>d. rd_action d = Keep) ds")
  case True
  then show ?thesis by (simp add: keep_last_usable_def)
next
  case False
  from assms obtain i where "i < length ds" "rd_action (keep_last_usable ds ! i) = Delete"
    by (auto simp: list_ex_length)
  moreover from this have "rd_action (ds ! i) = Delete"
    using keep_last_usable_delete [of i ds] by metis
  ultimately have "list_ex (\<lambda>d. rd_action d = Delete) ds" by (auto simp: list_ex_length)
  with False show ?thesis by (simp add: keep_last_usable_def promote_keeps_one)
qed

lemma length_reference_decisions [simp]:
  "length (reference_decisions C policy now ordered) = length ordered"
  by (simp add: reference_decisions_def)

lemma reference_decisions_nth:
  "i < length ordered \<Longrightarrow> reference_decisions C policy now ordered ! i =
     reference_decision C policy now (slots_used C policy now (take i ordered)) (ordered ! i)"
  by (simp add: reference_decisions_def)

lemma protected_decision_not_delete: "rd_action (protected_decision policy now s) \<noteq> Delete"
  by (simp add: protected_decision_def decision_def)

lemma reference_delete:
  assumes "rd_action (reference_decision C policy now taken s) = Delete"
  shows "up_for_slot policy now s"
    and "slot_of C policy now s = Some k \<Longrightarrow> k \<in> taken"
  using assms protected_decision_not_delete [of policy now s]
  by (auto simp: reference_decision_def slot_decision_def decision_def split: if_splits option.splits)

lemma reference_keep_iff:
  assumes "up_for_slot policy now s" and "slot_of C policy now s = Some k"
  shows "rd_action (reference_decision C policy now taken s) = Keep \<longleftrightarrow> k \<notin> taken"
  using assms by (simp add: reference_decision_def slot_decision_def decision_def)

lemma slots_used_take:
  "k \<in> slots_used C policy now (take i ordered) \<longleftrightarrow>
     (\<exists>j < min i (length ordered).
        up_for_slot policy now (ordered ! j) \<and> slot_of C policy now (ordered ! j) = Some k)"
proof -
  have "set (take i ordered) = (\<lambda>j. ordered ! j) ` {..<min i (length ordered)}"
    using nth_image [of "min i (length ordered)" ordered] by (simp add: lessThan_atLeast0 min_def)
  then show ?thesis by (auto simp: slots_used_def)
qed

text \<open>The first competitor of a slot in the order is kept, and it is the only one.\<close>

definition competes_for ::
  "chrono_lib \<Rightarrow> RetentionPolicy \<Rightarrow> timestamp \<Rightarrow> SnapshotCandidate \<Rightarrow> slot \<Rightarrow> bool" where
  "competes_for C policy now s k \<longleftrightarrow> up_for_slot policy now s \<and> slot_of C policy now s = Some k"

lemma first_competitor_kept:
  assumes "i < length ordered" and "competes_for C policy now (ordered ! i) k"
  obtains j where "j \<le> i" and "competes_for C policy now (ordered ! j) k"
    and "rd_action (reference_decisions C policy now ordered ! j) = Keep"
    and "\<forall>m < j. \<not> competes_for C policy now (ordered ! m) k"
proof -
  define j where "j = (LEAST m. competes_for C policy now (ordered ! m) k)"
  have j: "competes_for C policy now (ordered ! j) k"
    unfolding j_def using assms(2) by (rule LeastI)
  have le: "j \<le> i" unfolding j_def using assms(2) by (rule Least_le)
  have first: "\<forall>m < j. \<not> competes_for C policy now (ordered ! m) k"
    unfolding j_def by (auto dest: not_less_Least)
  have "k \<notin> slots_used C policy now (take j ordered)"
    using first by (auto simp: slots_used_take competes_for_def)
  with j le assms(1) have "rd_action (reference_decisions C policy now ordered ! j) = Keep"
    by (simp add: reference_decisions_nth reference_keep_iff competes_for_def)
  with j le first that show thesis by blast
qed

lemma keep_last_usable_id:
  "i < length ds \<Longrightarrow> rd_action (ds ! i) = Keep \<Longrightarrow> keep_last_usable ds = ds"
  by (auto simp: keep_last_usable_def list_ex_length)

subsection \<open>Properties\<close>

text \<open>
  \<open>evaluate_retention\<close> reports exactly two kinds of error: what policy
  validation reports, and \<open>InvalidLocalOffset\<close> when some snapshot that reaches the
  bucket stage has an offset \<open>chrono\<close> rejects; otherwise it returns one decision per
  snapshot, and the \<open>unreachable!\<close> of \<open>bucket_decision\<close> is never reached.
\<close>

theorem retention_total:
  "evaluate_retention C ss policy now \<noteq> Inr None
   \<and> (evaluate_retention C ss policy now = Inl e \<longleftrightarrow>
        RetentionPolicy_validate policy = Inl e
        \<or> (RetentionPolicy_validate policy = Inr () \<and> e = InvalidLocalOffset
            \<and> (\<exists>s \<in> set ss. bad_offset C policy now s)))"
proof -
  have "evaluate_retention C ss policy now \<noteq> Inr None"
    using evaluate_retention_ok [of policy ss C now] evaluate_retention_error_iff [of C ss policy now]
    by (cases "RetentionPolicy_validate policy") force+
  with evaluate_retention_error_iff show ?thesis by blast
qed

text \<open>
  C29. Whenever the evaluation decides to delete a snapshot, that snapshot is ready,
  not busy, not referenced by a restore, not kept forever and past the keep-all
  window, and the same result keeps some snapshot; if it competed for a calendar
  slot, a snapshot at least as new that competed for the same slot is kept.
\<close>

theorem retention_delete_is_covered:
  assumes "evaluate_retention C ss policy now = Inr (Some ds)"
    and "i < length ds" and "rd_action (ds ! i) = Delete"
  shows "up_for_slot policy now (newest_first ss ! i)
    \<and> (\<exists>j < length ds. rd_action (ds ! j) = Keep)
    \<and> (\<forall>k. slot_of C policy now (newest_first ss ! i) = Some k \<longrightarrow>
      (\<exists>j < i. rd_action (ds ! j) = Keep \<and> competes_for C policy now (newest_first ss ! j) k
        \<and> sc_created_at (newest_first ss ! i) \<le> sc_created_at (newest_first ss ! j)))"
proof (intro conjI allI impI)
  let ?o = "newest_first ss"
  let ?r = "reference_decisions C policy now ?o"
  have ds: "ds = keep_last_usable ?r" using assms(1) by (rule evaluate_retention_SomeD)
  with assms(2) have i: "i < length ?o" by simp
  from ds i assms(3) have ri: "rd_action (?r ! i) = Delete"
    using keep_last_usable_delete [of i ?r] by simp
  with i show up: "up_for_slot policy now (?o ! i)"
    by (auto simp: reference_decisions_nth intro: reference_delete)
  from assms(2,3) have "list_ex (\<lambda>d. rd_action d = Delete) ds" by (auto simp: list_ex_length)
  then show "\<exists>j < length ds. rd_action (ds ! j) = Keep"
    using keep_last_usable_has_keep [of ?r] by (simp add: ds list_ex_length)
  fix k
  assume k: "slot_of C policy now (?o ! i) = Some k"
  with up have "competes_for C policy now (?o ! i) k" by (simp add: competes_for_def)
  with i obtain j where j: "j \<le> i" "competes_for C policy now (?o ! j) k"
    "rd_action (?r ! j) = Keep" by (rule first_competitor_kept)
  then have "j \<noteq> i" using ri by auto
  with j(1) have "j < i" by simp
  with i j newest_first_sorted [of j i ss] show "\<exists>j < i. rd_action (ds ! j) = Keep
      \<and> competes_for C policy now (?o ! j) k \<and> sc_created_at (?o ! i) \<le> sc_created_at (?o ! j)"
    by (auto simp: ds keep_last_usable_id [of j])
qed

definition example_chrono :: chrono_lib where
  "example_chrono =
     \<lparr>east_opt = (\<lambda>z. -86400 < z \<and> z < 86400),
      local_year = (\<lambda>t z. (t + z * 1000000000) div (365 * 86400000000000)),
      local_month = (\<lambda>t z. 1), local_day = (\<lambda>t z. nat ((t + z * 1000000000) div 86400000000000)),
      iso_week_year = (\<lambda>t z. 0),
      iso_week_week = (\<lambda>t z. nat ((t + z * 1000000000) div (7 * 86400000000000)))\<rparr>"

definition example_candidate :: "string \<Rightarrow> int \<Rightarrow> SnapshotCandidate" where
  "example_candidate i hour =
     \<lparr>sc_id = i, sc_created_at = hour * 3600000000000, sc_local_offset_seconds = 28800,
      sc_cleanup_policy = CleanupAutomatic, sc_is_ready = True, sc_is_busy = False,
      sc_is_restore_referenced = False\<rparr>"

definition example_candidates :: "SnapshotCandidate list" where
  "example_candidates =
     [example_candidate ''daily-old'' 941, example_candidate ''recent'' 990,
      example_candidate ''daily-new'' 942]"

lemma example_retention:
  "evaluate_retention example_chrono example_candidates RetentionPolicy_default (1000 * 3600000000000) =
   Inr (Some
     [\<lparr>rd_snapshot_id = ''recent'', rd_tier = TierAll, rd_action = Keep,
       rd_reason = AllWithinRecentWindow\<rparr>,
      \<lparr>rd_snapshot_id = ''daily-new'', rd_tier = Daily, rd_action = Keep, rd_reason = NewestInDay\<rparr>,
      \<lparr>rd_snapshot_id = ''daily-old'', rd_tier = TierNone, rd_action = Delete,
       rd_reason = BucketAlreadyOccupied\<rparr>])"
  by code_simp

theorem retention_delete_is_covered_witness:
  "\<exists>ds. evaluate_retention example_chrono example_candidates RetentionPolicy_default
        (1000 * 3600000000000) = Inr (Some ds)
     \<and> rd_action (ds ! 2) = Delete
     \<and> up_for_slot RetentionPolicy_default (1000 * 3600000000000) (newest_first example_candidates ! 2)"
  using retention_delete_is_covered [OF example_retention, of 2] example_retention by simp

text \<open>
  C28. Every calendar slot some snapshot competes for keeps exactly one competitor,
  and it is the newest one: all other competitors are at most as new.
\<close>

theorem retention_newest_per_slot:
  assumes "evaluate_retention C ss policy now = Inr (Some ds)"
    and "s \<in> set ss" and "competes_for C policy now s k"
  shows "\<exists>i < length ds.
    rd_action (ds ! i) = Keep \<and> rd_tier (ds ! i) = slot_tier k
    \<and> competes_for C policy now (newest_first ss ! i) k
    \<and> (\<forall>j < length ds. competes_for C policy now (newest_first ss ! j) k \<longrightarrow>
          sc_created_at (newest_first ss ! j) \<le> sc_created_at (newest_first ss ! i)
          \<and> (j \<noteq> i \<longrightarrow> rd_action (ds ! j) = Delete))"
proof -
  let ?o = "newest_first ss"
  let ?r = "reference_decisions C policy now ?o"
  have ds: "ds = keep_last_usable ?r" using assms(1) by (rule evaluate_retention_SomeD)
  from assms(2) obtain m where m: "m < length ?o" "?o ! m = s"
    by (metis in_set_conv_nth set_newest_first)
  from m assms(3) obtain i where i: "i \<le> m" "competes_for C policy now (?o ! i) k"
    "rd_action (?r ! i) = Keep" "\<forall>n < i. \<not> competes_for C policy now (?o ! n) k"
    using first_competitor_kept [of m ?o C policy now k] by auto
  with m have il: "i < length ?o" by simp
  then have dsr: "ds = ?r" using ds i(3) keep_last_usable_id [of i ?r] by simp
  have "rd_action (?r ! j) = Delete \<and> i < j"
    if "j < length ?o" "competes_for C policy now (?o ! j) k" "j \<noteq> i" for j
  proof -
    from that i(4) have "i < j" by (meson linorder_neqE_nat)
    then have "k \<in> slots_used C policy now (take j ?o)"
      using i(2) il by (auto simp: slots_used_take competes_for_def)
    with that show ?thesis
      by (simp add: reference_decisions_nth reference_decision_def slot_decision_def decision_def
          competes_for_def \<open>i < j\<close>)
  qed
  moreover have "rd_tier (?r ! i) = slot_tier k"
    using i il by (simp add: reference_decisions_nth reference_decision_def slot_decision_def
        decision_def competes_for_def split: if_splits)
  ultimately show ?thesis
    using i il newest_first_sorted [of i _ ss] by (intro exI [of _ i]) (force simp: dsr)
qed

theorem retention_newest_per_slot_witness:
  "\<exists>ds i. evaluate_retention example_chrono example_candidates RetentionPolicy_default
        (1000 * 3600000000000) = Inr (Some ds)
     \<and> i < length ds \<and> rd_action (ds ! i) = Keep \<and> rd_tier (ds ! i) = Daily"
proof -
  let ?now = "1000 * 3600000000000" and ?s = "example_candidate ''daily-old'' 941"
  have "competes_for example_chrono RetentionPolicy_default ?now ?s (DaySlot (0, 1, 39))"
    by code_simp
  moreover have "?s \<in> set example_candidates" by (simp add: example_candidates_def)
  ultimately show ?thesis
    using retention_newest_per_slot [OF example_retention, of ?s "DaySlot (0, 1, 39)"]
      example_retention by fastforce
qed

end
