(* ===== verification/World.thy ===== *)
theory World
  imports Prelude "HOL-Library.Sublist"
begin

text \<open>
  The part of \<open>std::fs\<close>, \<open>chrono::Utc::now\<close> and \<open>Uuid::new_v4\<close> that the
  recovery engine uses, as operations on an explicit world. A world holds the file
  tree as an association list from paths to inodes, a counter of system calls, and
  the outcomes the environment chooses: which call fails (and how many bytes a
  failing write has transferred), what the clock shows and which random identifiers
  are drawn. Theorems quantify over all worlds, hence over all fault schedules; a
  power loss before call \<open>n\<close> is the schedule in which every call from \<open>n\<close> on
  fails. What a failed \<open>fsync\<close> loses of earlier writes is not modelled.

  An I/O program is a state transformer with an error result; \<open>io_bind\<close> is the
  question mark operator. Hoare triples (\<open>io_triple\<close>) and frames (\<open>touches\<close>)
  carry the proofs about such programs.
\<close>

subsection \<open>Files\<close>

datatype io_kind = NotFound | AlreadyExists | WouldBlock | OtherKind

datatype io_error = IoError (err_kind: io_kind) (err_text: string)

datatype file_type = Regular bytes | Directory | Special

record inode =
  ftype :: file_type
  mode :: u32
  uid :: u32
  gid :: u32

type_synonym tree = "(path \<times> inode) list"

definition fs_is_dir :: "tree \<Rightarrow> path \<Rightarrow> bool" where
  "fs_is_dir ns p \<longleftrightarrow>
     p = [] \<or> (case map_of ns p of None \<Rightarrow> False | Some i \<Rightarrow> ftype i = Directory)"

definition fs_remove :: "path \<Rightarrow> tree \<Rightarrow> tree" where
  "fs_remove p ns = filter (\<lambda>(k, v). k \<noteq> p) ns"

definition fs_set :: "path \<Rightarrow> inode \<Rightarrow> tree \<Rightarrow> tree" where
  "fs_set p i ns = (p, i) # fs_remove p ns"

definition fs_remove_tree :: "path \<Rightarrow> tree \<Rightarrow> tree" where
  "fs_remove_tree p ns = filter (\<lambda>(k, v). \<not> prefix p k) ns"

definition fs_children :: "tree \<Rightarrow> path \<Rightarrow> string list" where
  "fs_children ns p = remdups (map (\<lambda>(k, v). last k) (filter (\<lambda>(k, v). k \<noteq> [] \<and> butlast k = p) ns))"

definition rebase :: "path \<Rightarrow> path \<Rightarrow> path \<Rightarrow> path" where
  "rebase p q k = (if prefix p k then q @ drop (length p) k else k)"

definition fs_move :: "path \<Rightarrow> path \<Rightarrow> tree \<Rightarrow> tree" where
  "fs_move p q ns = map (\<lambda>(k, v). (rebase p q k, v)) (fs_remove_tree q ns)"

definition fs_copy_tree :: "path \<Rightarrow> path \<Rightarrow> tree \<Rightarrow> tree" where
  "fs_copy_tree p q ns =
     map (\<lambda>(k, v). (rebase p q k, v)) (filter (\<lambda>(k, v). prefix p k) ns) @ ns"

definition fs_subtree :: "tree \<Rightarrow> path \<Rightarrow> path \<Rightarrow> inode option" where
  "fs_subtree ns p r = map_of ns (p @ r)"

text \<open>Two paths are apart when neither contains the other.\<close>

definition apart :: "path \<Rightarrow> path \<Rightarrow> bool" where
  "apart p q \<longleftrightarrow> \<not> prefix p q \<and> \<not> prefix q p"

lemma apart_sym: "apart p q \<Longrightarrow> apart q p"
  by (simp add: apart_def)

lemma apart_append: "apart p q \<Longrightarrow> \<not> prefix q (p @ r)"
  by (auto simp: apart_def prefix_append)

lemma apart_siblings [simp]: "apart (d @ [a]) (d @ [b]) \<longleftrightarrow> a \<noteq> b"
  by (auto simp: apart_def)

lemma apart_extend: "apart p q \<Longrightarrow> apart p (q @ r)"
  by (auto simp: apart_def prefix_append) (metis prefix_def prefix_order.trans prefix_same_cases)

lemma map_of_fs_remove [simp]:
  "map_of (fs_remove p ns) k = (if k = p then None else map_of ns k)"
  by (simp add: fs_remove_def map_of_filter_key)

lemma map_of_fs_set [simp]:
  "map_of (fs_set p i ns) k = (if k = p then Some i else map_of ns k)"
  by (simp add: fs_set_def)

lemma map_of_fs_remove_tree [simp]:
  "map_of (fs_remove_tree p ns) k = (if prefix p k then None else map_of ns k)"
  by (simp add: fs_remove_tree_def map_of_filter_key)

lemma rebase_self [simp]: "rebase p q (p @ r) = q @ r"
  by (simp add: rebase_def)

lemma map_of_fs_move_target:
  assumes "apart p q"
  shows "map_of (fs_move p q ns) (q @ r) = map_of ns (p @ r)"
proof -
  let ?ns = "fs_remove_tree q ns"
  have "inj_on (rebase p q) (insert (p @ r) (fst ` set ?ns))"
    by (auto simp: inj_on_def rebase_def fs_remove_tree_def prefix_def)
  from map_of_map_inj [OF this] have "map_of (fs_move p q ns) (q @ r) = map_of ?ns (p @ r)"
    by (simp add: fs_move_def)
  with assms show ?thesis by (simp add: apart_append)
qed

lemma map_of_fs_move_source:
  assumes "apart p q"
  shows "map_of (fs_move p q ns) (p @ r) = None"
  unfolding fs_move_def
proof (rule map_of_map_outside)
  have "\<not> prefix q (p @ r)" using assms by (rule apart_append)
  then show "p @ r \<notin> rebase p q ` fst ` set (fs_remove_tree q ns)"
    by (auto simp: rebase_def prefix_def)
qed

lemma map_of_fs_move_other:
  assumes "\<not> prefix p k" and "\<not> prefix q k"
  shows "map_of (fs_move p q ns) k = map_of ns k"
proof -
  let ?ns = "fs_remove_tree q ns"
  have "rebase p q k = k" using assms by (simp add: rebase_def)
  moreover have "inj_on (rebase p q) (insert k (fst ` set ?ns))"
    using assms by (auto simp: inj_on_def rebase_def fs_remove_tree_def prefix_def)
  ultimately have "map_of (fs_move p q ns) k = map_of ?ns k"
    using map_of_map_inj [of "rebase p q" k ?ns] by (simp add: fs_move_def)
  with assms show ?thesis by simp
qed

lemma fs_children_in: "map_of ns (d @ [n]) \<noteq> None \<Longrightarrow> n \<in> set (fs_children ns d)"
  by (force simp: fs_children_def dest: map_of_SomeD)

subsection \<open>Worlds and programs\<close>

record world =
  nodes :: tree
  ticks :: nat
  fault :: "nat \<Rightarrow> (string \<times> nat) option"
  clock :: "nat \<Rightarrow> timestamp"
  entropy :: "nat \<Rightarrow> uuid"

type_synonym ('e, 'a) io = "world \<Rightarrow> ('e + 'a) \<times> world"

definition io_return :: "'a \<Rightarrow> ('e, 'a) io" where
  "io_return x w = (Inr x, w)"

definition io_throw :: "'e \<Rightarrow> ('e, 'a) io" where
  "io_throw e w = (Inl e, w)"

definition io_bind :: "('e, 'a) io \<Rightarrow> ('a \<Rightarrow> ('e, 'b) io) \<Rightarrow> ('e, 'b) io" where
  "io_bind m f w = (case m w of (Inl e, w') \<Rightarrow> (Inl e, w') | (Inr x, w') \<Rightarrow> f x w')"

text \<open>Matching on a \<open>Result\<close>: the continuation sees the error as a value.\<close>

definition io_match :: "('e, 'a) io \<Rightarrow> ('e + 'a \<Rightarrow> ('f, 'b) io) \<Rightarrow> ('f, 'b) io" where
  "io_match m f w = (case m w of (r, w') \<Rightarrow> f r w')"

definition io_lift :: "'e + 'a \<Rightarrow> ('e, 'a) io" where
  "io_lift r w = (r, w)"

definition io_map_err :: "('e \<Rightarrow> 'f) \<Rightarrow> ('e, 'a) io \<Rightarrow> ('f, 'a) io" where
  "io_map_err h m = io_match m (\<lambda>r. case r of Inl e \<Rightarrow> io_throw (h e) | Inr x \<Rightarrow> io_return x)"

definition tick :: "world \<Rightarrow> world" where
  "tick w = w\<lparr>ticks := Suc (ticks w)\<rparr>"

text \<open>
  One system call on the tree: the environment may refuse it, otherwise it behaves
  as \<open>f\<close> says; a refused call changes nothing.
\<close>

definition syscall :: "(tree \<Rightarrow> (io_error + 'a) \<times> tree) \<Rightarrow> (io_error, 'a) io" where
  "syscall f w =
     (case fault w (ticks w) of
        Some (msg, n) \<Rightarrow> (Inl (IoError OtherKind msg), tick w)
      | None \<Rightarrow> (case f (nodes w) of (r, ns) \<Rightarrow> (r, tick (w\<lparr>nodes := ns\<rparr>))))"

definition enoent :: io_error where
  "enoent = IoError NotFound ''No such file or directory (os error 2)''"

definition eexist :: io_error where
  "eexist = IoError AlreadyExists ''File exists (os error 17)''"

definition symlink_metadata :: "path \<Rightarrow> (io_error, inode) io" where
  "symlink_metadata p = syscall (\<lambda>ns.
     (case map_of ns p of None \<Rightarrow> Inl enoent | Some i \<Rightarrow> Inr i, ns))"

text \<open>\<open>OpenOptions::read(true)\<close> with \<open>O_NOFOLLOW\<close>.\<close>

definition open_read :: "path \<Rightarrow> (io_error, unit) io" where
  "open_read p = syscall (\<lambda>ns.
     (case map_of ns p of
        None \<Rightarrow> Inl enoent
      | Some i \<Rightarrow>
          (if ftype i = Special
           then Inl (IoError OtherKind ''Too many levels of symbolic links (os error 40)'')
           else Inr ()), ns))"

definition read_to_end :: "path \<Rightarrow> nat \<Rightarrow> (io_error, bytes) io" where
  "read_to_end p limit = syscall (\<lambda>ns.
     (case map_of ns p of
        None \<Rightarrow> Inl enoent
      | Some i \<Rightarrow>
          (case ftype i of
             Regular b \<Rightarrow> Inr (take limit b)
           | _ \<Rightarrow> Inl (IoError OtherKind ''Is a directory (os error 21)'')), ns))"

text \<open>\<open>create_new(true)\<close>: the file must not exist; the process runs as root.\<close>

definition create_new :: "path \<Rightarrow> u32 \<Rightarrow> (io_error, unit) io" where
  "create_new p m = syscall (\<lambda>ns.
     (if map_of ns p \<noteq> None then (Inl eexist, ns)
      else if p = [] \<or> \<not> fs_is_dir ns (butlast p) then (Inl enoent, ns)
      else (Inr (), fs_set p \<lparr>ftype = Regular [], mode = m, uid = 0, gid = 0\<rparr> ns)))"

text \<open>\<open>create(true)\<close> without truncation, for lock files.\<close>

definition open_create :: "path \<Rightarrow> u32 \<Rightarrow> (io_error, unit) io" where
  "open_create p m = syscall (\<lambda>ns.
     (case map_of ns p of
        Some i \<Rightarrow>
          (case ftype i of
             Regular b \<Rightarrow> (Inr (), ns)
           | Directory \<Rightarrow> (Inl (IoError OtherKind ''Is a directory (os error 21)''), ns)
           | Special \<Rightarrow>
               (Inl (IoError OtherKind ''Too many levels of symbolic links (os error 40)''), ns))
      | None \<Rightarrow>
          (if p = [] \<or> \<not> fs_is_dir ns (butlast p) then (Inl enoent, ns)
           else (Inr (), fs_set p \<lparr>ftype = Regular [], mode = m, uid = 0, gid = 0\<rparr> ns))))"

definition fs_append :: "path \<Rightarrow> bytes \<Rightarrow> tree \<Rightarrow> tree" where
  "fs_append p b ns =
     (case map_of ns p of
        Some i \<Rightarrow>
          (case ftype i of Regular c \<Rightarrow> fs_set p (i\<lparr>ftype := Regular (c @ b)\<rparr>) ns | _ \<Rightarrow> ns)
      | None \<Rightarrow> ns)"

text \<open>A failing write has transferred some prefix of its bytes.\<close>

definition write_all :: "path \<Rightarrow> bytes \<Rightarrow> (io_error, unit) io" where
  "write_all p b w =
     (case fault w (ticks w) of
        Some (msg, n) \<Rightarrow>
          (Inl (IoError OtherKind msg), tick (w\<lparr>nodes := fs_append p (take n b) (nodes w)\<rparr>))
      | None \<Rightarrow> (Inr (), tick (w\<lparr>nodes := fs_append p b (nodes w)\<rparr>)))"

definition sync_all :: "path \<Rightarrow> (io_error, unit) io" where
  "sync_all p = syscall (\<lambda>ns. (Inr (), ns))"

definition flock_exclusive :: "path \<Rightarrow> (io_error, unit) io" where
  "flock_exclusive p = syscall (\<lambda>ns. (Inr (), ns))"

text \<open>\<open>LOCK_EX | LOCK_NB\<close>: a refusal is a lock held elsewhere or another error, as the environment says.\<close>

definition flock_nonblocking :: "path \<Rightarrow> (io_error, unit) io" where
  "flock_nonblocking p w =
     (case fault w (ticks w) of
        Some (msg, n) \<Rightarrow> (Inl (IoError (if n = 0 then WouldBlock else OtherKind) msg), tick w)
      | None \<Rightarrow> (Inr (), tick w))"

definition fs_rename :: "path \<Rightarrow> path \<Rightarrow> (io_error, unit) io" where
  "fs_rename p q = syscall (\<lambda>ns.
     (case map_of ns p of
        None \<Rightarrow> (Inl enoent, ns)
      | Some i \<Rightarrow>
          (if q = [] \<or> \<not> fs_is_dir ns (butlast q) then (Inl enoent, ns)
           else if p = q then (Inr (), ns)
           else if prefix p q then (Inl (IoError OtherKind ''Invalid argument (os error 22)''), ns)
           else
             (case map_of ns q of
                None \<Rightarrow> (Inr (), fs_move p q ns)
              | Some j \<Rightarrow>
                  (if ftype i = Directory \<and> ftype j \<noteq> Directory
                   then (Inl (IoError OtherKind ''Not a directory (os error 20)''), ns)
                   else if ftype i \<noteq> Directory \<and> ftype j = Directory
                   then (Inl (IoError OtherKind ''Is a directory (os error 21)''), ns)
                   else if ftype i = Directory \<and> fs_children ns q \<noteq> []
                   then (Inl (IoError OtherKind ''Directory not empty (os error 39)''), ns)
                   else (Inr (), fs_move p q ns))))))"

definition hard_link :: "path \<Rightarrow> path \<Rightarrow> (io_error, unit) io" where
  "hard_link p q = syscall (\<lambda>ns.
     (case map_of ns p of
        None \<Rightarrow> (Inl enoent, ns)
      | Some i \<Rightarrow>
          (if map_of ns q \<noteq> None then (Inl eexist, ns)
           else if q = [] \<or> \<not> fs_is_dir ns (butlast q) then (Inl enoent, ns)
           else if ftype i = Directory
           then (Inl (IoError OtherKind ''Operation not permitted (os error 1)''), ns)
           else (Inr (), fs_set q i ns))))"

definition remove_file :: "path \<Rightarrow> (io_error, unit) io" where
  "remove_file p = syscall (\<lambda>ns.
     (case map_of ns p of
        None \<Rightarrow> (Inl enoent, ns)
      | Some i \<Rightarrow>
          (if ftype i = Directory
           then (Inl (IoError OtherKind ''Is a directory (os error 21)''), ns)
           else (Inr (), fs_remove p ns))))"

definition create_dir :: "path \<Rightarrow> u32 \<Rightarrow> (io_error, unit) io" where
  "create_dir p m = syscall (\<lambda>ns.
     (if map_of ns p \<noteq> None then (Inl eexist, ns)
      else if p = [] \<or> \<not> fs_is_dir ns (butlast p) then (Inl enoent, ns)
      else (Inr (), fs_set p \<lparr>ftype = Directory, mode = m, uid = 0, gid = 0\<rparr> ns)))"

definition set_permissions :: "path \<Rightarrow> u32 \<Rightarrow> (io_error, unit) io" where
  "set_permissions p m = syscall (\<lambda>ns.
     (case map_of ns p of
        None \<Rightarrow> (Inl enoent, ns)
      | Some i \<Rightarrow> (Inr (), fs_set p (i\<lparr>mode := m\<rparr>) ns)))"

definition read_dir :: "path \<Rightarrow> (io_error, string list) io" where
  "read_dir p = syscall (\<lambda>ns.
     (if map_of ns p = None \<and> p \<noteq> [] then Inl enoent
      else if \<not> fs_is_dir ns p then Inl (IoError OtherKind ''Not a directory (os error 20)'')
      else Inr (fs_children ns p), ns))"

text \<open>Advancing a \<open>ReadDir\<close> iterator by one entry, which may fail.\<close>

definition next_entry :: "string \<Rightarrow> (io_error, string) io" where
  "next_entry n = syscall (\<lambda>ns. (Inr n, ns))"

definition utc_now :: "('e, timestamp) io" where
  "utc_now w = (Inr (clock w (ticks w)), tick w)"

definition new_v4 :: "('e, uuid) io" where
  "new_v4 w = (Inr (entropy w (ticks w)), tick w)"

text \<open>Opening a directory with \<open>O_DIRECTORY\<close> and syncing it.\<close>

definition open_dir :: "path \<Rightarrow> (io_error, unit) io" where
  "open_dir p = syscall (\<lambda>ns.
     (if map_of ns p = None \<and> p \<noteq> [] then Inl enoent
      else if \<not> fs_is_dir ns p then Inl (IoError OtherKind ''Not a directory (os error 20)'')
      else Inr (), ns))"

definition path_exists :: "path \<Rightarrow> ('e, bool) io" where
  "path_exists p w = (Inr (fault w (ticks w) = None \<and> map_of (nodes w) p \<noteq> None), tick w)"

subsection \<open>Frames\<close>

text \<open>\<open>touches S m\<close>: whatever the environment does, \<open>m\<close> changes the tree at paths of \<open>S\<close> only.\<close>

definition touches :: "path set \<Rightarrow> ('e, 'a) io \<Rightarrow> bool" where
  "touches S m \<longleftrightarrow>
     (\<forall>w k. k \<notin> S \<longrightarrow> map_of (nodes (snd (m w))) k = map_of (nodes w) k)"

definition under :: "path \<Rightarrow> path set" where
  "under p = {k. prefix p k}"

lemma under_mono: "prefix p q \<Longrightarrow> under q \<subseteq> under p"
  by (auto simp: under_def)

lemma touchesD:
  "touches S m \<Longrightarrow> m w = (r, w') \<Longrightarrow> k \<notin> S \<Longrightarrow> map_of (nodes w') k = map_of (nodes w) k"
  by (metis snd_conv touches_def)

lemma touches_mono: "touches S m \<Longrightarrow> S \<subseteq> T \<Longrightarrow> touches T m"
  by (auto simp: touches_def)

lemma touches_return [io_rules]: "touches S (io_return x)"
  by (simp add: touches_def io_return_def)

lemma touches_throw [io_rules]: "touches S (io_throw e)"
  by (simp add: touches_def io_throw_def)

lemma touches_lift [io_rules]: "touches S (io_lift r)"
  by (simp add: touches_def io_lift_def)

lemma touches_bind [io_rules]:
  assumes "touches S m" and "\<And>x. touches S (f x)"
  shows "touches S (io_bind m f)"
  unfolding touches_def
proof (intro allI impI)
  fix w k
  assume k: "k \<notin> S"
  obtain r w' where m: "m w = (r, w')" by fastforce
  with assms(1) k have "map_of (nodes w') k = map_of (nodes w) k" by (auto dest: touchesD)
  moreover from assms(2) k have "map_of (nodes (snd (f x w'))) k = map_of (nodes w') k" for x
    by (simp add: touches_def)
  ultimately show "map_of (nodes (snd (io_bind m f w))) k = map_of (nodes w) k"
    by (simp add: io_bind_def m split: sum.splits)
qed

lemma touches_match [io_rules]:
  assumes "touches S m" and "\<And>r. touches S (f r)"
  shows "touches S (io_match m f)"
  unfolding touches_def
proof (intro allI impI)
  fix w k
  assume k: "k \<notin> S"
  obtain r w' where m: "m w = (r, w')" by fastforce
  with assms(1) k have "map_of (nodes w') k = map_of (nodes w) k" by (auto dest: touchesD)
  moreover from assms(2) k have "map_of (nodes (snd (f r w'))) k = map_of (nodes w') k"
    by (simp add: touches_def)
  ultimately show "map_of (nodes (snd (io_match m f w))) k = map_of (nodes w) k"
    by (simp add: io_match_def m)
qed

lemma touches_map_err [io_rules]: "touches S m \<Longrightarrow> touches S (io_map_err h m)"
  unfolding io_map_err_def by (intro io_rules) (auto split: sum.splits intro: io_rules)

lemma touches_if [io_rules]:
  "(c \<Longrightarrow> touches S m) \<Longrightarrow> (\<not> c \<Longrightarrow> touches S m') \<Longrightarrow> touches S (if c then m else m')"
  by simp

lemma touches_case_sum [io_rules]:
  "(\<And>e. touches S (f e)) \<Longrightarrow> (\<And>x. touches S (g x)) \<Longrightarrow> touches S (case r of Inl e \<Rightarrow> f e | Inr x \<Rightarrow> g x)"
  by (simp split: sum.splits)

lemma touches_case_option [io_rules]:
  "touches S f \<Longrightarrow> (\<And>x. touches S (g x)) \<Longrightarrow> touches S (case r of None \<Rightarrow> f | Some x \<Rightarrow> g x)"
  by (simp split: option.splits)

lemma touches_case_file_type [io_rules]:
  "(\<And>b. touches S (f b)) \<Longrightarrow> touches S g \<Longrightarrow> touches S h \<Longrightarrow>
     touches S (case t of Regular b \<Rightarrow> f b | Directory \<Rightarrow> g | Special \<Rightarrow> h)"
  by (simp split: file_type.splits)

lemma touches_case_prod [io_rules]:
  "(\<And>a b. touches S (f a b)) \<Longrightarrow> touches S (case r of (a, b) \<Rightarrow> f a b)"
  by (simp split: prod.splits)

lemma touches_syscall:
  assumes "\<And>ns k. k \<notin> S \<Longrightarrow> map_of (snd (f ns)) k = map_of ns k"
  shows "touches S (syscall f)"
  using assms
  by (auto simp: touches_def syscall_def tick_def split: option.splits prod.splits) (metis snd_conv)

lemmas query_defs = symlink_metadata_def open_read_def read_to_end_def sync_all_def
  flock_exclusive_def read_dir_def next_entry_def open_dir_def

lemma touches_queries [io_rules]:
  "touches S (symlink_metadata p)" "touches S (open_read p)" "touches S (read_to_end p n)"
  "touches S (sync_all p)" "touches S (flock_exclusive p)" "touches S (read_dir p)"
  "touches S (next_entry s)" "touches S (open_dir p)"
  unfolding query_defs by (rule touches_syscall; simp)+

lemma touches_sources [io_rules]:
  "touches S utc_now" "touches S new_v4" "touches S (path_exists p)" "touches S (flock_nonblocking p)"
  by (simp_all add: touches_def utc_now_def new_v4_def path_exists_def flock_nonblocking_def tick_def split: option.splits)

lemma touches_create [io_rules]:
  "p \<in> S \<Longrightarrow> touches S (create_new p m)" "p \<in> S \<Longrightarrow> touches S (open_create p m)"
  "p \<in> S \<Longrightarrow> touches S (create_dir p m)"
  unfolding create_new_def open_create_def create_dir_def
  by (rule touches_syscall; auto split: option.splits file_type.splits)+

lemma touches_update [io_rules]:
  "p \<in> S \<Longrightarrow> touches S (remove_file p)" "p \<in> S \<Longrightarrow> touches S (set_permissions p m)"
  "q \<in> S \<Longrightarrow> touches S (hard_link p q)"
  unfolding remove_file_def set_permissions_def hard_link_def
  by (rule touches_syscall; auto split: option.splits)+

lemma map_of_fs_append_other: "k \<noteq> p \<Longrightarrow> map_of (fs_append p b ns) k = map_of ns k"
  by (auto simp: fs_append_def split: option.splits file_type.splits)

lemma touches_write_all [io_rules]:
  assumes "p \<in> S"
  shows "touches S (write_all p b)"
proof -
  have "k \<noteq> p" if "k \<notin> S" for k using that assms by blast
  then show ?thesis
    by (auto simp: touches_def write_all_def tick_def map_of_fs_append_other split: option.splits)
qed

lemma touches_rename [io_rules]:
  assumes "under p \<subseteq> S" and "under q \<subseteq> S"
  shows "touches S (fs_rename p q)"
proof -
  have "map_of (fs_move p q ns) k = map_of ns k" if "k \<notin> S" for ns k
    using that assms by (intro map_of_fs_move_other) (auto simp: under_def)
  then show ?thesis
    unfolding fs_rename_def by (intro touches_syscall) (simp split: option.splits)
qed

subsection \<open>Results\<close>

text \<open>\<open>returns m R\<close>: in every world, a value that \<open>m\<close> returns satisfies \<open>R\<close>.\<close>

named_theorems returns_rules \<open>rules for the values a program returns\<close>

definition returns :: "('e, 'a) io \<Rightarrow> ('a \<Rightarrow> bool) \<Rightarrow> bool" where
  "returns m R \<longleftrightarrow> (\<forall>w x w'. m w = (Inr x, w') \<longrightarrow> R x)"

lemma returnsD: "returns m R \<Longrightarrow> m w = (Inr x, w') \<Longrightarrow> R x"
  by (auto simp: returns_def)

lemma returns_return [returns_rules]: "R x \<Longrightarrow> returns (io_return x) R"
  by (simp add: returns_def io_return_def)

lemma returns_throw [returns_rules]: "returns (io_throw e) R"
  by (simp add: returns_def io_throw_def)

lemma returns_lift_bind [returns_rules]:
  "(\<And>x. r = Inr x \<Longrightarrow> returns (f x) R) \<Longrightarrow> returns (io_bind (io_lift r) f) R"
  by (auto simp: returns_def io_bind_def io_lift_def split: sum.splits)

lemma returns_bind: "(\<And>x. returns (f x) R) \<Longrightarrow> returns (io_bind m f) R"
  by (fastforce simp: returns_def io_bind_def split: prod.splits sum.splits)

lemma returns_match: "(\<And>r. returns (f r) R) \<Longrightarrow> returns (io_match m f) R"
  by (fastforce simp: returns_def io_match_def split: prod.splits)

lemma returns_if [returns_rules]:
  "(c \<Longrightarrow> returns m R) \<Longrightarrow> (\<not> c \<Longrightarrow> returns m' R) \<Longrightarrow> returns (if c then m else m') R"
  by simp

lemma returns_case_sum [returns_rules]:
  "(\<And>e. r = Inl e \<Longrightarrow> returns (f e) R) \<Longrightarrow> (\<And>x. r = Inr x \<Longrightarrow> returns (g x) R) \<Longrightarrow>
     returns (case r of Inl e \<Rightarrow> f e | Inr x \<Rightarrow> g x) R"
  by (simp split: sum.splits)

lemma returns_case_option [returns_rules]:
  "(r = None \<Longrightarrow> returns f R) \<Longrightarrow> (\<And>x. r = Some x \<Longrightarrow> returns (g x) R) \<Longrightarrow>
     returns (case r of None \<Rightarrow> f | Some x \<Rightarrow> g x) R"
  by (simp split: option.splits)

end
