(* ===== verification/Deployment.thy ===== *)
theory Deployment
  imports Prelude
begin

text \<open>
  The versioned deployment record of \<open>anduinos-recovery-engine/src/model.rs\<close>: its
  kinds and lifecycle states, the record with its validation, and the two guards
  \<open>can_restore\<close> and \<open>can_delete\<close> that the recovery code asks before it touches a
  snapshot. The lemmas give what a restorable record promises and show that the
  lifecycle is a terminating state machine that ends in \<open>Deleting\<close>.
\<close>

subsection \<open>Data\<close>

definition DEPLOYMENT_SCHEMA_VERSION :: u32 where
  "DEPLOYMENT_SCHEMA_VERSION = 1"

definition FACTORY_DEPLOYMENT_TITLE :: string where
  "FACTORY_DEPLOYMENT_TITLE = ''New OS''"

datatype DeploymentKind =
  Factory | Manual | Automatic | AptPre | AptPost | PreRollback | Imported

datatype DeploymentState = Creating | Ready | Incomplete | Broken | Deleting

fun DeploymentState_from_str :: "string \<Rightarrow> DeploymentState option" where
  "DeploymentState_from_str s =
     (if s = ''creating'' then Some Creating
      else if s = ''ready'' \<or> s = ''current'' \<or> s = ''pending-rollback''
        \<or> s = ''booted-unconfirmed'' \<or> s = ''fallback-protected'' \<or> s = ''failed-reverted''
      then Some Ready
      else if s = ''incomplete'' then Some Incomplete
      else if s = ''broken'' then Some Broken
      else if s = ''deleting'' then Some Deleting
      else None)"

fun DeploymentState_to_str :: "DeploymentState \<Rightarrow> string" where
  "DeploymentState_to_str Creating = ''creating''"
| "DeploymentState_to_str Ready = ''ready''"
| "DeploymentState_to_str Incomplete = ''incomplete''"
| "DeploymentState_to_str Broken = ''broken''"
| "DeploymentState_to_str Deleting = ''deleting''"

fun DeploymentState_can_transition_to :: "DeploymentState \<Rightarrow> DeploymentState \<Rightarrow> bool" where
  "DeploymentState_can_transition_to Creating next =
     (next = Ready \<or> next = Incomplete \<or> next = Broken \<or> next = Deleting)"
| "DeploymentState_can_transition_to Ready next = (next = Deleting \<or> next = Broken)"
| "DeploymentState_can_transition_to Incomplete next = (next = Deleting \<or> next = Broken)"
| "DeploymentState_can_transition_to Broken next = (next = Deleting)"
| "DeploymentState_can_transition_to Deleting next = False"

record DeploymentRecord =
  dep_schema_version :: u32
  dep_id :: uuid
  dep_parent_id :: "uuid option"
  dep_kind :: DeploymentKind
  dep_state :: DeploymentState
  dep_created_at :: timestamp
  dep_title :: string
  dep_reason :: string
  dep_schedule_id :: "string option"
  dep_snapshot_uuid :: "string option"
  dep_snapshot_parent_uuid :: "string option"
  dep_kernel_release :: "string option"
  dep_initramfs_sha256 :: "string option"
  dep_boot_artifact_sha256 :: "string option"
  dep_dpkg_status_sha256 :: "string option"
  dep_mok_certificate_sha256 :: "string option"
  dep_pinned :: bool
  dep_failure :: "string option"

datatype ModelError =
  UnsupportedSchema u32 | InvalidField string | InvalidDigest string | IncompleteIdentity

fun ModelError_to_string :: "ModelError \<Rightarrow> string" where
  "ModelError_to_string (UnsupportedSchema version) =
     ''unsupported deployment schema version '' @ show_nat (unat version)"
| "ModelError_to_string (InvalidField field) = ''invalid field: '' @ field"
| "ModelError_to_string (InvalidDigest field) = ''invalid SHA-256 digest: '' @ field"
| "ModelError_to_string IncompleteIdentity = ''deployment identity is incomplete''"

subsection \<open>Field checks\<close>

definition is_sha256 :: "string \<Rightarrow> bool" where
  "is_sha256 value \<longleftrightarrow> length value = 64 \<and> list_all is_lower_hex value"

definition missing :: "string option \<Rightarrow> bool" where
  "missing value = (case value of None \<Rightarrow> True | Some item \<Rightarrow> str_trim item = [])"

definition invalid_text :: "string \<Rightarrow> nat \<Rightarrow> bool" where
  "invalid_text value maximum_characters \<longleftrightarrow>
     str_trim value = []
     \<or> maximum_characters < length (chars value)
     \<or> list_ex char_is_control (chars value)"

definition invalid_optional_text :: "string \<Rightarrow> nat \<Rightarrow> bool" where
  "invalid_optional_text value maximum_characters \<longleftrightarrow>
     maximum_characters < length (chars value) \<or> list_ex char_is_control (chars value)"

definition invalid_schedule_id :: "string \<Rightarrow> bool" where
  "invalid_schedule_id s \<longleftrightarrow>
     s = [] \<or> 50 < length s \<or> hd s = CHR ''-'' \<or> hd s = CHR ''.''
     \<or> \<not> list_all (\<lambda>c. is_ascii_alphanumeric c \<or> c = CHR ''-'' \<or> c = CHR ''_'') s"

definition invalid_kernel_release :: "string \<Rightarrow> bool" where
  "invalid_kernel_release s \<longleftrightarrow>
     s = [] \<or> 128 < length s
     \<or> \<not> list_all (\<lambda>c. is_ascii_alphanumeric c \<or> c \<in> set ''._+-'') s"

text \<open>\<open>Option::is_some_and\<close>.\<close>

definition is_some_and :: "'a option \<Rightarrow> ('a \<Rightarrow> bool) \<Rightarrow> bool" where
  "is_some_and x P = (case x of None \<Rightarrow> False | Some v \<Rightarrow> P v)"

lemma is_some_and_simps [simp]: "is_some_and None P = False" "is_some_and (Some v) P = P v"
  by (simp_all add: is_some_and_def)

lemma not_is_some_and_iff: "\<not> is_some_and x P \<longleftrightarrow> (\<forall>v. x = Some v \<longrightarrow> \<not> P v)"
  by (cases x) auto

subsection \<open>The record\<close>

definition requires_complete_identity :: "DeploymentRecord \<Rightarrow> bool" where
  "requires_complete_identity r \<longleftrightarrow> dep_state r = Ready"

definition DeploymentRecord_validate_schedule :: "DeploymentRecord \<Rightarrow> ModelError + unit" where
  "DeploymentRecord_validate_schedule r =
     (case (dep_kind r, dep_schedule_id r) of
        (Automatic, Some schedule_id) \<Rightarrow>
          (if invalid_schedule_id schedule_id then Inl (InvalidField ''schedule_id'') else Inr ())
      | (Automatic, None) \<Rightarrow> Inl (InvalidField ''schedule_id'')
      | (_, Some _) \<Rightarrow> Inl (InvalidField ''schedule_id'')
      | (_, None) \<Rightarrow> Inr ())"

definition DeploymentRecord_validate :: "uuid_lib \<Rightarrow> DeploymentRecord \<Rightarrow> ModelError + unit" where
  "DeploymentRecord_validate U r =
     (if dep_schema_version r \<noteq> DEPLOYMENT_SCHEMA_VERSION
      then Inl (UnsupportedSchema (dep_schema_version r))
      else if invalid_text (dep_title r) 120 then Inl (InvalidField ''title'')
      else if invalid_text (dep_reason r) 500 then Inl (InvalidField ''reason'')
      else case DeploymentRecord_validate_schedule r of
        Inl e \<Rightarrow> Inl e
      | Inr _ \<Rightarrow>
      if dep_kind r = Factory \<and> \<not> dep_pinned r then Inl (InvalidField ''pinned'')
      else if dep_kind r = Factory \<and> dep_title r \<noteq> FACTORY_DEPLOYMENT_TITLE
      then Inl (InvalidField ''title'')
      else if is_some_and (dep_snapshot_uuid r) (\<lambda>u. parse_str U u = None)
      then Inl (InvalidField ''snapshot_uuid'')
      else if is_some_and (dep_snapshot_parent_uuid r) (\<lambda>u. parse_str U u = None)
      then Inl (InvalidField ''snapshot_parent_uuid'')
      else if is_some_and (dep_kernel_release r) invalid_kernel_release
      then Inl (InvalidField ''kernel_release'')
      else if is_some_and (dep_failure r) (\<lambda>f. invalid_optional_text f 2000)
      then Inl (InvalidField ''failure'')
      else if is_some_and (dep_initramfs_sha256 r) (\<lambda>d. \<not> is_sha256 d)
      then Inl (InvalidDigest ''initramfs_sha256'')
      else if is_some_and (dep_boot_artifact_sha256 r) (\<lambda>d. \<not> is_sha256 d)
      then Inl (InvalidDigest ''boot_artifact_sha256'')
      else if is_some_and (dep_dpkg_status_sha256 r) (\<lambda>d. \<not> is_sha256 d)
      then Inl (InvalidDigest ''dpkg_status_sha256'')
      else if is_some_and (dep_mok_certificate_sha256 r) (\<lambda>d. \<not> is_sha256 d)
      then Inl (InvalidDigest ''mok_certificate_sha256'')
      else if requires_complete_identity r
        \<and> (missing (dep_snapshot_uuid r) \<or> missing (dep_kernel_release r)
           \<or> dep_initramfs_sha256 r = None \<or> dep_boot_artifact_sha256 r = None
           \<or> dep_dpkg_status_sha256 r = None)
      then Inl IncompleteIdentity
      else Inr ())"

definition can_restore :: "uuid_lib \<Rightarrow> DeploymentRecord \<Rightarrow> bool" where
  "can_restore U r \<longleftrightarrow>
     DeploymentRecord_validate U r = Inr () \<and> dep_failure r = None \<and> dep_state r = Ready"

definition can_delete :: "DeploymentRecord \<Rightarrow> bool" where
  "can_delete r \<longleftrightarrow>
     \<not> dep_pinned r
     \<and> (dep_state r = Creating \<or> dep_state r = Ready
        \<or> dep_state r = Incomplete \<or> dep_state r = Broken)"

subsection \<open>What validation guarantees\<close>

lemma validate_schedule_ok_iff:
  "DeploymentRecord_validate_schedule r = Inr () \<longleftrightarrow>
     (if dep_kind r = Automatic
      then (\<exists>s. dep_schedule_id r = Some s \<and> \<not> invalid_schedule_id s)
      else dep_schedule_id r = None)"
  by (auto simp: DeploymentRecord_validate_schedule_def split: DeploymentKind.splits option.splits)

lemma str_trim_Nil [simp]: "str_trim [] = []"
  by (simp add: str_trim_def)

lemma not_missing_iff: "\<not> missing v \<longleftrightarrow> (\<exists>s. v = Some s \<and> str_trim s \<noteq> [])"
  by (cases v) (auto simp: missing_def)

text \<open>Validation accepts exactly the records that satisfy every rule of the format.\<close>

definition well_formed_deployment :: "uuid_lib \<Rightarrow> DeploymentRecord \<Rightarrow> bool" where
  "well_formed_deployment U r \<longleftrightarrow>
     dep_schema_version r = 1
     \<and> \<not> invalid_text (dep_title r) 120 \<and> \<not> invalid_text (dep_reason r) 500
     \<and> (dep_kind r = Automatic \<longleftrightarrow> dep_schedule_id r \<noteq> None)
     \<and> (\<forall>s. dep_schedule_id r = Some s \<longrightarrow> \<not> invalid_schedule_id s)
     \<and> (dep_kind r = Factory \<longrightarrow> dep_pinned r \<and> dep_title r = ''New OS'')
     \<and> (\<forall>s \<in> set_option (dep_snapshot_uuid r) \<union> set_option (dep_snapshot_parent_uuid r).
           parse_str U s \<noteq> None)
     \<and> (\<forall>s. dep_kernel_release r = Some s \<longrightarrow> \<not> invalid_kernel_release s)
     \<and> (\<forall>s. dep_failure r = Some s \<longrightarrow> \<not> invalid_optional_text s 2000)
     \<and> (\<forall>d \<in> set_option (dep_initramfs_sha256 r) \<union> set_option (dep_boot_artifact_sha256 r)
           \<union> set_option (dep_dpkg_status_sha256 r) \<union> set_option (dep_mok_certificate_sha256 r).
           is_sha256 d)
     \<and> (dep_state r = Ready \<longrightarrow>
           \<not> missing (dep_snapshot_uuid r) \<and> \<not> missing (dep_kernel_release r)
           \<and> dep_initramfs_sha256 r \<noteq> None \<and> dep_boot_artifact_sha256 r \<noteq> None
           \<and> dep_dpkg_status_sha256 r \<noteq> None)"

lemma validate_ok_wellformed:
  assumes "DeploymentRecord_validate U r = Inr ()"
  shows "well_formed_deployment U r"
  using assms
  unfolding DeploymentRecord_validate_def well_formed_deployment_def
  by (simp split: if_splits sum.splits
      add: validate_schedule_ok_iff DEPLOYMENT_SCHEMA_VERSION_def FACTORY_DEPLOYMENT_TITLE_def
        requires_complete_identity_def not_is_some_and_iff)
    (auto split: if_splits)

lemma wellformed_validate_ok:
  assumes "well_formed_deployment U r"
  shows "DeploymentRecord_validate U r = Inr ()"
proof -
  from assms have "DeploymentRecord_validate_schedule r = Inr ()"
    by (auto simp: validate_schedule_ok_iff well_formed_deployment_def)
  with assms show ?thesis
    unfolding DeploymentRecord_validate_def well_formed_deployment_def
    by (auto simp: DEPLOYMENT_SCHEMA_VERSION_def FACTORY_DEPLOYMENT_TITLE_def
        requires_complete_identity_def is_some_and_def split: option.splits)
qed

lemma validate_ok_iff: "DeploymentRecord_validate U r = Inr () \<longleftrightarrow> well_formed_deployment U r"
  using validate_ok_wellformed wellformed_validate_ok by blast

lemma sha256_shape: "is_sha256 d \<Longrightarrow> length d = 64 \<and> list_all is_lower_hex d"
  by (simp add: is_sha256_def)

lemma state_str_roundtrip: "DeploymentState_from_str (DeploymentState_to_str s) = Some s"
  by (cases s) simp_all

subsection \<open>The lifecycle\<close>

text \<open>A rank that every transition lowers: no record can run in circles.\<close>

fun state_rank :: "DeploymentState \<Rightarrow> nat" where
  "state_rank Creating = 3"
| "state_rank Ready = 2"
| "state_rank Incomplete = 2"
| "state_rank Broken = 1"
| "state_rank Deleting = 0"

lemma transition_lowers_rank:
  "DeploymentState_can_transition_to s t \<Longrightarrow> state_rank t < state_rank s"
  by (cases s) auto

lemma transitions_lower_rank:
  "DeploymentState_can_transition_to\<^sup>+\<^sup>+ s t \<Longrightarrow> state_rank t < state_rank s"
  by (induction rule: tranclp_induct) (auto dest: transition_lowers_rank)

lemma into_Ready: "DeploymentState_can_transition_to\<^sup>+\<^sup>+ s Ready \<longleftrightarrow> s = Creating"
proof
  assume "DeploymentState_can_transition_to\<^sup>+\<^sup>+ s Ready"
  then have "state_rank Ready < state_rank s" by (rule transitions_lower_rank)
  then show "s = Creating" by (cases s) auto
qed (auto intro: tranclp.r_into_trancl)

lemma into_Creating: "\<not> DeploymentState_can_transition_to\<^sup>+\<^sup>+ s Creating"
  by (cases s) (auto dest: transitions_lower_rank)

subsection \<open>Properties\<close>

text \<open>
  A deployment that \<open>can_restore\<close> accepts has a complete identity: a snapshot
  UUID the \<open>uuid\<close> crate parses, a kernel release of safe characters, three digests
  of exactly 64 lowercase hexadecimal digits, no failure note and state \<open>Ready\<close>.
\<close>

theorem restorable_is_complete:
  assumes "can_restore U r"
  shows "\<exists>u k i b d.
     dep_snapshot_uuid r = Some u \<and> parse_str U u \<noteq> None
     \<and> dep_kernel_release r = Some k \<and> k \<noteq> [] \<and> length k \<le> 128
     \<and> dep_initramfs_sha256 r = Some i \<and> dep_boot_artifact_sha256 r = Some b
     \<and> dep_dpkg_status_sha256 r = Some d
     \<and> list_all (\<lambda>x. length x = 64 \<and> list_all is_lower_hex x) [i, b, d]
     \<and> dep_failure r = None \<and> dep_state r = Ready \<and> dep_schema_version r = 1"
proof -
  from assms have wf: "well_formed_deployment U r" and st: "dep_state r = Ready"
    and nf: "dep_failure r = None"
    by (simp_all add: can_restore_def validate_ok_iff)
  from wf st obtain u k where u: "dep_snapshot_uuid r = Some u" and k: "dep_kernel_release r = Some k"
    by (auto simp: well_formed_deployment_def not_missing_iff)
  from wf st obtain i b d where ibd: "dep_initramfs_sha256 r = Some i"
    "dep_boot_artifact_sha256 r = Some b" "dep_dpkg_status_sha256 r = Some d"
    by (auto simp: well_formed_deployment_def)
  from wf u k ibd have "parse_str U u \<noteq> None" and "\<not> invalid_kernel_release k"
    and "is_sha256 i" "is_sha256 b" "is_sha256 d" and "dep_schema_version r = 1"
    by (auto simp: well_formed_deployment_def)
  with u k ibd st nf show ?thesis
    by (auto simp: invalid_kernel_release_def is_sha256_def)
qed

definition example_uuid_lib :: uuid_lib where
  "example_uuid_lib =
     \<lparr>parse_str = (\<lambda>s. if s = ''u1'' then Some 1 else if s = ''u2'' then Some 2
                      else if s = ''u3'' then Some 3 else None),
      hyphenated = (\<lambda>u. if u = 1 then ''u1'' else if u = 2 then ''u2'' else ''u3'')\<rparr>"

definition example_deployment :: DeploymentRecord where
  "example_deployment =
     \<lparr>dep_schema_version = 1, dep_id = 1, dep_parent_id = None, dep_kind = Manual,
      dep_state = Ready, dep_created_at = 10, dep_title = ''Before update'',
      dep_reason = ''Manual snapshot'', dep_schedule_id = None,
      dep_snapshot_uuid = Some ''u1'', dep_snapshot_parent_uuid = Some ''u2'',
      dep_kernel_release = Some ''7.0.0-28'',
      dep_initramfs_sha256 = Some (replicate 64 CHR ''a''),
      dep_boot_artifact_sha256 = Some (replicate 64 CHR ''b''),
      dep_dpkg_status_sha256 = Some (replicate 64 CHR ''c''),
      dep_mok_certificate_sha256 = None, dep_pinned = False, dep_failure = None\<rparr>"

lemma example_deployment_restorable: "can_restore example_uuid_lib example_deployment"
  by code_simp

theorem restorable_is_complete_witness:
  "can_restore example_uuid_lib example_deployment
   \<and> (\<exists>i. dep_initramfs_sha256 example_deployment = Some i \<and> length i = 64)"
  using restorable_is_complete [OF example_deployment_restorable] example_deployment_restorable
  by auto

text \<open>
  C40. The deployment lifecycle is a terminating state machine: no chain of allowed
  transitions returns to its start, every state but \<open>Deleting\<close> may be deleted in one
  step, \<open>Ready\<close> is only ever reached from \<open>Creating\<close>, and nothing re-enters
  \<open>Creating\<close>; the stored name of a state reads back as that state.
\<close>

theorem deployment_lifecycle:
  "\<not> DeploymentState_can_transition_to\<^sup>+\<^sup>+ s s
   \<and> (DeploymentState_can_transition_to s Deleting \<longleftrightarrow> s \<noteq> Deleting)
   \<and> (DeploymentState_can_transition_to\<^sup>+\<^sup>+ s Ready \<longleftrightarrow> s = Creating)
   \<and> \<not> DeploymentState_can_transition_to\<^sup>+\<^sup>+ s Creating
   \<and> DeploymentState_from_str (DeploymentState_to_str s) = Some s"
proof -
  have "\<not> DeploymentState_can_transition_to\<^sup>+\<^sup>+ s s" by (auto dest: transitions_lower_rank)
  moreover have "DeploymentState_can_transition_to s Deleting \<longleftrightarrow> s \<noteq> Deleting" by (cases s) auto
  ultimately show ?thesis using into_Ready into_Creating state_str_roundtrip by blast
qed

end
