(* ===== verification/Personal.thy ===== *)
theory Personal
  imports World Deployment
begin

text \<open>
  The records of independent Home snapshots in
  \<open>anduinos-recovery-engine/src/personal.rs\<close>: kinds and states, the record with its
  validation, the check whether a scheduled snapshot is due, and the read path of the
  metadata store that early-boot recovery uses to check a Home target.
\<close>

subsection \<open>Data\<close>

definition PERSONAL_SNAPSHOT_SCHEMA_VERSION :: u32 where
  "PERSONAL_SNAPSHOT_SCHEMA_VERSION = 1"

definition FACTORY_HOME_TITLE :: string where
  "FACTORY_HOME_TITLE = ''New OS''"

definition PERSONAL_MAX_METADATA_BYTES :: nat where
  "PERSONAL_MAX_METADATA_BYTES = 1024 * 1024"

datatype PersonalSnapshotKind =
  PersonalManual | PersonalAutomatic | PersonalImported | PersonalFactory

datatype PersonalSnapshotState =
  PersonalCreating | PersonalReady | PersonalBroken | PersonalDeleting

record PersonalSnapshotRecord =
  ps_schema_version :: u32
  ps_id :: uuid
  ps_kind :: PersonalSnapshotKind
  ps_state :: PersonalSnapshotState
  ps_created_at :: timestamp
  ps_title :: string
  ps_reason :: string
  ps_schedule_id :: "string option"
  ps_snapshot_uuid :: "string option"
  ps_snapshot_parent_uuid :: "string option"
  ps_pinned :: bool
  ps_failure :: "string option"

datatype PersonalErrorCode =
  PeUnsupportedLayout | PeInvalidInput | PeNotFound | PeProtected | PeBusy | PeUnsafePath
  | PeInsufficientSpace | PeCommandFailed | PeIo

record PersonalError =
  pe_code :: PersonalErrorCode
  pe_message :: string

definition PersonalError_new :: "PersonalErrorCode \<Rightarrow> string \<Rightarrow> PersonalError" where
  "PersonalError_new c m = \<lparr>pe_code = c, pe_message = m\<rparr>"

definition PersonalError_invalid :: "string \<Rightarrow> PersonalError" where
  "PersonalError_invalid m = PersonalError_new PeInvalidInput m"

definition personal_io :: "string \<Rightarrow> io_error \<Rightarrow> PersonalError" where
  "personal_io context e =
     PersonalError_new (if err_kind e = NotFound then PeNotFound else PeIo) (context @ '': '' @ err_text e)"

subsection \<open>Validation\<close>

definition validate_text :: "string \<Rightarrow> nat \<Rightarrow> string \<Rightarrow> PersonalError + unit" where
  "validate_text value maximum field =
     check (str_trim value = [] \<or> maximum < length (chars value)
            \<or> list_ex char_is_control (chars value))
       (PersonalError_invalid (''Invalid personal snapshot '' @ field))"

definition validate_label :: "string \<Rightarrow> PersonalError + unit" where
  "validate_label value =
     check (value = [] \<or> 50 < length value \<or> hd value = CHR ''-'' \<or> hd value = CHR ''.''
            \<or> \<not> list_all (\<lambda>c. is_ascii_alphanumeric c \<or> c = CHR ''-'' \<or> c = CHR ''_'') value)
       (PersonalError_invalid ''Invalid personal schedule ID'')"

definition PersonalSnapshotRecord_validate ::
  "uuid_lib \<Rightarrow> PersonalSnapshotRecord \<Rightarrow> PersonalError + unit" where
  "PersonalSnapshotRecord_validate U r = first_error
     [check (ps_schema_version r \<noteq> PERSONAL_SNAPSHOT_SCHEMA_VERSION)
        (PersonalError_invalid ''unsupported personal snapshot schema''),
      validate_text (ps_title r) 120 ''title'',
      validate_text (ps_reason r) 500 ''reason'',
      (case (ps_kind r, ps_schedule_id r) of
         (PersonalAutomatic, Some v) \<Rightarrow> validate_label v
       | (PersonalAutomatic, None) \<Rightarrow>
           Inl (PersonalError_invalid ''invalid personal schedule identity'')
       | (_, Some _) \<Rightarrow> Inl (PersonalError_invalid ''invalid personal schedule identity'')
       | (_, None) \<Rightarrow> Inr ()),
      check (ps_kind r = PersonalFactory
             \<and> (\<not> ps_pinned r
                 \<or> \<not> (ps_title r = FACTORY_HOME_TITLE \<or> ps_title r = ''New OS Home'')))
        (PersonalError_invalid ''factory Home snapshots must keep their protected identity''),
      check (is_some_and (ps_snapshot_uuid r) (\<lambda>v. parse_str U v = None))
        (PersonalError_invalid ''invalid personal snapshot UUID''),
      check (is_some_and (ps_snapshot_parent_uuid r) (\<lambda>v. parse_str U v = None))
        (PersonalError_invalid ''invalid personal snapshot UUID''),
      check (ps_state r = PersonalReady \<and> ps_snapshot_uuid r = None)
        (PersonalError_invalid ''ready personal snapshot has no filesystem identity''),
      check (is_some_and (ps_failure r)
               (\<lambda>v. 2000 < length (chars v) \<or> list_ex char_is_control (chars v)))
        (PersonalError_invalid ''invalid personal snapshot failure text'')]"

definition PersonalSnapshotRecord_can_delete :: "PersonalSnapshotRecord \<Rightarrow> bool" where
  "PersonalSnapshotRecord_can_delete r \<longleftrightarrow>
     \<not> ps_pinned r
     \<and> ps_state r \<in> {PersonalCreating, PersonalReady, PersonalBroken, PersonalDeleting}"

definition validate_snapshot_interval :: "u32 \<Rightarrow> PersonalError + unit" where
  "validate_snapshot_interval interval_hours =
     check (\<not> (1 \<le> interval_hours \<and> interval_hours \<le> 24))
       (PersonalError_invalid ''Snapshot interval must be between 1 and 24 hours'')"

definition scheduled_snapshot_due ::
  "PersonalSnapshotRecord list \<Rightarrow> u32 \<Rightarrow> timestamp \<Rightarrow> bool" where
  "scheduled_snapshot_due snapshots interval_hours now =
     (let taken = map ps_created_at (filter (\<lambda>r. ps_state r = PersonalReady
                     \<and> (ps_kind r = PersonalManual \<or> ps_kind r = PersonalAutomatic)) snapshots)
      in if taken = [] then True
         else int (unat interval_hours) * 3600000000000 \<le> now - fold max (tl taken) (hd taken))"

subsection \<open>Reading metadata\<close>

definition personal_metadata_path :: "uuid_lib \<Rightarrow> path \<Rightarrow> uuid \<Rightarrow> path" where
  "personal_metadata_path U store_root i =
     store_root @ [''personal'', ''metadata'', hyphenated U i @ ''.json'']"

definition personal_snapshot_path :: "uuid_lib \<Rightarrow> path \<Rightarrow> uuid \<Rightarrow> path" where
  "personal_snapshot_path U store_root i =
     store_root @ [''personal'', ''snapshots'', hyphenated U i, ''home'']"

definition personal_filename_id :: "uuid_lib \<Rightarrow> path \<Rightarrow> PersonalError + uuid" where
  "personal_filename_id U p =
     (case file_stem p of
        None \<Rightarrow> Inl (PersonalError_invalid ''Invalid personal metadata filename'')
      | Some stem \<Rightarrow>
          (case parse_str U stem of
             None \<Rightarrow> Inl (PersonalError_invalid ''Invalid personal metadata filename'')
           | Some i \<Rightarrow>
               (if hyphenated U i \<noteq> stem
                then Inl (PersonalError_invalid ''Non-canonical personal snapshot ID'')
                else Inr i)))"

text \<open>\<open>is_file\<close> and \<open>len\<close> of a file's metadata.\<close>

definition regular_content :: "inode \<Rightarrow> bytes option" where
  "regular_content i = (case ftype i of Regular b \<Rightarrow> Some b | _ \<Rightarrow> None)"

definition personal_read_record_path ::
  "uuid_lib \<Rightarrow> (bytes \<Rightarrow> string + PersonalSnapshotRecord) \<Rightarrow> path \<Rightarrow>
   (PersonalError, PersonalSnapshotRecord) io" where
  "personal_read_record_path U json p =
     io_bind (io_map_err (personal_io ''Could not inspect personal metadata'') (symlink_metadata p))
       (\<lambda>metadata.
     if regular_content metadata = None
        \<or> is_some_and (regular_content metadata) (\<lambda>b. PERSONAL_MAX_METADATA_BYTES < length b)
     then io_throw (PersonalError_new PeUnsafePath
            ''Personal snapshot metadata is not a bounded regular file'')
     else io_bind (io_lift (personal_filename_id U p)) (\<lambda>i.
     io_bind (io_map_err (personal_io ''Could not open personal metadata'') (open_read p)) (\<lambda>_.
     io_bind (io_map_err (personal_io ''Could not read personal metadata'')
                (read_to_end p (PERSONAL_MAX_METADATA_BYTES + 1))) (\<lambda>contents.
     if PERSONAL_MAX_METADATA_BYTES < length contents
     then io_throw (PersonalError_invalid ''Personal metadata is too large'')
     else
       (case json contents of
          Inl e \<Rightarrow> io_throw (PersonalError_invalid (''Invalid personal metadata: '' @ e))
        | Inr record \<Rightarrow>
            io_bind (io_lift (PersonalSnapshotRecord_validate U record)) (\<lambda>_.
            if ps_id record \<noteq> i
            then io_throw (PersonalError_invalid
                   ''Personal snapshot ID does not match its filename'')
            else io_return record))))))"

definition personal_load ::
  "uuid_lib \<Rightarrow> (bytes \<Rightarrow> string + PersonalSnapshotRecord) \<Rightarrow> path \<Rightarrow> uuid \<Rightarrow>
   (PersonalError, PersonalSnapshotRecord) io" where
  "personal_load U json store_root i =
     personal_read_record_path U json (personal_metadata_path U store_root i)"

subsection \<open>Lemmas\<close>

lemma touches_personal_load [io_rules]: "touches S (personal_load U json root i)"
  unfolding personal_load_def personal_read_record_path_def
  by (intro io_rules)

text \<open>A record that loads is valid and carries the identifier it was asked for.\<close>

lemma personal_filename_id_metadata:
  assumes "hyphenated U i \<noteq> []" and "personal_filename_id U (personal_metadata_path U root i) = Inr j"
  shows "hyphenated U j = hyphenated U i \<and> parse_str U (hyphenated U i) = Some j"
  using assms file_stem_json [of "hyphenated U i" "root @ [''personal'', ''metadata'']"]
  by (auto simp: personal_filename_id_def personal_metadata_path_def split: option.splits if_splits)

end
