(* ===== verification/Transaction.thy ===== *)
theory Transaction
  imports Personal
begin

text \<open>
  The durable rollback transaction of \<open>anduinos-recovery-engine/src/transaction.rs\<close>,
  without its store: phases and checkpoints, the transaction record with every check
  of \<open>validate\<close>, the operations that advance it (each a function of the record and
  the current time, returning the possibly changed record with its \<open>Result\<close>), and the
  migrations of the older on-disk schemas. The lemmas show that a successful operation
  always leaves a valid record, that phases only move forward, that attempts are
  bounded and that no operation changes what the transaction is bound to.
\<close>

subsection \<open>Phases and checkpoints\<close>

definition ROLLBACK_SCHEMA_VERSION :: u32 where "ROLLBACK_SCHEMA_VERSION = 7"
definition RECOVERY_PROTOCOL_VERSION :: u32 where "RECOVERY_PROTOCOL_VERSION = 3"
definition LEGACY_RECOVERY_PROTOCOL_VERSION :: u32 where "LEGACY_RECOVERY_PROTOCOL_VERSION = 1"
definition CONTINUE_BOOT_PROTOCOL_VERSION :: u32 where "CONTINUE_BOOT_PROTOCOL_VERSION = 2"
definition CONTINUE_BOOT_SCHEMA_VERSION :: u32 where "CONTINUE_BOOT_SCHEMA_VERSION = 6"
definition MAX_APPLY_ATTEMPTS :: u32 where "MAX_APPLY_ATTEMPTS = 3"
definition MAX_FAILURE_LENGTH :: nat where "MAX_FAILURE_LENGTH = 2000"

lemmas version_defs = ROLLBACK_SCHEMA_VERSION_def RECOVERY_PROTOCOL_VERSION_def
  LEGACY_RECOVERY_PROTOCOL_VERSION_def CONTINUE_BOOT_PROTOCOL_VERSION_def
  CONTINUE_BOOT_SCHEMA_VERSION_def

datatype RollbackPhase =
  Preparing | Armed | Applying | AppliedAwaitingBoot | BootedUnconfirmed | Reverting
  | Reverted | Confirmed | Failed

datatype RecoveryCheckpoint =
  InitramfsEntered | Validating | ApplyStarted | WritableTargetCreated | CurrentRootProtected
  | TargetRootActivated | WritableHomeCreated | CurrentHomeProtected | TargetHomeActivated
  | AppliedAwaitingBootRecorded | BootedUnconfirmedRecorded | RevertStarted
  | RestoredRootMovedAside | FallbackRootActivated | DiscardedRootDeleted
  | RestoredHomeMovedAside | FallbackHomeActivated | DiscardedHomeDeleted | RevertedRecorded

fun RecoveryCheckpoint_as_str :: "RecoveryCheckpoint \<Rightarrow> string" where
  "RecoveryCheckpoint_as_str InitramfsEntered = ''initramfs-entered''"
| "RecoveryCheckpoint_as_str Validating = ''validating''"
| "RecoveryCheckpoint_as_str ApplyStarted = ''apply-started''"
| "RecoveryCheckpoint_as_str WritableTargetCreated = ''writable-target-created''"
| "RecoveryCheckpoint_as_str CurrentRootProtected = ''current-root-protected''"
| "RecoveryCheckpoint_as_str TargetRootActivated = ''target-root-activated''"
| "RecoveryCheckpoint_as_str WritableHomeCreated = ''writable-home-created''"
| "RecoveryCheckpoint_as_str CurrentHomeProtected = ''current-home-protected''"
| "RecoveryCheckpoint_as_str TargetHomeActivated = ''target-home-activated''"
| "RecoveryCheckpoint_as_str AppliedAwaitingBootRecorded = ''applied-awaiting-boot-recorded''"
| "RecoveryCheckpoint_as_str BootedUnconfirmedRecorded = ''booted-unconfirmed-recorded''"
| "RecoveryCheckpoint_as_str RevertStarted = ''revert-started''"
| "RecoveryCheckpoint_as_str RestoredRootMovedAside = ''restored-root-moved-aside''"
| "RecoveryCheckpoint_as_str FallbackRootActivated = ''fallback-root-activated''"
| "RecoveryCheckpoint_as_str DiscardedRootDeleted = ''discarded-root-deleted''"
| "RecoveryCheckpoint_as_str RestoredHomeMovedAside = ''restored-home-moved-aside''"
| "RecoveryCheckpoint_as_str FallbackHomeActivated = ''fallback-home-activated''"
| "RecoveryCheckpoint_as_str DiscardedHomeDeleted = ''discarded-home-deleted''"
| "RecoveryCheckpoint_as_str RevertedRecorded = ''reverted-recorded''"

fun RollbackPhase_can_transition_to :: "RollbackPhase \<Rightarrow> RollbackPhase \<Rightarrow> bool" where
  "RollbackPhase_can_transition_to Preparing next = (next = Armed \<or> next = Failed)"
| "RollbackPhase_can_transition_to Armed next = (next = Applying \<or> next = Failed)"
| "RollbackPhase_can_transition_to Applying next =
     (next = AppliedAwaitingBoot \<or> next = BootedUnconfirmed \<or> next = Reverting \<or> next = Failed)"
| "RollbackPhase_can_transition_to AppliedAwaitingBoot next =
     (next = BootedUnconfirmed \<or> next = Reverting)"
| "RollbackPhase_can_transition_to BootedUnconfirmed next = (next = Confirmed \<or> next = Reverting)"
| "RollbackPhase_can_transition_to Reverting next = (next = Reverted \<or> next = Failed)"
| "RollbackPhase_can_transition_to _ next = False"

fun RollbackPhase_is_terminal :: "RollbackPhase \<Rightarrow> bool" where
  "RollbackPhase_is_terminal Reverted = True"
| "RollbackPhase_is_terminal Confirmed = True"
| "RollbackPhase_is_terminal Failed = True"
| "RollbackPhase_is_terminal _ = False"

text \<open>The derived \<open>Debug\<close> form, which error messages show.\<close>

fun RollbackPhase_debug :: "RollbackPhase \<Rightarrow> string" where
  "RollbackPhase_debug Preparing = ''Preparing''"
| "RollbackPhase_debug Armed = ''Armed''"
| "RollbackPhase_debug Applying = ''Applying''"
| "RollbackPhase_debug AppliedAwaitingBoot = ''AppliedAwaitingBoot''"
| "RollbackPhase_debug BootedUnconfirmed = ''BootedUnconfirmed''"
| "RollbackPhase_debug Reverting = ''Reverting''"
| "RollbackPhase_debug Reverted = ''Reverted''"
| "RollbackPhase_debug Confirmed = ''Confirmed''"
| "RollbackPhase_debug Failed = ''Failed''"

subsection \<open>Records\<close>

record RollbackTransaction =
  tx_schema_version :: u32
  tx_id :: uuid
  tx_target_deployment_id :: uuid
  tx_fallback_deployment_id :: uuid
  tx_phase :: RollbackPhase
  tx_created_at :: timestamp
  tx_updated_at :: timestamp
  tx_recovery_protocol_version :: u32
  tx_initramfs_attempts :: u32
  tx_initramfs_boot_id :: "string option"
  tx_checkpoint :: "RecoveryCheckpoint option"
  tx_checkpoint_at :: "timestamp option"
  tx_apply_attempts :: u32
  tx_applying_boot_id :: "string option"
  tx_target_boot_id :: "string option"
  tx_target_kernel_release :: "string option"
  tx_root_filesystem_uuid :: string
  tx_kernel_release :: string
  tx_recovery_kernel_sha256 :: string
  tx_recovery_initramfs_sha256 :: string
  tx_recovery_confirm_sha256 :: string
  tx_grub_entry_id :: string
  tx_reset_home :: bool
  tx_purge_history :: bool
  tx_home_only :: bool
  tx_fallback_home_snapshot_id :: "uuid option"
  tx_factory_home_snapshot_id :: "uuid option"
  tx_factory_home_snapshot_uuid :: "string option"
  tx_failure :: "string option"

datatype TransactionErrorCode =
  TeAlreadyPending | TeNotFound | TeUnsafePath | TeTooLarge | TeInvalidJson
  | TeUnsupportedSchema | TeInvalidRecord | TeInvalidTransition | TeAttemptLimit | TeIo

record TransactionError =
  te_code :: TransactionErrorCode
  te_message :: string

definition TransactionError_new :: "TransactionErrorCode \<Rightarrow> string \<Rightarrow> TransactionError" where
  "TransactionError_new c m = \<lparr>te_code = c, te_message = m\<rparr>"

definition invalid_record :: "string \<Rightarrow> TransactionError" where
  "invalid_record m = TransactionError_new TeInvalidRecord m"

definition invalid_transition :: "string \<Rightarrow> TransactionError" where
  "invalid_transition m = TransactionError_new TeInvalidTransition m"

subsection \<open>Validation\<close>

definition validate_uuid :: "uuid_lib \<Rightarrow> string \<Rightarrow> string \<Rightarrow> TransactionError + unit" where
  "validate_uuid U value name =
     (case parse_str U value of
        None \<Rightarrow> Inl (invalid_record (''Rollback '' @ name @ '' is not a UUID''))
      | Some parsed \<Rightarrow>
          check (hyphenated U parsed \<noteq> value)
            (invalid_record (''Rollback '' @ name @ '' is not in canonical form'')))"

definition validate_kernel_release :: "string \<Rightarrow> TransactionError + unit" where
  "validate_kernel_release value =
     check (value = [] \<or> 128 < length value
            \<or> \<not> list_all (\<lambda>c. is_ascii_alphanumeric c \<or> c \<in> set ''._+-'') value)
       (invalid_record ''Rollback kernel release contains unsafe characters'')"

definition validate_digest :: "string \<Rightarrow> string \<Rightarrow> TransactionError + unit" where
  "validate_digest value name =
     check (length value \<noteq> 64 \<or> \<not> list_all is_lower_hex value)
       (invalid_record (''Rollback '' @ name @ '' digest is invalid''))"

definition all_zero :: "string \<Rightarrow> bool" where
  "all_zero digest = list_all (\<lambda>c. c = CHR ''0'') digest"

definition restarts_after_apply :: "RollbackTransaction \<Rightarrow> bool" where
  "restarts_after_apply t \<longleftrightarrow> tx_recovery_protocol_version t = RECOVERY_PROTOCOL_VERSION"

definition grub_entry_name :: "uuid_lib \<Rightarrow> uuid \<Rightarrow> string" where
  "grub_entry_name U i = ''anduinos-btrfs-snapshots-manager-'' @ hyphenated U i"

definition validate_scope :: "uuid_lib \<Rightarrow> RollbackTransaction \<Rightarrow> (TransactionError + unit) list" where
  "validate_scope U t =
     [check (\<not> (tx_schema_version t = CONTINUE_BOOT_SCHEMA_VERSION
                \<or> tx_schema_version t = ROLLBACK_SCHEMA_VERSION))
        (TransactionError_new TeUnsupportedSchema
           (''Unsupported rollback transaction schema '' @ show_nat (unat (tx_schema_version t)))),
      check ((tx_target_deployment_id t = tx_fallback_deployment_id t) \<noteq> tx_home_only t)
        (invalid_record ''Home-only restores require one root anchor; system restores require distinct deployments''),
      check (tx_purge_history t \<and> (\<not> tx_reset_home t \<or> tx_home_only t))
        (invalid_record ''History cleanup requires a combined factory System and Home reset''),
      check (tx_home_only t \<and> \<not> tx_reset_home t)
        (invalid_record ''Home-only restore requires a Home target''),
      (case (tx_reset_home t, tx_factory_home_snapshot_id t, tx_factory_home_snapshot_uuid t) of
         (False, None, None) \<Rightarrow> Inr ()
       | (True, Some _, Some u) \<Rightarrow> validate_uuid U u ''factory Home snapshot UUID''
       | _ \<Rightarrow> Inl (invalid_record ''Factory Home reset identity is incomplete or unexpectedly present'')),
      check (\<not> tx_reset_home t \<and> tx_fallback_home_snapshot_id t \<noteq> None)
        (invalid_record ''A system-only rollback cannot reference a Home safety snapshot'')]"

definition validate_artifacts ::
  "uuid_lib \<Rightarrow> RollbackTransaction \<Rightarrow> (TransactionError + unit) list" where
  "validate_artifacts U t =
     [validate_uuid U (tx_root_filesystem_uuid t) ''root filesystem UUID'',
      validate_kernel_release (tx_kernel_release t),
      validate_digest (tx_recovery_kernel_sha256 t) ''recovery kernel'',
      validate_digest (tx_recovery_initramfs_sha256 t) ''recovery initramfs'',
      validate_digest (tx_recovery_confirm_sha256 t) ''recovery confirmation engine'',
      (if tx_recovery_protocol_version t = CONTINUE_BOOT_PROTOCOL_VERSION
         \<or> tx_recovery_protocol_version t = RECOVERY_PROTOCOL_VERSION
       then check (list_ex all_zero [tx_recovery_kernel_sha256 t, tx_recovery_initramfs_sha256 t,
                     tx_recovery_confirm_sha256 t])
              (invalid_record ''Current recovery protocol artifacts must have non-zero digests'')
       else if tx_recovery_protocol_version t = LEGACY_RECOVERY_PROTOCOL_VERSION
       then check (\<not> all_zero (tx_recovery_confirm_sha256 t))
              (invalid_record ''Legacy recovery transactions cannot bind a v2 confirmation artifact'')
       else Inl (TransactionError_new TeUnsupportedSchema
              (''Unsupported recovery protocol ''
                @ show_nat (unat (tx_recovery_protocol_version t))))),
      check (tx_grub_entry_id t \<noteq> grub_entry_name U (tx_id t))
        (invalid_record ''GRUB entry ID does not match the rollback transaction'')]"

definition validate_attempts ::
  "uuid_lib \<Rightarrow> RollbackTransaction \<Rightarrow> (TransactionError + unit) list" where
  "validate_attempts U t =
     [check (tx_updated_at t < tx_created_at t)
        (invalid_record ''Rollback transaction timestamps are out of order''),
      check (MAX_APPLY_ATTEMPTS < tx_apply_attempts t)
        (TransactionError_new TeAttemptLimit ''Rollback transaction exceeds the apply attempt limit''),
      check (MAX_APPLY_ATTEMPTS < tx_initramfs_attempts t)
        (TransactionError_new TeAttemptLimit ''Rollback transaction exceeds the initramfs attempt limit''),
      check (tx_initramfs_attempts t = 0
             \<and> (tx_initramfs_boot_id t \<noteq> None \<or> tx_checkpoint t \<noteq> None \<or> tx_checkpoint_at t \<noteq> None))
        (invalid_record ''A rollback without initramfs attempts cannot contain recovery checkpoints''),
      (if 0 < tx_initramfs_attempts t
       then (case tx_initramfs_boot_id t of
               None \<Rightarrow> Inl (invalid_record ''An initramfs attempt must record its boot ID'')
             | Some boot_id \<Rightarrow> first_error
                 [validate_uuid U boot_id ''initramfs entry boot ID'',
                  check (tx_checkpoint t = None \<or> tx_checkpoint_at t = None)
                    (invalid_record ''An initramfs attempt must record a durable checkpoint'')])
       else Inr ()),
      check ((tx_checkpoint t \<noteq> None) \<noteq> (tx_checkpoint_at t \<noteq> None))
        (invalid_record ''Rollback checkpoint and timestamp must be recorded together''),
      check (is_some_and (tx_checkpoint_at t) (\<lambda>s. s < tx_created_at t))
        (invalid_record ''Rollback checkpoint timestamp predates the transaction''),
      check (tx_phase t \<in> {Preparing, Armed} \<and> tx_apply_attempts t \<noteq> 0)
        (invalid_record ''A rollback transaction cannot have apply attempts before applying''),
      check (tx_phase t \<in> {Applying, AppliedAwaitingBoot, BootedUnconfirmed, Reverting, Reverted, Confirmed}
             \<and> tx_apply_attempts t = 0)
        (invalid_record ''An applied rollback transaction must record at least one attempt''),
      check (0 < tx_apply_attempts t \<and> tx_applying_boot_id t = None)
        (invalid_record ''An attempted rollback must record its initramfs boot ID''),
      check (tx_initramfs_attempts t < tx_apply_attempts t)
        (invalid_record ''Rollback apply attempts exceed initramfs entries''),
      (case tx_applying_boot_id t of
         None \<Rightarrow> Inr ()
       | Some boot_id \<Rightarrow> validate_uuid U boot_id ''initramfs boot ID'')]"

definition validate_restart :: "uuid_lib \<Rightarrow> RollbackTransaction \<Rightarrow> TransactionError + unit" where
  "validate_restart U t =
     (if restarts_after_apply t
      then first_error
        [check (tx_schema_version t \<noteq> ROLLBACK_SCHEMA_VERSION)
           (invalid_record ''Restarting restores require the current transaction schema''),
         (case tx_target_kernel_release t of
            None \<Rightarrow> Inl (invalid_record ''Target kernel identity is missing'')
          | Some target_kernel \<Rightarrow> validate_kernel_release target_kernel),
         check (tx_phase t \<in> {BootedUnconfirmed, Confirmed} \<and> tx_target_boot_id t = None)
           (invalid_record ''Target boot identity is missing''),
         (case tx_target_boot_id t of
            None \<Rightarrow> Inr ()
          | Some boot_id \<Rightarrow> first_error
              [validate_uuid U boot_id ''target boot ID'',
               check (tx_applying_boot_id t = Some boot_id
                      \<or> tx_phase t \<in> {Preparing, Armed, Applying, AppliedAwaitingBoot})
                 (invalid_record ''Target boot identity precedes a separate normal boot'')])]
      else check (tx_phase t = AppliedAwaitingBoot \<or> tx_target_boot_id t \<noteq> None
                  \<or> tx_target_kernel_release t \<noteq> None)
             (invalid_record ''Continue-boot transactions cannot contain restart-only state''))"

definition validate_failure :: "RollbackTransaction \<Rightarrow> (TransactionError + unit) list" where
  "validate_failure t =
     [check (tx_phase t = Failed \<and> tx_failure t = None)
        (invalid_record ''A failed rollback transaction must contain a diagnostic''),
      check (tx_phase t \<noteq> Failed \<and> tx_failure t \<noteq> None)
        (invalid_record ''Only a failed rollback transaction may contain a diagnostic''),
      check (is_some_and (tx_failure t) (\<lambda>f. f = [] \<or> MAX_FAILURE_LENGTH < length (chars f)
               \<or> list_ex char_is_control (chars f)))
        (invalid_record ''Rollback failure diagnostic is invalid'')]"

definition RollbackTransaction_validate ::
  "uuid_lib \<Rightarrow> RollbackTransaction \<Rightarrow> TransactionError + unit" where
  "RollbackTransaction_validate U t = first_error
     (validate_scope U t @ validate_artifacts U t @ validate_attempts U t
      @ [validate_restart U t] @ validate_failure t)"

subsection \<open>Operations\<close>

text \<open>
  An operation on \<open>&mut self\<close> returns the record as it leaves it, also when the
  result is an error: the assignments before a failing \<open>validate\<close> have happened.
\<close>

type_synonym tx_update = "RollbackTransaction \<times> (TransactionError + unit)"

definition validated :: "uuid_lib \<Rightarrow> RollbackTransaction \<Rightarrow> tx_update" where
  "validated U t = (t, RollbackTransaction_validate U t)"

definition RollbackTransaction_new ::
  "uuid_lib \<Rightarrow> uuid \<Rightarrow> timestamp \<Rightarrow> uuid \<Rightarrow> uuid \<Rightarrow> string \<Rightarrow> string \<Rightarrow> string \<Rightarrow> string \<Rightarrow> string \<Rightarrow>
   RollbackTransaction" where
  "RollbackTransaction_new U i now target fallback root_uuid krel kernel_sha initramfs_sha confirm_sha =
     \<lparr>tx_schema_version = ROLLBACK_SCHEMA_VERSION, tx_id = i,
      tx_target_deployment_id = target, tx_fallback_deployment_id = fallback,
      tx_phase = Preparing, tx_created_at = now, tx_updated_at = now,
      tx_recovery_protocol_version = RECOVERY_PROTOCOL_VERSION,
      tx_initramfs_attempts = 0, tx_initramfs_boot_id = None,
      tx_checkpoint = None, tx_checkpoint_at = None,
      tx_apply_attempts = 0, tx_applying_boot_id = None,
      tx_target_boot_id = None, tx_target_kernel_release = Some krel,
      tx_root_filesystem_uuid = root_uuid, tx_kernel_release = krel,
      tx_recovery_kernel_sha256 = kernel_sha, tx_recovery_initramfs_sha256 = initramfs_sha,
      tx_recovery_confirm_sha256 = confirm_sha, tx_grub_entry_id = grub_entry_name U i,
      tx_reset_home = False, tx_purge_history = False, tx_home_only = False,
      tx_fallback_home_snapshot_id = None, tx_factory_home_snapshot_id = None,
      tx_factory_home_snapshot_uuid = None, tx_failure = None\<rparr>"

definition use_continue_boot_protocol :: "RollbackTransaction \<Rightarrow> RollbackTransaction" where
  "use_continue_boot_protocol t =
     t\<lparr>tx_schema_version := CONTINUE_BOOT_SCHEMA_VERSION,
       tx_recovery_protocol_version := CONTINUE_BOOT_PROTOCOL_VERSION,
       tx_target_boot_id := None, tx_target_kernel_release := None\<rparr>"

definition transition ::
  "uuid_lib \<Rightarrow> RollbackPhase \<Rightarrow> timestamp \<Rightarrow> RollbackTransaction \<Rightarrow> tx_update" where
  "transition U next now t =
     (if \<not> RollbackPhase_can_transition_to (tx_phase t) next
      then (t, Inl (invalid_transition (''Rollback transaction cannot transition from ''
              @ RollbackPhase_debug (tx_phase t) @ '' to '' @ RollbackPhase_debug next)))
      else validated U (t\<lparr>tx_phase := next, tx_updated_at := now\<rparr>))"

definition record_target_boot ::
  "uuid_lib \<Rightarrow> string \<Rightarrow> timestamp \<Rightarrow> RollbackTransaction \<Rightarrow> tx_update" where
  "record_target_boot U boot_id now t =
     (case validate_uuid U boot_id ''target boot ID'' of
        Inl e \<Rightarrow> (t, Inl e)
      | Inr _ \<Rightarrow>
          (if tx_phase t \<noteq> AppliedAwaitingBoot \<or> tx_applying_boot_id t = Some boot_id
           then (t, Inl (invalid_transition ''Only a subsequent boot may start the restored system''))
           else transition U BootedUnconfirmed now (t\<lparr>tx_target_boot_id := Some boot_id\<rparr>)))"

definition enable_home_reset ::
  "uuid_lib \<Rightarrow> PersonalSnapshotRecord \<Rightarrow> RollbackTransaction \<Rightarrow> tx_update" where
  "enable_home_reset U factory_home t =
     (case ps_snapshot_uuid factory_home of
        None \<Rightarrow> (t, Inl (invalid_record ''The factory Home baseline has no snapshot UUID''))
      | Some snapshot_uuid \<Rightarrow>
          validated U (t\<lparr>tx_reset_home := True,
                         tx_factory_home_snapshot_id := Some (ps_id factory_home),
                         tx_factory_home_snapshot_uuid := Some snapshot_uuid\<rparr>))"

definition record_initramfs_entry ::
  "uuid_lib \<Rightarrow> string \<Rightarrow> timestamp \<Rightarrow> RollbackTransaction \<Rightarrow> tx_update" where
  "record_initramfs_entry U boot_id now t =
     (if tx_phase t \<noteq> Armed \<and> tx_phase t \<noteq> Applying
      then (t, Inl (invalid_transition
              ''Only an armed or interrupted rollback may enter initramfs recovery''))
      else if MAX_APPLY_ATTEMPTS \<le> tx_initramfs_attempts t
      then (t, Inl (TransactionError_new TeAttemptLimit
              ''Rollback initramfs attempt limit has been reached''))
      else validated U (t\<lparr>tx_initramfs_attempts := tx_initramfs_attempts t + 1,
                          tx_initramfs_boot_id := Some boot_id,
                          tx_checkpoint := Some InitramfsEntered,
                          tx_checkpoint_at := Some now, tx_updated_at := now\<rparr>))"

definition record_checkpoint ::
  "uuid_lib \<Rightarrow> RecoveryCheckpoint \<Rightarrow> timestamp \<Rightarrow> RollbackTransaction \<Rightarrow> tx_update" where
  "record_checkpoint U checkpoint now t =
     (if tx_initramfs_boot_id t = None
      then (t, Inl (invalid_transition ''A recovery checkpoint requires an initramfs entry record''))
      else validated U (t\<lparr>tx_checkpoint := Some checkpoint, tx_checkpoint_at := Some now,
                          tx_updated_at := now\<rparr>))"

definition begin_apply ::
  "uuid_lib \<Rightarrow> string \<Rightarrow> timestamp \<Rightarrow> RollbackTransaction \<Rightarrow> tx_update" where
  "begin_apply U boot_id now t =
     (if tx_phase t \<noteq> Armed \<and> tx_phase t \<noteq> Applying
      then (t, Inl (invalid_transition
              ''Only an armed or interrupted applying transaction can begin applying''))
      else if MAX_APPLY_ATTEMPTS \<le> tx_apply_attempts t
      then (t, Inl (TransactionError_new TeAttemptLimit
              ''Rollback apply attempt limit has been reached''))
      else if tx_initramfs_boot_id t \<noteq> Some boot_id
      then (t, Inl (invalid_transition
              ''Rollback apply must follow a recorded initramfs entry in the same boot''))
      else validated U (t\<lparr>tx_phase := Applying, tx_apply_attempts := tx_apply_attempts t + 1,
                          tx_applying_boot_id := Some boot_id,
                          tx_checkpoint := Some ApplyStarted, tx_checkpoint_at := Some now,
                          tx_updated_at := now\<rparr>))"

definition clean_failure :: "string \<Rightarrow> string" where
  "clean_failure failure = concat (take MAX_FAILURE_LENGTH (map blank_control (chars failure)))"

definition record_failure ::
  "uuid_lib \<Rightarrow> string \<Rightarrow> timestamp \<Rightarrow> RollbackTransaction \<Rightarrow> tx_update" where
  "record_failure U failure now t =
     (if RollbackPhase_is_terminal (tx_phase t)
      then (t, Inl (invalid_transition
              ''A terminal rollback transaction cannot record another failure''))
      else validated U (t\<lparr>tx_phase := Failed, tx_failure := Some (clean_failure failure),
                          tx_updated_at := now\<rparr>))"

definition old_root_name :: "uuid_lib \<Rightarrow> RollbackTransaction \<Rightarrow> string" where
  "old_root_name U t = ''@root.snapshots-manager-old-'' @ hyphenated U (tx_id t)"

definition new_root_name :: "uuid_lib \<Rightarrow> RollbackTransaction \<Rightarrow> string" where
  "new_root_name U t = ''@root.snapshots-manager-new-'' @ hyphenated U (tx_id t)"

definition old_home_name :: "uuid_lib \<Rightarrow> RollbackTransaction \<Rightarrow> string" where
  "old_home_name U t = ''@home.snapshots-manager-old-'' @ hyphenated U (tx_id t)"

definition new_home_name :: "uuid_lib \<Rightarrow> RollbackTransaction \<Rightarrow> string" where
  "new_home_name U t = ''@home.snapshots-manager-new-'' @ hyphenated U (tx_id t)"

subsection \<open>Older schemas\<close>

record LegacyRollbackTransactionV1 =
  v1_id :: uuid
  v1_target_deployment_id :: uuid
  v1_fallback_deployment_id :: uuid
  v1_phase :: RollbackPhase
  v1_created_at :: timestamp
  v1_updated_at :: timestamp
  v1_apply_attempts :: u32
  v1_applying_boot_id :: "string option"
  v1_root_filesystem_uuid :: string
  v1_kernel_release :: string
  v1_grub_entry_id :: string
  v1_failure :: "string option"

record LegacyRollbackTransactionV2 =
  v2_id :: uuid
  v2_target_deployment_id :: uuid
  v2_fallback_deployment_id :: uuid
  v2_phase :: RollbackPhase
  v2_created_at :: timestamp
  v2_updated_at :: timestamp
  v2_recovery_protocol_version :: u32
  v2_initramfs_attempts :: u32
  v2_initramfs_boot_id :: "string option"
  v2_checkpoint :: "RecoveryCheckpoint option"
  v2_checkpoint_at :: "timestamp option"
  v2_apply_attempts :: u32
  v2_applying_boot_id :: "string option"
  v2_root_filesystem_uuid :: string
  v2_kernel_release :: string
  v2_recovery_kernel_sha256 :: string
  v2_recovery_initramfs_sha256 :: string
  v2_grub_entry_id :: string
  v2_failure :: "string option"

record LegacyRollbackTransactionV3 = LegacyRollbackTransactionV2 +
  v3_recovery_confirm_sha256 :: string

definition cancelled_diagnostic :: string where
  "cancelled_diagnostic =
     ''The pending rollback was safely cancelled while upgrading the recovery protocol''"

definition zero_digest :: string where
  "zero_digest = replicate 64 CHR ''0''"

definition LegacyV1_checkpoint ::
  "u32 \<Rightarrow> RollbackPhase \<Rightarrow> RecoveryCheckpoint option" where
  "LegacyV1_checkpoint attempts phase =
     (if attempts = 0 then None
      else Some (case phase of
          BootedUnconfirmed \<Rightarrow> BootedUnconfirmedRecorded
        | Confirmed \<Rightarrow> BootedUnconfirmedRecorded
        | Reverting \<Rightarrow> RevertStarted
        | Reverted \<Rightarrow> RevertedRecorded
        | _ \<Rightarrow> ApplyStarted))"

definition LegacyV1_migrate :: "timestamp \<Rightarrow> LegacyRollbackTransactionV1 \<Rightarrow> RollbackTransaction" where
  "LegacyV1_migrate now l =
     (let cancel_before_apply = (v1_phase l = Preparing \<or> v1_phase l = Armed);
          phase = (if cancel_before_apply then Failed else v1_phase l);
          checkpoint = LegacyV1_checkpoint (v1_apply_attempts l) phase
      in \<lparr>tx_schema_version = CONTINUE_BOOT_SCHEMA_VERSION, tx_id = v1_id l,
          tx_target_deployment_id = v1_target_deployment_id l,
          tx_fallback_deployment_id = v1_fallback_deployment_id l,
          tx_phase = phase, tx_created_at = v1_created_at l,
          tx_updated_at = (if cancel_before_apply then now else v1_updated_at l),
          tx_recovery_protocol_version = LEGACY_RECOVERY_PROTOCOL_VERSION,
          tx_initramfs_attempts = v1_apply_attempts l,
          tx_initramfs_boot_id = v1_applying_boot_id l,
          tx_checkpoint = checkpoint,
          tx_checkpoint_at = map_option (\<lambda>_. v1_updated_at l) checkpoint,
          tx_apply_attempts = v1_apply_attempts l, tx_applying_boot_id = v1_applying_boot_id l,
          tx_target_boot_id = None, tx_target_kernel_release = None,
          tx_root_filesystem_uuid = v1_root_filesystem_uuid l,
          tx_kernel_release = v1_kernel_release l,
          tx_recovery_kernel_sha256 = zero_digest, tx_recovery_initramfs_sha256 = zero_digest,
          tx_recovery_confirm_sha256 = zero_digest, tx_grub_entry_id = v1_grub_entry_id l,
          tx_reset_home = False, tx_purge_history = False, tx_home_only = False,
          tx_fallback_home_snapshot_id = None, tx_factory_home_snapshot_id = None,
          tx_factory_home_snapshot_uuid = None,
          tx_failure = (if cancel_before_apply then Some cancelled_diagnostic else v1_failure l)\<rparr>)"

definition LegacyV2_migrate :: "timestamp \<Rightarrow> LegacyRollbackTransactionV2 \<Rightarrow> RollbackTransaction" where
  "LegacyV2_migrate now l =
     (let cancel_before_apply = (v2_phase l = Preparing \<or> v2_phase l = Armed)
      in \<lparr>tx_schema_version = CONTINUE_BOOT_SCHEMA_VERSION, tx_id = v2_id l,
          tx_target_deployment_id = v2_target_deployment_id l,
          tx_fallback_deployment_id = v2_fallback_deployment_id l,
          tx_phase = (if cancel_before_apply then Failed else v2_phase l),
          tx_created_at = v2_created_at l,
          tx_updated_at = (if cancel_before_apply then now else v2_updated_at l),
          tx_recovery_protocol_version = v2_recovery_protocol_version l,
          tx_initramfs_attempts = v2_initramfs_attempts l,
          tx_initramfs_boot_id = v2_initramfs_boot_id l,
          tx_checkpoint = v2_checkpoint l, tx_checkpoint_at = v2_checkpoint_at l,
          tx_apply_attempts = v2_apply_attempts l, tx_applying_boot_id = v2_applying_boot_id l,
          tx_target_boot_id = None, tx_target_kernel_release = None,
          tx_root_filesystem_uuid = v2_root_filesystem_uuid l,
          tx_kernel_release = v2_kernel_release l,
          tx_recovery_kernel_sha256 = v2_recovery_kernel_sha256 l,
          tx_recovery_initramfs_sha256 = v2_recovery_initramfs_sha256 l,
          tx_recovery_confirm_sha256 = zero_digest, tx_grub_entry_id = v2_grub_entry_id l,
          tx_reset_home = False, tx_purge_history = False, tx_home_only = False,
          tx_fallback_home_snapshot_id = None, tx_factory_home_snapshot_id = None,
          tx_factory_home_snapshot_uuid = None,
          tx_failure = (if cancel_before_apply then Some cancelled_diagnostic else v2_failure l)\<rparr>)"

definition LegacyV3_migrate :: "LegacyRollbackTransactionV3 \<Rightarrow> RollbackTransaction" where
  "LegacyV3_migrate l =
     \<lparr>tx_schema_version = CONTINUE_BOOT_SCHEMA_VERSION, tx_id = v2_id l,
      tx_target_deployment_id = v2_target_deployment_id l,
      tx_fallback_deployment_id = v2_fallback_deployment_id l,
      tx_phase = v2_phase l, tx_created_at = v2_created_at l, tx_updated_at = v2_updated_at l,
      tx_recovery_protocol_version = v2_recovery_protocol_version l,
      tx_initramfs_attempts = v2_initramfs_attempts l,
      tx_initramfs_boot_id = v2_initramfs_boot_id l,
      tx_checkpoint = v2_checkpoint l, tx_checkpoint_at = v2_checkpoint_at l,
      tx_apply_attempts = v2_apply_attempts l, tx_applying_boot_id = v2_applying_boot_id l,
      tx_target_boot_id = None, tx_target_kernel_release = None,
      tx_root_filesystem_uuid = v2_root_filesystem_uuid l,
      tx_kernel_release = v2_kernel_release l,
      tx_recovery_kernel_sha256 = v2_recovery_kernel_sha256 l,
      tx_recovery_initramfs_sha256 = v2_recovery_initramfs_sha256 l,
      tx_recovery_confirm_sha256 = v3_recovery_confirm_sha256 l,
      tx_grub_entry_id = v2_grub_entry_id l,
      tx_reset_home = False, tx_purge_history = False, tx_home_only = False,
      tx_fallback_home_snapshot_id = None, tx_factory_home_snapshot_id = None,
      tx_factory_home_snapshot_uuid = None, tx_failure = v2_failure l\<rparr>"

subsection \<open>Validity and frames\<close>

definition tx_valid :: "uuid_lib \<Rightarrow> RollbackTransaction \<Rightarrow> bool" where
  "tx_valid U t \<longleftrightarrow> RollbackTransaction_validate U t = Inr ()"

definition all_ok :: "('e + unit) list \<Rightarrow> bool" where
  "all_ok rs \<longleftrightarrow> (\<forall>r \<in> set rs. r = Inr ())"

lemma all_ok_simps [simp]:
  "all_ok []" "all_ok (r # rs) \<longleftrightarrow> r = Inr () \<and> all_ok rs" "all_ok (rs @ rs') \<longleftrightarrow> all_ok rs \<and> all_ok rs'"
  by (auto simp: all_ok_def)

lemma tx_valid_iff:
  "tx_valid U t \<longleftrightarrow>
     all_ok (validate_scope U t) \<and> all_ok (validate_artifacts U t) \<and> all_ok (validate_attempts U t)
     \<and> validate_restart U t = Inr () \<and> all_ok (validate_failure t)"
  unfolding tx_valid_def RollbackTransaction_validate_def first_error_ok
  by (auto simp: all_ok_def)

lemma validated_ok [simp]: "validated U t = (t', Inr ()) \<longleftrightarrow> t' = t \<and> tx_valid U t"
  by (auto simp: validated_def tx_valid_def)

lemma validate_uuid_ok_iff [simp]: "validate_uuid U s n = Inr () \<longleftrightarrow> canonical_uuid U s"
  by (auto simp: validate_uuid_def canonical_uuid_def split: option.splits)

text \<open>The scope and artifact checks read only what a transaction is bound to.\<close>

definition tx_binding where
  "tx_binding t =
     ((tx_schema_version t, tx_id t, tx_target_deployment_id t, tx_fallback_deployment_id t,
       tx_created_at t, tx_recovery_protocol_version t),
      (tx_root_filesystem_uuid t, tx_kernel_release t, tx_target_kernel_release t,
       tx_recovery_kernel_sha256 t, tx_recovery_initramfs_sha256 t, tx_recovery_confirm_sha256 t,
       tx_grub_entry_id t),
      (tx_reset_home t, tx_purge_history t, tx_home_only t, tx_fallback_home_snapshot_id t,
       tx_factory_home_snapshot_id t, tx_factory_home_snapshot_uuid t))"

lemma validate_scope_binding:
  "tx_binding t = tx_binding t' \<Longrightarrow> validate_scope U t = validate_scope U t'"
  by (simp add: tx_binding_def validate_scope_def)

lemma validate_artifacts_binding:
  "tx_binding t = tx_binding t' \<Longrightarrow> validate_artifacts U t = validate_artifacts U t'"
  by (simp add: tx_binding_def validate_artifacts_def)

lemma restarts_binding: "tx_binding t = tx_binding t' \<Longrightarrow> restarts_after_apply t = restarts_after_apply t'"
  by (simp add: tx_binding_def restarts_after_apply_def)

lemma tx_binding_updates [simp]:
  "tx_binding (t\<lparr>tx_phase := p\<rparr>) = tx_binding t"
  "tx_binding (t\<lparr>tx_updated_at := now\<rparr>) = tx_binding t"
  "tx_binding (t\<lparr>tx_checkpoint := c\<rparr>) = tx_binding t"
  "tx_binding (t\<lparr>tx_checkpoint_at := c'\<rparr>) = tx_binding t"
  "tx_binding (t\<lparr>tx_initramfs_attempts := n\<rparr>) = tx_binding t"
  "tx_binding (t\<lparr>tx_apply_attempts := n\<rparr>) = tx_binding t"
  "tx_binding (t\<lparr>tx_initramfs_boot_id := b\<rparr>) = tx_binding t"
  "tx_binding (t\<lparr>tx_applying_boot_id := b\<rparr>) = tx_binding t"
  "tx_binding (t\<lparr>tx_target_boot_id := b\<rparr>) = tx_binding t"
  "tx_binding (t\<lparr>tx_failure := f\<rparr>) = tx_binding t"
  by (simp_all add: tx_binding_def)

text \<open>What validity says about the fields that change, in words.\<close>

definition attempts_consistent :: "uuid_lib \<Rightarrow> RollbackTransaction \<Rightarrow> bool" where
  "attempts_consistent U t \<longleftrightarrow>
     tx_created_at t \<le> tx_updated_at t
     \<and> tx_apply_attempts t \<le> tx_initramfs_attempts t \<and> tx_initramfs_attempts t \<le> 3
     \<and> (tx_initramfs_attempts t = 0 \<longleftrightarrow> tx_initramfs_boot_id t = None)
     \<and> (tx_initramfs_attempts t = 0 \<longleftrightarrow> tx_checkpoint t = None)
     \<and> (tx_initramfs_attempts t = 0 \<longleftrightarrow> tx_checkpoint_at t = None)
     \<and> (\<forall>b. tx_initramfs_boot_id t = Some b \<longrightarrow> canonical_uuid U b)
     \<and> (\<forall>s. tx_checkpoint_at t = Some s \<longrightarrow> tx_created_at t \<le> s)
     \<and> (tx_phase t \<in> {Preparing, Armed} \<longrightarrow> tx_apply_attempts t = 0)
     \<and> (tx_phase t \<notin> {Preparing, Armed, Failed} \<longrightarrow> tx_apply_attempts t \<noteq> 0)
     \<and> (tx_apply_attempts t \<noteq> 0 \<longrightarrow> tx_applying_boot_id t \<noteq> None)
     \<and> (\<forall>b. tx_applying_boot_id t = Some b \<longrightarrow> canonical_uuid U b)"

lemma validate_attempts_ok_iff: "all_ok (validate_attempts U t) \<longleftrightarrow> attempts_consistent U t"
proof -
  have pos: "(0 < x) = (x \<noteq> 0)" for x :: u32 by (simp add: word_neq_0_conv)
  have trans: "a \<le> b \<Longrightarrow> b \<le> 3 \<Longrightarrow> a \<le> 3" for a b :: u32 by (rule order_trans)
  show ?thesis
    unfolding validate_attempts_def attempts_consistent_def
    by (cases "tx_phase t"; cases "tx_initramfs_boot_id t"; cases "tx_applying_boot_id t";
        cases "tx_checkpoint_at t")
      (auto simp: pos MAX_APPLY_ATTEMPTS_def not_less intro: trans)
qed

definition restart_consistent :: "uuid_lib \<Rightarrow> RollbackTransaction \<Rightarrow> bool" where
  "restart_consistent U t \<longleftrightarrow>
     (if restarts_after_apply t
      then tx_schema_version t = 7
        \<and> (\<exists>k. tx_target_kernel_release t = Some k \<and> validate_kernel_release k = Inr ())
        \<and> (tx_phase t \<in> {BootedUnconfirmed, Confirmed} \<longrightarrow> tx_target_boot_id t \<noteq> None)
        \<and> (\<forall>b. tx_target_boot_id t = Some b \<longrightarrow>
              canonical_uuid U b \<and> tx_applying_boot_id t \<noteq> Some b
              \<and> tx_phase t \<notin> {Preparing, Armed, Applying, AppliedAwaitingBoot})
      else tx_phase t \<noteq> AppliedAwaitingBoot \<and> tx_target_boot_id t = None
        \<and> tx_target_kernel_release t = None)"

lemma validate_restart_ok_iff: "validate_restart U t = Inr () \<longleftrightarrow> restart_consistent U t"
  unfolding validate_restart_def restart_consistent_def
  by (auto simp: version_defs split: option.splits)

definition failure_consistent :: "RollbackTransaction \<Rightarrow> bool" where
  "failure_consistent t \<longleftrightarrow>
     (tx_phase t = Failed \<longleftrightarrow> tx_failure t \<noteq> None)
     \<and> (\<forall>f. tx_failure t = Some f \<longrightarrow>
           f \<noteq> [] \<and> length (chars f) \<le> 2000 \<and> \<not> list_ex char_is_control (chars f))"

lemma validate_failure_ok_iff: "all_ok (validate_failure t) \<longleftrightarrow> failure_consistent t"
  unfolding validate_failure_def failure_consistent_def
  by (auto simp: MAX_FAILURE_LENGTH_def is_some_and_def not_less split: option.splits)

lemma tx_valid_parts:
  "tx_valid U t \<longleftrightarrow>
     all_ok (validate_scope U t) \<and> all_ok (validate_artifacts U t) \<and> attempts_consistent U t
     \<and> restart_consistent U t \<and> failure_consistent t"
  by (simp add: tx_valid_iff validate_attempts_ok_iff validate_restart_ok_iff
      validate_failure_ok_iff)

lemma tx_valid_rebound:
  assumes "tx_valid U t" and "tx_binding t' = tx_binding t"
    and "attempts_consistent U t'" and "restart_consistent U t'" and "failure_consistent t'"
  shows "tx_valid U t'"
  using assms validate_scope_binding [OF assms(2)] validate_artifacts_binding [OF assms(2)]
  by (simp add: tx_valid_parts)

lemma tx_valid_attempts:
  "tx_valid U t \<Longrightarrow> unat (tx_initramfs_attempts t) \<le> 3
     \<and> unat (tx_apply_attempts t) \<le> unat (tx_initramfs_attempts t)"
  by (simp add: tx_valid_parts attempts_consistent_def word_le_nat_alt)

subsection \<open>Steps\<close>

text \<open>One successful operation of early boot or of the confirming system.\<close>

inductive tx_step :: "uuid_lib \<Rightarrow> RollbackTransaction \<Rightarrow> RollbackTransaction \<Rightarrow> bool" for U where
  entry: "record_initramfs_entry U b now t = (t', Inr ()) \<Longrightarrow> tx_step U t t'"
| mark: "record_checkpoint U c now t = (t', Inr ()) \<Longrightarrow> tx_step U t t'"
| move: "transition U p now t = (t', Inr ()) \<Longrightarrow> tx_step U t t'"
| start: "begin_apply U b now t = (t', Inr ()) \<Longrightarrow> tx_step U t t'"
| target: "record_target_boot U b now t = (t', Inr ()) \<Longrightarrow> tx_step U t t'"
| fail: "record_failure U m now t = (t', Inr ()) \<Longrightarrow> tx_step U t t'"

lemmas tx_op_defs = record_initramfs_entry_def record_checkpoint_def transition_def begin_apply_def
  record_failure_def

lemma u32_succ:
  assumes "x < (3 :: u32)"
  shows "x + 1 \<le> 3" and "x + 1 \<noteq> 0" and "unat (x + 1) = unat x + 1"
proof -
  have x: "unat x < 3" using assms by (simp add: word_less_nat_alt)
  then show u: "unat (x + 1) = unat x + 1" by (simp add: unat_word_ariths)
  with x show "x + 1 \<le> 3" by (simp add: word_le_nat_alt)
  from u show "x + 1 \<noteq> 0" by (metis Suc_eq_plus1 nat.distinct(1) unat_0)
qed

lemma tx_step_valid: "tx_step U t t' \<Longrightarrow> tx_valid U t'"
  by (induction rule: tx_step.induct)
    (auto simp: tx_op_defs record_target_boot_def split: if_splits sum.splits)

lemma tx_step_binding: "tx_step U t t' \<Longrightarrow> tx_binding t' = tx_binding t"
  by (induction rule: tx_step.induct)
    (auto simp: tx_op_defs record_target_boot_def split: if_splits sum.splits)

text \<open>Phases are ranked; no operation moves a transaction up.\<close>

fun phase_rank :: "RollbackPhase \<Rightarrow> nat" where
  "phase_rank Preparing = 6"
| "phase_rank Armed = 5"
| "phase_rank Applying = 4"
| "phase_rank AppliedAwaitingBoot = 3"
| "phase_rank BootedUnconfirmed = 2"
| "phase_rank Reverting = 1"
| "phase_rank _ = 0"

lemma can_transition_lowers:
  "RollbackPhase_can_transition_to p q \<Longrightarrow> phase_rank q < phase_rank p"
  by (cases p) auto

lemma terminal_iff_rank: "RollbackPhase_is_terminal p \<longleftrightarrow> phase_rank p = 0"
  by (cases p) auto

lemma tx_step_phase:
  "tx_step U t t' \<Longrightarrow> tx_phase t' = tx_phase t \<or> phase_rank (tx_phase t') < phase_rank (tx_phase t)"
  by (induction rule: tx_step.induct)
    (auto simp: tx_op_defs record_target_boot_def terminal_iff_rank
      dest: can_transition_lowers split: if_splits sum.splits)

lemma tx_step_attempts:
  assumes "tx_step U t t'"
  shows "unat (tx_initramfs_attempts t) \<le> unat (tx_initramfs_attempts t')"
  using assms u32_succ(3) [of "tx_initramfs_attempts t"]
  by (cases rule: tx_step.cases)
    (auto simp: tx_op_defs record_target_boot_def MAX_APPLY_ATTEMPTS_def not_le
      split: if_splits sum.splits)

definition tx_progress :: "uuid_lib \<Rightarrow> RollbackTransaction \<Rightarrow> RollbackTransaction \<Rightarrow> bool" where
  "tx_progress U t t' \<longleftrightarrow>
     tx_valid U t' \<and> tx_binding t' = tx_binding t
     \<and> (tx_phase t' = tx_phase t \<or> phase_rank (tx_phase t') < phase_rank (tx_phase t))
     \<and> unat (tx_initramfs_attempts t) \<le> unat (tx_initramfs_attempts t')"

lemma tx_steps_progress:
  assumes "(tx_step U)\<^sup>*\<^sup>* t t'" and "tx_valid U t"
  shows "tx_progress U t t'"
  using assms
proof (induction rule: rtranclp_induct)
  case base
  then show ?case by (simp add: tx_progress_def)
next
  case (step u v)
  then have "tx_progress U t u" by blast
  with tx_step_valid [OF step(2)] tx_step_binding [OF step(2)] tx_step_phase [OF step(2)]
    tx_step_attempts [OF step(2)]
  show ?case unfolding tx_progress_def by (metis le_trans order_less_trans)
qed

text \<open>The nominal path: each operation succeeds where the engine calls it.\<close>

lemma attempts_after_entry:
  assumes "attempts_consistent U t" and "tx_apply_attempts t \<le> n" and "n \<le> 3" and "n \<noteq> 0"
    and "canonical_uuid U b" and "tx_created_at t \<le> now"
  shows "attempts_consistent U
    (t\<lparr>tx_initramfs_attempts := n, tx_initramfs_boot_id := Some b, tx_checkpoint := Some c,
       tx_checkpoint_at := Some now, tx_updated_at := now\<rparr>)"
  using assms by (auto simp: attempts_consistent_def)

lemma attempts_after_start:
  assumes "attempts_consistent U t" and "tx_initramfs_boot_id t = Some b"
    and "n \<le> tx_initramfs_attempts t" and "n \<noteq> 0" and "tx_created_at t \<le> now"
  shows "attempts_consistent U
    (t\<lparr>tx_phase := Applying, tx_apply_attempts := n, tx_applying_boot_id := Some b,
       tx_checkpoint := Some c, tx_checkpoint_at := Some now, tx_updated_at := now\<rparr>)"
  using assms by (auto simp: attempts_consistent_def)

lemmas tx_consistent_defs = restart_consistent_def failure_consistent_def restarts_after_apply_def

lemma record_initramfs_entry_ok:
  assumes "tx_valid U t" and "tx_phase t = Armed \<or> tx_phase t = Applying"
    and "tx_initramfs_attempts t < 3" and "canonical_uuid U b" and "tx_created_at t \<le> now"
  shows "record_initramfs_entry U b now t =
     (t\<lparr>tx_initramfs_attempts := tx_initramfs_attempts t + 1, tx_initramfs_boot_id := Some b,
        tx_checkpoint := Some InitramfsEntered, tx_checkpoint_at := Some now,
        tx_updated_at := now\<rparr>, Inr ())" (is "_ = (?t, _)")
proof -
  note parts = assms(1) [unfolded tx_valid_parts]
  have "tx_apply_attempts t \<le> tx_initramfs_attempts t + 1"
    using parts u32_succ(3) [OF assms(3)]
    by (simp add: attempts_consistent_def word_le_nat_alt)
  with parts assms u32_succ [OF assms(3)] have "attempts_consistent U ?t"
    by (intro attempts_after_entry) auto
  moreover have "restart_consistent U ?t" "failure_consistent ?t"
    using parts by (auto simp: tx_consistent_defs split: if_splits)
  ultimately have "tx_valid U ?t" by (intro tx_valid_rebound [OF assms(1)]) simp_all
  with assms show ?thesis
    by (simp add: record_initramfs_entry_def MAX_APPLY_ATTEMPTS_def not_le)
qed

lemma record_checkpoint_ok:
  assumes "tx_valid U t" and "tx_initramfs_boot_id t \<noteq> None" and "tx_created_at t \<le> now"
  shows "record_checkpoint U c now t =
     (t\<lparr>tx_checkpoint := Some c, tx_checkpoint_at := Some now, tx_updated_at := now\<rparr>, Inr ())"
    (is "_ = (?t, _)")
proof -
  note parts = assms(1) [unfolded tx_valid_parts]
  have "attempts_consistent U ?t" using parts assms by (auto simp: attempts_consistent_def)
  moreover have "restart_consistent U ?t" "failure_consistent ?t"
    using parts by (auto simp: tx_consistent_defs split: if_splits)
  ultimately have "tx_valid U ?t" by (intro tx_valid_rebound [OF assms(1)]) simp_all
  with assms(2) show ?thesis by (simp add: record_checkpoint_def)
qed

lemma begin_apply_ok:
  assumes "tx_valid U t" and "tx_phase t = Armed \<or> tx_phase t = Applying"
    and "tx_apply_attempts t < tx_initramfs_attempts t"
    and "tx_initramfs_boot_id t = Some b" and "tx_created_at t \<le> now"
  shows "begin_apply U b now t =
     (t\<lparr>tx_phase := Applying, tx_apply_attempts := tx_apply_attempts t + 1,
        tx_applying_boot_id := Some b, tx_checkpoint := Some ApplyStarted,
        tx_checkpoint_at := Some now, tx_updated_at := now\<rparr>, Inr ())" (is "_ = (?t, _)")
proof -
  note parts = assms(1) [unfolded tx_valid_parts]
  from parts assms(3) have n: "unat (tx_apply_attempts t) < unat (tx_initramfs_attempts t)"
    "unat (tx_initramfs_attempts t) \<le> 3"
    by (simp_all add: attempts_consistent_def word_le_nat_alt word_less_nat_alt)
  then have lt: "tx_apply_attempts t < 3" by (simp add: word_less_nat_alt)
  from u32_succ(3) [OF lt] n have "tx_apply_attempts t + 1 \<le> tx_initramfs_attempts t"
    by (simp add: word_le_nat_alt)
  with parts assms u32_succ(2) [OF lt] have "attempts_consistent U ?t"
    by (intro attempts_after_start) auto
  moreover have "restart_consistent U ?t" "failure_consistent ?t"
    using parts assms(2) by (auto simp: tx_consistent_defs)
  ultimately have "tx_valid U ?t" by (intro tx_valid_rebound [OF assms(1)]) simp_all
  with assms lt show ?thesis by (simp add: begin_apply_def MAX_APPLY_ATTEMPTS_def not_le)
qed

lemma transition_ok:
  assumes "tx_valid U t" and "RollbackPhase_can_transition_to (tx_phase t) next"
    and "tx_created_at t \<le> now" and "next \<noteq> Failed" and "next \<noteq> Applying"
    and "restarts_after_apply t \<Longrightarrow> next = BootedUnconfirmed \<longrightarrow> tx_target_boot_id t \<noteq> None"
    and "\<not> restarts_after_apply t \<Longrightarrow> next \<noteq> AppliedAwaitingBoot"
  shows "transition U next now t = (t\<lparr>tx_phase := next, tx_updated_at := now\<rparr>, Inr ())"
    (is "_ = (?t, _)")
proof -
  note parts = assms(1) [unfolded tx_valid_parts]
  have "attempts_consistent U ?t"
    using parts assms by (cases "tx_phase t") (auto simp: attempts_consistent_def)
  moreover have "restart_consistent U ?t"
    using parts assms by (cases "tx_phase t") (auto simp: tx_consistent_defs)
  moreover have "failure_consistent ?t"
    using parts assms(2,4) by (cases "tx_phase t") (auto simp: failure_consistent_def)
  ultimately have "tx_valid U ?t" by (intro tx_valid_rebound [OF assms(1)]) simp_all
  with assms(2) show ?thesis by (simp add: transition_def)
qed

lemma record_target_boot_ok:
  assumes "tx_valid U t" and "tx_phase t = AppliedAwaitingBoot" and "canonical_uuid U b"
    and "tx_applying_boot_id t \<noteq> Some b" and "tx_created_at t \<le> now"
  shows "record_target_boot U b now t =
     (t\<lparr>tx_target_boot_id := Some b, tx_phase := BootedUnconfirmed, tx_updated_at := now\<rparr>, Inr ())"
    (is "_ = (?t, _)")
proof -
  note parts = assms(1) [unfolded tx_valid_parts]
  from parts assms(2) have restarts: "restarts_after_apply t"
    by (auto simp: restart_consistent_def split: if_splits)
  have "attempts_consistent U ?t" using parts assms by (auto simp: attempts_consistent_def)
  moreover have "restart_consistent U ?t" "failure_consistent ?t"
    using parts assms restarts by (auto simp: tx_consistent_defs split: if_splits)
  ultimately have "tx_valid U ?t" by (intro tx_valid_rebound [OF assms(1)]) simp_all
  with assms show ?thesis
    by (simp add: record_target_boot_def transition_def split: sum.splits)
      (metis sum.distinct(1) validate_uuid_ok_iff)
qed

lemma chars_clean_failure: "chars (clean_failure m) = take 2000 (map blank_control (chars m))"
  unfolding clean_failure_def MAX_FAILURE_LENGTH_def by (rule chars_clean)

lemma clean_failure_ok:
  assumes "m \<noteq> []"
  shows "clean_failure m \<noteq> [] \<and> length (chars (clean_failure m)) \<le> 2000
    \<and> \<not> list_ex char_is_control (chars (clean_failure m))"
proof -
  from assms have "take 2000 (map blank_control (chars m)) \<noteq> []" by simp
  then have "chars (clean_failure m) \<noteq> []" unfolding chars_clean_failure .
  then have "clean_failure m \<noteq> []" by auto
  moreover have "\<not> list_ex char_is_control (take 2000 (map blank_control (chars m)))"
    by (auto simp: list_ex_iff dest!: in_set_takeD)
  ultimately show ?thesis by (simp add: chars_clean_failure)
qed

lemma record_failure_ok:
  assumes "tx_valid U t" and "\<not> RollbackPhase_is_terminal (tx_phase t)"
    and "m \<noteq> []" and "tx_created_at t \<le> now"
  shows "record_failure U m now t =
     (t\<lparr>tx_phase := Failed, tx_failure := Some (clean_failure m), tx_updated_at := now\<rparr>, Inr ())"
    (is "_ = (?t, _)")
proof -
  note parts = assms(1) [unfolded tx_valid_parts]
  have "attempts_consistent U ?t" using parts assms by (auto simp: attempts_consistent_def)
  moreover have "restart_consistent U ?t"
    using parts by (auto simp: tx_consistent_defs split: if_splits)
  moreover have "failure_consistent ?t" using clean_failure_ok [OF assms(3)]
    by (simp add: failure_consistent_def)
  ultimately have "tx_valid U ?t" by (intro tx_valid_rebound [OF assms(1)]) simp_all
  with assms(2) show ?thesis by (simp add: record_failure_def)
qed

subsection \<open>New and migrated transactions\<close>

definition digest_ok :: "string \<Rightarrow> bool" where
  "digest_ok d \<longleftrightarrow> is_sha256 d \<and> \<not> all_zero d"

lemma validate_digest_ok_iff: "validate_digest d n = Inr () \<longleftrightarrow> is_sha256 d"
  by (auto simp: validate_digest_def is_sha256_def)

lemma new_valid_iff:
  "tx_valid U (RollbackTransaction_new U i now target fallback root_uuid krel ks is cs) \<longleftrightarrow>
     target \<noteq> fallback \<and> canonical_uuid U root_uuid \<and> validate_kernel_release krel = Inr ()
     \<and> digest_ok ks \<and> digest_ok is \<and> digest_ok cs"
  by (auto simp: tx_valid_parts RollbackTransaction_new_def validate_scope_def validate_artifacts_def
      attempts_consistent_def tx_consistent_defs version_defs digest_ok_def validate_digest_ok_iff)

lemma zero_digest_ok: "is_sha256 zero_digest" "all_zero zero_digest"
  by (simp_all add: zero_digest_def is_sha256_def all_zero_def list_all_iff is_lower_hex_def
      is_ascii_digit_def)

lemma cancelled_diagnostic_ok:
  "cancelled_diagnostic \<noteq> [] \<and> length (chars cancelled_diagnostic) \<le> 2000
   \<and> \<not> list_ex char_is_control (chars cancelled_diagnostic)"
  unfolding cancelled_diagnostic_def by code_simp

text \<open>A version 1 record that its own writer could have produced.\<close>

definition v1_sane :: "uuid_lib \<Rightarrow> LegacyRollbackTransactionV1 \<Rightarrow> bool" where
  "v1_sane U l \<longleftrightarrow>
     v1_target_deployment_id l \<noteq> v1_fallback_deployment_id l
     \<and> canonical_uuid U (v1_root_filesystem_uuid l)
     \<and> validate_kernel_release (v1_kernel_release l) = Inr ()
     \<and> v1_grub_entry_id l = grub_entry_name U (v1_id l)
     \<and> v1_created_at l \<le> v1_updated_at l \<and> v1_apply_attempts l \<le> 3
     \<and> (v1_apply_attempts l = 0 \<longleftrightarrow> v1_applying_boot_id l = None)
     \<and> (\<forall>b. v1_applying_boot_id l = Some b \<longrightarrow> canonical_uuid U b)
     \<and> v1_phase l \<noteq> AppliedAwaitingBoot
     \<and> (v1_phase l \<in> {Preparing, Armed} \<longrightarrow> v1_apply_attempts l = 0)
     \<and> (v1_phase l \<notin> {Preparing, Armed, Failed} \<longrightarrow> v1_apply_attempts l \<noteq> 0)
     \<and> (v1_phase l = Failed \<longleftrightarrow> v1_failure l \<noteq> None)
     \<and> (\<forall>f. v1_failure l = Some f \<longrightarrow>
           f \<noteq> [] \<and> length (chars f) \<le> 2000 \<and> \<not> list_ex char_is_control (chars f))"

lemma LegacyV1_fields [simp]:
  "tx_phase (LegacyV1_migrate now l) = (if v1_phase l \<in> {Preparing, Armed} then Failed else v1_phase l)"
  "tx_created_at (LegacyV1_migrate now l) = v1_created_at l"
  "tx_updated_at (LegacyV1_migrate now l) =
     (if v1_phase l \<in> {Preparing, Armed} then now else v1_updated_at l)"
  "tx_initramfs_attempts (LegacyV1_migrate now l) = v1_apply_attempts l"
  "tx_apply_attempts (LegacyV1_migrate now l) = v1_apply_attempts l"
  "tx_initramfs_boot_id (LegacyV1_migrate now l) = v1_applying_boot_id l"
  "tx_applying_boot_id (LegacyV1_migrate now l) = v1_applying_boot_id l"
  "tx_checkpoint (LegacyV1_migrate now l) = LegacyV1_checkpoint (v1_apply_attempts l)
     (if v1_phase l \<in> {Preparing, Armed} then Failed else v1_phase l)"
  "tx_checkpoint_at (LegacyV1_migrate now l) =
     (if v1_apply_attempts l = 0 then None else Some (v1_updated_at l))"
  "tx_failure (LegacyV1_migrate now l) =
     (if v1_phase l \<in> {Preparing, Armed} then Some cancelled_diagnostic else v1_failure l)"
  "tx_target_boot_id (LegacyV1_migrate now l) = None"
  "tx_target_kernel_release (LegacyV1_migrate now l) = None"
  "restarts_after_apply (LegacyV1_migrate now l) = False"
  by (simp_all add: LegacyV1_migrate_def Let_def LegacyV1_checkpoint_def restarts_after_apply_def
      version_defs)

lemma LegacyV1_checkpoint_None [simp]: "LegacyV1_checkpoint n p = None \<longleftrightarrow> n = 0"
  by (simp add: LegacyV1_checkpoint_def)

lemma LegacyV1_migrate_valid:
  assumes "v1_sane U l" and "v1_created_at l \<le> now"
  shows "tx_valid U (LegacyV1_migrate now l)"
  unfolding tx_valid_parts
proof (intro conjI)
  show "all_ok (validate_scope U (LegacyV1_migrate now l))"
    using assms by (simp add: validate_scope_def LegacyV1_migrate_def Let_def v1_sane_def version_defs)
  show "all_ok (validate_artifacts U (LegacyV1_migrate now l))"
    using assms by (simp add: validate_artifacts_def LegacyV1_migrate_def Let_def v1_sane_def
        version_defs validate_digest_ok_iff zero_digest_ok)
  show "attempts_consistent U (LegacyV1_migrate now l)"
    using assms by (auto simp: attempts_consistent_def v1_sane_def)
  show "restart_consistent U (LegacyV1_migrate now l)"
    using assms by (simp add: restart_consistent_def v1_sane_def)
  show "failure_consistent (LegacyV1_migrate now l)"
    using assms cancelled_diagnostic_ok by (auto simp: failure_consistent_def v1_sane_def)
qed

subsection \<open>Properties\<close>


definition example_digest :: "char \<Rightarrow> string" where
  "example_digest c = replicate 64 c"

definition example_transaction :: RollbackTransaction where
  "example_transaction =
     (RollbackTransaction_new example_uuid_lib 3 100 1 2 ''u1'' ''7.0.0-28''
        (example_digest CHR ''a'') (example_digest CHR ''b'') (example_digest CHR ''c''))
       \<lparr>tx_phase := Armed\<rparr>"

lemma example_transaction_valid: "tx_valid example_uuid_lib example_transaction"
  unfolding tx_valid_def by code_simp

lemma example_canonical: "canonical_uuid example_uuid_lib ''u2''"
  by code_simp

definition example_entered :: RollbackTransaction where
  "example_entered = fst (record_initramfs_entry example_uuid_lib ''u2'' 110 example_transaction)"

lemma example_entry:
  "record_initramfs_entry example_uuid_lib ''u2'' 110 example_transaction = (example_entered, Inr ())"
  unfolding example_entered_def
  by (subst (1 2) record_initramfs_entry_ok)
    (simp_all add: example_transaction_valid example_canonical,
     simp_all add: example_transaction_def RollbackTransaction_new_def)


text \<open>
  The nominal path is never refused by the transaction's own checks: from a valid
  armed transaction with entries left, a canonical boot identifier and a clock that is
  not behind the transaction's creation, recording the entry, starting to apply and
  moving to the phase its protocol asks for all succeed, in the applying boot.
\<close>

theorem nominal_apply_path:
  assumes "tx_valid U t" and "tx_phase t = Armed" and "tx_initramfs_attempts t < 3"
    and "canonical_uuid U b" and "tx_created_at t \<le> n1" and "tx_created_at t \<le> n2"
    and "tx_created_at t \<le> n3"
    and "done = (if restarts_after_apply t then AppliedAwaitingBoot else BootedUnconfirmed)"
  shows "\<exists>t1 t2 t3. record_initramfs_entry U b n1 t = (t1, Inr ())
    \<and> begin_apply U b n2 t1 = (t2, Inr ()) \<and> transition U done n3 t2 = (t3, Inr ())
    \<and> tx_applying_boot_id t3 = Some b \<and> tx_phase t3 = done \<and> tx_valid U t3"
proof -
  have A: "tx_phase t = Armed \<or> tx_phase t = Applying" using assms(2) by simp
  note entry = record_initramfs_entry_ok [OF assms(1) A assms(3-5)]
  define t1 where "t1 = fst (record_initramfs_entry U b n1 t)"
  have v1: "tx_valid U t1" using entry tx_step_valid [OF tx_step.entry, of U b n1 t t1]
    by (simp add: t1_def)
  have "tx_apply_attempts t = 0"
    using assms(1,2) by (simp add: tx_valid_parts attempts_consistent_def)
  then have "tx_apply_attempts t1 < tx_initramfs_attempts t1"
    using u32_succ(2) [OF assms(3)] by (simp add: t1_def entry word_gt_0)
  then have start: "begin_apply U b n2 t1 =
      (t1\<lparr>tx_phase := Applying, tx_apply_attempts := tx_apply_attempts t1 + 1,
          tx_applying_boot_id := Some b, tx_checkpoint := Some ApplyStarted,
          tx_checkpoint_at := Some n2, tx_updated_at := n2\<rparr>, Inr ())"
    by (intro begin_apply_ok [OF v1]) (use assms(2,6) in \<open>simp_all add: t1_def entry\<close>)
  define t2 where "t2 = fst (begin_apply U b n2 t1)"
  have v2: "tx_valid U t2" using start tx_step_valid [OF tx_step.start, of U b n2 t1 t2]
    by (simp add: t2_def)
  have fields: "tx_phase t2 = Applying" "tx_created_at t2 = tx_created_at t"
    "tx_applying_boot_id t2 = Some b" "tx_binding t2 = tx_binding t"
    by (simp_all only: t2_def start fst_conv) (simp_all add: t1_def entry)
  then have "restarts_after_apply t2 = restarts_after_apply t" by (intro restarts_binding)
  then have "transition U done n3 t2 = (t2\<lparr>tx_phase := done, tx_updated_at := n3\<rparr>, Inr ())"
    using assms(7,8) v2 by (intro transition_ok) (auto simp: fields)
  moreover from this have "tx_valid U (t2\<lparr>tx_phase := done, tx_updated_at := n3\<rparr>)"
    by (rule tx_step_valid [OF tx_step.move])
  moreover have "record_initramfs_entry U b n1 t = (t1, Inr ())" by (simp add: t1_def entry)
  moreover have "begin_apply U b n2 t1 = (t2, Inr ())" by (simp only: t2_def start fst_conv)
  ultimately show ?thesis using fields(3) by fastforce
qed

theorem nominal_apply_path_witness:
  "\<exists>t1 t2 t3. record_initramfs_entry example_uuid_lib ''u2'' 110 example_transaction = (t1, Inr ())
    \<and> begin_apply example_uuid_lib ''u2'' 120 t1 = (t2, Inr ())
    \<and> transition example_uuid_lib AppliedAwaitingBoot 130 t2 = (t3, Inr ())"
  using nominal_apply_path [OF example_transaction_valid _ _ example_canonical,
      of 110 120 130 AppliedAwaitingBoot]
  by (auto simp: example_transaction_def RollbackTransaction_new_def restarts_after_apply_def)

text \<open>
  Recording a failure always succeeds on a valid transaction that is not terminal,
  whatever the diagnostic contains as long as it is not empty and the clock is not
  behind the transaction's creation: control characters become spaces, the text is cut
  at 2000 characters, and the result is a valid transaction in phase \<open>Failed\<close>.
\<close>

theorem record_failure_total:
  assumes "tx_valid U t" and "\<not> RollbackPhase_is_terminal (tx_phase t)"
    and "m \<noteq> []" and "tx_created_at t \<le> now"
  shows "\<exists>t'. record_failure U m now t = (t', Inr ()) \<and> tx_phase t' = Failed
    \<and> tx_failure t' = Some (clean_failure m) \<and> tx_valid U t'
    \<and> length (chars (clean_failure m)) \<le> 2000
    \<and> \<not> list_ex char_is_control (chars (clean_failure m))"
  using record_failure_ok [OF assms] clean_failure_ok [OF assms(3)]
    tx_step_valid [OF tx_step.fail, of U m now t] by force

theorem record_failure_total_witness:
  "\<exists>t'. record_failure example_uuid_lib [CHR 0x0A, CHR ''x''] 200 example_transaction = (t', Inr ())
    \<and> tx_phase t' = Failed"
  using record_failure_total [OF example_transaction_valid, of "[CHR 0x0A, CHR ''x'']" 200]
  by (auto simp: example_transaction_def RollbackTransaction_new_def)

text \<open>
  Upgrading a version 1 record never leaves a rollback armed: the migrated
  transaction is valid, a pending one becomes a \<open>Failed\<close> transaction with the
  cancellation diagnostic, any other phase is kept, and its recovery artifacts are the
  zero digest, which no current protocol accepts.
\<close>

theorem legacy_v1_never_armed:
  assumes "v1_sane U l" and "v1_created_at l \<le> now"
  shows "RollbackTransaction_validate U (LegacyV1_migrate now l) = Inr ()
    \<and> tx_phase (LegacyV1_migrate now l) \<notin> {Preparing, Armed}
    \<and> (v1_phase l \<in> {Preparing, Armed} \<longrightarrow>
         tx_phase (LegacyV1_migrate now l) = Failed
         \<and> tx_failure (LegacyV1_migrate now l) = Some cancelled_diagnostic)
    \<and> (v1_phase l \<notin> {Preparing, Armed} \<longrightarrow>
         tx_phase (LegacyV1_migrate now l) = v1_phase l)
    \<and> \<not> tx_valid U ((LegacyV1_migrate now l)\<lparr>tx_recovery_protocol_version := 2\<rparr>)"
proof -
  have "\<not> tx_valid U ((LegacyV1_migrate now l)\<lparr>tx_recovery_protocol_version := 2\<rparr>)"
    by (simp add: tx_valid_iff validate_artifacts_def LegacyV1_migrate_def Let_def version_defs
        zero_digest_ok)
  moreover have "RollbackTransaction_validate U (LegacyV1_migrate now l) = Inr ()"
    using LegacyV1_migrate_valid [OF assms] by (simp add: tx_valid_def)
  ultimately show ?thesis by auto
qed

definition example_v1 :: LegacyRollbackTransactionV1 where
  "example_v1 =
     \<lparr>v1_id = 3, v1_target_deployment_id = 1, v1_fallback_deployment_id = 2, v1_phase = Armed,
      v1_created_at = 10, v1_updated_at = 20, v1_apply_attempts = 0, v1_applying_boot_id = None,
      v1_root_filesystem_uuid = ''u1'', v1_kernel_release = ''7.0.0-28'',
      v1_grub_entry_id = ''anduinos-btrfs-snapshots-manager-u3'', v1_failure = None\<rparr>"

lemma example_v1_sane: "v1_sane example_uuid_lib example_v1"
proof -
  have "canonical_uuid example_uuid_lib ''u1''" "validate_kernel_release ''7.0.0-28'' = Inr ()"
    "grub_entry_name example_uuid_lib 3 = ''anduinos-btrfs-snapshots-manager-u3''"
    by code_simp+
  then show ?thesis by (simp add: v1_sane_def example_v1_def)
qed

theorem legacy_v1_never_armed_witness:
  "v1_phase example_v1 = Armed \<and> tx_phase (LegacyV1_migrate 30 example_v1) = Failed"
  using legacy_v1_never_armed [OF example_v1_sane, of 30] by (simp add: example_v1_def)

end
