(* ===== verification/Atomic_File.thy ===== *)
theory Atomic_File
  imports World
begin

text \<open>
  The write-to-temporary-then-rename protocol that every store of the recovery engine
  uses to replace a small file, and the contract the stores offer to their clients.
  \<open>replace_file\<close> is the closure that \<open>TransactionStore::write_atomic\<close> and
  \<open>archive\<close> (\<open>transaction.rs\<close>), \<open>DeploymentStore::write_record_atomic\<close>
  (\<open>store.rs\<close>) and \<open>save_to\<close> (\<open>lineage.rs\<close>) share. Whatever call fails, the
  target holds its old content or the whole new one.
\<close>

subsection \<open>Hoare triples\<close>

definition io_triple ::
  "(world \<Rightarrow> bool) \<Rightarrow> ('e, 'a) io \<Rightarrow> ('a \<Rightarrow> world \<Rightarrow> bool) \<Rightarrow> ('e \<Rightarrow> world \<Rightarrow> bool) \<Rightarrow> bool" where
  "io_triple P m Q E \<longleftrightarrow>
     (\<forall>w. P w \<longrightarrow> (case m w of (Inl e, w') \<Rightarrow> E e w' | (Inr x, w') \<Rightarrow> Q x w'))"

lemma io_tripleD_ok: "io_triple P m Q E \<Longrightarrow> P w \<Longrightarrow> m w = (Inr x, w') \<Longrightarrow> Q x w'"
  unfolding io_triple_def by (metis (no_types, lifting) case_prod_conv sum.simps(6))

lemma io_tripleD_err: "io_triple P m Q E \<Longrightarrow> P w \<Longrightarrow> m w = (Inl e, w') \<Longrightarrow> E e w'"
  unfolding io_triple_def by (metis (no_types, lifting) case_prod_conv sum.simps(5))

lemma io_tripleI:
  assumes "\<And>w x w'. P w \<Longrightarrow> m w = (Inr x, w') \<Longrightarrow> Q x w'"
    and "\<And>w e w'. P w \<Longrightarrow> m w = (Inl e, w') \<Longrightarrow> E e w'"
  shows "io_triple P m Q E"
  using assms by (auto simp: io_triple_def split: prod.splits sum.splits)

lemma triple_weaken:
  assumes "io_triple P' m Q' E'" and "\<And>w. P w \<Longrightarrow> P' w" and "\<And>x w. Q' x w \<Longrightarrow> Q x w"
    and "\<And>e w. E' e w \<Longrightarrow> E e w"
  shows "io_triple P m Q E"
  by (rule io_tripleI) (blast dest: assms(2) intro: assms(3,4) io_tripleD_ok [OF assms(1)]
      io_tripleD_err [OF assms(1)])+

lemma triple_return [io_rules]: "(\<And>w. P w \<Longrightarrow> Q x w) \<Longrightarrow> io_triple P (io_return x) Q E"
  by (simp add: io_triple_def io_return_def)

lemma triple_throw [io_rules]: "(\<And>w. P w \<Longrightarrow> E e w) \<Longrightarrow> io_triple P (io_throw e) Q E"
  by (simp add: io_triple_def io_throw_def)

lemma triple_bind:
  assumes "io_triple P m Q E" and "\<And>x. io_triple (Q x) (f x) R E"
  shows "io_triple P (io_bind m f) R E"
proof -
  have "case io_bind m f w of (Inl e, w') \<Rightarrow> E e w' | (Inr x, w') \<Rightarrow> R x w'" if "P w" for w
  proof (cases "m w")
    case (Pair r w')
    show ?thesis
    proof (cases r)
      case (Inl e)
      with io_tripleD_err [OF assms(1) that] Pair show ?thesis by (simp add: io_bind_def)
    next
      case (Inr x)
      with io_tripleD_ok [OF assms(1) that] Pair have "Q x w'" by simp
      with assms(2) [of x] Pair Inr show ?thesis by (simp add: io_bind_def io_triple_def)
    qed
  qed
  then show ?thesis by (simp add: io_triple_def)
qed

lemma triple_match:
  assumes "io_triple P m Q E'" and "\<And>x. io_triple (Q x) (f (Inr x)) R E"
    and "\<And>e. io_triple (E' e) (f (Inl e)) R E"
  shows "io_triple P (io_match m f) R E"
proof -
  have "case io_match m f w of (Inl e, w') \<Rightarrow> E e w' | (Inr x, w') \<Rightarrow> R x w'" if "P w" for w
  proof (cases "m w")
    case (Pair r w')
    show ?thesis
    proof (cases r)
      case (Inl e)
      with io_tripleD_err [OF assms(1) that] Pair have "E' e w'" by simp
      with assms(3) [of e] Pair Inl show ?thesis by (simp add: io_match_def io_triple_def)
    next
      case (Inr x)
      with io_tripleD_ok [OF assms(1) that] Pair have "Q x w'" by simp
      with assms(2) [of x] Pair Inr show ?thesis by (simp add: io_match_def io_triple_def)
    qed
  qed
  then show ?thesis by (simp add: io_triple_def)
qed

lemma triple_map_err:
  assumes "io_triple P m Q (\<lambda>e. E (h e))"
  shows "io_triple P (io_map_err h m) Q E"
  unfolding io_map_err_def by (rule triple_match [OF assms]) (auto intro: io_rules)

lemma triple_if:
  "(c \<Longrightarrow> io_triple P m Q R) \<Longrightarrow> (\<not> c \<Longrightarrow> io_triple P m' Q R) \<Longrightarrow> io_triple P (if c then m else m') Q R"
  by simp

lemma triple_case_option:
  "(x = None \<Longrightarrow> io_triple P m Q R) \<Longrightarrow> (\<And>y. x = Some y \<Longrightarrow> io_triple P (f y) Q R) \<Longrightarrow>
     io_triple P (case x of None \<Rightarrow> m | Some y \<Rightarrow> f y) Q R"
  by (cases x) simp_all

lemma triple_case_prod:
  "(\<And>a b. x = (a, b) \<Longrightarrow> io_triple P (f a b) Q R) \<Longrightarrow> io_triple P (case x of (a, b) \<Rightarrow> f a b) Q R"
  by (cases x) simp

lemma triple_case_file_type:
  "(\<And>b. io_triple P (f b) Q E) \<Longrightarrow> io_triple P g Q E \<Longrightarrow> io_triple P h Q E \<Longrightarrow>
     io_triple P (case t of Regular b \<Rightarrow> f b | Directory \<Rightarrow> g | Special \<Rightarrow> h) Q E"
  by (simp split: file_type.splits)

lemma triple_syscall:
  assumes "\<And>w. P w \<Longrightarrow> E (nodes w)"
    and "\<And>w x ns. P w \<Longrightarrow> f (nodes w) = (Inr x, ns) \<Longrightarrow> Q x ns"
    and "\<And>w e ns. P w \<Longrightarrow> f (nodes w) = (Inl e, ns) \<Longrightarrow> E ns"
  shows "io_triple P (syscall f) (\<lambda>x w. Q x (nodes w)) (\<lambda>e w. E (nodes w))"
  using assms
  by (fastforce simp: io_triple_def syscall_def tick_def split: option.splits prod.splits sum.splits)

subsection \<open>Replacing a file\<close>

definition file_holds :: "tree \<Rightarrow> path \<Rightarrow> bytes \<Rightarrow> bool" where
  "file_holds ns p b \<longleftrightarrow> (\<exists>i. map_of ns p = Some i \<and> ftype i = Regular b)"

definition sync_directory :: "path \<Rightarrow> (io_error, unit) io" where
  "sync_directory d = io_bind (open_dir d) (\<lambda>_. sync_all d)"

definition newline :: bytes where
  "newline = [CHR 0x0A]"

text \<open>The closure after the temporary file was created: write, sync, rename, sync the directory.\<close>

definition replace_file :: "path \<Rightarrow> path \<Rightarrow> path \<Rightarrow> bytes \<Rightarrow> (io_error, unit) io" where
  "replace_file d temporary target serialized =
     io_bind (write_all temporary serialized) (\<lambda>_.
     io_bind (write_all temporary newline) (\<lambda>_.
     io_bind (sync_all temporary) (\<lambda>_.
     io_bind (fs_rename temporary target) (\<lambda>_.
     sync_directory d))))"

text \<open>The variant that refuses to replace: a hard link to the new name, then the old name goes.\<close>

definition link_file :: "path \<Rightarrow> path \<Rightarrow> path \<Rightarrow> bytes \<Rightarrow> (io_error, unit) io" where
  "link_file d temporary target serialized =
     io_bind (write_all temporary serialized) (\<lambda>_.
     io_bind (write_all temporary newline) (\<lambda>_.
     io_bind (sync_all temporary) (\<lambda>_.
     io_bind (hard_link temporary target) (\<lambda>_.
     io_match (remove_file temporary) (\<lambda>_.
     sync_directory d)))))"

lemma fs_append_holds:
  "file_holds ns p b \<Longrightarrow> file_holds (fs_append p c ns) p (b @ c)"
  by (auto simp: file_holds_def fs_append_def)

lemma fs_append_other: "q \<noteq> p \<Longrightarrow> map_of (fs_append p c ns) q = map_of ns q"
  by (rule map_of_fs_append_other)

text \<open>A state of the protocol: the temporary holds \<open>b\<close>, the target is still the inode \<open>i\<close>.\<close>

definition staged :: "path \<Rightarrow> bytes \<Rightarrow> path \<Rightarrow> inode option \<Rightarrow> tree \<Rightarrow> bool" where
  "staged tmp b target i ns \<longleftrightarrow> file_holds ns tmp b \<and> map_of ns target = i"

lemma triple_write_all:
  assumes "tmp \<noteq> target"
  shows "io_triple (\<lambda>w. staged tmp b target i (nodes w)) (write_all tmp c)
    (\<lambda>_ w. staged tmp (b @ c) target i (nodes w)) (\<lambda>_ w. map_of (nodes w) target = i)"
  using assms
  by (auto simp: io_triple_def write_all_def tick_def staged_def fs_append_holds fs_append_other
      split: option.splits)

lemma triple_sync_staged:
  "io_triple (\<lambda>w. staged tmp b target i (nodes w)) (sync_all p)
    (\<lambda>_ w. staged tmp b target i (nodes w)) (\<lambda>_ w. map_of (nodes w) target = i)"
  unfolding sync_all_def
  by (intro triple_weaken [OF triple_syscall
        [where Q = "\<lambda>_. staged tmp b target i" and E = "\<lambda>ns. map_of ns target = i"
          and P = "\<lambda>w. staged tmp b target i (nodes w)"]])
    (auto simp: staged_def)

lemma triple_rename_staged:
  assumes "apart tmp target"
  shows "io_triple (\<lambda>w. staged tmp b target i (nodes w)) (fs_rename tmp target)
    (\<lambda>_ w. file_holds (nodes w) target b) (\<lambda>_ w. map_of (nodes w) target = i)"
proof -
  have "tmp \<noteq> target" using assms by (auto simp: apart_def)
  moreover have "map_of (fs_move tmp target ns) target = map_of ns tmp" for ns
    using map_of_fs_move_target [OF assms, of ns "[]"] by simp
  ultimately show ?thesis
    unfolding fs_rename_def
    by (intro triple_weaken [OF triple_syscall
          [where Q = "\<lambda>_ ns. file_holds ns target b" and E = "\<lambda>ns. map_of ns target = i"
            and P = "\<lambda>w. staged tmp b target i (nodes w)"]])
      (auto simp: staged_def file_holds_def split: option.splits if_splits)
qed

lemma triple_sync_directory:
  "io_triple (\<lambda>w. P (nodes w)) (sync_directory d) (\<lambda>_ w. P (nodes w)) (\<lambda>_ w. P (nodes w))"
  unfolding sync_directory_def open_dir_def sync_all_def
  by (rule triple_bind; rule triple_syscall; auto)

text \<open>The three calls that fill the temporary file never touch the target.\<close>

lemma triple_fill:
  assumes "tmp \<noteq> target"
    and "io_triple (\<lambda>w. staged tmp (b @ newline) target i (nodes w)) m Q E"
    and "\<And>e w. map_of (nodes w) target = i \<Longrightarrow> E e w"
  shows "io_triple (\<lambda>w. staged tmp [] target i (nodes w))
    (io_bind (write_all tmp b) (\<lambda>_. io_bind (write_all tmp newline) (\<lambda>_.
      io_bind (sync_all tmp) (\<lambda>_. m)))) Q E"
proof -
  have filled: "io_triple (\<lambda>w. staged tmp c target i (nodes w)) (write_all tmp d)
      (\<lambda>_ w. staged tmp (c @ d) target i (nodes w)) E" for c d
    by (rule triple_weaken [OF triple_write_all [OF assms(1)]]) (use assms(3) in auto)
  have synced: "io_triple (\<lambda>w. staged tmp (b @ newline) target i (nodes w)) (sync_all tmp)
      (\<lambda>_ w. staged tmp (b @ newline) target i (nodes w)) E"
    by (rule triple_weaken [OF triple_sync_staged]) (use assms(3) in auto)
  show ?thesis
    by (rule triple_bind [OF filled [of "[]" b, unfolded append_Nil]
          triple_bind [OF filled triple_bind [OF synced assms(2)]]])
qed

lemma triple_replace_file:
  assumes "apart tmp target"
  shows "io_triple (\<lambda>w. staged tmp [] target i (nodes w)) (replace_file d tmp target b)
    (\<lambda>_ w. file_holds (nodes w) target (b @ newline))
    (\<lambda>_ w. map_of (nodes w) target = i \<or> file_holds (nodes w) target (b @ newline))"
  unfolding replace_file_def
proof (rule triple_fill)
  show "tmp \<noteq> target" using assms by (auto simp: apart_def)
  show "io_triple (\<lambda>w. staged tmp (b @ newline) target i (nodes w))
     (io_bind (fs_rename tmp target) (\<lambda>_. sync_directory d))
     (\<lambda>_ w. file_holds (nodes w) target (b @ newline))
     (\<lambda>_ w. map_of (nodes w) target = i \<or> file_holds (nodes w) target (b @ newline))"
    by (rule triple_bind [OF triple_weaken [OF triple_rename_staged [OF assms]]
          triple_weaken [OF triple_sync_directory
            [where P = "\<lambda>ns. file_holds ns target (b @ newline)"]]]) auto
qed simp

lemma triple_hard_link_staged:
  "io_triple (\<lambda>w. staged tmp b target i (nodes w)) (hard_link tmp target)
    (\<lambda>_ w. i = None \<and> file_holds (nodes w) target b) (\<lambda>_ w. map_of (nodes w) target = i)"
  unfolding hard_link_def
  by (intro triple_weaken [OF triple_syscall
        [where Q = "\<lambda>_ ns. i = None \<and> file_holds ns target b" and E = "\<lambda>ns. map_of ns target = i"
          and P = "\<lambda>w. staged tmp b target i (nodes w)"]])
    (auto simp: staged_def file_holds_def split: option.splits if_splits)

lemma triple_remove_other:
  assumes "tmp \<noteq> target" and "\<And>ns ns'. map_of ns' target = map_of ns target \<Longrightarrow> P ns \<Longrightarrow> P ns'"
  shows "io_triple (\<lambda>w. P (nodes w)) (remove_file tmp) (\<lambda>_ w. P (nodes w)) (\<lambda>_ w. P (nodes w))"
  unfolding remove_file_def
proof (rule triple_syscall)
  have "P (fs_remove tmp ns)" if "P ns" for ns using assms that by (metis map_of_fs_remove)
  then show "\<And>w x ns. P (nodes w) \<Longrightarrow>
      (case map_of (nodes w) tmp of None \<Rightarrow> (Inl enoent, nodes w)
       | Some i \<Rightarrow> if ftype i = Directory
           then (Inl (IoError OtherKind ''Is a directory (os error 21)''), nodes w)
           else (Inr (), fs_remove tmp (nodes w))) = (Inr x, ns) \<Longrightarrow> P ns"
    by (auto split: option.splits if_splits)
qed (auto split: option.splits if_splits)

lemma triple_link_file:
  assumes "tmp \<noteq> target"
  shows "io_triple (\<lambda>w. staged tmp [] target i (nodes w)) (link_file d tmp target b)
    (\<lambda>_ w. i = None \<and> file_holds (nodes w) target (b @ newline))
    (\<lambda>_ w. map_of (nodes w) target = i \<or> i = None \<and> file_holds (nodes w) target (b @ newline))"
  unfolding link_file_def
proof (rule triple_fill)
  let ?done = "\<lambda>ns. i = None \<and> file_holds ns target (b @ newline)"
  note sync = triple_sync_directory [where P = ?done]
  have remove: "io_triple (\<lambda>w. ?done (nodes w)) (remove_file tmp)
      (\<lambda>_ w. ?done (nodes w)) (\<lambda>_ w. ?done (nodes w))"
    by (rule triple_remove_other [OF assms]) (auto simp: file_holds_def)
  show "io_triple (\<lambda>w. staged tmp (b @ newline) target i (nodes w))
     (io_bind (hard_link tmp target) (\<lambda>_. io_match (remove_file tmp) (\<lambda>_. sync_directory d)))
     (\<lambda>_ w. ?done (nodes w)) (\<lambda>_ w. map_of (nodes w) target = i \<or> ?done (nodes w))"
    by (rule triple_bind [OF triple_weaken [OF triple_hard_link_staged]
          triple_match [OF remove triple_weaken [OF sync] triple_weaken [OF sync]]]) auto
qed (use assms in simp_all)

lemma touches_sync_directory [io_rules]: "touches S (sync_directory d)"
  unfolding sync_directory_def by (intro io_rules)

lemma touches_replace_file [io_rules]:
  "under tmp \<subseteq> S \<Longrightarrow> under target \<subseteq> S \<Longrightarrow> touches S (replace_file d tmp target b)"
  unfolding replace_file_def by (intro io_rules) (auto simp: under_def)

lemma touches_link_file [io_rules]:
  "tmp \<in> S \<Longrightarrow> target \<in> S \<Longrightarrow> touches S (link_file d tmp target b)"
  unfolding link_file_def by (intro io_rules)

lemma triple_create_staged:
  assumes "tmp \<noteq> target"
  shows "io_triple (\<lambda>w. map_of (nodes w) target = i) (create_new tmp m)
    (\<lambda>_ w. staged tmp [] target i (nodes w)) (\<lambda>_ w. map_of (nodes w) target = i)"
  unfolding create_new_def
  by (rule triple_syscall) (use assms in \<open>auto simp: staged_def file_holds_def split: if_splits\<close>)

lemma triple_unchanged:
  assumes "touches S m" and "target \<notin> S"
  shows "io_triple (\<lambda>w. map_of (nodes w) target = i) m
    (\<lambda>_ w. map_of (nodes w) target = i) (\<lambda>_ w. map_of (nodes w) target = i)"
  using assms by (auto intro!: io_tripleI dest: touchesD)

text \<open>Removing the temporary file after a failure keeps what is known of the target.\<close>

lemma triple_or_cleanup:
  assumes m: "io_triple P m (\<lambda>_ w. Q (map_of (nodes w) target)) (\<lambda>_ w. E (map_of (nodes w) target))"
    and "tmp \<noteq> target"
  shows "io_triple P
    (io_match m (\<lambda>r. case r of Inr _ \<Rightarrow> io_return ()
       | Inl e \<Rightarrow> io_match (remove_file tmp) (\<lambda>_. io_throw (h e))))
    (\<lambda>_ w. Q (map_of (nodes w) target)) (\<lambda>_ w. E (map_of (nodes w) target))"
proof (rule triple_match [OF m])
  have "io_triple (\<lambda>w. E (map_of (nodes w) target)) (remove_file tmp)
      (\<lambda>_ w. E (map_of (nodes w) target)) (\<lambda>_ w. E (map_of (nodes w) target))"
    using assms(2) by (rule triple_remove_other) simp
  from triple_match [OF this triple_throw triple_throw] show
    "io_triple (\<lambda>w. E (map_of (nodes w) target))
      (case Inl e of Inr _ \<Rightarrow> io_return () | Inl e \<Rightarrow> io_match (remove_file tmp) (\<lambda>_. io_throw (h e)))
      (\<lambda>_ w. Q (map_of (nodes w) target)) (\<lambda>_ w. E (map_of (nodes w) target))" for e
    by simp
qed (simp add: triple_return)

text \<open>What a client knows of a slot: a regular file whose bytes satisfy \<open>I\<close>.\<close>

definition slot_holds :: "(bytes \<Rightarrow> bool) \<Rightarrow> inode option \<Rightarrow> bool" where
  "slot_holds I i \<longleftrightarrow> (\<exists>j b. i = Some j \<and> ftype j = Regular b \<and> I b)"

lemma slot_holds_iff: "slot_holds I (map_of ns p) \<longleftrightarrow> (\<exists>b. I b \<and> file_holds ns p b)"
  by (auto simp: slot_holds_def file_holds_def)

text \<open>The closure that commits a new file or replaces an old one, with its cleanup.\<close>

lemma triple_write_closure:
  assumes "apart tmp target" and "I (b @ newline)"
  shows "io_triple (\<lambda>w. map_of (nodes w) target = i)
    (io_bind (io_map_err g (create_new tmp m)) (\<lambda>_.
      io_match (if replace then replace_file d tmp target b else link_file d tmp target b)
        (\<lambda>r. case r of Inr _ \<Rightarrow> io_return () | Inl e \<Rightarrow> io_match (remove_file tmp) (\<lambda>_. io_throw (h e)))))
    (\<lambda>_ w. (i = None \<or> replace) \<and> slot_holds I (map_of (nodes w) target))
    (\<lambda>_ w. map_of (nodes w) target = i \<or> (i = None \<or> replace) \<and> slot_holds I (map_of (nodes w) target))"
    (is "io_triple _ _ (\<lambda>_ w. ?Q (map_of (nodes w) target)) (\<lambda>_ w. ?E (map_of (nodes w) target))")
proof -
  have same: "tmp \<noteq> target" using assms(1) by (auto simp: apart_def)
  have holds: "slot_holds I (map_of ns target)" if "file_holds ns target (b @ newline)" for ns
    using that assms(2) by (auto simp: slot_holds_iff)
  have body: "io_triple (\<lambda>w. staged tmp [] target i (nodes w))
      (if replace then replace_file d tmp target b else link_file d tmp target b)
      (\<lambda>_ w. ?Q (map_of (nodes w) target)) (\<lambda>_ w. ?E (map_of (nodes w) target))"
  proof (cases replace)
    case True
    show ?thesis
      by (simp only: True if_True, rule triple_weaken [OF triple_replace_file [OF assms(1)]])
        (use holds in auto)
  next
    case False
    show ?thesis
      by (simp only: False if_False, rule triple_weaken [OF triple_link_file [OF same]])
        (use holds in auto)
  qed
  have create: "io_triple (\<lambda>w. map_of (nodes w) target = i) (io_map_err g (create_new tmp m))
      (\<lambda>_ w. staged tmp [] target i (nodes w)) (\<lambda>_ w. ?E (map_of (nodes w) target))"
    by (rule triple_map_err, rule triple_weaken [OF triple_create_staged [OF same]]) auto
  show ?thesis by (rule triple_bind [OF create triple_or_cleanup [OF body same]])
qed

lemma triple_lift:
  "(\<And>x. r = Inr x \<Longrightarrow> io_triple P (f x) Q E) \<Longrightarrow> (\<And>e w. r = Inl e \<Longrightarrow> P w \<Longrightarrow> E e w) \<Longrightarrow>
     io_triple P (io_bind (io_lift r) f) Q E"
  by (cases r) (simp_all add: io_triple_def io_bind_def io_lift_def)

text \<open>Creating, filling and renaming a temporary file, with the removal after a failure.\<close>

lemma triple_commit_replace:
  assumes "apart tmp target" and "I (b @ newline)"
  shows "io_triple (\<lambda>w. map_of (nodes w) target = i)
    (io_bind (io_map_err g (create_new tmp m)) (\<lambda>_.
      io_match (replace_file d tmp target b) (\<lambda>r. case r of Inr _ \<Rightarrow> io_return ()
       | Inl e \<Rightarrow> io_match (remove_file tmp) (\<lambda>_. io_throw (h e)))))
    (\<lambda>_ w. slot_holds I (map_of (nodes w) target))
    (\<lambda>_ w. map_of (nodes w) target = i \<or> slot_holds I (map_of (nodes w) target))"
proof -
  have same: "tmp \<noteq> target" using assms(1) by (auto simp: apart_def)
  have create: "io_triple (\<lambda>w. map_of (nodes w) target = i) (io_map_err g (create_new tmp m))
      (\<lambda>_ w. staged tmp [] target i (nodes w))
      (\<lambda>_ w. map_of (nodes w) target = i \<or> slot_holds I (map_of (nodes w) target))"
    by (rule triple_map_err, rule triple_weaken [OF triple_create_staged [OF same]]) auto
  show ?thesis
    by (rule triple_bind [OF create], rule triple_or_cleanup [OF _ same],
        rule triple_weaken [OF triple_replace_file [OF assms(1)]])
      (use assms(2) in \<open>auto simp: slot_holds_iff\<close>)
qed

lemma triple_from_any:
  "(\<And>i. io_triple (\<lambda>w. f w = i) m Q E) \<Longrightarrow> io_triple (\<lambda>_. True) m Q E"
  by (auto simp: io_triple_def)

lemma triple_pure: "(C \<Longrightarrow> io_triple P m Q E) \<Longrightarrow> io_triple (\<lambda>w. P w \<and> C) m Q E"
  by (auto simp: io_triple_def)

lemma io_bind_lift: "io_bind (io_lift (Inr x)) f = f x"
  by (simp add: io_bind_def io_lift_def fun_eq_iff)

lemma triple_any: "io_triple (\<lambda>_. True) m (\<lambda>_ _. True) (\<lambda>_ _. True)"
  by (rule io_tripleI) simp_all

text \<open>The variant whose closure also creates the temporary file.\<close>

lemma triple_commit_closure:
  assumes "apart tmp target" and "I (b @ newline)"
  shows "io_triple (\<lambda>_. True)
    (io_match (io_bind (create_new tmp m) (\<lambda>_. replace_file d tmp target b))
      (\<lambda>r. case r of Inr _ \<Rightarrow> io_return ()
       | Inl e \<Rightarrow> io_match (remove_file tmp) (\<lambda>_. io_throw (h e))))
    (\<lambda>_ w. slot_holds I (map_of (nodes w) target)) (\<lambda>_ _. True)"
proof (rule triple_from_any [where f = "\<lambda>w. map_of (nodes w) target"])
  fix i
  have same: "tmp \<noteq> target" using assms(1) by (auto simp: apart_def)
  show "io_triple (\<lambda>w. map_of (nodes w) target = i)
      (io_match (io_bind (create_new tmp m) (\<lambda>_. replace_file d tmp target b))
        (\<lambda>r. case r of Inr _ \<Rightarrow> io_return ()
         | Inl e \<Rightarrow> io_match (remove_file tmp) (\<lambda>_. io_throw (h e))))
      (\<lambda>_ w. slot_holds I (map_of (nodes w) target)) (\<lambda>_ _. True)"
    by (rule triple_or_cleanup [where E = "\<lambda>_. True"], rule triple_bind
        [OF triple_weaken [OF triple_create_staged [OF same]] triple_weaken
          [OF triple_replace_file [OF assms(1)]]])
      (use assms(2) same in \<open>auto simp: slot_holds_iff\<close>)
qed

lemma triple_conj:
  "io_triple P m Q E \<Longrightarrow> io_triple P' m Q' E' \<Longrightarrow>
     io_triple (\<lambda>w. P w \<and> P' w) m (\<lambda>x w. Q x w \<and> Q' x w) (\<lambda>e w. E e w \<and> E' e w)"
  by (auto simp: io_triple_def split: prod.splits sum.splits)

lemma triple_commit_closure_atomic:
  assumes "apart tmp target" and "I (b @ newline)"
  shows "io_triple (\<lambda>w. map_of (nodes w) target = i)
    (io_match (io_bind (create_new tmp m) (\<lambda>_. replace_file d tmp target b))
      (\<lambda>r. case r of Inr _ \<Rightarrow> io_return ()
       | Inl e \<Rightarrow> io_match (remove_file tmp) (\<lambda>_. io_throw (h e))))
    (\<lambda>_ w. slot_holds I (map_of (nodes w) target))
    (\<lambda>_ w. map_of (nodes w) target = i \<or> slot_holds I (map_of (nodes w) target))"
proof -
  have same: "tmp \<noteq> target" using assms(1) by (auto simp: apart_def)
  show ?thesis
    by (rule triple_or_cleanup, rule triple_bind
        [OF triple_weaken [OF triple_create_staged [OF same]] triple_weaken
          [OF triple_replace_file [OF assms(1)]]])
      (use assms(2) same in \<open>auto simp: slot_holds_iff\<close>)
qed

lemma triple_query:
  assumes "\<And>S. touches S m"
  shows "io_triple (\<lambda>w. map_of (nodes w) p = i) m
    (\<lambda>_ w. map_of (nodes w) p = i) (\<lambda>_ w. map_of (nodes w) p = i)"
  using assms [of "{}"] by (auto intro!: io_tripleI dest: touchesD)

text \<open>A program that changes nothing keeps the whole tree.\<close>

lemma triple_frozen:
  assumes "touches {} m"
  shows "io_triple (\<lambda>w. map_of (nodes w) = M) m (\<lambda>_ w. map_of (nodes w) = M) (\<lambda>_ w. map_of (nodes w) = M)"
  using assms by (auto intro!: io_tripleI ext dest: touchesD)

lemma triple_frozen_then:
  assumes "touches {} m" and "\<And>x. io_triple (\<lambda>w. map_of (nodes w) = M) (f x) Q E"
    and "\<And>e w. map_of (nodes w) = M \<Longrightarrow> E e w"
  shows "io_triple (\<lambda>w. map_of (nodes w) = M) (io_bind m f) Q E"
  by (rule triple_bind [OF triple_weaken [OF triple_frozen [OF assms(1)]] assms(2)]) (use assms(3) in auto)

text \<open>Agreement with an earlier tree outside of a set of paths.\<close>

definition agrees_off :: "path set \<Rightarrow> (path \<Rightarrow> inode option) \<Rightarrow> world \<Rightarrow> bool" where
  "agrees_off S M w \<longleftrightarrow> (\<forall>k. k \<notin> S \<longrightarrow> map_of (nodes w) k = M k)"

lemma triple_agrees: "touches S m \<Longrightarrow> io_triple (agrees_off S M) m (\<lambda>_. agrees_off S M) (\<lambda>_. agrees_off S M)"
  by (rule io_tripleI) (auto simp: agrees_off_def dest: touchesD)

lemma triple_agrees_then:
  assumes "touches S m" and "\<And>x. io_triple (agrees_off S M) (f x) Q E" and "\<And>e w. agrees_off S M w \<Longrightarrow> E e w"
  shows "io_triple (agrees_off S M) (io_bind m f) Q E"
  by (rule triple_bind [OF triple_weaken [OF triple_agrees [OF assms(1)]] assms(2)]) (use assms(3) in auto)

lemma triple_settle:
  assumes "\<And>N. (\<forall>k. k \<notin> S \<longrightarrow> N k = M k) \<Longrightarrow> io_triple (\<lambda>w. map_of (nodes w) = N) m Q E"
  shows "io_triple (agrees_off S M) m Q E"
  using assms by (auto simp: io_triple_def agrees_off_def)

text \<open>Inspecting and reading a file: what the calls return is what the tree holds.\<close>

lemma triple_inspect:
  "io_triple (\<lambda>w. map_of (nodes w) p = i) (symlink_metadata p)
    (\<lambda>m w. map_of (nodes w) p = i \<and> i = Some m) (\<lambda>_ w. map_of (nodes w) p = i)"
  unfolding symlink_metadata_def
  by (rule triple_weaken [OF triple_syscall [where P = "\<lambda>w. map_of (nodes w) p = i"
        and Q = "\<lambda>m ns. map_of ns p = i \<and> i = Some m" and E = "\<lambda>ns. map_of ns p = i"]])
    (auto split: option.splits)

lemma triple_inspect_kind:
  "io_triple (\<lambda>w. map_of (nodes w) p = i) (symlink_metadata p)
    (\<lambda>m w. map_of (nodes w) p = i \<and> i = Some m)
    (\<lambda>e w. map_of (nodes w) p = i \<and> (err_kind e = NotFound \<longrightarrow> i = None))"
  by (auto simp: io_triple_def symlink_metadata_def syscall_def tick_def enoent_def split: option.splits)

lemma triple_read_to_end:
  "io_triple (\<lambda>w. map_of (nodes w) p = Some m) (read_to_end p n)
    (\<lambda>b w. map_of (nodes w) p = Some m \<and> (\<exists>c. ftype m = Regular c \<and> b = take n c))
    (\<lambda>_ w. map_of (nodes w) p = Some m)"
  unfolding read_to_end_def
  by (rule triple_weaken [OF triple_syscall [where P = "\<lambda>w. map_of (nodes w) p = Some m"
        and Q = "\<lambda>b ns. map_of ns p = Some m \<and> (\<exists>c. ftype m = Regular c \<and> b = take n c)"
        and E = "\<lambda>ns. map_of ns p = Some m"]])
    (auto split: file_type.splits)

subsection \<open>Runs without faults\<close>

definition fault_free :: "world \<Rightarrow> bool" where
  "fault_free w \<longleftrightarrow> (\<forall>n. fault w n = None)"

lemma fault_free_simps [simp]:
  "fault_free (w\<lparr>nodes := ns\<rparr>) = fault_free w" "fault_free (tick w) = fault_free w"
  "nodes (tick w) = nodes w" "(tick w)\<lparr>nodes := ns\<rparr> = tick (w\<lparr>nodes := ns\<rparr>)"
  by (simp_all add: fault_free_def tick_def)

lemma syscall_fault_free [simp]:
  "fault_free w \<Longrightarrow> syscall f w = (case f (nodes w) of (r, ns) \<Rightarrow> (r, tick (w\<lparr>nodes := ns\<rparr>)))"
  by (simp add: syscall_def fault_free_def)

lemma write_all_fault_free [simp]:
  "fault_free w \<Longrightarrow> write_all p b w = (Inr (), tick (w\<lparr>nodes := fs_append p b (nodes w)\<rparr>))"
  by (simp add: write_all_def fault_free_def)

lemmas io_exec = io_bind_def io_match_def io_map_err_def io_return_def io_throw_def io_lift_def
  symlink_metadata_def open_read_def read_to_end_def sync_all_def flock_exclusive_def
  read_dir_def next_entry_def open_dir_def

lemma fs_append_regular:
  "map_of ns p = Some i \<Longrightarrow> ftype i = Regular c \<Longrightarrow>
     fs_append p b ns = fs_set p (i\<lparr>ftype := Regular (c @ b)\<rparr>) ns"
  by (simp add: fs_append_def)

lemma fs_is_dir_set_regular:
  "fs_is_dir ns d \<Longrightarrow> p \<noteq> d \<Longrightarrow> fs_is_dir (fs_set p i ns) d"
  by (auto simp: fs_is_dir_def)

text \<open>Without faults the protocol commits, when the target is not a directory.\<close>

lemma replace_file_commits:
  assumes "fault_free w" and "map_of (nodes w) (d @ [a]) = Some i" and "ftype i = Regular []"
    and "fs_is_dir (nodes w) d" and "a \<noteq> c"
    and "\<forall>j. map_of (nodes w) (d @ [c]) = Some j \<longrightarrow> ftype j \<noteq> Directory"
  shows "\<exists>w'. replace_file d (d @ [a]) (d @ [c]) b w = (Inr (), w') \<and> fault_free w'"
proof -
  have "map_of (fs_move (d @ [a]) (d @ [c]) ns) d = map_of ns d" for ns
    by (simp add: map_of_fs_move_other)
  then show ?thesis
    using assms
    by (cases "map_of (nodes w) (d @ [c])")
      (auto simp: replace_file_def sync_directory_def fs_rename_def io_exec fs_append_regular
        fs_is_dir_set_regular fs_is_dir_def split: option.splits)
qed

subsection \<open>The contract of a durable store\<close>

text \<open>
  A store keeps each record in one file. \<open>put\<close> may fail at any point, but a client
  only ever sees the previous content or the complete image of the record it put, the
  files of other records and everything outside the store's directory stay as they are.
\<close>

locale durable_store =
  fixes dir :: path
    and slot :: "'r \<Rightarrow> path"
    and put :: "'r \<Rightarrow> ('e, unit) io"
    and image :: "'r \<Rightarrow> bytes \<Rightarrow> bool"
  assumes put_frame: "touches (under dir) (put r)"
    and put_other: "slot r' \<noteq> slot r \<Longrightarrow> put r w = (x, w') \<Longrightarrow>
      map_of (nodes w') (slot r') = map_of (nodes w) (slot r')"
    and put_ok: "put r w = (Inr (), w') \<Longrightarrow> slot_holds (image r) (map_of (nodes w') (slot r))"
    and put_err: "put r w = (Inl e, w') \<Longrightarrow>
      map_of (nodes w') (slot r) = map_of (nodes w) (slot r)
      \<or> slot_holds (image r) (map_of (nodes w') (slot r))"
begin

lemma put_atomic:
  assumes "put r w = (x, w')"
  shows "map_of (nodes w') (slot r) = map_of (nodes w) (slot r)
    \<or> slot_holds (image r) (map_of (nodes w') (slot r))"
  using assms put_ok put_err by (cases x) auto

lemma put_elsewhere:
  assumes "put r w = (x, w')"
  shows "prefix dir k \<or> map_of (nodes w') k = map_of (nodes w) k"
  using touchesD [OF put_frame assms] by (auto simp: under_def)

text \<open>Any number of writes, failed or not: a slot holds its first content or one whole image.\<close>

lemma puts_atomic:
  assumes "map_of (nodes (fold (\<lambda>r w. snd (put r w)) rs w)) (slot q) \<noteq> map_of (nodes w) (slot q)"
  shows "\<exists>r \<in> set rs. slot r = slot q
    \<and> slot_holds (image r) (map_of (nodes (fold (\<lambda>r w. snd (put r w)) rs w)) (slot q))"
  using assms
proof (induction rs rule: rev_induct)
  case Nil
  then show ?case by simp
next
  case (snoc r rs)
  let ?w = "fold (\<lambda>r w. snd (put r w)) rs w"
  obtain x w' where put: "put r ?w = (x, w')" by fastforce
  show ?case
  proof (cases "map_of (nodes w') (slot q) = map_of (nodes ?w) (slot q)")
    case True
    with snoc put show ?thesis by auto
  next
    case False
    with put_other [OF _ put] have "slot r = slot q" by metis
    with False put_atomic [OF put] put show ?thesis by auto
  qed
qed

end

end
