(* ===== verification/Transaction_Store.thy ===== *)
theory Transaction_Store
  imports Transaction Atomic_File
begin

text \<open>
  \<open>TransactionStore\<close> of \<open>transaction.rs\<close>: loading the pending rollback with the
  migration of older schemas, creating, updating, removing and archiving it. The store
  is the durable slot the early-boot engine keeps its progress in; the properties are
  its atomicity under every fault schedule, that creation never replaces a pending
  transaction, and that only valid transactions are ever loaded.
\<close>

subsection \<open>The JSON library\<close>

text \<open>
  \<open>serde_json\<close> is library code. Its document type appears in the source (fields are
  read and assigned by key), so it is a datatype; parsing, printing and the derived
  conversions are arguments.
\<close>

datatype json =
  JNull | JBool bool | JNumber int | JFloat string | JString string
  | JArray "json list" | JObject "(string \<times> json) list"

fun json_get :: "json \<Rightarrow> string \<Rightarrow> json option" where
  "json_get (JObject members) key = map_of members key"
| "json_get _ key = None"

fun json_as_u64 :: "json \<Rightarrow> int option" where
  "json_as_u64 (JNumber n) = (if 0 \<le> n \<and> n < 2 ^ 64 then Some n else None)"
| "json_as_u64 _ = None"

fun json_assign :: "string \<Rightarrow> json \<Rightarrow> json \<Rightarrow> json" where
  "json_assign key v (JObject members) = JObject ((key, v) # filter (\<lambda>(k, _). k \<noteq> key) members)"
| "json_assign key v j = j"

record tx_json =
  json_parse :: "bytes \<Rightarrow> string + json"
  json_v1 :: "json \<Rightarrow> string + LegacyRollbackTransactionV1"
  json_v2 :: "json \<Rightarrow> string + LegacyRollbackTransactionV2"
  json_v3 :: "json \<Rightarrow> string + LegacyRollbackTransactionV3"
  json_tx :: "json \<Rightarrow> string + RollbackTransaction"
  json_print :: "RollbackTransaction \<Rightarrow> string + bytes"

text \<open>
  What the store relies on: a printed transaction, followed by a line feed, parses to
  a document with its schema version that converts back to the transaction.
\<close>

definition json_round_trips :: "tx_json \<Rightarrow> RollbackTransaction \<Rightarrow> bool" where
  "json_round_trips J t \<longleftrightarrow>
     (case json_print J t of
        Inl e \<Rightarrow> False
      | Inr b \<Rightarrow>
          (case json_parse J (b @ newline) of
             Inl e \<Rightarrow> False
           | Inr v \<Rightarrow>
               length b < 1024 * 1024
               \<and> json_get v ''schema_version'' = Some (JNumber (uint (tx_schema_version t)))
               \<and> json_tx J v = Inr t))"

subsection \<open>The store\<close>

definition MAX_TRANSACTION_BYTES :: nat where
  "MAX_TRANSACTION_BYTES = 1024 * 1024"

definition tx_io_error :: "string \<Rightarrow> io_error \<Rightarrow> TransactionError" where
  "tx_io_error context e = TransactionError_new TeIo (context @ '': '' @ err_text e)"

definition transactions_dir :: "path \<Rightarrow> path" where
  "transactions_dir snapshot_root = snapshot_root @ [''transactions'']"

definition pending_path :: "path \<Rightarrow> path" where
  "pending_path d = d @ [''pending-rollback.json'']"

definition tx_invalid_json :: "string \<Rightarrow> TransactionError" where
  "tx_invalid_json e =
     TransactionError_new TeInvalidJson (''Pending rollback transaction is invalid JSON: '' @ e)"

text \<open>The match on the schema version, with the in-place upgrades of versions 4 and 5.\<close>

definition migrate_pending :: "tx_json \<Rightarrow> json \<Rightarrow> int \<Rightarrow> (TransactionError, RollbackTransaction) io" where
  "migrate_pending J value version =
     (if version = 1 then
        (case json_v1 J value of
           Inl e \<Rightarrow> io_throw (tx_invalid_json e)
         | Inr l \<Rightarrow> io_bind utc_now (\<lambda>now. io_return (LegacyV1_migrate now l)))
      else if version = 2 then
        (case json_v2 J value of
           Inl e \<Rightarrow> io_throw (tx_invalid_json e)
         | Inr l \<Rightarrow> io_bind utc_now (\<lambda>now. io_return (LegacyV2_migrate now l)))
      else if version = 3 then
        (case json_v3 J value of
           Inl e \<Rightarrow> io_throw (tx_invalid_json e)
         | Inr l \<Rightarrow> io_return (LegacyV3_migrate l))
      else if version = 4 then
        (let v = json_assign ''schema_version'' (JNumber (uint CONTINUE_BOOT_SCHEMA_VERSION)) value;
             v = json_assign ''purge_history'' (JBool False) v;
             v = json_assign ''home_only'' (JBool False) v;
             v = json_assign ''fallback_home_snapshot_id'' JNull v
         in (case json_tx J v of Inl e \<Rightarrow> io_throw (tx_invalid_json e) | Inr t \<Rightarrow> io_return t))
      else if version = 5 then
        (let v = json_assign ''schema_version'' (JNumber (uint CONTINUE_BOOT_SCHEMA_VERSION)) value;
             v = json_assign ''purge_history'' (JBool False) v
         in (case json_tx J v of Inl e \<Rightarrow> io_throw (tx_invalid_json e) | Inr t \<Rightarrow> io_return t))
      else if version = 6 \<or> version = 7 then
        (case json_tx J value of Inl e \<Rightarrow> io_throw (tx_invalid_json e) | Inr t \<Rightarrow> io_return t)
      else io_throw (TransactionError_new TeUnsupportedSchema
             (''Unsupported rollback transaction schema '' @ show_nat (nat version))))"

definition decode_pending ::
  "uuid_lib \<Rightarrow> tx_json \<Rightarrow> bytes \<Rightarrow> (TransactionError, RollbackTransaction option) io" where
  "decode_pending U J b =
     (case json_parse J b of
        Inl e \<Rightarrow> io_throw (tx_invalid_json e)
      | Inr value \<Rightarrow>
          (case Option.bind (json_get value ''schema_version'') json_as_u64 of
             None \<Rightarrow> io_throw (TransactionError_new TeInvalidJson
                       ''Pending rollback transaction has no numeric schema version'')
           | Some version \<Rightarrow>
               io_bind (migrate_pending J value version) (\<lambda>t.
               io_bind (io_lift (RollbackTransaction_validate U t)) (\<lambda>_.
               io_return (Some t)))))"

definition load_pending ::
  "uuid_lib \<Rightarrow> tx_json \<Rightarrow> path \<Rightarrow> (TransactionError, RollbackTransaction option) io" where
  "load_pending U J d =
     io_match (symlink_metadata (pending_path d)) (\<lambda>r.
       case r of
         Inl e \<Rightarrow>
           (if err_kind e = NotFound then io_return None
            else io_throw (tx_io_error ''Could not inspect rollback transaction'' e))
       | Inr metadata \<Rightarrow>
           (case regular_content metadata of
              None \<Rightarrow> io_throw (TransactionError_new TeUnsafePath
                       ''Pending rollback transaction is not a regular file'')
            | Some content \<Rightarrow>
                if MAX_TRANSACTION_BYTES < length content
                then io_throw (TransactionError_new TeTooLarge
                       ''Pending rollback transaction exceeds the safety limit'')
                else
                  io_bind (io_map_err (tx_io_error ''Could not open rollback transaction'')
                             (open_read (pending_path d))) (\<lambda>_.
                  io_bind (io_map_err (tx_io_error ''Could not read rollback transaction'')
                             (read_to_end (pending_path d) (MAX_TRANSACTION_BYTES + 1))) (\<lambda>b.
                  if MAX_TRANSACTION_BYTES < length b
                  then io_throw (TransactionError_new TeTooLarge
                         ''Pending rollback transaction exceeds the safety limit'')
                  else decode_pending U J b))))"

definition tx_ensure_real_directory :: "path \<Rightarrow> (TransactionError, unit) io" where
  "tx_ensure_real_directory p =
     io_bind (io_map_err (tx_io_error ''Could not inspect rollback transaction directory'')
                (symlink_metadata p)) (\<lambda>metadata.
     if ftype metadata = Directory then io_return ()
     else io_throw (TransactionError_new TeUnsafePath
            ''Rollback transaction directory is not a real directory''))"

definition pending_temporary :: "uuid_lib \<Rightarrow> path \<Rightarrow> uuid \<Rightarrow> path" where
  "pending_temporary U d i = d @ [''.pending-rollback.'' @ hyphenated U i @ ''.tmp'']"

definition tx_serialize :: "tx_json \<Rightarrow> string \<Rightarrow> RollbackTransaction \<Rightarrow> TransactionError + bytes" where
  "tx_serialize J context t =
     (case json_print J t of
        Inl e \<Rightarrow> Inl (invalid_record (context @ e))
      | Inr b \<Rightarrow> Inr b)"

definition tx_write_atomic ::
  "uuid_lib \<Rightarrow> tx_json \<Rightarrow> path \<Rightarrow> RollbackTransaction \<Rightarrow> bool \<Rightarrow> (TransactionError, unit) io" where
  "tx_write_atomic U J d t replace =
     io_bind new_v4 (\<lambda>i.
     let temporary = pending_temporary U d i; target = pending_path d in
     io_bind (io_lift (tx_serialize J ''Could not serialize rollback transaction: '' t)) (\<lambda>serialized.
     io_bind (io_map_err (tx_io_error ''Could not create rollback transaction'')
                (create_new temporary 0x180)) (\<lambda>_.
     io_match (if replace then replace_file d temporary target serialized
               else link_file d temporary target serialized) (\<lambda>result.
       case result of
         Inr _ \<Rightarrow> io_return ()
       | Inl e \<Rightarrow>
           io_match (remove_file temporary) (\<lambda>_.
           io_throw (TransactionError_new
             (if err_kind e = AlreadyExists then TeAlreadyPending else TeIo)
             (''Could not atomically commit rollback transaction: '' @ err_text e)))))))"

definition tx_create ::
  "uuid_lib \<Rightarrow> tx_json \<Rightarrow> path \<Rightarrow> RollbackTransaction \<Rightarrow> (TransactionError, unit) io" where
  "tx_create U J d t =
     io_bind (io_lift (RollbackTransaction_validate U t)) (\<lambda>_.
     io_bind (tx_ensure_real_directory d) (\<lambda>_.
     io_match (symlink_metadata (pending_path d)) (\<lambda>r.
       case r of
         Inr _ \<Rightarrow> io_throw (TransactionError_new TeAlreadyPending
                    ''Another rollback transaction is already pending'')
       | Inl e \<Rightarrow>
           (if err_kind e = NotFound then tx_write_atomic U J d t False
            else io_throw (tx_io_error ''Could not inspect rollback transaction'' e)))))"

definition tx_update_store ::
  "uuid_lib \<Rightarrow> tx_json \<Rightarrow> path \<Rightarrow> RollbackTransaction \<Rightarrow> (TransactionError, unit) io" where
  "tx_update_store U J d t =
     io_bind (io_lift (RollbackTransaction_validate U t)) (\<lambda>_.
     io_bind (tx_ensure_real_directory d) (\<lambda>_.
     io_bind (io_map_err (\<lambda>e. if err_kind e = NotFound
                then TransactionError_new TeNotFound ''No rollback transaction is pending''
                else tx_io_error ''Could not inspect rollback transaction'' e)
                (symlink_metadata (pending_path d))) (\<lambda>metadata.
     if regular_content metadata = None
     then io_throw (TransactionError_new TeUnsafePath
            ''Pending rollback transaction is not a regular file'')
     else tx_write_atomic U J d t True)))"

definition tx_remove :: "path \<Rightarrow> (TransactionError, unit) io" where
  "tx_remove d =
     io_match (symlink_metadata (pending_path d)) (\<lambda>r.
       case r of
         Inl e \<Rightarrow>
           (if err_kind e = NotFound then io_return ()
            else io_throw (tx_io_error ''Could not inspect rollback transaction'' e))
       | Inr metadata \<Rightarrow>
           (if regular_content metadata = None
            then io_throw (TransactionError_new TeUnsafePath
                   ''Pending rollback transaction is not a regular file'')
            else io_match (remove_file (pending_path d)) (\<lambda>r.
              case r of
                Inr _ \<Rightarrow> io_map_err (tx_io_error ''Could not sync rollback transactions'')
                          (sync_directory d)
              | Inl e \<Rightarrow>
                  (if err_kind e = NotFound then io_return ()
                   else io_throw (tx_io_error ''Could not remove rollback transaction'' e)))))"

subsection \<open>Archiving\<close>

definition ensure_rollback_history :: "path \<Rightarrow> path \<Rightarrow> (TransactionError, unit) io" where
  "ensure_rollback_history parent history =
     io_match (symlink_metadata history) (\<lambda>r.
       case r of
         Inr metadata \<Rightarrow>
           (if ftype metadata = Directory then io_return ()
            else io_throw (TransactionError_new TeUnsafePath
                   ''Rollback history path is not a real directory''))
       | Inl e \<Rightarrow>
           (if err_kind e = NotFound
            then io_map_err (tx_io_error ''Could not create rollback history'')
                   (io_bind (create_dir history 0x1C0) (\<lambda>_. sync_directory parent))
            else io_throw (tx_io_error ''Could not inspect rollback history'' e)))"

text \<open>Whether an identical archive already exists.\<close>

definition already_archived ::
  "tx_json \<Rightarrow> path \<Rightarrow> RollbackTransaction \<Rightarrow> (TransactionError, bool) io" where
  "already_archived J target t =
     io_match (symlink_metadata target) (\<lambda>r.
       case r of
         Inr metadata \<Rightarrow>
           (case regular_content metadata of
              None \<Rightarrow> io_throw (TransactionError_new TeUnsafePath
                       ''Rollback history target is not a regular file'')
            | Some content \<Rightarrow>
                if length content \<le> MAX_TRANSACTION_BYTES
                then
                  io_bind (io_map_err (tx_io_error ''Could not open rollback history'')
                             (open_read target)) (\<lambda>_.
                  io_bind (io_map_err (tx_io_error ''Could not read rollback history'')
                             (read_to_end target (MAX_TRANSACTION_BYTES + 1))) (\<lambda>b.
                  io_return (case json_parse J b of
                      Inl _ \<Rightarrow> False
                    | Inr v \<Rightarrow> json_tx J v = Inr t)))
                else io_return False)
       | Inl e \<Rightarrow>
           (if err_kind e = NotFound then io_return False
            else io_throw (tx_io_error ''Could not inspect rollback history target'' e)))"

definition tx_archive ::
  "uuid_lib \<Rightarrow> tx_json \<Rightarrow> path \<Rightarrow> RollbackTransaction \<Rightarrow> (TransactionError, unit) io" where
  "tx_archive U J d t =
     (if \<not> RollbackPhase_is_terminal (tx_phase t)
      then io_throw (invalid_transition ''Only a terminal rollback transaction may be archived'')
      else
        io_bind (io_lift (RollbackTransaction_validate U t)) (\<lambda>_.
        if d = []
        then io_throw (TransactionError_new TeUnsafePath
               ''Rollback transaction directory has no recovery-store parent'')
        else
          let parent = butlast d;
              history = parent @ [''rollback-history''];
              target = history @ [hyphenated U (tx_id t) @ ''.json'']
          in
          io_bind (ensure_rollback_history parent history) (\<lambda>_.
          io_bind (already_archived J target t) (\<lambda>same.
          if same then io_return ()
          else
            io_bind (io_lift (tx_serialize J ''Could not serialize rollback history: '' t))
              (\<lambda>serialized.
            io_bind new_v4 (\<lambda>i.
            let temporary = history @ [''.'' @ hyphenated U (tx_id t) @ ''.'' @ hyphenated U i @ ''.tmp'']
            in
            io_match (io_bind (create_new temporary 0x180)
                        (\<lambda>_. replace_file history temporary target serialized)) (\<lambda>result.
              case result of
                Inr _ \<Rightarrow> io_return ()
              | Inl e \<Rightarrow> io_match (remove_file temporary) (\<lambda>_.
                  io_throw (tx_io_error ''Could not commit rollback history'' e)))))))))"


subsection \<open>Atomicity\<close>

lemma pending_temporary_apart: "apart (pending_temporary U d i) (pending_path d)"
  by (simp add: pending_temporary_def pending_path_def)

lemma pending_under:
  "pending_path d \<in> under d" "pending_temporary U d i \<in> under d"
  "under (pending_path d) \<subseteq> under d" "under (pending_temporary U d i) \<subseteq> under d"
  by (auto simp: under_def pending_path_def pending_temporary_def prefix_def)

lemma touches_tx_ensure_real_directory [io_rules]: "touches S (tx_ensure_real_directory p)"
  unfolding tx_ensure_real_directory_def by (intro io_rules)

lemma touches_tx_write_atomic [io_rules]: "touches (under d) (tx_write_atomic U J d t replace)"
  unfolding tx_write_atomic_def Let_def by (intro io_rules pending_under)

lemma touches_tx_update_store [io_rules]: "touches (under d) (tx_update_store U J d t)"
  unfolding tx_update_store_def by (intro io_rules)

lemma touches_tx_create [io_rules]: "touches (under d) (tx_create U J d t)"
  unfolding tx_create_def by (intro io_rules)

text \<open>The bytes of a transaction in the pending file.\<close>

definition tx_image :: "uuid_lib \<Rightarrow> tx_json \<Rightarrow> RollbackTransaction \<Rightarrow> bytes \<Rightarrow> bool" where
  "tx_image U J t b \<longleftrightarrow>
     RollbackTransaction_validate U t = Inr () \<and> (\<exists>s. json_print J t = Inr s \<and> b = s @ newline)"

lemma triple_tx_write_atomic:
  assumes "RollbackTransaction_validate U t = Inr ()"
  shows "io_triple (\<lambda>w. map_of (nodes w) (pending_path d) = i) (tx_write_atomic U J d t replace)
    (\<lambda>_ w. (i = None \<or> replace) \<and> slot_holds (tx_image U J t) (map_of (nodes w) (pending_path d)))
    (\<lambda>_ w. map_of (nodes w) (pending_path d) = i
       \<or> (i = None \<or> replace) \<and> slot_holds (tx_image U J t) (map_of (nodes w) (pending_path d)))"
    (is "io_triple ?P _ _ ?E")
proof -
  have new: "io_triple ?P new_v4 (\<lambda>_. ?P) ?E"
    by (simp add: io_triple_def new_v4_def tick_def)
  show ?thesis
    unfolding tx_write_atomic_def Let_def
    by (rule triple_bind [OF new], rule triple_lift, rule triple_write_closure [OF pending_temporary_apart])
      (use assms in \<open>auto simp: tx_serialize_def tx_image_def split: sum.splits\<close>)
qed

lemma triple_tx_update_store:
  "io_triple (\<lambda>w. map_of (nodes w) (pending_path d) = i) (tx_update_store U J d t)
    (\<lambda>_ w. slot_holds (tx_image U J t) (map_of (nodes w) (pending_path d)))
    (\<lambda>_ w. map_of (nodes w) (pending_path d) = i
       \<or> slot_holds (tx_image U J t) (map_of (nodes w) (pending_path d)))"
proof -
  let ?P = "\<lambda>w. map_of (nodes w) (pending_path d) = i"
  let ?Q = "\<lambda>_ w. slot_holds (tx_image U J t) (map_of (nodes w) (pending_path d))"
  let ?E = "\<lambda>e w. ?P w \<or> ?Q e w"
  have directory: "io_triple ?P (tx_ensure_real_directory d) (\<lambda>_. ?P) ?E"
    by (rule triple_weaken [OF triple_query]) (auto intro: io_rules)
  have inspect: "io_triple ?P (io_map_err h (symlink_metadata (pending_path d))) (\<lambda>_. ?P) ?E" for h
    by (rule triple_weaken [OF triple_query]) (auto intro: io_rules)
  have commit: "io_triple ?P (tx_write_atomic U J d t True) ?Q ?E"
    if "RollbackTransaction_validate U t = Inr u" for u
    using that by (intro triple_weaken [OF triple_tx_write_atomic]) auto
  show ?thesis
    unfolding tx_update_store_def
    by (rule triple_lift, rule triple_bind [OF directory], rule triple_bind [OF inspect])
      (auto simp: triple_throw intro: commit)
qed

interpretation pending: durable_store d "\<lambda>_. pending_path d" "tx_update_store U J d" "tx_image U J"
  for d U J
proof
  show "touches (under d) (tx_update_store U J d t)" for t by (rule touches_tx_update_store)
  note triple = triple_tx_update_store [of d "map_of (nodes w) (pending_path d)" U J for w]
  show "slot_holds (tx_image U J t) (map_of (nodes w') (pending_path d))"
    if "tx_update_store U J d t w = (Inr (), w')" for t w w'
    using io_tripleD_ok [OF triple refl that] .
  show "map_of (nodes w') (pending_path d) = map_of (nodes w) (pending_path d)
      \<or> slot_holds (tx_image U J t) (map_of (nodes w') (pending_path d))"
    if "tx_update_store U J d t w = (Inl e, w')" for t w e w'
    using io_tripleD_err [OF triple refl that] .
qed simp

subsection \<open>Creation and loading\<close>

lemma triple_tx_create:
  "io_triple (\<lambda>w. map_of (nodes w) (pending_path d) = i) (tx_create U J d t)
    (\<lambda>_ w. i = None \<and> slot_holds (tx_image U J t) (map_of (nodes w) (pending_path d)))
    (\<lambda>_ w. map_of (nodes w) (pending_path d) = i
       \<or> i = None \<and> slot_holds (tx_image U J t) (map_of (nodes w) (pending_path d)))"
proof -
  let ?P = "\<lambda>w. map_of (nodes w) (pending_path d) = i"
  let ?Q = "\<lambda>_ w. i = None \<and> slot_holds (tx_image U J t) (map_of (nodes w) (pending_path d))"
  let ?E = "\<lambda>e w. ?P w \<or> ?Q e w"
  have directory: "io_triple ?P (tx_ensure_real_directory d) (\<lambda>_. ?P) ?E"
    by (rule triple_weaken [OF triple_query]) (auto intro: io_rules)
  have inspect: "io_triple ?P (symlink_metadata (pending_path d)) (\<lambda>_. ?P) (\<lambda>_. ?P)"
    by (rule triple_query) (rule io_rules)
  have commit: "io_triple ?P (tx_write_atomic U J d t False) ?Q ?E"
    if "RollbackTransaction_validate U t = Inr u" for u
    using that by (intro triple_weaken [OF triple_tx_write_atomic]) auto
  show ?thesis
    unfolding tx_create_def
    by (rule triple_lift, rule triple_bind [OF directory], rule triple_match [OF inspect])
      (auto simp: triple_throw intro: commit)
qed

lemma returns_decode_pending:
  "returns (decode_pending U J b) (\<lambda>r. \<exists>t. r = Some t \<and> RollbackTransaction_validate U t = Inr ())"
  unfolding decode_pending_def
  by (intro returns_rules returns_bind) auto

lemma returns_load_pending:
  "returns (load_pending U J d)
     (\<lambda>r. case r of None \<Rightarrow> True | Some t \<Rightarrow> RollbackTransaction_validate U t = Inr ())"
proof -
  have "returns (decode_pending U J b)
     (\<lambda>r. case r of None \<Rightarrow> True | Some t \<Rightarrow> RollbackTransaction_validate U t = Inr ())" for b
    using returns_decode_pending [of U J b] by (fastforce simp: returns_def)
  then show ?thesis
    unfolding load_pending_def by (intro returns_rules returns_bind returns_match) auto
qed

text \<open>The transaction that the inode of the pending file stands for.\<close>

definition pending_decodes :: "uuid_lib \<Rightarrow> tx_json \<Rightarrow> inode option \<Rightarrow> RollbackTransaction \<Rightarrow> bool" where
  "pending_decodes U J i t \<longleftrightarrow>
     RollbackTransaction_validate U t = Inr ()
     \<and> slot_holds (\<lambda>b. \<exists>v v'. decode_pending U J b v = (Inr (Some t), v')) i"

lemma touches_load_pending [io_rules]: "touches S (load_pending U J d)"
  unfolding load_pending_def decode_pending_def migrate_pending_def Let_def by (intro io_rules)

lemma triple_decode_pending:
  "io_triple (\<lambda>w. map_of (nodes w) = M) (decode_pending U J b)
    (\<lambda>r w. map_of (nodes w) = M \<and> (\<exists>t v v'. r = Some t \<and> RollbackTransaction_validate U t = Inr ()
        \<and> decode_pending U J b v = (Inr (Some t), v')))
    (\<lambda>_ w. map_of (nodes w) = M)"
proof (rule io_tripleI)
  have frame: "touches {} (decode_pending U J b)"
    unfolding decode_pending_def migrate_pending_def Let_def by (intro io_rules)
  fix w :: world and x w'
  assume M: "map_of (nodes w) = M"
  {
    assume run: "decode_pending U J b w = (Inr x, w')"
    then obtain t where "x = Some t" "RollbackTransaction_validate U t = Inr ()"
      using returnsD [OF returns_decode_pending] by blast
    with M run frame show "map_of (nodes w') = M \<and> (\<exists>t v v'. x = Some t \<and> RollbackTransaction_validate U t = Inr ()
        \<and> decode_pending U J b v = (Inr (Some t), v'))"
      by (auto dest: touchesD)
  }
  show "map_of (nodes w') = M" if "decode_pending U J b w = (Inl e, w')" for e
    using touchesD [OF frame that] M by auto
qed

lemma triple_load_pending:
  "io_triple (\<lambda>w. map_of (nodes w) = M) (load_pending U J d)
    (\<lambda>r w. map_of (nodes w) = M \<and> (case r of None \<Rightarrow> M (pending_path d) = None
       | Some t \<Rightarrow> pending_decodes U J (M (pending_path d)) t))
    (\<lambda>_ w. map_of (nodes w) = M)"
proof -
  let ?P = "\<lambda>w. map_of (nodes w) = M"
  let ?p = "pending_path d"
  have inspect: "io_triple ?P (symlink_metadata ?p) (\<lambda>m w. ?P w \<and> M ?p = Some m)
      (\<lambda>e w. ?P w \<and> (err_kind e = NotFound \<longrightarrow> M ?p = None))"
    by (auto simp: io_triple_def symlink_metadata_def syscall_def tick_def enoent_def split: option.splits)
  have opened: "io_triple ?P (io_map_err h (open_read ?p)) (\<lambda>_. ?P) (\<lambda>_. ?P)" for h
    by (rule triple_frozen) (intro io_rules)
  have content: "io_triple ?P (io_map_err h (read_to_end ?p n))
      (\<lambda>b w. ?P w \<and> (\<forall>m c. M ?p = Some m \<longrightarrow> ftype m = Regular c \<longrightarrow> b = take n c)) (\<lambda>_. ?P)" for h n
    by (rule triple_map_err) (auto simp: io_triple_def read_to_end_def syscall_def tick_def split: option.splits file_type.splits)
  have decoded: "io_triple ?P (decode_pending U J c)
      (\<lambda>r w. ?P w \<and> (case r of None \<Rightarrow> M ?p = None | Some t \<Rightarrow> pending_decodes U J (M ?p) t)) (\<lambda>_. ?P)"
    if "M ?p = Some m" "ftype m = Regular c" for m c
    by (rule triple_weaken [OF triple_decode_pending])
      (use that in \<open>auto simp: pending_decodes_def slot_holds_def, blast?\<close>)
  show ?thesis
    unfolding load_pending_def
    by (rule triple_match [OF inspect])
      (auto simp: regular_content_def split: file_type.splits
        intro!: triple_throw triple_return triple_pure triple_bind [OF opened] triple_bind [OF content]
        intro: decoded)
qed

subsection \<open>Round trip\<close>

definition pending_ready :: "uuid_lib \<Rightarrow> path \<Rightarrow> world \<Rightarrow> bool" where
  "pending_ready U d w \<longleftrightarrow>
     (\<exists>i. map_of (nodes w) d = Some i \<and> ftype i = Directory)
     \<and> (\<exists>i b. map_of (nodes w) (pending_path d) = Some i \<and> ftype i = Regular b)
     \<and> (\<forall>u. map_of (nodes w) (pending_temporary U d u) = None)"

lemma tx_write_atomic_commits:
  assumes "fault_free w" and "json_print J t = Inr s" and "pending_ready U d w"
  shows "\<exists>w'. tx_write_atomic U J d t True w = (Inr (), w') \<and> fault_free w'"
proof -
  define u where "u = entropy w (ticks w)"
  let ?tmp = "pending_temporary U d u"
  let ?i = "\<lparr>ftype = Regular [], mode = 0x180, uid = 0, gid = 0\<rparr>"
  let ?w = "tick (tick (w\<lparr>nodes := fs_set ?tmp ?i (nodes w)\<rparr>))"
  obtain i b where d: "map_of (nodes w) d = Some i" "ftype i = Directory"
    using assms(3) by (auto simp: pending_ready_def)
  have "\<exists>w'. replace_file d ?tmp (pending_path d) s ?w = (Inr (), w') \<and> fault_free w'"
    unfolding pending_temporary_def pending_path_def
    by (rule replace_file_commits)
      (use assms d in \<open>auto simp: fs_is_dir_def pending_ready_def pending_path_def\<close>)
  then obtain w' where "replace_file d ?tmp (pending_path d) s ?w = (Inr (), w')" "fault_free w'"
    by blast
  moreover have "butlast ?tmp = d" "?tmp \<noteq> []" by (simp_all add: pending_temporary_def)
  moreover have "map_of (nodes w) ?tmp = None" using assms(3) by (simp add: pending_ready_def)
  ultimately show ?thesis
    using assms(1,2) d
    by (simp add: tx_write_atomic_def Let_def io_exec new_v4_def create_new_def tx_serialize_def
        fs_is_dir_def flip: u_def)
qed

lemma tx_update_commits:
  assumes "fault_free w" and "json_print J t = Inr s" and "pending_ready U d w"
    and "RollbackTransaction_validate U t = Inr ()"
  shows "\<exists>w'. tx_update_store U J d t w = (Inr (), w') \<and> fault_free w'"
proof -
  have "pending_ready U d (tick (tick w))" using assms(3) by (simp add: pending_ready_def)
  from tx_write_atomic_commits [OF _ assms(2) this] assms show ?thesis
    by (auto simp: tx_update_store_def tx_ensure_real_directory_def io_exec pending_ready_def
        regular_content_def)
qed

lemma valid_schema:
  "RollbackTransaction_validate U t = Inr () \<Longrightarrow> tx_schema_version t = 6 \<or> tx_schema_version t = 7"
  by (simp add: RollbackTransaction_validate_def validate_scope_def version_defs)

lemma decode_pending_printed:
  assumes "json_round_trips J t" and "json_print J t = Inr s"
    and valid: "RollbackTransaction_validate U t = Inr ()"
  shows "decode_pending U J (s @ newline) w = (Inr (Some t), w)"
proof -
  obtain v where v: "json_parse J (s @ newline) = Inr v" "json_tx J v = Inr t"
      "json_get v ''schema_version'' = Some (JNumber (uint (tx_schema_version t)))"
    using assms(1,2) by (auto simp: json_round_trips_def split: sum.splits)
  have "migrate_pending J v (uint (tx_schema_version t)) = io_return t"
    using valid_schema [OF valid] v(2) by (auto simp: migrate_pending_def)
  moreover have "json_as_u64 (JNumber (uint (tx_schema_version t))) = Some (uint (tx_schema_version t))"
    using valid_schema [OF valid] by auto
  ultimately show ?thesis
    using v valid by (simp add: decode_pending_def io_bind_def io_lift_def io_return_def)
qed

lemma load_pending_reads:
  assumes "fault_free w" and "json_round_trips J t" and "json_print J t = Inr s"
    and "file_holds (nodes w) (pending_path d) (s @ newline)"
    and "RollbackTransaction_validate U t = Inr ()"
  shows "\<exists>w'. load_pending U J d w = (Inr (Some t), w')"
proof -
  have "length s < MAX_TRANSACTION_BYTES"
    using assms(2,3) by (simp add: json_round_trips_def MAX_TRANSACTION_BYTES_def split: sum.splits)
  then have size: "length (s @ newline) \<le> MAX_TRANSACTION_BYTES"
    "take (MAX_TRANSACTION_BYTES + 1) (s @ newline) = s @ newline"
    by (simp_all add: newline_def)
  obtain i where "map_of (nodes w) (pending_path d) = Some i" "ftype i = Regular (s @ newline)"
    using assms(4) by (auto simp: file_holds_def)
  then show ?thesis
    using size decode_pending_printed [OF assms(2,3,5)] assms(1)
    by (simp add: load_pending_def io_exec regular_content_def del: take_append length_append)
qed

subsection \<open>The archive\<close>

text \<open>The content of a history file that stands for \<open>t\<close>: its image, or any document of it.\<close>

definition archived_as :: "uuid_lib \<Rightarrow> tx_json \<Rightarrow> RollbackTransaction \<Rightarrow> bytes \<Rightarrow> bool" where
  "archived_as U J t b \<longleftrightarrow>
     tx_image U J t b \<or> (\<exists>v. json_parse J b = Inr v \<and> json_tx J v = Inr t)"

definition history_dir :: "path \<Rightarrow> path" where
  "history_dir d = butlast d @ [''rollback-history'']"

definition history_path :: "uuid_lib \<Rightarrow> path \<Rightarrow> RollbackTransaction \<Rightarrow> path" where
  "history_path U d t = history_dir d @ [hyphenated U (tx_id t) @ ''.json'']"

lemma touches_ensure_rollback_history [io_rules]:
  "history \<in> S \<Longrightarrow> touches S (ensure_rollback_history parent history)"
  unfolding ensure_rollback_history_def by (intro io_rules)

lemma touches_already_archived [io_rules]: "touches S (already_archived J target t)"
  unfolding already_archived_def by (intro io_rules)

lemma touches_tx_archive [io_rules]: "touches (under (history_dir d)) (tx_archive U J d t)"
  unfolding tx_archive_def Let_def history_dir_def
  by (intro io_rules) (auto simp: under_def prefix_def)

lemma triple_already_archived:
  "io_triple (\<lambda>_. True) (already_archived J target t)
     (\<lambda>same w. same \<longrightarrow> slot_holds (archived_as U J t) (map_of (nodes w) target)) (\<lambda>_ _. True)"
proof -
  let ?Q = "\<lambda>i (w :: world). map_of (nodes w) target = Some i"
  have inspect: "io_triple (\<lambda>_. True) (symlink_metadata target) ?Q (\<lambda>_ _. True)"
    by (rule triple_from_any, rule triple_weaken [OF triple_inspect]) auto
  have opened: "io_triple (?Q i) (io_map_err h (open_read target)) (\<lambda>_. ?Q i) (\<lambda>_ _. True)" for h i
    by (rule triple_weaken [OF triple_query]) (auto intro: io_rules)
  have content: "io_triple (?Q i) (io_map_err h (read_to_end target n))
      (\<lambda>b w. ?Q i w \<and> (\<exists>c. ftype i = Regular c \<and> b = take n c)) (\<lambda>_ _. True)" for h i n
    by (rule triple_map_err, rule triple_weaken [OF triple_read_to_end]) auto
  have found: "slot_holds (archived_as U J t) (map_of (nodes w) target)"
    if "?Q i w" "ftype i = Regular c" "length c \<le> MAX_TRANSACTION_BYTES"
      "case json_parse J (take (MAX_TRANSACTION_BYTES + 1) c) of Inl _ \<Rightarrow> False | Inr v \<Rightarrow> json_tx J v = Inr t"
    for w i c
    using that by (auto simp: slot_holds_def archived_as_def split: sum.splits)
  show ?thesis
    unfolding already_archived_def
    by (rule triple_match [OF inspect];
        (auto simp: triple_throw triple_return regular_content_def split: file_type.splits
          intro!: triple_bind [OF opened] triple_bind [OF content] triple_return found)?)
qed

lemma history_temporary_apart: "apart (history_dir d @ [x @ ''.tmp'']) (history_path U d t)"
proof -
  have "last (x @ ''.tmp'') \<noteq> last (hyphenated U (tx_id t) @ ''.json'')" by simp
  then have "x @ ''.tmp'' \<noteq> hyphenated U (tx_id t) @ ''.json''" by metis
  then show ?thesis by (simp add: history_path_def)
qed

lemma triple_archive_commit:
  assumes "RollbackTransaction_validate U t = Inr ()"
  shows "io_triple (\<lambda>_. True)
    (io_bind (io_lift (tx_serialize J c t)) (\<lambda>serialized. io_bind new_v4 (\<lambda>i.
       io_match (io_bind (create_new (history_dir d @ [f i @ ''.tmp'']) m)
           (\<lambda>_. replace_file (history_dir d) (history_dir d @ [f i @ ''.tmp''])
                  (history_path U d t) serialized))
         (\<lambda>r. case r of Inr _ \<Rightarrow> io_return () | Inl e \<Rightarrow>
            io_match (remove_file (history_dir d @ [f i @ ''.tmp''])) (\<lambda>_. io_throw (h e))))))
    (\<lambda>_ w. slot_holds (archived_as U J t) (map_of (nodes w) (history_path U d t))) (\<lambda>_ _. True)"
proof -
  have "archived_as U J t (s @ newline)" if "tx_serialize J c t = Inr s" for s
    using that assms by (auto simp: archived_as_def tx_image_def tx_serialize_def split: sum.splits)
  then show ?thesis
    by (intro triple_lift triple_bind [OF triple_any] triple_commit_closure history_temporary_apart) auto
qed

lemma triple_archive_prepared:
  assumes "io_triple (\<lambda>_. True) m
      (\<lambda>_ w. slot_holds (archived_as U J t) (map_of (nodes w) target)) (\<lambda>_ _. True)"
  shows "io_triple (\<lambda>_. True)
    (io_bind (ensure_rollback_history p h) (\<lambda>_. io_bind (already_archived J target t) (\<lambda>same.
       if same then io_return () else m)))
    (\<lambda>_ w. slot_holds (archived_as U J t) (map_of (nodes w) target)) (\<lambda>_ _. True)"
proof (rule triple_bind [OF triple_any], rule triple_bind [OF triple_already_archived [of J target t U]])
  fix same
  show "io_triple (\<lambda>w. same \<longrightarrow> slot_holds (archived_as U J t) (map_of (nodes w) target))
      (if same then io_return () else m)
      (\<lambda>_ w. slot_holds (archived_as U J t) (map_of (nodes w) target)) (\<lambda>_ _. True)"
    using assms by (cases same) (simp_all add: triple_return)
qed

lemma triple_tx_archive:
  "io_triple (\<lambda>_. True) (tx_archive U J d t)
     (\<lambda>_ w. RollbackPhase_is_terminal (tx_phase t) \<and> RollbackTransaction_validate U t = Inr ()
        \<and> slot_holds (archived_as U J t) (map_of (nodes w) (history_path U d t))) (\<lambda>_ _. True)"
proof (cases "RollbackPhase_is_terminal (tx_phase t) \<and> RollbackTransaction_validate U t = Inr () \<and> d \<noteq> []")
  case True
  then show ?thesis
    using triple_archive_prepared [OF triple_archive_commit
        [where U = U and t = t and J = J and d = d and m = "0x180"
          and c = "''Could not serialize rollback history: ''"
          and f = "\<lambda>i. ''.'' @ hyphenated U (tx_id t) @ ''.'' @ hyphenated U i"
          and h = "tx_io_error ''Could not commit rollback history''"],
        where p = "butlast d" and h = "history_dir d"]
    unfolding tx_archive_def Let_def history_path_def history_dir_def append_assoc
    by (simp add: io_bind_lift)
next
  case False
  then show ?thesis
    by (auto simp: tx_archive_def triple_throw Let_def intro!: triple_lift)
qed

subsection \<open>Properties\<close>

text \<open>
  C26. Updating the pending rollback is atomic under every fault schedule. Whichever
  system call fails, the pending file afterwards is the inode it was or a regular file
  holding the complete text of the new, valid transaction; when the update reports
  success it is the latter; and no path outside the transactions directory changes.
\<close>

theorem pending_update_atomic:
  "case tx_update_store U J d t w of
     (r, w') \<Rightarrow>
       (if r = Inr () then slot_holds (tx_image U J t) (map_of (nodes w') (pending_path d))
        else map_of (nodes w') (pending_path d) = map_of (nodes w) (pending_path d)
          \<or> slot_holds (tx_image U J t) (map_of (nodes w') (pending_path d)))
       \<and> (\<forall>k. prefix d k \<or> map_of (nodes w') k = map_of (nodes w) k)"
proof (cases "tx_update_store U J d t w")
  case (Pair r w')
  with pending.put_ok [of U J d t w w'] pending.put_atomic [OF Pair] pending.put_elsewhere [OF Pair]
  show ?thesis by simp
qed

text \<open>
  Creating a rollback never replaces a pending one, not even one that appears between
  the check and the commit: when a pending file of any kind exists, creation fails and
  leaves that inode alone; when none exists, creation either leaves none or commits the
  complete text of the new, valid transaction, and reports success only in that case.
\<close>

theorem pending_create_exclusive:
  "case tx_create U J d t w of
     (r, w') \<Rightarrow>
       (case map_of (nodes w) (pending_path d) of
          Some i \<Rightarrow> isl r \<and> map_of (nodes w') (pending_path d) = Some i
        | None \<Rightarrow>
            if r = Inr () then slot_holds (tx_image U J t) (map_of (nodes w') (pending_path d))
            else map_of (nodes w') (pending_path d) = None
              \<or> slot_holds (tx_image U J t) (map_of (nodes w') (pending_path d)))"
proof (cases "tx_create U J d t w")
  case (Pair r w')
  note triple = triple_tx_create [of d "map_of (nodes w) (pending_path d)" U J t]
  show ?thesis
  proof (cases r)
    case (Inl e)
    with io_tripleD_err [OF triple refl] Pair show ?thesis by (auto split: option.splits)
  next
    case (Inr u)
    with io_tripleD_ok [OF triple refl] Pair show ?thesis by auto
  qed
qed

text \<open>
  C33. Whatever bytes the pending file holds and whichever call fails, a transaction that
  loading returns satisfies the full validation, also after a schema migration, and
  loading changes no file.
\<close>

theorem load_pending_valid:
  "case load_pending U J d w of
     (r, w') \<Rightarrow>
       (case r of Inr (Some t) \<Rightarrow> RollbackTransaction_validate U t = Inr () | _ \<Rightarrow> True)
       \<and> map_of (nodes w') = map_of (nodes w)"
proof (cases "load_pending U J d w")
  case (Pair r w')
  from touchesD [OF touches_load_pending Pair, of _ "{}"] have "map_of (nodes w') = map_of (nodes w)" by auto
  with returnsD [OF returns_load_pending, of U J d w] Pair show ?thesis
    by (auto split: sum.splits option.splits)
qed

text \<open>
  C32. Progress and round trip: in a world without faults, with a real transactions
  directory, an existing pending file and no left-over temporary file, updating to a
  valid transaction whose JSON text round-trips succeeds, and loading then returns
  exactly that transaction.
\<close>

theorem pending_round_trip:
  assumes "fault_free w" and "pending_ready U d w" and "json_round_trips J t"
    and "RollbackTransaction_validate U t = Inr ()"
  shows "\<exists>w' w''. tx_update_store U J d t w = (Inr (), w') \<and> load_pending U J d w' = (Inr (Some t), w'')"
proof -
  obtain s where s: "json_print J t = Inr s"
    using assms(3) by (auto simp: json_round_trips_def split: sum.splits)
  obtain w' where w': "tx_update_store U J d t w = (Inr (), w')" "fault_free w'"
    using tx_update_commits [OF assms(1) s assms(2,4)] by blast
  have "file_holds (nodes w') (pending_path d) (s @ newline)"
    using pending.put_ok [OF w'(1)] s by (auto simp: slot_holds_iff tx_image_def)
  from load_pending_reads [OF w'(2) assms(3) s this assms(4)] w'(1) show ?thesis by blast
qed

text \<open>
  The archive is written before a pending transaction can be forgotten: archiving
  reports success only for a terminal, valid transaction, and then the history file of
  that transaction exists and is a document of exactly that transaction. Whatever fails,
  the pending transaction itself and every other path outside the history directory are
  untouched.
\<close>

theorem archive_is_durable:
  "case tx_archive U J (r @ [''transactions'']) t w of
     (x, w') \<Rightarrow>
       (if x = Inr ()
        then RollbackPhase_is_terminal (tx_phase t) \<and> RollbackTransaction_validate U t = Inr ()
          \<and> slot_holds (archived_as U J t)
              (map_of (nodes w') (r @ [''rollback-history'', hyphenated U (tx_id t) @ ''.json'']))
        else True)
       \<and> (\<forall>k. prefix (r @ [''rollback-history'']) k \<or> map_of (nodes w') k = map_of (nodes w) k)"
proof (cases "tx_archive U J (r @ [''transactions'']) t w")
  case (Pair x w')
  have "prefix (r @ [''rollback-history'']) k \<or> map_of (nodes w') k = map_of (nodes w) k" for k
    using touchesD [OF touches_tx_archive Pair, of k] by (auto simp: under_def history_dir_def)
  with io_tripleD_ok [OF triple_tx_archive [of U J "r @ [''transactions'']" t] TrueI, of w] Pair
  show ?thesis by (simp add: history_path_def history_dir_def)
qed

subsection \<open>Witness\<close>

definition example_tx_json :: tx_json where
  "example_tx_json =
     \<lparr>json_parse = (\<lambda>b. if b = ''T'' @ newline
         then Inr (JObject [(''schema_version'', JNumber 7)]) else Inl ''syntax''),
      json_v1 = (\<lambda>_. Inl ''v1''), json_v2 = (\<lambda>_. Inl ''v2''), json_v3 = (\<lambda>_. Inl ''v3''),
      json_tx = (\<lambda>_. Inr example_transaction),
      json_print = (\<lambda>t. if t = example_transaction then Inr ''T'' else Inl ''other'')\<rparr>"

definition example_pending_world :: world where
  "example_pending_world =
     \<lparr>nodes = [([''r''], \<lparr>ftype = Directory, mode = 0x1C0, uid = 0, gid = 0\<rparr>),
               ([''r'', ''pending-rollback.json''],
                  \<lparr>ftype = Regular ''old'', mode = 0x180, uid = 0, gid = 0\<rparr>)],
      ticks = 0, fault = (\<lambda>_. None), clock = (\<lambda>_. 0), entropy = (\<lambda>_. 1)\<rparr>"

theorem pending_round_trip_witness:
  "\<exists>w' w''. tx_update_store example_uuid_lib example_tx_json [''r''] example_transaction
       example_pending_world = (Inr (), w')
     \<and> load_pending example_uuid_lib example_tx_json [''r''] w' = (Inr (Some example_transaction), w'')"
proof (rule pending_round_trip)
  show "fault_free example_pending_world"
    by (simp add: fault_free_def example_pending_world_def)
  show "pending_ready example_uuid_lib [''r''] example_pending_world"
    by (simp add: pending_ready_def example_pending_world_def pending_path_def pending_temporary_def)
  show "json_round_trips example_tx_json example_transaction"
    by (simp add: json_round_trips_def example_tx_json_def example_transaction_def
        RollbackTransaction_new_def version_defs)
  show "RollbackTransaction_validate example_uuid_lib example_transaction = Inr ()"
    using example_transaction_valid by (simp add: tx_valid_def)
qed

end
