(* ===== verification/Rust_Text.thy ===== *)
theory Rust_Text
  imports Prelude
begin

text \<open>
  The text functions of the Rust standard library that the recovery engine uses on file
  names, command output and \<open>passwd\<close>: UTF-8 validity and lossy conversion, lines,
  splitting, prefixes and the parsing of unsigned integers.
\<close>

subsection \<open>UTF-8\<close>

text \<open>\<open>OsStr::to_str\<close>: the bytes are well-formed UTF-8 (no overlong form, no surrogate).\<close>

definition utf8_scalar :: "string \<Rightarrow> nat option" where
  "utf8_scalar c =
     (case map of_char c of
        [a] \<Rightarrow> if a < 128 then Some a else None
      | [a, b] \<Rightarrow>
          if 194 \<le> a \<and> a < 224 \<and> 128 \<le> b \<and> b < 192 then Some ((a - 192) * 64 + (b - 128)) else None
      | [a, b, d] \<Rightarrow>
          if 224 \<le> a \<and> a < 240 \<and> 128 \<le> b \<and> b < 192 \<and> 128 \<le> d \<and> d < 192
             \<and> (a = 224 \<longrightarrow> 160 \<le> b) \<and> (a = 237 \<longrightarrow> b < 160)
          then Some ((a - 224) * 4096 + (b - 128) * 64 + (d - 128)) else None
      | [a, b, d, e] \<Rightarrow>
          if 240 \<le> a \<and> a < 245 \<and> 128 \<le> b \<and> b < 192 \<and> 128 \<le> d \<and> d < 192 \<and> 128 \<le> e \<and> e < 192
             \<and> (a = 240 \<longrightarrow> 144 \<le> b) \<and> (a = 244 \<longrightarrow> b < 144)
          then Some ((a - 240) * 262144 + (b - 128) * 4096 + (d - 128) * 64 + (e - 128)) else None
      | _ \<Rightarrow> None)"

definition utf8_valid :: "string \<Rightarrow> bool" where
  "utf8_valid s = list_all (\<lambda>c. utf8_scalar c \<noteq> None) (chars s)"

fun show_hex :: "nat \<Rightarrow> string" where
  "show_hex n =
     (let d = [char_of (if n mod 16 < 10 then 48 + n mod 16 else 87 + n mod 16)]
      in if n < 16 then d else show_hex (n div 16) @ d)"

declare show_hex.simps [simp del]

text \<open>
  \<open>String::from_utf8_lossy\<close>: each maximal prefix of a sequence that is not continued
  correctly becomes one replacement character.
\<close>

definition second_byte_ok :: "nat \<Rightarrow> nat \<Rightarrow> bool" where
  "second_byte_ok a b \<longleftrightarrow>
     (if a = 224 then 160 \<le> b \<and> b < 192 else if a = 237 then 128 \<le> b \<and> b < 160
      else if a = 240 then 144 \<le> b \<and> b < 192 else if a = 244 then 128 \<le> b \<and> b < 144
      else 194 \<le> a \<and> a < 245 \<and> 128 \<le> b \<and> b < 192)"

definition invalid_prefix_length :: "string \<Rightarrow> nat" where
  "invalid_prefix_length s =
     (case map of_char s of
        (a :: nat) # b # d # _ \<Rightarrow>
          if 224 \<le> a \<and> second_byte_ok a b
          then if 240 \<le> a \<and> 128 \<le> d \<and> d < 192 then 3 else 2
          else 1
      | [a, b] \<Rightarrow> if 224 \<le> a \<and> second_byte_ok a b then 2 else 1
      | _ \<Rightarrow> 1)"

definition valid_prefix_length :: "string \<Rightarrow> nat" where
  "valid_prefix_length s =
     (case find (\<lambda>n. n \<le> length s \<and> utf8_scalar (take n s) \<noteq> None) [1, 2, 3, 4] of
        None \<Rightarrow> 0 | Some n \<Rightarrow> n)"

function from_utf8_lossy :: "bytes \<Rightarrow> string" where
  "from_utf8_lossy s =
     (if s = [] then []
      else if 0 < valid_prefix_length s
      then take (valid_prefix_length s) s @ from_utf8_lossy (drop (valid_prefix_length s) s)
      else [CHR 0xEF, CHR 0xBF, CHR 0xBD] @ from_utf8_lossy (drop (invalid_prefix_length s) s))"
  by pat_completeness auto

lemma invalid_prefix_length_pos: "0 < invalid_prefix_length s"
  by (simp add: invalid_prefix_length_def split: list.splits)

termination from_utf8_lossy
  by (relation "measure length") (use invalid_prefix_length_pos in auto)

declare from_utf8_lossy.simps [simp del]

subsection \<open>Lines and fields\<close>

definition strip_cr :: "string \<Rightarrow> string" where
  "strip_cr l = (if l \<noteq> [] \<and> last l = CHR 0x0D then butlast l else l)"

function lines :: "string \<Rightarrow> string list" where
  "lines s =
     (if s = [] then []
      else let l = takeWhile (\<lambda>c. c \<noteq> CHR 0x0A) s; r = dropWhile (\<lambda>c. c \<noteq> CHR 0x0A) s
           in if r = [] then [l] else strip_cr l # lines (tl r))"
  by pat_completeness auto

termination lines
proof (relation "measure length")
  fix s l r :: string
  assume "s \<noteq> []" and "r = dropWhile (\<lambda>c. c \<noteq> CHR 0x0A) s" and "r \<noteq> []"
  then have "length r \<le> length s" and "0 < length s" by (simp_all add: length_dropWhile_le)
  then have "length r - 1 < length s" by linarith
  then show "(tl r, s) \<in> measure length" by simp
qed simp

declare lines.simps [simp del]

fun split_char :: "char \<Rightarrow> string \<Rightarrow> string list" where
  "split_char c [] = [[]]"
| "split_char c (x # xs) =
     (if x = c then [] # split_char c xs
      else case split_char c xs of [] \<Rightarrow> [[x]] | f # fs \<Rightarrow> (x # f) # fs)"

definition strip_prefix :: "string \<Rightarrow> string \<Rightarrow> string option" where
  "strip_prefix p s = (if take (length p) s = p then Some (drop (length p) s) else None)"

fun split_once :: "string \<Rightarrow> string \<Rightarrow> (string \<times> string) option" where
  "split_once p [] = (if p = [] then Some ([], []) else None)"
| "split_once p (x # xs) =
     (case strip_prefix p (x # xs) of
        Some r \<Rightarrow> Some ([], r)
      | None \<Rightarrow> map_option (\<lambda>(a, b). (x # a, b)) (split_once p xs))"

definition str_trim_start :: "string \<Rightarrow> string" where
  "str_trim_start s = concat (dropWhile char_is_whitespace (chars s))"

text \<open>\<open>str::parse::<u32>\<close>: an optional plus sign, at least one digit, no overflow.\<close>

definition parse_u32 :: "string \<Rightarrow> u32 option" where
  "parse_u32 s =
     (let d = (if s \<noteq> [] \<and> hd s = CHR ''+'' then tl s else s);
          n = foldl (\<lambda>n c. n * 10 + (of_char c - 48)) (0 :: nat) d
      in if d = [] \<or> \<not> list_all is_ascii_digit d \<or> 2 ^ 32 \<le> n then None else Some (of_nat n))"

definition strip_suffix :: "string \<Rightarrow> string \<Rightarrow> string option" where
  "strip_suffix p s = map_option rev (strip_prefix (rev p) (rev s))"

text \<open>\<open>str::split_whitespace\<close>, over the characters of the string.\<close>

fun split_blank :: "string list \<Rightarrow> string list list" where
  "split_blank [] = [[]]"
| "split_blank (c # cs) =
     (if char_is_whitespace c then [] # split_blank cs
      else case split_blank cs of [] \<Rightarrow> [[c]] | f # fs \<Rightarrow> (c # f) # fs)"

definition split_whitespace :: "string \<Rightarrow> string list" where
  "split_whitespace s = filter (\<lambda>x. x \<noteq> []) (map concat (split_blank (chars s)))"

text \<open>
  \<open>Path::components\<close> of a relative path: empty and inner \<open>.\<close> components are skipped, and
  all components are \<open>Normal\<close> when none is the root, a leading \<open>.\<close> or \<open>..\<close>.
\<close>

definition path_components :: "string \<Rightarrow> string list" where
  "path_components s = filter (\<lambda>c. c \<noteq> [] \<and> c \<noteq> ''.'') (split_char CHR ''/'' s)"

definition normal_components :: "string \<Rightarrow> bool" where
  "normal_components s \<longleftrightarrow>
     (s = [] \<or> hd s \<noteq> CHR ''/'') \<and> hd (split_char CHR ''/'' s) \<noteq> ''.'' \<and> ''..'' \<notin> set (split_char CHR ''/'' s)"

lemma strip_prefix_iff: "strip_prefix p s = Some r \<longleftrightarrow> s = p @ r"
  by (auto simp: strip_prefix_def) (metis append_take_drop_id)

lemma split_once_append: "split_once p s = Some (a, b) \<Longrightarrow> s = a @ p @ b"
  by (induction p s arbitrary: a b rule: split_once.induct)
    (auto simp: strip_prefix_iff split: if_splits option.splits)

lemma split_char_nonempty [simp]: "split_char c s \<noteq> []"
  by (induction s) (auto split: list.splits)

lemma split_char_no_separator: "f \<in> set (split_char c s) \<Longrightarrow> c \<notin> set f"
  by (induction s arbitrary: f) (auto split: if_splits list.splits)

lemma strip_suffix_append [simp]: "strip_suffix p (s @ p) = Some s"
  by (simp add: strip_suffix_def strip_prefix_def)

lemma strip_suffix_iff: "strip_suffix p s = Some r \<longleftrightarrow> s = r @ p"
  by (auto simp: strip_suffix_def strip_prefix_iff) (metis rev_append rev_rev_ident)+

lemma path_components_normal:
  assumes "normal_components s" and "c \<in> set (path_components s)"
  shows "c \<noteq> []" "c \<noteq> ''.''" "c \<noteq> ''..''" "CHR ''/'' \<notin> set c"
  using assms split_char_no_separator [of c "CHR ''/''" s] by (auto simp: normal_components_def path_components_def)

end
