(* ===== verification/Deployment_Store.thy ===== *)
theory Deployment_Store
  imports Personal Rust_Text Atomic_File "HOL-Library.List_Lexorder" "HOL-Library.Char_ord"
    "HOL-Library.Product_Lexorder"
begin

text \<open>
  \<open>DeploymentStore\<close> of \<open>store.rs\<close>: one metadata file per deployment under
  \<open>metadata/\<close>, loading with its checks on the file and its name, discovery of all
  records, and writing under the store's lock with the atomic replacement protocol.
\<close>

subsection \<open>Data\<close>

definition STORE_MAX_METADATA_BYTES :: nat where
  "STORE_MAX_METADATA_BYTES = 1024 * 1024"

datatype DiscoveryIssueCode =
  StoreUnavailable | UnsafeEntry | InvalidFilename | MetadataTooLarge | ReadFailed
  | InvalidJson | InvalidRecord | IdentifierMismatch | MissingSnapshot

record DiscoveryIssue =
  di_entry :: string
  di_code :: DiscoveryIssueCode
  di_message :: string

record DiscoveryReport =
  dr_schema_version :: u32
  dr_deployments :: "DeploymentRecord list"
  dr_issues :: "DiscoveryIssue list"

datatype StoreMutationErrorCode = SmInvalidRecord | SmInvalidTransition | SmUnsafePath | SmIo

record StoreMutationError =
  sm_code :: StoreMutationErrorCode
  sm_message :: string

definition StoreMutationError_new :: "StoreMutationErrorCode \<Rightarrow> string \<Rightarrow> StoreMutationError" where
  "StoreMutationError_new c m = \<lparr>sm_code = c, sm_message = m\<rparr>"

definition mutation_io :: "string \<Rightarrow> io_error \<Rightarrow> StoreMutationError" where
  "mutation_io context e = StoreMutationError_new SmIo (context @ '': '' @ err_text e)"

definition issue :: "string \<Rightarrow> DiscoveryIssueCode \<Rightarrow> string \<Rightarrow> DiscoveryIssue" where
  "issue entry code message = \<lparr>di_entry = entry, di_code = code, di_message = message\<rparr>"

text \<open>The conversions \<open>serde_json\<close> derives for the record.\<close>

record dep_json =
  dep_parse :: "bytes \<Rightarrow> string + DeploymentRecord"
  dep_print :: "DeploymentRecord \<Rightarrow> string + bytes"

definition dep_round_trips :: "dep_json \<Rightarrow> DeploymentRecord \<Rightarrow> bool" where
  "dep_round_trips J r \<longleftrightarrow>
     (case dep_print J r of
        Inl e \<Rightarrow> False
      | Inr b \<Rightarrow> length b < 1024 * 1024 \<and> dep_parse J (b @ newline) = Inr r)"

subsection \<open>Names in diagnostics\<close>

text \<open>\<open>char::escape_default\<close> of one character.\<close>

definition escape_default :: "string \<Rightarrow> string" where
  "escape_default c =
     (case utf8_scalar c of
        None \<Rightarrow> []
      | Some n \<Rightarrow>
          if n = 9 then [CHR 0x5C, CHR ''t'']
          else if n = 13 then [CHR 0x5C, CHR ''r'']
          else if n = 10 then [CHR 0x5C, CHR ''n'']
          else if n = 39 \<or> n = 34 \<or> n = 92 then CHR 0x5C # c
          else if 32 \<le> n \<and> n \<le> 126 then c
          else [CHR 0x5C, CHR ''u'', CHR ''{''] @ show_hex n @ ''}'')"

definition safe_entry_name :: "path \<Rightarrow> string" where
  "safe_entry_name p =
     (if p = [] \<or> last p = ''..'' \<or> \<not> utf8_valid (last p) then ''<invalid-name>''
      else concat (map escape_default (chars (last p))))"

subsection \<open>Reading\<close>

definition metadata_dir :: "path \<Rightarrow> path" where
  "metadata_dir root = root @ [''metadata'']"

definition record_path :: "uuid_lib \<Rightarrow> path \<Rightarrow> uuid \<Rightarrow> path" where
  "record_path U root i = metadata_dir root @ [hyphenated U i @ ''.json'']"

definition filename_id :: "uuid_lib \<Rightarrow> path \<Rightarrow> DiscoveryIssue + uuid" where
  "filename_id U p =
     (let entry_name = safe_entry_name p in
      case file_stem p of
        None \<Rightarrow> Inl (issue entry_name InvalidFilename ''Metadata filename is not valid UTF-8'')
      | Some stem \<Rightarrow>
          if \<not> utf8_valid stem
          then Inl (issue entry_name InvalidFilename ''Metadata filename is not valid UTF-8'')
          else
            (case parse_str U stem of
               None \<Rightarrow> Inl (issue entry_name InvalidFilename
                        ''Metadata filename must be a lowercase hyphenated UUID'')
             | Some i \<Rightarrow>
                 if hyphenated U i \<noteq> stem
                 then Inl (issue entry_name InvalidFilename
                        ''Metadata filename must use the canonical lowercase UUID form'')
                 else Inr i))"

definition decode_record ::
  "uuid_lib \<Rightarrow> dep_json \<Rightarrow> path \<Rightarrow> uuid \<Rightarrow> bytes \<Rightarrow> DiscoveryIssue + DeploymentRecord" where
  "decode_record U J p i contents =
     (let entry_name = safe_entry_name p in
      if STORE_MAX_METADATA_BYTES < length contents
      then Inl (issue entry_name MetadataTooLarge ''Metadata exceeds the 1048576-byte safety limit'')
      else case dep_parse J contents of
        Inl e \<Rightarrow> Inl (issue entry_name InvalidJson (''Metadata is not a deployment record: '' @ e))
      | Inr r \<Rightarrow>
          (case DeploymentRecord_validate U r of
             Inl e \<Rightarrow> Inl (issue entry_name InvalidRecord (ModelError_to_string e))
           | Inr _ \<Rightarrow>
               if dep_id r \<noteq> i
               then Inl (issue entry_name IdentifierMismatch
                      ''Deployment ID does not match its metadata filename'')
               else Inr r))"

definition read_metadata_record ::
  "uuid_lib \<Rightarrow> dep_json \<Rightarrow> path \<Rightarrow> (DiscoveryIssue, DeploymentRecord) io" where
  "read_metadata_record U J p =
     (let entry_name = safe_entry_name p in
      io_bind (io_map_err (\<lambda>e. issue entry_name ReadFailed
                  (''Could not inspect metadata: '' @ err_text e)) (symlink_metadata p)) (\<lambda>metadata.
      case regular_content metadata of
        None \<Rightarrow> io_throw (issue entry_name UnsafeEntry
                  ''Metadata must be a regular file, not a link or special file'')
      | Some content \<Rightarrow>
          if STORE_MAX_METADATA_BYTES < length content
          then io_throw (issue entry_name MetadataTooLarge
                 ''Metadata exceeds the 1048576-byte safety limit'')
          else
            io_bind (io_lift (filename_id U p)) (\<lambda>i.
            io_bind (io_map_err (\<lambda>e. issue entry_name ReadFailed
                       (''Could not open metadata: '' @ err_text e)) (open_read p)) (\<lambda>_.
            io_bind (io_map_err (\<lambda>e. issue entry_name ReadFailed
                       (''Could not read metadata: '' @ err_text e))
                       (read_to_end p (STORE_MAX_METADATA_BYTES + 1))) (\<lambda>contents.
            io_lift (decode_record U J p i contents))))))"

definition load_record ::
  "uuid_lib \<Rightarrow> dep_json \<Rightarrow> path \<Rightarrow> uuid \<Rightarrow> (DiscoveryIssue, DeploymentRecord) io" where
  "load_record U J root i = read_metadata_record U J (record_path U root i)"

definition read_discoverable_record ::
  "uuid_lib \<Rightarrow> dep_json \<Rightarrow> path \<Rightarrow> path \<Rightarrow> (DiscoveryIssue, DeploymentRecord) io" where
  "read_discoverable_record U J root p =
     io_bind (read_metadata_record U J p) (\<lambda>r.
     if dep_snapshot_uuid r = None then io_return r
     else
       let entry_name = safe_entry_name p;
           snapshot = root @ [''deployments'', hyphenated U (dep_id r), ''root'']
       in
       io_match (symlink_metadata snapshot) (\<lambda>result.
         case result of
           Inl e \<Rightarrow>
             (if err_kind e = NotFound \<and> dep_state r = Deleting then io_return r
              else io_throw (issue entry_name MissingSnapshot
                     (''The deployment root is unavailable: '' @ err_text e)))
         | Inr metadata \<Rightarrow>
             (if ftype metadata \<noteq> Directory
              then io_throw (issue entry_name UnsafeEntry
                     ''The deployment root must be a real directory'')
              else io_return r)))"

text \<open>The loop over the directory entries; problems become issues and never stop it.\<close>

fun discover_entries ::
  "uuid_lib \<Rightarrow> dep_json \<Rightarrow> path \<Rightarrow> string list \<Rightarrow> DiscoveryReport \<Rightarrow> (DiscoveryIssue, DiscoveryReport) io" where
  "discover_entries U J root [] report = io_return report"
| "discover_entries U J root (n # ns) report =
     io_match (next_entry n) (\<lambda>entry_result.
       case entry_result of
         Inl e \<Rightarrow> discover_entries U J root ns
           (report\<lparr>dr_issues := dr_issues report @ [issue ''metadata'' ReadFailed
              (''Could not read a metadata directory entry: '' @ err_text e)]\<rparr>)
       | Inr name \<Rightarrow>
           let p = metadata_dir root @ [name] in
           if file_extension p \<noteq> Some ''json'' then discover_entries U J root ns report
           else io_match (read_discoverable_record U J root p) (\<lambda>result.
             case result of
               Inr r \<Rightarrow> discover_entries U J root ns
                 (report\<lparr>dr_deployments := dr_deployments report @ [r]\<rparr>)
             | Inl problem \<Rightarrow> discover_entries U J root ns
                 (report\<lparr>dr_issues := dr_issues report @ [problem]\<rparr>)))"

text \<open>The comparator: newest first, then by the text of the identifier.\<close>

definition sort_deployments :: "uuid_lib \<Rightarrow> DeploymentRecord list \<Rightarrow> DeploymentRecord list" where
  "sort_deployments U rs = sort_key (\<lambda>r. (- dep_created_at r, hyphenated U (dep_id r))) rs"

definition discover :: "uuid_lib \<Rightarrow> dep_json \<Rightarrow> path \<Rightarrow> (DiscoveryIssue, DiscoveryReport) io" where
  "discover U J root =
     (let report = \<lparr>dr_schema_version = DEPLOYMENT_SCHEMA_VERSION, dr_deployments = [], dr_issues = []\<rparr>;
          failed = (\<lambda>code message. io_return (report\<lparr>dr_issues := [issue ''metadata'' code message]\<rparr>))
      in
      io_match (symlink_metadata (metadata_dir root)) (\<lambda>result.
        case result of
          Inl e \<Rightarrow>
            (if err_kind e = NotFound then io_return report
             else failed StoreUnavailable (''Could not inspect the metadata directory: '' @ err_text e))
        | Inr directory_metadata \<Rightarrow>
            if ftype directory_metadata \<noteq> Directory
            then failed UnsafeEntry ''The metadata path is not a real directory''
            else
              io_match (read_dir (metadata_dir root)) (\<lambda>entries.
                case entries of
                  Inl e \<Rightarrow> failed StoreUnavailable
                             (''Could not read the metadata directory: '' @ err_text e)
                | Inr names \<Rightarrow>
                    io_bind (discover_entries U J root names report) (\<lambda>report.
                    io_return (report\<lparr>dr_deployments :=
                      sort_deployments U (dr_deployments report)\<rparr>)))))"

subsection \<open>Writing\<close>

definition store_ensure_real_directory :: "path \<Rightarrow> (StoreMutationError, unit) io" where
  "store_ensure_real_directory p =
     io_bind (io_map_err (mutation_io ''Could not inspect deployment metadata directory'')
                (symlink_metadata p)) (\<lambda>metadata.
     if ftype metadata = Directory then io_return ()
     else io_throw (StoreMutationError_new SmUnsafePath
            ''Deployment metadata directory is not a real directory''))"

definition acquire_write_lock :: "path \<Rightarrow> (StoreMutationError, unit) io" where
  "acquire_write_lock root =
     io_bind (store_ensure_real_directory (metadata_dir root)) (\<lambda>_.
     io_bind (io_map_err (mutation_io ''Could not open deployment metadata lock'')
                (open_create (metadata_dir root @ [''write.lock'']) 0x180)) (\<lambda>_.
     io_map_err (mutation_io ''Could not lock deployment metadata'')
       (flock_exclusive (metadata_dir root @ [''write.lock'']))))"

definition record_temporary :: "uuid_lib \<Rightarrow> path \<Rightarrow> uuid \<Rightarrow> uuid \<Rightarrow> path" where
  "record_temporary U root i u =
     metadata_dir root @ [''.'' @ hyphenated U i @ ''.'' @ hyphenated U u @ ''.tmp'']"

definition inspect_record_target :: "path \<Rightarrow> (StoreMutationError, unit) io" where
  "inspect_record_target target =
     io_match (symlink_metadata target) (\<lambda>result.
       case result of
         Inr metadata \<Rightarrow>
           (if regular_content metadata \<noteq> None then io_return ()
            else io_throw (StoreMutationError_new SmUnsafePath
                   ''Deployment metadata target is not a regular file''))
       | Inl e \<Rightarrow>
           (if err_kind e = NotFound then io_return ()
            else io_throw (mutation_io ''Could not inspect deployment metadata target'' e)))"

definition dep_serialize :: "dep_json \<Rightarrow> DeploymentRecord \<Rightarrow> StoreMutationError + bytes" where
  "dep_serialize J r =
     (case dep_print J r of
        Inl e \<Rightarrow> Inl (StoreMutationError_new SmInvalidRecord
                   (''Could not serialize deployment metadata: '' @ e))
      | Inr b \<Rightarrow> Inr b)"

definition dep_check :: "uuid_lib \<Rightarrow> DeploymentRecord \<Rightarrow> StoreMutationError + unit" where
  "dep_check U r =
     (case DeploymentRecord_validate U r of
        Inl e \<Rightarrow> Inl (StoreMutationError_new SmInvalidRecord (ModelError_to_string e))
      | Inr _ \<Rightarrow> Inr ())"

definition write_record_atomic ::
  "uuid_lib \<Rightarrow> dep_json \<Rightarrow> path \<Rightarrow> DeploymentRecord \<Rightarrow> (StoreMutationError, unit) io" where
  "write_record_atomic U J root r =
     io_bind (io_lift (dep_check U r)) (\<lambda>_.
     io_bind (store_ensure_real_directory (metadata_dir root)) (\<lambda>_.
     let target = record_path U root (dep_id r) in
     io_bind (inspect_record_target target) (\<lambda>_.
     io_bind new_v4 (\<lambda>u.
     let temporary = record_temporary U root (dep_id r) u in
     io_bind (io_lift (dep_serialize J r)) (\<lambda>serialized.
     io_bind (io_map_err (mutation_io ''Could not create deployment metadata'')
                (create_new temporary 0x180)) (\<lambda>_.
     io_match (replace_file (metadata_dir root) temporary target serialized) (\<lambda>result.
       case result of
         Inr _ \<Rightarrow> io_return ()
       | Inl e \<Rightarrow> io_match (remove_file temporary) (\<lambda>_.
           io_throw (mutation_io ''Could not atomically commit deployment metadata'' e)))))))))"

definition write_record ::
  "uuid_lib \<Rightarrow> dep_json \<Rightarrow> path \<Rightarrow> DeploymentRecord \<Rightarrow> (StoreMutationError, unit) io" where
  "write_record U J root r =
     io_bind (acquire_write_lock root) (\<lambda>_. write_record_atomic U J root r)"

fun state_debug :: "DeploymentState \<Rightarrow> string" where
  "state_debug Creating = ''Creating''"
| "state_debug Ready = ''Ready''"
| "state_debug Incomplete = ''Incomplete''"
| "state_debug Broken = ''Broken''"
| "state_debug Deleting = ''Deleting''"

definition store_transition ::
  "uuid_lib \<Rightarrow> dep_json \<Rightarrow> path \<Rightarrow> uuid \<Rightarrow> DeploymentState \<Rightarrow> (StoreMutationError, DeploymentRecord) io" where
  "store_transition U J root i next =
     io_bind (acquire_write_lock root) (\<lambda>_.
     io_bind (io_map_err (\<lambda>problem. StoreMutationError_new SmInvalidRecord (di_message problem))
                (load_record U J root i)) (\<lambda>r.
     if dep_state r = next then io_return r
     else if \<not> DeploymentState_can_transition_to (dep_state r) next
     then io_throw (StoreMutationError_new SmInvalidTransition
            (''Deployment cannot transition from '' @ state_debug (dep_state r)
              @ '' to '' @ state_debug next))
     else
       let r = r\<lparr>dep_state := next\<rparr> in
       io_bind (write_record_atomic U J root r) (\<lambda>_. io_return r)))"


subsection \<open>Frames\<close>

lemma touches_read_metadata_record [io_rules]: "touches S (read_metadata_record U J p)"
  unfolding read_metadata_record_def Let_def by (intro io_rules)

lemma touches_load_record [io_rules]: "touches S (load_record U J root i)"
  unfolding load_record_def by (intro io_rules)

lemma touches_read_discoverable_record [io_rules]: "touches S (read_discoverable_record U J root p)"
  unfolding read_discoverable_record_def Let_def by (intro io_rules)

lemma touches_discover_entries [io_rules]: "touches S (discover_entries U J root ns report)"
  by (induction ns arbitrary: report) (auto simp: Let_def intro!: io_rules)

lemma touches_discover [io_rules]: "touches S (discover U J root)"
  unfolding discover_def Let_def by (intro io_rules)

lemma touches_store_ensure_real_directory [io_rules]: "touches S (store_ensure_real_directory p)"
  unfolding store_ensure_real_directory_def by (intro io_rules)

lemma touches_inspect_record_target [io_rules]: "touches S (inspect_record_target p)"
  unfolding inspect_record_target_def by (intro io_rules)

lemma touches_acquire_write_lock [io_rules]:
  "metadata_dir root @ [''write.lock''] \<in> S \<Longrightarrow> touches S (acquire_write_lock root)"
  unfolding acquire_write_lock_def by (intro io_rules)

text \<open>The paths a write of the record \<open>i\<close> can change.\<close>

definition record_paths :: "uuid_lib \<Rightarrow> path \<Rightarrow> uuid \<Rightarrow> path set" where
  "record_paths U root i =
     insert (metadata_dir root @ [''write.lock''])
       (under (record_path U root i) \<union> (\<Union>u. under (record_temporary U root i u)))"

lemma touches_write_record_atomic:
  "touches (record_paths U root (dep_id r)) (write_record_atomic U J root r)"
  unfolding write_record_atomic_def Let_def
  by (intro io_rules) (auto simp: record_paths_def under_def)

lemma touches_write_record [io_rules]:
  "touches (record_paths U root (dep_id r)) (write_record U J root r)"
  unfolding write_record_def
  by (intro io_rules touches_write_record_atomic) (simp add: record_paths_def)

lemma record_paths_under: "record_paths U root i \<subseteq> under (metadata_dir root)"
  by (auto simp: record_paths_def under_def record_path_def record_temporary_def prefix_def)

lemma record_temporary_apart: "apart (record_temporary U root i u) (record_path U root j)"
  using json_name_distinct(1) [of "hyphenated U j" "''.'' @ hyphenated U i @ ''.'' @ hyphenated U u"]
  unfolding record_temporary_def record_path_def apart_siblings append_assoc by (rule not_sym)

lemma record_path_outside:
  assumes "record_path U root j \<noteq> record_path U root i"
  shows "record_path U root j \<notin> record_paths U root i"
proof -
  have "apart (record_path U root i) (record_path U root j)"
    using assms by (auto simp: record_path_def)
  moreover have "record_path U root j \<noteq> metadata_dir root @ [''write.lock'']"
    using json_name_distinct(2) by (auto simp: record_path_def)
  ultimately show ?thesis
    using record_temporary_apart by (auto simp: record_paths_def under_def apart_def)
qed

subsection \<open>The contract\<close>

definition dep_image :: "uuid_lib \<Rightarrow> dep_json \<Rightarrow> DeploymentRecord \<Rightarrow> bytes \<Rightarrow> bool" where
  "dep_image U J r b \<longleftrightarrow>
     DeploymentRecord_validate U r = Inr () \<and> (\<exists>s. dep_print J r = Inr s \<and> b = s @ newline)"

lemma triple_write_record_atomic:
  "io_triple (\<lambda>w. map_of (nodes w) (record_path U root (dep_id r)) = i) (write_record_atomic U J root r)
    (\<lambda>_ w. slot_holds (dep_image U J r) (map_of (nodes w) (record_path U root (dep_id r))))
    (\<lambda>_ w. map_of (nodes w) (record_path U root (dep_id r)) = i
       \<or> slot_holds (dep_image U J r) (map_of (nodes w) (record_path U root (dep_id r))))"
proof -
  let ?target = "record_path U root (dep_id r)"
  let ?P = "\<lambda>w. map_of (nodes w) ?target = i"
  let ?E = "\<lambda>_ w. ?P w \<or> slot_holds (dep_image U J r) (map_of (nodes w) ?target)"
  have directory: "io_triple ?P (store_ensure_real_directory p) (\<lambda>_. ?P) ?E" for p
    by (rule triple_weaken [OF triple_query]) (auto intro: io_rules)
  have inspect: "io_triple ?P (inspect_record_target ?target) (\<lambda>_. ?P) ?E"
    by (rule triple_weaken [OF triple_query]) (auto intro: io_rules)
  have new: "io_triple ?P new_v4 (\<lambda>_. ?P) ?E"
    by (rule triple_weaken [OF triple_query]) (auto intro: io_rules)
  have image: "dep_image U J r (s @ newline)" if "dep_check U r = Inr u" "dep_serialize J r = Inr s" for u s
    using that by (auto simp: dep_image_def dep_check_def dep_serialize_def split: sum.splits)
  show ?thesis
    unfolding write_record_atomic_def Let_def
    by (rule triple_lift, rule triple_bind [OF directory], rule triple_bind [OF inspect],
        rule triple_bind [OF new], rule triple_lift,
        rule triple_commit_replace [OF record_temporary_apart, where I = "dep_image U J r"],
        rule image) auto
qed

lemma triple_write_record:
  "io_triple (\<lambda>w. map_of (nodes w) (record_path U root (dep_id r)) = i) (write_record U J root r)
    (\<lambda>_ w. slot_holds (dep_image U J r) (map_of (nodes w) (record_path U root (dep_id r))))
    (\<lambda>_ w. map_of (nodes w) (record_path U root (dep_id r)) = i
       \<or> slot_holds (dep_image U J r) (map_of (nodes w) (record_path U root (dep_id r))))"
  unfolding write_record_def
proof (rule triple_bind [OF triple_weaken [OF triple_unchanged] triple_write_record_atomic])
  show "touches {metadata_dir root @ [''write.lock'']} (acquire_write_lock root)"
    by (intro io_rules) simp
  show "record_path U root (dep_id r) \<notin> {metadata_dir root @ [''write.lock'']}"
    using json_name_distinct(2) by (auto simp: record_path_def)
qed auto

interpretation deployments: durable_store "metadata_dir root" "\<lambda>r. record_path U root (dep_id r)"
    "write_record U J root" "dep_image U J"
  for U J root
proof
  show "touches (under (metadata_dir root)) (write_record U J root r)" for r
    by (rule touches_mono [OF touches_write_record record_paths_under])
  show "map_of (nodes w') (record_path U root (dep_id r')) = map_of (nodes w) (record_path U root (dep_id r'))"
    if "record_path U root (dep_id r') \<noteq> record_path U root (dep_id r)"
      "write_record U J root r w = (x, w')" for r r' w x w'
    by (rule touchesD [OF touches_write_record that(2) record_path_outside [OF that(1)]])
  note triple = triple_write_record [where i = "map_of (nodes w) (record_path U root (dep_id r))" for w r]
  show "slot_holds (dep_image U J r) (map_of (nodes w') (record_path U root (dep_id r)))"
    if "write_record U J root r w = (Inr (), w')" for r w w'
    using io_tripleD_ok [OF triple refl that] .
  show "map_of (nodes w') (record_path U root (dep_id r)) = map_of (nodes w) (record_path U root (dep_id r))
      \<or> slot_holds (dep_image U J r) (map_of (nodes w') (record_path U root (dep_id r)))"
    if "write_record U J root r w = (Inl e, w')" for r w e w'
    using io_tripleD_err [OF triple refl that] .
qed

subsection \<open>What loading returns\<close>

text \<open>The record \<open>r\<close> is what the inode \<open>i\<close>, at the path \<open>p\<close>, says.\<close>

definition inode_records :: "uuid_lib \<Rightarrow> dep_json \<Rightarrow> path \<Rightarrow> inode option \<Rightarrow> DeploymentRecord \<Rightarrow> bool" where
  "inode_records U J p i r \<longleftrightarrow>
     slot_holds (\<lambda>b. length b \<le> STORE_MAX_METADATA_BYTES \<and> dep_parse J b = Inr r) i
     \<and> DeploymentRecord_validate U r = Inr () \<and> filename_id U p = Inr (dep_id r)"

lemma decode_record_ok:
  "decode_record U J p i c = Inr r \<longleftrightarrow>
     length c \<le> STORE_MAX_METADATA_BYTES \<and> dep_parse J c = Inr r
     \<and> DeploymentRecord_validate U r = Inr () \<and> dep_id r = i"
  by (auto simp: decode_record_def Let_def split: sum.splits)

lemma triple_lift_last:
  "(\<And>x w. r = Inr x \<Longrightarrow> P w \<Longrightarrow> Q x w) \<Longrightarrow> (\<And>e w. r = Inl e \<Longrightarrow> P w \<Longrightarrow> E e w) \<Longrightarrow>
     io_triple P (io_lift r) Q E"
  by (cases r) (simp_all add: io_triple_def io_lift_def)

lemma triple_read_metadata_record:
  "io_triple (\<lambda>w. map_of (nodes w) p = i) (read_metadata_record U J p)
    (\<lambda>r w. map_of (nodes w) p = i \<and> inode_records U J p i r) (\<lambda>_ w. map_of (nodes w) p = i)"
proof -
  let ?P = "\<lambda>w. map_of (nodes w) p = i"
  have inspect: "io_triple ?P (io_map_err h (symlink_metadata p))
      (\<lambda>m w. ?P w \<and> i = Some m) (\<lambda>_. ?P)" for h
    by (rule triple_map_err, rule triple_inspect)
  have opened: "io_triple (\<lambda>w. ?P w \<and> i = Some m) (io_map_err h (open_read p))
      (\<lambda>_ w. ?P w \<and> i = Some m) (\<lambda>_. ?P)" for h m
    by (rule triple_pure, rule triple_weaken [OF triple_query]) (auto intro: io_rules)
  have content: "io_triple (\<lambda>w. ?P w \<and> i = Some m) (io_map_err h (read_to_end p n))
      (\<lambda>b w. ?P w \<and> i = Some m \<and> (\<exists>c. ftype m = Regular c \<and> b = take n c)) (\<lambda>_. ?P)" for h m n
    by (rule triple_pure, rule triple_map_err, rule triple_weaken [OF triple_read_to_end [of p m n]]) auto
  show ?thesis
    unfolding read_metadata_record_def Let_def
    by (rule triple_bind [OF inspect])
      (auto simp: regular_content_def inode_records_def slot_holds_def decode_record_ok
        split: file_type.splits
        intro!: triple_throw triple_lift triple_bind [OF opened] triple_bind [OF content] triple_lift_last)
qed

lemma filename_id_record_path:
  assumes "filename_id U (record_path U root i) = Inr j" and "hyphenated U i \<noteq> []"
  shows "parse_str U (hyphenated U i) = Some j"
  using assms file_stem_json [of "hyphenated U i" "metadata_dir root"]
  by (auto simp: filename_id_def record_path_def Let_def split: option.splits if_splits)

subsection \<open>Discovery\<close>

definition report_sound :: "uuid_lib \<Rightarrow> DiscoveryReport \<Rightarrow> bool" where
  "report_sound U report \<longleftrightarrow> (\<forall>r \<in> set (dr_deployments report). DeploymentRecord_validate U r = Inr ())"

lemma returns_read_discoverable_record:
  "read_discoverable_record U J root p w = (Inr r, w') \<Longrightarrow> DeploymentRecord_validate U r = Inr ()"
proof -
  have "returns (read_metadata_record U J p) (\<lambda>r. DeploymentRecord_validate U r = Inr ())"
    using io_tripleD_ok [OF triple_read_metadata_record [of p "map_of (nodes w) p" U J for w] refl]
    by (auto simp: returns_def inode_records_def)
  then show "read_discoverable_record U J root p w = (Inr r, w') \<Longrightarrow> DeploymentRecord_validate U r = Inr ()"
    unfolding read_discoverable_record_def Let_def returns_def
    by (auto simp: io_bind_def io_match_def io_return_def io_throw_def
        split: prod.splits sum.splits if_splits)
qed

lemma discover_entries_sound:
  "report_sound U report \<Longrightarrow>
     \<exists>report' w'. discover_entries U J root ns report w = (Inr report', w') \<and> report_sound U report'"
proof (induction ns arbitrary: report w)
  case Nil
  then show ?case by (simp add: io_return_def)
next
  case (Cons n ns)
  obtain x w1 where n: "next_entry n w = (x, w1)" by fastforce
  show ?case
  proof (cases x)
    case (Inl e)
    with n Cons show ?thesis by (auto simp: io_match_def report_sound_def)
  next
    case (Inr name)
    obtain y w2 where y: "read_discoverable_record U J root (metadata_dir root @ [name]) w1 = (y, w2)"
      by fastforce
    have "report_sound U (report\<lparr>dr_deployments := dr_deployments report @ [r]\<rparr>)" if "y = Inr r" for r
      using returns_read_discoverable_record y that Cons.prems by (auto simp: report_sound_def)
    with n Inr y Cons show ?thesis
      by (auto simp: io_match_def Let_def report_sound_def split: sum.splits)
  qed
qed

lemma discover_finish:
  "\<exists>report w'. io_bind (discover_entries U J root names
        \<lparr>dr_schema_version = DEPLOYMENT_SCHEMA_VERSION, dr_deployments = [], dr_issues = []\<rparr>)
      (\<lambda>report. io_return (report\<lparr>dr_deployments := sort_deployments U (dr_deployments report)\<rparr>)) w
      = (Inr report, w')
    \<and> list_all (\<lambda>r. DeploymentRecord_validate U r = Inr ()) (dr_deployments report)
    \<and> sorted (map (\<lambda>r. (- dep_created_at r, hyphenated U (dep_id r))) (dr_deployments report))"
proof -
  let ?empty = "\<lparr>dr_schema_version = DEPLOYMENT_SCHEMA_VERSION, dr_deployments = [], dr_issues = []\<rparr>"
  have "report_sound U ?empty" by (simp add: report_sound_def)
  from discover_entries_sound [OF this, of J root names w] obtain report w'
    where "discover_entries U J root names ?empty w = (Inr report, w')" "report_sound U report"
    by blast
  then show ?thesis
    by (auto simp: report_sound_def io_bind_def io_return_def sort_deployments_def list_all_iff)
qed

subsection \<open>Transitions\<close>

lemma triple_store_transition:
  fixes U :: uuid_lib and J :: dep_json and root :: path and i :: uuid and nxt :: DeploymentState
  defines "p \<equiv> record_path U root i"
  defines "done \<equiv> \<lambda>old r0 w. inode_records U J p old r0
    \<and> DeploymentState_can_transition_to (dep_state r0) nxt
    \<and> slot_holds (dep_image U J (r0\<lparr>dep_state := nxt\<rparr>)) (map_of (nodes w) p)"
  assumes "hyphenated U i \<noteq> []" and "uuid_displays U i"
  shows "io_triple (\<lambda>w. map_of (nodes w) p = old) (store_transition U J root i nxt)
    (\<lambda>r w. dep_id r = i \<and> (\<exists>r0. r = r0\<lparr>dep_state := nxt\<rparr>
       \<and> (if dep_state r0 = nxt then inode_records U J p old r0 \<and> map_of (nodes w) p = old
          else done old r0 w)))
    (\<lambda>_ w. map_of (nodes w) p = old \<or> (\<exists>r0. done old r0 w))"
proof -
  let ?P = "\<lambda>w. map_of (nodes w) p = old"
  let ?E = "\<lambda>_ w. map_of (nodes w) p = old \<or> (\<exists>r0. done old r0 w)"
  have same: "dep_id r = i" if "inode_records U J p old r" for r
    using filename_id_record_path [OF _ assms(3)] assms(4) that
    by (auto simp: p_def inode_records_def uuid_displays_def)
  have lock: "io_triple ?P (acquire_write_lock root) (\<lambda>_. ?P) ?E"
  proof (rule triple_weaken [OF triple_unchanged])
    show "touches {metadata_dir root @ [''write.lock'']} (acquire_write_lock root)" by (intro io_rules) simp
    show "p \<notin> {metadata_dir root @ [''write.lock'']}"
      using json_name_distinct(2) by (auto simp: p_def record_path_def)
  qed auto
  have load: "io_triple ?P (io_map_err h (load_record U J root i))
      (\<lambda>r w. ?P w \<and> inode_records U J p old r) ?E" for h
    unfolding load_record_def p_def
    by (rule triple_map_err, rule triple_weaken [OF triple_read_metadata_record]) auto
  have commit: "io_triple ?P (write_record_atomic U J root (r\<lparr>dep_state := nxt\<rparr>))
      (\<lambda>_ w. done old r w) ?E"
    if "inode_records U J p old r" "DeploymentState_can_transition_to (dep_state r) nxt" for r
    using that same [OF that(1)] triple_write_record_atomic [of U root "r\<lparr>dep_state := nxt\<rparr>" old J]
    by (intro triple_weaken [OF triple_write_record_atomic [of U root "r\<lparr>dep_state := nxt\<rparr>" old J]])
      (auto simp: done_def p_def)
  have kept: "r\<lparr>dep_state := nxt\<rparr> = r" if "dep_state r = nxt" for r :: DeploymentRecord
    using that by (cases r) simp
  have branch: "io_triple (\<lambda>w. ?P w \<and> inode_records U J p old r)
      (if dep_state r = nxt then io_return r
       else if \<not> DeploymentState_can_transition_to (dep_state r) nxt then io_throw e
       else io_bind (write_record_atomic U J root (r\<lparr>dep_state := nxt\<rparr>))
              (\<lambda>_. io_return (r\<lparr>dep_state := nxt\<rparr>)))
      (\<lambda>r w. dep_id r = i \<and> (\<exists>r0. r = r0\<lparr>dep_state := nxt\<rparr>
       \<and> (if dep_state r0 = nxt then inode_records U J p old r0 \<and> map_of (nodes w) p = old
          else done old r0 w))) ?E" for r e
    using kept [of r] same [of r]
    by (intro triple_pure) (auto intro!: triple_throw triple_return triple_bind [OF commit] exI [of _ r])
  show ?thesis
    unfolding store_transition_def Let_def
    by (rule triple_bind [OF lock], rule triple_bind [OF load], rule branch)
qed

subsection \<open>Progress\<close>

definition store_ready :: "uuid_lib \<Rightarrow> path \<Rightarrow> uuid \<Rightarrow> world \<Rightarrow> bool" where
  "store_ready U root i w \<longleftrightarrow>
     (\<exists>d. map_of (nodes w) (metadata_dir root) = Some d \<and> ftype d = Directory)
     \<and> (\<forall>m. map_of (nodes w) (metadata_dir root @ [''write.lock'']) = Some m \<longrightarrow> regular_content m \<noteq> None)
     \<and> (\<forall>m. map_of (nodes w) (record_path U root i) = Some m \<longrightarrow> regular_content m \<noteq> None)
     \<and> (\<forall>u. map_of (nodes w) (record_temporary U root i u) = None)"

lemma acquire_write_lock_runs:
  assumes "fault_free w" and "store_ready U root i w"
  shows "\<exists>w'. acquire_write_lock root w = (Inr (), w') \<and> fault_free w' \<and> store_ready U root i w'"
proof -
  obtain d where d: "map_of (nodes w) (metadata_dir root) = Some d" "ftype d = Directory"
    using assms(2) by (auto simp: store_ready_def)
  have names: "record_path U root i \<noteq> metadata_dir root @ [''write.lock'']"
    "record_temporary U root i u \<noteq> metadata_dir root @ [''write.lock'']" for u
    using json_name_distinct(2) by (auto simp: record_path_def record_temporary_def)
  show ?thesis
  proof (cases "map_of (nodes w) (metadata_dir root @ [''write.lock''])")
    case None
    with assms d names show ?thesis
      by (auto simp: acquire_write_lock_def store_ensure_real_directory_def io_exec open_create_def
          fs_is_dir_def store_ready_def regular_content_def)
  next
    case (Some m)
    with assms obtain b where "ftype m = Regular b"
      by (auto simp: store_ready_def regular_content_def split: file_type.splits)
    with Some assms d show ?thesis
      by (auto simp: acquire_write_lock_def store_ensure_real_directory_def io_exec open_create_def
          store_ready_def)
  qed
qed

lemma write_record_atomic_commits:
  assumes "fault_free w" and "store_ready U root (dep_id r) w" and "dep_print J r = Inr s"
    and "DeploymentRecord_validate U r = Inr ()"
  shows "\<exists>w'. write_record_atomic U J root r w = (Inr (), w') \<and> fault_free w'"
proof -
  let ?d = "metadata_dir root" and ?target = "record_path U root (dep_id r)"
  define u where "u = entropy (tick (tick w)) (ticks (tick (tick w)))"
  let ?tmp = "record_temporary U root (dep_id r) u"
  let ?w = "tick (tick (tick (tick (w\<lparr>nodes := fs_set ?tmp
    \<lparr>ftype = Regular [], mode = 0x180, uid = 0, gid = 0\<rparr> (nodes w)\<rparr>))))"
  obtain m where d: "map_of (nodes w) ?d = Some m" "ftype m = Directory"
    using assms(2) by (auto simp: store_ready_def)
  have names: "?tmp \<noteq> ?target" "?target \<noteq> ?tmp"
    using record_temporary_apart [of U root "dep_id r" u "dep_id r"] by (auto simp: apart_def)
  have target: "\<forall>j. map_of (nodes w) ?target = Some j \<longrightarrow> ftype j \<noteq> Directory"
    using assms(2) by (auto simp: store_ready_def regular_content_def)
  have "\<exists>w'. replace_file ?d ?tmp ?target s ?w = (Inr (), w') \<and> fault_free w'"
    unfolding record_temporary_def record_path_def
    by (rule replace_file_commits)
      (use assms(1) d names target in \<open>auto simp: fs_is_dir_def record_temporary_def record_path_def\<close>)
  then obtain w' where "replace_file ?d ?tmp ?target s ?w = (Inr (), w')" "fault_free w'" by blast
  moreover have "butlast ?tmp = ?d" "?tmp \<noteq> []" "map_of (nodes w) ?tmp = None"
    using assms(2) by (simp_all add: record_temporary_def store_ready_def)
  moreover have "inspect_record_target ?target v = (Inr (), tick v)" if "nodes v = nodes w" "fault_free v" for v
    using that assms(2)
    by (cases "map_of (nodes w) ?target")
      (auto simp: inspect_record_target_def io_exec enoent_def store_ready_def simp flip: that(1))
  ultimately show ?thesis
    using assms(1) d assms(3,4)
    by (simp add: write_record_atomic_def store_ensure_real_directory_def Let_def io_exec
        new_v4_def create_new_def dep_check_def dep_serialize_def fs_is_dir_def flip: u_def)
qed

lemma write_record_commits:
  assumes "fault_free w" and "store_ready U root (dep_id r) w" and "dep_print J r = Inr s"
    and "DeploymentRecord_validate U r = Inr ()"
  shows "\<exists>w'. write_record U J root r w = (Inr (), w') \<and> fault_free w'"
  using acquire_write_lock_runs [OF assms(1,2)] write_record_atomic_commits [OF _ _ assms(3,4)]
  by (auto simp: write_record_def io_bind_def)

lemma load_record_reads:
  assumes "fault_free w" and "dep_round_trips J r" and "dep_print J r = Inr s"
    and "file_holds (nodes w) (record_path U root (dep_id r)) (s @ newline)"
    and "DeploymentRecord_validate U r = Inr ()" and "uuid_displays U (dep_id r)"
    and "utf8_valid (hyphenated U (dep_id r))" and "hyphenated U (dep_id r) \<noteq> []"
  shows "\<exists>w'. load_record U J root (dep_id r) w = (Inr r, w') \<and> fault_free w' \<and> nodes w' = nodes w"
proof -
  let ?p = "record_path U root (dep_id r)" and ?b = "s @ newline"
  have size: "length ?b \<le> STORE_MAX_METADATA_BYTES" "take (STORE_MAX_METADATA_BYTES + 1) ?b = ?b"
    using assms(2,3) by (auto simp: dep_round_trips_def STORE_MAX_METADATA_BYTES_def newline_def)
  have name: "filename_id U ?p = Inr (dep_id r)"
    using assms(6-8) file_stem_json [OF assms(8)]
    by (simp add: filename_id_def record_path_def uuid_displays_def Let_def)
  have decode: "decode_record U J ?p (dep_id r) ?b = Inr r"
    using size(1) assms(2,3,5) by (simp add: decode_record_ok dep_round_trips_def)
  obtain i where "map_of (nodes w) ?p = Some i" "ftype i = Regular ?b"
    using assms(4) by (auto simp: file_holds_def)
  then show ?thesis
    using size name decode assms(1)
    by (simp add: load_record_def read_metadata_record_def Let_def io_exec regular_content_def
        del: take_append length_append)
qed

lemma store_transition_commits:
  assumes "fault_free w" and "store_ready U root (dep_id r) w" and "dep_round_trips J r"
    and "dep_print J r = Inr b" and "file_holds (nodes w) (record_path U root (dep_id r)) (b @ newline)"
    and "DeploymentRecord_validate U r = Inr ()" and "uuid_displays U (dep_id r)"
    and "utf8_valid (hyphenated U (dep_id r))" and "hyphenated U (dep_id r) \<noteq> []"
    and "DeploymentState_can_transition_to (dep_state r) s"
    and "DeploymentRecord_validate U (r\<lparr>dep_state := s\<rparr>) = Inr ()"
    and "dep_print J (r\<lparr>dep_state := s\<rparr>) = Inr b'"
  shows "\<exists>w'. store_transition U J root (dep_id r) s w = (Inr (r\<lparr>dep_state := s\<rparr>), w')"
proof -
  let ?p = "record_path U root (dep_id r)"
  obtain w1 where w1: "acquire_write_lock root w = (Inr (), w1)" "fault_free w1"
      "store_ready U root (dep_id r) w1"
    using acquire_write_lock_runs [OF assms(1,2)] by blast
  have "map_of (nodes w1) ?p = map_of (nodes w) ?p"
    by (rule touchesD [OF touches_acquire_write_lock w1(1)], rule singletonI)
      (use json_name_distinct(2) in \<open>auto simp: record_path_def\<close>)
  with assms(5) have "file_holds (nodes w1) ?p (b @ newline)" by (simp add: file_holds_def)
  from load_record_reads [OF w1(2) assms(3,4) this assms(6-9)] obtain w2
    where w2: "load_record U J root (dep_id r) w1 = (Inr r, w2)" "fault_free w2" "nodes w2 = nodes w1"
    by blast
  have "store_ready U root (dep_id (r\<lparr>dep_state := s\<rparr>)) w2" using w1(3) w2(3) by (simp add: store_ready_def)
  from write_record_atomic_commits [OF w2(2) this assms(12,11)] obtain w3
    where "write_record_atomic U J root (r\<lparr>dep_state := s\<rparr>) w2 = (Inr (), w3)" by blast
  moreover have "dep_state r \<noteq> s" using assms(10) by (cases "dep_state r") auto
  ultimately show ?thesis
    using w1(1) w2(1) assms(10) by (simp add: store_transition_def Let_def io_exec)
qed

subsection \<open>Properties\<close>

text \<open>
  The deployment store is atomic under every sequence of writes and every fault
  schedule: however many records were written, completely or not, a metadata file
  afterwards is the inode it was at the start or a regular file holding the complete
  text of one valid record that was written to that very name.
\<close>

theorem deployment_writes_atomic:
  "let w' = fold (\<lambda>r w. snd (write_record U J root r w)) rs w; p = record_path U root i in
   map_of (nodes w') p = map_of (nodes w) p
   \<or> (\<exists>r \<in> set rs. record_path U root (dep_id r) = p \<and> slot_holds (dep_image U J r) (map_of (nodes w') p))"
  using deployments.puts_atomic [of U J root rs w "example_deployment\<lparr>dep_id := i\<rparr>"]
  by (auto simp: Let_def)

text \<open>
  C31. A lifecycle transition is legal and atomic. When it reports success, the record
  it returns is the stored, valid record of that identifier with only the state
  changed, the change was one the lifecycle allows and its complete text is on disk (or
  the state was already the requested one and the file is untouched). When it reports an
  error, the file is untouched or holds the complete text of that legal change.
\<close>

theorem store_transition_legal:
  assumes "hyphenated U i \<noteq> []" and "uuid_displays U i"
    and "store_transition U J root i s w = (x, w')"
    and "old = map_of (nodes w) (record_path U root i)"
    and "new = map_of (nodes w') (record_path U root i)"
    and "legal = (\<lambda>r. inode_records U J (record_path U root i) old r
      \<and> DeploymentState_can_transition_to (dep_state r) s
      \<and> slot_holds (dep_image U J (r\<lparr>dep_state := s\<rparr>)) new)"
  shows "case x of
     Inr r \<Rightarrow> dep_id r = i \<and> (\<exists>r0. r = r0\<lparr>dep_state := s\<rparr>
       \<and> (if dep_state r0 = s then inode_records U J (record_path U root i) old r0 \<and> new = old
          else legal r0))
   | Inl e \<Rightarrow> new = old \<or> (\<exists>r0. legal r0)"
proof (cases x)
  case (Inl e)
  show ?thesis
    using io_tripleD_err [OF triple_store_transition [OF assms(1,2)] refl assms(3) [unfolded Inl]]
    unfolding Inl sum.case assms(4-6) .
next
  case (Inr r)
  show ?thesis
    using io_tripleD_ok [OF triple_store_transition [OF assms(1,2)] refl assms(3) [unfolded Inr]]
    unfolding Inr sum.case assms(4-6) .
qed

text \<open>
  Discovery is total and sound: whatever the metadata directory holds and whichever
  call fails, it returns a report, every deployment in it passed the full validation,
  the deployments are ordered newest first (identifiers break ties), and no file changes.
\<close>

theorem discover_total:
  "\<exists>report w'. discover U J root w = (Inr report, w')
     \<and> list_all (\<lambda>r. DeploymentRecord_validate U r = Inr ()) (dr_deployments report)
     \<and> sorted (map (\<lambda>r. (- dep_created_at r, hyphenated U (dep_id r))) (dr_deployments report))
     \<and> map_of (nodes w') = map_of (nodes w)"
proof -
  let ?empty = "\<lparr>dr_schema_version = DEPLOYMENT_SCHEMA_VERSION, dr_deployments = [], dr_issues = []\<rparr>"
  let ?good = "\<lambda>report. list_all (\<lambda>r. DeploymentRecord_validate U r = Inr ()) (dr_deployments report)
    \<and> sorted (map (\<lambda>r. (- dep_created_at r, hyphenated U (dep_id r))) (dr_deployments report))"
  have "\<exists>report w'. discover U J root w = (Inr report, w') \<and> ?good report"
    using discover_finish [of U J root]
    unfolding discover_def Let_def io_match_def
    by (auto simp: io_return_def split: prod.splits sum.splits)
  then obtain report w' where d: "discover U J root w = (Inr report, w')" "?good report" by blast
  have "map_of (nodes w') = map_of (nodes w)"
    using touchesD [OF touches_discover [of "{}"] d(1)] by auto
  with d show ?thesis by blast
qed

text \<open>
  Progress and round trip of the deployment store: in a world without faults, with a
  real metadata directory, plain or absent lock and target and no left-over temporary
  file, writing a valid record whose JSON text round-trips succeeds and loading its
  identifier returns exactly that record.
\<close>

theorem deployment_round_trip:
  assumes "fault_free w" and "store_ready U root (dep_id r) w" and "dep_round_trips J r"
    and "DeploymentRecord_validate U r = Inr ()" and "uuid_displays U (dep_id r)"
    and "utf8_valid (hyphenated U (dep_id r))" and "hyphenated U (dep_id r) \<noteq> []"
  shows "\<exists>w' w''. write_record U J root r w = (Inr (), w')
     \<and> load_record U J root (dep_id r) w' = (Inr r, w'')"
proof -
  obtain s where s: "dep_print J r = Inr s"
    using assms(3) by (auto simp: dep_round_trips_def split: sum.splits)
  obtain w' where w': "write_record U J root r w = (Inr (), w')" "fault_free w'"
    using write_record_commits [OF assms(1,2) s assms(4)] by blast
  have "file_holds (nodes w') (record_path U root (dep_id r)) (s @ newline)"
    using deployments.put_ok [OF w'(1)] s by (auto simp: slot_holds_iff dep_image_def)
  from load_record_reads [OF w'(2) assms(3) s this assms(4-7)] w'(1) show ?thesis by blast
qed

subsection \<open>Witnesses\<close>

definition example_dep_json :: dep_json where
  "example_dep_json =
     \<lparr>dep_parse = (\<lambda>b. if b = ''D'' @ newline then Inr example_deployment else Inl ''syntax''),
      dep_print = (\<lambda>r. if r = example_deployment then Inr ''D'' else Inr ''E'')\<rparr>"

definition example_store_world :: world where
  "example_store_world =
     \<lparr>nodes = [([''r'', ''metadata''], \<lparr>ftype = Directory, mode = 0x1C0, uid = 0, gid = 0\<rparr>),
               ([''r'', ''metadata'', ''u1.json''],
                  \<lparr>ftype = Regular (''D'' @ newline), mode = 0x180, uid = 0, gid = 0\<rparr>)],
      ticks = 0, fault = (\<lambda>_. None), clock = (\<lambda>_. 0), entropy = (\<lambda>_. 2)\<rparr>"

lemma example_deployment_valid: "DeploymentRecord_validate example_uuid_lib example_deployment = Inr ()"
  using example_deployment_restorable by (simp add: can_restore_def)

lemma example_store_ready: "store_ready example_uuid_lib [''r''] 1 example_store_world"
  by (simp add: store_ready_def example_store_world_def metadata_dir_def record_path_def
      record_temporary_def regular_content_def example_uuid_lib_def)

theorem deployment_round_trip_witness:
  "\<exists>w' w''. write_record example_uuid_lib example_dep_json [''r''] example_deployment
       example_store_world = (Inr (), w')
     \<and> load_record example_uuid_lib example_dep_json [''r''] 1 w' = (Inr example_deployment, w'')"
proof -
  have i: "dep_id example_deployment = 1" by (simp add: example_deployment_def)
  have "dep_round_trips example_dep_json example_deployment"
    by (simp add: dep_round_trips_def example_dep_json_def)
  moreover have "utf8_valid (hyphenated example_uuid_lib 1)" by code_simp
  ultimately show ?thesis
    using deployment_round_trip [of example_store_world example_uuid_lib "[''r'']" example_deployment
        example_dep_json] example_deployment_valid example_store_ready
    by (simp add: i fault_free_def example_store_world_def uuid_displays_def example_uuid_lib_def)
qed

lemma example_broken_valid:
  "DeploymentRecord_validate example_uuid_lib (example_deployment\<lparr>dep_state := Broken\<rparr>) = Inr ()"
  by code_simp

lemma example_transition_runs:
  "\<exists>w'. store_transition example_uuid_lib example_dep_json [''r''] 1 Broken example_store_world
     = (Inr (example_deployment\<lparr>dep_state := Broken\<rparr>), w')"
proof -
  have i: "dep_id example_deployment = 1" by (simp add: example_deployment_def)
  have "utf8_valid (hyphenated example_uuid_lib 1)" by code_simp
  then show ?thesis
    using store_transition_commits [of example_store_world example_uuid_lib "[''r'']" example_deployment
        example_dep_json "''D''" Broken "''E''"] example_deployment_valid example_store_ready
      example_broken_valid
    by (simp add: i fault_free_def example_store_world_def uuid_displays_def example_uuid_lib_def
        dep_round_trips_def example_dep_json_def file_holds_def record_path_def metadata_dir_def)
      (simp add: example_deployment_def)
qed

theorem store_transition_legal_witness:
  "\<exists>w'. store_transition example_uuid_lib example_dep_json [''r''] 1 Broken example_store_world
       = (Inr (example_deployment\<lparr>dep_state := Broken\<rparr>), w')
     \<and> DeploymentState_can_transition_to Ready Broken
     \<and> dep_id (example_deployment\<lparr>dep_state := Broken\<rparr>) = 1"
proof -
  obtain w' where run: "store_transition example_uuid_lib example_dep_json [''r''] 1 Broken
      example_store_world = (Inr (example_deployment\<lparr>dep_state := Broken\<rparr>), w')"
    using example_transition_runs by blast
  have "hyphenated example_uuid_lib 1 \<noteq> []" "uuid_displays example_uuid_lib 1"
    by (simp_all add: example_uuid_lib_def uuid_displays_def)
  from store_transition_legal [OF this run refl refl refl] run show ?thesis by simp
qed

end
