(* ===== verification/Recovery_Filesystem.thy ===== *)
theory Recovery_Filesystem
  imports Rust_Text Atomic_File "HOL-Library.List_Lexorder" "HOL-Library.Char_ord"
begin

text \<open>
  The trait \<open>RecoveryFilesystem\<close> of \<open>recovery.rs\<close> as a dictionary of operations, its
  implementation \<open>SystemRecoveryFilesystem\<close> over the \<open>btrfs\<close> command, and the
  \<open>FakeFilesystem\<close> of the source's tests. The command is a program outside the
  repository and an argument here; \<open>btrfs_behaves\<close> names the documented behaviour the
  engine relies on. The locale \<open>recovery_filesystem\<close> is the contract the engine's
  proofs use; both implementations are shown to meet it.
\<close>

subsection \<open>Errors\<close>

datatype RecoveryErrorCode =
  ReInvalidTransaction | ReInvalidDeployment | ReUnsafeLayout | ReCommandFailed | ReIo

record RecoveryError =
  re_code :: RecoveryErrorCode
  re_message :: string

definition RecoveryError_new :: "RecoveryErrorCode \<Rightarrow> string \<Rightarrow> RecoveryError" where
  "RecoveryError_new c m = \<lparr>re_code = c, re_message = m\<rparr>"

definition recovery_io_error :: "string \<Rightarrow> io_error \<Rightarrow> RecoveryError" where
  "recovery_io_error context e = RecoveryError_new ReIo (context @ '': '' @ err_text e)"

subsection \<open>The trait\<close>

record recovery_fs =
  rf_snapshot :: "path \<Rightarrow> path \<Rightarrow> (RecoveryError, unit) io"
  rf_delete :: "path \<Rightarrow> (RecoveryError, unit) io"
  rf_sync :: "path \<Rightarrow> (RecoveryError, unit) io"
  rf_wait_for_deleted_subvolumes :: "path \<Rightarrow> (RecoveryError, unit) io"
  rf_rename :: "path \<Rightarrow> path \<Rightarrow> (RecoveryError, unit) io"
  rf_identity :: "path \<Rightarrow> (RecoveryError, string) io"
  rf_is_read_only :: "path \<Rightarrow> (RecoveryError, bool) io"
  rf_has_descendants :: "path \<Rightarrow> (RecoveryError, bool) io"
  rf_empty_system_subvolumes :: "path \<Rightarrow> (RecoveryError, path list) io"

text \<open>The default method of the trait.\<close>

definition default_empty_system_subvolumes ::
  "(path \<Rightarrow> (RecoveryError, bool) io) \<Rightarrow> path \<Rightarrow> (RecoveryError, path list) io" where
  "default_empty_system_subvolumes has_descendants root =
     io_bind (has_descendants root) (\<lambda>nested.
     if nested
     then io_throw (RecoveryError_new ReUnsafeLayout
            ''The current root contains unsupported nested Btrfs subvolumes'')
     else io_return [])"

subsection \<open>The \<open>btrfs\<close> command\<close>

text \<open>An argument of a command: a literal text, or a path in its operating system form.\<close>

datatype argument = Arg string | PathArg path

record command_output =
  success :: bool
  status :: string
  stdout :: bytes
  stderr :: bytes

type_synonym command = "argument list \<Rightarrow> (io_error, command_output) io"

definition BTRFS :: string where "BTRFS = ''/usr/bin/btrfs''"

definition MAX_DIAGNOSTIC :: nat where "MAX_DIAGNOSTIC = 2000"

definition run_btrfs :: "command \<Rightarrow> argument list \<Rightarrow> (RecoveryError, bytes) io" where
  "run_btrfs C arguments =
     io_bind (io_map_err (\<lambda>e. RecoveryError_new ReCommandFailed
         (''Could not execute '' @ BTRFS @ '': '' @ err_text e)) (C arguments)) (\<lambda>out.
     if \<not> success out
     then
       let diagnostic = concat (take MAX_DIAGNOSTIC (map blank_control (chars (from_utf8_lossy (stderr out)))))
       in io_throw (RecoveryError_new ReCommandFailed
            (BTRFS @ '' exited with '' @ status out @ '': '' @ diagnostic))
     else io_return (stdout out))"

definition btrfs_list :: "path \<Rightarrow> argument list" where
  "btrfs_list p = [Arg ''subvolume'', Arg ''list'', Arg ''-o'', PathArg p]"

definition btrfs_snapshot :: "path \<Rightarrow> path \<Rightarrow> argument list" where
  "btrfs_snapshot source destination =
     [Arg ''subvolume'', Arg ''snapshot'', PathArg source, PathArg destination]"

definition btrfs_delete :: "path \<Rightarrow> argument list" where
  "btrfs_delete p = [Arg ''subvolume'', Arg ''delete'', Arg ''--commit-after'', PathArg p]"

definition btrfs_sync :: "path \<Rightarrow> argument list" where
  "btrfs_sync p = [Arg ''filesystem'', Arg ''sync'', PathArg p]"

definition btrfs_wait :: "path \<Rightarrow> argument list" where
  "btrfs_wait p = [Arg ''subvolume'', Arg ''sync'', PathArg p]"

definition btrfs_show :: "path \<Rightarrow> argument list" where
  "btrfs_show p = [Arg ''subvolume'', Arg ''show'', Arg ''--raw'', PathArg p]"

definition btrfs_property :: "path \<Rightarrow> argument list" where
  "btrfs_property p = [Arg ''property'', Arg ''get'', Arg ''-ts'', PathArg p, Arg ''ro'']"

subsection \<open>The system implementation\<close>

definition system_has_descendants :: "command \<Rightarrow> path \<Rightarrow> (RecoveryError, bool) io" where
  "system_has_descendants C p = io_bind (run_btrfs C (btrfs_list p)) (\<lambda>out. io_return (out \<noteq> []))"

definition system_snapshot :: "command \<Rightarrow> path \<Rightarrow> path \<Rightarrow> (RecoveryError, unit) io" where
  "system_snapshot C source destination =
     io_bind (run_btrfs C (btrfs_snapshot source destination)) (\<lambda>_. io_return ())"

definition system_delete :: "command \<Rightarrow> path \<Rightarrow> (RecoveryError, unit) io" where
  "system_delete C p = io_bind (run_btrfs C (btrfs_delete p)) (\<lambda>_. io_return ())"

definition system_sync :: "command \<Rightarrow> path \<Rightarrow> (RecoveryError, unit) io" where
  "system_sync C p = io_bind (run_btrfs C (btrfs_sync p)) (\<lambda>_. io_return ())"

definition system_wait_for_deleted_subvolumes :: "command \<Rightarrow> path \<Rightarrow> (RecoveryError, unit) io" where
  "system_wait_for_deleted_subvolumes C p = io_bind (run_btrfs C (btrfs_wait p)) (\<lambda>_. io_return ())"

definition system_rename :: "path \<Rightarrow> path \<Rightarrow> (RecoveryError, unit) io" where
  "system_rename source destination =
     io_map_err (recovery_io_error ''Could not rename a recovery subvolume'') (fs_rename source destination)"

definition reported_uuid :: "string \<Rightarrow> string option" where
  "reported_uuid text =
     (case List.map_filter (\<lambda>line. map_option str_trim (strip_prefix ''UUID:'' (str_trim_start line))) (lines text) of
        [] \<Rightarrow> None | v # _ \<Rightarrow> Some v)"

definition system_identity :: "uuid_lib \<Rightarrow> command \<Rightarrow> path \<Rightarrow> (RecoveryError, string) io" where
  "system_identity U C p =
     io_bind (run_btrfs C (btrfs_show p)) (\<lambda>out.
     if \<not> utf8_valid out
     then io_throw (RecoveryError_new ReInvalidDeployment ''Btrfs returned a non-UTF-8 subvolume identity'')
     else case reported_uuid out of
       None \<Rightarrow> io_throw (RecoveryError_new ReInvalidDeployment ''Btrfs did not report a snapshot UUID'')
     | Some v \<Rightarrow>
         (case parse_str U v of
            None \<Rightarrow> io_throw (RecoveryError_new ReInvalidDeployment ''Btrfs reported an invalid snapshot UUID'')
          | Some u \<Rightarrow> io_return (hyphenated U u)))"

definition system_is_read_only :: "command \<Rightarrow> path \<Rightarrow> (RecoveryError, bool) io" where
  "system_is_read_only C p =
     io_bind (run_btrfs C (btrfs_property p)) (\<lambda>out.
     if \<not> utf8_valid out
     then io_throw (RecoveryError_new ReInvalidDeployment ''Btrfs returned a non-UTF-8 read-only property'')
     else io_return (str_trim out = ''ro=true''))"

text \<open>One record of \<open>btrfs subvolume list\<close>: the components below the root.\<close>

definition nested_subvolume :: "string \<Rightarrow> string \<Rightarrow> RecoveryError + (string \<times> string list)" where
  "nested_subvolume name line =
     (case split_once '' path '' line of
        None \<Rightarrow> Inl (RecoveryError_new ReUnsafeLayout ''Unrecognized Btrfs subvolume record'')
      | Some (_, reported) \<Rightarrow>
          let reported = (case strip_prefix ''<FS_TREE>/'' reported of None \<Rightarrow> reported | Some r \<Rightarrow> r) in
          case strip_prefix (name @ ''/'') reported of
            None \<Rightarrow> Inl (RecoveryError_new ReUnsafeLayout ''Btrfs reported a child outside the offline root'')
          | Some relative \<Rightarrow>
              if relative = ''var/lib/machines'' \<or> relative = ''var/lib/portables''
              then Inr (reported, split_char CHR ''/'' relative)
              else Inl (RecoveryError_new ReUnsafeLayout
                     (''Offline recovery cannot replace nested subvolume: '' @ reported)))"

fun inspect_components :: "string \<Rightarrow> path \<Rightarrow> string list \<Rightarrow> (RecoveryError, path) io" where
  "inspect_components reported target [] = io_return target"
| "inspect_components reported target (c # cs) =
     io_bind (io_map_err (recovery_io_error ''Could not inspect the offline system subvolume'')
                (symlink_metadata (target @ [c]))) (\<lambda>metadata.
     if ftype metadata \<noteq> Directory
     then io_throw (RecoveryError_new ReUnsafeLayout
            (''Offline system subvolume path is not a real directory: '' @ reported))
     else inspect_components reported (target @ [c]) cs)"

text \<open>The first entry of a directory, if any, as \<open>entries.next().transpose()\<close> yields it.\<close>

definition first_entry :: "string list \<Rightarrow> (io_error, string option) io" where
  "first_entry names =
     (case names of [] \<Rightarrow> io_return None | n # _ \<Rightarrow> io_bind (next_entry n) (\<lambda>e. io_return (Some e)))"

fun collect_empty_subvolumes ::
  "path \<Rightarrow> string \<Rightarrow> string list \<Rightarrow> path list \<Rightarrow> (RecoveryError, path list) io" where
  "collect_empty_subvolumes root name [] children = io_return children"
| "collect_empty_subvolumes root name (line # ls) children =
     (if str_trim line = [] then collect_empty_subvolumes root name ls children
      else
        io_bind (io_lift (nested_subvolume name line)) (\<lambda>(reported, components).
        io_bind (inspect_components reported root components) (\<lambda>target.
        io_bind (io_map_err (recovery_io_error ''Could not read the offline system subvolume'')
                   (read_dir target)) (\<lambda>names.
        io_bind (io_map_err (recovery_io_error ''Could not read the offline system subvolume'')
                   (first_entry names)) (\<lambda>entry.
        if entry \<noteq> None
        then io_throw (RecoveryError_new ReUnsafeLayout
               (''Offline recovery cannot replace non-empty system subvolume: '' @ reported))
        else collect_empty_subvolumes root name ls (children @ [target]))))))"

definition system_empty_system_subvolumes :: "command \<Rightarrow> path \<Rightarrow> (RecoveryError, path list) io" where
  "system_empty_system_subvolumes C root =
     io_bind (run_btrfs C (btrfs_list root)) (\<lambda>out.
     if \<not> utf8_valid out
     then io_throw (RecoveryError_new ReUnsafeLayout ''Btrfs returned a non-UTF-8 subvolume path'')
     else if root = [] \<or> last root = ''..'' \<or> \<not> utf8_valid (last root)
     then io_throw (RecoveryError_new ReUnsafeLayout ''Invalid offline root path'')
     else
       io_bind (collect_empty_subvolumes root (last root) (lines out) []) (\<lambda>children.
       io_return (remdups_adj (sort children))))"

definition system_fs :: "uuid_lib \<Rightarrow> command \<Rightarrow> recovery_fs" where
  "system_fs U C =
     \<lparr>rf_snapshot = system_snapshot C, rf_delete = system_delete C, rf_sync = system_sync C,
      rf_wait_for_deleted_subvolumes = system_wait_for_deleted_subvolumes C,
      rf_rename = system_rename, rf_identity = system_identity U C,
      rf_is_read_only = system_is_read_only C, rf_has_descendants = system_has_descendants C,
      rf_empty_system_subvolumes = system_empty_system_subvolumes C\<rparr>"

subsection \<open>The test implementation\<close>

text \<open>
  \<open>FakeFilesystem\<close>: a mutation may be refused (the injected power loss, here any
  refusal of the fault schedule), copies and renames are plain file operations, and a
  failing \<open>unwrap\<close> is an error.
\<close>

definition fake_mutation :: "(RecoveryError, unit) io" where
  "fake_mutation =
     io_map_err (\<lambda>_. RecoveryError_new ReCommandFailed ''injected power loss'') (syscall (\<lambda>ns. (Inr (), ns)))"

definition panicked :: "io_error \<Rightarrow> RecoveryError" where
  "panicked e = RecoveryError_new ReIo (''called Result::unwrap() on an Err value: '' @ err_text e)"

definition copy_tree :: "path \<Rightarrow> path \<Rightarrow> (RecoveryError, unit) io" where
  "copy_tree source destination =
     io_map_err panicked (syscall (\<lambda>ns.
       (if \<not> fs_is_dir ns source \<or> prefix source destination \<or> map_of ns destination \<noteq> None
           \<or> destination = [] \<or> \<not> fs_is_dir ns (butlast destination)
        then (Inl enoent, ns)
        else (Inr (), fs_copy_tree source destination (fs_remove_tree destination ns)))))"

definition remove_dir_all :: "path \<Rightarrow> (io_error, unit) io" where
  "remove_dir_all p = syscall (\<lambda>ns.
     (if map_of ns p = None then (Inl enoent, ns) else (Inr (), fs_remove_tree p ns)))"

definition fake_fs :: "string \<Rightarrow> recovery_fs" where
  "fake_fs target_uuid =
     \<lparr>rf_snapshot = (\<lambda>source destination. io_bind fake_mutation (\<lambda>_. copy_tree source destination)),
      rf_delete = (\<lambda>p. io_bind fake_mutation (\<lambda>_. io_map_err panicked (remove_dir_all p))),
      rf_sync = (\<lambda>p. fake_mutation),
      rf_wait_for_deleted_subvolumes = (\<lambda>p. io_return ()),
      rf_rename = (\<lambda>source destination.
        io_bind fake_mutation (\<lambda>_. io_map_err panicked (fs_rename source destination))),
      rf_identity = (\<lambda>p. io_return target_uuid),
      rf_is_read_only = (\<lambda>p. io_return True),
      rf_has_descendants = (\<lambda>p. io_return False),
      rf_empty_system_subvolumes = default_empty_system_subvolumes (\<lambda>p. io_return False)\<rparr>"

subsection \<open>The contract\<close>

text \<open>
  What the engine relies on: snapshots and deletions only touch the subvolume they name
  and do what they say when they succeed, a rename moves the whole subvolume or nothing,
  and the other operations change no file.
\<close>

locale recovery_filesystem =
  fixes F :: recovery_fs
  assumes snapshot_frame: "touches (under q) (rf_snapshot F p q)"
    and snapshot_ok: "apart p q \<Longrightarrow> map_of (nodes w) q = None \<Longrightarrow> rf_snapshot F p q w = (Inr (), w') \<Longrightarrow>
      map_of (nodes w') (q @ r) = map_of (nodes w) (p @ r)"
    and delete_frame: "touches (under p) (rf_delete F p)"
    and delete_ok: "rf_delete F p w = (Inr (), w') \<Longrightarrow> map_of (nodes w') (p @ r) = None"
    and rename_frame: "touches (under p \<union> under q) (rf_rename F p q)"
    and rename_ok: "apart p q \<Longrightarrow> rf_rename F p q w = (Inr (), w') \<Longrightarrow>
      map_of (nodes w') (q @ r) = map_of (nodes w) (p @ r) \<and> map_of (nodes w') (p @ r) = None"
    and rename_err: "rf_rename F p q w = (Inl e, w') \<Longrightarrow> map_of (nodes w') = map_of (nodes w)"
    and sync_frame: "touches {} (rf_sync F p)"
    and identity_frame: "touches {} (rf_identity F p)"
    and read_only_frame: "touches {} (rf_is_read_only F p)"
    and descendants_frame: "touches {} (rf_has_descendants F p)"
begin

lemmas query_frames = sync_frame identity_frame read_only_frame descendants_frame

text \<open>A failed rename and a rename seen from outside keep every other path.\<close>

lemma rename_other:
  assumes "rf_rename F p q w = (x, w')" and "\<not> prefix p k" and "\<not> prefix q k"
  shows "map_of (nodes w') k = map_of (nodes w) k"
  using touchesD [OF rename_frame assms(1)] assms(2,3) by (simp add: under_def)

end

subsection \<open>The command's documented behaviour\<close>

definition btrfs_behaves :: "command \<Rightarrow> bool" where
  "btrfs_behaves C \<longleftrightarrow>
     (\<forall>p q. touches (under q) (C (btrfs_snapshot p q)))
     \<and> (\<forall>p q r w out w'. apart p q \<longrightarrow> map_of (nodes w) q = None \<longrightarrow>
          C (btrfs_snapshot p q) w = (Inr out, w') \<longrightarrow> success out \<longrightarrow>
          map_of (nodes w') (q @ r) = map_of (nodes w) (p @ r))
     \<and> (\<forall>p. touches (under p) (C (btrfs_delete p)))
     \<and> (\<forall>p r w out w'. C (btrfs_delete p) w = (Inr out, w') \<longrightarrow> success out \<longrightarrow>
          map_of (nodes w') (p @ r) = None)
     \<and> (\<forall>p a. a \<in> {btrfs_sync p, btrfs_wait p, btrfs_show p, btrfs_property p, btrfs_list p} \<longrightarrow> touches {} (C a))"

lemma touches_first_entry [io_rules]: "touches S (first_entry names)"
  unfolding first_entry_def by (auto intro!: io_rules split: list.splits)

lemma touches_run_btrfs: "touches S (C a) \<Longrightarrow> touches S (run_btrfs C a)"
  unfolding run_btrfs_def Let_def by (intro io_rules)

lemma run_btrfs_ok:
  "run_btrfs C a w = (Inr b, w') \<Longrightarrow> \<exists>out. C a w = (Inr out, w') \<and> success out \<and> b = stdout out"
  by (auto simp: run_btrfs_def Let_def io_bind_def io_map_err_def io_match_def io_return_def io_throw_def
      split: prod.splits sum.splits if_splits)

lemma io_bind_unit:
  "io_bind m (\<lambda>_. io_return ()) w = (Inr (), w') \<longleftrightarrow> (\<exists>x. m w = (Inr x, w'))"
  by (auto simp: io_bind_def io_return_def split: prod.splits sum.splits)

lemma io_map_err_ok [simp]: "io_map_err h m w = (Inr x, w') \<longleftrightarrow> m w = (Inr x, w')"
  by (auto simp: io_map_err_def io_match_def io_return_def io_throw_def split: prod.splits sum.splits)

lemma io_map_err_error: "io_map_err h m w = (Inl e, w') \<Longrightarrow> \<exists>e'. m w = (Inl e', w')"
  by (auto simp: io_map_err_def io_match_def io_return_def io_throw_def split: prod.splits sum.splits)

lemma fs_rename_moves:
  assumes "apart p q" and "fs_rename p q w = (Inr (), w')"
  shows "map_of (nodes w') (q @ r) = map_of (nodes w) (p @ r) \<and> map_of (nodes w') (p @ r) = None"
  using assms map_of_fs_move_target [OF assms(1)] map_of_fs_move_source [OF assms(1)]
  by (auto simp: fs_rename_def syscall_def tick_def apart_def split: option.splits if_splits prod.splits)

lemma fs_rename_refused: "fs_rename p q w = (Inl e, w') \<Longrightarrow> nodes w' = nodes w"
  by (auto simp: fs_rename_def syscall_def tick_def split: option.splits if_splits)

lemma system_fs_laws:
  assumes "btrfs_behaves C"
  shows "recovery_filesystem (system_fs U C)"
proof
  show "touches (under q) (rf_snapshot (system_fs U C) p q)" for p q
    using assms unfolding system_fs_def system_snapshot_def btrfs_behaves_def
    by (auto intro!: io_rules touches_run_btrfs)
  show "map_of (nodes w') (q @ r) = map_of (nodes w) (p @ r)"
    if "apart p q" "map_of (nodes w) q = None" "rf_snapshot (system_fs U C) p q w = (Inr (), w')" for p q w w' r
    using assms that unfolding system_fs_def system_snapshot_def btrfs_behaves_def
    by (auto simp: io_bind_unit dest!: run_btrfs_ok)
  show "touches (under p) (rf_delete (system_fs U C) p)" for p
    using assms unfolding system_fs_def system_delete_def btrfs_behaves_def
    by (auto intro!: io_rules touches_run_btrfs)
  show "map_of (nodes w') (p @ r) = None" if "rf_delete (system_fs U C) p w = (Inr (), w')" for p w w' r
    using assms that unfolding system_fs_def system_delete_def btrfs_behaves_def
    by (auto simp: io_bind_unit dest!: run_btrfs_ok)
  show "touches (under p \<union> under q) (rf_rename (system_fs U C) p q)" for p q
    unfolding system_fs_def system_rename_def by (auto intro!: io_rules)
  show "map_of (nodes w') (q @ r) = map_of (nodes w) (p @ r) \<and> map_of (nodes w') (p @ r) = None"
    if "apart p q" "rf_rename (system_fs U C) p q w = (Inr (), w')" for p q w w' r
    using fs_rename_moves [OF that(1)] that(2) by (simp add: system_fs_def system_rename_def)
  show "map_of (nodes w') = map_of (nodes w)" if "rf_rename (system_fs U C) p q w = (Inl e, w')" for p q w e w'
    using that fs_rename_refused by (auto simp: system_fs_def system_rename_def dest!: io_map_err_error)
  have run: "touches {} (run_btrfs C a)"
    if "a \<in> {btrfs_sync p, btrfs_wait p, btrfs_show p, btrfs_property p, btrfs_list p}" for a p
    using assms that unfolding btrfs_behaves_def by (blast intro: touches_run_btrfs)
  show "touches {} (rf_sync (system_fs U C) p)" "touches {} (rf_identity (system_fs U C) p)"
    "touches {} (rf_is_read_only (system_fs U C) p)" "touches {} (rf_has_descendants (system_fs U C) p)" for p
    unfolding system_fs_def recovery_fs.simps system_sync_def system_identity_def system_is_read_only_def
      system_has_descendants_def
    by (intro io_rules run [of _ p]; simp)+
qed

subsection \<open>The test implementation meets the contract\<close>

lemma map_of_fs_copy_target:
  assumes "apart p q"
  shows "map_of (fs_copy_tree p q (fs_remove_tree q ns)) (q @ r) = map_of ns (p @ r)"
proof -
  let ?ns = "fs_remove_tree q ns"
  let ?ms = "filter (\<lambda>(k, v). prefix p k) ?ns"
  have "inj_on (rebase p q) (insert (p @ r) (fst ` set ?ms))"
    by (auto simp: inj_on_def rebase_def prefix_def)
  from map_of_map_inj [OF this] have "map_of (map (\<lambda>(k, v). (rebase p q k, v)) ?ms) (q @ r) = map_of ?ms (p @ r)"
    by simp
  also have "\<dots> = map_of ns (p @ r)"
    using apart_append [OF assms] by (simp add: map_of_filter_key)
  finally show ?thesis by (auto simp: fs_copy_tree_def map_add_def split: option.splits)
qed

lemma map_of_fs_copy_other:
  assumes "\<not> prefix q k"
  shows "map_of (fs_copy_tree p q (fs_remove_tree q ns)) k = map_of ns k"
proof -
  let ?ms = "filter (\<lambda>(k, v). prefix p k) (fs_remove_tree q ns)"
  have "k \<notin> rebase p q ` fst ` set ?ms" using assms by (auto simp: rebase_def)
  then have "map_of (map (\<lambda>(k, v). (rebase p q k, v)) ?ms) k = None" by (rule map_of_map_outside)
  with assms show ?thesis by (auto simp: fs_copy_tree_def map_add_def split: option.splits)
qed

lemma touches_fake_mutation [io_rules]: "touches S fake_mutation"
  unfolding fake_mutation_def by (intro io_rules touches_syscall) simp

lemma fake_mutation_nodes: "fake_mutation w = (x, w') \<Longrightarrow> nodes w' = nodes w"
  by (auto simp: fake_mutation_def io_map_err_def io_match_def io_return_def io_throw_def syscall_def tick_def
      split: option.splits)

lemma touches_copy_tree [io_rules]:
  assumes "under q \<subseteq> S"
  shows "touches S (copy_tree p q)"
proof -
  have "\<not> prefix q k" if "k \<notin> S" for k using assms that by (auto simp: under_def)
  then show ?thesis
    unfolding copy_tree_def by (intro io_rules touches_syscall) (simp add: map_of_fs_copy_other)
qed

lemma touches_remove_dir_all [io_rules]: "under p \<subseteq> S \<Longrightarrow> touches S (remove_dir_all p)"
  unfolding remove_dir_all_def by (rule touches_syscall) (auto simp: under_def)

lemma copy_tree_copies:
  "apart p q \<Longrightarrow> copy_tree p q w = (Inr (), w') \<Longrightarrow> map_of (nodes w') (q @ r) = map_of (nodes w) (p @ r)"
  using map_of_fs_copy_target [of p q]
  by (auto simp: copy_tree_def syscall_def tick_def split: option.splits if_splits)

lemma remove_dir_all_removes: "remove_dir_all p w = (Inr (), w') \<Longrightarrow> map_of (nodes w') (p @ r) = None"
  by (auto simp: remove_dir_all_def syscall_def tick_def split: option.splits if_splits)

lemma fake_then:
  "io_bind fake_mutation (\<lambda>_. m) w = (Inr x, w') \<Longrightarrow> \<exists>v. nodes v = nodes w \<and> m v = (Inr x, w')"
  by (auto simp: io_bind_def dest: fake_mutation_nodes split: prod.splits sum.splits)

lemma fake_then_error:
  "io_bind fake_mutation (\<lambda>_. m) w = (Inl e, w') \<Longrightarrow>
     nodes w' = nodes w \<or> (\<exists>v. nodes v = nodes w \<and> m v = (Inl e, w'))"
  by (auto simp: io_bind_def dest: fake_mutation_nodes split: prod.splits sum.splits)

interpretation fake: recovery_filesystem "fake_fs u" for u
proof
  show "touches (under q) (rf_snapshot (fake_fs u) p q)" for p q
    unfolding fake_fs_def recovery_fs.simps by (intro io_rules) simp
  show "map_of (nodes w') (q @ r) = map_of (nodes w) (p @ r)"
    if "apart p q" "rf_snapshot (fake_fs u) p q w = (Inr (), w')" for p q w w' r
    using that copy_tree_copies by (auto simp: fake_fs_def dest!: fake_then)
  show "touches (under p) (rf_delete (fake_fs u) p)" for p
    unfolding fake_fs_def recovery_fs.simps by (intro io_rules) simp
  show "map_of (nodes w') (p @ r) = None" if "rf_delete (fake_fs u) p w = (Inr (), w')" for p w w' r
    using that remove_dir_all_removes by (auto simp: fake_fs_def dest!: fake_then)
  show "touches (under p \<union> under q) (rf_rename (fake_fs u) p q)" for p q
    unfolding fake_fs_def recovery_fs.simps by (intro io_rules) auto
  show "map_of (nodes w') (q @ r) = map_of (nodes w) (p @ r) \<and> map_of (nodes w') (p @ r) = None"
    if "apart p q" "rf_rename (fake_fs u) p q w = (Inr (), w')" for p q w w' r
    using that fs_rename_moves [OF that(1)] by (auto simp: fake_fs_def dest!: fake_then)
  show "map_of (nodes w') = map_of (nodes w)" if "rf_rename (fake_fs u) p q w = (Inl e, w')" for p q w e w'
    using that fs_rename_refused by (auto simp: fake_fs_def dest!: fake_then_error io_map_err_error)
qed (unfold fake_fs_def recovery_fs.simps, (intro io_rules)+)

subsection \<open>Progress\<close>

text \<open>Two worlds with the same environment: a call without faults keeps it.\<close>

definition steady :: "world \<Rightarrow> world \<Rightarrow> bool" where
  "steady w w' \<longleftrightarrow> fault w' = fault w \<and> clock w' = clock w \<and> entropy w' = entropy w"

lemma steady_simps [simp]:
  "steady w w" "steady w (tick v) = steady w v" "steady (tick w) v = steady w v" "steady w (v\<lparr>nodes := ns\<rparr>) = steady w v"
  by (simp_all add: steady_def tick_def)

lemma steady_trans: "steady w v \<Longrightarrow> steady v u \<Longrightarrow> steady w u"
  by (simp add: steady_def)

lemma steady_fault_free: "steady w w' \<Longrightarrow> fault_free w' = fault_free w"
  by (simp add: steady_def fault_free_def)

text \<open>The destination of a snapshot or rename is free and its parent a directory.\<close>

definition free_name :: "tree \<Rightarrow> path \<Rightarrow> bool" where
  "free_name ns q \<longleftrightarrow> q \<noteq> [] \<and> fs_is_dir ns (butlast q) \<and> map_of ns q = None"

locale live_filesystem = recovery_filesystem +
  assumes snapshot_live: "fault_free w \<Longrightarrow> fs_is_dir (nodes w) p \<Longrightarrow> free_name (nodes w) q \<Longrightarrow> apart p q \<Longrightarrow>
      \<exists>w'. rf_snapshot F p q w = (Inr (), w') \<and> steady w w'"
    and delete_live: "fault_free w \<Longrightarrow> map_of (nodes w) p \<noteq> None \<Longrightarrow>
      \<exists>w'. rf_delete F p w = (Inr (), w') \<and> steady w w'"
    and rename_live: "fault_free w \<Longrightarrow> map_of (nodes w) p \<noteq> None \<Longrightarrow> free_name (nodes w) q \<Longrightarrow> apart p q \<Longrightarrow>
      \<exists>w'. rf_rename F p q w = (Inr (), w') \<and> steady w w'"
    and sync_live: "fault_free w \<Longrightarrow> \<exists>w'. rf_sync F p w = (Inr (), w') \<and> steady w w'"

lemma fs_rename_live:
  assumes "fault_free w" and "map_of (nodes w) p \<noteq> None" and "free_name (nodes w) q" and "apart p q"
  shows "\<exists>w'. fs_rename p q w = (Inr (), w') \<and> steady w w'"
  using assms by (auto simp: fs_rename_def free_name_def apart_def)

lemma fake_mutation_live: "fault_free w \<Longrightarrow> fake_mutation w = (Inr (), tick w)"
  by (simp add: fake_mutation_def)

interpretation fake: live_filesystem "fake_fs u" for u
proof
  show "\<exists>w'. rf_snapshot (fake_fs u) p q w = (Inr (), w') \<and> steady w w'"
    if "fault_free w" "fs_is_dir (nodes w) p" "free_name (nodes w) q" "apart p q" for p q w
    using that
    by (auto simp: fake_fs_def io_bind_def fake_mutation_live copy_tree_def free_name_def apart_def
        io_map_err_def io_match_def io_return_def)
  show "\<exists>w'. rf_delete (fake_fs u) p w = (Inr (), w') \<and> steady w w'"
    if "fault_free w" "map_of (nodes w) p \<noteq> None" for p w
    using that by (auto simp: fake_fs_def io_bind_def fake_mutation_live remove_dir_all_def
        io_map_err_def io_match_def io_return_def)
  show "\<exists>w'. rf_rename (fake_fs u) p q w = (Inr (), w') \<and> steady w w'"
    if "fault_free w" "map_of (nodes w) p \<noteq> None" "free_name (nodes w) q" "apart p q" for p q w
    using fs_rename_live [of "tick w" p q] that
    by (auto simp: fake_fs_def io_bind_def fake_mutation_live io_map_err_def io_match_def io_return_def)
  show "\<exists>w'. rf_sync (fake_fs u) p w = (Inr (), w') \<and> steady w w'" if "fault_free w" for p w
    using that by (auto simp: fake_fs_def fake_mutation_live)
qed

text \<open>Without faults the command succeeds on a subvolume that exists and a free name.\<close>

definition btrfs_responds :: "command \<Rightarrow> bool" where
  "btrfs_responds C \<longleftrightarrow>
     (\<forall>p q w. fault_free w \<longrightarrow> fs_is_dir (nodes w) p \<longrightarrow> free_name (nodes w) q \<longrightarrow> apart p q \<longrightarrow>
        (\<exists>out w'. C (btrfs_snapshot p q) w = (Inr out, w') \<and> success out \<and> steady w w'))
     \<and> (\<forall>p w. fault_free w \<longrightarrow> map_of (nodes w) p \<noteq> None \<longrightarrow>
        (\<exists>out w'. C (btrfs_delete p) w = (Inr out, w') \<and> success out \<and> steady w w'))
     \<and> (\<forall>p w. fault_free w \<longrightarrow> (\<exists>out w'. C (btrfs_sync p) w = (Inr out, w') \<and> success out \<and> steady w w'))"

lemma run_btrfs_success:
  "C a w = (Inr out, w') \<Longrightarrow> success out \<Longrightarrow> run_btrfs C a w = (Inr (stdout out), w')"
  by (simp add: run_btrfs_def io_bind_def io_map_err_def io_match_def io_return_def)

lemma system_fs_live:
  assumes "btrfs_behaves C" and "btrfs_responds C"
  shows "live_filesystem (system_fs U C)"
proof (intro live_filesystem.intro live_filesystem_axioms.intro)
  show "recovery_filesystem (system_fs U C)" using assms(1) by (rule system_fs_laws)
  show "\<exists>w'. rf_snapshot (system_fs U C) p q w = (Inr (), w') \<and> steady w w'"
    if "fault_free w" "fs_is_dir (nodes w) p" "free_name (nodes w) q" "apart p q" for w p q
    using assms(2) that unfolding btrfs_responds_def
    by (fastforce simp: system_fs_def system_snapshot_def io_bind_unit dest: run_btrfs_success)
  show "\<exists>w'. rf_delete (system_fs U C) p w = (Inr (), w') \<and> steady w w'"
    if "fault_free w" "map_of (nodes w) p \<noteq> None" for w p
    using assms(2) that unfolding btrfs_responds_def
    by (fastforce simp: system_fs_def system_delete_def io_bind_unit dest: run_btrfs_success)
  show "\<exists>w'. rf_rename (system_fs U C) p q w = (Inr (), w') \<and> steady w w'"
    if "fault_free w" "map_of (nodes w) p \<noteq> None" "free_name (nodes w) q" "apart p q" for w p q
    using fs_rename_live [OF that] by (simp add: system_fs_def system_rename_def)
  show "\<exists>w'. rf_sync (system_fs U C) p w = (Inr (), w') \<and> steady w w'" if "fault_free w" for w p
    using assms(2) that unfolding btrfs_responds_def
    by (fastforce simp: system_fs_def system_sync_def io_bind_unit dest: run_btrfs_success)
qed

subsection \<open>A command that behaves\<close>

text \<open>A simulation of the command on the file tree, which shows the hypotheses can hold.\<close>

definition command_ok :: "bytes \<Rightarrow> command_output" where
  "command_ok b = \<lparr>success = True, status = ''exit status: 0'', stdout = b, stderr = []\<rparr>"

definition command_failed :: command_output where
  "command_failed = \<lparr>success = False, status = ''exit status: 1'', stdout = [], stderr = ''ERROR''\<rparr>"

definition simulated_change :: "(tree \<Rightarrow> bool) \<Rightarrow> (tree \<Rightarrow> tree) \<Rightarrow> (io_error, command_output) io" where
  "simulated_change ok f = syscall (\<lambda>ns. if ok ns then (Inr (command_ok []), f ns) else (Inr command_failed, ns))"

fun simulated_btrfs :: command where
  "simulated_btrfs [Arg a, Arg b, PathArg p, PathArg q] =
     (if a = ''subvolume'' \<and> b = ''snapshot''
      then simulated_change (\<lambda>ns. fs_is_dir ns p \<and> free_name ns q \<and> apart p q)
             (\<lambda>ns. fs_copy_tree p q (fs_remove_tree q ns))
      else simulated_change (\<lambda>_. False) (\<lambda>ns. ns))"
| "simulated_btrfs [Arg a, Arg b, Arg c, PathArg p] =
     (if b = ''delete'' then simulated_change (\<lambda>ns. map_of ns p \<noteq> None) (fs_remove_tree p)
      else if b = ''show'' then syscall (\<lambda>ns. (Inr (command_ok ''UUID: u1''), ns))
      else syscall (\<lambda>ns. (Inr (command_ok []), ns)))"
| "simulated_btrfs [Arg a, Arg b, Arg c, PathArg p, Arg d] = syscall (\<lambda>ns. (Inr (command_ok ''ro=true''), ns))"
| "simulated_btrfs args = simulated_change (\<lambda>_. True) (\<lambda>ns. ns)"

lemmas btrfs_argument_defs = btrfs_snapshot_def btrfs_delete_def btrfs_sync_def btrfs_wait_def btrfs_show_def
  btrfs_property_def btrfs_list_def

lemma touches_simulated_change:
  "(\<And>ns k. ok ns \<Longrightarrow> k \<notin> S \<Longrightarrow> map_of (f ns) k = map_of ns k) \<Longrightarrow> touches S (simulated_change ok f)"
  unfolding simulated_change_def by (rule touches_syscall) simp

lemma simulated_change_ok:
  "simulated_change ok f w = (Inr out, w') \<Longrightarrow> success out \<Longrightarrow> nodes w' = f (nodes w)"
  by (auto simp: simulated_change_def syscall_def tick_def command_failed_def split: option.splits if_splits)

lemma simulated_behaves: "btrfs_behaves simulated_btrfs"
  unfolding btrfs_behaves_def
proof (intro conjI allI impI)
  show "touches (under q) (simulated_btrfs (btrfs_snapshot p q))" for p q
    using map_of_fs_copy_other [of q _ p]
    by (fastforce simp: btrfs_snapshot_def under_def intro!: touches_simulated_change)
  show "touches (under p) (simulated_btrfs (btrfs_delete p))" for p
    by (auto simp: btrfs_delete_def under_def intro!: touches_simulated_change split: if_splits)
  show "touches {} (simulated_btrfs a)"
    if "a \<in> {btrfs_sync p, btrfs_wait p, btrfs_show p, btrfs_property p, btrfs_list p}" for p a
    using that by (auto simp: btrfs_argument_defs intro!: touches_simulated_change touches_syscall)
  show "map_of (nodes w') (q @ r) = map_of (nodes w) (p @ r)"
    if "apart p q" "simulated_btrfs (btrfs_snapshot p q) w = (Inr out, w')" "success out" for p q r w out w'
    using simulated_change_ok [OF _ that(3)] that map_of_fs_copy_target [OF that(1)]
    by (fastforce simp: btrfs_snapshot_def)
  show "map_of (nodes w') (p @ r) = None"
    if "simulated_btrfs (btrfs_delete p) w = (Inr out, w')" "success out" for p r w out w'
    using simulated_change_ok [OF _ that(2)] that by (fastforce simp: btrfs_delete_def)
qed

lemma simulated_responds: "btrfs_responds simulated_btrfs"
  by (auto simp: btrfs_responds_def btrfs_argument_defs simulated_change_def command_ok_def)

text \<open>The code's own implementation, on this command.\<close>

interpretation simulated: live_filesystem "system_fs U simulated_btrfs" for U
  by (rule system_fs_live [OF simulated_behaves simulated_responds])

end
