(* ===== verification/Boot_Artifacts.thy ===== *)
theory Boot_Artifacts
  imports Rust_Text Personal Atomic_File
begin

text \<open>
  The file helpers of \<open>boot.rs\<close> that bind a rollback to the exact recovery artifacts:
  the checks on a protected executable, the SHA-256 of a file and the atomic copy of an
  artifact into the recovery store. The digest function itself is library code and an
  argument. \<open>std::io::copy\<close> and the block-wise reading loop of the hasher are one
  read of the whole file: a failing block is a failing read.
\<close>

subsection \<open>Definitions\<close>

datatype BootErrorCode =
  BeNoTransaction | BeInvalidTransaction | BeInvalidDeployment | BeUnsupportedEnvironment
  | BeUnsafeOutput | BeCommandFailed

record BootError =
  be_code :: BootErrorCode
  be_message :: string

definition BootError_new :: "BootErrorCode \<Rightarrow> string \<Rightarrow> BootError" where
  "BootError_new c m = \<lparr>be_code = c, be_message = m\<rparr>"

definition RECOVERY_CONFIRM :: string where "RECOVERY_CONFIRM = ''confirm''"

definition ensure_regular_file :: "path \<Rightarrow> (BootError, unit) io" where
  "ensure_regular_file p =
     io_bind (io_map_err (\<lambda>e. BootError_new BeInvalidDeployment
         (''Recovery boot artifact '' @ display_path p @ '' is unavailable: '' @ err_text e))
         (symlink_metadata p)) (\<lambda>metadata.
     if regular_content metadata \<noteq> None then io_return ()
     else io_throw (BootError_new BeInvalidDeployment
            (''Recovery boot artifact '' @ display_path p @ '' is not a regular file'')))"

text \<open>Reading a file to its end, without a limit.\<close>

definition read_all :: "path \<Rightarrow> (io_error, bytes) io" where
  "read_all p = syscall (\<lambda>ns.
     (case map_of ns p of
        None \<Rightarrow> Inl enoent
      | Some i \<Rightarrow>
          (case ftype i of
             Regular b \<Rightarrow> Inr b
           | _ \<Rightarrow> Inl (IoError OtherKind ''Is a directory (os error 21)'')), ns))"

definition copy_closure :: "path \<Rightarrow> path \<Rightarrow> path \<Rightarrow> path \<Rightarrow> u32 \<Rightarrow> (io_error, unit) io" where
  "copy_closure source temporary target parent m =
     io_bind (open_read source) (\<lambda>_.
     io_bind (create_new temporary m) (\<lambda>_.
     io_bind (read_all source) (\<lambda>content.
     io_bind (write_all temporary content) (\<lambda>_.
     io_bind (sync_all temporary) (\<lambda>_.
     io_bind (fs_rename temporary target) (\<lambda>_.
     sync_directory parent))))))"

definition copy_regular_file_atomic :: "uuid_lib \<Rightarrow> path \<Rightarrow> path \<Rightarrow> u32 \<Rightarrow> (BootError, unit) io" where
  "copy_regular_file_atomic U source target m =
     io_bind (ensure_regular_file source) (\<lambda>_.
     if target = []
     then io_throw (BootError_new BeUnsupportedEnvironment ''Recovery artifact has no parent directory'')
     else
       let parent = butlast target in
       io_bind new_v4 (\<lambda>u.
       let temporary = parent @ [''.'' @ from_utf8_lossy (last target) @ ''.'' @ hyphenated U u @ ''.tmp''] in
       io_match (copy_closure source temporary target parent m) (\<lambda>result.
         case result of
           Inr _ \<Rightarrow> io_return ()
         | Inl e \<Rightarrow> io_match (remove_file temporary) (\<lambda>_.
             io_throw (BootError_new BeCommandFailed
               (''Could not provision '' @ display_path target @ '': '' @ err_text e))))))"

unbundle bit_operations_syntax

definition ensure_protected_executable :: "path \<Rightarrow> (BootError, unit) io" where
  "ensure_protected_executable p =
     io_bind (ensure_regular_file p) (\<lambda>_.
     io_bind (io_map_err (\<lambda>e. BootError_new BeInvalidDeployment
         (''Could not inspect '' @ display_path p @ '': '' @ err_text e)) (symlink_metadata p)) (\<lambda>metadata.
     if mode metadata AND 0x49 = 0 \<or> mode metadata AND 0x12 \<noteq> 0
     then io_throw (BootError_new BeInvalidDeployment
            (''Recovery confirmation artifact '' @ display_path p @ '' is not a protected executable''))
     else io_return ()))"

definition hash_regular_file :: "(bytes \<Rightarrow> string) \<Rightarrow> path \<Rightarrow> (BootError, string) io" where
  "hash_regular_file sha256 p =
     io_bind (ensure_regular_file p) (\<lambda>_.
     io_bind (io_map_err (\<lambda>e. BootError_new BeInvalidDeployment
         (''Could not open '' @ display_path p @ '': '' @ err_text e)) (open_read p)) (\<lambda>_.
     io_bind (io_map_err (\<lambda>e. BootError_new BeInvalidDeployment
         (''Could not hash '' @ display_path p @ '': '' @ err_text e)) (read_all p)) (\<lambda>content.
     io_return (sha256 content))))"

definition verify_digest :: "(bytes \<Rightarrow> string) \<Rightarrow> path \<Rightarrow> string \<Rightarrow> string \<Rightarrow> (BootError, unit) io" where
  "verify_digest sha256 p expected name =
     io_bind (hash_regular_file sha256 p) (\<lambda>digest.
     if digest = expected then io_return ()
     else io_throw (BootError_new BeInvalidDeployment
            (''The provisioned '' @ name @ '' no longer matches the rollback transaction'')))"

subsection \<open>Frames\<close>

lemma touches_read_all [io_rules]: "touches S (read_all p)"
  unfolding read_all_def by (rule touches_syscall) simp

lemma touches_ensure_regular_file [io_rules]: "touches S (ensure_regular_file p)"
  unfolding ensure_regular_file_def by (intro io_rules)

lemma touches_ensure_protected_executable [io_rules]: "touches S (ensure_protected_executable p)"
  unfolding ensure_protected_executable_def by (intro io_rules)

lemma touches_hash_regular_file [io_rules]: "touches S (hash_regular_file sha256 p)"
  unfolding hash_regular_file_def by (intro io_rules)

lemma touches_verify_digest [io_rules]: "touches S (verify_digest sha256 p expected name)"
  unfolding verify_digest_def by (intro io_rules)

lemma touches_copy_closure [io_rules]:
  "under tmp \<subseteq> S \<Longrightarrow> under target \<subseteq> S \<Longrightarrow> touches S (copy_closure source tmp target d m)"
  unfolding copy_closure_def by (intro io_rules) (auto simp: under_def)

lemma touches_copy_regular_file_atomic [io_rules]:
  assumes "target \<noteq> []" and "under (butlast target) \<subseteq> S"
  shows "touches S (copy_regular_file_atomic U source target m)"
proof -
  have "under target \<subseteq> S"
    using assms(2) under_mono [OF prefixeq_butlast] by (rule subset_trans [rotated])
  moreover have "under (butlast target @ [x]) \<subseteq> S" for x
    using assms(2) under_mono [of "butlast target" "butlast target @ [x]"] by simp
  ultimately show ?thesis
    unfolding copy_regular_file_atomic_def Let_def using assms(1)
    by (intro io_rules) (auto simp: under_def)
qed

subsection \<open>The copy is atomic and exact\<close>

lemma lossy_length: "length s \<le> length (from_utf8_lossy s)"
proof (induction s rule: from_utf8_lossy.induct)
  case (1 s)
  have bounds: "invalid_prefix_length s \<le> 3" by (simp add: invalid_prefix_length_def split: list.splits)
  show ?case
  proof (cases "s = []")
    case False
    show ?thesis
    proof (cases "0 < valid_prefix_length s")
      case True
      with "1.IH"(1) [OF False True] show ?thesis
        by (subst from_utf8_lossy.simps) (simp add: False)
    next
      case invalid: False
      with "1.IH"(2) [OF False invalid] bounds show ?thesis
        by (subst from_utf8_lossy.simps) (simp add: False)
    qed
  qed simp
qed

lemma copy_temporary_apart:
  assumes "target \<noteq> []"
  shows "apart (butlast target @ [''.'' @ from_utf8_lossy (last target) @ x]) target"
proof -
  have "length (last target) < length (''.'' @ from_utf8_lossy (last target) @ x)"
    using lossy_length [of "last target"] by simp
  then have "''.'' @ from_utf8_lossy (last target) @ x \<noteq> last target" by (metis less_irrefl)
  then have "apart (butlast target @ [''.'' @ from_utf8_lossy (last target) @ x]) (butlast target @ [last target])"
    by (simp only: apart_siblings not_False_eq_True)
  then show ?thesis using assms by simp
qed

lemma apart_neq: "apart p q \<Longrightarrow> p \<noteq> q"
  by (auto simp: apart_def)

lemma triple_keep:
  assumes "io_triple P m Q E" and "touches S m" and "k \<notin> S"
  shows "io_triple (\<lambda>w. P w \<and> map_of (nodes w) k = j) m
    (\<lambda>x w. Q x w \<and> map_of (nodes w) k = j) (\<lambda>e w. E e w \<and> map_of (nodes w) k = j)"
  using assms by (auto intro!: io_tripleI dest: io_tripleD_ok io_tripleD_err touchesD)

definition inode_holds :: "inode option \<Rightarrow> bytes \<Rightarrow> bool" where
  "inode_holds j c \<longleftrightarrow> (\<exists>k. j = Some k \<and> ftype k = Regular c)"

lemma triple_read_all:
  "io_triple (\<lambda>w. P (nodes w) \<and> map_of (nodes w) p = j) (read_all p)
    (\<lambda>b w. P (nodes w) \<and> inode_holds j b) (\<lambda>_ w. P (nodes w))"
  by (auto simp: io_triple_def read_all_def syscall_def tick_def inode_holds_def split: option.splits file_type.splits)

lemma triple_copy_closure:
  assumes "apart tmp target" and "j \<noteq> None"
  shows "io_triple (\<lambda>w. map_of (nodes w) target = i \<and> map_of (nodes w) source = j)
    (copy_closure source tmp target d m)
    (\<lambda>_ w. slot_holds (inode_holds j) (map_of (nodes w) target))
    (\<lambda>_ w. map_of (nodes w) target = i \<or> slot_holds (inode_holds j) (map_of (nodes w) target))"
    (is "io_triple ?P _ (\<lambda>_. ?Q) ?E")
proof -
  have same: "tmp \<noteq> target" using assms(1) by (auto simp: apart_def)
  let ?staged = "\<lambda>b w. staged tmp b target i (nodes w)"
  have opened: "io_triple ?P (open_read source) (\<lambda>_. ?P) ?E"
    by (rule triple_weaken [OF triple_keep [OF triple_query [of "open_read source" target i], of "{}" source j]])
      (auto intro: io_rules)
  have create: "io_triple ?P (create_new tmp m) (\<lambda>_ w. ?staged [] w \<and> map_of (nodes w) source = j) ?E"
  proof (cases "source = tmp")
    case True
    with assms(2) show ?thesis
      by (auto simp: io_triple_def create_new_def syscall_def tick_def split: option.splits)
  next
    case False
    show ?thesis
      by (rule triple_weaken [OF triple_keep [OF triple_create_staged [OF same, of i m], of "{tmp}" source j]])
        (use False in \<open>auto intro: io_rules\<close>)
  qed
  have read: "io_triple (\<lambda>w. ?staged [] w \<and> map_of (nodes w) source = j) (read_all source)
      (\<lambda>c w. ?staged [] w \<and> inode_holds j c) ?E"
    by (rule triple_weaken [OF triple_read_all [of "staged tmp [] target i"]]) (auto simp: staged_def)
  have append: "io_triple (?staged []) (write_all tmp c) (\<lambda>_. ?staged c) ?E" for c
    by (rule triple_weaken [OF triple_write_all [OF same, of "[]" i c]]) auto
  have sync: "io_triple (?staged c) (sync_all tmp) (\<lambda>_. ?staged c) ?E" for c
    by (rule triple_weaken [OF triple_sync_staged]) auto
  have rename: "io_triple (?staged c) (fs_rename tmp target) (\<lambda>_ w. file_holds (nodes w) target c) ?E" for c
    by (rule triple_weaken [OF triple_rename_staged [OF assms(1)]]) auto
  have settled: "io_triple (\<lambda>w. file_holds (nodes w) target c) (sync_directory d) (\<lambda>_. ?Q) ?E"
    if "inode_holds j c" for c
    by (rule triple_weaken [OF triple_sync_directory [where P = "\<lambda>ns. file_holds ns target c"]])
      (use that in \<open>auto simp: slot_holds_iff\<close>)
  show ?thesis
    unfolding copy_closure_def
    by (rule triple_bind [OF opened], rule triple_bind [OF create], rule triple_bind [OF read], rule triple_pure,
        rule triple_bind [OF append], rule triple_bind [OF sync], rule triple_bind [OF rename], rule settled)
qed

lemma triple_ensure_regular_file:
  "io_triple (\<lambda>w. map_of (nodes w) p = i) (ensure_regular_file p)
    (\<lambda>_ w. map_of (nodes w) p = i \<and> i \<noteq> None) (\<lambda>_ w. map_of (nodes w) p = i)"
  unfolding ensure_regular_file_def
  by (rule triple_bind [OF triple_map_err [OF triple_inspect]]) (auto intro!: triple_return triple_throw)

lemma triple_verify_digest:
  "io_triple (\<lambda>w. map_of (nodes w) = M) (verify_digest sha256 p expected name)
    (\<lambda>_ w. map_of (nodes w) = M \<and> slot_holds (\<lambda>b. sha256 b = expected) (M p)) (\<lambda>_ w. map_of (nodes w) = M)"
proof -
  let ?P = "\<lambda>w. map_of (nodes w) = M"
  have read: "io_triple ?P (io_map_err h (read_all p)) (\<lambda>b w. ?P w \<and> slot_holds ((=) b) (M p)) (\<lambda>_. ?P)" for h
    by (rule triple_map_err)
      (auto simp: io_triple_def read_all_def syscall_def tick_def slot_holds_def split: option.splits file_type.splits)
  have "io_triple ?P (hash_regular_file sha256 p)
      (\<lambda>digest w. ?P w \<and> slot_holds (\<lambda>b. sha256 b = digest) (M p)) (\<lambda>_. ?P)"
    unfolding hash_regular_file_def
    by (rule triple_frozen_then, (intro io_rules)[1], rule triple_frozen_then, (intro io_rules)[1],
        rule triple_bind [OF read], rule triple_return) (auto simp: slot_holds_def)
  then show ?thesis
    unfolding verify_digest_def by (rule triple_bind) (auto intro!: triple_return triple_throw)
qed

lemma triple_protected_executable:
  "io_triple (\<lambda>w. map_of (nodes w) = M) (ensure_protected_executable p)
    (\<lambda>_ w. map_of (nodes w) = M \<and> (\<exists>i. M p = Some i \<and> mode i AND 0x49 \<noteq> 0 \<and> mode i AND 0x12 = 0))
    (\<lambda>_ w. map_of (nodes w) = M)"
proof -
  have inspect: "io_triple (\<lambda>w. map_of (nodes w) = M) (io_map_err h (symlink_metadata p))
      (\<lambda>i w. map_of (nodes w) = M \<and> M p = Some i) (\<lambda>_ w. map_of (nodes w) = M)" for h
    by (rule triple_map_err)
      (auto simp: io_triple_def symlink_metadata_def syscall_def tick_def split: option.splits)
  show ?thesis
    unfolding ensure_protected_executable_def
    by (rule triple_frozen_then, (intro io_rules)[1], rule triple_bind [OF inspect])
      (auto intro!: triple_return triple_throw)
qed

lemma triple_copy_regular_file_atomic:
  assumes "target \<noteq> []"
  shows "io_triple (\<lambda>w. map_of (nodes w) target = i \<and> map_of (nodes w) source = j)
    (copy_regular_file_atomic U source target m)
    (\<lambda>_ w. slot_holds (inode_holds j) (map_of (nodes w) target))
    (\<lambda>_ w. map_of (nodes w) target = i \<or> slot_holds (inode_holds j) (map_of (nodes w) target))"
    (is "io_triple ?P _ ?Q ?E")
proof -
  have check: "io_triple ?P (ensure_regular_file source) (\<lambda>_ w. ?P w \<and> j \<noteq> None) ?E"
  proof -
    have "io_triple (\<lambda>w. map_of (nodes w) source = j \<and> map_of (nodes w) target = i) (ensure_regular_file source)
        (\<lambda>_ w. (map_of (nodes w) source = j \<and> j \<noteq> None) \<and> map_of (nodes w) target = i)
        (\<lambda>_ w. map_of (nodes w) source = j \<and> map_of (nodes w) target = i)"
      by (rule triple_keep [OF triple_ensure_regular_file, of "{}"]) (auto intro: io_rules)
    then show ?thesis by (rule triple_weaken) auto
  qed
  have new: "io_triple (\<lambda>w. ?P w \<and> j \<noteq> None) new_v4 (\<lambda>_ w. ?P w \<and> j \<noteq> None) ?E"
    by (auto simp: io_triple_def new_v4_def tick_def)
  have commit: "io_triple (\<lambda>w. ?P w \<and> j \<noteq> None)
      (io_match (copy_closure source (butlast target @ [''.'' @ from_utf8_lossy (last target) @ x]) target d m)
        (\<lambda>r. case r of Inr _ \<Rightarrow> io_return () | Inl e \<Rightarrow>
          io_match (remove_file (butlast target @ [''.'' @ from_utf8_lossy (last target) @ x])) (\<lambda>_. io_throw (h e))))
      ?Q ?E" for x d and h :: "io_error \<Rightarrow> BootError"
  proof (rule triple_pure, rule triple_or_cleanup [where Q = "slot_holds (inode_holds j)"
        and E = "\<lambda>k. k = i \<or> slot_holds (inode_holds j) k"])
    show "butlast target @ [''.'' @ from_utf8_lossy (last target) @ x] \<noteq> target"
      by (rule apart_neq [OF copy_temporary_apart [OF assms]])
  qed (rule triple_copy_closure [OF copy_temporary_apart [OF assms]])
  show ?thesis
    unfolding copy_regular_file_atomic_def Let_def
    by (rule triple_bind [OF check], simp only: assms if_False, rule triple_bind [OF new], rule commit)
qed

text \<open>
  Provisioning a recovery artifact is atomic and exact: after a successful copy the
  target is a regular file with exactly the bytes the source had; after a failed one it
  is the inode it was or already such a file; and only the target's directory changes.
\<close>

theorem artifact_copy_atomic:
  "case copy_regular_file_atomic U source (d @ [n]) m w of
     (x, w') \<Rightarrow>
       (let copied = slot_holds (inode_holds (map_of (nodes w) source)) (map_of (nodes w') (d @ [n]))
        in if x = Inr () then copied
           else map_of (nodes w') (d @ [n]) = map_of (nodes w) (d @ [n]) \<or> copied)
       \<and> (\<forall>k. prefix d k \<or> map_of (nodes w') k = map_of (nodes w) k)"
proof (cases "copy_regular_file_atomic U source (d @ [n]) m w")
  case (Pair x w')
  let ?copied = "slot_holds (inode_holds (map_of (nodes w) source)) (map_of (nodes w') (d @ [n]))"
  have "prefix d k \<or> map_of (nodes w') k = map_of (nodes w) k" for k
    using touchesD [OF touches_copy_regular_file_atomic [of "d @ [n]" "under d"] Pair, of k]
    by (auto simp: under_def)
  moreover have ?copied if "x = Inr ()"
    using io_tripleD_ok [OF triple_copy_regular_file_atomic conjI [OF refl refl] Pair [unfolded that]] by simp
  moreover have "map_of (nodes w') (d @ [n]) = map_of (nodes w) (d @ [n]) \<or> ?copied" if "x = Inl e" for e
    using io_tripleD_err [OF triple_copy_regular_file_atomic conjI [OF refl refl] Pair [unfolded that]] by simp
  ultimately show ?thesis using Pair by (cases x) (simp_all add: Let_def)
qed

end
