(* ===== verification/Home_Accounts.thy ===== *)
theory Home_Accounts
  imports Atomic_File Rust_Text
begin

text \<open>
  \<open>home_accounts.rs\<close>: before a whole Home is replaced, every account of the running
  system must have its own directory in the Home snapshot with the same owner, and the
  snapshot must not hold files of users the system does not know.
\<close>

subsection \<open>Definitions\<close>

datatype passwd_line =
  Skipped | Account string u32 u32

text \<open>One line of the account database, up to the look at the directory.\<close>

definition parse_account :: "string \<Rightarrow> string + passwd_line" where
  "parse_account line =
     (let fs = split_char CHR '':'' line in
      if length fs \<noteq> 7 then Inl ''Invalid account database''
      else case strip_prefix ''/home/'' (fs ! 5) of
        None \<Rightarrow> Inr Skipped
      | Some name \<Rightarrow>
          if name = [] \<or> CHR ''/'' \<in> set name \<or> name = ''.'' \<or> name = ''..''
          then Inl ''Home rollback requires direct, local user directories under /home''
          else case parse_u32 (fs ! 2) of
            None \<Rightarrow> Inl ''Invalid account UID''
          | Some u \<Rightarrow>
              (case parse_u32 (fs ! 3) of
                 None \<Rightarrow> Inl ''Invalid account GID''
               | Some g \<Rightarrow> Inr (Account name u g)))"

fun verify_lines ::
  "path \<Rightarrow> string list \<Rightarrow> (string \<times> u32 \<times> u32) list \<Rightarrow> (string, (string \<times> u32 \<times> u32) list) io" where
  "verify_lines home [] accounts = io_return accounts"
| "verify_lines home (line # ls) accounts =
     (if line = [] then verify_lines home ls accounts
      else case parse_account line of
        Inl e \<Rightarrow> io_throw e
      | Inr Skipped \<Rightarrow> verify_lines home ls accounts
      | Inr (Account name u g) \<Rightarrow>
          if map_of accounts name \<noteq> None then io_throw ''Multiple accounts share a Home directory''
          else
            io_bind (io_map_err (\<lambda>_. ''The Home snapshot has no directory for '' @ name
                        @ ''; restore a matching system snapshot first'')
                       (symlink_metadata (home @ [name]))) (\<lambda>metadata.
            if ftype metadata \<noteq> Directory \<or> uid metadata \<noteq> u \<or> gid metadata \<noteq> g
            then io_throw (''The Home snapshot ownership does not match account '' @ name
                   @ ''; restore a matching system snapshot first'')
            else verify_lines home ls ((name, u, g) # accounts)))"

fun verify_entries :: "path \<Rightarrow> string list \<Rightarrow> (string \<times> u32 \<times> u32) list \<Rightarrow> (string, unit) io" where
  "verify_entries home [] accounts = io_return ()"
| "verify_entries home (n # ns) accounts =
     io_bind (io_map_err err_text (next_entry n)) (\<lambda>entry.
     io_bind (io_map_err err_text (symlink_metadata (home @ [entry]))) (\<lambda>metadata.
     if uid metadata \<noteq> 0 \<and> map_of accounts (from_utf8_lossy entry) = None
     then io_throw ''The Home snapshot contains data for accounts absent from the system; restore a matching system snapshot first''
     else verify_entries home ns accounts))"

definition verify_contents :: "string \<Rightarrow> path \<Rightarrow> (string, unit) io" where
  "verify_contents passwd home =
     io_bind (verify_lines home (lines passwd) []) (\<lambda>accounts.
     io_bind (io_map_err err_text (read_dir home)) (\<lambda>entries.
     verify_entries home entries accounts))"

definition verify_home_accounts :: "path \<Rightarrow> path \<Rightarrow> (string, unit) io" where
  "verify_home_accounts passwd home =
     io_bind (io_map_err (\<lambda>_. ''Cannot read the account database for Home rollback'') (open_read passwd)) (\<lambda>_.
     io_bind (io_map_err err_text (symlink_metadata passwd)) (\<lambda>metadata.
     case ftype metadata of
       Regular _ \<Rightarrow>
         io_bind (io_map_err err_text (read_to_end passwd (1024 * 1024 + 1))) (\<lambda>contents.
         if \<not> utf8_valid contents then io_throw ''stream did not contain valid UTF-8''
         else if 1024 * 1024 < length contents then io_throw ''The account database is too large''
         else verify_contents contents home)
     | _ \<Rightarrow> io_throw ''The account database is not a regular file''))"

subsection \<open>Frames\<close>

lemma touches_verify_lines [io_rules]: "touches S (verify_lines home ls accounts)"
  by (induction home ls accounts rule: verify_lines.induct)
    (auto split: sum.splits passwd_line.splits intro!: io_rules)

lemma touches_verify_entries [io_rules]: "touches S (verify_entries home ns accounts)"
  by (induction ns) (auto intro!: io_rules)

lemma touches_verify_home_accounts [io_rules]: "touches S (verify_home_accounts passwd home)"
  unfolding verify_home_accounts_def verify_contents_def by (intro io_rules)

subsection \<open>What a successful check guarantees\<close>

text \<open>The accounts of the lines, as far as the check reads them.\<close>

definition account_of :: "string \<Rightarrow> (string \<times> u32 \<times> u32) option" where
  "account_of line =
     (if line = [] then None
      else case parse_account line of Inr (Account n u g) \<Rightarrow> Some (n, u, g) | _ \<Rightarrow> None)"

definition owned_home :: "(path \<Rightarrow> inode option) \<Rightarrow> path \<Rightarrow> string \<times> u32 \<times> u32 \<Rightarrow> bool" where
  "owned_home M home a \<longleftrightarrow>
     (case a of (n, u, g) \<Rightarrow> \<exists>i. M (home @ [n]) = Some i \<and> ftype i = Directory \<and> uid i = u \<and> gid i = g)"

lemma triple_stat:
  "io_triple (\<lambda>w. nodes w = N) (io_map_err h (symlink_metadata p))
    (\<lambda>i w. nodes w = N \<and> map_of N p = Some i) (\<lambda>_ _. True)"
  by (auto simp: io_triple_def io_map_err_def io_match_def io_return_def io_throw_def symlink_metadata_def
      syscall_def tick_def split: option.splits)

definition accounts_checked ::
  "tree \<Rightarrow> path \<Rightarrow> (string \<times> u32 \<times> u32) set \<Rightarrow> (string \<times> u32 \<times> u32) list \<Rightarrow> world \<Rightarrow> bool"
  where
  "accounts_checked N home known accounts w \<longleftrightarrow>
     nodes w = N \<and> list_all (owned_home (map_of N) home) accounts \<and> set accounts = known"

lemma triple_verify_account:
  assumes "\<And>accounts known. io_triple (accounts_checked N home known accounts) (verify_lines home ls accounts)
      (accounts_checked N home (known \<union> K)) (\<lambda>_ _. True)"
  shows "io_triple (accounts_checked N home known accounts)
    (io_bind (io_map_err h (symlink_metadata (home @ [n]))) (\<lambda>metadata.
       if ftype metadata \<noteq> Directory \<or> uid metadata \<noteq> u \<or> gid metadata \<noteq> g then io_throw e
       else verify_lines home ls ((n, u, g) # accounts)))
    (accounts_checked N home (insert (n, u, g) known \<union> K)) (\<lambda>_ _. True)"
proof (rule triple_bind)
  show "io_triple (accounts_checked N home known accounts) (io_map_err h (symlink_metadata (home @ [n])))
      (\<lambda>i w. accounts_checked N home known accounts w \<and> map_of N (home @ [n]) = Some i) (\<lambda>_ _. True)"
    by (rule io_tripleI) (auto simp: accounts_checked_def dest: io_tripleD_ok [OF triple_stat refl])
  fix i
  show "io_triple (\<lambda>w. accounts_checked N home known accounts w \<and> map_of N (home @ [n]) = Some i)
      (if ftype i \<noteq> Directory \<or> uid i \<noteq> u \<or> gid i \<noteq> g then io_throw e
       else verify_lines home ls ((n, u, g) # accounts))
      (accounts_checked N home (insert (n, u, g) known \<union> K)) (\<lambda>_ _. True)"
  proof (cases "ftype i \<noteq> Directory \<or> uid i \<noteq> u \<or> gid i \<noteq> g")
    case True
    then show ?thesis by (simp add: triple_throw)
  next
    case False
    then show ?thesis
      by (simp only: if_False)
        (rule triple_weaken [OF assms], auto simp: accounts_checked_def owned_home_def)
  qed
qed

lemma triple_verify_lines:
  "io_triple (accounts_checked N home known accounts) (verify_lines home ls accounts)
    (accounts_checked N home (known \<union> set (List.map_filter account_of ls))) (\<lambda>_ _. True)"
proof (induction ls arbitrary: accounts known)
  case Nil
  then show ?case by (simp add: List.map_filter_simps triple_return)
next
  case (Cons line ls)
  show ?case
  proof (cases "account_of line")
    case None
    then have "List.map_filter account_of (line # ls) = List.map_filter account_of ls"
      by (simp add: List.map_filter_simps)
    with None Cons.IH show ?thesis
      by (auto simp: account_of_def triple_throw split: sum.splits passwd_line.splits if_splits)
  next
    case (Some a)
    then obtain n u g where line: "line \<noteq> []" "parse_account line = Inr (Account n u g)" "a = (n, u, g)"
      by (auto simp: account_of_def split: sum.splits passwd_line.splits if_splits)
    have "set (List.map_filter account_of (line # ls)) = insert (n, u, g) (set (List.map_filter account_of ls))"
      using Some line(3) by (simp add: List.map_filter_simps)
    with line triple_verify_account [OF Cons.IH] show ?thesis by (simp add: triple_throw)
  qed
qed

lemma triple_verify_entries:
  "io_triple (\<lambda>w. nodes w = N) (verify_entries home ns accounts)
    (\<lambda>_ w. list_all (\<lambda>n. \<exists>i. map_of N (home @ [n]) = Some i
       \<and> (uid i = 0 \<or> map_of accounts (from_utf8_lossy n) \<noteq> None)) ns) (\<lambda>_ _. True)"
proof (induction ns)
  case Nil
  then show ?case by (simp add: triple_return)
next
  case (Cons n ns)
  have entry: "io_triple (\<lambda>w. nodes w = N) (io_map_err h (next_entry n))
      (\<lambda>e w. nodes w = N \<and> e = n) (\<lambda>_ _. True)" for h :: "io_error \<Rightarrow> string"
    by (auto simp: io_triple_def io_map_err_def io_match_def io_return_def io_throw_def next_entry_def
        syscall_def tick_def split: option.splits)
  have rest: "io_triple (\<lambda>w. nodes w = N \<and> e = n)
      (io_bind (io_map_err h (symlink_metadata (home @ [e]))) (\<lambda>metadata.
         if uid metadata \<noteq> 0 \<and> map_of accounts (from_utf8_lossy e) = None then io_throw x
         else verify_entries home ns accounts))
      (\<lambda>_ w. list_all (\<lambda>n. \<exists>i. map_of N (home @ [n]) = Some i
         \<and> (uid i = 0 \<or> map_of accounts (from_utf8_lossy n) \<noteq> None)) (n # ns)) (\<lambda>_ _. True)"
    for e x and h :: "io_error \<Rightarrow> string"
    by (rule triple_pure, rule triple_bind [OF triple_stat], rule triple_pure)
      (auto simp: triple_throw intro!: triple_weaken [OF Cons.IH])
  show ?case unfolding verify_entries.simps by (rule triple_bind [OF entry rest])
qed

definition homes_match :: "tree \<Rightarrow> string \<Rightarrow> path \<Rightarrow> bool" where
  "homes_match N passwd home \<longleftrightarrow>
     list_all (\<lambda>line. case account_of line of None \<Rightarrow> True | Some a \<Rightarrow> owned_home (map_of N) home a) (lines passwd)
     \<and> list_all (\<lambda>n. \<exists>i. map_of N (home @ [n]) = Some i
          \<and> (uid i = 0 \<or> list_ex (\<lambda>line. \<exists>a. account_of line = Some a \<and> fst a = from_utf8_lossy n) (lines passwd)))
        (fs_children N home)"

lemma in_map_filter: "y \<in> set (List.map_filter f xs) \<longleftrightarrow> (\<exists>x \<in> set xs. f x = Some y)"
  by (induction xs) (auto simp: List.map_filter_simps split: option.splits)

lemma homes_matchI:
  assumes "list_all (owned_home (map_of N) home) accounts"
    and "set accounts = set (List.map_filter account_of (lines passwd))"
    and "list_all (\<lambda>n. \<exists>i. map_of N (home @ [n]) = Some i
       \<and> (uid i = 0 \<or> map_of accounts (from_utf8_lossy n) \<noteq> None)) (fs_children N home)"
  shows "homes_match N passwd home"
proof -
  have "list_ex (\<lambda>line. \<exists>a. account_of line = Some a \<and> fst a = k) (lines passwd)"
    if "map_of accounts k \<noteq> None" for k
  proof -
    from that obtain v where "(k, v) \<in> set accounts" by (auto dest: map_of_SomeD)
    with assms(2) have "(k, v) \<in> set (List.map_filter account_of (lines passwd))" by simp
    then obtain line where "line \<in> set (lines passwd)" "account_of line = Some (k, v)"
      by (auto simp: in_map_filter)
    then show ?thesis unfolding list_ex_iff by (intro bexI [of _ line] exI [of _ "(k, v)"]) simp_all
  qed
  moreover have "owned_home (map_of N) home a" if "line \<in> set (lines passwd)" "account_of line = Some a" for line a
    using assms(1,2) that by (auto simp: list_all_iff in_map_filter)
  ultimately show ?thesis
    using assms(3) unfolding homes_match_def list_all_iff by (auto split: option.splits)
qed

lemma triple_verify_contents:
  "io_triple (\<lambda>w. nodes w = N) (verify_contents passwd home) (\<lambda>_ w. homes_match N passwd home) (\<lambda>_ _. True)"
proof -
  let ?P = "\<lambda>accounts (w :: world). nodes w = N \<and> list_all (owned_home (map_of N) home) accounts
    \<and> set accounts = set (List.map_filter account_of (lines passwd))"
  have accounts: "io_triple (\<lambda>w. nodes w = N) (verify_lines home (lines passwd) []) ?P (\<lambda>_ _. True)"
    by (rule triple_weaken [OF triple_verify_lines [of N home "{}"]]) (auto simp: accounts_checked_def)
  have entries: "io_triple (?P accounts) (io_map_err h (read_dir home))
      (\<lambda>es w. ?P accounts w \<and> es = fs_children N home) (\<lambda>_ _. True)" for h :: "io_error \<Rightarrow> string" and accounts
    by (auto simp: io_triple_def io_map_err_def io_match_def io_return_def io_throw_def read_dir_def
        syscall_def tick_def split: option.splits)
  have rest: "io_triple (\<lambda>w. ?P accounts w \<and> es = fs_children N home) (verify_entries home es accounts)
      (\<lambda>_ w. homes_match N passwd home) (\<lambda>_ _. True)" for es accounts
    by (rule io_tripleI) (auto dest!: io_tripleD_ok [OF triple_verify_entries refl] intro!: homes_matchI)
  show ?thesis
    unfolding verify_contents_def
    by (rule triple_bind [OF accounts], rule triple_bind [OF entries], rule rest)
qed

lemma triple_verify_home_accounts:
  "io_triple (\<lambda>w. nodes w = N) (verify_home_accounts passwd home)
    (\<lambda>_ w. slot_holds (\<lambda>b. homes_match N b home) (map_of N passwd)) (\<lambda>_ _. True)"
proof -
  have opened: "io_triple (\<lambda>w. nodes w = N) (io_map_err h (open_read passwd)) (\<lambda>_ w. nodes w = N) (\<lambda>_ _. True)"
    for h :: "io_error \<Rightarrow> string"
    by (auto simp: io_triple_def io_map_err_def io_match_def io_return_def io_throw_def open_read_def
        syscall_def tick_def split: option.splits)
  have stat: "io_triple (\<lambda>w. nodes w = N) (io_map_err h (symlink_metadata passwd)) (\<lambda>_ w. nodes w = N) (\<lambda>_ _. True)"
    for h :: "io_error \<Rightarrow> string"
    by (rule triple_weaken [OF triple_stat [of N h passwd]]) auto
  have content: "io_triple (\<lambda>w. nodes w = N) (io_map_err h (read_to_end passwd k))
      (\<lambda>b w. nodes w = N \<and> slot_holds (\<lambda>c. b = take k c) (map_of N passwd)) (\<lambda>_ _. True)"
    for h :: "io_error \<Rightarrow> string" and k
    by (auto simp: io_triple_def io_map_err_def io_match_def io_return_def io_throw_def read_to_end_def
        syscall_def tick_def slot_holds_def split: option.splits file_type.splits)
  have verify: "io_triple (\<lambda>w. nodes w = N \<and> slot_holds (\<lambda>c. b = take k c) (map_of N passwd))
      (verify_contents b home) (\<lambda>_ w. slot_holds (\<lambda>b. homes_match N b home) (map_of N passwd)) (\<lambda>_ _. True)"
    if "length b < k" for b k
  proof (rule triple_pure)
    assume "slot_holds (\<lambda>c. b = take k c) (map_of N passwd)"
    then have b: "slot_holds (\<lambda>c. c = b) (map_of N passwd)" using that by (auto simp: slot_holds_def)
    show "io_triple (\<lambda>w. nodes w = N) (verify_contents b home)
        (\<lambda>_ w. slot_holds (\<lambda>b. homes_match N b home) (map_of N passwd)) (\<lambda>_ _. True)"
      by (rule triple_weaken [OF triple_verify_contents]) (use b in \<open>auto simp: slot_holds_def\<close>)
  qed
  have read: "io_triple (\<lambda>w. nodes w = N)
      (io_bind (io_map_err err_text (read_to_end passwd (1024 * 1024 + 1))) (\<lambda>contents.
         if \<not> utf8_valid contents then io_throw e1
         else if 1024 * 1024 < length contents then io_throw e2
         else verify_contents contents home))
      (\<lambda>_ w. slot_holds (\<lambda>b. homes_match N b home) (map_of N passwd)) (\<lambda>_ _. True)" for e1 e2
    by (rule triple_bind [OF content]) (auto simp: triple_throw intro!: verify)
  show ?thesis
    unfolding verify_home_accounts_def
    by (rule triple_bind [OF opened], rule triple_bind [OF stat], rule triple_case_file_type, rule read)
      (simp_all add: triple_throw)
qed

text \<open>
  A Home snapshot that passes the account check matches the running system: every
  account of \<open>passwd\<close> with a home under \<open>/home\<close> has a real directory of that name in
  the snapshot with exactly its user and group, and every entry of the snapshot that is
  not owned by root bears the name of such an account. The check changes no file.
\<close>

theorem home_accounts_match:
  "case verify_home_accounts passwd home w of
     (x, w') \<Rightarrow>
       (if x = Inr () then slot_holds (\<lambda>b. homes_match (nodes w) b home) (map_of (nodes w) passwd) else True)
       \<and> map_of (nodes w') = map_of (nodes w)"
proof (cases "verify_home_accounts passwd home w")
  case (Pair x w')
  have "map_of (nodes w') = map_of (nodes w)"
    using touchesD [OF touches_verify_home_accounts [of "{}"] Pair] by auto
  with io_tripleD_ok [OF triple_verify_home_accounts refl, of passwd home w] Pair show ?thesis by auto
qed

end
