(* ===== verification/Recovery.thy ===== *)
theory Recovery
  imports Transaction_Store Deployment_Store Recovery_Filesystem Boot_Artifacts Home_Accounts
begin

text \<open>
  \<open>RecoveryEngine\<close> of \<open>recovery.rs\<close>: the early-boot engine that exchanges the root
  and Home subvolumes for snapshots and exchanges them back, one durable checkpoint per
  step, from whatever layout an interrupted boot left behind. Its loops run over the
  layout of three names: the live subvolume, the old one set aside and the new one.
\<close>

subsection \<open>Data\<close>

datatype RecoveryOutcome = NoAction | Applied | OutcomeReverted | FailedSafe | RestartRequired

text \<open>The libraries the engine calls: identifiers, JSON of the three records, SHA-256.\<close>

record libraries =
  lib_uuid :: uuid_lib
  lib_tx :: tx_json
  lib_dep :: dep_json
  lib_personal :: "bytes \<Rightarrow> string + PersonalSnapshotRecord"
  lib_sha256 :: "bytes \<Rightarrow> string"

record RecoveryEngine =
  top_level :: path
  filesystem :: recovery_fs

type_synonym observer = "RecoveryCheckpoint \<Rightarrow> (RecoveryError, unit) io"


definition transaction_error :: "TransactionError \<Rightarrow> RecoveryError" where
  "transaction_error e = RecoveryError_new ReInvalidTransaction (te_message e)"

subsection \<open>Paths\<close>

definition engine_snapshot_root :: "RecoveryEngine \<Rightarrow> path" where
  "engine_snapshot_root E = top_level E @ [''@snapshots'', ''anduinos-btrfs-snapshots-manager'']"

definition deployment_root :: "libraries \<Rightarrow> RecoveryEngine \<Rightarrow> uuid \<Rightarrow> path" where
  "deployment_root L E i = engine_snapshot_root E @ [''deployments'', hyphenated (lib_uuid L) i, ''root'']"

definition personal_snapshot_home :: "libraries \<Rightarrow> RecoveryEngine \<Rightarrow> uuid \<Rightarrow> path" where
  "personal_snapshot_home L E i =
     engine_snapshot_root E @ [''personal'', ''snapshots'', hyphenated (lib_uuid L) i, ''home'']"

definition engine_store :: "RecoveryEngine \<Rightarrow> path" where
  "engine_store E = transactions_dir (engine_snapshot_root E)"

text \<open>The three names a loop works on.\<close>

record swap =
  sw_live :: path
  sw_old :: path
  sw_new :: path

definition root_swap :: "libraries \<Rightarrow> RecoveryEngine \<Rightarrow> RollbackTransaction \<Rightarrow> swap" where
  "root_swap L E t =
     \<lparr>sw_live = top_level E @ [''@root''], sw_old = top_level E @ [old_root_name (lib_uuid L) t],
      sw_new = top_level E @ [new_root_name (lib_uuid L) t]\<rparr>"

definition home_swap :: "libraries \<Rightarrow> RecoveryEngine \<Rightarrow> RollbackTransaction \<Rightarrow> swap" where
  "home_swap L E t =
     \<lparr>sw_live = top_level E @ [''@home''], sw_old = top_level E @ [old_home_name (lib_uuid L) t],
      sw_new = top_level E @ [new_home_name (lib_uuid L) t]\<rparr>"

subsection \<open>Directories\<close>

definition real_directory :: "path \<Rightarrow> (RecoveryError, bool) io" where
  "real_directory p =
     io_match (symlink_metadata p) (\<lambda>r.
       case r of
         Inr metadata \<Rightarrow>
           (if ftype metadata = Directory then io_return True
            else io_throw (RecoveryError_new ReUnsafeLayout (display_path p @ '' is not a real directory'')))
       | Inl e \<Rightarrow>
           (if err_kind e = NotFound then io_return False
            else io_throw (recovery_io_error (''Could not inspect '' @ display_path p) e)))"

definition ensure_real_directory :: "path \<Rightarrow> (RecoveryError, unit) io" where
  "ensure_real_directory p =
     io_bind (real_directory p) (\<lambda>there.
     if there then io_return ()
     else io_throw (RecoveryError_new ReUnsafeLayout (display_path p @ '' does not exist'')))"

definition show_bool :: "bool \<Rightarrow> string" where
  "show_bool b = (if b then ''true'' else ''false'')"

definition unsafe_state :: "string \<Rightarrow> bool \<times> bool \<times> bool \<Rightarrow> RecoveryError" where
  "unsafe_state operation state =
     (case state of (a, b, c) \<Rightarrow> RecoveryError_new ReUnsafeLayout
        (''Unsafe '' @ operation @ '' subvolume state: root='' @ show_bool a @ '', old='' @ show_bool b
          @ '', new='' @ show_bool c))"

definition layout :: "swap \<Rightarrow> (RecoveryError, bool \<times> bool \<times> bool) io" where
  "layout sw =
     io_bind (real_directory (sw_live sw)) (\<lambda>a.
     io_bind (real_directory (sw_old sw)) (\<lambda>b.
     io_bind (real_directory (sw_new sw)) (\<lambda>c. io_return (a, b, c))))"

subsection \<open>Progress records\<close>

text \<open>Running an update of the transaction, with \<open>map_err(transaction_error)?\<close>.\<close>

definition run_update :: "tx_update \<Rightarrow> (RecoveryError, RollbackTransaction) io" where
  "run_update u = (case u of (t, Inr _) \<Rightarrow> io_return t | (t, Inl e) \<Rightarrow> io_throw (transaction_error e))"

definition save_transaction ::
  "libraries \<Rightarrow> RecoveryEngine \<Rightarrow> RollbackTransaction \<Rightarrow> (RecoveryError, unit) io" where
  "save_transaction L E t =
     io_map_err transaction_error (tx_update_store (lib_uuid L) (lib_tx L) (engine_store E) t)"

definition persist_checkpoint ::
  "libraries \<Rightarrow> RecoveryEngine \<Rightarrow> observer \<Rightarrow> RecoveryCheckpoint \<Rightarrow> RollbackTransaction \<Rightarrow>
   (RecoveryError, RollbackTransaction) io" where
  "persist_checkpoint L E observe c t =
     io_bind utc_now (\<lambda>now.
     io_bind (run_update (record_checkpoint (lib_uuid L) c now t)) (\<lambda>t.
     io_bind (save_transaction L E t) (\<lambda>_.
     io_bind (observe c) (\<lambda>_. io_return t))))"

text \<open>One step of a loop: change a subvolume, sync the filesystem, persist the checkpoint.\<close>

definition exchange_step ::
  "libraries \<Rightarrow> RecoveryEngine \<Rightarrow> observer \<Rightarrow> (RecoveryError, unit) io \<Rightarrow> RecoveryCheckpoint \<Rightarrow>
   RollbackTransaction \<Rightarrow> (RecoveryError, RollbackTransaction) io" where
  "exchange_step L E observe change c t =
     io_bind change (\<lambda>_.
     io_bind (rf_sync (filesystem E) (top_level E)) (\<lambda>_.
     persist_checkpoint L E observe c t))"

subsection \<open>Applying\<close>

text \<open>
  The loop of \<open>apply\<close> and \<open>apply_home\<close>; the flag says whether it saw the final layout
  or ran out of its five rounds.
\<close>

fun apply_loop ::
  "libraries \<Rightarrow> RecoveryEngine \<Rightarrow> observer \<Rightarrow> string \<Rightarrow> swap \<Rightarrow> path \<Rightarrow>
   RecoveryCheckpoint \<times> RecoveryCheckpoint \<times> RecoveryCheckpoint \<Rightarrow> nat \<Rightarrow> RollbackTransaction \<Rightarrow>
   (RecoveryError, RollbackTransaction \<times> bool) io" where
  "apply_loop L E observe operation sw target cs 0 t = io_return (t, False)"
| "apply_loop L E observe operation sw target (created, protected, activated) (Suc n) t =
     io_bind (layout sw) (\<lambda>state.
     if state = (True, False, False)
     then io_bind (exchange_step L E observe (rf_snapshot (filesystem E) target (sw_new sw)) created t)
            (apply_loop L E observe operation sw target (created, protected, activated) n)
     else if state = (True, False, True)
     then io_bind (exchange_step L E observe (rf_rename (filesystem E) (sw_live sw) (sw_old sw)) protected t)
            (apply_loop L E observe operation sw target (created, protected, activated) n)
     else if state = (False, True, True)
     then io_bind (exchange_step L E observe (rf_rename (filesystem E) (sw_new sw) (sw_live sw)) activated t)
            (apply_loop L E observe operation sw target (created, protected, activated) n)
     else if state = (True, True, False) then io_return (t, True)
     else io_throw (unsafe_state operation state))"

definition apply_home ::
  "libraries \<Rightarrow> RecoveryEngine \<Rightarrow> observer \<Rightarrow> RollbackTransaction \<Rightarrow> (RecoveryError, RollbackTransaction) io" where
  "apply_home L E observe t =
     (case tx_factory_home_snapshot_id t of
        None \<Rightarrow> io_throw (RecoveryError_new ReInvalidTransaction ''Factory Home reset has no baseline identity'')
      | Some i \<Rightarrow>
          io_bind (apply_loop L E observe ''factory Home apply'' (home_swap L E t) (personal_snapshot_home L E i)
                     (WritableHomeCreated, CurrentHomeProtected, TargetHomeActivated) 5 t) (\<lambda>(t, settled).
          if settled then io_return t
          else io_throw (RecoveryError_new ReUnsafeLayout ''Factory Home apply did not converge'')))"

definition RecoveryEngine_apply ::
  "libraries \<Rightarrow> RecoveryEngine \<Rightarrow> observer \<Rightarrow> RollbackTransaction \<Rightarrow> (RecoveryError, RollbackTransaction) io" where
  "RecoveryEngine_apply L E observe t =
     (if tx_home_only t then apply_home L E observe t
      else
        io_bind (apply_loop L E observe ''apply'' (root_swap L E t)
                   (deployment_root L E (tx_target_deployment_id t))
                   (WritableTargetCreated, CurrentRootProtected, TargetRootActivated) 5 t) (\<lambda>(t, _).
        io_bind (layout (root_swap L E t)) (\<lambda>state.
        if state \<noteq> (True, True, False)
        then io_throw (RecoveryError_new ReUnsafeLayout ''Rollback apply did not converge'')
        else if tx_reset_home t then apply_home L E observe t
        else io_return t)))"

definition finish_apply ::
  "libraries \<Rightarrow> RecoveryEngine \<Rightarrow> observer \<Rightarrow> RollbackTransaction \<Rightarrow> (RecoveryError, RecoveryOutcome) io" where
  "finish_apply L E observe t =
     (let restarting = restarts_after_apply t;
          phase = (if restarting then AppliedAwaitingBoot else BootedUnconfirmed);
          completed = (if restarting then AppliedAwaitingBootRecorded else BootedUnconfirmedRecorded)
      in
      io_bind utc_now (\<lambda>now.
      io_bind (run_update (transition (lib_uuid L) phase now t)) (\<lambda>t.
      io_bind (persist_checkpoint L E observe completed t) (\<lambda>_.
      io_return (if restarting then RestartRequired else Applied)))))"

subsection \<open>Reverting\<close>

fun revert_loop ::
  "libraries \<Rightarrow> RecoveryEngine \<Rightarrow> observer \<Rightarrow> string \<Rightarrow> string \<Rightarrow> swap \<Rightarrow>
   RecoveryCheckpoint \<times> RecoveryCheckpoint \<times> RecoveryCheckpoint \<Rightarrow> nat \<Rightarrow> RollbackTransaction \<Rightarrow>
   (RecoveryError, RollbackTransaction) io" where
  "revert_loop L E observe operation exhausted sw cs 0 t =
     io_throw (RecoveryError_new ReUnsafeLayout exhausted)"
| "revert_loop L E observe operation exhausted sw (deleted, activated, aside) (Suc n) t =
     io_bind (layout sw) (\<lambda>state.
     if state = (True, False, False) then io_return t
     else if state = (True, False, True)
     then io_bind (exchange_step L E observe (rf_delete (filesystem E) (sw_new sw)) deleted t)
            (revert_loop L E observe operation exhausted sw (deleted, activated, aside) n)
     else if state = (False, True, True) \<or> state = (False, True, False)
     then io_bind (exchange_step L E observe (rf_rename (filesystem E) (sw_old sw) (sw_live sw)) activated t)
            (revert_loop L E observe operation exhausted sw (deleted, activated, aside) n)
     else if state = (True, True, False)
     then io_bind (exchange_step L E observe (rf_rename (filesystem E) (sw_live sw) (sw_new sw)) aside t)
            (revert_loop L E observe operation exhausted sw (deleted, activated, aside) n)
     else io_throw (unsafe_state operation state))"

definition revert_home ::
  "libraries \<Rightarrow> RecoveryEngine \<Rightarrow> observer \<Rightarrow> RollbackTransaction \<Rightarrow> (RecoveryError, RollbackTransaction) io" where
  "revert_home L E observe t =
     revert_loop L E observe ''factory Home revert'' ''Factory Home revert did not converge''
       (home_swap L E t) (DiscardedHomeDeleted, FallbackHomeActivated, RestoredHomeMovedAside) 6 t"

definition revert ::
  "libraries \<Rightarrow> RecoveryEngine \<Rightarrow> observer \<Rightarrow> RollbackTransaction \<Rightarrow> (RecoveryError, RollbackTransaction) io" where
  "revert L E observe t =
     io_bind (if tx_reset_home t then revert_home L E observe t else io_return t) (\<lambda>t.
     if tx_home_only t then io_return t
     else revert_loop L E observe ''revert'' ''Rollback revert did not converge''
            (root_swap L E t) (DiscardedRootDeleted, FallbackRootActivated, RestoredRootMovedAside) 6 t)"

definition finish_revert ::
  "libraries \<Rightarrow> RecoveryEngine \<Rightarrow> observer \<Rightarrow> RollbackTransaction \<Rightarrow> (RecoveryError, RecoveryOutcome) io" where
  "finish_revert L E observe t =
     io_bind (revert L E observe t) (\<lambda>t.
     io_bind utc_now (\<lambda>now.
     io_bind (run_update (transition (lib_uuid L) Reverted now t)) (\<lambda>t.
     io_bind (persist_checkpoint L E observe RevertedRecorded t) (\<lambda>t.
     io_return (if restarts_after_apply t then RestartRequired else OutcomeReverted)))))"

definition revert_transaction ::
  "libraries \<Rightarrow> RecoveryEngine \<Rightarrow> observer \<Rightarrow> RollbackTransaction \<Rightarrow> (RecoveryError, RecoveryOutcome) io" where
  "revert_transaction L E observe t =
     io_bind utc_now (\<lambda>now.
     io_bind (run_update (transition (lib_uuid L) Reverting now t)) (\<lambda>t.
     io_bind (persist_checkpoint L E observe RevertStarted t) (\<lambda>t.
     finish_revert L E observe t)))"

subsection \<open>Validating the deployments\<close>

definition invalid_deployment :: "string \<Rightarrow> RecoveryError" where
  "invalid_deployment m = RecoveryError_new ReInvalidDeployment m"

definition confirm_path :: "RecoveryEngine \<Rightarrow> path" where
  "confirm_path E = engine_snapshot_root E @ [''recovery-boot'', RECOVERY_CONFIRM]"

definition boot_as_transaction :: "BootError \<Rightarrow> RecoveryError" where
  "boot_as_transaction e = RecoveryError_new ReInvalidTransaction (be_message e)"

definition validate_confirmation ::
  "libraries \<Rightarrow> RecoveryEngine \<Rightarrow> RollbackTransaction \<Rightarrow> (RecoveryError, unit) io" where
  "validate_confirmation L E t =
     (if tx_recovery_protocol_version t < 2 then io_return ()
      else
        io_bind (io_map_err boot_as_transaction (ensure_protected_executable (confirm_path E))) (\<lambda>_.
        io_bind (io_map_err boot_as_transaction (hash_regular_file (lib_sha256 L) (confirm_path E))) (\<lambda>digest.
        if digest \<noteq> tx_recovery_confirm_sha256 t
        then io_throw (RecoveryError_new ReInvalidTransaction
               ''The recovery confirmation artifact no longer matches the rollback transaction'')
        else io_return ())))"

definition load_deployment ::
  "libraries \<Rightarrow> RecoveryEngine \<Rightarrow> uuid \<Rightarrow> (RecoveryError, DeploymentRecord) io" where
  "load_deployment L E i =
     io_map_err (\<lambda>problem. invalid_deployment (di_message problem))
       (load_record (lib_uuid L) (lib_dep L) (engine_snapshot_root E) i)"

text \<open>The loop over the factory Home, the live Home and the old Home.\<close>

fun refuse_nested_homes :: "RecoveryEngine \<Rightarrow> path list \<Rightarrow> (RecoveryError, unit) io" where
  "refuse_nested_homes E [] = io_return ()"
| "refuse_nested_homes E (home # hs) =
     io_bind (real_directory home) (\<lambda>there.
     io_bind (if there then rf_has_descendants (filesystem E) home else io_return False) (\<lambda>nested.
     if nested
     then io_throw (RecoveryError_new ReUnsafeLayout
            ''Home rollback cannot replace nested Btrfs subvolumes; their contents are not included in ordinary snapshots'')
     else refuse_nested_homes E hs))"

definition validate_home ::
  "libraries \<Rightarrow> RecoveryEngine \<Rightarrow> RollbackTransaction \<Rightarrow> (RecoveryError, unit) io" where
  "validate_home L E t =
     (case (tx_factory_home_snapshot_id t, tx_factory_home_snapshot_uuid t) of
        (None, _) \<Rightarrow> io_throw (RecoveryError_new ReInvalidTransaction ''Factory Home reset has no baseline identity'')
      | (Some i, None) \<Rightarrow> io_throw (RecoveryError_new ReInvalidTransaction ''Factory Home reset has no baseline UUID'')
      | (Some i, Some expected_uuid) \<Rightarrow>
          io_bind (io_map_err (\<lambda>e. invalid_deployment (pe_message e))
                     (personal_load (lib_uuid L) (lib_personal L) (engine_snapshot_root E) i)) (\<lambda>record.
          if ps_state record \<noteq> PersonalReady \<or> ps_snapshot_uuid record \<noteq> Some expected_uuid
          then io_throw (invalid_deployment ''Factory Home baseline metadata does not match the reset transaction'')
          else
            let factory_home = personal_snapshot_home L E i in
            io_bind (ensure_real_directory factory_home) (\<lambda>_.
            io_bind (refuse_nested_homes E [factory_home, top_level E @ [''@home''],
                       top_level E @ [old_home_name (lib_uuid L) t]]) (\<lambda>_.
            io_bind (rf_identity (filesystem E) factory_home) (\<lambda>identity.
            if identity \<noteq> expected_uuid
            then io_throw (invalid_deployment ''Factory Home baseline UUID does not match metadata'')
            else
              io_bind (rf_is_read_only (filesystem E) factory_home) (\<lambda>read_only.
              if \<not> read_only then io_throw (invalid_deployment ''Factory Home baseline is not read-only'')
              else if tx_home_only t
              then io_map_err invalid_deployment
                     (verify_home_accounts (top_level E @ [''@root'', ''etc'', ''passwd'']) factory_home)
              else io_return ()))))))"

definition validate_deployments ::
  "libraries \<Rightarrow> RecoveryEngine \<Rightarrow> RollbackTransaction \<Rightarrow> (RecoveryError, unit) io" where
  "validate_deployments L E t =
     io_bind (validate_confirmation L E t) (\<lambda>_.
     io_bind (load_deployment L E (tx_target_deployment_id t)) (\<lambda>target.
     if \<not> can_restore (lib_uuid L) target
     then io_throw (invalid_deployment ''Rollback target is not a complete, healthy snapshot'')
     else
     io_bind (load_deployment L E (tx_fallback_deployment_id t)) (\<lambda>fallback.
     if \<not> can_restore (lib_uuid L) fallback \<or> dep_kind fallback \<noteq> PreRollback
     then io_throw (invalid_deployment ''Rollback fallback is not a complete safety snapshot'')
     else
     io_bind (if tx_home_only t
              then io_bind (rf_identity (filesystem E) (top_level E @ [''@root''])) (\<lambda>live.
                     io_return (dep_snapshot_parent_uuid fallback \<noteq> Some live))
              else io_return False) (\<lambda>moved.
     if moved
     then io_throw (invalid_deployment ''The live root changed after the Home restore was scheduled'')
     else
     let target_root = deployment_root L E (tx_target_deployment_id t);
         fallback_root = deployment_root L E (tx_fallback_deployment_id t)
     in
     io_bind (ensure_real_directory target_root) (\<lambda>_.
     io_bind (ensure_real_directory fallback_root) (\<lambda>_.
     case dep_snapshot_uuid target of
       None \<Rightarrow> io_throw (invalid_deployment ''Rollback target has no snapshot UUID'')
     | Some expected_uuid \<Rightarrow>
         io_bind (rf_identity (filesystem E) target_root) (\<lambda>identity.
         if identity \<noteq> expected_uuid
         then io_throw (invalid_deployment ''Rollback target snapshot UUID does not match metadata'')
         else
           io_bind (rf_is_read_only (filesystem E) target_root) (\<lambda>read_only.
           if \<not> read_only then io_throw (invalid_deployment ''Rollback target snapshot is not read-only'')
           else if tx_reset_home t then validate_home L E t
           else io_return ()))))))))"

subsection \<open>Staging the confirmation engine\<close>

definition digest_matches :: "libraries \<Rightarrow> path \<Rightarrow> string option \<Rightarrow> (RecoveryError, bool) io" where
  "digest_matches L p expected =
     (case expected of
        None \<Rightarrow> io_return True
      | Some digest \<Rightarrow>
          io_match (hash_regular_file (lib_sha256 L) p) (\<lambda>r.
            io_return (case r of Inl _ \<Rightarrow> False | Inr actual \<Rightarrow> actual = digest)))"

definition already_frozen :: "libraries \<Rightarrow> path \<Rightarrow> string option \<Rightarrow> (RecoveryError, bool) io" where
  "already_frozen L frozen expected =
     (case expected of
        None \<Rightarrow> io_return False
      | Some digest \<Rightarrow>
          io_match (ensure_protected_executable frozen) (\<lambda>r.
            case r of
              Inl _ \<Rightarrow> io_return False
            | Inr _ \<Rightarrow> digest_matches L frozen expected))"

definition stage_confirmation_artifact ::
  "libraries \<Rightarrow> RecoveryEngine \<Rightarrow> path \<Rightarrow> (RecoveryError, bool) io" where
  "stage_confirmation_artifact L E source =
     io_bind (ensure_real_directory (top_level E)) (\<lambda>_.
     io_bind (io_map_err transaction_error (load_pending (lib_uuid L) (lib_tx L) (engine_store E))) (\<lambda>pending.
     case pending of
       None \<Rightarrow> io_return False
     | Some t \<Rightarrow>
         let expected = (if 2 \<le> tx_recovery_protocol_version t then Some (tx_recovery_confirm_sha256 t) else None);
             target = confirm_path E
         in
         io_bind (already_frozen L target expected) (\<lambda>frozen.
         if frozen then io_return True
         else
         io_bind (io_map_err boot_as_transaction (ensure_protected_executable source)) (\<lambda>_.
         io_bind (digest_matches L source expected) (\<lambda>same.
         if \<not> same
         then io_throw (RecoveryError_new ReInvalidTransaction
                ''The initramfs confirmation engine does not match the rollback transaction'')
         else
         io_bind (ensure_real_directory (engine_snapshot_root E @ [''recovery-boot''])) (\<lambda>_.
         io_bind (io_map_err (\<lambda>e. RecoveryError_new ReIo (be_message e))
                    (copy_regular_file_atomic (lib_uuid L) source target 0x1C0)) (\<lambda>_.
         io_bind (io_map_err boot_as_transaction (ensure_protected_executable target)) (\<lambda>_.
         io_bind (digest_matches L target expected) (\<lambda>same.
         if \<not> same
         then io_throw (RecoveryError_new ReInvalidTransaction
                ''The staged confirmation engine does not match the rollback transaction'')
         else io_return True)))))))))"

subsection \<open>The engine\<close>

definition fail_safely ::
  "libraries \<Rightarrow> RecoveryEngine \<Rightarrow> string \<Rightarrow> RollbackTransaction \<Rightarrow> (RecoveryError, RollbackTransaction) io" where
  "fail_safely L E message t =
     io_bind utc_now (\<lambda>now.
     io_bind (run_update (record_failure (lib_uuid L) message now t)) (\<lambda>t.
     io_bind (save_transaction L E t) (\<lambda>_. io_return t)))"

definition enter_initramfs ::
  "libraries \<Rightarrow> RecoveryEngine \<Rightarrow> observer \<Rightarrow> string \<Rightarrow> RollbackTransaction \<Rightarrow>
   (RecoveryError, RollbackTransaction) io" where
  "enter_initramfs L E observe boot_id t =
     io_bind utc_now (\<lambda>now.
     io_bind (run_update (record_initramfs_entry (lib_uuid L) boot_id now t)) (\<lambda>t.
     io_bind (save_transaction L E t) (\<lambda>_.
     io_bind (observe InitramfsEntered) (\<lambda>_.
     persist_checkpoint L E observe Validating t))))"

definition start_apply ::
  "libraries \<Rightarrow> RecoveryEngine \<Rightarrow> observer \<Rightarrow> string \<Rightarrow> RollbackTransaction \<Rightarrow>
   (RecoveryError, RecoveryOutcome) io" where
  "start_apply L E observe boot_id t =
     io_bind utc_now (\<lambda>now.
     io_bind (run_update (begin_apply (lib_uuid L) boot_id now t)) (\<lambda>t.
     io_bind (save_transaction L E t) (\<lambda>_.
     io_bind (observe ApplyStarted) (\<lambda>_.
     io_bind (RecoveryEngine_apply L E observe t) (\<lambda>t.
     finish_apply L E observe t)))))"

definition execute_armed ::
  "libraries \<Rightarrow> RecoveryEngine \<Rightarrow> observer \<Rightarrow> uuid option \<Rightarrow> string \<Rightarrow> RollbackTransaction \<Rightarrow>
   (RecoveryError, RecoveryOutcome) io" where
  "execute_armed L E observe requested boot_id t =
     (if requested \<noteq> Some (tx_id t)
      then
        if 0 < tx_initramfs_attempts t \<and> tx_initramfs_boot_id t \<noteq> Some boot_id
        then io_bind (fail_safely L E
               ''A requested recovery boot entered initramfs but did not begin applying the target'' t)
               (\<lambda>_. io_return FailedSafe)
        else io_return NoAction
      else if MAX_APPLY_ATTEMPTS \<le> tx_initramfs_attempts t
      then io_bind (fail_safely L E
             ''The recovery initramfs entry attempt limit was reached before applying the target'' t)
             (\<lambda>_. io_return FailedSafe)
      else
        io_bind (enter_initramfs L E observe boot_id t) (\<lambda>t.
        io_match (validate_deployments L E t) (\<lambda>r.
          case r of
            Inl e \<Rightarrow> io_bind (fail_safely L E (re_message e) t) (\<lambda>_. io_throw e)
          | Inr _ \<Rightarrow> start_apply L E observe boot_id t)))"

definition execute_applying ::
  "libraries \<Rightarrow> RecoveryEngine \<Rightarrow> observer \<Rightarrow> uuid option \<Rightarrow> string \<Rightarrow> RollbackTransaction \<Rightarrow>
   (RecoveryError, RecoveryOutcome) io" where
  "execute_applying L E observe requested boot_id t =
     (if requested = Some (tx_id t) \<and> tx_apply_attempts t < MAX_APPLY_ATTEMPTS
        \<and> tx_initramfs_attempts t < MAX_APPLY_ATTEMPTS
      then
        io_bind (enter_initramfs L E observe boot_id t) (\<lambda>t.
        io_bind (validate_deployments L E t) (\<lambda>_.
        start_apply L E observe boot_id t))
      else revert_transaction L E observe t)"

definition execute_awaiting_boot ::
  "libraries \<Rightarrow> RecoveryEngine \<Rightarrow> observer \<Rightarrow> uuid option \<Rightarrow> string \<Rightarrow> RollbackTransaction \<Rightarrow>
   (RecoveryError, RecoveryOutcome) io" where
  "execute_awaiting_boot L E observe requested boot_id t =
     (if tx_applying_boot_id t = Some boot_id \<or> requested \<noteq> None then io_return RestartRequired
      else
        io_bind utc_now (\<lambda>now.
        io_bind (run_update (record_target_boot (lib_uuid L) boot_id now t)) (\<lambda>t.
        io_bind (persist_checkpoint L E observe BootedUnconfirmedRecorded t) (\<lambda>_.
        io_return NoAction))))"

definition execute_unconfirmed ::
  "libraries \<Rightarrow> RecoveryEngine \<Rightarrow> observer \<Rightarrow> string \<Rightarrow> RollbackTransaction \<Rightarrow>
   (RecoveryError, RecoveryOutcome) io" where
  "execute_unconfirmed L E observe boot_id t =
     (if (if restarts_after_apply t then tx_target_boot_id t else tx_applying_boot_id t) = Some boot_id
      then io_return NoAction
      else revert_transaction L E observe t)"

text \<open>The boot that performs a restart-only revert is remembered before anything else.\<close>

definition remembers_revert_boot :: "uuid option \<Rightarrow> string \<Rightarrow> RollbackTransaction \<Rightarrow> bool" where
  "remembers_revert_boot requested boot_id t \<longleftrightarrow>
     restarts_after_apply t
     \<and> (tx_phase t = Reverting
        \<or> (tx_phase t = Applying \<and> requested = None)
        \<or> (tx_phase t = BootedUnconfirmed \<and> tx_target_boot_id t \<noteq> Some boot_id))"

definition execute_phase ::
  "libraries \<Rightarrow> RecoveryEngine \<Rightarrow> observer \<Rightarrow> uuid option \<Rightarrow> string \<Rightarrow> RollbackTransaction \<Rightarrow>
   (RecoveryError, RecoveryOutcome) io" where
  "execute_phase L E observe requested boot_id t =
     (case tx_phase t of
        Reverted \<Rightarrow>
          io_return (if restarts_after_apply t \<and> tx_initramfs_boot_id t = Some boot_id
                     then RestartRequired else NoAction)
      | Preparing \<Rightarrow> io_return NoAction
      | Confirmed \<Rightarrow> io_return NoAction
      | Failed \<Rightarrow> io_return NoAction
      | Armed \<Rightarrow> execute_armed L E observe requested boot_id t
      | Applying \<Rightarrow> execute_applying L E observe requested boot_id t
      | AppliedAwaitingBoot \<Rightarrow> execute_awaiting_boot L E observe requested boot_id t
      | BootedUnconfirmed \<Rightarrow> execute_unconfirmed L E observe boot_id t
      | Reverting \<Rightarrow> finish_revert L E observe t)"

definition execute_with_observer ::
  "libraries \<Rightarrow> RecoveryEngine \<Rightarrow> observer \<Rightarrow> uuid option \<Rightarrow> string \<Rightarrow> (RecoveryError, RecoveryOutcome) io" where
  "execute_with_observer L E observe requested boot_id =
     io_bind (ensure_real_directory (top_level E)) (\<lambda>_.
     io_bind (io_map_err transaction_error (load_pending (lib_uuid L) (lib_tx L) (engine_store E))) (\<lambda>pending.
     case pending of
       None \<Rightarrow> io_return NoAction
     | Some t \<Rightarrow>
         if remembers_revert_boot requested boot_id t
         then
           let t = t\<lparr>tx_initramfs_boot_id := Some boot_id\<rparr> in
           io_bind (save_transaction L E t) (\<lambda>_. execute_phase L E observe requested boot_id t)
         else execute_phase L E observe requested boot_id t))"

definition execute ::
  "libraries \<Rightarrow> RecoveryEngine \<Rightarrow> uuid option \<Rightarrow> string \<Rightarrow> (RecoveryError, RecoveryOutcome) io" where
  "execute L E requested boot_id = execute_with_observer L E (\<lambda>_. io_return ()) requested boot_id"

end
