(* ===== verification/Recovery_Safety.thy ===== *)
theory Recovery_Safety
  imports Recovery
begin

text \<open>
  Safety of the early-boot engine of \<open>recovery.rs\<close>. The root and the Home subvolume
  the machine ran from when a rollback was armed are never lost: after every boot of
  every sequence of boots, under every fault schedule, each is complete either under
  its live name or under the name it was set aside to.
\<close>

named_theorems keep_rules \<open>rules for programs that keep a predicate of the file tree\<close>

abbreviation files :: "world \<Rightarrow> path \<Rightarrow> inode option" where
  "files w \<equiv> map_of (nodes w)"

subsection \<open>Names\<close>

definition root_names :: "uuid_lib \<Rightarrow> path \<Rightarrow> uuid \<Rightarrow> swap" where
  "root_names U d i =
     \<lparr>sw_live = d @ [''@root''], sw_old = d @ [''@root.snapshots-manager-old-'' @ hyphenated U i],
      sw_new = d @ [''@root.snapshots-manager-new-'' @ hyphenated U i]\<rparr>"

definition home_names :: "uuid_lib \<Rightarrow> path \<Rightarrow> uuid \<Rightarrow> swap" where
  "home_names U d i =
     \<lparr>sw_live = d @ [''@home''], sw_old = d @ [''@home.snapshots-manager-old-'' @ hyphenated U i],
      sw_new = d @ [''@home.snapshots-manager-new-'' @ hyphenated U i]\<rparr>"

lemma root_swap_names: "root_swap L E t = root_names (lib_uuid L) (top_level E) (tx_id t)"
  by (simp add: root_swap_def root_names_def old_root_name_def new_root_name_def)

lemma home_swap_names: "home_swap L E t = home_names (lib_uuid L) (top_level E) (tx_id t)"
  by (simp add: home_swap_def home_names_def old_home_name_def new_home_name_def)

definition swap_paths :: "swap \<Rightarrow> path set" where
  "swap_paths sw = under (sw_live sw) \<union> under (sw_old sw) \<union> under (sw_new sw)"

text \<open>Three different names in one directory, none of them the snapshot store.\<close>

definition swap_ok :: "path \<Rightarrow> swap \<Rightarrow> bool" where
  "swap_ok d sw \<longleftrightarrow>
     (\<exists>a b c. sw_live sw = d @ [a] \<and> sw_old sw = d @ [b] \<and> sw_new sw = d @ [c]
        \<and> distinct [a, b, c, ''@snapshots''])"

lemma root_names_ok: "swap_ok d (root_names U d i)"
  by (auto simp: swap_ok_def root_names_def)

lemma home_names_ok: "swap_ok d (home_names U d i)"
  by (auto simp: swap_ok_def home_names_def)

lemma under_sibling: "prefix (d @ [a]) k \<Longrightarrow> prefix (d @ b # r) k \<Longrightarrow> a = b"
  by (auto simp: prefix_def)

lemma store_outside:
  assumes "swap_ok (top_level E) sw"
  shows "under (engine_store E) \<inter> swap_paths sw = {}"
proof -
  obtain a b c where names: "sw_live sw = top_level E @ [a]" "sw_old sw = top_level E @ [b]"
      "sw_new sw = top_level E @ [c]" "distinct [a, b, c, ''@snapshots'']"
    using assms by (auto simp: swap_ok_def)
  have "\<not> prefix (top_level E @ [n]) k" if "prefix (engine_store E) k" "n \<noteq> ''@snapshots''" for n k
    using under_sibling [of "top_level E" n k] that
    by (auto simp: engine_store_def transactions_dir_def engine_snapshot_root_def)
  with names show ?thesis by (auto simp: swap_paths_def under_def)
qed

lemma root_home_disjoint: "swap_paths (root_names U d i) \<inter> swap_paths (home_names U d j) = {}"
  using under_sibling [of d]
  by (fastforce simp: swap_paths_def root_names_def home_names_def under_def)

lemma swap_apart:
  assumes "swap_ok d sw"
  shows "apart (sw_live sw) (sw_old sw)" "apart (sw_old sw) (sw_live sw)" "apart (sw_new sw) (sw_live sw)"
    "apart (sw_live sw) (sw_new sw)"  "apart (sw_new sw) (sw_old sw)" "apart (sw_old sw) (sw_new sw)"
  using assms by (auto simp: swap_ok_def)

lemma apart_disjoint: "apart p q \<Longrightarrow> under p \<inter> under q = {}"
  by (auto simp: under_def apart_def dest: prefix_same_cases)

subsection \<open>Programs that keep a predicate\<close>

text \<open>\<open>keeps I m\<close>: whatever happens, \<open>m\<close> keeps \<open>I\<close>; \<open>guarded I \<beta> m\<close>: it moreover returns a
  transaction bound to the same rollback \<open>\<beta>\<close>.\<close>

type_synonym tree_pred = "(path \<Rightarrow> inode option) \<Rightarrow> bool"

definition keeps :: "tree_pred \<Rightarrow> ('e, 'a) io \<Rightarrow> bool" where
  "keeps I m \<longleftrightarrow> io_triple (\<lambda>w. I (files w)) m (\<lambda>_ w. I (files w)) (\<lambda>_ w. I (files w))"

definition guarded where
  "guarded I \<beta> m \<longleftrightarrow>
     io_triple (\<lambda>w. I (files w)) m (\<lambda>t w. I (files w) \<and> tx_binding t = \<beta>) (\<lambda>_ w. I (files w))"

lemma keepsI: "(\<And>w x w'. I (files w) \<Longrightarrow> m w = (x, w') \<Longrightarrow> I (files w')) \<Longrightarrow> keeps I m"
  by (auto simp: keeps_def intro!: io_tripleI)

lemma keepsD: "keeps I m \<Longrightarrow> m w = (x, w') \<Longrightarrow> I (files w) \<Longrightarrow> I (files w')"
  by (cases x) (auto simp: keeps_def dest: io_tripleD_ok io_tripleD_err)

lemma keeps_return [keep_rules]: "keeps I (io_return x)"
  by (simp add: keeps_def triple_return)

lemma keeps_throw [keep_rules]: "keeps I (io_throw e)"
  by (simp add: keeps_def triple_throw)

lemma keeps_bind [keep_rules]:
  "keeps I m \<Longrightarrow> (\<And>x. keeps I (f x)) \<Longrightarrow> keeps I (io_bind m f)"
  unfolding keeps_def by (rule triple_bind)

lemma keeps_match [keep_rules]:
  "keeps I m \<Longrightarrow> (\<And>r. keeps I (f r)) \<Longrightarrow> keeps I (io_match m f)"
  unfolding keeps_def by (rule triple_match)

lemma keeps_map_err [keep_rules]: "keeps I m \<Longrightarrow> keeps I (io_map_err h m)"
  unfolding keeps_def by (rule triple_map_err)

lemma keeps_if [keep_rules]:
  "(c \<Longrightarrow> keeps I m) \<Longrightarrow> (\<not> c \<Longrightarrow> keeps I m') \<Longrightarrow> keeps I (if c then m else m')"
  by simp

lemma keeps_case_sum [keep_rules]:
  "(\<And>e. keeps I (f e)) \<Longrightarrow> (\<And>x. keeps I (g x)) \<Longrightarrow> keeps I (case r of Inl e \<Rightarrow> f e | Inr x \<Rightarrow> g x)"
  by (simp split: sum.splits)

lemma keeps_touches_none: "touches {} m \<Longrightarrow> keeps I m"
  by (rule keepsI) (metis (no_types, lifting) empty_iff ext touchesD)

lemma guarded_keeps: "guarded I \<beta> m \<Longrightarrow> keeps I m"
  unfolding guarded_def keeps_def by (erule triple_weaken) auto

lemma guarded_return [keep_rules]: "tx_binding t = \<beta> \<Longrightarrow> guarded I \<beta> (io_return t)"
  by (simp add: guarded_def triple_return)

lemma guarded_throw [keep_rules]: "guarded I \<beta> (io_throw e)"
  by (simp add: guarded_def triple_throw)

lemma guarded_bind_keeps: "guarded I \<beta> m \<Longrightarrow> (\<And>t. tx_binding t = \<beta> \<Longrightarrow> keeps I (f t)) \<Longrightarrow> keeps I (io_bind m f)"
  unfolding guarded_def keeps_def by (rule triple_bind, assumption, rule triple_pure, simp)

lemma guarded_bind_guarded:
  "guarded I \<beta> m \<Longrightarrow> (\<And>t. tx_binding t = \<beta> \<Longrightarrow> guarded I \<beta> (f t)) \<Longrightarrow> guarded I \<beta> (io_bind m f)"
  unfolding guarded_def by (rule triple_bind, assumption, rule triple_pure, simp)

lemma guarded_bind: "keeps I m \<Longrightarrow> (\<And>x. guarded I \<beta> (f x)) \<Longrightarrow> guarded I \<beta> (io_bind m f)"
  unfolding guarded_def keeps_def by (rule triple_bind)

lemma guarded_if [keep_rules]:
  "(c \<Longrightarrow> guarded I \<beta> m) \<Longrightarrow> (\<not> c \<Longrightarrow> guarded I \<beta> m') \<Longrightarrow> guarded I \<beta> (if c then m else m')"
  by simp

subsection \<open>Frames\<close>

definition frame_pred :: "path set \<Rightarrow> tree_pred \<Rightarrow> bool" where
  "frame_pred S I \<longleftrightarrow> (\<forall>f g. (\<forall>k \<in> S. f k = g k) \<longrightarrow> I f = I g)"

lemma frame_predD: "frame_pred S I \<Longrightarrow> (\<And>k. k \<in> S \<Longrightarrow> f k = g k) \<Longrightarrow> I f = I g"
  by (auto simp: frame_pred_def)

lemma keeps_frame:
  assumes "frame_pred S I" and "touches A m" and "A \<inter> S = {}"
  shows "keeps I m"
proof (rule keepsI)
  fix w x w'
  assume pre: "I (files w)" and run: "m w = (x, w')"
  have "files w' k = files w k" if "k \<in> S" for k
    using touchesD [OF assms(2) run] assms(3) that by blast
  with frame_predD [OF assms(1)] pre show "I (files w')" by metis
qed

text \<open>A frame predicate may be added to any triple of a program that leaves it alone.\<close>

lemma triple_with_frame:
  assumes "io_triple P m Q R" and "frame_pred S I" and "touches A m" and "A \<inter> S = {}"
  shows "io_triple (\<lambda>w. P w \<and> I (files w)) m (\<lambda>x w. Q x w \<and> I (files w)) (\<lambda>e w. R e w \<and> I (files w))"
  using keepsD [OF keeps_frame [OF assms(2-4)]]
  by (auto intro!: io_tripleI dest: io_tripleD_ok [OF assms(1)] io_tripleD_err [OF assms(1)])

subsection \<open>The kept subvolume\<close>

text \<open>
  The subvolume \<open>T\<close> the machine ran from is kept: it is the old one when that exists
  and the live one otherwise.
\<close>

definition kept :: "swap \<Rightarrow> (path \<Rightarrow> inode option) \<Rightarrow> tree_pred" where
  "kept sw T f \<longleftrightarrow>
     T [] \<noteq> None
     \<and> (\<forall>r. f ((if f (sw_old sw) = None then sw_live sw else sw_old sw) @ r) = T r)"

lemma kept_frame: "frame_pred (under (sw_live sw) \<union> under (sw_old sw)) (kept sw T)"
  unfolding frame_pred_def
proof (intro allI impI)
  fix f g :: "path \<Rightarrow> inode option"
  assume eq: "\<forall>k \<in> under (sw_live sw) \<union> under (sw_old sw). f k = g k"
  have "f (sw_old sw @ r) = g (sw_old sw @ r)" "f (sw_live sw @ r) = g (sw_live sw @ r)" for r
    using eq by (auto simp: under_def)
  from this this(1) [of "[]"] show "kept sw T f = kept sw T g" by (simp add: kept_def)
qed

text \<open>A directory is there, or nothing is.\<close>

definition seen :: "(path \<Rightarrow> inode option) \<Rightarrow> path \<Rightarrow> bool \<Rightarrow> bool" where
  "seen f p b \<longleftrightarrow> (if b then \<exists>i. f p = Some i \<and> ftype i = Directory else f p = None)"

lemma seen_simps [simp]: "seen f p False \<longleftrightarrow> f p = None" "seen f p True \<longleftrightarrow> (\<exists>i. f p = Some i \<and> ftype i = Directory)"
  by (simp_all add: seen_def)

lemma triple_real_directory:
  "io_triple (\<lambda>w. files w = f) (real_directory p) (\<lambda>b w. files w = f \<and> seen f p b) (\<lambda>_ w. files w = f)"
proof -
  have inspect: "io_triple (\<lambda>w. files w = f) (symlink_metadata p)
      (\<lambda>m w. files w = f \<and> f p = Some m) (\<lambda>e w. files w = f \<and> (err_kind e = NotFound \<longrightarrow> f p = None))"
    by (rule io_tripleI) (auto simp: symlink_metadata_def syscall_def tick_def enoent_def
        split: option.splits)
  show ?thesis
    unfolding real_directory_def
    by (rule triple_match [OF inspect]) (auto simp: io_triple_def io_return_def io_throw_def seen_def)
qed

lemma triple_layout:
  "io_triple (\<lambda>w. I (files w)) (layout sw)
    (\<lambda>s w. I (files w) \<and> (case s of (a, b, c) \<Rightarrow>
       seen (files w) (sw_live sw) a \<and> seen (files w) (sw_old sw) b \<and> seen (files w) (sw_new sw) c))
    (\<lambda>_ w. I (files w))"
proof -
  have look: "io_triple (\<lambda>w. files w = f \<and> P) (real_directory p) (\<lambda>b w. files w = f \<and> P \<and> seen f p b)
      (\<lambda>_ w. files w = f)" for f p P
    by (rule io_tripleI)
      (use io_tripleD_ok [OF triple_real_directory] io_tripleD_err [OF triple_real_directory] in blast)+
  have "io_triple (\<lambda>w. files w = f) (layout sw)
      (\<lambda>s w. files w = f \<and> (case s of (a, b, c) \<Rightarrow>
         seen f (sw_live sw) a \<and> seen f (sw_old sw) b \<and> seen f (sw_new sw) c)) (\<lambda>_ w. files w = f)" for f
    unfolding layout_def
    by (rule triple_bind [OF triple_real_directory triple_bind [OF look triple_bind [OF look]]])
      (simp add: triple_return)
  note layout = this
  show ?thesis
    by (rule io_tripleI) (use io_tripleD_ok [OF layout refl] io_tripleD_err [OF layout refl] in auto)
qed

subsection \<open>The loops\<close>

text \<open>
  A loop keeps \<open>I\<close> when every change it makes keeps \<open>I\<close> in the layout in which the loop
  makes it. The assumptions name the changes of both loops.
\<close>

definition step_keeps :: "tree_pred \<Rightarrow> tree_pred \<Rightarrow> tree_pred \<Rightarrow> (RecoveryError, unit) io \<Rightarrow> bool" where
  "step_keeps I R P m \<longleftrightarrow>
     io_triple (\<lambda>w. I (files w) \<and> P (files w)) m (\<lambda>_ w. I (files w)) (\<lambda>_ w. R (files w))"

text \<open>The layout of the three names.\<close>

definition laid_out :: "swap \<Rightarrow> bool \<times> bool \<times> bool \<Rightarrow> tree_pred" where
  "laid_out sw s f \<longleftrightarrow>
     (case s of (a, b, c) \<Rightarrow> seen f (sw_live sw) a \<and> seen f (sw_old sw) b \<and> seen f (sw_new sw) c)"

definition apply_steps :: "recovery_fs \<Rightarrow> tree_pred \<Rightarrow> tree_pred \<Rightarrow> swap \<Rightarrow> path \<Rightarrow> bool" where
  "apply_steps F I R sw target \<longleftrightarrow>
     step_keeps I R (laid_out sw (True, False, False)) (rf_snapshot F target (sw_new sw))
     \<and> step_keeps I R (laid_out sw (True, False, True)) (rf_rename F (sw_live sw) (sw_old sw))
     \<and> step_keeps I R (laid_out sw (False, True, True)) (rf_rename F (sw_new sw) (sw_live sw))"

definition revert_steps :: "recovery_fs \<Rightarrow> tree_pred \<Rightarrow> tree_pred \<Rightarrow> swap \<Rightarrow> bool" where
  "revert_steps F I R sw \<longleftrightarrow>
     step_keeps I R (laid_out sw (True, False, True)) (rf_delete F (sw_new sw))
     \<and> step_keeps I R (\<lambda>f. laid_out sw (False, True, True) f \<or> laid_out sw (False, True, False) f)
         (rf_rename F (sw_old sw) (sw_live sw))
     \<and> step_keeps I R (laid_out sw (True, True, False)) (rf_rename F (sw_live sw) (sw_new sw))"

text \<open>What saving a checkpoint of the rollback \<open>\<beta>\<close> has to do for a loop.\<close>

definition checkpoints_keep where
  "checkpoints_keep L E observe \<beta> I R \<longleftrightarrow>
     (\<forall>f. I f \<longrightarrow> R f) \<and> touches {} (rf_sync (filesystem E) (top_level E))
     \<and> (\<forall>c t. tx_binding t = \<beta> \<longrightarrow>
          io_triple (\<lambda>w. I (files w)) (persist_checkpoint L E observe c t)
            (\<lambda>t w. I (files w) \<and> tx_binding t = \<beta>) (\<lambda>_ w. R (files w)))"

lemma exchange_step_then:
  assumes change: "step_keeps I R P change" and saves: "checkpoints_keep L E observe \<beta> I R"
    and "tx_binding t = \<beta>" and "\<And>w. S w \<Longrightarrow> P (files w)"
    and later: "\<And>t'. tx_binding t' = \<beta> \<Longrightarrow> io_triple (\<lambda>w. I (files w)) (f t') Q (\<lambda>_ w. R (files w))"
  shows "io_triple (\<lambda>w. I (files w) \<and> S w) (io_bind (exchange_step L E observe change c t) f) Q (\<lambda>_ w. R (files w))"
proof -
  note saves' = saves [unfolded checkpoints_keep_def]
  have sync: "io_triple (\<lambda>w. I (files w)) (rf_sync (filesystem E) (top_level E)) (\<lambda>_ w. I (files w)) (\<lambda>_ w. R (files w))"
    by (rule triple_weaken [OF keeps_touches_none [unfolded keeps_def, where I = I]]) (use saves' in auto)
  have step: "io_triple (\<lambda>w. I (files w) \<and> S w) (exchange_step L E observe change c t)
      (\<lambda>t w. I (files w) \<and> tx_binding t = \<beta>) (\<lambda>_ w. R (files w))"
    unfolding exchange_step_def
    by (rule triple_bind [OF triple_weaken [OF change [unfolded step_keeps_def]] triple_bind [OF sync]])
      (use assms(3,4) saves' in auto)
  show ?thesis by (rule triple_bind [OF step], rule triple_pure, rule later)
qed

lemma triple_layout':
  "io_triple (\<lambda>w. I (files w)) (layout sw) (\<lambda>s w. I (files w) \<and> laid_out sw s (files w)) (\<lambda>_ w. I (files w))"
  unfolding laid_out_def by (rule triple_layout)

lemma apply_loop_then:
  assumes "apply_steps (filesystem E) I R sw target" and saves: "checkpoints_keep L E observe \<beta> I R"
    and "tx_binding t = \<beta>"
  shows "io_triple (\<lambda>w. I (files w)) (apply_loop L E observe operation sw target cs n t)
    (\<lambda>x w. (I (files w) \<and> (snd x \<longrightarrow> laid_out sw (True, True, False) (files w))) \<and> tx_binding (fst x) = \<beta>)
    (\<lambda>_ w. R (files w))"
  using assms(3)
proof (induction n arbitrary: t)
  case 0
  then show ?case by (cases cs) (simp add: triple_return)
next
  case (Suc n)
  obtain a b c where cs: "cs = (a, b, c)" by (cases cs) auto
  have R: "I f \<Longrightarrow> R f" for f using saves by (simp add: checkpoints_keep_def)
  have look: "io_triple (\<lambda>w. I (files w)) (layout sw) (\<lambda>s w. I (files w) \<and> laid_out sw s (files w)) (\<lambda>_ w. R (files w))"
    by (rule triple_weaken [OF triple_layout' [where I = I]]) (use R in auto)
  note step = exchange_step_then [OF _ saves Suc.prems _ Suc.IH [unfolded cs]]
  note steps = assms(1) [unfolded apply_steps_def]
  show ?case
    unfolding cs apply_loop.simps
    by (rule triple_bind [OF look], intro triple_if,
        rule step [OF steps [THEN conjunct1]], simp, assumption,
        rule step [OF steps [THEN conjunct2, THEN conjunct1]], simp, assumption,
        rule step [OF steps [THEN conjunct2, THEN conjunct2]], simp, assumption)
      (auto intro!: triple_return triple_throw simp: Suc.prems R)
qed

lemma revert_loop_then:
  assumes "revert_steps (filesystem E) I R sw" and saves: "checkpoints_keep L E observe \<beta> I R"
    and "tx_binding t = \<beta>"
  shows "io_triple (\<lambda>w. I (files w)) (revert_loop L E observe operation exhausted sw cs n t)
    (\<lambda>t w. (I (files w) \<and> laid_out sw (True, False, False) (files w)) \<and> tx_binding t = \<beta>) (\<lambda>_ w. R (files w))"
  using assms(3)
proof (induction n arbitrary: t)
  case 0
  have "I f \<Longrightarrow> R f" for f using saves by (simp add: checkpoints_keep_def)
  then show ?case by (cases cs) (simp add: triple_throw)
next
  case (Suc n)
  obtain a b c where cs: "cs = (a, b, c)" by (cases cs) auto
  have R: "I f \<Longrightarrow> R f" for f using saves by (simp add: checkpoints_keep_def)
  have look: "io_triple (\<lambda>w. I (files w)) (layout sw) (\<lambda>s w. I (files w) \<and> laid_out sw s (files w)) (\<lambda>_ w. R (files w))"
    by (rule triple_weaken [OF triple_layout' [where I = I]]) (use R in auto)
  note step = exchange_step_then [OF _ saves Suc.prems _ Suc.IH [unfolded cs]]
  note steps = assms(1) [unfolded revert_steps_def]
  show ?case
    unfolding cs revert_loop.simps
    by (rule triple_bind [OF look], intro triple_if, rule triple_return, simp add: Suc.prems,
        rule step [OF steps [THEN conjunct1]], simp, assumption,
        rule step [OF steps [THEN conjunct2, THEN conjunct1]], force, assumption,
        rule step [OF steps [THEN conjunct2, THEN conjunct2]], simp, assumption)
      (auto intro!: triple_throw simp: R)
qed

text \<open>Steps that keep a predicate in weaker circumstances serve both loops.\<close>

definition swap_steps :: "recovery_fs \<Rightarrow> tree_pred \<Rightarrow> swap \<Rightarrow> path \<Rightarrow> bool" where
  "swap_steps F I sw target \<longleftrightarrow> apply_steps F I I sw target \<and> revert_steps F I I sw"

lemma swap_stepsI:
  assumes "step_keeps I I (\<lambda>_. True) (rf_snapshot F target (sw_new sw))"
    and "step_keeps I I (\<lambda>_. True) (rf_delete F (sw_new sw))"
    and "step_keeps I I (\<lambda>f. f (sw_old sw) = None) (rf_rename F (sw_live sw) (sw_old sw))"
    and "step_keeps I I (\<lambda>f. f (sw_old sw) \<noteq> None) (rf_rename F (sw_new sw) (sw_live sw))"
    and "step_keeps I I (\<lambda>f. f (sw_old sw) \<noteq> None) (rf_rename F (sw_live sw) (sw_new sw))"
    and "step_keeps I I (\<lambda>f. f (sw_old sw) \<noteq> None) (rf_rename F (sw_old sw) (sw_live sw))"
  shows "swap_steps F I sw target"
proof -
  have weak: "step_keeps I I P m" if "step_keeps I I Q m" "\<And>f. P f \<Longrightarrow> Q f" for P Q m
    using that(1) unfolding step_keeps_def by (rule triple_weaken) (use that(2) in auto)
  show ?thesis
    unfolding swap_steps_def apply_steps_def revert_steps_def
    by (intro conjI weak [OF assms(1)] weak [OF assms(2)] weak [OF assms(3)] weak [OF assms(4)]
        weak [OF assms(5)] weak [OF assms(6)]) (auto simp: laid_out_def)
qed

lemma apply_loop_keeps:
  assumes "swap_steps (filesystem E) I sw target" and "checkpoints_keep L E observe \<beta> I I"
    and "tx_binding t = \<beta>"
  shows "io_triple (\<lambda>w. I (files w)) (apply_loop L E observe operation sw target cs n t)
    (\<lambda>x w. I (files w) \<and> tx_binding (fst x) = \<beta>) (\<lambda>_ w. I (files w))"
  using assms(1) unfolding swap_steps_def
  by (intro triple_weaken [OF apply_loop_then [OF _ assms(2,3)]]) auto

lemma revert_loop_keeps:
  assumes "swap_steps (filesystem E) I sw target" and "checkpoints_keep L E observe \<beta> I I"
    and "tx_binding t = \<beta>"
  shows "guarded I \<beta> (revert_loop L E observe operation exhausted sw cs n t)"
  using assms(1) unfolding swap_steps_def guarded_def
  by (intro triple_weaken [OF revert_loop_then [OF _ assms(2,3)]]) auto

context recovery_filesystem
begin

lemma protect_keeps:
  assumes "swap_ok d sw"
  shows "step_keeps (kept sw T) (kept sw T) (\<lambda>f. f (sw_old sw) = None) (rf_rename F (sw_live sw) (sw_old sw))"
  unfolding step_keeps_def
proof (rule io_tripleI; elim conjE)
  fix w x w'
  assume k: "kept sw T (files w)" "files w (sw_old sw) = None"
    and run: "rf_rename F (sw_live sw) (sw_old sw) w = (Inr x, w')"
  have moved: "files w' (sw_old sw @ r) = files w (sw_live sw @ r)" for r
    using rename_ok [OF swap_apart(1) [OF assms]] run by simp
  from k have T: "files w (sw_live sw @ r) = T r" "T [] \<noteq> None" for r by (simp_all add: kept_def)
  with moved [of "[]"] T(1) [of "[]"] have "files w' (sw_old sw) \<noteq> None" by simp
  with moved T show "kept sw T (files w')" by (auto simp: kept_def)
qed (use rename_err in metis)

lemma restore_keeps:
  assumes "swap_ok d sw"
  shows "step_keeps (kept sw T) (kept sw T) (\<lambda>f. f (sw_old sw) \<noteq> None) (rf_rename F (sw_old sw) (sw_live sw))"
  unfolding step_keeps_def
proof (rule io_tripleI; elim conjE)
  fix w x w'
  assume k: "kept sw T (files w)" "files w (sw_old sw) \<noteq> None"
    and run: "rf_rename F (sw_old sw) (sw_live sw) w = (Inr x, w')"
  have moved: "files w' (sw_live sw @ r) = files w (sw_old sw @ r)" "files w' (sw_old sw @ r) = None" for r
    using rename_ok [OF swap_apart(2) [OF assms]] run by simp_all
  from k have "files w (sw_old sw @ r) = T r" "T [] \<noteq> None" for r by (simp_all add: kept_def)
  with moved moved(2) [of "[]"] show "kept sw T (files w')" by (simp add: kept_def)
qed (use rename_err in metis)

text \<open>While the old subvolume exists, nothing that leaves it alone can lose \<open>T\<close>.\<close>

lemma other_keeps:
  assumes "touches A m" and "A \<inter> under (sw_old sw) = {}"
  shows "step_keeps (kept sw T) (kept sw T) (\<lambda>f. f (sw_old sw) \<noteq> None) m"
proof -
  have "kept sw T (files w')"
    if "kept sw T (files w)" "files w (sw_old sw) \<noteq> None" "m w = (x, w')" for w x w'
  proof -
    have same: "files w' (sw_old sw @ r) = files w (sw_old sw @ r)" for r
    proof -
      have "sw_old sw @ r \<notin> A" using assms(2) by (auto simp: under_def)
      then show ?thesis using touchesD [OF assms(1) that(3)] by simp
    qed
    from same [of "[]"] that(1,2) same show ?thesis by (auto simp: kept_def)
  qed
  then show ?thesis by (auto simp: step_keeps_def intro!: io_tripleI)
qed

lemma new_keeps:
  assumes "swap_ok d sw" and "touches (under (sw_new sw)) m"
  shows "step_keeps (kept sw T) (kept sw T) (\<lambda>_. True) m"
proof -
  have "keeps (kept sw T) m"
    by (rule keeps_frame [OF kept_frame assms(2)])
      (use apart_disjoint [OF swap_apart(3) [OF assms(1)]] apart_disjoint [OF swap_apart(5) [OF assms(1)]] in blast)
  then show ?thesis by (simp add: keeps_def step_keeps_def)
qed

lemma step_with_frame:
  assumes "step_keeps I R P m" and "touches A m" and "frame_pred S J" and "A \<inter> S = {}"
  shows "step_keeps (\<lambda>f. I f \<and> J f) (\<lambda>f. R f \<and> J f) P m"
  unfolding step_keeps_def
  by (rule triple_weaken [OF triple_with_frame [OF assms(1) [unfolded step_keeps_def] assms(3,2,4)]]) auto

lemma swap_steps_frame:
  assumes "frame_pred S J" and "S \<inter> swap_paths sw = {}"
  shows "swap_steps F J sw target"
proof -
  have step: "step_keeps J J P m" if "touches A m" "A \<subseteq> swap_paths sw" for P m A
  proof -
    have "keeps J m" by (rule keeps_frame [OF assms(1) that(1)]) (use that(2) assms(2) in blast)
    then show ?thesis unfolding keeps_def step_keeps_def by (rule triple_weaken) auto
  qed
  show ?thesis
    by (intro swap_stepsI step [OF snapshot_frame] step [OF delete_frame] step [OF rename_frame])
      (auto simp: swap_paths_def)
qed

text \<open>The steps of the loops keep the kept subvolume and all that lies outside their names.\<close>

lemma swap_steps_kept:
  assumes ok: "swap_ok d sw" and "frame_pred S J" and "S \<inter> swap_paths sw = {}"
  shows "swap_steps F (\<lambda>f. kept sw T f \<and> J f) sw target"
proof -
  note frame = step_with_frame [OF _ _ assms(2)]
  have old: "(under p \<union> under q) \<inter> under (sw_old sw) = {}"
    if "p \<in> {sw_new sw, sw_live sw}" "q \<in> {sw_new sw, sw_live sw}" for p q
    using that apart_disjoint [OF swap_apart(1) [OF ok]] apart_disjoint [OF swap_apart(5) [OF ok]] by blast
  have dis: "under p \<inter> S = {}" if "p \<in> {sw_new sw, sw_live sw, sw_old sw}" for p
    using that assms(3) by (auto simp: swap_paths_def)
  have disj: "(under p \<union> under q) \<inter> S = {}"
    if "p \<in> {sw_new sw, sw_live sw, sw_old sw}" "q \<in> {sw_new sw, sw_live sw, sw_old sw}" for p q
    using dis [OF that(1)] dis [OF that(2)] by blast
  show ?thesis
    by (intro swap_stepsI frame [OF new_keeps [OF ok snapshot_frame] snapshot_frame]
        frame [OF new_keeps [OF ok delete_frame] delete_frame] frame [OF protect_keeps [OF ok] rename_frame]
        frame [OF restore_keeps [OF ok] rename_frame] frame [OF other_keeps [OF rename_frame old] rename_frame])
      (simp_all add: dis disj)
qed

end

subsection \<open>The pending transaction\<close>

text \<open>Every transaction that can be read from an inode belongs to the rollback \<open>\<beta>\<close>.\<close>

definition slot_binds where
  "slot_binds U J \<beta> ino \<longleftrightarrow>
     (\<forall>j b. ino = Some j \<longrightarrow> ftype j = Regular b \<longrightarrow>
        returns (decode_pending U J b) (\<lambda>r. \<forall>t. r = Some t \<longrightarrow> tx_binding t = \<beta>))"

text \<open>What is relied on of the JSON library: reading back a printed transaction never
  changes the rollback it belongs to.\<close>

definition json_keeps_binding :: "uuid_lib \<Rightarrow> tx_json \<Rightarrow> bool" where
  "json_keeps_binding U J \<longleftrightarrow>
     (\<forall>t b. tx_image U J t b \<longrightarrow>
        returns (decode_pending U J b) (\<lambda>r. \<forall>t'. r = Some t' \<longrightarrow> tx_binding t' = tx_binding t))"

lemma slot_binds_image:
  "json_keeps_binding U J \<Longrightarrow> slot_holds (tx_image U J t) ino \<Longrightarrow> slot_binds U J (tx_binding t) ino"
  by (auto simp: slot_binds_def slot_holds_def json_keeps_binding_def)

lemma touches_decode_pending [io_rules]: "touches S (decode_pending U J b)"
  unfolding decode_pending_def migrate_pending_def Let_def by (intro io_rules)

lemma load_pending_bound:
  "io_triple (\<lambda>w. files w (pending_path d) = ino \<and> slot_binds U J \<beta> ino) (load_pending U J d)
    (\<lambda>r _. \<forall>t. r = Some t \<longrightarrow> tx_binding t = \<beta>) (\<lambda>_ _. True)"
proof (rule triple_pure)
  assume bound: "slot_binds U J \<beta> ino"
  let ?P = "\<lambda>w. files w (pending_path d) = ino"
  show "io_triple ?P (load_pending U J d) (\<lambda>r _. \<forall>t. r = Some t \<longrightarrow> tx_binding t = \<beta>) (\<lambda>_ _. True)"
  proof (rule io_tripleI)
    fix w r w'
    assume P: "?P w" and run: "load_pending U J d w = (Inr r, w')"
    show "\<forall>t. r = Some t \<longrightarrow> tx_binding t = \<beta>"
    proof (intro allI impI)
      fix t
      assume r: "r = Some t"
      obtain j b v where "ino = Some j" "ftype j = Regular b" "length b \<le> MAX_TRANSACTION_BYTES"
        "decode_pending U J b v = (Inr (Some t), w')"
        using P run r
        by (auto simp: load_pending_def io_bind_def io_match_def io_return_def io_throw_def io_map_err_def
            symlink_metadata_def open_read_def read_to_end_def syscall_def tick_def regular_content_def
            split: option.splits sum.splits prod.splits if_splits file_type.splits)
      with bound show "tx_binding t = \<beta>" by (auto simp: slot_binds_def dest: returnsD)
    qed
  qed simp
qed

subsection \<open>Frames of the engine\<close>

lemma touches_real_directory [io_rules]: "touches S (real_directory p)"
  unfolding real_directory_def by (intro io_rules)

lemma touches_recovery_ensure [io_rules]: "touches S (ensure_real_directory p)"
  unfolding ensure_real_directory_def by (intro io_rules)

lemma touches_layout [io_rules]: "touches S (layout sw)"
  unfolding layout_def by (intro io_rules)

lemma touches_run_update [io_rules]: "touches S (run_update u)"
  unfolding run_update_def by (cases u) (auto intro!: io_rules split: sum.splits)

lemma touches_save_transaction [io_rules]: "touches (under (engine_store E)) (save_transaction L E t)"
  unfolding save_transaction_def by (intro io_rules)

lemma touches_load_deployment [io_rules]: "touches S (load_deployment L E i)"
  unfolding load_deployment_def by (intro io_rules)

lemma touches_validate_confirmation [io_rules]: "touches S (validate_confirmation L E t)"
  unfolding validate_confirmation_def by (intro io_rules)

lemma guarded_run_update: "tx_binding (fst u) = \<beta> \<Longrightarrow> guarded I \<beta> (run_update u)"
  by (cases u) (auto simp: run_update_def intro: keep_rules split: sum.splits)

lemma update_bindings [simp]:
  "tx_binding (fst (record_checkpoint U c now t)) = tx_binding t"
  "tx_binding (fst (transition U p now t)) = tx_binding t"
  "tx_binding (fst (record_target_boot U b now t)) = tx_binding t"
  "tx_binding (fst (record_initramfs_entry U b now t)) = tx_binding t"
  "tx_binding (fst (begin_apply U b now t)) = tx_binding t"
  "tx_binding (fst (record_failure U m now t)) = tx_binding t"
  by (simp_all add: record_target_boot_def record_checkpoint_def transition_def record_initramfs_entry_def
      begin_apply_def record_failure_def validated_def split: sum.splits)

subsection \<open>What the engine keeps\<close>

text \<open>An observer only looks.\<close>

definition only_looks :: "observer \<Rightarrow> bool" where
  "only_looks observe \<longleftrightarrow> (\<forall>c. touches {} (observe c))"

lemma pending_in_store: "pending_path (engine_store E) \<in> under (engine_store E)"
  by (rule pending_under)

lemma kept_swap_frame: "frame_pred (swap_paths sw) (kept sw T)"
  using kept_frame [of sw T] by (auto simp: frame_pred_def swap_paths_def)

lemma frame_pred_conj: "frame_pred S I \<Longrightarrow> frame_pred S' J \<Longrightarrow> frame_pred (S \<union> S') (\<lambda>f. I f \<and> J f)"
  unfolding frame_pred_def by (metis UnI1 UnI2)

lemma slot_binds_frame: "frame_pred {p} (\<lambda>f. slot_binds U J \<beta> (f p))"
  by (simp add: frame_pred_def)

text \<open>Saving a transaction of the rollback keeps the binding and everything outside the store.\<close>

lemma keeps_save_transaction:
  assumes "json_keeps_binding (lib_uuid L) (lib_tx L)" and "frame_pred S K" and "under (engine_store E) \<inter> S = {}"
    and "tx_binding t = \<beta>"
  shows "keeps (\<lambda>f. K f \<and> slot_binds (lib_uuid L) (lib_tx L) \<beta> (f (pending_path (engine_store E))))
    (save_transaction L E t)"
proof (rule keepsI)
  fix w x w'
  let ?p = "pending_path (engine_store E)"
  let ?B = "\<lambda>f. slot_binds (lib_uuid L) (lib_tx L) \<beta> (f ?p)"
  assume pre: "K (files w) \<and> ?B (files w)" and run: "save_transaction L E t w = (x, w')"
  obtain y where "tx_update_store (lib_uuid L) (lib_tx L) (engine_store E) t w = (y, w')"
    using run by (cases x) (auto simp: save_transaction_def dest: io_map_err_error)
  from pending.put_atomic [OF this] have "?B (files w')"
    using pre slot_binds_image [OF assms(1), of t] assms(4) by auto
  then show "K (files w') \<and> ?B (files w')"
    using keepsD [OF keeps_frame [OF assms(2) touches_save_transaction assms(3)] run] pre by blast
qed

lemma same_swaps:
  assumes "tx_binding t = tx_binding t0"
  shows "root_swap L E t = root_swap L E t0" "home_swap L E t = home_swap L E t0"
  using assms by (simp_all add: root_swap_names home_swap_names tx_binding_def)

lemma swaps_ok: "swap_ok (top_level E) (root_swap L E t)" "swap_ok (top_level E) (home_swap L E t)"
  by (simp_all add: root_swap_names home_swap_names root_names_ok home_names_ok)

lemma swaps_disjoint: "swap_paths (root_swap L E t) \<inter> swap_paths (home_swap L E t) = {}"
  by (simp add: root_swap_names home_swap_names root_home_disjoint)

text \<open>
  A predicate \<open>I\<close> of the file tree survives a boot of the rollback of \<open>t0\<close> when saving
  its transaction keeps it, when the steps of the loops that its scope allows keep it, and
  when it binds the pending transaction.
\<close>

locale boot_invariant = recovery_filesystem "filesystem E" for E :: RecoveryEngine +
  fixes L :: libraries and observe :: observer and t0 :: RollbackTransaction and I :: tree_pred
  assumes observer_looks: "only_looks observe"
    and saves: "tx_binding t = tx_binding t0 \<Longrightarrow> keeps I (save_transaction L E t)"
    and root_steps: "\<not> tx_home_only t0 \<Longrightarrow> swap_steps (filesystem E) I (root_swap L E t0) target"
    and home_steps: "tx_reset_home t0 \<or> tx_home_only t0 \<Longrightarrow>
      swap_steps (filesystem E) I (home_swap L E t0) target'"
    and binds: "I f \<Longrightarrow> slot_binds (lib_uuid L) (lib_tx L) (tx_binding t0) (f (pending_path (engine_store E)))"
begin

lemma same_scope:
  assumes "tx_binding t = tx_binding t0"
  shows "tx_home_only t = tx_home_only t0" "tx_reset_home t = tx_reset_home t0"
  using assms by (simp_all add: tx_binding_def)

lemma keeps_observe: "keeps J (observe c)"
  using observer_looks by (auto simp: only_looks_def intro: keeps_touches_none)

lemma keeps_clock: "keeps J utc_now"
  by (rule keeps_touches_none) (rule io_rules)

lemma guarded_persist:
  assumes "tx_binding t = tx_binding t0"
  shows "guarded I (tx_binding t0) (persist_checkpoint L E observe c t)"
  unfolding persist_checkpoint_def
  by (rule guarded_bind [OF keeps_clock guarded_bind_guarded [OF guarded_run_update
          guarded_bind [OF saves guarded_bind [OF keeps_observe guarded_return]]]])
    (simp_all add: assms)

lemma checkpoints: "checkpoints_keep L E observe (tx_binding t0) I I"
  using guarded_persist sync_frame by (auto simp: checkpoints_keep_def guarded_def)

lemma apply_keeps:
  assumes "swap_steps (filesystem E) I sw target" and "tx_binding t = tx_binding t0"
  shows "io_triple (\<lambda>w. I (files w)) (apply_loop L E observe operation sw target cs n t)
    (\<lambda>x w. I (files w) \<and> tx_binding (fst x) = tx_binding t0) (\<lambda>_ w. I (files w))"
  by (rule apply_loop_keeps [OF assms(1) checkpoints assms(2)])

lemma revert_keeps:
  assumes "swap_steps (filesystem E) I sw target" and "tx_binding t = tx_binding t0"
  shows "guarded I (tx_binding t0) (revert_loop L E observe operation exhausted sw cs n t)"
  by (rule revert_loop_keeps [OF assms(1) checkpoints assms(2)])

lemma guarded_apply_home:
  assumes "tx_binding t = tx_binding t0" and "tx_reset_home t0 \<or> tx_home_only t0"
  shows "guarded I (tx_binding t0) (apply_home L E observe t)"
proof -
  note loop = apply_keeps [OF home_steps [OF assms(2)] assms(1)]
  show ?thesis
  proof (cases "tx_factory_home_snapshot_id t")
    case None
    then show ?thesis by (simp add: apply_home_def guarded_throw)
  next
    case (Some i)
    show ?thesis
      unfolding apply_home_def Some option.case same_swaps [OF assms(1)] guarded_def
      by (rule triple_bind [OF loop], rule triple_case_prod) (auto intro!: triple_if triple_return triple_throw)
  qed
qed

lemma guarded_apply:
  assumes "tx_binding t = tx_binding t0"
  shows "guarded I (tx_binding t0) (RecoveryEngine_apply L E observe t)"
proof (cases "tx_home_only t")
  case True
  then show ?thesis
    using guarded_apply_home [OF assms] by (simp add: RecoveryEngine_apply_def same_scope [OF assms])
next
  case False
  then have "\<not> tx_home_only t0" by (simp add: same_scope [OF assms])
  note loop = apply_keeps [OF root_steps [OF this] assms]
  have look: "keeps I (layout sw)" for sw by (rule keeps_touches_none) (rule io_rules)
  have rest: "guarded I (tx_binding t0) (io_bind (layout (root_swap L E t')) (\<lambda>state.
      if state \<noteq> (True, True, False)
      then io_throw (RecoveryError_new ReUnsafeLayout ''Rollback apply did not converge'')
      else if tx_reset_home t' then apply_home L E observe t' else io_return t'))"
    if "tx_binding t' = tx_binding t0" for t'
    using that same_scope [OF that] by (intro guarded_bind [OF look] keep_rules guarded_apply_home) simp_all
  show ?thesis
    unfolding RecoveryEngine_apply_def guarded_def same_swaps [OF assms] if_not_P [OF False]
    by (rule triple_bind [OF loop], rule triple_case_prod, rule triple_pure, rule rest [unfolded guarded_def], simp)
qed

lemma guarded_revert:
  assumes "tx_binding t = tx_binding t0"
  shows "guarded I (tx_binding t0) (revert L E observe t)"
proof -
  have home: "guarded I (tx_binding t0)
      (if tx_reset_home t then revert_home L E observe t else io_return t)"
    unfolding revert_home_def same_swaps [OF assms] same_scope [OF assms]
    by (intro guarded_if guarded_return revert_keeps [OF home_steps] assms disjI1)
  have root: "guarded I (tx_binding t0)
      (revert_loop L E observe operation exhausted (root_swap L E t') cs n t')"
    if "tx_binding t' = tx_binding t0" "\<not> tx_home_only t'" for t' operation exhausted cs n
    unfolding same_swaps [OF that(1)]
    using revert_keeps [OF root_steps that(1)] that(2) by (simp add: same_scope [OF that(1)])
  show ?thesis
    unfolding revert_def
    by (rule guarded_bind_guarded [OF home]) (intro guarded_if guarded_return root; assumption)
qed

lemmas guarded_updates = guarded_bind_keeps [OF guarded_run_update] guarded_bind_keeps [OF guarded_persist]

lemma keeps_finish_apply:
  assumes "tx_binding t = tx_binding t0"
  shows "keeps I (finish_apply L E observe t)"
  unfolding finish_apply_def Let_def
  by (intro keeps_bind [OF keeps_clock] guarded_updates keeps_return) (simp_all add: assms)

lemma keeps_finish_revert:
  assumes "tx_binding t = tx_binding t0"
  shows "keeps I (finish_revert L E observe t)"
  unfolding finish_revert_def
  by (rule guarded_bind_keeps [OF guarded_revert [OF assms]])
    (auto intro!: keeps_bind [OF keeps_clock] guarded_updates keeps_return)

lemma keeps_revert_transaction:
  assumes "tx_binding t = tx_binding t0"
  shows "keeps I (revert_transaction L E observe t)"
  unfolding revert_transaction_def
  by (intro keeps_bind [OF keeps_clock] guarded_updates keeps_finish_revert) (simp_all add: assms)

lemma touches_refuse_nested_homes: "touches {} (refuse_nested_homes E hs)"
  by (induction hs) (auto intro!: io_rules descendants_frame)

lemma touches_validate_home: "touches {} (validate_home L E t)"
  unfolding validate_home_def Let_def
  by (auto intro!: io_rules touches_refuse_nested_homes identity_frame read_only_frame split: option.splits prod.splits)

lemma touches_validate_deployments: "touches {} (validate_deployments L E t)"
  unfolding validate_deployments_def Let_def
  by (intro io_rules touches_validate_home identity_frame read_only_frame)

lemma keeps_validate: "keeps I (validate_deployments L E t)"
  by (rule keeps_touches_none [OF touches_validate_deployments])

lemma keeps_fail_safely:
  assumes "tx_binding t = tx_binding t0"
  shows "keeps I (fail_safely L E m t)"
  unfolding fail_safely_def
  by (intro keeps_bind [OF keeps_clock] guarded_updates(1) keeps_bind [OF saves] keeps_return)
    (simp_all add: assms)

lemma guarded_enter_initramfs:
  assumes "tx_binding t = tx_binding t0"
  shows "guarded I (tx_binding t0) (enter_initramfs L E observe b t)"
  unfolding enter_initramfs_def
  by (intro guarded_bind [OF keeps_clock] guarded_bind_guarded [OF guarded_run_update]
      guarded_bind [OF saves] guarded_bind [OF keeps_observe] guarded_persist) (simp_all add: assms)

lemma keeps_start_apply:
  assumes "tx_binding t = tx_binding t0"
  shows "keeps I (start_apply L E observe b t)"
  unfolding start_apply_def
  by (intro keeps_bind [OF keeps_clock] guarded_updates(1) keeps_bind [OF saves]
      keeps_bind [OF keeps_observe] guarded_bind_keeps [OF guarded_apply] keeps_finish_apply)
    (simp_all add: assms)

lemma keeps_execute_armed:
  assumes "tx_binding t = tx_binding t0"
  shows "keeps I (execute_armed L E observe requested b t)"
  unfolding execute_armed_def
  by (intro keeps_if keeps_bind keeps_return keeps_throw keeps_fail_safely keeps_match keeps_validate
      keeps_case_sum guarded_bind_keeps [OF guarded_enter_initramfs] keeps_start_apply assms; assumption?)

lemma keeps_execute_applying:
  assumes "tx_binding t = tx_binding t0"
  shows "keeps I (execute_applying L E observe requested b t)"
  unfolding execute_applying_def
  by (intro keeps_if guarded_bind_keeps [OF guarded_enter_initramfs] keeps_bind [OF keeps_validate]
      keeps_start_apply keeps_revert_transaction assms; assumption?)

lemma keeps_execute_awaiting_boot:
  assumes "tx_binding t = tx_binding t0"
  shows "keeps I (execute_awaiting_boot L E observe requested b t)"
  unfolding execute_awaiting_boot_def
  by (intro keeps_if keeps_return keeps_bind [OF keeps_clock] guarded_updates) (simp_all add: assms)

lemma keeps_execute_phase:
  assumes "tx_binding t = tx_binding t0"
  shows "keeps I (execute_phase L E observe requested b t)"
  unfolding execute_phase_def execute_unconfirmed_def
  by (cases "tx_phase t")
    (auto intro!: keeps_if keeps_return keeps_execute_armed keeps_execute_applying keeps_execute_awaiting_boot
      keeps_revert_transaction keeps_finish_revert assms)

lemma execute_keeps: "keeps I (execute_with_observer L E observe requested b)"
proof -
  let ?S = "engine_store E" and ?U = "lib_uuid L" and ?J = "lib_tx L"
  have load: "io_triple (\<lambda>w. I (files w)) (io_map_err transaction_error (load_pending ?U ?J ?S))
      (\<lambda>r w. I (files w) \<and> (\<forall>t. r = Some t \<longrightarrow> tx_binding t = tx_binding t0))
      (\<lambda>_ w. I (files w))"
  proof (rule triple_map_err, rule io_tripleI)
    fix w r w'
    assume pre: "I (files w)" and run: "load_pending ?U ?J ?S w = (Inr r, w')"
    from keepsD [OF keeps_touches_none [OF touches_load_pending] run, where I = I] pre
    show "I (files w') \<and> (\<forall>t. r = Some t \<longrightarrow> tx_binding t = tx_binding t0)"
      using io_tripleD_ok [OF load_pending_bound _ run] binds [OF pre] by auto
  next
    fix w e w'
    assume "I (files w)" "load_pending ?U ?J ?S w = (Inl e, w')"
    then show "I (files w')"
      using keepsD [OF keeps_touches_none [OF touches_load_pending], where I = I] by blast
  qed
  have phase: "keeps I
     (if remembers_revert_boot requested b t
      then let t = t\<lparr>tx_initramfs_boot_id := Some b\<rparr> in
        io_bind (save_transaction L E t) (\<lambda>_. execute_phase L E observe requested b t)
      else execute_phase L E observe requested b t)" if "tx_binding t = tx_binding t0" for t
    unfolding Let_def
    using that by (intro keeps_if keeps_bind saves keeps_execute_phase) simp_all
  have top: "keeps I (ensure_real_directory (top_level E))"
    by (rule keeps_touches_none) (rule io_rules)
  show ?thesis
    unfolding execute_with_observer_def keeps_def
    by (rule triple_bind [OF top [unfolded keeps_def] triple_bind [OF load]], rule triple_case_option,
        rule triple_return, simp, rule triple_pure, rule phase [unfolded keeps_def], simp)
qed

end

subsection \<open>Sequences of boots\<close>

text \<open>One boot after the other: which rollback the kernel command line requests, and the
  boot identifier. Each boot may be cut short by any fault.\<close>

definition run_boots :: "libraries \<Rightarrow> RecoveryEngine \<Rightarrow> (uuid option \<times> string) list \<Rightarrow> world \<Rightarrow> world" where
  "run_boots L E boots w = fold (\<lambda>(requested, boot_id) w. snd (execute L E requested boot_id w)) boots w"

lemma run_boots_keep:
  assumes "boot_invariant E L (\<lambda>_. io_return ()) t0 I" and "I (files w)"
  shows "I (files (run_boots L E boots w))"
  unfolding run_boots_def using assms(2)
proof (induction boots arbitrary: w)
  case (Cons b boots)
  obtain requested boot_id where b: "b = (requested, boot_id)" by (cases b)
  obtain x w' where run: "execute L E requested boot_id w = (x, w')" by fastforce
  have "I (files w')"
    using keepsD [OF boot_invariant.execute_keeps [OF assms(1)] run [unfolded execute_def] Cons.prems] .
  with Cons.IH b run show ?case by simp
qed simp

lemma no_observer: "only_looks (\<lambda>_. io_return ())"
  by (simp add: only_looks_def touches_return)

text \<open>The pending file binds the rollback of \<open>t0\<close> and \<open>K\<close> holds.\<close>

definition binding_and :: "libraries \<Rightarrow> RecoveryEngine \<Rightarrow> RollbackTransaction \<Rightarrow> tree_pred \<Rightarrow> tree_pred" where
  "binding_and L E t0 K f \<longleftrightarrow>
     K f \<and> slot_binds (lib_uuid L) (lib_tx L) (tx_binding t0) (f (pending_path (engine_store E)))"

lemma pending_outside_swaps:
  "pending_path (engine_store E) \<notin> swap_paths (root_swap L E t)"
  "pending_path (engine_store E) \<notin> swap_paths (home_swap L E t)"
  using store_outside [OF swaps_ok(1), of E L t] store_outside [OF swaps_ok(2), of E L t] pending_in_store [of E]
  by blast+

text \<open>The root and the Home the machine ran from are kept.\<close>

lemma boot_invariant_kept:
  assumes fs: "recovery_filesystem (filesystem E)" and json: "json_keeps_binding (lib_uuid L) (lib_tx L)"
  shows "boot_invariant E L (\<lambda>_. io_return ()) t0
    (binding_and L E t0 (\<lambda>f. kept (root_swap L E t0) T f \<and> kept (home_swap L E t0) H f))"
proof (intro boot_invariant.intro boot_invariant_axioms.intro)
  let ?r = "root_swap L E t0" and ?h = "home_swap L E t0" and ?p = "pending_path (engine_store E)"
  let ?B = "\<lambda>f. slot_binds (lib_uuid L) (lib_tx L) (tx_binding t0) (f ?p)"
  have frame: "frame_pred (swap_paths ?r \<union> swap_paths ?h) (\<lambda>f. kept ?r T f \<and> kept ?h H f)"
    by (rule frame_pred_conj [OF kept_swap_frame kept_swap_frame])
  have outside: "under (engine_store E) \<inter> (swap_paths ?r \<union> swap_paths ?h) = {}"
    using store_outside [OF swaps_ok(1), of E L t0] store_outside [OF swaps_ok(2), of E L t0] by blast
  show "keeps (binding_and L E t0 (\<lambda>f. kept ?r T f \<and> kept ?h H f)) (save_transaction L E t)"
    if "tx_binding t = tx_binding t0" for t
    unfolding binding_and_def [abs_def] by (rule keeps_save_transaction [OF json frame outside that])
  have steps: "swap_steps (filesystem E) (\<lambda>f. kept s V f \<and> (kept s' V' f \<and> ?B f)) s target"
    if "swap_ok (top_level E) s" "swap_paths s' \<inter> swap_paths s = {}" "?p \<notin> swap_paths s" for s V s' V' target
    by (rule recovery_filesystem.swap_steps_kept
        [OF fs that(1) frame_pred_conj [OF kept_swap_frame slot_binds_frame]]) (use that(2,3) in blast)
  have swapped: "swap_paths ?h \<inter> swap_paths ?r = {}" "swap_paths ?r \<inter> swap_paths ?h = {}"
    using swaps_disjoint [of L E t0] by blast+
  have eq: "binding_and L E t0 (\<lambda>f. kept ?r T f \<and> kept ?h H f) = (\<lambda>f. kept ?r T f \<and> (kept ?h H f \<and> ?B f))"
    "binding_and L E t0 (\<lambda>f. kept ?r T f \<and> kept ?h H f) = (\<lambda>f. kept ?h H f \<and> (kept ?r T f \<and> ?B f))"
    by (auto simp: binding_and_def fun_eq_iff)
  show "swap_steps (filesystem E) (binding_and L E t0 (\<lambda>f. kept ?r T f \<and> kept ?h H f)) ?r target" for target
    unfolding eq(1) by (rule steps [OF swaps_ok(1) swapped(1) pending_outside_swaps(1)])
  show "swap_steps (filesystem E) (binding_and L E t0 (\<lambda>f. kept ?r T f \<and> kept ?h H f)) ?h target" for target
    unfolding eq(2) by (rule steps [OF swaps_ok(2) swapped(2) pending_outside_swaps(2)])
qed (auto simp: binding_and_def no_observer fs)

text \<open>The paths a rollback may change: its own store, and the names of what it restores.\<close>

definition rollback_scope :: "libraries \<Rightarrow> RecoveryEngine \<Rightarrow> RollbackTransaction \<Rightarrow> path set" where
  "rollback_scope L E t =
     under (engine_store E)
     \<union> (if tx_home_only t then {} else swap_paths (root_swap L E t))
     \<union> (if tx_reset_home t \<or> tx_home_only t then swap_paths (home_swap L E t) else {})"

lemma boot_invariant_frame:
  assumes fs: "recovery_filesystem (filesystem E)" and json: "json_keeps_binding (lib_uuid L) (lib_tx L)"
    and K: "frame_pred S K" and S: "S \<inter> rollback_scope L E t0 = {}"
  shows "boot_invariant E L (\<lambda>_. io_return ()) t0 (binding_and L E t0 K)"
proof (intro boot_invariant.intro boot_invariant_axioms.intro)
  have frame: "frame_pred (S \<union> {pending_path (engine_store E)}) (binding_and L E t0 K)"
    unfolding binding_and_def [abs_def] by (rule frame_pred_conj [OF K slot_binds_frame])
  show "keeps (binding_and L E t0 K) (save_transaction L E t)" if "tx_binding t = tx_binding t0" for t
    unfolding binding_and_def [abs_def]
    by (rule keeps_save_transaction [OF json K _ that]) (use S in \<open>auto simp: rollback_scope_def\<close>)
  show "swap_steps (filesystem E) (binding_and L E t0 K) (root_swap L E t0) target"
    if "\<not> tx_home_only t0" for target
    by (rule recovery_filesystem.swap_steps_frame [OF fs frame])
      (use S that pending_outside_swaps in \<open>auto simp: rollback_scope_def\<close>)
  show "swap_steps (filesystem E) (binding_and L E t0 K) (home_swap L E t0) target"
    if "tx_reset_home t0 \<or> tx_home_only t0" for target
    by (rule recovery_filesystem.swap_steps_frame [OF fs frame])
      (use S that pending_outside_swaps in \<open>auto simp: rollback_scope_def\<close>)
qed (auto simp: binding_and_def no_observer fs)

subsection \<open>Properties\<close>

text \<open>
  C1. No sequence of boots loses the system or the Home: whatever rollback the pending
  file describes, whichever system call or \<open>btrfs\<close> command fails in which boot, and
  whatever the boots request, the root and the Home subvolume that the machine ran from
  are complete afterwards, each under its live name or under the name it was set aside to.
\<close>

theorem boots_keep_root_and_home:
  assumes "btrfs_behaves C" and "json_keeps_binding (lib_uuid L) (lib_tx L)"
    and "E = \<lparr>top_level = d, filesystem = system_fs (lib_uuid L) C\<rparr>"
    and "slot_binds (lib_uuid L) (lib_tx L) (tx_binding t) (map_of (nodes w) (pending_path (engine_store E)))"
    and "kept (root_swap L E t) T (map_of (nodes w))" and "kept (home_swap L E t) H (map_of (nodes w))"
  shows "kept (root_swap L E t) T (map_of (nodes (run_boots L E boots w)))
    \<and> kept (home_swap L E t) H (map_of (nodes (run_boots L E boots w)))"
proof -
  have "recovery_filesystem (filesystem E)" using system_fs_laws [OF assms(1)] assms(3) by simp
  from run_boots_keep [OF boot_invariant_kept [OF this assms(2)], of t T H w boots] assms(4-6)
  show ?thesis by (simp add: binding_and_def)
qed

text \<open>
  C2. A rollback changes only what it restores: whatever fails in any sequence of boots,
  a system rollback leaves the Home as it is unless it resets it, a Home-only restore
  leaves the root as it is, and the snapshots themselves, the metadata, the lineage and
  everything else outside the transaction store never change.
\<close>

theorem boots_change_only_the_scope:
  assumes "btrfs_behaves C" and "json_keeps_binding (lib_uuid L) (lib_tx L)"
    and "E = \<lparr>top_level = d, filesystem = system_fs (lib_uuid L) C\<rparr>"
    and "slot_binds (lib_uuid L) (lib_tx L) (tx_binding t) (map_of (nodes w) (pending_path (engine_store E)))"
    and "k \<notin> rollback_scope L E t"
  shows "map_of (nodes (run_boots L E boots w)) k = map_of (nodes w) k"
proof -
  have fs: "recovery_filesystem (filesystem E)" using system_fs_laws [OF assms(1)] assms(3) by simp
  have "frame_pred {k} (\<lambda>f. f k = map_of (nodes w) k)" by (simp add: frame_pred_def)
  from boot_invariant_frame [OF fs assms(2) this, of t] assms(5)
  have "boot_invariant E L (\<lambda>_. io_return ()) t (binding_and L E t (\<lambda>f. f k = map_of (nodes w) k))" by simp
  from run_boots_keep [OF this, of w boots] assms(4) show ?thesis by (simp add: binding_and_def)
qed

subsection \<open>An instance\<close>

text \<open>A JSON library that reads and writes the transactions of one rollback.\<close>

definition example_boot_json :: tx_json where
  "example_boot_json =
     \<lparr>json_parse = (\<lambda>b. if b = ''T'' @ newline
         then Inr (JObject [(''schema_version'', JNumber 7)]) else Inl ''syntax''),
      json_v1 = (\<lambda>_. Inl ''v1''), json_v2 = (\<lambda>_. Inl ''v2''), json_v3 = (\<lambda>_. Inl ''v3''),
      json_tx = (\<lambda>_. Inr example_transaction),
      json_print = (\<lambda>t. if tx_binding t = tx_binding example_transaction then Inr ''T'' else Inl ''other'')\<rparr>"

definition example_libraries :: libraries where
  "example_libraries =
     \<lparr>lib_uuid = example_uuid_lib, lib_tx = example_boot_json, lib_dep = example_dep_json,
      lib_personal = (\<lambda>_. Inl ''personal''), lib_sha256 = (\<lambda>_. example_digest CHR ''c'')\<rparr>"

definition example_engine :: RecoveryEngine where
  "example_engine = \<lparr>top_level = [''t''], filesystem = system_fs example_uuid_lib simulated_btrfs\<rparr>"

lemma example_decode:
  "returns (decode_pending example_uuid_lib example_boot_json b)
     (\<lambda>r. \<forall>t. r = Some t \<longrightarrow> tx_binding t = tx_binding example_transaction)"
  by (auto simp: returns_def decode_pending_def migrate_pending_def example_boot_json_def io_bind_def io_lift_def
      io_return_def io_throw_def split: sum.splits if_splits)

lemma example_keeps_binding: "json_keeps_binding (lib_uuid example_libraries) (lib_tx example_libraries)"
  unfolding json_keeps_binding_def example_libraries_def
  using example_decode by (auto simp: tx_image_def example_boot_json_def split: if_splits)

interpretation example_boot: boot_invariant example_engine example_libraries "\<lambda>_. io_return ()" t0
  "binding_and example_libraries example_engine t0
     (\<lambda>f. kept (root_swap example_libraries example_engine t0) T f
        \<and> kept (home_swap example_libraries example_engine t0) H f)" for t0 T H
  by (rule boot_invariant_kept [OF _ example_keeps_binding])
    (simp add: example_engine_def system_fs_laws simulated_behaves)

definition a_dir :: inode where "a_dir = \<lparr>ftype = Directory, mode = 0x1C0, uid = 0, gid = 0\<rparr>"

definition a_file :: "bytes \<Rightarrow> inode" where "a_file b = \<lparr>ftype = Regular b, mode = 0x180, uid = 0, gid = 0\<rparr>"

text \<open>A machine with an armed rollback; every call from the sixtieth on fails.\<close>

definition example_store :: path where
  "example_store = [''t'', ''@snapshots'', ''anduinos-btrfs-snapshots-manager'']"

definition example_machine :: world where
  "example_machine =
     \<lparr>nodes = [([''t''], a_dir), ([''t'', ''@root''], a_dir), ([''t'', ''@root'', ''etc''], a_dir),
               ([''t'', ''@home''], a_dir), ([''t'', ''@home'', ''u''], a_dir),
               (example_store @ [''transactions''], a_dir),
               (example_store @ [''transactions'', ''pending-rollback.json''], a_file (''T'' @ newline))],
      ticks = 0, fault = (\<lambda>n. if n < 60 then None else Some (''power loss'', 0)),
      clock = (\<lambda>n. 200 + int n), entropy = (\<lambda>n. 1)\<rparr>"

lemma example_machine_bound:
  "slot_binds (lib_uuid example_libraries) (lib_tx example_libraries) (tx_binding example_transaction)
     (map_of (nodes example_machine) (pending_path (engine_store example_engine)))"
  using example_decode by (simp add: slot_binds_def example_libraries_def)

definition example_tree :: "string \<Rightarrow> string \<Rightarrow> path \<Rightarrow> inode option" where
  "example_tree n c r = map_of [([''t'', n], a_dir), ([''t'', n, c], a_dir)] ([''t'', n] @ r)"

lemma example_machine_kept:
  "kept (root_swap example_libraries example_engine example_transaction) (example_tree ''@root'' ''etc'')
     (map_of (nodes example_machine))"
  "kept (home_swap example_libraries example_engine example_transaction) (example_tree ''@home'' ''u'')
     (map_of (nodes example_machine))"
  by (auto simp: kept_def root_swap_def home_swap_def old_root_name_def old_home_name_def example_machine_def
      example_store_def example_engine_def example_libraries_def example_tree_def)

theorem boots_keep_root_and_home_witness:
  "kept (root_swap example_libraries example_engine example_transaction) (example_tree ''@root'' ''etc'')
     (map_of (nodes (run_boots example_libraries example_engine [(Some 3, ''u2''), (None, ''u1'')] example_machine)))
   \<and> kept (home_swap example_libraries example_engine example_transaction) (example_tree ''@home'' ''u'')
     (map_of (nodes (run_boots example_libraries example_engine [(Some 3, ''u2''), (None, ''u1'')] example_machine)))"
proof (rule boots_keep_root_and_home [OF simulated_behaves example_keeps_binding])
  show "example_engine = \<lparr>top_level = [''t''], filesystem = system_fs (lib_uuid example_libraries) simulated_btrfs\<rparr>"
    by (simp add: example_engine_def example_libraries_def)
qed (rule example_machine_bound, rule example_machine_kept, rule example_machine_kept)

theorem boots_change_only_the_scope_witness:
  "map_of (nodes (run_boots example_libraries example_engine [(Some 3, ''u2''), (None, ''u1'')] example_machine))
     [''t'', ''@home'', ''u''] = Some a_dir"
proof -
  have "map_of (nodes (run_boots example_libraries example_engine [(Some 3, ''u2''), (None, ''u1'')] example_machine))
      [''t'', ''@home'', ''u''] = map_of (nodes example_machine) [''t'', ''@home'', ''u'']"
  proof (rule boots_change_only_the_scope [OF simulated_behaves example_keeps_binding _ example_machine_bound])
    show "example_engine = \<lparr>top_level = [''t''], filesystem = system_fs (lib_uuid example_libraries) simulated_btrfs\<rparr>"
      by (simp add: example_engine_def example_libraries_def)
    show "[''t'', ''@home'', ''u''] \<notin> rollback_scope example_libraries example_engine example_transaction"
      by (simp add: rollback_scope_def example_transaction_def RollbackTransaction_new_def under_def engine_store_def
          transactions_dir_def engine_snapshot_root_def example_engine_def swap_paths_def root_swap_def
          old_root_name_def new_root_name_def)
  qed
  then show ?thesis by (simp add: example_machine_def)
qed

end
