(* ===== verification/Recovery_Outcome.thy ===== *)
theory Recovery_Outcome
  imports Recovery_Safety
begin

text \<open>
  What a completed step of the early-boot engine has achieved: applying installs exactly the
  target snapshot and sets the previous subvolume aside, reverting brings exactly the
  previous subvolume back.
\<close>

subsection \<open>Checkpoints leave the subvolumes alone\<close>

lemma snapshots_outside:
  assumes "swap_ok (top_level E) sw"
  shows "under (engine_snapshot_root E) \<inter> swap_paths sw = {}"
proof -
  obtain a b c where names: "sw_live sw = top_level E @ [a]" "sw_old sw = top_level E @ [b]"
      "sw_new sw = top_level E @ [c]" "distinct [a, b, c, ''@snapshots'']"
    using assms by (auto simp: swap_ok_def)
  have "\<not> prefix (top_level E @ [n]) k" if "prefix (engine_snapshot_root E) k" "n \<noteq> ''@snapshots''" for n k
    using under_sibling [of "top_level E" n k] that by (auto simp: engine_snapshot_root_def)
  with names show ?thesis by (auto simp: swap_paths_def under_def)
qed

lemma guarded_persist_frame:
  assumes "only_looks observe" and "frame_pred S I" and "under (engine_store E) \<inter> S = {}" and "tx_binding t = \<beta>"
  shows "guarded I \<beta> (persist_checkpoint L E observe c t)"
proof -
  have clock: "keeps I utc_now" by (rule keeps_touches_none) (rule io_rules)
  have save: "keeps I (save_transaction L E t')" for t'
    by (rule keeps_frame [OF assms(2) touches_save_transaction assms(3)])
  have look: "keeps I (observe c)" using assms(1) by (auto simp: only_looks_def intro: keeps_touches_none)
  show ?thesis
    unfolding persist_checkpoint_def
    by (rule guarded_bind [OF clock guarded_bind_guarded [OF guarded_run_update
            guarded_bind [OF save guarded_bind [OF look guarded_return]]]]) (simp_all add: assms(4))
qed

lemma frame_pred_mono: "frame_pred S K \<Longrightarrow> S \<subseteq> S' \<Longrightarrow> frame_pred S' K"
  unfolding frame_pred_def by blast

lemma frame_pred_imp: "frame_pred S K \<Longrightarrow> frame_pred S (\<lambda>f. P \<longrightarrow> K f)"
  unfolding frame_pred_def by blast

lemma frame_pred_all: "(\<And>i. frame_pred S (K i)) \<Longrightarrow> frame_pred S (\<lambda>f. \<forall>i. K i f)"
  unfolding frame_pred_def by blast

context recovery_filesystem
begin

lemma checkpoints_frame:
  assumes "filesystem E = F" and "only_looks observe" and "frame_pred S I" and "under (engine_store E) \<inter> S = {}"
    and "\<And>f. I f \<Longrightarrow> R f"
  shows "checkpoints_keep L E observe \<beta> I R"
  unfolding checkpoints_keep_def
proof (intro conjI allI impI)
  show "touches {} (rf_sync (filesystem E) (top_level E))" using sync_frame assms(1) by simp
  show "io_triple (\<lambda>w. I (files w)) (persist_checkpoint L E observe c t)
      (\<lambda>t w. I (files w) \<and> tx_binding t = \<beta>) (\<lambda>_ w. R (files w))" if "tx_binding t = \<beta>" for c t
    by (rule triple_weaken [OF guarded_persist_frame [OF assms(2-4) that, unfolded guarded_def]])
      (auto intro: assms(5))
qed (rule assms(5))

end

subsection \<open>Reverting\<close>

definition restored :: "swap \<Rightarrow> (path \<Rightarrow> inode option) \<Rightarrow> tree_pred" where
  "restored sw T f \<longleftrightarrow> (\<forall>r. f (sw_live sw @ r) = T r) \<and> f (sw_old sw) = None \<and> f (sw_new sw) = None"

lemma kept_restored: "kept sw T f \<Longrightarrow> laid_out sw (True, False, False) f \<Longrightarrow> restored sw T f"
  by (simp add: kept_def laid_out_def restored_def)

lemma laid_out_frame: "frame_pred (swap_paths sw) (laid_out sw s)"
  unfolding frame_pred_def
proof (intro allI impI)
  fix f g :: "path \<Rightarrow> inode option"
  assume "\<forall>k \<in> swap_paths sw. f k = g k"
  then have "f (sw_live sw) = g (sw_live sw)" "f (sw_old sw) = g (sw_old sw)" "f (sw_new sw) = g (sw_new sw)"
    by (auto simp: swap_paths_def under_def)
  then show "laid_out sw s f = laid_out sw s g" by (simp add: laid_out_def seen_def split: prod.splits)
qed

context recovery_filesystem
begin

text \<open>One loop, with a predicate \<open>J\<close> that it does not touch.\<close>

lemma revert_loop_restores:
  assumes "filesystem E = F" and "only_looks observe" and "swap_ok (top_level E) sw"
    and "frame_pred S J" and "S \<inter> swap_paths sw = {}" and "under (engine_store E) \<inter> S = {}"
    and "tx_binding t = \<beta>"
  shows "io_triple (\<lambda>w. kept sw T (files w) \<and> J (files w)) (revert_loop L E observe operation exhausted sw cs n t)
    (\<lambda>t w. ((kept sw T (files w) \<and> J (files w)) \<and> laid_out sw (True, False, False) (files w)) \<and> tx_binding t = \<beta>)
    (\<lambda>_ w. kept sw T (files w) \<and> J (files w))"
proof (rule revert_loop_then)
  show "revert_steps (filesystem E) (\<lambda>f. kept sw T f \<and> J f) (\<lambda>f. kept sw T f \<and> J f) sw"
    using swap_steps_kept [OF assms(3-5)] assms(1) by (simp add: swap_steps_def)
  have "under (engine_store E) \<inter> (swap_paths sw \<union> S) = {}" using store_outside [OF assms(3)] assms(6) by blast
  from checkpoints_frame [OF assms(1,2) frame_pred_conj [OF kept_swap_frame assms(4)] this]
  show "checkpoints_keep L E observe \<beta> (\<lambda>f. kept sw T f \<and> J f) (\<lambda>f. kept sw T f \<and> J f)" by simp
qed (rule assms(7))

lemma revert_restores_both:
  assumes "filesystem E = F" and "only_looks observe"
  shows "io_triple (\<lambda>w. kept (root_swap L E t) T (files w) \<and> kept (home_swap L E t) H (files w))
    (revert L E observe t)
    (\<lambda>t' w. (\<not> tx_home_only t \<longrightarrow> restored (root_swap L E t) T (files w))
      \<and> (tx_reset_home t \<longrightarrow> restored (home_swap L E t) H (files w))) (\<lambda>_ _. True)"
proof -
  let ?r = "root_swap L E t" and ?h = "home_swap L E t"
  let ?H = "\<lambda>f. kept ?h H f \<and> (tx_reset_home t \<longrightarrow> laid_out ?h (True, False, False) f)"
  have swapped: "swap_paths ?h \<inter> swap_paths ?r = {}" "swap_paths ?r \<inter> swap_paths ?h = {}"
    using swaps_disjoint [of L E t] by blast+
  have frame: "frame_pred (swap_paths ?h) ?H"
    using kept_swap_frame [of ?h H] laid_out_frame [of ?h "(True, False, False)"]
    unfolding frame_pred_def by blast
  have home: "io_triple (\<lambda>w. kept ?r T (files w) \<and> kept ?h H (files w))
      (if tx_reset_home t then revert_home L E observe t else io_return t)
      (\<lambda>t' w. (kept ?r T (files w) \<and> ?H (files w)) \<and> tx_binding t' = tx_binding t) (\<lambda>_ _. True)"
  proof (rule triple_if)
    assume reset: "tx_reset_home t"
    note loop = revert_loop_restores [OF assms swaps_ok(2) kept_swap_frame swapped(2) store_outside [OF swaps_ok(1)] refl]
    show "io_triple (\<lambda>w. kept ?r T (files w) \<and> kept ?h H (files w)) (revert_home L E observe t)
      (\<lambda>t' w. (kept ?r T (files w) \<and> ?H (files w)) \<and> tx_binding t' = tx_binding t) (\<lambda>_ _. True)"
      unfolding revert_home_def by (rule triple_weaken [OF loop]) (use reset in auto)
  qed (simp add: triple_return)
  have root: "io_triple (\<lambda>w. kept ?r T (files w) \<and> ?H (files w))
      (if tx_home_only t' then io_return t' else revert_loop L E observe ''revert'' ''Rollback revert did not converge''
            (root_swap L E t') (DiscardedRootDeleted, FallbackRootActivated, RestoredRootMovedAside) 6 t')
      (\<lambda>t' w. (\<not> tx_home_only t \<longrightarrow> restored ?r T (files w)) \<and> (tx_reset_home t \<longrightarrow> restored ?h H (files w)))
      (\<lambda>_ _. True)" if same: "tx_binding t' = tx_binding t" for t'
  proof (rule triple_if)
    assume "tx_home_only t'"
    then have "tx_home_only t" using same by (simp add: tx_binding_def)
    then show "io_triple (\<lambda>w. kept ?r T (files w) \<and> ?H (files w)) (io_return t')
      (\<lambda>t' w. (\<not> tx_home_only t \<longrightarrow> restored ?r T (files w)) \<and> (tx_reset_home t \<longrightarrow> restored ?h H (files w)))
      (\<lambda>_ _. True)"
      by (auto intro!: triple_return kept_restored)
  next
    note loop = revert_loop_restores [OF assms swaps_ok(1) frame swapped(1) store_outside [OF swaps_ok(2)] same]
    show "io_triple (\<lambda>w. kept ?r T (files w) \<and> ?H (files w))
      (revert_loop L E observe ''revert'' ''Rollback revert did not converge''
            (root_swap L E t') (DiscardedRootDeleted, FallbackRootActivated, RestoredRootMovedAside) 6 t')
      (\<lambda>t' w. (\<not> tx_home_only t \<longrightarrow> restored ?r T (files w)) \<and> (tx_reset_home t \<longrightarrow> restored ?h H (files w)))
      (\<lambda>_ _. True)"
      unfolding same_swaps [OF same] by (rule triple_weaken [OF loop]) (auto intro: kept_restored)
  qed
  show ?thesis
    unfolding revert_def by (rule triple_bind [OF home]) (rule triple_pure, rule root)
qed

end

subsection \<open>Applying\<close>

definition holds_at :: "(path \<Rightarrow> inode option) \<Rightarrow> path \<Rightarrow> (path \<Rightarrow> inode option) \<Rightarrow> bool" where
  "holds_at f p T \<longleftrightarrow> (\<forall>r. f (p @ r) = T r)"

text \<open>The layouts an apply passes through, from the subvolume \<open>T\<close> to the target \<open>G\<close>.\<close>

definition underway :: "swap \<Rightarrow> (path \<Rightarrow> inode option) \<Rightarrow> (path \<Rightarrow> inode option) \<Rightarrow> tree_pred" where
  "underway sw T G f \<longleftrightarrow>
     T [] \<noteq> None \<and> G [] \<noteq> None
     \<and> (holds_at f (sw_live sw) T \<and> f (sw_old sw) = None \<and> (f (sw_new sw) = None \<or> holds_at f (sw_new sw) G)
        \<or> f (sw_live sw) = None \<and> holds_at f (sw_old sw) T \<and> holds_at f (sw_new sw) G
        \<or> holds_at f (sw_live sw) G \<and> holds_at f (sw_old sw) T \<and> f (sw_new sw) = None)"

definition installed :: "swap \<Rightarrow> (path \<Rightarrow> inode option) \<Rightarrow> (path \<Rightarrow> inode option) \<Rightarrow> tree_pred" where
  "installed sw T G f \<longleftrightarrow> holds_at f (sw_live sw) G \<and> holds_at f (sw_old sw) T \<and> f (sw_new sw) = None"

lemma holds_at_root: "holds_at f p T \<Longrightarrow> f p = T []"
  by (metis append_Nil2 holds_at_def)

lemma holds_at_frame: "frame_pred (under p) (\<lambda>f. holds_at f p T)"
  unfolding frame_pred_def holds_at_def by (auto simp: under_def)

lemma underway_installed: "underway sw T G f \<Longrightarrow> laid_out sw (True, True, False) f \<Longrightarrow> installed sw T G f"
  by (auto simp: underway_def laid_out_def installed_def)

lemma underway_frame: "frame_pred (swap_paths sw) (underway sw T G)"
  unfolding frame_pred_def
proof (intro allI impI)
  fix f g :: "path \<Rightarrow> inode option"
  assume "\<forall>k \<in> swap_paths sw. f k = g k"
  then have eq: "f (sw_live sw @ r) = g (sw_live sw @ r)" "f (sw_old sw @ r) = g (sw_old sw @ r)"
      "f (sw_new sw @ r) = g (sw_new sw @ r)" for r
    by (auto simp: swap_paths_def under_def)
  from eq eq(1) [of "[]"] eq(2) [of "[]"] eq(3) [of "[]"] show "underway sw T G f = underway sw T G g"
    by (simp add: underway_def holds_at_def)
qed

lemma installed_frame: "frame_pred (swap_paths sw) (installed sw T G)"
  unfolding frame_pred_def
proof (intro allI impI)
  fix f g :: "path \<Rightarrow> inode option"
  assume "\<forall>k \<in> swap_paths sw. f k = g k"
  then have eq: "f (sw_live sw @ r) = g (sw_live sw @ r)" "f (sw_old sw @ r) = g (sw_old sw @ r)"
      "f (sw_new sw @ r) = g (sw_new sw @ r)" for r
    by (auto simp: swap_paths_def under_def)
  from eq eq(3) [of "[]"] show "installed sw T G f = installed sw T G g"
    by (simp add: installed_def holds_at_def)
qed

lemma holds_at_unchanged:
  assumes "touches A m" and "m w = (x, w')" and "A \<inter> under p = {}"
  shows "holds_at (files w') p T = holds_at (files w) p T" "files w' p = files w p"
proof -
  have same: "files w' (p @ r) = files w (p @ r)" for r
  proof -
    have "p @ r \<notin> A" using assms(3) by (auto simp: under_def)
    then show ?thesis using touchesD [OF assms(1,2)] by simp
  qed
  from same same [of "[]"] show "holds_at (files w') p T = holds_at (files w) p T" "files w' p = files w p"
    by (simp_all add: holds_at_def)
qed

context recovery_filesystem
begin

lemma snapshot_underway:
  assumes ok: "swap_ok d sw" and "apart target (sw_new sw)"
  shows "step_keeps (\<lambda>f. underway sw T G f \<and> holds_at f target G) (\<lambda>_. True) (laid_out sw (True, False, False))
    (rf_snapshot F target (sw_new sw))"
  unfolding step_keeps_def
proof (rule io_tripleI; (elim conjE)?)
  fix w x w'
  assume pre: "underway sw T G (files w)" "holds_at (files w) target G" "laid_out sw (True, False, False) (files w)"
    and run: "rf_snapshot F target (sw_new sw) w = (Inr x, w')"
  have new: "files w (sw_new sw) = None" using pre(3) by (simp add: laid_out_def)
  from snapshot_ok [OF assms(2) new] run have "holds_at (files w') (sw_new sw) G"
    using pre(2) by (simp add: holds_at_def)
  moreover note same = holds_at_unchanged [OF snapshot_frame run apart_disjoint]
  ultimately show "underway sw T G (files w') \<and> holds_at (files w') target G"
    using pre new same [OF swap_apart(3) [OF ok]] same [OF swap_apart(5) [OF ok]] same [OF apart_sym [OF assms(2)]]
    by (auto simp: underway_def laid_out_def dest: holds_at_root)
qed simp

lemma rename_underway:
  assumes ok: "swap_ok d sw" and "under target \<inter> swap_paths sw = {}"
    and "(p, q, s) \<in> {(sw_live sw, sw_old sw, (True, False, True)), (sw_new sw, sw_live sw, (False, True, True))}"
  shows "step_keeps (\<lambda>f. underway sw T G f \<and> holds_at f target G) (\<lambda>_. True) (laid_out sw s) (rf_rename F p q)"
  unfolding step_keeps_def
proof (rule io_tripleI; (elim conjE)?)
  fix w x w'
  assume pre: "underway sw T G (files w)" "holds_at (files w) target G" "laid_out sw s (files w)"
    and run: "rf_rename F p q w = (Inr x, w')"
  have apart: "apart p q" using assms(3) swap_apart [OF ok] by auto
  have moved: "files w' (q @ r) = files w (p @ r)" "files w' (p @ r) = None" for r
    using rename_ok [OF apart] run by simp_all
  have gone: "files w' p = None" using moved(2) [of "[]"] by simp
  note same = holds_at_unchanged [OF rename_frame run]
  have target: "holds_at (files w') target G"
    using pre(2) same(1) [of target] assms(2,3) by (auto simp: swap_paths_def)
  have third: "holds_at (files w') k V = holds_at (files w) k V" if "apart k p" "apart k q" for k V
    by (rule same(1)) (use apart_disjoint [OF that(1)] apart_disjoint [OF that(2)] in blast)
  have arrived: "holds_at (files w') q V" if "holds_at (files w) p V" for V
    using that moved(1) by (simp add: holds_at_def)
  consider "p = sw_live sw" "q = sw_old sw" "s = (True, False, True)" | "p = sw_new sw" "q = sw_live sw" "s = (False, True, True)"
    using assms(3) by auto
  then have "underway sw T G (files w')"
  proof cases
    case 1
    with pre(1,3) have "holds_at (files w) p T" "holds_at (files w) (sw_new sw) G" "T [] \<noteq> None" "G [] \<noteq> None"
      by (auto simp: underway_def laid_out_def dest: holds_at_root)
    with 1 gone arrived third [of "sw_new sw"] swap_apart [OF ok] show ?thesis by (simp add: underway_def)
  next
    case 2
    with pre(1,3) have "holds_at (files w) p G" "holds_at (files w) (sw_old sw) T" "T [] \<noteq> None" "G [] \<noteq> None"
      by (auto simp: underway_def laid_out_def dest: holds_at_root)
    with 2 gone arrived third [of "sw_old sw"] swap_apart [OF ok] show ?thesis by (simp add: underway_def)
  qed
  with target show "underway sw T G (files w') \<and> holds_at (files w') target G" by simp
qed simp

text \<open>One loop that saw the final layout, with a predicate \<open>J\<close> that it does not touch.\<close>

lemma apply_loop_installs:
  assumes "filesystem E = F" and "only_looks observe" and ok: "swap_ok (top_level E) sw"
    and "frame_pred S J" and "S \<inter> swap_paths sw = {}" and "under (engine_store E) \<inter> S = {}"
    and "tx_binding t = \<beta>" and "under target \<inter> swap_paths sw = {}" and "under (engine_store E) \<inter> under target = {}"
  shows "io_triple (\<lambda>w. (underway sw T G (files w) \<and> holds_at (files w) target G) \<and> J (files w))
    (apply_loop L E observe operation sw target cs n t)
    (\<lambda>x w. (((underway sw T G (files w) \<and> holds_at (files w) target G) \<and> J (files w))
        \<and> (snd x \<longrightarrow> laid_out sw (True, True, False) (files w))) \<and> tx_binding (fst x) = \<beta>)
    (\<lambda>_ _. True)"
proof (rule apply_loop_then)
  have new: "apart target (sw_new sw)"
    using assms(8) unfolding apart_def swap_paths_def under_def by blast
  have weaken: "step_keeps I (\<lambda>_. True) P m" if "step_keeps I R P m" for I R P m
    using that unfolding step_keeps_def by (rule triple_weaken) auto
  have out_new: "under (sw_new sw) \<inter> S = {}" using assms(5) by (auto simp: swap_paths_def)
  have out: "(under p \<union> under q) \<inter> S = {}"
    if "p \<in> {sw_live sw, sw_old sw, sw_new sw}" "q \<in> {sw_live sw, sw_old sw, sw_new sw}" for p q
    using that assms(5) by (auto simp: swap_paths_def)
  show "apply_steps (filesystem E) (\<lambda>f. (underway sw T G f \<and> holds_at f target G) \<and> J f) (\<lambda>_. True) sw target"
    unfolding apply_steps_def assms(1)
    by (intro conjI weaken [OF step_with_frame [OF snapshot_underway [OF ok new] snapshot_frame assms(4)]]
        weaken [OF step_with_frame [OF rename_underway [OF ok assms(8)] rename_frame assms(4)]] out out_new) simp_all
  have "under (engine_store E) \<inter> ((swap_paths sw \<union> under target) \<union> S) = {}"
    using store_outside [OF ok] assms(6,9) by blast
  from checkpoints_frame [OF assms(1,2) frame_pred_conj [OF frame_pred_conj [OF underway_frame holds_at_frame] assms(4)] this]
  show "checkpoints_keep L E observe \<beta> (\<lambda>f. (underway sw T G f \<and> holds_at f target G) \<and> J f) (\<lambda>_. True)" by simp
qed (rule assms(7))

end

lemma snapshot_targets:
  assumes "swap_ok (top_level E) sw"
  shows "under (deployment_root L E i) \<inter> swap_paths sw = {}" "under (personal_snapshot_home L E i) \<inter> swap_paths sw = {}"
    "under (engine_store E) \<inter> under (deployment_root L E i) = {}"
    "under (engine_store E) \<inter> under (personal_snapshot_home L E i) = {}"
proof -
  have sub: "under (deployment_root L E i) \<subseteq> under (engine_snapshot_root E)"
    "under (personal_snapshot_home L E i) \<subseteq> under (engine_snapshot_root E)"
    by (rule under_mono; simp add: deployment_root_def personal_snapshot_home_def)+
  show "under (deployment_root L E i) \<inter> swap_paths sw = {}" "under (personal_snapshot_home L E i) \<inter> swap_paths sw = {}"
    using snapshots_outside [OF assms] sub by blast+
  have "\<not> prefix (engine_snapshot_root E @ n # r) k"
    if "prefix (engine_store E) k" "n \<noteq> ''transactions''" for n r k
    using that under_sibling [of "engine_snapshot_root E" "''transactions''" k n r]
    by (auto simp: engine_store_def transactions_dir_def)
  then show "under (engine_store E) \<inter> under (deployment_root L E i) = {}"
    "under (engine_store E) \<inter> under (personal_snapshot_home L E i) = {}"
    by (auto simp: under_def deployment_root_def personal_snapshot_home_def)
qed

text \<open>What an apply starts from: each subvolume in its scope is somewhere on the way, and
  the snapshot it is replaced by is there.\<close>

definition apply_ready where
  "apply_ready L E t T G H V f \<longleftrightarrow>
     (\<not> tx_home_only t \<longrightarrow>
        underway (root_swap L E t) T G f \<and> holds_at f (deployment_root L E (tx_target_deployment_id t)) G)
     \<and> (tx_reset_home t \<or> tx_home_only t \<longrightarrow> (\<forall>i. tx_factory_home_snapshot_id t = Some i \<longrightarrow>
        underway (home_swap L E t) H V f \<and> holds_at f (personal_snapshot_home L E i) V))"

definition apply_done where
  "apply_done L E t T G H V f \<longleftrightarrow>
     (\<not> tx_home_only t \<longrightarrow> installed (root_swap L E t) T G f)
     \<and> (tx_reset_home t \<or> tx_home_only t \<longrightarrow> installed (home_swap L E t) H V f)"

context recovery_filesystem
begin

lemma apply_home_installs:
  assumes "filesystem E = F" and "only_looks observe" and "tx_binding t' = tx_binding t"
    and "frame_pred S J" and "S \<inter> swap_paths (home_swap L E t) = {}" and "under (engine_store E) \<inter> S = {}"
  shows "io_triple (\<lambda>w. (\<forall>i. tx_factory_home_snapshot_id t = Some i \<longrightarrow>
        underway (home_swap L E t) H V (files w) \<and> holds_at (files w) (personal_snapshot_home L E i) V) \<and> J (files w))
    (apply_home L E observe t')
    (\<lambda>_ w. installed (home_swap L E t) H V (files w) \<and> J (files w)) (\<lambda>_ _. True)"
proof (cases "tx_factory_home_snapshot_id t'")
  case None
  then show ?thesis by (simp add: apply_home_def triple_throw)
next
  case (Some i)
  then have i: "tx_factory_home_snapshot_id t = Some i" using assms(3) by (simp add: tx_binding_def)
  note loop = apply_loop_installs [OF assms(1,2) swaps_ok(2) assms(4-6,3) snapshot_targets(2) [OF swaps_ok(2)]
      snapshot_targets(4) [OF swaps_ok(2)]]
  show ?thesis
    unfolding apply_home_def Some option.case same_swaps [OF assms(3)]
    by (rule triple_bind [OF triple_weaken [OF loop [where T = H and G = V]]], use i in simp, assumption, simp,
        rule triple_case_prod, rule triple_if, rule triple_return)
      (auto intro: underway_installed triple_throw)
qed

lemma apply_installs_both:
  assumes "filesystem E = F" and "only_looks observe"
  shows "io_triple (\<lambda>w. apply_ready L E t T G H V (files w)) (RecoveryEngine_apply L E observe t)
    (\<lambda>_ w. apply_done L E t T G H V (files w)) (\<lambda>_ _. True)"
proof (cases "tx_home_only t")
  case True
  have "frame_pred {} (\<lambda>_. True)" by (simp add: frame_pred_def)
  from apply_home_installs [OF assms refl this, of L t H V] True show ?thesis
    by (auto simp: RecoveryEngine_apply_def apply_ready_def apply_done_def elim!: triple_weaken)
next
  case False
  let ?r = "root_swap L E t" and ?h = "home_swap L E t"
  let ?J = "\<lambda>f. tx_reset_home t \<longrightarrow> (\<forall>i. tx_factory_home_snapshot_id t = Some i \<longrightarrow>
    underway ?h H V f \<and> holds_at f (personal_snapshot_home L E i) V)"
  let ?S = "swap_paths ?h \<union> (\<Union>i. under (personal_snapshot_home L E i))"
  have J: "frame_pred ?S ?J"
    by (intro frame_pred_imp frame_pred_all frame_pred_mono [OF frame_pred_conj [OF underway_frame holds_at_frame]])
      blast
  have swapped: "?S \<inter> swap_paths ?r = {}" "under (engine_store E) \<inter> ?S = {}"
    using swaps_disjoint [of L E t] store_outside [OF swaps_ok(2), of E L t]
      snapshot_targets(2) [OF swaps_ok(1), of L E _ L t] snapshot_targets(4) [OF swaps_ok(1), of E L] by blast+
  note root = apply_loop_installs [OF assms swaps_ok(1) J swapped refl snapshot_targets(1) [OF swaps_ok(1)]
      snapshot_targets(3) [OF swaps_ok(1)]]
  have home: "io_triple (\<lambda>w. installed ?r T G (files w) \<and> ?J (files w))
      (if tx_reset_home t' then apply_home L E observe t' else io_return t')
      (\<lambda>_ w. apply_done L E t T G H V (files w)) (\<lambda>_ _. True)" if same: "tx_binding t' = tx_binding t" for t'
  proof (rule triple_if)
    assume "tx_reset_home t'"
    then have reset: "tx_reset_home t" using same by (simp add: tx_binding_def)
    show "io_triple (\<lambda>w. installed ?r T G (files w) \<and> ?J (files w)) (apply_home L E observe t')
      (\<lambda>_ w. apply_done L E t T G H V (files w)) (\<lambda>_ _. True)"
      by (rule triple_weaken [OF apply_home_installs [OF assms same installed_frame swaps_disjoint
              store_outside [OF swaps_ok(1)]]]) (use reset False in \<open>auto simp: apply_done_def\<close>)
  next
    assume "\<not> tx_reset_home t'"
    then have "\<not> tx_reset_home t" using same by (simp add: tx_binding_def)
    with False show "io_triple (\<lambda>w. installed ?r T G (files w) \<and> ?J (files w)) (io_return t')
      (\<lambda>_ w. apply_done L E t T G H V (files w)) (\<lambda>_ _. True)"
      by (auto intro!: triple_return simp: apply_done_def)
  qed
  let ?I = "\<lambda>f. (underway ?r T G f \<and> holds_at f (deployment_root L E (tx_target_deployment_id t)) G) \<and> ?J f"
  have look: "io_triple (\<lambda>w. ?I (files w)) (io_bind (layout ?r) (\<lambda>state.
      if state \<noteq> (True, True, False)
      then io_throw (RecoveryError_new ReUnsafeLayout ''Rollback apply did not converge'')
      else if tx_reset_home t' then apply_home L E observe t' else io_return t'))
      (\<lambda>_ w. apply_done L E t T G H V (files w)) (\<lambda>_ _. True)" if "tx_binding t' = tx_binding t" for t'
    by (rule triple_bind [OF triple_weaken [OF triple_layout' [where I = ?I and sw = ?r]]], assumption, assumption, simp,
        rule triple_if, rule triple_throw, simp, rule triple_weaken [OF home [OF that]])
      (auto intro: underway_installed)
  have rest: "io_triple (\<lambda>w. ?I (files w) \<and> P w) (io_bind (layout (root_swap L E t')) (\<lambda>state.
      if state \<noteq> (True, True, False)
      then io_throw (RecoveryError_new ReUnsafeLayout ''Rollback apply did not converge'')
      else if tx_reset_home t' then apply_home L E observe t' else io_return t'))
      (\<lambda>_ w. apply_done L E t T G H V (files w)) (\<lambda>_ _. True)" if "tx_binding t' = tx_binding t" for t' P
    unfolding same_swaps [OF that] by (rule triple_weaken [OF look [OF that]]) auto
  show ?thesis
    unfolding RecoveryEngine_apply_def if_not_P [OF False]
    by (rule triple_bind [OF triple_weaken [OF root [where T = T and G = G]]],
        use False in \<open>simp add: apply_ready_def\<close>, assumption, simp, rule triple_case_prod, rule triple_pure,
        rule rest, simp)
qed

end

end
