(* ===== verification/Recovery_Progress.thy ===== *)
theory Recovery_Progress
  imports Recovery_Outcome
begin

text \<open>
  That the engine's loops finish: without faults applying and reverting reach their final
  layout, within the five and six rounds the code allows, from every layout an interrupted
  boot can leave. With \<open>Recovery_Outcome\<close> this gives the total correctness of both.
\<close>

subsection \<open>Runs without faults\<close>

lemma steady_nodes [simp]: "steady (w\<lparr>nodes := ns\<rparr>) v = steady w v"
  by (simp add: steady_def)

text \<open>The exact effect of a commit on the names beside the target.\<close>

lemma replace_file_effect:
  assumes "fault_free w" and "map_of (nodes w) (d @ [a]) = Some i" and "ftype i = Regular []"
    and "fs_is_dir (nodes w) d" and "a \<noteq> c"
    and "\<forall>j. map_of (nodes w) (d @ [c]) = Some j \<longrightarrow> ftype j \<noteq> Directory"
  shows "\<exists>w'. replace_file d (d @ [a]) (d @ [c]) b w = (Inr (), w') \<and> steady w w'
    \<and> files w' d = files w d \<and> files w' (d @ [a]) = None
    \<and> (\<forall>x. x \<noteq> a \<longrightarrow> x \<noteq> c \<longrightarrow> files w' (d @ [x]) = files w (d @ [x]))"
proof -
  let ?ns = "fs_append (d @ [a]) newline (fs_append (d @ [a]) b (nodes w))"
  have moved: "map_of (fs_move (d @ [a]) (d @ [c]) ns) d = map_of ns d"
    "map_of (fs_move (d @ [a]) (d @ [c]) ns) (d @ [a]) = None"
    "x \<noteq> a \<Longrightarrow> x \<noteq> c \<Longrightarrow> map_of (fs_move (d @ [a]) (d @ [c]) ns) (d @ [x]) = map_of ns (d @ [x])" for ns x
    using map_of_fs_move_source [of "d @ [a]" "d @ [c]" ns "[]"] assms(5) by (simp_all add: map_of_fs_move_other)
  have appended: "map_of ?ns k = map_of (nodes w) k" if "k \<noteq> d @ [a]" for k
    using that by (simp add: map_of_fs_append_other)
  have "\<exists>w'. replace_file d (d @ [a]) (d @ [c]) b w = (Inr (), w') \<and> steady w w'
      \<and> nodes w' = fs_move (d @ [a]) (d @ [c]) ?ns"
    using assms moved(1)
    by (cases "map_of (nodes w) (d @ [c])")
      (auto simp: replace_file_def sync_directory_def fs_rename_def io_exec fs_append_regular
        fs_is_dir_set_regular fs_is_dir_def split: option.splits)
  then show ?thesis using moved appended by (metis append_self_conv not_Cons_self2 same_append_eq list.inject)
qed

lemma tx_write_atomic_effect:
  assumes "fault_free w" and "json_print J t = Inr s" and "pending_ready U d w"
  shows "\<exists>w'. tx_write_atomic U J d t True w = (Inr (), w') \<and> steady w w'
    \<and> files w' d = files w d \<and> (\<forall>u. files w' (pending_temporary U d u) = None)"
proof -
  define u where "u = entropy w (ticks w)"
  define a where "a = ''.pending-rollback.'' @ hyphenated U u @ ''.tmp''"
  let ?tmp = "pending_temporary U d u"
  let ?i = "\<lparr>ftype = Regular [], mode = 0x180, uid = 0, gid = 0\<rparr>"
  let ?w = "tick (tick (w\<lparr>nodes := fs_set ?tmp ?i (nodes w)\<rparr>))"
  obtain i where d: "map_of (nodes w) d = Some i" "ftype i = Directory"
    using assms(3) by (auto simp: pending_ready_def)
  have tmp: "?tmp = d @ [a]" by (simp add: pending_temporary_def a_def)
  have free: "map_of (nodes w) (pending_temporary U d v) = None" for v using assms(3) by (simp add: pending_ready_def)
  have "\<exists>w'. replace_file d (d @ [a]) (d @ [''pending-rollback.json'']) s ?w = (Inr (), w') \<and> steady ?w w'
    \<and> files w' d = files ?w d \<and> files w' (d @ [a]) = None
    \<and> (\<forall>x. x \<noteq> a \<longrightarrow> x \<noteq> ''pending-rollback.json'' \<longrightarrow> files w' (d @ [x]) = files ?w (d @ [x]))"
    by (rule replace_file_effect)
      (use assms d tmp in \<open>auto simp: fs_is_dir_def pending_ready_def pending_path_def a_def\<close>)
  then obtain w' where w': "replace_file d ?tmp (pending_path d) s ?w = (Inr (), w')" "steady w w'"
    "files w' d = files w d" "files w' ?tmp = None"
    "\<And>x. x \<noteq> a \<Longrightarrow> x \<noteq> ''pending-rollback.json'' \<Longrightarrow> files w' (d @ [x]) = files ?w (d @ [x])"
    by (auto simp: tmp pending_path_def)
  have temps: "files w' (pending_temporary U d v) = None" for v
    using w'(4) w'(5) [of "''.pending-rollback.'' @ hyphenated U v @ ''.tmp''"] free [of v]
    by (cases "pending_temporary U d v = ?tmp") (auto simp: pending_temporary_def tmp a_def)
  have "butlast ?tmp = d" "?tmp \<noteq> []" by (simp_all add: pending_temporary_def)
  with w' temps show ?thesis
    using assms(1,2) d free [of u]
    by (simp add: tx_write_atomic_def Let_def io_exec new_v4_def create_new_def tx_serialize_def
        fs_is_dir_def flip: u_def)
qed

lemma tx_update_effect:
  assumes "fault_free w" and "json_print J t = Inr s" and "pending_ready U d w"
    and "RollbackTransaction_validate U t = Inr ()"
  shows "\<exists>w'. tx_update_store U J d t w = (Inr (), w') \<and> steady w w' \<and> pending_ready U d w'"
proof -
  have "pending_ready U d (tick (tick w))" using assms(3) by (simp add: pending_ready_def)
  from tx_write_atomic_effect [OF _ assms(2) this] obtain w' where
    w': "tx_write_atomic U J d t True (tick (tick w)) = (Inr (), w')" "steady w w'"
    "files w' d = files w d" "\<And>u. files w' (pending_temporary U d u) = None"
    using assms(1) by auto
  with assms have run: "tx_update_store U J d t w = (Inr (), w')"
    by (auto simp: tx_update_store_def tx_ensure_real_directory_def io_exec pending_ready_def regular_content_def)
  from pending.put_ok [OF run] have "pending_ready U d w'"
    using assms(3) w' by (auto simp: pending_ready_def slot_holds_def)
  with run w'(2) show ?thesis by blast
qed


text \<open>What a step needs to succeed: no fault, a clock that has not gone back behind the
  creation of the transaction, a transaction store in order and a serializer that prints the
  transactions of this rollback.\<close>

definition boot_ready :: "libraries \<Rightarrow> RecoveryEngine \<Rightarrow> RollbackTransaction \<Rightarrow> world \<Rightarrow> bool" where
  "boot_ready L E t w \<longleftrightarrow>
     fault_free w \<and> (\<forall>n. tx_created_at t \<le> clock w n)
     \<and> fs_is_dir (nodes w) (top_level E) \<and> pending_ready (lib_uuid L) (engine_store E) w
     \<and> tx_valid (lib_uuid L) t \<and> tx_initramfs_boot_id t \<noteq> None
     \<and> (\<forall>t'. tx_binding t' = tx_binding t \<longrightarrow> (\<exists>s. json_print (lib_tx L) t' = Inr s))"

lemma outside_store: "top_level E \<notin> under (engine_store E)"
  by (auto simp: under_def engine_store_def transactions_dir_def engine_snapshot_root_def dest: prefix_length_le)

lemma boot_ready_frame:
  assumes "boot_ready L E t w" and "steady w w'"
    and "\<And>k. k = top_level E \<or> k \<in> under (engine_store E) \<Longrightarrow> files w' k = files w k"
  shows "boot_ready L E t w'"
proof -
  have "pending_path (engine_store E) \<in> under (engine_store E)" "engine_store E \<in> under (engine_store E)"
    "pending_temporary U (engine_store E) u \<in> under (engine_store E)" for U u
    by (simp_all add: under_def pending_path_def pending_temporary_def)
  then have "pending_ready (lib_uuid L) (engine_store E) w' = pending_ready (lib_uuid L) (engine_store E) w"
    using assms(3) by (simp add: pending_ready_def)
  moreover have "fs_is_dir (nodes w') (top_level E) = fs_is_dir (nodes w) (top_level E)"
    using assms(3) by (simp add: fs_is_dir_def)
  ultimately show ?thesis
    using assms(1,2) steady_fault_free [OF assms(2)] by (simp add: boot_ready_def steady_def)
qed

lemma persist_checkpoint_live:
  assumes "boot_ready L E t w"
  shows "\<exists>t' w'. persist_checkpoint L E (\<lambda>_. io_return ()) c t w = (Inr t', w') \<and> boot_ready L E t' w'
    \<and> tx_binding t' = tx_binding t \<and> (\<forall>k. k \<notin> under (engine_store E) \<longrightarrow> files w' k = files w k)"
proof -
  let ?now = "clock w (ticks w)"
  let ?t = "t\<lparr>tx_checkpoint := Some c, tx_checkpoint_at := Some ?now, tx_updated_at := ?now\<rparr>"
  have ready: "fault_free (tick w)" "tx_created_at t \<le> ?now" "pending_ready (lib_uuid L) (engine_store E) (tick w)"
    "tx_valid (lib_uuid L) t" "tx_initramfs_boot_id t \<noteq> None"
    using assms by (simp_all add: boot_ready_def pending_ready_def)
  have same: "tx_binding ?t = tx_binding t" by (simp add: tx_binding_def)
  then obtain s where print: "json_print (lib_tx L) ?t = Inr s" using assms unfolding boot_ready_def by blast
  note marked = record_checkpoint_ok [OF ready(4,5,2), of c]
  have valid: "tx_valid (lib_uuid L) ?t"
    using marked by (simp add: record_checkpoint_def split: if_splits)
  from tx_update_effect [OF ready(1) print ready(3) valid [unfolded tx_valid_def]] obtain w' where
    w': "tx_update_store (lib_uuid L) (lib_tx L) (engine_store E) ?t (tick w) = (Inr (), w')" "steady w w'"
      "pending_ready (lib_uuid L) (engine_store E) w'"
    by auto
  have run: "save_transaction L E ?t (tick w) = (Inr (), w')"
    using w'(1) by (simp add: save_transaction_def io_exec)
  have other: "files w' k = files w k" if "k \<notin> under (engine_store E)" for k
    using touchesD [OF touches_save_transaction run that] by simp
  have "boot_ready L E ?t w'"
    using assms w' valid same other [OF outside_store] steady_fault_free [OF w'(2)]
    by (simp add: boot_ready_def steady_def fs_is_dir_def)
  with same other run marked show ?thesis
    by (auto simp: persist_checkpoint_def io_bind_def utc_now_def run_update_def io_return_def)
qed

lemma layout_live:
  assumes "fault_free w" and "laid_out sw s (files w)"
  shows "layout sw w = (Inr s, tick (tick (tick w)))"
  using assms
  by (cases s) (auto simp: layout_def real_directory_def laid_out_def seen_def io_exec enoent_def split: if_splits)

context live_filesystem
begin

lemma exchange_step_live:
  assumes "filesystem E = F" and "boot_ready L E t w" and "change w = (Inr (), w1)" and "steady w w1"
    and "touches S change" and "top_level E \<notin> S" and "under (engine_store E) \<inter> S = {}"
  shows "\<exists>t' w'. exchange_step L E (\<lambda>_. io_return ()) change c t w = (Inr t', w') \<and> boot_ready L E t' w'
    \<and> tx_binding t' = tx_binding t \<and> (\<forall>k. k \<notin> under (engine_store E) \<longrightarrow> files w' k = files w1 k)"
proof -
  have "files w1 k = files w k" if "k = top_level E \<or> k \<in> under (engine_store E)" for k
    by (rule touchesD [OF assms(5,3)]) (use that assms(6,7) in blast)
  from boot_ready_frame [OF assms(2,4) this] have ready: "boot_ready L E t w1" .
  then obtain w2 where w2: "rf_sync F (top_level E) w1 = (Inr (), w2)" "steady w1 w2"
    using sync_live [of w1 "top_level E"] by (auto simp: boot_ready_def)
  have same: "files w2 k = files w1 k" for k using touchesD [OF sync_frame w2(1)] by simp
  from persist_checkpoint_live [OF boot_ready_frame [OF ready w2(2) same], of c] assms(1,3) w2(1) same
  show ?thesis by (auto simp: exchange_step_def io_bind_def)
qed


end

text \<open>How many changes a loop still makes from each layout.\<close>

definition apply_rank :: "((bool \<times> bool \<times> bool) \<times> nat) list" where
  "apply_rank = [((True, True, False), 0), ((False, True, True), 1), ((True, False, True), 2), ((True, False, False), 3)]"

definition revert_rank :: "((bool \<times> bool \<times> bool) \<times> nat) list" where
  "revert_rank = [((True, False, False), 0), ((True, False, True), 1), ((False, True, False), 1),
     ((False, True, True), 2), ((True, True, False), 3)]"

definition only_swaps :: "RecoveryEngine \<Rightarrow> swap \<Rightarrow> world \<Rightarrow> world \<Rightarrow> bool" where
  "only_swaps E sw w w' \<longleftrightarrow> (\<forall>k. k \<notin> under (engine_store E) \<longrightarrow> k \<notin> swap_paths sw \<longrightarrow> files w' k = files w k)"

lemma laid_out_only_swaps:
  assumes "only_swaps E sw w w'" and "swap_paths sw' \<inter> swap_paths sw = {}" and "under (engine_store E) \<inter> swap_paths sw' = {}"
    and "laid_out sw' s (files w)"
  shows "laid_out sw' s (files w')"
proof -
  have "sw_live sw' \<in> swap_paths sw'" "sw_old sw' \<in> swap_paths sw'" "sw_new sw' \<in> swap_paths sw'"
    by (auto simp: swap_paths_def under_def)
  then have "files w' (sw_live sw') = files w (sw_live sw')" "files w' (sw_old sw') = files w (sw_old sw')"
    "files w' (sw_new sw') = files w (sw_new sw')"
    using assms(1-3) unfolding only_swaps_def by blast+
  with assms(4) show ?thesis by (cases s) (simp add: laid_out_def seen_def)
qed

context live_filesystem
begin

text \<open>A step that succeeds and changes nothing beside the three names and the store.\<close>

lemma swap_step_live:
  assumes "filesystem E = F" and ok: "swap_ok (top_level E) sw" and ready: "boot_ready L E t w"
    and change: "change w = (Inr (), w1)" "steady w w1" "touches S change" and "S \<subseteq> swap_paths sw"
    and "laid_out sw s (files w1)"
  shows "\<exists>t' w'. exchange_step L E (\<lambda>_. io_return ()) change c t w = (Inr t', w') \<and> boot_ready L E t' w'
    \<and> tx_binding t' = tx_binding t \<and> laid_out sw s (files w') \<and> only_swaps E sw w w'"
proof -
  have outside: "under (engine_store E) \<inter> swap_paths sw = {}" "top_level E \<notin> swap_paths sw"
    using store_outside [OF ok] ok by (auto simp: swap_ok_def swap_paths_def under_def)
  with \<open>S \<subseteq> swap_paths sw\<close> have "top_level E \<notin> S" "under (engine_store E) \<inter> S = {}" by blast+
  from exchange_step_live [OF assms(1) ready change this, of c] obtain t' w' where
    w': "exchange_step L E (\<lambda>_. io_return ()) change c t w = (Inr t', w')" "boot_ready L E t' w'"
      "tx_binding t' = tx_binding t" "\<forall>k. k \<notin> under (engine_store E) \<longrightarrow> files w' k = files w1 k"
    by blast
  have "sw_live sw \<in> swap_paths sw" "sw_old sw \<in> swap_paths sw" "sw_new sw \<in> swap_paths sw"
    by (auto simp: swap_paths_def under_def)
  with outside(1) w'(4) assms(8) have "laid_out sw s (files w')" by (auto simp: laid_out_def seen_def disjoint_iff)
  moreover have "only_swaps E sw w w'"
    using w'(4) touchesD [OF change(3,1)] \<open>S \<subseteq> swap_paths sw\<close> by (auto simp: only_swaps_def)
  ultimately show ?thesis using w' by blast
qed

lemma rename_relays:
  assumes ok: "swap_ok (top_level E) sw" and "fault_free w" and "fs_is_dir (nodes w) (top_level E)"
    and "laid_out sw s (files w)"
    and "(p, q, s, s') \<in> {(sw_live sw, sw_old sw, (True, False, True), (False, True, True)),
        (sw_new sw, sw_live sw, (False, True, True), (True, True, False)),
        (sw_old sw, sw_live sw, (False, True, True), (True, False, True)),
        (sw_old sw, sw_live sw, (False, True, False), (True, False, False)),
        (sw_live sw, sw_new sw, (True, True, False), (False, True, True))}"
  shows "\<exists>w1. rf_rename F p q w = (Inr (), w1) \<and> steady w w1 \<and> laid_out sw s' (files w1)"
proof -
  have apart: "apart p q" using assms(5) swap_apart [OF ok] by auto
  have free: "free_name (nodes w) q" "map_of (nodes w) p \<noteq> None"
    using assms(3-5) ok by (auto simp: free_name_def laid_out_def swap_ok_def)
  obtain w1 where w1: "rf_rename F p q w = (Inr (), w1)" "steady w w1"
    using rename_live [OF assms(2) free(2,1) apart] by blast
  have moved: "files w1 q = files w p" "files w1 p = None" using rename_ok [OF apart w1(1), of "[]"] by simp_all
  have third: "files w1 k = files w k" if "apart k p" "apart k q" for k
    by (rule touchesD [OF rename_frame w1(1)]) (use that in \<open>auto simp: apart_def under_def\<close>)
  have "laid_out sw s' (files w1)"
    using assms(4,5) moved third [of "sw_new sw"] third [of "sw_old sw"] swap_apart [OF ok]
    by (auto simp: laid_out_def)
  with w1 show ?thesis by blast
qed

lemma delete_relays:
  assumes ok: "swap_ok (top_level E) sw" and "fault_free w" and "laid_out sw (True, False, True) (files w)"
  shows "\<exists>w1. rf_delete F (sw_new sw) w = (Inr (), w1) \<and> steady w w1 \<and> laid_out sw (True, False, False) (files w1)"
proof -
  obtain w1 where w1: "rf_delete F (sw_new sw) w = (Inr (), w1)" "steady w w1"
    using delete_live [OF assms(2), of "sw_new sw"] assms(3) by (auto simp: laid_out_def)
  have "files w1 (sw_new sw) = None" using delete_ok [OF w1(1), of "[]"] by simp
  moreover have "files w1 k = files w k" if "apart k (sw_new sw)" for k
    by (rule touchesD [OF delete_frame w1(1)]) (use that in \<open>auto simp: apart_def under_def\<close>)
  ultimately have "laid_out sw (True, False, False) (files w1)"
    using assms(3) swap_apart [OF ok] by (simp add: laid_out_def)
  with w1 show ?thesis by blast
qed

lemma snapshot_relays:
  assumes ok: "swap_ok (top_level E) sw" and "fault_free w" and "fs_is_dir (nodes w) (top_level E)"
    and "laid_out sw (True, False, False) (files w)" and "under target \<inter> swap_paths sw = {}"
    and "seen (files w) target True"
  shows "\<exists>w1. rf_snapshot F target (sw_new sw) w = (Inr (), w1) \<and> steady w w1 \<and> laid_out sw (True, False, True) (files w1)"
proof -
  have apart: "apart target (sw_new sw)" using assms(5) unfolding apart_def swap_paths_def under_def by blast
  have free: "free_name (nodes w) (sw_new sw)" "fs_is_dir (nodes w) target" "files w (sw_new sw) = None"
    using assms(3,4,6) ok by (auto simp: free_name_def laid_out_def swap_ok_def fs_is_dir_def)
  obtain w1 where w1: "rf_snapshot F target (sw_new sw) w = (Inr (), w1)" "steady w w1"
    using snapshot_live [OF assms(2) free(2,1) apart] by blast
  have "files w1 (sw_new sw) = files w target" using snapshot_ok [OF apart free(3) w1(1), of "[]"] by simp
  moreover have "files w1 k = files w k" if "apart k (sw_new sw)" for k
    by (rule touchesD [OF snapshot_frame w1(1)]) (use that in \<open>auto simp: apart_def under_def\<close>)
  ultimately have "laid_out sw (True, False, True) (files w1)"
    using assms(4,6) swap_apart [OF ok] by (simp add: laid_out_def)
  with w1 show ?thesis by blast
qed

text \<open>After the look at the layout a round is one step and the remaining rounds.\<close>

lemma round_live:
  assumes "filesystem E = F" and ok: "swap_ok (top_level E) sw" and ready: "boot_ready L E t w"
    and "\<exists>w1. change w = (Inr (), w1) \<and> steady w w1 \<and> laid_out sw s (files w1)" and "touches S change"
    and "S \<subseteq> swap_paths sw"
    and rest: "\<And>t' w'. boot_ready L E t' w' \<Longrightarrow> laid_out sw s (files w') \<Longrightarrow> tx_binding t' = tx_binding t \<Longrightarrow>
      only_swaps E sw w w' \<Longrightarrow>
      \<exists>x w''. m t' w' = (Inr x, w'') \<and> Q x w'' \<and> tx_binding (f x) = tx_binding t' \<and> only_swaps E sw w' w''"
  shows "\<exists>x w'. io_bind (exchange_step L E (\<lambda>_. io_return ()) change c t) m w = (Inr x, w')
    \<and> Q x w' \<and> tx_binding (f x) = tx_binding t \<and> only_swaps E sw w w'"
proof -
  obtain w1 where w1: "change w = (Inr (), w1)" "steady w w1" "laid_out sw s (files w1)" using assms(4) by blast
  from swap_step_live [OF assms(1-3) w1(1,2) assms(5,6) w1(3), of c] obtain t' w' where
    w': "exchange_step L E (\<lambda>_. io_return ()) change c t w = (Inr t', w')" "boot_ready L E t' w'"
      "tx_binding t' = tx_binding t" "laid_out sw s (files w')" "only_swaps E sw w w'"
    by blast
  with rest [OF w'(2,4,3,5)] show ?thesis by (fastforce simp: io_bind_def only_swaps_def)
qed

lemma looked_live:
  assumes "boot_ready L E t w" and "laid_out sw s (files w)"
  shows "layout sw w = (Inr s, tick (tick (tick w)))" "boot_ready L E t (tick (tick (tick w)))"
    "fault_free (tick (tick (tick w)))" "fs_is_dir (nodes (tick (tick (tick w)))) (top_level E)"
    "laid_out sw s (files (tick (tick (tick w))))"
    "only_swaps E sw w w' = only_swaps E sw (tick (tick (tick w))) w'"
proof -
  show ready: "boot_ready L E t (tick (tick (tick w)))" by (rule boot_ready_frame [OF assms(1)]) simp_all
  then show "fault_free (tick (tick (tick w)))" "fs_is_dir (nodes (tick (tick (tick w)))) (top_level E)"
    by (simp_all add: boot_ready_def)
  then show "layout sw w = (Inr s, tick (tick (tick w)))" using layout_live [OF _ assms(2)] by simp
qed (use assms(2) in \<open>simp_all add: only_swaps_def\<close>)

lemma revert_loop_live:
  assumes "filesystem E = F" and ok: "swap_ok (top_level E) sw"
  shows "boot_ready L E t w \<Longrightarrow> laid_out sw s (files w) \<Longrightarrow> (s, m) \<in> set revert_rank \<Longrightarrow> m < n \<Longrightarrow>
    \<exists>t' w'. revert_loop L E (\<lambda>_. io_return ()) operation exhausted sw cs n t w = (Inr t', w') \<and> boot_ready L E t' w'
      \<and> tx_binding t' = tx_binding t \<and> only_swaps E sw w w'"
proof (induction n arbitrary: t w s m)
  case (Suc n)
  obtain deleted activated aside where cs: "cs = (deleted, activated, aside)" by (cases cs)
  note look = looked_live [OF Suc.prems(1,2)]
  have go: "\<exists>t' w'. io_bind (exchange_step L E (\<lambda>_. io_return ()) change c t)
        (revert_loop L E (\<lambda>_. io_return ()) operation exhausted sw cs n) (tick (tick (tick w))) = (Inr t', w')
      \<and> boot_ready L E t' w' \<and> tx_binding t' = tx_binding t \<and> only_swaps E sw w w'"
    if "\<exists>w1. change (tick (tick (tick w))) = (Inr (), w1) \<and> steady (tick (tick (tick w))) w1 \<and> laid_out sw s' (files w1)"
      "touches S change" "(s', k) \<in> set revert_rank" "k < n" "S \<subseteq> swap_paths sw" for change c s' k S
    unfolding look(6)
    by (rule round_live [where f = "\<lambda>x. x" and Q = "boot_ready L E", OF assms look(2) that(1,2,5)]) (rule Suc.IH [OF _ _ that(3,4)])
  note move = go [OF rename_relays [OF ok look(3-5)] rename_frame]
  consider "s = (True, False, False)" | "s = (True, False, True)" "m = 1" | "s = (False, True, False)" "m = 1"
    | "s = (False, True, True)" "m = 2" | "s = (True, True, False)" "m = 3"
    using Suc.prems(3) by (auto simp: revert_rank_def)
  then show ?case
  proof cases
    case 1
    with look(1,2) show ?thesis by (simp add: cs io_bind_def io_return_def only_swaps_def)
  next
    case 2
    with go [OF delete_relays [OF ok look(3)] delete_frame, of 0 deleted] look Suc.prems(4) show ?thesis
      by (auto simp: cs io_bind_def assms(1) swap_paths_def revert_rank_def)
  next
    case 3
    with move [of "sw_old sw" "sw_live sw" "(True, False, False)" 0 activated] look(1) Suc.prems(4) show ?thesis
      by (auto simp: cs io_bind_def assms(1) swap_paths_def revert_rank_def)
  next
    case 4
    with move [of "sw_old sw" "sw_live sw" "(True, False, True)" 1 activated] look(1) Suc.prems(4) show ?thesis
      by (auto simp: cs io_bind_def assms(1) swap_paths_def revert_rank_def)
  next
    case 5
    with move [of "sw_live sw" "sw_new sw" "(False, True, True)" 2 aside] look(1) Suc.prems(4) show ?thesis
      by (auto simp: cs io_bind_def assms(1) swap_paths_def revert_rank_def)
  qed
qed simp

lemma apply_loop_live:
  assumes "filesystem E = F" and ok: "swap_ok (top_level E) sw" and out: "under target \<inter> swap_paths sw = {}"
    and store: "under (engine_store E) \<inter> under target = {}"
  shows "boot_ready L E t w \<Longrightarrow> laid_out sw s (files w) \<Longrightarrow> seen (files w) target True \<Longrightarrow> (s, m) \<in> set apply_rank \<Longrightarrow>
    m < n \<Longrightarrow> \<exists>x w'. apply_loop L E (\<lambda>_. io_return ()) operation sw target cs n t w = (Inr x, w')
      \<and> (boot_ready L E (fst x) w' \<and> snd x) \<and> tx_binding (fst x) = tx_binding t \<and> only_swaps E sw w w'"
proof (induction n arbitrary: t w s m)
  case (Suc n)
  obtain created protected activated where cs: "cs = (created, protected, activated)" by (cases cs)
  have there: "target \<notin> swap_paths sw" "target \<notin> under (engine_store E)" using out store by (auto simp: under_def)
  note look = looked_live [OF Suc.prems(1,2)]
  have go: "\<exists>x w'. io_bind (exchange_step L E (\<lambda>_. io_return ()) change c t)
        (apply_loop L E (\<lambda>_. io_return ()) operation sw target cs n) (tick (tick (tick w))) = (Inr x, w')
      \<and> (boot_ready L E (fst x) w' \<and> snd x) \<and> tx_binding (fst x) = tx_binding t \<and> only_swaps E sw w w'"
    if "\<exists>w1. change (tick (tick (tick w))) = (Inr (), w1) \<and> steady (tick (tick (tick w))) w1 \<and> laid_out sw s' (files w1)"
      "touches S change" "(s', k) \<in> set apply_rank" "k < n" "S \<subseteq> swap_paths sw" for change c s' k S
    unfolding look(6)
  proof (rule round_live [where f = fst and Q = "\<lambda>x w. boot_ready L E (fst x) w \<and> snd x",
        OF assms(1,2) look(2) that(1,2,5)])
    fix t' w'
    assume "boot_ready L E t' w'" "laid_out sw s' (files w')" "only_swaps E sw (tick (tick (tick w))) w'"
    moreover from this(3) have "seen (files w') target True" using there Suc.prems(3) by (simp add: only_swaps_def)
    ultimately show "\<exists>x w''. apply_loop L E (\<lambda>_. io_return ()) operation sw target cs n t' w' = (Inr x, w'')
      \<and> (boot_ready L E (fst x) w'' \<and> snd x) \<and> tx_binding (fst x) = tx_binding t' \<and> only_swaps E sw w' w''"
      using Suc.IH [OF _ _ _ that(3,4)] by blast
  qed
  note move = go [OF rename_relays [OF ok look(3-5)] rename_frame]
  consider "s = (True, True, False)" | "s = (False, True, True)" "m = 1" | "s = (True, False, True)" "m = 2"
    | "s = (True, False, False)" "m = 3"
    using Suc.prems(4) by (auto simp: apply_rank_def)
  then show ?case
  proof cases
    case 1
    with look(1,2) show ?thesis by (simp add: cs io_bind_def io_return_def only_swaps_def)
  next
    case 2
    with move [of "sw_new sw" "sw_live sw" "(True, True, False)" 0 activated] look(1) Suc.prems(5) show ?thesis
      by (auto simp: cs io_bind_def assms(1) swap_paths_def apply_rank_def)
  next
    case 3
    with move [of "sw_live sw" "sw_old sw" "(False, True, True)" 1 protected] look(1) Suc.prems(5) show ?thesis
      by (auto simp: cs io_bind_def assms(1) swap_paths_def apply_rank_def)
  next
    case 4
    with go [OF snapshot_relays [OF ok look(3,4) _ out] snapshot_frame, of 2 created] look Suc.prems(3,5) show ?thesis
      by (auto simp: cs io_bind_def assms(1) swap_paths_def apply_rank_def)
  qed
qed simp


text \<open>The whole of a revert and of an apply.\<close>

lemma revert_live:
  assumes "filesystem E = F" and "boot_ready L E t w"
    and "\<not> tx_home_only t \<Longrightarrow> \<exists>s m. laid_out (root_swap L E t) s (files w) \<and> (s, m) \<in> set revert_rank"
    and "tx_reset_home t \<Longrightarrow> \<exists>s m. laid_out (home_swap L E t) s (files w) \<and> (s, m) \<in> set revert_rank"
  shows "\<exists>t' w'. revert L E (\<lambda>_. io_return ()) t w = (Inr t', w') \<and> boot_ready L E t' w'"
proof -
  have small: "m < 6" if "(s, m) \<in> set revert_rank" for s m using that by (auto simp: revert_rank_def)
  let ?home = "if tx_reset_home t then revert_home L E (\<lambda>_. io_return ()) t else io_return t"
  have "\<exists>t1 w1. ?home w = (Inr t1, w1) \<and> boot_ready L E t1 w1 \<and> tx_binding t1 = tx_binding t
      \<and> only_swaps E (home_swap L E t) w w1"
  proof (cases "tx_reset_home t")
    case True
    then obtain s m where "laid_out (home_swap L E t) s (files w)" "(s, m) \<in> set revert_rank" using assms(4) by blast
    with revert_loop_live [OF assms(1) swaps_ok(2) assms(2) this small [OF this(2)]] True show ?thesis
      by (simp add: revert_home_def)
  qed (use assms(2) in \<open>simp add: io_return_def only_swaps_def\<close>)
  then obtain t1 w1 where w1: "?home w = (Inr t1, w1)" "boot_ready L E t1 w1" "tx_binding t1 = tx_binding t"
      "only_swaps E (home_swap L E t) w w1" by blast
  show ?thesis
  proof (cases "tx_home_only t")
    case True
    then have "tx_home_only t1" using w1(3) by (simp add: tx_binding_def)
    with w1 show ?thesis by (simp add: revert_def io_bind_def io_return_def)
  next
    case False
    then obtain s m where s: "laid_out (root_swap L E t) s (files w)" "(s, m) \<in> set revert_rank" using assms(3) by blast
    have "laid_out (root_swap L E t) s (files w1)"
      by (rule laid_out_only_swaps [OF w1(4) swaps_disjoint store_outside [OF swaps_ok(1)] s(1)])
    then have "laid_out (root_swap L E t1) s (files w1)" by (simp add: same_swaps [OF w1(3)])
    moreover have "\<not> tx_home_only t1" using False w1(3) by (simp add: tx_binding_def)
    ultimately show ?thesis
      using revert_loop_live [OF assms(1) swaps_ok(1) w1(2) _ s(2) small [OF s(2)]] w1(1)
      by (fastforce simp: revert_def io_bind_def)
  qed
qed


lemma settled_layout:
  "io_triple (\<lambda>_. True) (apply_loop L E observe operation sw target cs n t)
    (\<lambda>x w. snd x \<longrightarrow> laid_out sw (True, True, False) (files w)) (\<lambda>_ _. True)"
proof (induction n arbitrary: t)
  case (Suc n)
  obtain created protected activated where cs: "cs = (created, protected, activated)" by (cases cs)
  have any: "io_triple P (m :: ('e, 'x) io) (\<lambda>_ _. True) (\<lambda>_ _. True)" for P m
    by (rule io_tripleI) simp_all
  have rest: "io_triple P (io_bind m (apply_loop L E observe operation sw target cs n))
    (\<lambda>x w. snd x \<longrightarrow> laid_out sw (True, True, False) (files w)) (\<lambda>_ _. True)" for P m
    by (rule triple_bind [OF any Suc.IH])
  show ?case
    unfolding cs apply_loop.simps
    by (rule triple_bind [OF triple_layout' [where I = "\<lambda>_. True"]], simp)
      (auto intro!: rest [unfolded cs] triple_if triple_throw triple_return)
qed (simp add: triple_return)

lemma apply_home_live:
  assumes "filesystem E = F" and "boot_ready L E t w" and "tx_factory_home_snapshot_id t = Some i"
    and "laid_out (home_swap L E t) s (files w)" and "(s, m) \<in> set apply_rank"
    and "seen (files w) (personal_snapshot_home L E i) True"
  shows "\<exists>t' w'. apply_home L E (\<lambda>_. io_return ()) t w = (Inr t', w')"
proof -
  have "m < 5" using assms(5) by (auto simp: apply_rank_def)
  from apply_loop_live [OF assms(1) swaps_ok(2) snapshot_targets(2,4) [OF swaps_ok(2)] assms(2,4,6,5) this]
  obtain x w' where "apply_loop L E (\<lambda>_. io_return ()) ''factory Home apply'' (home_swap L E t)
      (personal_snapshot_home L E i) (WritableHomeCreated, CurrentHomeProtected, TargetHomeActivated) 5 t w = (Inr x, w')"
    "snd x" by blast
  then show ?thesis using assms(3) by (cases x) (simp add: apply_home_def io_bind_def io_return_def)
qed

lemma apply_live:
  assumes fs: "filesystem E = F" and ready: "boot_ready L E t w"
    and root: "\<not> tx_home_only t \<Longrightarrow> seen (files w) (deployment_root L E (tx_target_deployment_id t)) True
      \<and> (\<exists>s m. laid_out (root_swap L E t) s (files w) \<and> (s, m) \<in> set apply_rank)"
    and home: "tx_reset_home t \<or> tx_home_only t \<Longrightarrow> \<exists>i s m. tx_factory_home_snapshot_id t = Some i
      \<and> seen (files w) (personal_snapshot_home L E i) True
      \<and> laid_out (home_swap L E t) s (files w) \<and> (s, m) \<in> set apply_rank"
  shows "\<exists>t' w'. RecoveryEngine_apply L E (\<lambda>_. io_return ()) t w = (Inr t', w')"
proof (cases "tx_home_only t")
  case True
  with home apply_home_live [OF fs ready] show ?thesis by (auto simp: RecoveryEngine_apply_def)
next
  case False
  then obtain s m where s: "laid_out (root_swap L E t) s (files w)" "(s, m) \<in> set apply_rank"
    "seen (files w) (deployment_root L E (tx_target_deployment_id t)) True" using root by blast
  let ?loop = "apply_loop L E (\<lambda>_. io_return ()) ''apply'' (root_swap L E t) (deployment_root L E (tx_target_deployment_id t))
    (WritableTargetCreated, CurrentRootProtected, TargetRootActivated) 5 t w"
  have "m < 5" using s(2) by (auto simp: apply_rank_def)
  from apply_loop_live [OF fs swaps_ok(1) snapshot_targets(1,3) [OF swaps_ok(1)] ready s(1,3,2) this]
  obtain t1 w1 where w1: "?loop = (Inr (t1, True), w1)" "boot_ready L E t1 w1" "tx_binding t1 = tx_binding t"
    "only_swaps E (root_swap L E t) w w1" by fastforce
  have out: "personal_snapshot_home L E i \<notin> swap_paths (root_swap L E t)"
    "personal_snapshot_home L E i \<notin> under (engine_store E)" for i
    using snapshot_targets(2) [OF swaps_ok(1), of L E i L t] snapshot_targets(4) [OF swaps_ok(1), of E L i]
    by (auto simp: under_def)
  have "laid_out (root_swap L E t) (True, True, False) (files w1)"
    using io_tripleD_ok [OF settled_layout TrueI w1(1)] by simp
  then have look: "layout (root_swap L E t1) w1 = (Inr (True, True, False), tick (tick (tick w1)))"
    "boot_ready L E t1 (tick (tick (tick w1)))"
    using looked_live [OF w1(2)] by (simp_all add: same_swaps [OF w1(3)])
  show ?thesis
  proof (cases "tx_reset_home t")
    case True
    with home obtain i s m where h: "tx_factory_home_snapshot_id t = Some i"
      "seen (files w) (personal_snapshot_home L E i) True"
      "laid_out (home_swap L E t) s (files w)" "(s, m) \<in> set apply_rank" by blast
    have "laid_out (home_swap L E t) s (files w1)"
      by (rule laid_out_only_swaps [OF w1(4) _ store_outside [OF swaps_ok(2)] h(3)]) (use swaps_disjoint in blast)
    with apply_home_live [OF fs look(2), of i s m] h out w1(3,4) True look(1) w1(1) False show ?thesis
      by (auto simp: RecoveryEngine_apply_def io_bind_def tx_binding_def same_swaps [OF w1(3)] only_swaps_def)
  next
    case nothing: False
    with look(1) w1(1,3) False show ?thesis
      by (simp add: RecoveryEngine_apply_def io_bind_def tx_binding_def io_return_def)
  qed
qed

end

subsection \<open>The engine on the system's command\<close>

text \<open>
  C3. A revert that reports success has brought the previous root and Home back:
  from any layout in which they are kept, whatever fails on the way, when \<open>revert\<close>
  returns without an error the live root holds exactly the tree that was kept and neither
  the set-aside nor the new subvolume is left; the same for the Home where the rollback
  replaced it.
\<close>

theorem revert_brings_back:
  assumes "btrfs_behaves C" and "E = \<lparr>top_level = d, filesystem = system_fs (lib_uuid L) C\<rparr>"
    and "kept (root_swap L E t) T (map_of (nodes w))" and "kept (home_swap L E t) H (map_of (nodes w))"
    and "revert L E (\<lambda>_. io_return ()) t w = (Inr t', w')"
  shows "(\<not> tx_home_only t \<longrightarrow> restored (root_swap L E t) T (map_of (nodes w')))
    \<and> (tx_reset_home t \<longrightarrow> restored (home_swap L E t) H (map_of (nodes w')))"
proof -
  have "filesystem E = system_fs (lib_uuid L) C" using assms(2) by simp
  from recovery_filesystem.revert_restores_both [OF system_fs_laws [OF assms(1)] this no_observer, of L t T H]
  show ?thesis using assms(3-5) by (auto dest!: io_tripleD_ok)
qed

text \<open>
  C4. An apply that reports success has installed exactly what was asked for: starting
  anywhere on the way and whatever fails, when \<open>apply\<close> returns without an error the live
  root is a copy of the target deployment's snapshot and the previous root is set aside
  unchanged under its own name, with no third subvolume left; the same for the Home and
  the personal snapshot when the Home is in scope.
\<close>

theorem apply_installs_target:
  assumes "btrfs_behaves C" and "E = \<lparr>top_level = d, filesystem = system_fs (lib_uuid L) C\<rparr>"
    and "apply_ready L E t T G H V (map_of (nodes w))"
    and "RecoveryEngine_apply L E (\<lambda>_. io_return ()) t w = (Inr t', w')"
  shows "apply_done L E t T G H V (map_of (nodes w'))"
proof -
  have "filesystem E = system_fs (lib_uuid L) C" using assms(2) by simp
  from recovery_filesystem.apply_installs_both [OF system_fs_laws [OF assms(1)] this no_observer, of L t T G H V]
  show ?thesis using assms(3,4) by (auto dest!: io_tripleD_ok)
qed

text \<open>
  C5. Without faults a revert converges: from every layout an interrupted apply or
  revert can leave (five of the eight), with the transaction entered in an initramfs and
  its store in order, \<open>revert\<close> returns a transaction within its six rounds and has put
  the previous root, and the Home where it was replaced, back.
\<close>

theorem revert_converges:
  assumes "btrfs_behaves C" and "btrfs_responds C"
    and "E = \<lparr>top_level = d, filesystem = system_fs (lib_uuid L) C\<rparr>" and "boot_ready L E t w"
    and "kept (root_swap L E t) T (map_of (nodes w))" and "kept (home_swap L E t) H (map_of (nodes w))"
    and "\<not> tx_home_only t \<Longrightarrow> \<exists>s \<in> set (map fst revert_rank). laid_out (root_swap L E t) s (map_of (nodes w))"
    and "tx_reset_home t \<Longrightarrow> \<exists>s \<in> set (map fst revert_rank). laid_out (home_swap L E t) s (map_of (nodes w))"
  shows "\<exists>t' w'. revert L E (\<lambda>_. io_return ()) t w = (Inr t', w')
    \<and> (\<not> tx_home_only t \<longrightarrow> restored (root_swap L E t) T (map_of (nodes w')))
    \<and> (tx_reset_home t \<longrightarrow> restored (home_swap L E t) H (map_of (nodes w')))"
proof -
  have fs: "filesystem E = system_fs (lib_uuid L) C" using assms(3) by simp
  from live_filesystem.revert_live [OF system_fs_live [OF assms(1,2)] fs assms(4)] assms(7,8)
  obtain t' w' where run: "revert L E (\<lambda>_. io_return ()) t w = (Inr t', w')" by fastforce
  with io_tripleD_ok [OF recovery_filesystem.revert_restores_both [OF system_fs_laws [OF assms(1)] fs no_observer] _ run]
    assms(5,6) show ?thesis by blast
qed

lemma underway_rank:
  assumes "underway sw T G f" and "\<exists>i. T [] = Some i \<and> ftype i = Directory" and "\<exists>i. G [] = Some i \<and> ftype i = Directory"
  shows "\<exists>s m. laid_out sw s f \<and> (s, m) \<in> set apply_rank"
proof -
  have "holds_at f p T \<Longrightarrow> seen f p True" "holds_at f p G \<Longrightarrow> seen f p True" for p
    using assms(2,3) by (auto dest: holds_at_root)
  then have "laid_out sw (True, False, False) f \<or> laid_out sw (True, False, True) f
      \<or> laid_out sw (False, True, True) f \<or> laid_out sw (True, True, False) f"
    using assms(1) by (auto simp: underway_def laid_out_def)
  then show ?thesis by (fastforce simp: apply_rank_def)
qed


subsection \<open>An instance\<close>

text \<open>A machine before the apply, and the same machine with the target activated.\<close>

definition quiet_world :: "tree \<Rightarrow> world" where
  "quiet_world ns =
     \<lparr>nodes = [([''t''], a_dir), ([''t'', ''@home''], a_dir), (example_store @ [''transactions''], a_dir),
               (example_store @ [''transactions'', ''pending-rollback.json''], a_file (''T'' @ newline)),
               (example_store @ [''deployments'', ''u1'', ''root''], a_dir),
               (example_store @ [''deployments'', ''u1'', ''root'', ''usr''], a_dir)] @ ns,
      ticks = 0, fault = (\<lambda>_. None), clock = (\<lambda>n. 200 + int n), entropy = (\<lambda>n. 1)\<rparr>"

definition before_apply :: world where
  "before_apply = quiet_world [([''t'', ''@root''], a_dir), ([''t'', ''@root'', ''etc''], a_dir)]"

definition target_activated :: world where
  "target_activated = quiet_world
     [([''t'', ''@root''], a_dir), ([''t'', ''@root'', ''usr''], a_dir),
      ([''t'', ''@root.snapshots-manager-old-u3''], a_dir), ([''t'', ''@root.snapshots-manager-old-u3'', ''etc''], a_dir)]"

definition dir_with :: "string \<Rightarrow> path \<Rightarrow> inode option" where
  "dir_with n r = map_of [([], a_dir), ([n], a_dir)] r"

definition empty_dir :: "path \<Rightarrow> inode option" where
  "empty_dir r = map_of [([], a_dir)] r"

lemma example_entered_facts:
  "tx_valid example_uuid_lib example_entered" "tx_binding example_entered = tx_binding example_transaction"
  "tx_initramfs_boot_id example_entered = Some ''u2''" "tx_created_at example_entered = 100"
  "tx_id example_entered = 3" "\<not> tx_home_only example_entered" "\<not> tx_reset_home example_entered"
  "tx_target_deployment_id example_entered = 1"
proof -
  show "tx_valid example_uuid_lib example_entered"
    using example_entry by (auto simp: record_initramfs_entry_def split: if_splits)
  have "\<exists>n. example_entered = example_transaction\<lparr>tx_initramfs_attempts := n, tx_initramfs_boot_id := Some ''u2'',
      tx_checkpoint := Some InitramfsEntered, tx_checkpoint_at := Some 110, tx_updated_at := 110\<rparr>"
    using example_entry by (auto simp: record_initramfs_entry_def split: if_splits)
  then show "tx_initramfs_boot_id example_entered = Some ''u2''"
    by (auto dest: arg_cong [where f = tx_initramfs_boot_id])
  show bound: "tx_binding example_entered = tx_binding example_transaction" by (simp add: example_entered_def)
  then show "tx_id example_entered = 3" "tx_created_at example_entered = 100" "\<not> tx_home_only example_entered"
    "\<not> tx_reset_home example_entered" "tx_target_deployment_id example_entered = 1"
    by (simp_all add: tx_binding_def example_transaction_def RollbackTransaction_new_def)
qed

lemmas example_paths = example_store_def example_engine_def example_libraries_def engine_store_def transactions_dir_def
  engine_snapshot_root_def root_swap_def home_swap_def old_root_name_def new_root_name_def old_home_name_def
  new_home_name_def pending_path_def pending_temporary_def deployment_root_def example_entered_facts example_uuid_lib_def

lemma quiet_ready:
  assumes "\<And>k. k \<in> set (map fst ns) \<Longrightarrow> \<exists>x r. k = ''t'' # (''@'' @ CHR ''r'' # x) # r"
  shows "boot_ready example_libraries example_engine example_entered (quiet_world ns)"
proof -
  have "map_of ns ([''t'', ''@snapshots''] @ r) = None" for r
    using assms by (fastforce simp: map_of_eq_None_iff)
  then have store: "pending_ready example_uuid_lib (engine_store example_engine) (quiet_world ns)"
    by (simp add: pending_ready_def quiet_world_def example_paths a_dir_def a_file_def)
  have "fault_free (quiet_world ns)" "fs_is_dir (nodes (quiet_world ns)) (top_level example_engine)"
    by (simp_all add: quiet_world_def fault_free_def fs_is_dir_def example_engine_def a_dir_def)
  with store show ?thesis
    using example_entered_facts
    by (simp add: boot_ready_def example_libraries_def example_boot_json_def quiet_world_def)
qed

lemma target_activated_kept:
  "kept (root_swap example_libraries example_engine example_entered) (dir_with ''etc'') (map_of (nodes target_activated))"
  "kept (home_swap example_libraries example_engine example_entered) empty_dir (map_of (nodes target_activated))"
  "laid_out (root_swap example_libraries example_engine example_entered) (True, True, False) (map_of (nodes target_activated))"
  by (auto simp: kept_def laid_out_def target_activated_def quiet_world_def dir_with_def empty_dir_def example_paths a_dir_def)

lemma before_apply_ready:
  "apply_ready example_libraries example_engine example_entered (dir_with ''etc'') (dir_with ''usr'') empty_dir empty_dir
     (map_of (nodes before_apply))"
  by (auto simp: apply_ready_def underway_def holds_at_def before_apply_def quiet_world_def dir_with_def example_paths)


lemma example_engine_eq:
  "example_engine = \<lparr>top_level = [''t''], filesystem = system_fs (lib_uuid example_libraries) simulated_btrfs\<rparr>"
  by (simp add: example_engine_def example_libraries_def)

lemma target_activated_ready: "boot_ready example_libraries example_engine example_entered target_activated"
  unfolding target_activated_def by (rule quiet_ready) auto

lemma before_apply_boot_ready: "boot_ready example_libraries example_engine example_entered before_apply"
  unfolding before_apply_def by (rule quiet_ready) auto

lemma example_live: "live_filesystem (filesystem example_engine)"
  by (simp add: example_engine_eq system_fs_live simulated_behaves simulated_responds)

theorem revert_brings_back_witness:
  "\<exists>t' w'. revert example_libraries example_engine (\<lambda>_. io_return ()) example_entered target_activated = (Inr t', w')
    \<and> restored (root_swap example_libraries example_engine example_entered) (dir_with ''etc'') (map_of (nodes w'))"
proof -
  have "\<exists>t' w'. revert example_libraries example_engine (\<lambda>_. io_return ()) example_entered target_activated = (Inr t', w')
      \<and> boot_ready example_libraries example_engine t' w'"
    by (rule live_filesystem.revert_live [OF example_live refl target_activated_ready])
      (use target_activated_kept(3) example_entered_facts in \<open>auto simp: revert_rank_def\<close>)
  then obtain t' w' where
    run: "revert example_libraries example_engine (\<lambda>_. io_return ()) example_entered target_activated = (Inr t', w')"
    by blast
  from revert_brings_back [OF simulated_behaves example_engine_eq target_activated_kept(1,2) run] run show ?thesis
    using example_entered_facts by blast
qed

theorem revert_converges_witness:
  "\<exists>t' w'. revert example_libraries example_engine (\<lambda>_. io_return ()) example_entered target_activated = (Inr t', w')
    \<and> restored (root_swap example_libraries example_engine example_entered) (dir_with ''etc'') (map_of (nodes w'))"
proof -
  have "\<exists>s \<in> set (map fst revert_rank). laid_out (root_swap example_libraries example_engine example_entered) s
      (map_of (nodes target_activated))"
    using target_activated_kept(3) by (simp add: revert_rank_def)
  from revert_converges [OF simulated_behaves simulated_responds example_engine_eq target_activated_ready
      target_activated_kept(1,2) this] show ?thesis
    using example_entered_facts by blast
qed

theorem apply_installs_target_witness:
  "\<exists>t' w'. RecoveryEngine_apply example_libraries example_engine (\<lambda>_. io_return ()) example_entered before_apply = (Inr t', w')
    \<and> installed (root_swap example_libraries example_engine example_entered) (dir_with ''etc'') (dir_with ''usr'')
        (map_of (nodes w'))"
proof -
  have "\<exists>s m. laid_out (root_swap example_libraries example_engine example_entered) s (map_of (nodes before_apply))
      \<and> (s, m) \<in> set apply_rank"
    using underway_rank [of _ "dir_with ''etc''" "dir_with ''usr''"] before_apply_ready example_entered_facts
    by (auto simp: apply_ready_def dir_with_def a_dir_def)
  moreover have "seen (map_of (nodes before_apply)) (deployment_root example_libraries example_engine 1) True"
    by (simp add: before_apply_def quiet_world_def example_paths a_dir_def)
  ultimately have "\<exists>t' w'. RecoveryEngine_apply example_libraries example_engine (\<lambda>_. io_return ()) example_entered
      before_apply = (Inr t', w')"
    by (intro live_filesystem.apply_live [OF example_live refl before_apply_boot_ready])
      (use example_entered_facts in auto)
  then obtain t' w' where
    run: "RecoveryEngine_apply example_libraries example_engine (\<lambda>_. io_return ()) example_entered before_apply = (Inr t', w')"
    by blast
  from apply_installs_target [OF simulated_behaves example_engine_eq before_apply_ready run] run show ?thesis
    using example_entered_facts by (auto simp: apply_done_def)
qed


end
