(* ===== verification/Lineage.thy ===== *)
theory Lineage
  imports Transaction Atomic_File
begin

text \<open>
  The system lineage of \<open>lineage.rs\<close>: the forest of recovery points with the head the
  machine runs from and the log of activations, its validation with the cycle search,
  the mutations, and the store that applies a mutation under a lock and commits the
  result atomically.
\<close>

subsection \<open>Data\<close>

definition LINEAGE_SCHEMA_VERSION :: u32 where "LINEAGE_SCHEMA_VERSION = 1"

definition MAX_LINEAGE_BYTES :: nat where "MAX_LINEAGE_BYTES = 4 * 1024 * 1024"

definition MAX_LINEAGE_NODES :: nat where "MAX_LINEAGE_NODES = 100000"

definition MAX_ACTIVATION_EVENTS :: nat where "MAX_ACTIVATION_EVENTS = 10000"

datatype LineageRelation = Exact | LegacyUnknown

datatype ActivationOutcome = ActConfirmed | ActReverted

record LineageNode =
  ln_id :: uuid
  ln_parent_id :: "uuid option"
  ln_relation :: LineageRelation
  ln_created_at :: timestamp
  ln_kind :: DeploymentKind
  ln_title :: string
  ln_snapshot_available :: bool
  ln_removed_at :: "timestamp option"

record ActivationEvent =
  ae_transaction_id :: string
  ae_previous_head_id :: "uuid option"
  ae_target_id :: uuid
  ae_safety_id :: uuid
  ae_scheduled_at :: timestamp
  ae_completed_at :: timestamp
  ae_outcome :: ActivationOutcome

record SystemLineage =
  sl_schema_version :: u32
  sl_revision :: u64
  sl_current_head_id :: "uuid option"
  sl_nodes :: "LineageNode list"
  sl_activations :: "ActivationEvent list"

datatype LineageErrorCode = LeUnsafePath | LeInvalidRecord | LeIo

record LineageError =
  le_code :: LineageErrorCode
  le_message :: string

definition LineageError_new :: "LineageErrorCode \<Rightarrow> string \<Rightarrow> LineageError" where
  "LineageError_new c m = \<lparr>le_code = c, le_message = m\<rparr>"

definition LineageError_invalid :: "string \<Rightarrow> LineageError" where
  "LineageError_invalid m = LineageError_new LeInvalidRecord m"

definition lineage_io_error :: "string \<Rightarrow> io_error \<Rightarrow> LineageError" where
  "lineage_io_error context e = LineageError_new LeIo (context @ '': '' @ err_text e)"

subsection \<open>Migration\<close>

text \<open>\<open>Iterator::max_by_key\<close>: the last of the greatest elements.\<close>

definition max_by_key :: "('a \<Rightarrow> int) \<Rightarrow> 'a list \<Rightarrow> 'a option" where
  "max_by_key f xs = fold (\<lambda>x best. case best of
       None \<Rightarrow> Some x
     | Some y \<Rightarrow> if f y \<le> f x then Some x else Some y) xs None"

definition migrate_node :: "DeploymentRecord \<Rightarrow> LineageNode" where
  "migrate_node r =
     \<lparr>ln_id = dep_id r, ln_parent_id = None, ln_relation = LegacyUnknown,
      ln_created_at = dep_created_at r, ln_kind = dep_kind r, ln_title = dep_title r,
      ln_snapshot_available = (dep_state r \<noteq> Deleting), ln_removed_at = None\<rparr>"

definition SystemLineage_migrate :: "uuid_lib \<Rightarrow> DeploymentRecord list \<Rightarrow> SystemLineage" where
  "SystemLineage_migrate U deployments =
     \<lparr>sl_schema_version = LINEAGE_SCHEMA_VERSION, sl_revision = 1,
      sl_current_head_id =
        map_option dep_id (max_by_key dep_created_at
          (filter (\<lambda>r. can_restore U r \<and> dep_kind r \<noteq> Imported) deployments)),
      sl_nodes = map migrate_node (filter (\<lambda>r. dep_snapshot_uuid r \<noteq> None) deployments),
      sl_activations = []\<rparr>"

subsection \<open>Validation\<close>

definition node_checks :: "LineageNode \<Rightarrow> (LineageError + unit) list" where
  "node_checks n =
     [check (ln_parent_id n = Some (ln_id n))
        (LineageError_invalid ''a lineage node cannot parent itself''),
      check (str_trim (ln_title n) = [] \<or> 120 < length (chars (ln_title n))
             \<or> list_ex char_is_control (chars (ln_title n)))
        (LineageError_invalid ''a lineage node has an invalid title''),
      check (ln_snapshot_available n = (ln_removed_at n \<noteq> None))
        (LineageError_invalid ''lineage snapshot availability is inconsistent''),
      check (ln_relation n = LegacyUnknown \<and> ln_parent_id n \<noteq> None)
        (LineageError_invalid ''legacy lineage nodes cannot claim an exact parent'')]"

text \<open>The loop over the nodes, which collects their identifiers.\<close>

fun check_nodes :: "uuid set \<Rightarrow> LineageNode list \<Rightarrow> LineageError + uuid set" where
  "check_nodes node_ids [] = Inr node_ids"
| "check_nodes node_ids (n # ns) =
     (if ln_id n \<in> node_ids
      then Inl (LineageError_invalid ''system lineage contains duplicate nodes'')
      else case first_error (node_checks n) of
        Inl e \<Rightarrow> Inl e
      | Inr _ \<Rightarrow> check_nodes (insert (ln_id n) node_ids) ns)"

text \<open>The inner \<open>while let\<close> of \<open>validate_acyclic\<close>: \<open>None\<close> when the path meets itself.\<close>

definition parent_of :: "(uuid \<times> uuid option) list \<Rightarrow> uuid \<Rightarrow> uuid option" where
  "parent_of parents i = Option.bind (map_of parents i) (\<lambda>p. p)"

function walk ::
  "(uuid \<times> uuid option) list \<Rightarrow> uuid set \<Rightarrow> uuid set \<Rightarrow> uuid option \<Rightarrow> uuid set option" where
  "walk parents completed path None = Some path"
| "walk parents completed path (Some i) =
     (if i \<in> completed then Some path
      else if i \<in> path then None
      else walk parents completed (insert i path) (parent_of parents i))"
  by pat_completeness auto

termination walk
proof (relation "measure (\<lambda>(parents, completed, path, cursor).
    card (fst ` set parents - path) + (case cursor of None \<Rightarrow> 0 | Some _ \<Rightarrow> 1))")
  fix parents :: "(uuid \<times> uuid option) list" and completed path :: "uuid set" and i
  assume "i \<notin> path"
  let ?D = "fst ` set parents"
  have fin: "finite (?D - path)" by simp
  have "card (?D - insert i path) + (case parent_of parents i of None \<Rightarrow> 0 | Some _ \<Rightarrow> 1)
      < card (?D - path) + 1"
  proof (cases "i \<in> ?D")
    case True
    with \<open>i \<notin> path\<close> have "?D - insert i path \<subset> ?D - path" by blast
    from psubset_card_mono [OF fin this] show ?thesis by (simp split: option.splits)
  next
    case False
    then have "map_of parents i = None" by (simp add: map_of_eq_None_iff)
    moreover have "?D - insert i path = ?D - path" using False by blast
    ultimately show ?thesis by (simp add: parent_of_def)
  qed
  then show "((parents, completed, insert i path, parent_of parents i),
      (parents, completed, path, Some i)) \<in> measure (\<lambda>(parents, completed, path, cursor).
      card (fst ` set parents - path) + (case cursor of None \<Rightarrow> 0 | Some _ \<Rightarrow> 1))"
    by simp
qed simp

text \<open>The outer loop. \<open>collect\<close> into a \<open>HashMap\<close> keeps the last entry of a key.\<close>

fun walk_all :: "(uuid \<times> uuid option) list \<Rightarrow> uuid set \<Rightarrow> LineageNode list \<Rightarrow> LineageError + unit" where
  "walk_all parents completed [] = Inr ()"
| "walk_all parents completed (n # ns) =
     (case walk parents completed {} (Some (ln_id n)) of
        None \<Rightarrow> Inl (LineageError_invalid ''system lineage contains a cycle'')
      | Some path \<Rightarrow> walk_all parents (completed \<union> path) ns)"

definition validate_acyclic :: "LineageNode list \<Rightarrow> LineageError + unit" where
  "validate_acyclic ns = walk_all (rev (map (\<lambda>n. (ln_id n, ln_parent_id n)) ns)) {} ns"

fun check_activations ::
  "uuid_lib \<Rightarrow> uuid set \<Rightarrow> string set \<Rightarrow> ActivationEvent list \<Rightarrow> LineageError + unit" where
  "check_activations U node_ids seen [] = Inr ()"
| "check_activations U node_ids seen (e # es) =
     (case parse_str U (ae_transaction_id e) of
        None \<Rightarrow> Inl (LineageError_invalid ''an activation transaction ID is invalid'')
      | Some parsed \<Rightarrow>
          if hyphenated U parsed \<noteq> ae_transaction_id e \<or> ae_transaction_id e \<in> seen
          then Inl (LineageError_invalid ''activation transaction IDs must be unique canonical UUIDs'')
          else if ae_completed_at e < ae_scheduled_at e \<or> ae_target_id e \<notin> node_ids
            \<or> ae_safety_id e \<notin> node_ids
            \<or> is_some_and (ae_previous_head_id e) (\<lambda>h. h \<notin> node_ids)
          then Inl (LineageError_invalid ''an activation event is inconsistent'')
          else check_activations U node_ids (insert (ae_transaction_id e) seen) es)"

definition SystemLineage_validate :: "uuid_lib \<Rightarrow> SystemLineage \<Rightarrow> LineageError + unit" where
  "SystemLineage_validate U l =
     (if sl_schema_version l \<noteq> LINEAGE_SCHEMA_VERSION
      then Inl (LineageError_invalid ''unsupported system lineage schema'')
      else if MAX_LINEAGE_NODES < length (sl_nodes l)
        \<or> MAX_ACTIVATION_EVENTS < length (sl_activations l)
      then Inl (LineageError_invalid ''system lineage exceeds its safety limit'')
      else case check_nodes {} (sl_nodes l) of
        Inl e \<Rightarrow> Inl e
      | Inr node_ids \<Rightarrow>
      if is_some_and (sl_current_head_id l) (\<lambda>c. c \<notin> node_ids)
      then Inl (LineageError_invalid ''the current lineage head is missing'')
      else if list_ex (\<lambda>n. is_some_and (ln_parent_id n) (\<lambda>p. p \<notin> node_ids)) (sl_nodes l)
      then Inl (LineageError_invalid ''a lineage parent is missing'')
      else case validate_acyclic (sl_nodes l) of
        Inl e \<Rightarrow> Inl e
      | Inr _ \<Rightarrow> check_activations U node_ids {} (sl_activations l))"

subsection \<open>Mutations\<close>

text \<open>
  The closures the store runs: they see the loaded lineage, may replace it, and say
  whether it changed. An error discards their work.
\<close>

type_synonym mutation = "SystemLineage option \<Rightarrow> LineageError + (SystemLineage option \<times> bool)"

definition not_initialized :: LineageError where
  "not_initialized = LineageError_invalid ''system lineage is not initialized''"

definition known :: "SystemLineage \<Rightarrow> uuid \<Rightarrow> bool" where
  "known l i = list_ex (\<lambda>n. ln_id n = i) (sl_nodes l)"

definition initialize_with :: "uuid_lib \<Rightarrow> DeploymentRecord list \<Rightarrow> mutation" where
  "initialize_with U deployments lineage =
     (case lineage of
        None \<Rightarrow> Inr (Some (SystemLineage_migrate U deployments), False)
      | Some l \<Rightarrow> Inr (Some l, False))"

definition point_node :: "DeploymentRecord \<Rightarrow> uuid option \<Rightarrow> LineageRelation \<Rightarrow> LineageNode" where
  "point_node r parent relation =
     \<lparr>ln_id = dep_id r, ln_parent_id = parent, ln_relation = relation,
      ln_created_at = dep_created_at r, ln_kind = dep_kind r, ln_title = dep_title r,
      ln_snapshot_available = True, ln_removed_at = None\<rparr>"

definition add_recovery_point :: "DeploymentRecord \<Rightarrow> mutation" where
  "add_recovery_point r lineage =
     (case lineage of
        None \<Rightarrow> Inl not_initialized
      | Some l \<Rightarrow>
          if known l (dep_id r) then Inr (Some l, False)
          else Inr (Some (l\<lparr>sl_nodes := sl_nodes l @ [point_node r (sl_current_head_id l) Exact],
                            sl_current_head_id := Some (dep_id r)\<rparr>), True))"

definition add_detached_point :: "DeploymentRecord \<Rightarrow> mutation" where
  "add_detached_point r lineage =
     (case lineage of
        None \<Rightarrow> Inl not_initialized
      | Some l \<Rightarrow>
          if known l (dep_id r) then Inr (Some l, False)
          else Inr (Some (l\<lparr>sl_nodes := sl_nodes l @ [point_node r None LegacyUnknown]\<rparr>), True))"

definition add_activation ::
  "uuid_lib \<Rightarrow> RollbackTransaction \<Rightarrow> ActivationOutcome \<Rightarrow> timestamp \<Rightarrow> mutation" where
  "add_activation U t outcome completed_at lineage =
     (case lineage of
        None \<Rightarrow> Inl not_initialized
      | Some l \<Rightarrow>
          let transaction_id = hyphenated U (tx_id t) in
          case find (\<lambda>e. ae_transaction_id e = transaction_id) (sl_activations l) of
            Some existing \<Rightarrow>
              (if ae_outcome existing \<noteq> outcome
               then Inl (LineageError_invalid ''an activation transaction changed its terminal outcome'')
               else Inr (Some l, False))
          | None \<Rightarrow>
              if \<not> known l (tx_target_deployment_id t) \<or> \<not> known l (tx_fallback_deployment_id t)
              then Inl (LineageError_invalid ''activation system snapshots are missing from the lineage'')
              else Inr (Some (l\<lparr>sl_activations := sl_activations l @
                     [\<lparr>ae_transaction_id = transaction_id,
                       ae_previous_head_id = sl_current_head_id l,
                       ae_target_id = tx_target_deployment_id t,
                       ae_safety_id = tx_fallback_deployment_id t,
                       ae_scheduled_at = tx_created_at t, ae_completed_at = completed_at,
                       ae_outcome = outcome\<rparr>],
                   sl_current_head_id := Some (case outcome of
                       ActConfirmed \<Rightarrow> tx_target_deployment_id t
                     | ActReverted \<Rightarrow> tx_fallback_deployment_id t)\<rparr>), True))"

definition set_offline_head :: "uuid \<Rightarrow> mutation" where
  "set_offline_head target lineage =
     (case lineage of
        None \<Rightarrow> Inl not_initialized
      | Some l \<Rightarrow>
          if \<not> list_ex (\<lambda>n. ln_id n = target \<and> ln_snapshot_available n) (sl_nodes l)
          then Inl (LineageError_invalid ''offline recovery target is missing from the system lineage'')
          else if sl_current_head_id l = Some target then Inr (Some l, False)
          else Inr (Some (l\<lparr>sl_current_head_id := Some target\<rparr>), True))"

text \<open>\<open>iter_mut().find(..)\<close>: only the first node with the identifier is changed.\<close>

fun remove_first :: "uuid \<Rightarrow> timestamp \<Rightarrow> LineageNode list \<Rightarrow> (LineageNode list \<times> bool) option" where
  "remove_first i now [] = None"
| "remove_first i now (n # ns) =
     (if ln_id n = i
      then if \<not> ln_snapshot_available n then Some (n # ns, False)
           else Some (n\<lparr>ln_snapshot_available := False, ln_removed_at := Some now\<rparr> # ns, True)
      else map_option (\<lambda>(ms, c). (n # ms, c)) (remove_first i now ns))"

definition remove_snapshot :: "uuid \<Rightarrow> timestamp \<Rightarrow> mutation" where
  "remove_snapshot i removed_at lineage =
     (case lineage of
        None \<Rightarrow> Inl not_initialized
      | Some l \<Rightarrow>
          (case remove_first i removed_at (sl_nodes l) of
             None \<Rightarrow> Inl (LineageError_invalid ''deleted system snapshot is missing from the lineage'')
           | Some (ns, changed) \<Rightarrow> Inr (Some (l\<lparr>sl_nodes := ns\<rparr>), changed)))"

text \<open>What \<open>mutate\<close> does between loading and saving.\<close>

definition apply_mutation ::
  "uuid_lib \<Rightarrow> mutation \<Rightarrow> SystemLineage option \<Rightarrow> LineageError + (SystemLineage \<times> bool)" where
  "apply_mutation U mutation lineage =
     (case mutation lineage of
        Inl e \<Rightarrow> Inl e
      | Inr (None, changed) \<Rightarrow> Inl (LineageError_invalid ''system lineage mutation produced no record'')
      | Inr (Some l, changed) \<Rightarrow>
          (case (if changed then map_option (\<lambda>n. l\<lparr>sl_revision := n\<rparr>) (checked_add_u64 (sl_revision l) 1)
                 else Some l) of
             None \<Rightarrow> Inl (LineageError_invalid ''system lineage revision cannot advance'')
           | Some l \<Rightarrow>
               (case SystemLineage_validate U l of Inl e \<Rightarrow> Inl e | Inr _ \<Rightarrow> Inr (l, changed))))"

subsection \<open>The store\<close>

record lin_json =
  lin_parse :: "bytes \<Rightarrow> string + SystemLineage"
  lin_print :: "SystemLineage \<Rightarrow> string + bytes"

definition lineage_file :: "path \<Rightarrow> path" where
  "lineage_file d = d @ [''system-lineage.json'']"

definition lineage_lock :: "path \<Rightarrow> path" where
  "lineage_lock d = d @ [''system-lineage.lock'']"

definition ensure_history_directory :: "path \<Rightarrow> (LineageError, unit) io" where
  "ensure_history_directory p =
     io_match (symlink_metadata p) (\<lambda>r.
       case r of
         Inr metadata \<Rightarrow>
           (if ftype metadata = Directory then io_return ()
            else io_throw (LineageError_new LeUnsafePath ''system lineage path is not a real directory''))
       | Inl e \<Rightarrow>
           if err_kind e \<noteq> NotFound then io_throw (lineage_io_error ''Could not inspect system history'' e)
           else if p = [] then io_throw (LineageError_new LeUnsafePath ''lineage parent is missing'')
           else
             io_bind (io_map_err (lineage_io_error ''Could not inspect the lineage parent'')
                        (symlink_metadata (butlast p))) (\<lambda>parent_metadata.
             if ftype parent_metadata \<noteq> Directory
             then io_throw (LineageError_new LeUnsafePath ''lineage parent is not a real directory'')
             else
               io_bind (io_map_err (lineage_io_error ''Could not create system history'')
                          (create_dir p 0x1FF)) (\<lambda>_.
               io_map_err (lineage_io_error ''Could not protect system history'')
                 (set_permissions p 0x1C0))))"

definition open_lock :: "path \<Rightarrow> (LineageError, unit) io" where
  "open_lock p = io_map_err (lineage_io_error ''Could not open the system lineage lock'') (open_create p 0x180)"

definition load_from ::
  "uuid_lib \<Rightarrow> lin_json \<Rightarrow> path \<Rightarrow> (LineageError, SystemLineage option) io" where
  "load_from U J p =
     io_match (symlink_metadata p) (\<lambda>r.
       case r of
         Inl e \<Rightarrow>
           (if err_kind e = NotFound then io_return None
            else io_throw (lineage_io_error ''Could not inspect system lineage'' e))
       | Inr metadata \<Rightarrow>
           (case regular_content metadata of
              None \<Rightarrow> io_throw (LineageError_new LeUnsafePath ''system lineage is not a regular file'')
            | Some content \<Rightarrow>
                if MAX_LINEAGE_BYTES < length content
                then io_throw (LineageError_invalid ''system lineage exceeds its size limit'')
                else
                  io_bind (io_map_err (lineage_io_error ''Could not open system lineage'') (open_read p)) (\<lambda>_.
                  io_bind (io_map_err (lineage_io_error ''Could not read system lineage'')
                             (read_to_end p (MAX_LINEAGE_BYTES + 1))) (\<lambda>contents.
                  if MAX_LINEAGE_BYTES < length contents
                  then io_throw (LineageError_invalid ''system lineage exceeds its size limit'')
                  else
                    (case lin_parse J contents of
                       Inl e \<Rightarrow> io_throw (LineageError_invalid (''System lineage is invalid JSON: '' @ e))
                     | Inr l \<Rightarrow> io_bind (io_lift (SystemLineage_validate U l)) (\<lambda>_. io_return (Some l)))))))"

definition lineage_temporary :: "uuid_lib \<Rightarrow> path \<Rightarrow> uuid \<Rightarrow> path" where
  "lineage_temporary U d i = d @ [''.system-lineage-'' @ hyphenated U i @ ''.tmp'']"

definition lin_serialize :: "lin_json \<Rightarrow> SystemLineage \<Rightarrow> LineageError + bytes" where
  "lin_serialize J l =
     (case lin_print J l of
        Inl e \<Rightarrow> Inl (LineageError_invalid (''Could not serialize lineage: '' @ e))
      | Inr b \<Rightarrow>
          if MAX_LINEAGE_BYTES < length b
          then Inl (LineageError_invalid ''system lineage exceeds its size limit'') else Inr b)"

definition save_to :: "uuid_lib \<Rightarrow> lin_json \<Rightarrow> path \<Rightarrow> SystemLineage \<Rightarrow> (LineageError, unit) io" where
  "save_to U J p l =
     io_bind (io_lift (SystemLineage_validate U l)) (\<lambda>_.
     io_bind (io_lift (lin_serialize J l)) (\<lambda>serialized.
     if p = [] then io_throw (LineageError_new LeUnsafePath ''lineage directory is missing'')
     else
       let directory = butlast p in
       io_bind new_v4 (\<lambda>i.
       let temporary = lineage_temporary U directory i in
       io_match (io_bind (create_new temporary 0x180)
                   (\<lambda>_. replace_file directory temporary p serialized)) (\<lambda>result.
         case result of
           Inr _ \<Rightarrow> io_return ()
         | Inl e \<Rightarrow> io_match (remove_file temporary) (\<lambda>_.
             io_throw (lineage_io_error ''Could not atomically save system lineage'' e))))))"

definition mutate ::
  "uuid_lib \<Rightarrow> lin_json \<Rightarrow> path \<Rightarrow> mutation \<Rightarrow> (LineageError, SystemLineage) io" where
  "mutate U J d mutation =
     io_bind (ensure_history_directory d) (\<lambda>_.
     io_bind (open_lock (lineage_lock d)) (\<lambda>_.
     io_bind (io_map_err (lineage_io_error ''Could not lock the system lineage'')
                (flock_exclusive (lineage_lock d))) (\<lambda>_.
     io_bind (load_from U J (lineage_file d)) (\<lambda>lineage.
     io_bind (io_lift (apply_mutation U mutation lineage)) (\<lambda>(l, changed).
     io_bind (if changed then io_return True
              else io_bind (path_exists (lineage_file d)) (\<lambda>there. io_return (\<not> there))) (\<lambda>save.
     if save then io_bind (save_to U J (lineage_file d) l) (\<lambda>_. io_return l)
     else io_return l))))))"

definition lineage_load :: "uuid_lib \<Rightarrow> lin_json \<Rightarrow> path \<Rightarrow> (LineageError, SystemLineage option) io" where
  "lineage_load U J d = load_from U J (lineage_file d)"

definition ensure_initialized ::
  "uuid_lib \<Rightarrow> lin_json \<Rightarrow> path \<Rightarrow> DeploymentRecord list \<Rightarrow> (LineageError, SystemLineage) io" where
  "ensure_initialized U J d deployments = mutate U J d (initialize_with U deployments)"

definition record_recovery_point ::
  "uuid_lib \<Rightarrow> lin_json \<Rightarrow> path \<Rightarrow> DeploymentRecord \<Rightarrow> (LineageError, SystemLineage) io" where
  "record_recovery_point U J d r =
     (if dep_snapshot_uuid r = None
      then io_throw (LineageError_invalid ''a lineage node requires a completed system snapshot'')
      else mutate U J d (add_recovery_point r))"

definition record_detached_recovery_point ::
  "uuid_lib \<Rightarrow> lin_json \<Rightarrow> path \<Rightarrow> DeploymentRecord \<Rightarrow> (LineageError, SystemLineage) io" where
  "record_detached_recovery_point U J d r =
     (if dep_snapshot_uuid r = None
      then io_throw (LineageError_invalid ''a detached lineage node requires a completed system snapshot'')
      else mutate U J d (add_detached_point r))"

definition record_activation ::
  "uuid_lib \<Rightarrow> lin_json \<Rightarrow> path \<Rightarrow> RollbackTransaction \<Rightarrow> ActivationOutcome \<Rightarrow> timestamp \<Rightarrow>
   (LineageError, SystemLineage) io" where
  "record_activation U J d t outcome completed_at = mutate U J d (add_activation U t outcome completed_at)"

definition record_offline_head ::
  "uuid_lib \<Rightarrow> lin_json \<Rightarrow> path \<Rightarrow> uuid \<Rightarrow> (LineageError, SystemLineage) io" where
  "record_offline_head U J d target = mutate U J d (set_offline_head target)"

definition mark_snapshot_removed ::
  "uuid_lib \<Rightarrow> lin_json \<Rightarrow> path \<Rightarrow> uuid \<Rightarrow> timestamp \<Rightarrow> (LineageError, SystemLineage) io" where
  "mark_snapshot_removed U J d i removed_at = mutate U J d (remove_snapshot i removed_at)"


subsection \<open>The cycle search\<close>

definition parent_rel :: "(uuid \<times> uuid option) list \<Rightarrow> (uuid \<times> uuid) set" where
  "parent_rel ps = {(i, j). parent_of ps i = Some j}"

text \<open>The identifiers from which the chain of parents ends.\<close>

definition grounded :: "(uuid \<times> uuid option) list \<Rightarrow> uuid set" where
  "grounded ps = Wellfounded.acc ((parent_rel ps)\<inverse>)"

lemma groundedI: "(\<And>j. parent_of ps i = Some j \<Longrightarrow> j \<in> grounded ps) \<Longrightarrow> i \<in> grounded ps"
  unfolding grounded_def by (rule acc.accI) (auto simp: parent_rel_def)

lemma walk_Some:
  "walk ps completed path (Some i) =
     (if i \<in> completed then Some path
      else if i \<in> path then None
      else walk ps completed (insert i path) (parent_of ps i))"
  by (rule walk.simps)

declare walk.simps(2) [simp del]

lemma walk_grounded:
  assumes "walk ps completed path cursor = Some path'" and "completed \<subseteq> grounded ps"
    and "set_option cursor \<subseteq> grounded ps \<longrightarrow> path \<subseteq> grounded ps"
  shows "path' \<subseteq> grounded ps"
  using assms
proof (induction ps completed path cursor rule: walk.induct)
  case (1 ps completed path)
  then show ?case by simp
next
  case (2 ps completed path i)
  have "i \<in> grounded ps" if "set_option (parent_of ps i) \<subseteq> grounded ps"
    by (rule groundedI) (use that in auto)
  then have next_ok: "set_option (parent_of ps i) \<subseteq> grounded ps \<longrightarrow> insert i path \<subseteq> grounded ps"
    using "2.prems"(3) by auto
  show ?case
  proof (cases "i \<in> completed")
    case True
    with "2.prems" show ?thesis by (simp add: walk_Some subset_iff)
  next
    case False
    moreover from this "2.prems"(1) have "i \<notin> path"
      and "walk ps completed (insert i path) (parent_of ps i) = Some path'"
      by (simp_all add: walk_Some split: if_splits)
    ultimately show ?thesis using "2.IH" "2.prems"(2) next_ok by blast
  qed
qed

lemma walk_cycle:
  assumes "walk ps completed path cursor = None"
    and "\<forall>k \<in> path. \<exists>i. cursor = Some i \<and> (k, i) \<in> (parent_rel ps)\<^sup>+"
  shows "\<not> acyclic (parent_rel ps)"
  using assms
proof (induction ps completed path cursor rule: walk.induct)
  case (1 ps completed path)
  then show ?case by simp
next
  case (2 ps completed path i)
  show ?case
  proof (cases "i \<in> path")
    case True
    with "2.prems"(2) show ?thesis by (auto simp: acyclic_def)
  next
    case False
    with "2.prems"(1) have ni: "i \<notin> completed"
      and w: "walk ps completed (insert i path) (parent_of ps i) = None"
      by (auto simp: walk_Some split: if_splits)
    then obtain j where j: "parent_of ps i = Some j" by (cases "parent_of ps i") auto
    then have e: "(i, j) \<in> parent_rel ps" by (simp add: parent_rel_def)
    have "\<forall>k \<in> insert i path. \<exists>m. parent_of ps i = Some m \<and> (k, m) \<in> (parent_rel ps)\<^sup>+"
      using "2.prems"(2) e j by (auto intro: trancl_into_trancl)
    from "2.IH" [OF ni False w this] show ?thesis .
  qed
qed

lemma walk_start: "walk ps completed path (Some i) = Some path' \<Longrightarrow> i \<in> completed \<or> i \<in> path'"
proof -
  have "path \<subseteq> path'" if "walk ps completed path cursor = Some path'" for path cursor
    using that
    by (induction ps completed path cursor rule: walk.induct) (auto simp: walk_Some split: if_splits)
  from this [of "insert i path"] show "walk ps completed path (Some i) = Some path' \<Longrightarrow>
      i \<in> completed \<or> i \<in> path'"
    by (auto simp: walk_Some split: if_splits)
qed

lemma walk_all_grounded:
  "walk_all ps completed ns = Inr () \<Longrightarrow> completed \<subseteq> grounded ps \<Longrightarrow>
     ln_id ` set ns \<subseteq> grounded ps"
proof (induction ns arbitrary: completed)
  case Nil
  then show ?case by simp
next
  case (Cons n ns)
  then obtain path where path: "walk ps completed {} (Some (ln_id n)) = Some path"
    "walk_all ps (completed \<union> path) ns = Inr ()" by (auto split: option.splits)
  then have "path \<subseteq> grounded ps" using walk_grounded Cons.prems(2) by blast
  with Cons path walk_start [OF path(1)] show ?case by auto
qed

lemma walk_all_cycle: "walk_all ps completed ns = Inl e \<Longrightarrow> \<not> acyclic (parent_rel ps)"
  by (induction ns arbitrary: completed) (auto split: option.splits dest: walk_cycle)

lemma grounded_acyclic:
  assumes "Domain (parent_rel ps) \<subseteq> grounded ps"
  shows "acyclic (parent_rel ps)"
proof (rule acyclicI, rule allI, rule notI)
  fix i
  assume cycle: "(i, i) \<in> (parent_rel ps)\<^sup>+"
  then have "i \<in> Domain (parent_rel ps)" by (metis DomainI converse_tranclE)
  with assms have "i \<in> grounded ps" by blast
  then show False using cycle
    unfolding grounded_def
  proof (induction rule: acc.induct)
    case (accI i)
    from accI.prems obtain j where "(i, j) \<in> parent_rel ps" "(j, i) \<in> (parent_rel ps)\<^sup>*"
      by (meson tranclD)
    then have "(j, j) \<in> (parent_rel ps)\<^sup>+" by (simp add: rtrancl_into_trancl1)
    with accI.IH \<open>(i, j) \<in> parent_rel ps\<close> show False by blast
  qed
qed

definition node_parents :: "LineageNode list \<Rightarrow> (uuid \<times> uuid option) list" where
  "node_parents ns = rev (map (\<lambda>n. (ln_id n, ln_parent_id n)) ns)"

lemma validate_acyclic_iff: "validate_acyclic ns = Inr () \<longleftrightarrow> acyclic (parent_rel (node_parents ns))"
proof
  assume "validate_acyclic ns = Inr ()"
  then have "walk_all (node_parents ns) {} ns = Inr ()" by (simp add: validate_acyclic_def node_parents_def)
  then have ids: "ln_id ` set ns \<subseteq> grounded (node_parents ns)" using walk_all_grounded by blast
  have "i \<in> ln_id ` set ns" if "(i, j) \<in> parent_rel (node_parents ns)" for i j
  proof -
    from that have "map_of (node_parents ns) i \<noteq> None"
      by (auto simp: parent_rel_def parent_of_def bind_eq_Some_conv)
    then show ?thesis by (auto simp: node_parents_def map_of_eq_None_iff image_image)
  qed
  then have "Domain (parent_rel (node_parents ns)) \<subseteq> grounded (node_parents ns)" using ids by blast
  then show "acyclic (parent_rel (node_parents ns))" by (rule grounded_acyclic)
next
  assume a: "acyclic (parent_rel (node_parents ns))"
  then show "validate_acyclic ns = Inr ()"
    using walk_all_cycle [of "node_parents ns" "{}" ns]
    by (cases "validate_acyclic ns") (auto simp: validate_acyclic_def node_parents_def)
qed

subsection \<open>What validation accepts\<close>

definition node_ok :: "LineageNode \<Rightarrow> bool" where
  "node_ok n \<longleftrightarrow> ln_parent_id n \<noteq> Some (ln_id n) \<and> \<not> invalid_text (ln_title n) 120
     \<and> ln_snapshot_available n = (ln_removed_at n = None)
     \<and> (ln_relation n = LegacyUnknown \<longrightarrow> ln_parent_id n = None)"

definition event_ok :: "uuid_lib \<Rightarrow> uuid set \<Rightarrow> ActivationEvent \<Rightarrow> bool" where
  "event_ok U ids e \<longleftrightarrow> canonical_uuid U (ae_transaction_id e)
     \<and> ae_scheduled_at e \<le> ae_completed_at e
     \<and> {ae_target_id e, ae_safety_id e} \<union> set_option (ae_previous_head_id e) \<subseteq> ids"

definition lineage_ids :: "SystemLineage \<Rightarrow> uuid set" where
  "lineage_ids l = ln_id ` set (sl_nodes l)"

definition lineage_ok :: "uuid_lib \<Rightarrow> SystemLineage \<Rightarrow> bool" where
  "lineage_ok U l \<longleftrightarrow> sl_schema_version l = 1
     \<and> length (sl_nodes l) \<le> 100000 \<and> length (sl_activations l) \<le> 10000
     \<and> distinct (map ln_id (sl_nodes l)) \<and> list_all node_ok (sl_nodes l)
     \<and> set_option (sl_current_head_id l) \<subseteq> lineage_ids l
     \<and> list_all (\<lambda>n. set_option (ln_parent_id n) \<subseteq> lineage_ids l) (sl_nodes l)
     \<and> acyclic (parent_rel (node_parents (sl_nodes l)))
     \<and> distinct (map ae_transaction_id (sl_activations l))
     \<and> list_all (event_ok U (lineage_ids l)) (sl_activations l)"

lemma node_checks_ok: "first_error (node_checks n) = Inr u \<longleftrightarrow> node_ok n"
  by (auto simp: node_checks_def node_ok_def invalid_text_def)

lemma check_nodes_Cons:
  "check_nodes ids (n # ns) = Inr ids' \<longleftrightarrow>
     ln_id n \<notin> ids \<and> node_ok n \<and> check_nodes (insert (ln_id n) ids) ns = Inr ids'"
  using node_checks_ok [of n]
  by (cases "first_error (node_checks n)") (auto simp del: first_error_ok)

lemma check_nodes_iff:
  "check_nodes ids ns = Inr ids' \<longleftrightarrow>
     distinct (map ln_id ns) \<and> ln_id ` set ns \<inter> ids = {} \<and> list_all node_ok ns
     \<and> ids' = ids \<union> ln_id ` set ns"
  by (induction ns arbitrary: ids) (auto simp: check_nodes_Cons simp del: check_nodes.simps(2))

lemma check_activations_iff:
  "check_activations U ids seen es = Inr () \<longleftrightarrow>
     distinct (map ae_transaction_id es) \<and> ae_transaction_id ` set es \<inter> seen = {}
     \<and> list_all (event_ok U ids) es"
  by (induction es arbitrary: seen)
    (auto simp: event_ok_def canonical_uuid_def is_some_and_def split: option.splits)

lemma lineage_validate_iff: "SystemLineage_validate U l = Inr () \<longleftrightarrow> lineage_ok U l"
proof (cases "check_nodes {} (sl_nodes l)")
  case (Inl e)
  then have "\<not> (distinct (map ln_id (sl_nodes l)) \<and> list_all node_ok (sl_nodes l))"
    using check_nodes_iff [of "{}" "sl_nodes l" "lineage_ids l"] by (simp add: lineage_ids_def)
  with Inl show ?thesis by (auto simp: SystemLineage_validate_def lineage_ok_def)
next
  case (Inr ids)
  then have nodes: "distinct (map ln_id (sl_nodes l))" "list_all node_ok (sl_nodes l)" "ids = lineage_ids l"
    by (simp_all add: check_nodes_iff lineage_ids_def)
  have "validate_acyclic (sl_nodes l) = Inr () \<or> (\<exists>e. validate_acyclic (sl_nodes l) = Inl e)"
    by (cases "validate_acyclic (sl_nodes l)") auto
  with Inr nodes validate_acyclic_iff [of "sl_nodes l"] show ?thesis
    by (auto simp: SystemLineage_validate_def lineage_ok_def check_activations_iff LINEAGE_SCHEMA_VERSION_def
        MAX_LINEAGE_NODES_def MAX_ACTIVATION_EVENTS_def is_some_and_def list_ex_iff list_all_iff
        split: option.splits)
qed

subsection \<open>Mutations keep the lineage valid\<close>

lemma known_iff: "known l i \<longleftrightarrow> i \<in> lineage_ids l"
  by (auto simp: known_def lineage_ids_def list_ex_iff)

lemma event_ok_mono: "event_ok U ids e \<Longrightarrow> ids \<subseteq> ids' \<Longrightarrow> event_ok U ids' e"
  by (auto simp: event_ok_def)

lemma parent_rel_new_node:
  assumes "ln_id n \<notin> ln_id ` set ns"
  shows "parent_rel (node_parents (ns @ [n])) =
    parent_rel (node_parents ns) \<union> {(ln_id n, p) | p. ln_parent_id n = Some p}"
proof -
  have "parent_of (node_parents (ns @ [n])) i =
      (if i = ln_id n then ln_parent_id n else parent_of (node_parents ns) i)" for i
    by (simp add: node_parents_def parent_of_def)
  moreover have "parent_of (node_parents ns) (ln_id n) = None"
  proof -
    have "map_of (node_parents ns) (ln_id n) = None"
      using assms by (simp add: map_of_eq_None_iff node_parents_def image_image)
    then show ?thesis by (simp add: parent_of_def)
  qed
  ultimately show ?thesis by (auto simp: parent_rel_def split: if_splits)
qed

lemma parent_rel_range:
  assumes "list_all (\<lambda>n. set_option (ln_parent_id n) \<subseteq> ids) ns"
  shows "Range (parent_rel (node_parents ns)) \<subseteq> ids"
proof -
  have "j \<in> ids" if "parent_of (node_parents ns) i = Some j" for i j
  proof -
    from that have "map_of (node_parents ns) i = Some (Some j)"
      by (auto simp: parent_of_def bind_eq_Some_conv)
    then have "(i, Some j) \<in> set (node_parents ns)" by (rule map_of_SomeD)
    with assms show ?thesis by (fastforce simp: node_parents_def list_all_iff)
  qed
  then show ?thesis by (auto simp: parent_rel_def)
qed

lemma acyclic_new_node:
  assumes "acyclic (parent_rel (node_parents ns))" and "ln_id n \<notin> ids" and "ln_id ` set ns = ids"
    and "list_all (\<lambda>n. set_option (ln_parent_id n) \<subseteq> ids) ns" and "set_option (ln_parent_id n) \<subseteq> ids"
  shows "acyclic (parent_rel (node_parents (ns @ [n])))"
proof (cases "ln_parent_id n")
  case None
  with assms show ?thesis by (simp add: parent_rel_new_node)
next
  case (Some p)
  have "(p, ln_id n) \<notin> (parent_rel (node_parents ns))\<^sup>*"
  proof
    assume "(p, ln_id n) \<in> (parent_rel (node_parents ns))\<^sup>*"
    moreover have "p \<noteq> ln_id n" using Some assms(2,5) by auto
    ultimately have "ln_id n \<in> Range (parent_rel (node_parents ns))" by (metis RangeI rtranclE)
    with parent_rel_range [OF assms(4)] assms(2) show False by blast
  qed
  with assms(1) Some show ?thesis
    using parent_rel_new_node [of n ns] assms(2,3) by (simp add: acyclic_insert)
qed

lemma lineage_ok_add_node:
  assumes "lineage_ok U l" and "ln_id n \<notin> lineage_ids l" and "node_ok n"
    and "set_option (ln_parent_id n) \<subseteq> lineage_ids l" and "length (sl_nodes l) < 100000"
    and "set_option h \<subseteq> insert (ln_id n) (lineage_ids l)"
  shows "lineage_ok U (l\<lparr>sl_nodes := sl_nodes l @ [n], sl_current_head_id := h, sl_revision := v\<rparr>)"
proof -
  let ?l = "l\<lparr>sl_nodes := sl_nodes l @ [n], sl_current_head_id := h, sl_revision := v\<rparr>"
  have ids: "lineage_ids ?l = insert (ln_id n) (lineage_ids l)" by (simp add: lineage_ids_def)
  have "acyclic (parent_rel (node_parents (sl_nodes l @ [n])))"
    using assms by (intro acyclic_new_node [where ids = "lineage_ids l"])
      (auto simp: lineage_ok_def lineage_ids_def)
  moreover have "list_all (event_ok U (insert (ln_id n) (lineage_ids l))) (sl_activations l)"
  proof -
    have "list_all (event_ok U (lineage_ids l)) (sl_activations l)"
      using assms(1) by (simp add: lineage_ok_def)
    then show ?thesis by (rule list.pred_mono_strong) (auto elim: event_ok_mono)
  qed
  moreover have "list_all (\<lambda>m. set_option (ln_parent_id m) \<subseteq> insert (ln_id n) (lineage_ids l)) (sl_nodes l @ [n])"
  proof -
    have "list_all (\<lambda>m. set_option (ln_parent_id m) \<subseteq> lineage_ids l) (sl_nodes l)"
      using assms(1) by (simp add: lineage_ok_def)
    then show ?thesis using assms(4) by (auto elim: list.pred_mono_strong)
  qed
  moreover have "ln_id n \<notin> ln_id ` set (sl_nodes l)" using assms(2) by (simp add: lineage_ids_def)
  ultimately show ?thesis
    using assms(1,3,5,6) unfolding lineage_ok_def ids by simp
qed

lemma lineage_ok_add_event:
  assumes "lineage_ok U l" and "event_ok U (lineage_ids l) e" and "length (sl_activations l) < 10000"
    and "ae_transaction_id e \<notin> ae_transaction_id ` set (sl_activations l)"
    and "set_option h \<subseteq> lineage_ids l"
  shows "lineage_ok U (l\<lparr>sl_activations := sl_activations l @ [e], sl_current_head_id := h, sl_revision := v\<rparr>)"
  using assms unfolding lineage_ok_def by (simp add: lineage_ids_def)

lemma point_node_ok:
  assumes "DeploymentRecord_validate U r = Inr ()" and "parent \<noteq> Some (dep_id r)"
    and "relation = LegacyUnknown \<longrightarrow> parent = None"
  shows "node_ok (point_node r parent relation)"
  using assms validate_ok_wellformed [OF assms(1)]
  by (simp add: node_ok_def point_node_def well_formed_deployment_def)

lemma revision_advances:
  "unat v < 2 ^ 64 - 1 \<Longrightarrow> checked_add_u64 v 1 = Some (v + 1)"
  by (simp add: checked_add_u64_def)

lemma apply_mutation_changed:
  assumes "m l0 = Inr (Some l, True)" and "unat (sl_revision l) < 2 ^ 64 - 1"
    and "lineage_ok U (l\<lparr>sl_revision := sl_revision l + 1\<rparr>)"
  shows "apply_mutation U m l0 = Inr (l\<lparr>sl_revision := sl_revision l + 1\<rparr>, True)"
  using assms revision_advances [OF assms(2)]
  by (simp add: apply_mutation_def flip: lineage_validate_iff)

lemma apply_mutation_unchanged:
  "m l0 = Inr (Some l, False) \<Longrightarrow> lineage_ok U l \<Longrightarrow> apply_mutation U m l0 = Inr (l, False)"
  by (simp add: apply_mutation_def flip: lineage_validate_iff)

lemma apply_mutation_refused: "isl (m l0) \<Longrightarrow> isl (apply_mutation U m l0)"
  by (auto simp: apply_mutation_def isl_def)

subsection \<open>The store's contract\<close>

definition lin_image :: "uuid_lib \<Rightarrow> lin_json \<Rightarrow> SystemLineage \<Rightarrow> bytes \<Rightarrow> bool" where
  "lin_image U J l b \<longleftrightarrow>
     SystemLineage_validate U l = Inr () \<and> (\<exists>s. lin_print J l = Inr s \<and> b = s @ newline)"

text \<open>The lineage that the inode of the lineage file stands for.\<close>

definition lin_decodes :: "uuid_lib \<Rightarrow> lin_json \<Rightarrow> inode option \<Rightarrow> SystemLineage option \<Rightarrow> bool" where
  "lin_decodes U J i lineage \<longleftrightarrow>
     (case lineage of
        None \<Rightarrow> i = None
      | Some l \<Rightarrow> slot_holds (\<lambda>b. length b \<le> MAX_LINEAGE_BYTES \<and> lin_parse J b = Inr l) i
          \<and> SystemLineage_validate U l = Inr ())"

lemma lineage_temporary_apart: "apart (lineage_temporary U d i) (lineage_file d)"
  by (simp add: lineage_temporary_def lineage_file_def)

lemma lineage_under:
  "lineage_file d \<in> under d" "lineage_temporary U d i \<in> under d" "lineage_lock d \<in> under d" "d \<in> under d"
  "under (lineage_file d) \<subseteq> under d" "under (lineage_temporary U d i) \<subseteq> under d"
  by (auto simp: under_def lineage_file_def lineage_temporary_def lineage_lock_def prefix_def)

lemma lineage_file_simps [simp]: "lineage_file d \<noteq> []" "butlast (lineage_file d) = d"
  by (simp_all add: lineage_file_def)

lemma touches_ensure_history_directory [io_rules]: "p \<in> S \<Longrightarrow> touches S (ensure_history_directory p)"
  unfolding ensure_history_directory_def by (intro io_rules)

lemma touches_open_lock [io_rules]: "p \<in> S \<Longrightarrow> touches S (open_lock p)"
  unfolding open_lock_def by (intro io_rules)

lemma touches_load_from [io_rules]: "touches S (load_from U J p)"
  unfolding load_from_def by (intro io_rules)

lemma touches_save_to [io_rules]: "touches (under d) (save_to U J (lineage_file d) l)"
  unfolding save_to_def Let_def lineage_file_simps by (intro io_rules lineage_under)

lemma touches_mutate [io_rules]: "touches (under d) (mutate U J d m)"
  unfolding mutate_def by (intro io_rules lineage_under)

lemma triple_save_to:
  "io_triple (\<lambda>w. map_of (nodes w) (lineage_file d) = i) (save_to U J (lineage_file d) l)
    (\<lambda>_ w. slot_holds (lin_image U J l) (map_of (nodes w) (lineage_file d)))
    (\<lambda>_ w. map_of (nodes w) (lineage_file d) = i
       \<or> slot_holds (lin_image U J l) (map_of (nodes w) (lineage_file d)))"
proof -
  let ?P = "\<lambda>w. map_of (nodes w) (lineage_file d) = i"
  let ?Q = "\<lambda>w. slot_holds (lin_image U J l) (map_of (nodes w) (lineage_file d))"
  have new: "io_triple ?P new_v4 (\<lambda>_. ?P) (\<lambda>_ w. ?P w \<or> ?Q w)"
    by (rule triple_weaken [OF triple_query]) (auto intro: io_rules)
  have image: "lin_image U J l (s @ newline)"
    if "SystemLineage_validate U l = Inr u" "lin_serialize J l = Inr s" for u s
    using that by (auto simp: lin_image_def lin_serialize_def split: sum.splits if_splits)
  show ?thesis
    unfolding save_to_def Let_def lineage_file_simps if_False not_False_eq_True
    by (rule triple_lift, rule triple_lift, simp only: lineage_file_simps if_False,
        rule triple_bind [OF new], rule triple_commit_closure_atomic [OF lineage_temporary_apart],
        rule image) auto
qed

interpretation lineage: durable_store d "\<lambda>_. lineage_file d" "save_to U J (lineage_file d)" "lin_image U J"
  for d U J
proof
  show "touches (under d) (save_to U J (lineage_file d) l)" for l by (rule touches_save_to)
  note triple = triple_save_to [of d "map_of (nodes w) (lineage_file d)" U J for w]
  show "slot_holds (lin_image U J l) (map_of (nodes w') (lineage_file d))"
    if "save_to U J (lineage_file d) l w = (Inr (), w')" for l w w'
    using io_tripleD_ok [OF triple refl that] .
  show "map_of (nodes w') (lineage_file d) = map_of (nodes w) (lineage_file d)
      \<or> slot_holds (lin_image U J l) (map_of (nodes w') (lineage_file d))"
    if "save_to U J (lineage_file d) l w = (Inl e, w')" for l w e w'
    using io_tripleD_err [OF triple refl that] .
qed simp

lemma triple_load_from:
  "io_triple (\<lambda>w. map_of (nodes w) p = i) (load_from U J p)
    (\<lambda>lineage w. map_of (nodes w) p = i \<and> lin_decodes U J i lineage) (\<lambda>_ w. map_of (nodes w) p = i)"
proof -
  let ?P = "\<lambda>w. map_of (nodes w) p = i"
  have opened: "io_triple (\<lambda>w. ?P w \<and> i = Some m) (io_map_err h (open_read p))
      (\<lambda>_ w. ?P w \<and> i = Some m) (\<lambda>_. ?P)" for h m
    by (rule triple_pure, rule triple_weaken [OF triple_query]) (auto intro: io_rules)
  have content: "io_triple (\<lambda>w. ?P w \<and> i = Some m) (io_map_err h (read_to_end p n))
      (\<lambda>b w. ?P w \<and> i = Some m \<and> (\<exists>c. ftype m = Regular c \<and> b = take n c)) (\<lambda>_. ?P)" for h m n
    by (rule triple_pure, rule triple_map_err, rule triple_weaken [OF triple_read_to_end [of p m n]]) auto
  show ?thesis
    unfolding load_from_def
    by (rule triple_match [OF triple_inspect_kind])
      (auto simp: regular_content_def lin_decodes_def slot_holds_def split: file_type.splits sum.splits
        intro!: triple_throw triple_return triple_lift triple_bind [OF opened] triple_bind [OF content])
qed

definition mutation_result ::
  "uuid_lib \<Rightarrow> lin_json \<Rightarrow> mutation \<Rightarrow> inode option \<Rightarrow> SystemLineage \<Rightarrow> bool \<Rightarrow> bool" where
  "mutation_result U J m old l changed \<longleftrightarrow>
     (\<exists>l0. lin_decodes U J old l0 \<and> apply_mutation U m l0 = Inr (l, changed))"

definition mutation_done ::
  "uuid_lib \<Rightarrow> lin_json \<Rightarrow> mutation \<Rightarrow> inode option \<Rightarrow> inode option \<Rightarrow> SystemLineage \<Rightarrow> bool" where
  "mutation_done U J m old new l \<longleftrightarrow>
     (\<exists>changed. mutation_result U J m old l changed
       \<and> (slot_holds (lin_image U J l) new \<or> \<not> changed \<and> old \<noteq> None \<and> new = old))"

definition mutation_aborted ::
  "uuid_lib \<Rightarrow> lin_json \<Rightarrow> mutation \<Rightarrow> inode option \<Rightarrow> inode option \<Rightarrow> bool" where
  "mutation_aborted U J m old new \<longleftrightarrow>
     new = old \<or> (\<exists>l changed. mutation_result U J m old l changed \<and> slot_holds (lin_image U J l) new)"

lemma triple_save_decision:
  "io_triple (\<lambda>w. map_of (nodes w) p = i)
    (if changed then io_return True else io_bind (path_exists p) (\<lambda>there. io_return (\<not> there)))
    (\<lambda>save w. map_of (nodes w) p = i \<and> (save \<or> \<not> changed \<and> i \<noteq> None)) (\<lambda>_ w. map_of (nodes w) p = i)"
  by (auto simp: io_triple_def io_return_def io_bind_def path_exists_def tick_def)

lemma triple_mutate_finish:
  assumes "mutation_result U J m old l changed"
  shows "io_triple (\<lambda>w. map_of (nodes w) (lineage_file d) = old)
    (io_bind (if changed then io_return True
              else io_bind (path_exists (lineage_file d)) (\<lambda>there. io_return (\<not> there))) (\<lambda>save.
     if save then io_bind (save_to U J (lineage_file d) l) (\<lambda>_. io_return l)
     else io_return l))
    (\<lambda>l w. mutation_done U J m old (map_of (nodes w) (lineage_file d)) l)
    (\<lambda>_ w. mutation_aborted U J m old (map_of (nodes w) (lineage_file d)))"
proof -
  let ?file = "\<lambda>w. map_of (nodes w) (lineage_file d)"
  have decide: "io_triple (\<lambda>w. ?file w = old)
    (if changed then io_return True
     else io_bind (path_exists (lineage_file d)) (\<lambda>there. io_return (\<not> there)))
    (\<lambda>save w. ?file w = old \<and> (save \<or> \<not> changed \<and> old \<noteq> None))
    (\<lambda>_ w. mutation_aborted U J m old (?file w))"
    by (rule triple_weaken [OF triple_save_decision [of "lineage_file d" old]])
      (auto simp: mutation_aborted_def)
  have commit: "io_triple (\<lambda>w. ?file w = old) (save_to U J (lineage_file d) l)
      (\<lambda>_ w. mutation_done U J m old (?file w) l) (\<lambda>_ w. mutation_aborted U J m old (?file w))"
    by (rule triple_weaken [OF triple_save_to [of d old U J l]])
      (use assms in \<open>auto simp: mutation_done_def mutation_aborted_def\<close>)
  show ?thesis
  proof (rule triple_bind [OF decide])
    fix save
    show "io_triple (\<lambda>w. ?file w = old \<and> (save \<or> \<not> changed \<and> old \<noteq> None))
      (if save then io_bind (save_to U J (lineage_file d) l) (\<lambda>_. io_return l) else io_return l)
      (\<lambda>l w. mutation_done U J m old (?file w) l) (\<lambda>_ w. mutation_aborted U J m old (?file w))"
    proof (cases save)
      case True
      then show ?thesis using triple_bind [OF commit triple_return] by simp
    next
      case False
      with assms show ?thesis by (auto simp: mutation_done_def intro!: triple_return)
    qed
  qed
qed

lemma triple_mutate:
  "io_triple (\<lambda>w. map_of (nodes w) (lineage_file d) = old) (mutate U J d m)
    (\<lambda>l w. mutation_done U J m old (map_of (nodes w) (lineage_file d)) l)
    (\<lambda>_ w. mutation_aborted U J m old (map_of (nodes w) (lineage_file d)))"
proof -
  let ?P = "\<lambda>w. map_of (nodes w) (lineage_file d) = old"
  let ?E = "\<lambda>_ w. mutation_aborted U J m old (map_of (nodes w) (lineage_file d))"
  have other: "io_triple ?P n (\<lambda>_. ?P) ?E" if "touches {d, lineage_lock d} n" for n :: "(LineageError, 'a) io"
    by (rule triple_weaken [OF triple_unchanged [OF that]])
      (auto simp: mutation_aborted_def lineage_file_def lineage_lock_def)
  have directory: "io_triple ?P (ensure_history_directory d) (\<lambda>_. ?P) ?E"
    by (rule other, rule io_rules) simp
  have lock: "io_triple ?P (open_lock (lineage_lock d)) (\<lambda>_. ?P) ?E"
    by (rule other, rule io_rules) simp
  have flock: "io_triple ?P (io_map_err h (flock_exclusive (lineage_lock d))) (\<lambda>_. ?P) ?E"
    for h :: "io_error \<Rightarrow> LineageError"
    by (rule other) (intro io_rules)
  have load: "io_triple ?P (load_from U J (lineage_file d))
      (\<lambda>lineage w. ?P w \<and> lin_decodes U J old lineage) ?E"
    by (rule triple_weaken [OF triple_load_from]) (auto simp: mutation_aborted_def)
  show ?thesis
    unfolding mutate_def
    by (rule triple_bind [OF directory], rule triple_bind [OF lock], rule triple_bind [OF flock],
        rule triple_bind [OF load], rule triple_pure, rule triple_lift, rule triple_case_prod,
        rule triple_mutate_finish)
      (auto simp: mutation_result_def mutation_aborted_def)
qed

subsection \<open>Progress\<close>

definition lineage_ready :: "uuid_lib \<Rightarrow> path \<Rightarrow> world \<Rightarrow> bool" where
  "lineage_ready U d w \<longleftrightarrow>
     (\<exists>i. map_of (nodes w) d = Some i \<and> ftype i = Directory)
     \<and> (\<forall>i. map_of (nodes w) (lineage_file d) = Some i \<longrightarrow> ftype i \<noteq> Directory)
     \<and> (\<forall>u. map_of (nodes w) (lineage_temporary U d u) = None)"

lemma save_to_commits:
  assumes "fault_free w" and "lineage_ready U d w" and "SystemLineage_validate U l = Inr ()"
    and "lin_print J l = Inr s" and "length s \<le> MAX_LINEAGE_BYTES"
  shows "\<exists>w'. save_to U J (lineage_file d) l w = (Inr (), w') \<and> fault_free w'"
proof -
  define u where "u = entropy w (ticks w)"
  let ?tmp = "lineage_temporary U d u"
  let ?w = "tick (tick (w\<lparr>nodes := fs_set ?tmp
    \<lparr>ftype = Regular [], mode = 0x180, uid = 0, gid = 0\<rparr> (nodes w)\<rparr>))"
  obtain i where d: "map_of (nodes w) d = Some i" "ftype i = Directory"
    using assms(2) by (auto simp: lineage_ready_def)
  have "\<exists>w'. replace_file d ?tmp (lineage_file d) s ?w = (Inr (), w') \<and> fault_free w'"
    unfolding lineage_temporary_def lineage_file_def
    by (rule replace_file_commits)
      (use assms(1,2) d in \<open>auto simp: fs_is_dir_def lineage_ready_def lineage_file_def\<close>)
  then obtain w' where "replace_file d ?tmp (lineage_file d) s ?w = (Inr (), w')" "fault_free w'" by blast
  moreover have "butlast ?tmp = d" "?tmp \<noteq> []" "map_of (nodes w) ?tmp = None"
    using assms(2) by (simp_all add: lineage_temporary_def lineage_ready_def)
  ultimately show ?thesis
    using assms(1,3-5) d
    by (simp add: save_to_def lin_serialize_def Let_def io_exec new_v4_def create_new_def fs_is_dir_def
        flip: u_def)
qed

lemma load_from_reads:
  assumes "fault_free w" and "file_holds (nodes w) p b" and "lin_parse J b = Inr l"
    and "SystemLineage_validate U l = Inr ()"
  shows "fst (load_from U J p w) =
    (if length b \<le> MAX_LINEAGE_BYTES then Inr (Some l)
     else Inl (LineageError_invalid ''system lineage exceeds its size limit''))"
proof -
  obtain i where "map_of (nodes w) p = Some i" "ftype i = Regular b"
    using assms(2) by (auto simp: file_holds_def)
  with assms show ?thesis
    by (simp add: load_from_def io_exec regular_content_def)
qed

lemma find_appended: "find P xs = None \<Longrightarrow> P x \<Longrightarrow> find P (xs @ [x]) = Some x"
  by (induction xs) (auto split: if_splits)

lemma parent_rel_distinct:
  assumes "distinct (map ln_id ns)"
  shows "parent_rel (node_parents ns) = {(ln_id n, p) | n p. n \<in> set ns \<and> ln_parent_id n = Some p}"
  using assms
proof (induction ns rule: rev_induct)
  case Nil
  then show ?case by (simp add: parent_rel_def node_parents_def parent_of_def)
next
  case (snoc n ns)
  then show ?case by (auto simp: parent_rel_new_node)
qed

subsection \<open>Migration\<close>

lemma max_by_key_in: "max_by_key f xs = Some x \<Longrightarrow> x \<in> set xs"
proof -
  have "fold (\<lambda>x best. case best of None \<Rightarrow> Some x | Some y \<Rightarrow> if f y \<le> f x then Some x else Some y) xs b
      = Some x \<Longrightarrow> b = Some x \<or> x \<in> set xs" for b
  proof (induction xs arbitrary: b)
    case (Cons y ys)
    from Cons.IH [OF Cons.prems [unfolded fold_Cons comp_def]] show ?case
      by (auto split: option.splits if_splits)
  qed simp
  then show "max_by_key f xs = Some x \<Longrightarrow> x \<in> set xs" by (auto simp: max_by_key_def)
qed

lemma can_restore_snapshot: "can_restore U r \<Longrightarrow> dep_snapshot_uuid r \<noteq> None"
proof -
  assume "can_restore U r"
  then have "\<not> missing (dep_snapshot_uuid r)"
    by (simp add: can_restore_def validate_ok_iff well_formed_deployment_def)
  then show "dep_snapshot_uuid r \<noteq> None"
    by (cases "dep_snapshot_uuid r") (simp_all add: missing_def)
qed

lemma migrated_nodes_ok:
  assumes "list_all (\<lambda>r. DeploymentRecord_validate U r = Inr ()) ds"
  shows "list_all node_ok (map migrate_node ds) \<longleftrightarrow> list_all (\<lambda>r. dep_state r \<noteq> Deleting) ds"
proof -
  have "node_ok (migrate_node r) \<longleftrightarrow> dep_state r \<noteq> Deleting" if "DeploymentRecord_validate U r = Inr ()" for r
    using validate_ok_wellformed [OF that]
    by (simp add: node_ok_def migrate_node_def well_formed_deployment_def)
  with assms show ?thesis by (simp add: list_all_iff)
qed

lemma parent_rel_migrated: "parent_rel (node_parents (map migrate_node ds)) = {}"
  using parent_rel_range [of "{}" "map migrate_node ds"] by (auto simp: list_all_iff migrate_node_def)

lemma migrate_ok_iff:
  assumes "list_all (\<lambda>r. DeploymentRecord_validate U r = Inr ()) ds" and "distinct (map dep_id ds)"
    and "length ds \<le> 100000"
  shows "lineage_ok U (SystemLineage_migrate U ds) \<longleftrightarrow>
    list_all (\<lambda>r. dep_snapshot_uuid r = None \<or> dep_state r \<noteq> Deleting) ds"
proof -
  let ?ds = "filter (\<lambda>r. dep_snapshot_uuid r \<noteq> None) ds"
  have ids: "map ln_id (map migrate_node ?ds) = map dep_id ?ds"
    by (simp add: migrate_node_def)
  have nodes: "list_all node_ok (map migrate_node ?ds) \<longleftrightarrow>
      list_all (\<lambda>r. dep_snapshot_uuid r = None \<or> dep_state r \<noteq> Deleting) ds"
    using assms(1) by (subst migrated_nodes_ok) (auto simp: list_all_iff)
  have head: "r \<in> set ?ds"
    if "max_by_key dep_created_at (filter (\<lambda>r. can_restore U r \<and> dep_kind r \<noteq> Imported) ds) = Some r" for r
    using max_by_key_in [OF that] can_restore_snapshot by auto
  have "length ?ds \<le> 100000" using assms(3) by (meson le_trans length_filter_le)
  moreover have "distinct (map ln_id (map migrate_node ?ds))"
    unfolding ids using assms(2) by (rule distinct_map_filter)
  moreover have "acyclic ({} :: (uuid \<times> uuid) set)" by (simp add: acyclic_def)
  moreover have "list_all (\<lambda>n. set_option (ln_parent_id n) \<subseteq> lineage_ids (SystemLineage_migrate U ds))
      (map migrate_node ?ds)"
    by (simp add: list_all_iff migrate_node_def)
  moreover have "set_option (sl_current_head_id (SystemLineage_migrate U ds)) \<subseteq> lineage_ids (SystemLineage_migrate U ds)"
  proof -
    have "lineage_ids (SystemLineage_migrate U ds) = dep_id ` set ?ds"
      by (simp add: lineage_ids_def SystemLineage_migrate_def migrate_node_def image_image)
    moreover have "sl_current_head_id (SystemLineage_migrate U ds) = map_option dep_id
        (max_by_key dep_created_at (filter (\<lambda>r. can_restore U r \<and> dep_kind r \<noteq> Imported) ds))"
      by (simp add: SystemLineage_migrate_def)
    ultimately show ?thesis using head by (simp add: option.set_map image_subset_iff del: set_filter)
  qed
  ultimately show ?thesis
    unfolding lineage_ok_def nodes [symmetric]
    by (simp add: SystemLineage_migrate_def LINEAGE_SCHEMA_VERSION_def parent_rel_migrated
        del: map_map)
qed

subsection \<open>Properties\<close>

text \<open>
  C27. Validation of the lineage is exact: it accepts a record if and only if the schema
  and the size limits hold, identifiers are distinct, every node is well formed, the
  head and every parent exist, following parents never returns to a node (the
  iterative search with its set of completed nodes decides this precisely), and the
  activations are unique, canonical and refer to existing nodes only.
\<close>

theorem lineage_validation_exact:
  "SystemLineage_validate U l = Inr () \<longleftrightarrow>
     sl_schema_version l = 1 \<and> length (sl_nodes l) \<le> 100000 \<and> length (sl_activations l) \<le> 10000
     \<and> distinct (map ln_id (sl_nodes l)) \<and> list_all node_ok (sl_nodes l)
     \<and> set_option (sl_current_head_id l) \<subseteq> lineage_ids l
     \<and> list_all (\<lambda>n. set_option (ln_parent_id n) \<subseteq> lineage_ids l) (sl_nodes l)
     \<and> acyclic {(ln_id n, p) | n p. n \<in> set (sl_nodes l) \<and> ln_parent_id n = Some p}
     \<and> distinct (map ae_transaction_id (sl_activations l))
     \<and> list_all (event_ok U (lineage_ids l)) (sl_activations l)"
  unfolding lineage_validate_iff lineage_ok_def using parent_rel_distinct by auto

text \<open>
  Recording a completed recovery point on a valid lineage with room left is never
  refused and extends the history at its head: the new node's parent is the previous
  head, the new head is the new node, every earlier node and activation is kept as it
  was, the revision grows by exactly one, and the result is valid again (in particular
  still free of cycles).
\<close>

theorem recovery_point_extends_head:
  assumes "SystemLineage_validate U l = Inr ()" and "DeploymentRecord_validate U r = Inr ()"
    and "\<not> known l (dep_id r)" and "length (sl_nodes l) < 100000" and "unat (sl_revision l) < 2 ^ 64 - 1"
  shows "\<exists>l' n. apply_mutation U (add_recovery_point r) (Some l) = Inr (l', True)
     \<and> SystemLineage_validate U l' = Inr ()
     \<and> sl_nodes l' = sl_nodes l @ [n] \<and> ln_id n = dep_id r \<and> ln_parent_id n = sl_current_head_id l
     \<and> sl_current_head_id l' = Some (dep_id r) \<and> sl_activations l' = sl_activations l
     \<and> unat (sl_revision l') = unat (sl_revision l) + 1"
proof -
  let ?n = "point_node r (sl_current_head_id l) Exact"
  let ?l = "l\<lparr>sl_nodes := sl_nodes l @ [?n], sl_current_head_id := Some (dep_id r)\<rparr>"
  have ok: "lineage_ok U l" using assms(1) by (simp add: lineage_validate_iff)
  then have head: "set_option (sl_current_head_id l) \<subseteq> lineage_ids l" by (simp add: lineage_ok_def)
  have fresh: "dep_id r \<notin> lineage_ids l" using assms(3) by (simp add: known_iff)
  have "node_ok ?n" using head fresh by (intro point_node_ok [OF assms(2)]) auto
  from lineage_ok_add_node [OF ok _ this _ assms(4), where h = "Some (dep_id r)" and v = "sl_revision l + 1"]
  have new: "lineage_ok U (?l\<lparr>sl_revision := sl_revision l + 1\<rparr>)"
    using head fresh by (simp add: point_node_def)
  have "apply_mutation U (add_recovery_point r) (Some l) = Inr (?l\<lparr>sl_revision := sl_revision l + 1\<rparr>, True)"
    using apply_mutation_changed [of "add_recovery_point r" "Some l" ?l U] new assms(3,5)
    by (simp add: add_recovery_point_def)
  moreover have "unat (sl_revision l + 1) = unat (sl_revision l) + 1"
    using checked_add_u64_SomeD [OF revision_advances [OF assms(5)]] by simp
  ultimately show ?thesis
    using new by (auto simp: lineage_validate_iff point_node_def)
qed

text \<open>
  Recording the outcome of a rollback is idempotent and consistent. On a valid
  lineage that knows both deployments, the first call appends one event and moves the
  head to the target when the rollback was confirmed and to the fallback when it was
  reverted; calling it again with the same outcome changes nothing, not even the
  revision; calling it with the other outcome is refused.
\<close>

theorem activation_idempotent:
  assumes "SystemLineage_validate U l = Inr ()" and "uuid_displays U (tx_id t)"
    and "hyphenated U (tx_id t) \<notin> ae_transaction_id ` set (sl_activations l)"
    and "known l (tx_target_deployment_id t)" and "known l (tx_fallback_deployment_id t)"
    and "tx_created_at t \<le> now" and "length (sl_activations l) < 10000"
    and "unat (sl_revision l) < 2 ^ 64 - 1"
  shows "\<exists>l'. apply_mutation U (add_activation U t outcome now) (Some l) = Inr (l', True)
     \<and> sl_current_head_id l' = Some (if outcome = ActConfirmed then tx_target_deployment_id t
                                    else tx_fallback_deployment_id t)
     \<and> length (sl_activations l') = Suc (length (sl_activations l)) \<and> sl_nodes l' = sl_nodes l
     \<and> (\<forall>later. apply_mutation U (add_activation U t outcome later) (Some l') = Inr (l', False))
     \<and> (\<forall>later. isl (apply_mutation U (add_activation U t
            (if outcome = ActConfirmed then ActReverted else ActConfirmed) later) (Some l')))"
proof -
  let ?e = "\<lparr>ae_transaction_id = hyphenated U (tx_id t), ae_previous_head_id = sl_current_head_id l,
    ae_target_id = tx_target_deployment_id t, ae_safety_id = tx_fallback_deployment_id t,
    ae_scheduled_at = tx_created_at t, ae_completed_at = now, ae_outcome = outcome\<rparr>"
  let ?h = "if outcome = ActConfirmed then tx_target_deployment_id t else tx_fallback_deployment_id t"
  let ?l = "l\<lparr>sl_activations := sl_activations l @ [?e], sl_current_head_id := Some ?h\<rparr>"
  let ?l' = "?l\<lparr>sl_revision := sl_revision l + 1\<rparr>"
  have ok: "lineage_ok U l" using assms(1) by (simp add: lineage_validate_iff)
  have "event_ok U (lineage_ids l) ?e"
    using ok assms(2,4-6) by (auto simp: event_ok_def known_iff lineage_ok_def)
  from lineage_ok_add_event [OF ok this assms(7), where h = "Some ?h" and v = "sl_revision l + 1"]
  have new: "lineage_ok U ?l'" using assms(3-5) by (simp add: known_iff)
  have unseen: "find (\<lambda>e. ae_transaction_id e = hyphenated U (tx_id t)) (sl_activations l) = None"
    using assms(3) by (force simp: find_None_iff)
  have first: "apply_mutation U (add_activation U t outcome now) (Some l) = Inr (?l', True)"
    using apply_mutation_changed [of "add_activation U t outcome now" "Some l" ?l U] new assms(4,5,8) unseen
    by (cases outcome) (simp_all add: add_activation_def Let_def)
  have seen: "find (\<lambda>e. ae_transaction_id e = hyphenated U (tx_id t)) (sl_activations ?l') = Some ?e"
    using find_appended [OF unseen] by simp
  have "add_activation U t outcome later (Some ?l') = Inr (Some ?l', False)" for later
    using seen by (simp add: add_activation_def Let_def)
  then have again: "apply_mutation U (add_activation U t outcome later) (Some ?l') = Inr (?l', False)" for later
    using new by (rule apply_mutation_unchanged)
  have "isl (add_activation U t (if outcome = ActConfirmed then ActReverted else ActConfirmed) later (Some ?l'))"
    for later
    using seen by (cases outcome) (simp_all add: add_activation_def Let_def)
  then have other: "isl (apply_mutation U (add_activation U t
      (if outcome = ActConfirmed then ActReverted else ActConfirmed) later) (Some ?l'))" for later
    by (rule apply_mutation_refused)
  show ?thesis
    by (intro exI [of _ ?l'] conjI allI first again other) simp_all
qed

text \<open>
  C30. Every change to the lineage is a transaction, for every mutation and every fault
  schedule. On success the returned lineage is what the mutation makes of the stored
  one, it is valid, and its complete text is in the file (or nothing changed and the
  file is the old one). On failure the file is the old one or already holds that
  complete text. Nothing outside the history directory changes.
\<close>

theorem lineage_mutation_atomic:
  "case mutate U J d m w of
     (x, w') \<Rightarrow>
       (case x of
          Inr l \<Rightarrow> mutation_done U J m (map_of (nodes w) (lineage_file d)) (map_of (nodes w') (lineage_file d)) l
        | Inl e \<Rightarrow> mutation_aborted U J m (map_of (nodes w) (lineage_file d)) (map_of (nodes w') (lineage_file d)))
       \<and> (\<forall>k. prefix d k \<or> map_of (nodes w') k = map_of (nodes w) k)"
proof (cases "mutate U J d m w")
  case (Pair x w')
  have frame: "prefix d k \<or> map_of (nodes w') k = map_of (nodes w) k" for k
    using touchesD [OF touches_mutate Pair, of k] by (auto simp: under_def)
  show ?thesis
  proof (cases x)
    case (Inl e)
    with io_tripleD_err [OF triple_mutate refl] Pair frame show ?thesis by simp
  next
    case (Inr l)
    with io_tripleD_ok [OF triple_mutate refl] Pair frame show ?thesis by simp
  qed
qed

text \<open>
  C38. When the lineage is first created from the existing deployments, the migration
  succeeds exactly when no deployment with a snapshot is being deleted: such a record
  becomes a node that is not available and was never removed, which validation
  refuses, so one deployment in state \<open>Deleting\<close> keeps the lineage from being created.
\<close>

theorem migration_succeeds_iff:
  assumes "list_all (\<lambda>r. DeploymentRecord_validate U r = Inr ()) ds" and "distinct (map dep_id ds)"
    and "length ds \<le> 100000"
  shows "apply_mutation U (initialize_with U ds) None = Inr (SystemLineage_migrate U ds, False)
    \<longleftrightarrow> list_all (\<lambda>r. dep_snapshot_uuid r = None \<or> dep_state r \<noteq> Deleting) ds"
proof -
  have "apply_mutation U (initialize_with U ds) None = Inr (SystemLineage_migrate U ds, False)
    \<longleftrightarrow> SystemLineage_validate U (SystemLineage_migrate U ds) = Inr ()"
    by (auto simp: apply_mutation_def initialize_with_def split: sum.splits)
  then show ?thesis using migrate_ok_iff [OF assms] by (simp add: lineage_validate_iff)
qed

text \<open>
  C39. Saving and loading agree except at the size limit. Without faults, saving a valid
  lineage whose text is at most 4 MiB succeeds; loading then returns that lineage when
  the text is shorter than 4 MiB, and fails when it is exactly 4 MiB, because the line
  feed that saving appends is counted by the limit of loading only.
\<close>

theorem lineage_save_load:
  assumes "fault_free w" and "lineage_ready U d w" and "SystemLineage_validate U l = Inr ()"
    and "lin_print J l = Inr s" and "length s \<le> 4194304" and "lin_parse J (s @ newline) = Inr l"
  shows "\<exists>w'. save_to U J (lineage_file d) l w = (Inr (), w')
    \<and> fst (lineage_load U J d w') =
        (if length s < 4194304 then Inr (Some l)
         else Inl (LineageError_invalid ''system lineage exceeds its size limit''))"
proof -
  have limit: "MAX_LINEAGE_BYTES = 4194304" by (simp add: MAX_LINEAGE_BYTES_def)
  obtain w' where w': "save_to U J (lineage_file d) l w = (Inr (), w')" "fault_free w'"
    using save_to_commits [OF assms(1-4)] assms(5) by (auto simp: limit)
  have "file_holds (nodes w') (lineage_file d) (s @ newline)"
    using lineage.put_ok [OF w'(1)] assms(4) by (auto simp: slot_holds_iff lin_image_def)
  from load_from_reads [OF w'(2) this assms(6,3)] w'(1) show ?thesis
    by (auto simp: lineage_load_def limit newline_def)
qed

subsection \<open>Witnesses\<close>

definition example_node :: "uuid \<Rightarrow> uuid option \<Rightarrow> LineageNode" where
  "example_node i p =
     \<lparr>ln_id = i, ln_parent_id = p, ln_relation = Exact, ln_created_at = 5, ln_kind = Manual,
      ln_title = ''Point'', ln_snapshot_available = True, ln_removed_at = None\<rparr>"

definition example_lineage :: "LineageNode list \<Rightarrow> SystemLineage" where
  "example_lineage ns =
     \<lparr>sl_schema_version = 1, sl_revision = 1, sl_current_head_id = Some 2, sl_nodes = ns,
      sl_activations = []\<rparr>"

lemma example_lineage_valid:
  "SystemLineage_validate example_uuid_lib (example_lineage [example_node 2 None]) = Inr ()"
  "SystemLineage_validate example_uuid_lib (example_lineage [example_node 2 None, example_node 1 (Some 2)]) = Inr ()"
proof -
  have title: "\<not> invalid_text ''Point'' 120" by code_simp
  have rel: "parent_rel (node_parents [example_node 2 None]) = {}"
    "parent_rel (node_parents [example_node 2 None, example_node 1 (Some 2)]) = {(1, 2)}"
    by (auto simp: parent_rel_def node_parents_def parent_of_def example_node_def split: if_splits)
  have none: "acyclic ({} :: (uuid \<times> uuid) set)" by (simp add: acyclic_def)
  then have "acyclic ({(1, 2)} :: (uuid \<times> uuid) set)" by (subst acyclic_insert) simp
  with none title rel show
    "SystemLineage_validate example_uuid_lib (example_lineage [example_node 2 None]) = Inr ()"
    "SystemLineage_validate example_uuid_lib (example_lineage [example_node 2 None, example_node 1 (Some 2)]) = Inr ()"
    by (simp_all add: lineage_validate_iff lineage_ok_def example_lineage_def lineage_ids_def)
      (simp_all add: example_node_def node_ok_def)
qed

lemma example_record_valid: "DeploymentRecord_validate example_uuid_lib example_deployment = Inr ()"
  using example_deployment_restorable by (simp add: can_restore_def)

theorem recovery_point_extends_head_witness:
  "\<exists>l'. apply_mutation example_uuid_lib (add_recovery_point example_deployment)
       (Some (example_lineage [example_node 2 None])) = Inr (l', True)
     \<and> sl_current_head_id l' = Some 1 \<and> length (sl_nodes l') = 2"
proof -
  have "\<not> known (example_lineage [example_node 2 None]) (dep_id example_deployment)"
    by (simp add: known_def example_lineage_def example_node_def example_deployment_def)
  from recovery_point_extends_head [OF example_lineage_valid(1) example_record_valid this] show ?thesis
    by (auto simp: example_lineage_def example_deployment_def)
qed

theorem activation_idempotent_witness:
  "\<exists>l'. apply_mutation example_uuid_lib (add_activation example_uuid_lib example_transaction ActReverted 200)
       (Some (example_lineage [example_node 2 None, example_node 1 (Some 2)])) = Inr (l', True)
     \<and> sl_current_head_id l' = Some 2"
  using activation_idempotent [OF example_lineage_valid(2), of example_transaction 200 ActReverted]
  by (auto simp: example_lineage_def example_node_def example_transaction_def RollbackTransaction_new_def
      known_def uuid_displays_def example_uuid_lib_def)

theorem migration_succeeds_iff_witness:
  "apply_mutation example_uuid_lib
       (initialize_with example_uuid_lib [example_deployment\<lparr>dep_state := Deleting\<rparr>]) None
     \<noteq> Inr (SystemLineage_migrate example_uuid_lib [example_deployment\<lparr>dep_state := Deleting\<rparr>], False)"
proof -
  have "DeploymentRecord_validate example_uuid_lib (example_deployment\<lparr>dep_state := Deleting\<rparr>) = Inr ()"
    by code_simp
  then show ?thesis
    using migration_succeeds_iff [of example_uuid_lib "[example_deployment\<lparr>dep_state := Deleting\<rparr>]"]
    by (simp add: example_deployment_def)
qed

definition example_lineage_world :: world where
  "example_lineage_world =
     \<lparr>nodes = [([''h''], \<lparr>ftype = Directory, mode = 0x1C0, uid = 0, gid = 0\<rparr>)],
      ticks = 0, fault = (\<lambda>_. None), clock = (\<lambda>_. 0), entropy = (\<lambda>_. 1)\<rparr>"

text \<open>A lineage whose text takes \<open>n\<close> bytes.\<close>

definition example_lin_json :: "nat \<Rightarrow> lin_json" where
  "example_lin_json n =
     \<lparr>lin_parse = (\<lambda>_. Inr (example_lineage [example_node 2 None])),
      lin_print = (\<lambda>_. Inr (replicate n CHR ''x''))\<rparr>"

theorem lineage_save_load_witness:
  "\<exists>w'. save_to example_uuid_lib (example_lin_json 4194304) (lineage_file [''h''])
       (example_lineage [example_node 2 None]) example_lineage_world = (Inr (), w')
     \<and> fst (lineage_load example_uuid_lib (example_lin_json 4194304) [''h''] w')
        = Inl (LineageError_invalid ''system lineage exceeds its size limit'')"
proof -
  have "fault_free example_lineage_world" "lineage_ready example_uuid_lib [''h''] example_lineage_world"
    by (simp_all add: fault_free_def lineage_ready_def example_lineage_world_def lineage_file_def
        lineage_temporary_def)
  from lineage_save_load [OF this example_lineage_valid(1), of "example_lin_json 4194304"
      "replicate 4194304 CHR ''x''"] show ?thesis
    by (simp add: example_lin_json_def)
qed

end
