(* ===== verification/Offline.thy ===== *)
theory Offline
  imports Recovery_Outcome Lineage
begin

text \<open>
  \<open>offline.rs\<close>: the replacement of the root of an installation that a rescue system
  has mounted. A journal in the snapshot store records the phase; \<open>converge\<close> resumes from
  whatever layout and phase a power loss left, and only discards the previous root once
  the target is live and the lineage names it.
\<close>

subsection \<open>Data\<close>

definition OFFLINE_TRANSACTION_SCHEMA :: u32 where "OFFLINE_TRANSACTION_SCHEMA = 1"

definition MAX_TRANSACTION_BYTES :: nat where "MAX_TRANSACTION_BYTES = 1024 * 1024"

datatype OfflinePhase =
  OffPrepared | OffWritableTargetCreated | OffCurrentRootProtected | OffTargetRootActivated | OffCompleted

record OfflineTransaction =
  ot_schema_version :: u32
  ot_id :: uuid
  ot_target_deployment_id :: uuid
  ot_phase :: OfflinePhase
  ot_created_at :: timestamp
  ot_updated_at :: timestamp

datatype OfflineErrorCode = OeBusy | OeInvalidTarget | OeUnsafeLayout | OeCommandFailed | OeIo

record OfflineError =
  oe_code :: OfflineErrorCode
  oe_message :: string

definition OfflineError_new :: "OfflineErrorCode \<Rightarrow> string \<Rightarrow> OfflineError" where
  "OfflineError_new c m = \<lparr>oe_code = c, oe_message = m\<rparr>"

definition offline_io_error :: "string \<Rightarrow> io_error \<Rightarrow> OfflineError" where
  "offline_io_error context e = OfflineError_new OeIo (context @ '': '' @ err_text e)"

definition fs_error :: "RecoveryError \<Rightarrow> OfflineError" where
  "fs_error e =
     OfflineError_new
       (case re_code e of ReUnsafeLayout \<Rightarrow> OeUnsafeLayout | ReIo \<Rightarrow> OeIo | _ \<Rightarrow> OeCommandFailed)
       (re_message e)"

definition offline_unsafe_state :: "string \<Rightarrow> bool \<times> bool \<times> bool \<Rightarrow> OfflineError" where
  "offline_unsafe_state operation state =
     (case state of (a, b, c) \<Rightarrow> OfflineError_new OeUnsafeLayout
        (''Unsafe offline '' @ operation @ '' state: root='' @ show_bool a @ '', old='' @ show_bool b
          @ '', new='' @ show_bool c))"

text \<open>Serde's JSON of the journal.\<close>

record offline_json =
  oj_parse :: "bytes \<Rightarrow> string + OfflineTransaction"
  oj_print :: "OfflineTransaction \<Rightarrow> string + bytes"

record offline_libraries =
  off_uuid :: uuid_lib
  off_dep :: dep_json
  off_lineage :: lin_json
  off_json :: offline_json

record OfflineRecoveryEngine =
  off_top :: path
  off_fs :: recovery_fs

definition OfflineTransaction_new :: "uuid \<Rightarrow> ('e, OfflineTransaction) io" where
  "OfflineTransaction_new target =
     io_bind utc_now (\<lambda>now.
     io_bind new_v4 (\<lambda>i.
     io_return \<lparr>ot_schema_version = OFFLINE_TRANSACTION_SCHEMA, ot_id = i, ot_target_deployment_id = target,
                ot_phase = OffPrepared, ot_created_at = now, ot_updated_at = now\<rparr>))"

definition offline_old_root_name :: "uuid_lib \<Rightarrow> OfflineTransaction \<Rightarrow> string" where
  "offline_old_root_name U t = ''@root.rescue-center-old-'' @ hyphenated U (ot_id t)"

definition offline_new_root_name :: "uuid_lib \<Rightarrow> OfflineTransaction \<Rightarrow> string" where
  "offline_new_root_name U t = ''@root.rescue-center-new-'' @ hyphenated U (ot_id t)"

subsection \<open>Paths and directories\<close>

definition offline_snapshot_root :: "OfflineRecoveryEngine \<Rightarrow> path" where
  "offline_snapshot_root E = off_top E @ [''@snapshots'', ''anduinos-btrfs-snapshots-manager'']"

definition offline_deployment_root :: "offline_libraries \<Rightarrow> OfflineRecoveryEngine \<Rightarrow> uuid \<Rightarrow> path" where
  "offline_deployment_root L E i =
     offline_snapshot_root E @ [''deployments'', hyphenated (off_uuid L) i, ''root'']"

definition offline_directory :: "OfflineRecoveryEngine \<Rightarrow> path" where
  "offline_directory E = offline_snapshot_root E @ [''offline-transactions'']"

definition offline_pending_path :: "OfflineRecoveryEngine \<Rightarrow> path" where
  "offline_pending_path E = offline_directory E @ [''pending.json'']"

definition offline_swap :: "offline_libraries \<Rightarrow> OfflineRecoveryEngine \<Rightarrow> OfflineTransaction \<Rightarrow> swap" where
  "offline_swap L E t =
     \<lparr>sw_live = off_top E @ [''@root''], sw_old = off_top E @ [offline_old_root_name (off_uuid L) t],
      sw_new = off_top E @ [offline_new_root_name (off_uuid L) t]\<rparr>"

definition offline_real_directory :: "path \<Rightarrow> (OfflineError, bool) io" where
  "offline_real_directory p =
     io_match (symlink_metadata p) (\<lambda>r.
       case r of
         Inr metadata \<Rightarrow>
           (if ftype metadata = Directory then io_return True
            else io_throw (OfflineError_new OeUnsafeLayout (display_path p @ '' is not a real directory'')))
       | Inl e \<Rightarrow>
           (if err_kind e = NotFound then io_return False
            else io_throw (offline_io_error (''Could not inspect '' @ display_path p) e)))"

definition offline_ensure_real_directory :: "path \<Rightarrow> (OfflineError, unit) io" where
  "offline_ensure_real_directory p =
     io_bind (offline_real_directory p) (\<lambda>there.
     if there then io_return ()
     else io_throw (OfflineError_new OeUnsafeLayout (display_path p @ '' does not exist'')))"

definition offline_ensure_directory :: "path \<Rightarrow> (OfflineError, unit) io" where
  "offline_ensure_directory p =
     io_match (symlink_metadata p) (\<lambda>r.
       case r of
         Inr metadata \<Rightarrow>
           (if ftype metadata = Directory then io_return ()
            else io_throw (OfflineError_new OeUnsafeLayout (display_path p @ '' is not a real directory'')))
       | Inl e \<Rightarrow>
           (if err_kind e = NotFound
            then io_map_err (offline_io_error (''Could not create '' @ display_path p))
                   (io_bind (create_dir p 0x1FF) (\<lambda>_.
                    io_bind (set_permissions p 0x1C0) (\<lambda>_. sync_directory (butlast p))))
            else io_throw (offline_io_error (''Could not inspect '' @ display_path p) e)))"

definition offline_layout :: "swap \<Rightarrow> (OfflineError, bool \<times> bool \<times> bool) io" where
  "offline_layout sw =
     io_bind (offline_real_directory (sw_live sw)) (\<lambda>a.
     io_bind (offline_real_directory (sw_old sw)) (\<lambda>b.
     io_bind (offline_real_directory (sw_new sw)) (\<lambda>c. io_return (a, b, c))))"

subsection \<open>The journal\<close>

definition validate_transaction :: "OfflineTransaction \<Rightarrow> OfflineError + unit" where
  "validate_transaction t =
     check (ot_schema_version t \<noteq> OFFLINE_TRANSACTION_SCHEMA \<or> ot_updated_at t < ot_created_at t)
       (OfflineError_new OeInvalidTarget ''The offline recovery transaction is invalid'')"

definition acquire_lock :: "OfflineRecoveryEngine \<Rightarrow> (OfflineError, unit) io" where
  "acquire_lock E =
     (let p = offline_snapshot_root E @ [''operation.lock''] in
      io_bind (io_map_err (offline_io_error ''Could not open the recovery operation lock'') (open_create p 0x180)) (\<lambda>_.
      io_map_err (\<lambda>e. OfflineError_new (if err_kind e = WouldBlock then OeBusy else OeIo)
                        (''Could not lock recovery storage: '' @ err_text e))
        (flock_nonblocking p)))"

definition offline_load_pending ::
  "offline_libraries \<Rightarrow> OfflineRecoveryEngine \<Rightarrow> (OfflineError, OfflineTransaction option) io" where
  "offline_load_pending L E =
     (let p = offline_pending_path E in
      io_match (symlink_metadata p) (\<lambda>r.
        case r of
          Inl e \<Rightarrow>
            (if err_kind e = NotFound then io_return None
             else io_throw (offline_io_error ''Could not inspect offline transaction'' e))
        | Inr metadata \<Rightarrow>
            (case regular_content metadata of
               None \<Rightarrow> io_throw (OfflineError_new OeUnsafeLayout ''Offline recovery transaction is not a regular file'')
             | Some content \<Rightarrow>
                 if MAX_TRANSACTION_BYTES < length content
                 then io_throw (OfflineError_new OeInvalidTarget ''Offline recovery transaction is too large'')
                 else
                   io_bind (io_map_err (offline_io_error ''Could not open offline transaction'') (open_read p)) (\<lambda>_.
                   io_bind (io_map_err (offline_io_error ''Could not read offline transaction'')
                              (read_to_end p (MAX_TRANSACTION_BYTES + 1))) (\<lambda>bytes.
                   case oj_parse (off_json L) bytes of
                     Inl e \<Rightarrow> io_throw (OfflineError_new OeInvalidTarget
                                (''Offline recovery transaction is invalid JSON: '' @ e))
                   | Inr t \<Rightarrow> io_bind (io_lift (validate_transaction t)) (\<lambda>_. io_return (Some t)))))))"

definition transaction_directory :: "OfflineRecoveryEngine \<Rightarrow> (OfflineError, path) io" where
  "transaction_directory E =
     io_bind (offline_ensure_directory (offline_directory E)) (\<lambda>_. io_return (offline_directory E))"

definition offline_serialize :: "offline_json \<Rightarrow> OfflineTransaction \<Rightarrow> OfflineError + bytes" where
  "offline_serialize J t =
     (case oj_print J t of
        Inl e \<Rightarrow> Inl (OfflineError_new OeIo (''Could not serialize transaction: '' @ e))
      | Inr b \<Rightarrow> Inr b)"

definition write_pending ::
  "offline_libraries \<Rightarrow> OfflineRecoveryEngine \<Rightarrow> OfflineTransaction \<Rightarrow> (OfflineError, unit) io" where
  "write_pending L E t =
     io_bind (transaction_directory E) (\<lambda>directory.
     let target = directory @ [''pending.json''] in
     io_match (symlink_metadata target) (\<lambda>r.
     if (case r of Inr metadata \<Rightarrow> regular_content metadata = None | Inl _ \<Rightarrow> False)
     then io_throw (OfflineError_new OeUnsafeLayout ''Offline recovery transaction target is unsafe'')
     else
       io_bind new_v4 (\<lambda>i.
       let temporary = directory @ [''.'' @ hyphenated (off_uuid L) i @ ''.tmp''] in
       io_bind (io_lift (offline_serialize (off_json L) t)) (\<lambda>bytes.
       io_bind (io_map_err (offline_io_error ''Could not create offline transaction'')
                  (create_new temporary 0x180)) (\<lambda>_.
       io_match (replace_file directory temporary target bytes) (\<lambda>result.
         case result of
           Inr _ \<Rightarrow> io_return ()
         | Inl e \<Rightarrow> io_match (remove_file temporary) (\<lambda>_.
             io_throw (offline_io_error ''Could not commit offline transaction'' e))))))))"

definition offline_archive ::
  "offline_libraries \<Rightarrow> OfflineRecoveryEngine \<Rightarrow> OfflineTransaction \<Rightarrow> (OfflineError, unit) io" where
  "offline_archive L E t =
     io_bind (transaction_directory E) (\<lambda>directory.
     let history = directory @ [''history''] in
     io_bind (offline_ensure_directory history) (\<lambda>_.
     io_map_err (offline_io_error ''Could not archive offline transaction'')
       (io_bind (fs_rename (directory @ [''pending.json''])
                   (history @ [hyphenated (off_uuid L) (ot_id t) @ ''.json''])) (\<lambda>_.
        sync_directory directory))))"

definition update_phase ::
  "offline_libraries \<Rightarrow> OfflineRecoveryEngine \<Rightarrow> OfflinePhase \<Rightarrow> OfflineTransaction \<Rightarrow>
   (OfflineError, OfflineTransaction) io" where
  "update_phase L E phase t =
     io_bind utc_now (\<lambda>now.
     let t = t\<lparr>ot_phase := phase, ot_updated_at := now\<rparr> in
     io_bind (write_pending L E t) (\<lambda>_. io_return t))"

subsection \<open>Validation\<close>

fun validate_subvolumes :: "OfflineRecoveryEngine \<Rightarrow> string list \<Rightarrow> (OfflineError, unit) io" where
  "validate_subvolumes E [] = io_return ()"
| "validate_subvolumes E (name # names) =
     io_bind (offline_ensure_real_directory (off_top E @ [name])) (\<lambda>_.
     io_bind (io_map_err fs_error (rf_identity (off_fs E) (off_top E @ [name]))) (\<lambda>_.
     validate_subvolumes E names))"

definition validate_missing_root :: "OfflineRecoveryEngine \<Rightarrow> (OfflineError, unit) io" where
  "validate_missing_root E =
     io_match (symlink_metadata (offline_pending_path E)) (\<lambda>r.
       case r of
         Inr metadata \<Rightarrow>
           (if regular_content metadata \<noteq> None then io_return ()
            else io_throw (OfflineError_new OeUnsafeLayout
                   ''The installation root is missing and the recovery transaction is unsafe''))
       | Inl e \<Rightarrow>
           (if err_kind e = NotFound
            then io_throw (OfflineError_new OeUnsafeLayout
                   ''The installation root is missing and no offline recovery is pending'')
            else io_throw (offline_io_error ''Could not inspect the offline transaction'' e)))"

definition validate_layout :: "OfflineRecoveryEngine \<Rightarrow> (OfflineError, unit) io" where
  "validate_layout E =
     io_bind (offline_ensure_real_directory (off_top E)) (\<lambda>_.
     io_bind (validate_subvolumes E [''@home'', ''@log'', ''@snapshots'', ''@containers'', ''@libvirt'']) (\<lambda>_.
     io_bind (offline_real_directory (off_top E @ [''@root''])) (\<lambda>there.
     io_bind (if there
              then io_bind (io_map_err fs_error (rf_identity (off_fs E) (off_top E @ [''@root'']))) (\<lambda>_. io_return ())
              else validate_missing_root E) (\<lambda>_.
     offline_ensure_real_directory (offline_snapshot_root E)))))"

definition validate_target ::
  "offline_libraries \<Rightarrow> OfflineRecoveryEngine \<Rightarrow> uuid \<Rightarrow> (OfflineError, unit) io" where
  "validate_target L E i =
     (let refuse = (\<lambda>c m. io_throw (OfflineError_new c m)); target = offline_deployment_root L E i in
      io_bind (io_map_err (\<lambda>problem. OfflineError_new OeInvalidTarget (di_message problem))
                 (load_record (off_uuid L) (off_dep L) (offline_snapshot_root E) i)) (\<lambda>record.
      if \<not> can_restore (off_uuid L) record
      then refuse OeInvalidTarget ''The selected system snapshot is not complete and restorable''
      else
        io_bind (offline_ensure_real_directory target) (\<lambda>_.
        case dep_snapshot_uuid record of
          None \<Rightarrow> refuse OeInvalidTarget ''Snapshot UUID is missing''
        | Some expected \<Rightarrow>
            io_bind (io_map_err fs_error (rf_identity (off_fs E) target)) (\<lambda>identity.
            if identity \<noteq> expected
            then refuse OeInvalidTarget ''The selected snapshot UUID does not match its metadata''
            else
              io_bind (io_map_err fs_error (rf_is_read_only (off_fs E) target)) (\<lambda>read_only.
              if \<not> read_only then refuse OeInvalidTarget ''The selected system snapshot is not read-only''
              else
                io_bind (io_map_err fs_error (rf_has_descendants (off_fs E) target)) (\<lambda>nested.
                if nested then refuse OeUnsafeLayout ''The selected snapshot contains nested Btrfs subvolumes''
                else io_return ()))))))"

subsection \<open>Recording the head\<close>

definition offline_history :: "OfflineRecoveryEngine \<Rightarrow> path" where
  "offline_history E = offline_snapshot_root E @ [''history'']"

definition record_head ::
  "offline_libraries \<Rightarrow> OfflineRecoveryEngine \<Rightarrow> uuid \<Rightarrow> (OfflineError, unit) io" where
  "record_head L E i =
     io_bind (io_map_err (\<lambda>problem. OfflineError_new OeInvalidTarget (di_message problem))
                (discover (off_uuid L) (off_dep L) (offline_snapshot_root E))) (\<lambda>discovery.
     if dr_issues discovery \<noteq> []
     then io_throw (OfflineError_new OeInvalidTarget ''Snapshot metadata contains unresolved issues'')
     else
       io_bind (io_map_err (\<lambda>e. OfflineError_new OeIo (le_message e))
                  (ensure_initialized (off_uuid L) (off_lineage L) (offline_history E) (dr_deployments discovery))) (\<lambda>_.
       io_bind (io_map_err (\<lambda>e. OfflineError_new OeIo (le_message e))
                  (record_offline_head (off_uuid L) (off_lineage L) (offline_history E) i)) (\<lambda>_.
       io_return ())))"

subsection \<open>Converging\<close>

fun delete_children :: "OfflineRecoveryEngine \<Rightarrow> path list \<Rightarrow> (OfflineError, unit) io" where
  "delete_children E [] = io_return ()"
| "delete_children E (child # cs) =
     io_bind (io_map_err fs_error (rf_delete (off_fs E) child)) (\<lambda>_.
     io_bind (io_map_err fs_error (rf_sync (off_fs E) (off_top E))) (\<lambda>_.
     delete_children E cs))"

text \<open>The phase \<open>TargetRootActivated\<close>: discard the old root, or finish.\<close>

definition discard_old ::
  "offline_libraries \<Rightarrow> OfflineRecoveryEngine \<Rightarrow> OfflineTransaction \<Rightarrow> (OfflineError, unit) io" where
  "discard_old L E t =
     (let old = sw_old (offline_swap L E t) in
      io_bind (record_head L E (ot_target_deployment_id t)) (\<lambda>_.
      io_bind (io_map_err fs_error (rf_empty_system_subvolumes (off_fs E) old)) (\<lambda>children.
      io_bind (delete_children E children) (\<lambda>_.
      io_bind (io_map_err fs_error (rf_delete (off_fs E) old)) (\<lambda>_.
      io_map_err fs_error (rf_sync (off_fs E) (off_top E)))))))"

definition complete ::
  "offline_libraries \<Rightarrow> OfflineRecoveryEngine \<Rightarrow> OfflineTransaction \<Rightarrow> (OfflineError, OfflineTransaction) io" where
  "complete L E t =
     io_bind (record_head L E (ot_target_deployment_id t)) (\<lambda>_.
     io_bind (io_map_err fs_error (rf_wait_for_deleted_subvolumes (off_fs E) (off_top E))) (\<lambda>_.
     io_bind utc_now (\<lambda>now.
     let t = t\<lparr>ot_phase := OffCompleted, ot_updated_at := now\<rparr> in
     io_bind (write_pending L E t) (\<lambda>_.
     io_bind (offline_archive L E t) (\<lambda>_. io_return t)))))"

text \<open>A change of a subvolume, synced before the journal records it.\<close>

definition offline_step ::
  "offline_libraries \<Rightarrow> OfflineRecoveryEngine \<Rightarrow> (RecoveryError, unit) io \<Rightarrow> OfflinePhase \<Rightarrow> OfflineTransaction \<Rightarrow>
   (OfflineError, OfflineTransaction) io" where
  "offline_step L E change phase t =
     io_bind (io_map_err fs_error change) (\<lambda>_.
     io_bind (io_map_err fs_error (rf_sync (off_fs E) (off_top E))) (\<lambda>_.
     update_phase L E phase t))"

definition restore_original :: "OfflineRecoveryEngine \<Rightarrow> swap \<Rightarrow> (OfflineError, OfflineTransaction) io" where
  "restore_original E sw =
     io_bind (io_map_err fs_error (rf_rename (off_fs E) (sw_old sw) (sw_live sw))) (\<lambda>_.
     io_bind (io_map_err fs_error (rf_sync (off_fs E) (off_top E))) (\<lambda>_.
     io_throw (OfflineError_new OeUnsafeLayout
       ''The staged rescue root disappeared; the original root was restored'')))"

fun converge_loop ::
  "offline_libraries \<Rightarrow> OfflineRecoveryEngine \<Rightarrow> nat \<Rightarrow> OfflineTransaction \<Rightarrow> (OfflineError, OfflineTransaction) io" where
  "converge_loop L E 0 t = io_throw (OfflineError_new OeUnsafeLayout ''Offline recovery did not converge'')"
| "converge_loop L E (Suc n) t =
     (let sw = offline_swap L E t; F = off_fs E; target = offline_deployment_root L E (ot_target_deployment_id t) in
      io_bind (offline_layout sw) (\<lambda>state.
      if ot_phase t = OffTargetRootActivated
      then
        if state = (True, True, False) then io_bind (discard_old L E t) (\<lambda>_. converge_loop L E n t)
        else if state = (True, False, False) then complete L E t
        else io_throw (offline_unsafe_state ''finalize'' state)
      else if state = (True, False, False)
      then io_bind (io_map_err fs_error (rf_empty_system_subvolumes F (sw_live sw))) (\<lambda>_.
           io_bind (offline_step L E (rf_snapshot F target (sw_new sw)) OffWritableTargetCreated t) (converge_loop L E n))
      else if state = (True, False, True)
      then io_bind (io_map_err fs_error (rf_empty_system_subvolumes F (sw_live sw))) (\<lambda>_.
           io_bind (offline_step L E (rf_rename F (sw_live sw) (sw_old sw)) OffCurrentRootProtected t) (converge_loop L E n))
      else if state = (False, True, True)
      then io_bind (offline_step L E (rf_rename F (sw_new sw) (sw_live sw)) OffTargetRootActivated t) (converge_loop L E n)
      else if state = (True, True, False)
      then io_bind (update_phase L E OffTargetRootActivated t) (converge_loop L E n)
      else if state = (False, True, False) then restore_original E sw
      else io_throw (offline_unsafe_state ''apply'' state)))"

definition converge ::
  "offline_libraries \<Rightarrow> OfflineRecoveryEngine \<Rightarrow> OfflineTransaction \<Rightarrow> (OfflineError, OfflineTransaction) io" where
  "converge L E t =
     io_bind (io_lift (validate_transaction t)) (\<lambda>_.
     if ot_phase t = OffCompleted
     then io_bind (offline_archive L E t) (\<lambda>_. io_return t)
     else
       io_bind (validate_target L E (ot_target_deployment_id t)) (\<lambda>_.
       converge_loop L E 8 t))"

definition offline_restore ::
  "offline_libraries \<Rightarrow> OfflineRecoveryEngine \<Rightarrow> uuid \<Rightarrow> (OfflineError, OfflineTransaction) io" where
  "offline_restore L E target =
     (let start =
        io_bind (validate_target L E target) (\<lambda>_.
        io_bind (io_map_err fs_error (rf_empty_system_subvolumes (off_fs E) (off_top E @ [''@root'']))) (\<lambda>_.
        io_bind (OfflineTransaction_new target) (\<lambda>t.
        io_bind (write_pending L E t) (\<lambda>_.
        converge L E t))))
      in
      io_bind (validate_layout E) (\<lambda>_.
      io_bind (acquire_lock E) (\<lambda>_.
      io_bind (offline_load_pending L E) (\<lambda>pending.
      case pending of
        None \<Rightarrow> start
      | Some t \<Rightarrow>
          io_bind (converge L E t) (\<lambda>completed.
          if ot_target_deployment_id completed = target then io_return completed else start)))))"

definition offline_resume ::
  "offline_libraries \<Rightarrow> OfflineRecoveryEngine \<Rightarrow> (OfflineError, OfflineTransaction option) io" where
  "offline_resume L E =
     io_bind (validate_layout E) (\<lambda>_.
     io_bind (acquire_lock E) (\<lambda>_.
     io_bind (offline_load_pending L E) (\<lambda>pending.
     case pending of
       None \<Rightarrow> io_return None
     | Some t \<Rightarrow> io_bind (converge L E t) (\<lambda>t. io_return (Some t)))))"

definition offline_pending ::
  "offline_libraries \<Rightarrow> OfflineRecoveryEngine \<Rightarrow> (OfflineError, OfflineTransaction option) io" where
  "offline_pending L E = io_bind (validate_layout E) (\<lambda>_. offline_load_pending L E)"

end
