(* ===== verification/Offline_Safety.thy ===== *)
theory Offline_Safety
  imports Offline
begin

text \<open>
  Safety of the offline recovery: whatever call fails and however often the recovery is
  resumed, the installation holds a complete root, and the previous one is only discarded
  when the target is live and the lineage names it.
\<close>

subsection \<open>What the recovery relies on\<close>

locale offline_filesystem = recovery_filesystem +
  assumes wait_frame: "touches {} (rf_wait_for_deleted_subvolumes F p)"
    and empty_frame: "touches {} (rf_empty_system_subvolumes F p)"
    and empty_children: "rf_empty_system_subvolumes F p w = (Inr cs, w') \<Longrightarrow> c \<in> set cs \<Longrightarrow> prefix p c"
    and snapshot_err: "apart p q \<Longrightarrow> map_of (nodes w) q = None \<Longrightarrow> rf_snapshot F p q w = (Inl e, w') \<Longrightarrow>
      map_of (nodes w') q = None \<or> (\<forall>r. map_of (nodes w') (q @ r) = map_of (nodes w) (p @ r))"

text \<open>Creating a snapshot is atomic: a command that fails has created nothing or all of it.\<close>

definition btrfs_atomic :: "command \<Rightarrow> bool" where
  "btrfs_atomic C \<longleftrightarrow>
     (\<forall>p q w x w'. apart p q \<longrightarrow> map_of (nodes w) q = None \<longrightarrow> C (btrfs_snapshot p q) w = (x, w') \<longrightarrow>
        map_of (nodes w') q = None \<or> (\<forall>r. map_of (nodes w') (q @ r) = map_of (nodes w) (p @ r)))"

lemma inspect_components_target:
  "inspect_components reported target cs w = (Inr p, w') \<Longrightarrow> p = target @ cs"
proof (induction cs arbitrary: target w)
  case (Cons c cs)
  then have "\<exists>v. inspect_components reported (target @ [c]) cs v = (Inr p, w')"
    by (auto simp: io_bind_def io_throw_def split: prod.splits sum.splits if_splits)
  with Cons.IH [of "target @ [c]"] show ?case by auto
qed (simp add: io_return_def)

lemma collect_empty_children:
  "collect_empty_subvolumes root name ls children w = (Inr cs, w') \<Longrightarrow> \<forall>c \<in> set children. prefix root c \<Longrightarrow>
    c \<in> set cs \<Longrightarrow> prefix root c"
proof (induction ls arbitrary: children w)
  case (Cons l ls)
  show ?case
  proof (cases "str_trim l = []")
    case True
    with Cons show ?thesis by (simp add: Cons.IH)
  next
    case False
    with Cons.prems(1) obtain components target v where
      step: "inspect_components (fst components) root (snd components) v = (Inr target, snd (inspect_components (fst components) root (snd components) v))"
      and rest: "\<exists>u. collect_empty_subvolumes root name ls (children @ [target]) u = (Inr cs, w')"
      by (auto simp: io_bind_def io_lift_def io_throw_def split: prod.splits sum.splits if_splits; metis snd_conv fst_conv)
    from inspect_components_target [OF step] have "prefix root target" by simp
    with rest Cons.IH Cons.prems(2,3) show ?thesis by fastforce
  qed
qed (auto simp: io_return_def)

lemma touches_inspect_components [io_rules]: "touches S (inspect_components reported target cs)"
  by (induction cs arbitrary: target) (auto intro!: io_rules)

lemma touches_collect_empty [io_rules]: "touches S (collect_empty_subvolumes root name ls children)"
  by (induction ls arbitrary: children) (auto intro!: io_rules)

lemma system_fs_offline:
  assumes "btrfs_behaves C" and "btrfs_atomic C"
  shows "offline_filesystem (system_fs U C)"
proof (intro offline_filesystem.intro offline_filesystem_axioms.intro)
  show "recovery_filesystem (system_fs U C)" using assms(1) by (rule system_fs_laws)
  have quiet: "touches {} (run_btrfs C (btrfs_wait p))" "touches {} (run_btrfs C (btrfs_list p))" for p
    using assms(1) by (auto simp: btrfs_behaves_def intro!: touches_run_btrfs)
  show "touches {} (rf_wait_for_deleted_subvolumes (system_fs U C) p)" for p
    unfolding system_fs_def recovery_fs.simps system_wait_for_deleted_subvolumes_def by (intro io_rules quiet)
  show "touches {} (rf_empty_system_subvolumes (system_fs U C) p)" for p
    unfolding system_fs_def recovery_fs.simps system_empty_system_subvolumes_def by (intro io_rules quiet)
  show "prefix p c" if "rf_empty_system_subvolumes (system_fs U C) p w = (Inr cs, w')" "c \<in> set cs" for p w cs w' c
    using that collect_empty_children [of p "last p" _ "[]"]
    by (auto simp: system_fs_def system_empty_system_subvolumes_def io_bind_def io_return_def io_throw_def
        split: prod.splits sum.splits if_splits)
  show "map_of (nodes w') q = None \<or> (\<forall>r. map_of (nodes w') (q @ r) = map_of (nodes w) (p @ r))"
    if "apart p q" "map_of (nodes w) q = None" "rf_snapshot (system_fs U C) p q w = (Inl e, w')" for p q w e w'
  proof -
    have "\<exists>x. C (btrfs_snapshot p q) w = (x, w')"
      using that(3) by (auto simp: system_fs_def system_snapshot_def run_btrfs_def Let_def io_bind_def io_map_err_def
          io_match_def io_return_def io_throw_def split: prod.splits sum.splits if_splits)
    with assms(2) that(1,2) show ?thesis unfolding btrfs_atomic_def by blast
  qed
qed

lemma simulated_atomic: "btrfs_atomic simulated_btrfs"
  unfolding btrfs_atomic_def
proof (intro allI impI)
  fix p q w x w'
  assume "apart p q" "map_of (nodes w) q = None" "simulated_btrfs (btrfs_snapshot p q) w = (x, w')"
  then show "map_of (nodes w') q = None \<or> (\<forall>r. map_of (nodes w') (q @ r) = map_of (nodes w) (p @ r))"
    using map_of_fs_copy_target [of p q]
    by (auto simp: btrfs_snapshot_def simulated_change_def syscall_def tick_def command_failed_def
        split: option.splits if_splits)
qed

interpretation simulated: offline_filesystem "system_fs U simulated_btrfs" for U
  by (rule system_fs_offline [OF simulated_behaves simulated_atomic])

interpretation fake: offline_filesystem "fake_fs u" for u
proof
  show "touches {} (rf_wait_for_deleted_subvolumes (fake_fs u) p)" for p
    by (simp add: fake_fs_def touches_return)
  show "touches {} (rf_empty_system_subvolumes (fake_fs u) p)" for p
    unfolding fake_fs_def recovery_fs.simps default_empty_system_subvolumes_def by (intro io_rules)
  show "prefix p c" if "rf_empty_system_subvolumes (fake_fs u) p w = (Inr cs, w')" "c \<in> set cs" for p w cs w' c
    using that by (simp add: fake_fs_def default_empty_system_subvolumes_def io_bind_def io_return_def)
  show "map_of (nodes w') q = None \<or> (\<forall>r. map_of (nodes w') (q @ r) = map_of (nodes w) (p @ r))"
    if "apart p q" "map_of (nodes w) q = None" "rf_snapshot (fake_fs u) p q w = (Inl e, w')" for p q w e w'
    using that by (auto simp: fake_fs_def fake_mutation_def copy_tree_def io_bind_def io_map_err_def io_match_def
        io_return_def io_throw_def syscall_def tick_def split: prod.splits sum.splits option.splits if_splits)
qed

subsection \<open>The journal\<close>

definition journal_decodes :: "offline_json \<Rightarrow> inode option \<Rightarrow> OfflineTransaction \<Rightarrow> bool" where
  "journal_decodes J i t \<longleftrightarrow> slot_holds (\<lambda>b. oj_parse J b = Inr t) i"

definition journal_image :: "offline_json \<Rightarrow> OfflineTransaction \<Rightarrow> bytes \<Rightarrow> bool" where
  "journal_image J t b \<longleftrightarrow> (\<exists>s. oj_print J t = Inr s \<and> b = s @ newline)"

text \<open>The serializer's text, when it is read back at all, is read back as what was written.\<close>

definition journal_faithful :: "offline_json \<Rightarrow> bool" where
  "journal_faithful J \<longleftrightarrow> (\<forall>t s t'. oj_print J t = Inr s \<longrightarrow> oj_parse J (s @ newline) = Inr t' \<longrightarrow> t' = t)"

lemma journal_image_decodes:
  "journal_faithful J \<Longrightarrow> slot_holds (journal_image J t) i \<Longrightarrow> journal_decodes J i t' \<Longrightarrow> t' = t"
  by (auto simp: journal_decodes_def journal_image_def journal_faithful_def slot_holds_def)

lemma journal_decodes_unique: "journal_decodes J i t \<Longrightarrow> journal_decodes J i t' \<Longrightarrow> t' = t"
  by (auto simp: journal_decodes_def slot_holds_def)

lemma journal_decodes_None [simp]: "\<not> journal_decodes J None t"
  by (simp add: journal_decodes_def slot_holds_def)

lemma touches_offline_ensure_directory [io_rules]: "p \<in> S \<Longrightarrow> touches S (offline_ensure_directory p)"
  unfolding offline_ensure_directory_def sync_directory_def by (intro io_rules)

lemma transaction_directory_then:
  "io_bind (transaction_directory E) f = io_bind (offline_ensure_directory (offline_directory E)) (\<lambda>_. f (offline_directory E))"
  by (rule ext) (simp add: transaction_directory_def io_bind_def io_return_def split: prod.splits sum.splits)

lemma offline_directory_under:
  "offline_directory E \<in> under (offline_directory E)" "offline_directory E @ p \<in> under (offline_directory E)"
  "under (offline_directory E @ p) \<subseteq> under (offline_directory E)"
  "(offline_directory E @ p) @ q \<in> under (offline_directory E)"
  "under ((offline_directory E @ p) @ q) \<subseteq> under (offline_directory E)"
  by (auto simp: under_def prefix_def)

lemma touches_write_pending: "touches (under (offline_directory E)) (write_pending L E t)"
  unfolding write_pending_def Let_def transaction_directory_then by (intro io_rules offline_directory_under)

lemma touches_offline_archive: "touches (under (offline_directory E)) (offline_archive L E t)"
  unfolding offline_archive_def Let_def transaction_directory_then sync_directory_def
  by (intro io_rules offline_directory_under)

lemma triple_write_pending:
  "io_triple (\<lambda>w. map_of (nodes w) (offline_pending_path E) = i) (write_pending L E t)
    (\<lambda>_ w. slot_holds (journal_image (off_json L) t) (map_of (nodes w) (offline_pending_path E)))
    (\<lambda>_ w. map_of (nodes w) (offline_pending_path E) = i
       \<or> slot_holds (journal_image (off_json L) t) (map_of (nodes w) (offline_pending_path E)))"
proof -
  let ?p = "offline_pending_path E"
  let ?P = "\<lambda>w. map_of (nodes w) ?p = i"
  let ?R = "\<lambda>_ w. map_of (nodes w) ?p = i \<or> slot_holds (journal_image (off_json L) t) (map_of (nodes w) ?p)"
  have other: "io_triple ?P m (\<lambda>_. ?P) ?R" if "touches {offline_directory E} m" for m :: "('e, 'x) io"
    by (rule triple_weaken [OF triple_unchanged [OF that]]) (auto simp: offline_pending_path_def)
  have directory: "io_triple ?P (offline_ensure_directory (offline_directory E)) (\<lambda>_. ?P) ?R"
    by (rule other) (intro io_rules, simp)
  have look: "io_triple ?P (symlink_metadata ?p) (\<lambda>_. ?P) (\<lambda>_. ?P)"
    by (rule triple_unchanged [where S = "{}"]) (rule io_rules, simp)
  have new: "io_triple ?P new_v4 (\<lambda>_. ?P) ?R" by (rule other) (rule io_rules)
  have apart: "apart (offline_directory E @ [''.'' @ hyphenated (off_uuid L) u @ ''.tmp'']) ?p" for u
    by (simp add: offline_pending_path_def apart_def)
  have commit: "io_triple ?P
    (io_bind (io_map_err g (create_new (offline_directory E @ [''.'' @ hyphenated (off_uuid L) u @ ''.tmp'']) m)) (\<lambda>_.
      io_match (replace_file (offline_directory E) (offline_directory E @ [''.'' @ hyphenated (off_uuid L) u @ ''.tmp'']) ?p b)
        (\<lambda>r. case r of Inr _ \<Rightarrow> io_return ()
       | Inl e \<Rightarrow> io_match (remove_file (offline_directory E @ [''.'' @ hyphenated (off_uuid L) u @ ''.tmp''])) (\<lambda>_. io_throw (h e)))))
    (\<lambda>_ w. slot_holds (journal_image (off_json L) t) (map_of (nodes w) ?p)) ?R"
    if "oj_print (off_json L) t = Inr b" for b u m g and h :: "io_error \<Rightarrow> OfflineError"
    by (rule triple_commit_replace [OF apart]) (use that in \<open>simp add: journal_image_def\<close>)
  have pending: "offline_directory E @ [''pending.json''] = ?p" by (simp add: offline_pending_path_def)
  show ?thesis
    unfolding write_pending_def Let_def transaction_directory_then pending
    by (rule triple_bind [OF directory], rule triple_match [OF look]; rule triple_if,
        (rule triple_throw, simp)?, rule triple_bind [OF new], rule triple_lift, rule commit)
      (auto simp: offline_serialize_def split: sum.splits)
qed

interpretation journal: durable_store "offline_directory E" "\<lambda>_. offline_pending_path E" "write_pending L E"
  "journal_image (off_json L)" for L E
proof
  show "touches (under (offline_directory E)) (write_pending L E t)" for t by (rule touches_write_pending)
  show "slot_holds (journal_image (off_json L) t) (map_of (nodes w') (offline_pending_path E))"
    if "write_pending L E t w = (Inr (), w')" for t w w'
    using io_tripleD_ok [OF triple_write_pending refl that] .
  show "map_of (nodes w') (offline_pending_path E) = map_of (nodes w) (offline_pending_path E)
      \<or> slot_holds (journal_image (off_json L) t) (map_of (nodes w') (offline_pending_path E))"
    if "write_pending L E t w = (Inl e, w')" for t w e w'
    using io_tripleD_err [OF triple_write_pending refl that] .
qed simp

subsection \<open>The head of the lineage\<close>

definition lin_faithful :: "lin_json \<Rightarrow> bool" where
  "lin_faithful J \<longleftrightarrow> (\<forall>l s l'. lin_print J l = Inr s \<longrightarrow> lin_parse J (s @ newline) = Inr l' \<longrightarrow> l' = l)"

definition headed :: "offline_libraries \<Rightarrow> uuid \<Rightarrow> inode option \<Rightarrow> bool" where
  "headed L i slot \<longleftrightarrow>
     (\<exists>l. sl_current_head_id l = Some i
        \<and> (lin_decodes (off_uuid L) (off_lineage L) slot (Some l) \<or> slot_holds (lin_image (off_uuid L) (off_lineage L) l) slot))"

lemma headed_decodes:
  assumes "lin_faithful (off_lineage L)" and "headed L i slot" and "lin_decodes (off_uuid L) (off_lineage L) slot l0"
  shows "\<exists>l. l0 = Some l \<and> sl_current_head_id l = Some i"
proof (cases l0)
  case (Some l)
  with assms obtain l' where l': "sl_current_head_id l' = Some i" "lin_decodes (off_uuid L) (off_lineage L) slot (Some l')
      \<or> slot_holds (lin_image (off_uuid L) (off_lineage L) l') slot" by (auto simp: headed_def)
  with assms(1,3) Some have "l = l'"
    unfolding lin_faithful_def by (auto simp: lin_decodes_def lin_image_def slot_holds_def)
  with Some l' show ?thesis by simp
qed (use assms in \<open>auto simp: headed_def lin_decodes_def slot_holds_def\<close>)

lemma apply_mutation_head:
  assumes "apply_mutation U m l0 = Inr (l, changed)"
  shows "\<exists>l' c. m l0 = Inr (Some l', c) \<and> sl_current_head_id l' = sl_current_head_id l"
  using assms by (auto simp: apply_mutation_def split: sum.splits option.splits prod.splits if_splits)

text \<open>A mutation that does not move this head, committed or not, keeps it.\<close>

lemma mutation_headed:
  assumes "lin_faithful (off_lineage L)" and "headed L i slot"
    and keep: "\<And>l l' c. sl_current_head_id l = Some i \<Longrightarrow> m (Some l) = Inr (Some l', c) \<Longrightarrow> sl_current_head_id l' = Some i"
    and "(\<exists>l. mutation_done (off_uuid L) (off_lineage L) m slot slot' l)
      \<or> mutation_aborted (off_uuid L) (off_lineage L) m slot slot'"
  shows "headed L i slot'"
proof -
  have "sl_current_head_id l = Some i" if "mutation_result (off_uuid L) (off_lineage L) m slot l c" for l c
    using that headed_decodes [OF assms(1,2)] apply_mutation_head [of "off_uuid L" m _ l c] keep
    unfolding mutation_result_def by metis
  then show ?thesis
    using assms(2,4) by (auto simp: mutation_done_def mutation_aborted_def headed_def)
qed

lemma offline_head_done:
  assumes "mutation_done (off_uuid L) (off_lineage L) (set_offline_head i) slot slot' l"
  shows "headed L i slot'"
proof -
  obtain l0 changed where result: "lin_decodes (off_uuid L) (off_lineage L) slot l0"
      "apply_mutation (off_uuid L) (set_offline_head i) l0 = Inr (l, changed)"
      "slot_holds (lin_image (off_uuid L) (off_lineage L) l) slot' \<or> \<not> changed \<and> slot' = slot"
    using assms by (auto simp: mutation_done_def mutation_result_def)
  from result(2) have head: "sl_current_head_id l = Some i" "\<not> changed \<Longrightarrow> l0 = Some l"
    by (auto simp: apply_mutation_def set_offline_head_def split: sum.splits option.splits prod.splits if_splits)
  with result show ?thesis by (auto simp: headed_def)
qed

definition head_slot :: "OfflineRecoveryEngine \<Rightarrow> path" where
  "head_slot E = lineage_file (offline_history E)"

lemma touches_record_head: "touches (under (offline_history E)) (record_head L E i)"
  unfolding record_head_def ensure_initialized_def record_offline_head_def by (intro io_rules)

lemma keeps_headed_mutate:
  assumes "lin_faithful (off_lineage L)"
    and "\<And>l l' c. sl_current_head_id l = Some i \<Longrightarrow> m (Some l) = Inr (Some l', c) \<Longrightarrow> sl_current_head_id l' = Some i"
  shows "keeps (\<lambda>f. headed L i (f (head_slot E))) (mutate (off_uuid L) (off_lineage L) (offline_history E) m)"
proof (rule keepsI)
  fix w x w'
  assume pre: "headed L i (files w (head_slot E))"
    and run: "mutate (off_uuid L) (off_lineage L) (offline_history E) m w = (x, w')"
  have "(\<exists>l. mutation_done (off_uuid L) (off_lineage L) m (files w (head_slot E)) (files w' (head_slot E)) l)
      \<or> mutation_aborted (off_uuid L) (off_lineage L) m (files w (head_slot E)) (files w' (head_slot E))"
    using run io_tripleD_ok [OF triple_mutate refl] io_tripleD_err [OF triple_mutate refl]
    unfolding head_slot_def by (cases x) blast+
  with mutation_headed [OF assms(1) pre, of m] assms(2) show "headed L i (files w' (head_slot E))" by blast
qed

lemma keeps_headed_record:
  assumes "lin_faithful (off_lineage L)"
  shows "keeps (\<lambda>f. headed L i (f (head_slot E))) (record_head L E i)"
proof -
  have quiet: "keeps I (discover U J p)" for I U J p by (rule keeps_touches_none) (rule io_rules)
  have start: "keeps (\<lambda>f. headed L i (f (head_slot E)))
      (mutate (off_uuid L) (off_lineage L) (offline_history E) (initialize_with (off_uuid L) ds))" for ds
    by (rule keeps_headed_mutate [OF assms]) (auto simp: initialize_with_def)
  have set: "keeps (\<lambda>f. headed L i (f (head_slot E)))
      (mutate (off_uuid L) (off_lineage L) (offline_history E) (set_offline_head i))"
    by (rule keeps_headed_mutate [OF assms]) (auto simp: set_offline_head_def split: if_splits)
  show ?thesis
    unfolding record_head_def ensure_initialized_def record_offline_head_def by (intro keep_rules quiet start set)
qed

lemma record_head_names:
  assumes "record_head L E i w = (Inr (), w')"
  shows "headed L i (files w' (head_slot E))"
proof -
  obtain v l where "mutate (off_uuid L) (off_lineage L) (offline_history E) (set_offline_head i) v = (Inr l, w')"
    using assms by (auto simp: record_head_def record_offline_head_def io_bind_def io_throw_def io_return_def
        split: prod.splits sum.splits if_splits)
  with io_tripleD_ok [OF triple_mutate refl] have
    "mutation_done (off_uuid L) (off_lineage L) (set_offline_head i) (files v (head_slot E)) (files w' (head_slot E)) l"
    unfolding head_slot_def by blast
  then show ?thesis by (rule offline_head_done)
qed

subsection \<open>The invariant\<close>

definition same_offline :: "OfflineTransaction \<Rightarrow> OfflineTransaction \<Rightarrow> bool" where
  "same_offline t t0 \<longleftrightarrow> ot_id t = ot_id t0 \<and> ot_target_deployment_id t = ot_target_deployment_id t0"

text \<open>The target is live, and the previous root is still there or the lineage names the target.\<close>

definition activated where
  "activated L E t0 T G f \<longleftrightarrow>
     holds_at f (sw_live (offline_swap L E t0)) G \<and> f (sw_new (offline_swap L E t0)) = None
     \<and> (holds_at f (sw_old (offline_swap L E t0)) T \<or> headed L (ot_target_deployment_id t0) (f (head_slot E)))"

definition phase_matches where
  "phase_matches L E t0 T G p f \<longleftrightarrow>
     (case p of
        OffTargetRootActivated \<Rightarrow> activated L E t0 T G f
      | OffCompleted \<Rightarrow> activated L E t0 T G f \<and> f (sw_old (offline_swap L E t0)) = None
      | _ \<Rightarrow> underway (offline_swap L E t0) T G f)"

definition offline_basis where
  "offline_basis L E t0 T G f \<longleftrightarrow>
     T [] \<noteq> None \<and> G [] \<noteq> None \<and> holds_at f (offline_deployment_root L E (ot_target_deployment_id t0)) G"

definition offline_safe where
  "offline_safe L E t0 T G f \<longleftrightarrow>
     offline_basis L E t0 T G f \<and> (underway (offline_swap L E t0) T G f \<or> activated L E t0 T G f)
     \<and> (\<forall>t. journal_decodes (off_json L) (f (offline_pending_path E)) t \<longrightarrow>
          same_offline t t0 \<and> phase_matches L E t0 T G (ot_phase t) f)"

definition offline_at where
  "offline_at L E t0 T G t f \<longleftrightarrow>
     offline_basis L E t0 T G f \<and> same_offline t t0 \<and> phase_matches L E t0 T G (ot_phase t) f
     \<and> (\<forall>t'. journal_decodes (off_json L) (f (offline_pending_path E)) t' \<longrightarrow> t' = t)"

definition offline_done where
  "offline_done L E t0 T G f \<longleftrightarrow>
     offline_safe L E t0 T G f \<and> holds_at f (sw_live (offline_swap L E t0)) G
     \<and> f (sw_old (offline_swap L E t0)) = None \<and> f (sw_new (offline_swap L E t0)) = None
     \<and> headed L (ot_target_deployment_id t0) (f (head_slot E)) \<and> f (offline_pending_path E) = None"

lemma at_safe: "offline_at L E t0 T G t f \<Longrightarrow> offline_safe L E t0 T G f"
  by (auto simp: offline_at_def offline_safe_def phase_matches_def split: OfflinePhase.splits)

lemma safe_at:
  "offline_safe L E t0 T G f \<Longrightarrow> journal_decodes (off_json L) (f (offline_pending_path E)) t \<Longrightarrow> offline_at L E t0 T G t f"
  by (auto simp: offline_at_def offline_safe_def dest: journal_decodes_unique)

lemma same_offline_swap: "same_offline t t0 \<Longrightarrow> offline_swap L E t = offline_swap L E t0"
  by (simp add: same_offline_def offline_swap_def offline_old_root_name_def offline_new_root_name_def)

lemma offline_swap_ok: "swap_ok (off_top E) (offline_swap L E t)"
  by (simp add: swap_ok_def offline_swap_def offline_old_root_name_def offline_new_root_name_def)

subsection \<open>Where the parts are\<close>

definition state_paths where
  "state_paths L E t0 = swap_paths (offline_swap L E t0) \<union> under (offline_deployment_root L E (ot_target_deployment_id t0))
     \<union> {head_slot E}"

lemma snapshot_store_outside: "under (offline_snapshot_root E) \<inter> swap_paths (offline_swap L E t) = {}"
proof -
  have "\<not> prefix (off_top E @ [n]) k" if "prefix (offline_snapshot_root E) k" "n \<noteq> ''@snapshots''" for n k
    using under_sibling [of "off_top E" n k] that by (auto simp: offline_snapshot_root_def)
  then show ?thesis
    by (auto simp: swap_paths_def under_def offline_swap_def offline_old_root_name_def offline_new_root_name_def)
qed

lemma store_siblings:
  assumes "a \<noteq> b"
  shows "under (offline_snapshot_root E @ a # r) \<inter> under (offline_snapshot_root E @ b # s) = {}"
proof -
  have "\<not> prefix (offline_snapshot_root E @ b # s) k" if "prefix (offline_snapshot_root E @ a # r) k" for k
    using that assms by (auto simp: prefix_def)
  then show ?thesis by (auto simp: under_def)
qed

lemma store_parts:
  "under (offline_directory E) \<subseteq> under (offline_snapshot_root E)" "under (offline_history E) \<subseteq> under (offline_snapshot_root E)"
  "under (offline_deployment_root L E i) \<subseteq> under (offline_snapshot_root E)"
  "head_slot E \<in> under (offline_history E)" "offline_pending_path E \<in> under (offline_directory E)"
  by (auto simp: under_def prefix_def offline_directory_def offline_history_def offline_deployment_root_def head_slot_def
      lineage_file_def offline_pending_path_def)

lemma offline_disjoint:
  "under (offline_directory E) \<inter> under (offline_history E) = {}"
  "under (offline_directory E) \<inter> under (offline_deployment_root L E i) = {}"
  "under (offline_history E) \<inter> under (offline_deployment_root L E i) = {}"
  "under (offline_directory E) \<inter> swap_paths (offline_swap L E t) = {}"
  "under (offline_history E) \<inter> swap_paths (offline_swap L E t) = {}"
  "under (offline_deployment_root L E i) \<inter> swap_paths (offline_swap L E t) = {}"
proof -
  show "under (offline_directory E) \<inter> under (offline_history E) = {}"
    "under (offline_directory E) \<inter> under (offline_deployment_root L E i) = {}"
    "under (offline_history E) \<inter> under (offline_deployment_root L E i) = {}"
    by (simp_all add: offline_directory_def offline_history_def offline_deployment_root_def store_siblings)
  show "under (offline_directory E) \<inter> swap_paths (offline_swap L E t) = {}"
    "under (offline_history E) \<inter> swap_paths (offline_swap L E t) = {}"
    "under (offline_deployment_root L E i) \<inter> swap_paths (offline_swap L E t) = {}"
    using snapshot_store_outside [of E L t] store_parts(1,2) [of E] store_parts(3) [of L E i] by blast+
qed

lemma state_outside_journal: "under (offline_directory E) \<inter> state_paths L E t0 = {}"
  using offline_disjoint(1) [of E] offline_disjoint(2) [of E L "ot_target_deployment_id t0"] offline_disjoint(4) [of E L t0]
    store_parts(4) [of E] unfolding state_paths_def by blast

lemma underway_cong:
  assumes "\<And>k. k \<in> swap_paths sw \<Longrightarrow> f k = g k"
  shows "underway sw T G f = underway sw T G g"
  using underway_frame assms by (rule frame_predD)

lemma holds_at_cong:
  assumes "\<And>k. k \<in> under p \<Longrightarrow> f k = g k"
  shows "holds_at f p T = holds_at g p T"
  using holds_at_frame assms by (rule frame_predD)

lemma activated_frame: "frame_pred (state_paths L E t0) (activated L E t0 T G)"
  unfolding frame_pred_def
proof (intro allI impI)
  fix f g :: "path \<Rightarrow> inode option"
  let ?sw = "offline_swap L E t0"
  assume same: "\<forall>k \<in> state_paths L E t0. f k = g k"
  then have "f k = g k" if "k \<in> under (sw_live ?sw) \<union> under (sw_old ?sw) \<union> under (sw_new ?sw) \<union> {head_slot E}" for k
    using that by (auto simp: state_paths_def swap_paths_def)
  then have "holds_at f (sw_live ?sw) G = holds_at g (sw_live ?sw) G" "holds_at f (sw_old ?sw) T = holds_at g (sw_old ?sw) T"
    "f (sw_new ?sw) = g (sw_new ?sw)" "f (head_slot E) = g (head_slot E)"
    by (auto intro!: holds_at_cong simp: under_def)
  then show "activated L E t0 T G f = activated L E t0 T G g" by (simp add: activated_def)
qed

lemma phase_frame: "frame_pred (state_paths L E t0) (phase_matches L E t0 T G p)"
  unfolding frame_pred_def
proof (intro allI impI)
  fix f g :: "path \<Rightarrow> inode option"
  assume same: "\<forall>k \<in> state_paths L E t0. f k = g k"
  then have "underway (offline_swap L E t0) T G f = underway (offline_swap L E t0) T G g"
    by (intro underway_cong) (simp add: state_paths_def)
  moreover have "activated L E t0 T G f = activated L E t0 T G g" using same by (intro frame_predD [OF activated_frame]) blast
  moreover have "f (sw_old (offline_swap L E t0)) = g (sw_old (offline_swap L E t0))"
    using same by (simp add: state_paths_def swap_paths_def under_def)
  ultimately show "phase_matches L E t0 T G p f = phase_matches L E t0 T G p g"
    by (simp add: phase_matches_def split: OfflinePhase.splits)
qed

lemma basis_frame: "frame_pred (state_paths L E t0) (offline_basis L E t0 T G)"
  unfolding frame_pred_def
proof (intro allI impI)
  fix f g :: "path \<Rightarrow> inode option"
  assume same: "\<forall>k \<in> state_paths L E t0. f k = g k"
  have "holds_at f (offline_deployment_root L E (ot_target_deployment_id t0)) G
      = holds_at g (offline_deployment_root L E (ot_target_deployment_id t0)) G"
    by (rule holds_at_cong) (use same in \<open>simp add: state_paths_def\<close>)
  then show "offline_basis L E t0 T G f = offline_basis L E t0 T G g" by (simp add: offline_basis_def)
qed


lemma state_cong:
  assumes "\<And>k. k \<in> state_paths L E t0 \<Longrightarrow> f k = g k"
  shows "offline_basis L E t0 T G f = offline_basis L E t0 T G g"
    "phase_matches L E t0 T G p f = phase_matches L E t0 T G p g"
    "activated L E t0 T G f = activated L E t0 T G g"
    "underway (offline_swap L E t0) T G f = underway (offline_swap L E t0) T G g"
proof -
  show "offline_basis L E t0 T G f = offline_basis L E t0 T G g" using basis_frame assms by (rule frame_predD)
  show "phase_matches L E t0 T G p f = phase_matches L E t0 T G p g" using phase_frame assms by (rule frame_predD)
  show "activated L E t0 T G f = activated L E t0 T G g" using activated_frame assms by (rule frame_predD)
  show "underway (offline_swap L E t0) T G f = underway (offline_swap L E t0) T G g"
    by (rule underway_cong) (use assms in \<open>simp add: state_paths_def\<close>)
qed

subsection \<open>Steps of the recovery\<close>

text \<open>Writing a journal entry that matches the layout.\<close>

lemma write_pending_at:
  assumes "journal_faithful (off_json L)" and "same_offline t' t0"
    and "offline_at L E t0 T G t (files w)" and "phase_matches L E t0 T G (ot_phase t') (files w)"
    and run: "write_pending L E t' w = (x, w')"
  shows "offline_safe L E t0 T G (files w')" "x = Inr () \<Longrightarrow> offline_at L E t0 T G t' (files w')"
proof -
  have same: "files w' k = files w k" if "k \<in> state_paths L E t0" for k
    using touchesD [OF touches_write_pending run] state_outside_journal that by blast
  note cong = state_cong [of L E t0 "files w'" "files w", OF same]
  have basis: "offline_basis L E t0 T G (files w')" using cong(1) assms(3) by (simp add: offline_at_def)
  note phase = cong(2)
  have "files w' (offline_pending_path E) = files w (offline_pending_path E)
      \<or> slot_holds (journal_image (off_json L) t') (files w' (offline_pending_path E))"
    "x = Inr () \<Longrightarrow> slot_holds (journal_image (off_json L) t') (files w' (offline_pending_path E))"
    using journal.put_atomic [OF run] journal.put_ok run by simp_all
  then have entry: "journal_decodes (off_json L) (files w' (offline_pending_path E)) u \<Longrightarrow> u = t \<or> u = t'"
    "x = Inr () \<Longrightarrow> journal_decodes (off_json L) (files w' (offline_pending_path E)) u \<Longrightarrow> u = t'" for u
    using assms(3) journal_image_decodes [OF assms(1)] by (auto simp: offline_at_def)
  show at: "x = Inr () \<Longrightarrow> offline_at L E t0 T G t' (files w')"
    using basis phase entry(2) assms(2,4) by (simp add: offline_at_def)
  have "offline_safe L E t0 T G (files w)" using assms(3) by (rule at_safe)
  with cong(3,4) have "underway (offline_swap L E t0) T G (files w') \<or> activated L E t0 T G (files w')"
    by (simp add: offline_safe_def)
  with basis phase entry(1) assms(2-4) show "offline_safe L E t0 T G (files w')"
    by (auto simp: offline_safe_def offline_at_def)
qed

lemma triple_update_phase:
  assumes "journal_faithful (off_json L)"
  shows "io_triple (\<lambda>w. offline_at L E t0 T G t (files w) \<and> phase_matches L E t0 T G phase (files w))
    (update_phase L E phase t)
    (\<lambda>t' w. offline_at L E t0 T G t' (files w) \<and> ot_phase t' = phase) (\<lambda>_ w. offline_safe L E t0 T G (files w))"
proof -
  have clock: "io_triple (\<lambda>w. P (files w)) utc_now (\<lambda>_ w. P (files w)) (\<lambda>_ w. R w)" for P R
    by (simp add: io_triple_def utc_now_def)
  have commit: "io_triple (\<lambda>w. offline_at L E t0 T G t (files w) \<and> phase_matches L E t0 T G phase (files w))
      (write_pending L E (t\<lparr>ot_phase := phase, ot_updated_at := now\<rparr>))
      (\<lambda>_ w. offline_at L E t0 T G (t\<lparr>ot_phase := phase, ot_updated_at := now\<rparr>) (files w))
      (\<lambda>_ w. offline_safe L E t0 T G (files w))" for now
  proof (rule io_tripleI; elim conjE)
    fix w x w'
    assume pre: "offline_at L E t0 T G t (files w)" "phase_matches L E t0 T G phase (files w)"
    have entry: "same_offline (t\<lparr>ot_phase := phase, ot_updated_at := now\<rparr>) t0"
      "phase_matches L E t0 T G (ot_phase (t\<lparr>ot_phase := phase, ot_updated_at := now\<rparr>)) (files w)"
      using pre by (simp_all add: offline_at_def same_offline_def)
    note wrote = write_pending_at [OF assms entry(1) pre(1) entry(2)]
    show "offline_at L E t0 T G (t\<lparr>ot_phase := phase, ot_updated_at := now\<rparr>) (files w')"
      if "write_pending L E (t\<lparr>ot_phase := phase, ot_updated_at := now\<rparr>) w = (Inr x, w')"
      using that by (intro wrote(2)) simp_all
    show "offline_safe L E t0 T G (files w')"
      if "write_pending L E (t\<lparr>ot_phase := phase, ot_updated_at := now\<rparr>) w = (Inl e, w')" for e
      using that by (rule wrote(1))
  qed
  show ?thesis
    unfolding update_phase_def Let_def
    by (rule triple_bind [OF clock [of "\<lambda>f. offline_at L E t0 T G t f \<and> phase_matches L E t0 T G phase f"] triple_bind [OF commit]])
      (simp add: triple_return)
qed

lemma triple_offline_layout:
  "io_triple (\<lambda>w. I (files w)) (offline_layout sw) (\<lambda>s w. I (files w) \<and> laid_out sw s (files w)) (\<lambda>_ w. I (files w))"
proof -
  have look: "io_triple (\<lambda>w. files w = f \<and> P) (offline_real_directory p)
      (\<lambda>b w. files w = f \<and> P \<and> seen f p b) (\<lambda>_ w. files w = f)" for f p P
    by (rule io_tripleI) (auto simp: offline_real_directory_def symlink_metadata_def syscall_def tick_def enoent_def
        io_match_def io_return_def io_throw_def seen_def split: option.splits if_splits)
  have "io_triple (\<lambda>w. files w = f \<and> True) (offline_layout sw) (\<lambda>s w. files w = f \<and> laid_out sw s f) (\<lambda>_ w. files w = f)" for f
    unfolding offline_layout_def
    by (rule triple_bind [OF look triple_bind [OF look triple_bind [OF look]]])
      (simp add: triple_return laid_out_def)
  note layout = this
  show ?thesis
    by (rule io_tripleI) (use io_tripleD_ok [OF layout conjI [OF refl TrueI]] io_tripleD_err [OF layout conjI [OF refl TrueI]] in auto)
qed

lemma triple_quiet:
  "touches {} m \<Longrightarrow> io_triple (\<lambda>w. I (files w)) (io_map_err h m) (\<lambda>_ w. I (files w)) (\<lambda>_ w. I (files w))"
  using keeps_map_err [OF keeps_touches_none, of m I h] by (simp add: keeps_def)

text \<open>A change of the three names before the target is activated.\<close>

definition early :: "OfflinePhase \<Rightarrow> bool" where
  "early p \<longleftrightarrow> p \<noteq> OffTargetRootActivated \<and> p \<noteq> OffCompleted"

lemma early_matches: "early p \<Longrightarrow> phase_matches L E t0 T G p f = underway (offline_swap L E t0) T G f"
  by (simp add: early_def phase_matches_def split: OfflinePhase.splits)

lemma change_at:
  assumes "touches A change" and "A \<subseteq> swap_paths (offline_swap L E t0)" and run: "change w = (x, w')"
    and "offline_at L E t0 T G t (files w)" and "early (ot_phase t)" and "underway (offline_swap L E t0) T G (files w')"
  shows "offline_at L E t0 T G t (files w')"
proof -
  have same: "files w' k = files w k" if "k \<notin> swap_paths (offline_swap L E t0)" for k
    using touchesD [OF assms(1) run] assms(2) that by blast
  have "holds_at (files w') (offline_deployment_root L E i) G = holds_at (files w) (offline_deployment_root L E i) G" for i
    by (rule holds_at_cong) (use same offline_disjoint(6) [of L E i t0] in blast)
  moreover have "files w' (offline_pending_path E) = files w (offline_pending_path E)"
    by (rule same) (use offline_disjoint(4) [of E L t0] store_parts(5) [of E] in blast)
  ultimately show ?thesis
    using assms(4,6) by (simp add: offline_at_def offline_basis_def early_matches [OF assms(5)])
qed

context offline_filesystem
begin

lemma snapshot_stays_underway:
  assumes ok: "swap_ok d sw" and apart: "apart target (sw_new sw)"
    and pre: "underway sw T G (files w)" "holds_at (files w) target G" "laid_out sw (True, False, False) (files w)"
    and run: "rf_snapshot F target (sw_new sw) w = (x, w')"
  shows "underway sw T G (files w')"
proof (cases x)
  case (Inr y)
  with run io_tripleD_ok [OF snapshot_underway [OF ok apart, unfolded step_keeps_def, of T G], of w y w'] pre
  show ?thesis by simp
next
  case (Inl e)
  have new: "files w (sw_new sw) = None" using pre(3) by (simp add: laid_out_def)
  with snapshot_err [OF apart _ run [unfolded Inl]] pre(2)
  have "files w' (sw_new sw) = None \<or> holds_at (files w') (sw_new sw) G" by (auto simp: holds_at_def)
  moreover note same = holds_at_unchanged [OF snapshot_frame run apart_disjoint]
  ultimately show ?thesis
    using pre(1,3) same [OF swap_apart(3) [OF ok]] same [OF swap_apart(5) [OF ok]]
    by (auto simp: underway_def laid_out_def dest: holds_at_root)
qed

lemma rename_stays_underway:
  assumes ok: "swap_ok d sw" and out: "under target \<inter> swap_paths sw = {}"
    and "(p, q, s) \<in> {(sw_live sw, sw_old sw, (True, False, True)), (sw_new sw, sw_live sw, (False, True, True))}"
    and pre: "underway sw T G (files w)" "holds_at (files w) target G" "laid_out sw s (files w)"
    and run: "rf_rename F p q w = (x, w')"
  shows "underway sw T G (files w')"
proof (cases x)
  case (Inr y)
  with run io_tripleD_ok [OF rename_underway [OF ok out assms(3), unfolded step_keeps_def, of T G], of w y w'] pre
  show ?thesis by simp
next
  case (Inl e)
  with run rename_err [of p q w e w'] pre(1) show ?thesis by simp
qed

lemma activation_installs:
  assumes ok: "swap_ok d sw" and "underway sw T G (files w)" and "laid_out sw (False, True, True) (files w)"
    and run: "rf_rename F (sw_new sw) (sw_live sw) w = (Inr x, w')"
  shows "installed sw T G (files w')"
proof -
  have holds: "holds_at (files w) (sw_new sw) G" "holds_at (files w) (sw_old sw) T"
    using assms(2,3) by (auto simp: underway_def laid_out_def dest: holds_at_root)
  have moved: "files w' (sw_live sw @ r) = files w (sw_new sw @ r)" "files w' (sw_new sw @ r) = None" for r
    using rename_ok [OF swap_apart(3) [OF ok]] run by simp_all
  have "holds_at (files w') (sw_old sw) T"
    using holds(2) holds_at_unchanged(1) [OF rename_frame run, of "sw_old sw" T]
      apart_disjoint [OF swap_apart(5) [OF ok]] apart_disjoint [OF swap_apart(1) [OF ok]] by blast
  with holds moved moved(2) [of "[]"] show ?thesis by (simp add: installed_def holds_at_def)
qed

lemma triple_change:
  assumes "touches A change" and "A \<subseteq> swap_paths (offline_swap L E t0)" and "early (ot_phase t)"
    and step: "\<And>w x w'. underway (offline_swap L E t0) T G (files w) \<Longrightarrow>
      holds_at (files w) (offline_deployment_root L E (ot_target_deployment_id t0)) G \<Longrightarrow>
      laid_out (offline_swap L E t0) s (files w) \<Longrightarrow> change w = (x, w') \<Longrightarrow>
      underway (offline_swap L E t0) T G (files w') \<and> (isl x \<or> phase_matches L E t0 T G phase (files w'))"
  shows "io_triple (\<lambda>w. offline_at L E t0 T G t (files w) \<and> laid_out (offline_swap L E t0) s (files w)) change
    (\<lambda>_ w. offline_at L E t0 T G t (files w) \<and> phase_matches L E t0 T G phase (files w))
    (\<lambda>_ w. offline_safe L E t0 T G (files w))"
proof (rule io_tripleI; elim conjE)
  fix w x w'
  assume pre: "offline_at L E t0 T G t (files w)" "laid_out (offline_swap L E t0) s (files w)"
  then have parts: "underway (offline_swap L E t0) T G (files w)"
    "holds_at (files w) (offline_deployment_root L E (ot_target_deployment_id t0)) G"
    by (simp_all add: offline_at_def offline_basis_def early_matches [OF assms(3)])
  note after = step [OF parts pre(2)] change_at [OF assms(1,2) _ pre(1) assms(3)]
  show "offline_at L E t0 T G t (files w') \<and> phase_matches L E t0 T G phase (files w')" if "change w = (Inr x, w')"
    using after(1) [OF that] after(2) [OF that] by simp
  show "offline_safe L E t0 T G (files w')" if "change w = (Inl e, w')" for e
    using after(1) [OF that] after(2) [OF that] by (auto intro: at_safe)
qed

lemma triple_offline_step:
  assumes "off_fs E = F" and "journal_faithful (off_json L)"
    and change: "io_triple (\<lambda>w. offline_at L E t0 T G t (files w) \<and> P w) change
      (\<lambda>_ w. offline_at L E t0 T G t (files w) \<and> phase_matches L E t0 T G phase (files w))
      (\<lambda>_ w. offline_safe L E t0 T G (files w))"
  shows "io_triple (\<lambda>w. offline_at L E t0 T G t (files w) \<and> P w) (offline_step L E change phase t)
    (\<lambda>t' w. offline_at L E t0 T G t' (files w) \<and> ot_phase t' = phase) (\<lambda>_ w. offline_safe L E t0 T G (files w))"
proof -
  have sync: "io_triple (\<lambda>w. offline_at L E t0 T G t (files w) \<and> phase_matches L E t0 T G phase (files w))
      (io_map_err fs_error (rf_sync (off_fs E) (off_top E)))
      (\<lambda>_ w. offline_at L E t0 T G t (files w) \<and> phase_matches L E t0 T G phase (files w))
      (\<lambda>_ w. offline_safe L E t0 T G (files w))"
    unfolding assms(1)
    by (rule triple_weaken [OF triple_quiet [OF sync_frame,
            where I = "\<lambda>f. offline_at L E t0 T G t f \<and> phase_matches L E t0 T G phase f"]])
      (auto intro: at_safe)
  show ?thesis
    unfolding offline_step_def
    by (rule triple_bind, rule triple_map_err, rule change, rule triple_bind [OF sync triple_update_phase [OF assms(2)]])
qed


text \<open>Discarding the old root changes only the old root and the lineage.\<close>

lemma keeps_delete_children:
  assumes "off_fs E = F" and "\<And>c. c \<in> set cs \<Longrightarrow> prefix p c" and "frame_pred S I" and "under p \<inter> S = {}"
  shows "keeps I (delete_children E cs)"
  using assms(2)
proof (induction cs)
  case (Cons c cs)
  have "under c \<inter> S = {}" using Cons.prems [of c] assms(4) under_mono [of p c] by auto
  then have "keeps I (rf_delete (off_fs E) c)" using keeps_frame [OF assms(3) delete_frame] assms(1) by simp
  moreover have "keeps I (rf_sync (off_fs E) (off_top E))" using keeps_touches_none [OF sync_frame] assms(1) by simp
  ultimately show ?case using Cons by (auto intro!: keep_rules)
qed (simp add: keeps_return)

end

definition live_paths where
  "live_paths L E t0 = under (sw_live (offline_swap L E t0)) \<union> under (sw_new (offline_swap L E t0))
     \<union> under (offline_deployment_root L E (ot_target_deployment_id t0)) \<union> {offline_pending_path E, head_slot E}"

text \<open>The state after the head is recorded, without the old root.\<close>

definition committed where
  "committed L E t0 T G t f \<longleftrightarrow>
     offline_basis L E t0 T G f \<and> same_offline t t0 \<and> ot_phase t = OffTargetRootActivated
     \<and> holds_at f (sw_live (offline_swap L E t0)) G \<and> f (sw_new (offline_swap L E t0)) = None
     \<and> headed L (ot_target_deployment_id t0) (f (head_slot E))
     \<and> (\<forall>t'. journal_decodes (off_json L) (f (offline_pending_path E)) t' \<longrightarrow> t' = t)"

lemma committed_at: "committed L E t0 T G t f \<Longrightarrow> offline_at L E t0 T G t f"
  by (simp add: committed_def offline_at_def phase_matches_def activated_def)

lemma committed_frame: "frame_pred (live_paths L E t0) (committed L E t0 T G t)"
  unfolding frame_pred_def
proof (intro allI impI)
  fix f g :: "path \<Rightarrow> inode option"
  assume same: "\<forall>k \<in> live_paths L E t0. f k = g k"
  have "holds_at f (sw_live (offline_swap L E t0)) G = holds_at g (sw_live (offline_swap L E t0)) G"
    "holds_at f (offline_deployment_root L E (ot_target_deployment_id t0)) G
      = holds_at g (offline_deployment_root L E (ot_target_deployment_id t0)) G"
    by (rule holds_at_cong, use same in \<open>simp add: live_paths_def\<close>)+
  moreover have "f (sw_new (offline_swap L E t0)) = g (sw_new (offline_swap L E t0))"
    "f (head_slot E) = g (head_slot E)" "f (offline_pending_path E) = g (offline_pending_path E)"
    using same by (auto simp: live_paths_def under_def)
  ultimately show "committed L E t0 T G t f = committed L E t0 T G t g"
    by (simp add: committed_def offline_basis_def)
qed

lemma old_outside: "under (sw_old (offline_swap L E t0)) \<inter> live_paths L E t0 = {}"
proof -
  have sub: "under (sw_old (offline_swap L E t0)) \<subseteq> swap_paths (offline_swap L E t0)" by (auto simp: swap_paths_def)
  note d = offline_disjoint(6) [of L E "ot_target_deployment_id t0" t0] offline_disjoint(4,5) [of E L t0]
    apart_disjoint [OF swap_apart(2) [OF offline_swap_ok [of E L t0]]]
    apart_disjoint [OF swap_apart(6) [OF offline_swap_ok [of E L t0]]]
  from d sub store_parts(4,5) [of E] show ?thesis unfolding live_paths_def by blast
qed

lemma triple_record_head:
  assumes "lin_faithful (off_lineage L)"
  shows "io_triple (\<lambda>w. (offline_at L E t0 T G t (files w) \<and> ot_phase t = OffTargetRootActivated) \<and> f0 = files w (sw_old (offline_swap L E t0)))
    (record_head L E (ot_target_deployment_id t0))
    (\<lambda>_ w. committed L E t0 T G t (files w) \<and> f0 = files w (sw_old (offline_swap L E t0)))
    (\<lambda>_ w. offline_safe L E t0 T G (files w))"
proof (rule io_tripleI; elim conjE)
  fix w x w'
  assume pre: "offline_at L E t0 T G t (files w)" "ot_phase t = OffTargetRootActivated"
    "f0 = files w (sw_old (offline_swap L E t0))"
  let ?i = "ot_target_deployment_id t0" and ?sw = "offline_swap L E t0"
  have parts: "offline_basis L E t0 T G (files w)" "same_offline t t0" "activated L E t0 T G (files w)"
    "\<forall>t'. journal_decodes (off_json L) (files w (offline_pending_path E)) t' \<longrightarrow> t' = t"
    using pre by (simp_all add: offline_at_def phase_matches_def)
  have after: "offline_basis L E t0 T G (files w') \<and> holds_at (files w') (sw_live ?sw) G \<and> files w' (sw_new ?sw) = None
      \<and> files w' (sw_old ?sw) = files w (sw_old ?sw)
      \<and> (holds_at (files w') (sw_old ?sw) T = holds_at (files w) (sw_old ?sw) T)
      \<and> files w' (offline_pending_path E) = files w (offline_pending_path E)"
    if run: "record_head L E ?i w = (r, w')" for r
  proof -
    have same: "files w' k = files w k" if "k \<notin> under (offline_history E)" for k
      using touchesD [OF touches_record_head run that] .
    have names: "sw_live ?sw \<notin> under (offline_history E)" "sw_old ?sw \<notin> under (offline_history E)"
      "sw_new ?sw \<notin> under (offline_history E)"
      using offline_disjoint(5) [of E L t0] by (auto simp: swap_paths_def under_def)
    have "holds_at (files w') p V = holds_at (files w) p V" if "under (offline_history E) \<inter> under p = {}" for p V
      by (rule holds_at_cong) (use same that in blast)
    moreover have "under (offline_history E) \<inter> under (sw_live ?sw) = {}" "under (offline_history E) \<inter> under (sw_old ?sw) = {}"
      using offline_disjoint(5) [of E L t0] by (auto simp: swap_paths_def)
    moreover have "offline_pending_path E \<notin> under (offline_history E)"
      using offline_disjoint(1) [of E] store_parts(5) [of E] by blast
    ultimately show ?thesis
      using parts(1,3) same names offline_disjoint(3) [of E L ?i]
      by (simp add: offline_basis_def activated_def)
  qed
  show "committed L E t0 T G t (files w') \<and> f0 = files w' (sw_old ?sw)" if "record_head L E ?i w = (Inr x, w')"
    using after [OF that] record_head_names [of L E ?i w w'] that parts pre by (simp add: committed_def)
  show "offline_safe L E t0 T G (files w')" if run: "record_head L E ?i w = (Inl e, w')" for e
  proof -
    have "headed L ?i (files w (head_slot E)) \<Longrightarrow> headed L ?i (files w' (head_slot E))"
      using keepsD [OF keeps_headed_record [OF assms] run] .
    with after [OF run] parts have "activated L E t0 T G (files w')" by (auto simp: activated_def)
    with after [OF run] parts pre(2) have "offline_at L E t0 T G t (files w')"
      by (simp add: offline_at_def phase_matches_def)
    then show ?thesis by (rule at_safe)
  qed
qed

text \<open>Archiving takes the journal entry away as a whole.\<close>

lemma triple_archive_slot:
  "io_triple (\<lambda>w. files w (offline_pending_path E) = i) (offline_archive L E t)
    (\<lambda>_ w. files w (offline_pending_path E) = None)
    (\<lambda>_ w. files w (offline_pending_path E) = i \<or> files w (offline_pending_path E) = None)"
proof -
  let ?p = "offline_pending_path E" and ?h = "offline_directory E @ [''history'']"
  let ?P = "\<lambda>w. files w ?p = i" and ?R = "\<lambda>_ w. files w ?p = i \<or> files w ?p = None"
  let ?q = "?h @ [hyphenated (off_uuid L) (ot_id t) @ ''.json'']"
  have directory: "io_triple ?P (offline_ensure_directory p) (\<lambda>_. ?P) ?R" if "p \<noteq> ?p" for p
    by (rule triple_weaken [OF triple_unchanged [where S = "{p}"]]) (use that in \<open>auto intro!: io_rules\<close>)
  have apart: "apart ?p ?q" by (simp add: offline_pending_path_def apart_def)
  have move: "io_triple ?P (fs_rename ?p ?q) (\<lambda>_ w. files w ?p = None) ?R"
    by (rule io_tripleI) (use fs_rename_moves [OF apart, of _ _ "[]"] fs_rename_refused [of ?p ?q] in auto)
  have sync: "io_triple (\<lambda>w. files w ?p = None) (sync_directory d) (\<lambda>_ w. files w ?p = None) ?R" for d
    by (rule triple_weaken [OF triple_unchanged [where S = "{}"]]) (auto simp: sync_directory_def intro!: io_rules)
  have pending: "offline_directory E @ [''pending.json''] = ?p" by (simp add: offline_pending_path_def)
  show ?thesis
    unfolding offline_archive_def Let_def transaction_directory_then pending
    by (rule triple_bind [OF directory], simp add: offline_pending_path_def,
        rule triple_bind [OF directory], simp add: offline_pending_path_def,
        rule triple_map_err, rule triple_bind [OF move sync])
qed

lemma triple_archive:
  "io_triple (\<lambda>w. offline_at L E t0 T G t (files w) \<and> ot_phase t = OffCompleted) (offline_archive L E t)
    (\<lambda>_ w. offline_done L E t0 T G (files w)) (\<lambda>_ w. offline_safe L E t0 T G (files w))"
proof (rule io_tripleI; elim conjE)
  fix w x w'
  assume pre: "offline_at L E t0 T G t (files w)" "ot_phase t = OffCompleted"
  have kept: "offline_safe L E t0 T G (files w') \<and> phase_matches L E t0 T G OffCompleted (files w')"
    if run: "offline_archive L E t w = (r, w')"
      "files w' (offline_pending_path E) = files w (offline_pending_path E) \<or> files w' (offline_pending_path E) = None" for r
  proof -
    have same: "files w' k = files w k" if "k \<in> state_paths L E t0" for k
      using touchesD [OF touches_offline_archive run(1)] state_outside_journal that by blast
    note cong = state_cong [of L E t0 "files w'" "files w", OF same]
    from run(2) pre cong(1,2) have "offline_at L E t0 T G t (files w')" by (auto simp: offline_at_def)
    with at_safe [OF this] pre(2) show ?thesis by (simp add: offline_at_def)
  qed
  show "offline_safe L E t0 T G (files w')" if run: "offline_archive L E t w = (Inl e, w')" for e
    using kept [OF run io_tripleD_err [OF triple_archive_slot refl run]] ..
  show "offline_done L E t0 T G (files w')" if run: "offline_archive L E t w = (Inr x, w')"
  proof -
    have gone: "files w' (offline_pending_path E) = None" using io_tripleD_ok [OF triple_archive_slot refl run] .
    have "T [] \<noteq> None" using pre(1) by (simp add: offline_at_def offline_basis_def)
    with kept [OF run] gone show ?thesis
      by (auto simp: offline_done_def phase_matches_def activated_def dest: holds_at_root)
  qed
qed

lemma early_activated:
  assumes "early (ot_phase t)" and "offline_at L E t0 T G t f" and "laid_out (offline_swap L E t0) (True, True, False) f"
  shows "phase_matches L E t0 T G OffTargetRootActivated f"
proof -
  have "underway (offline_swap L E t0) T G f" using assms(2) early_matches [OF assms(1)] by (simp add: offline_at_def)
  from underway_installed [OF this assms(3)] show ?thesis by (simp add: phase_matches_def activated_def installed_def)
qed

context offline_filesystem
begin

lemma triple_discard_old:
  assumes "off_fs E = F" and "lin_faithful (off_lineage L)" and "same_offline t t0"
  shows "io_triple (\<lambda>w. offline_at L E t0 T G t (files w) \<and> ot_phase t = OffTargetRootActivated) (discard_old L E t)
    (\<lambda>_ w. offline_at L E t0 T G t (files w)) (\<lambda>_ w. offline_safe L E t0 T G (files w))"
proof -
  let ?old = "sw_old (offline_swap L E t0)"
  have same: "offline_swap L E t = offline_swap L E t0" "ot_target_deployment_id t = ot_target_deployment_id t0"
    using assms(3) same_offline_swap [OF assms(3)] by (simp_all add: same_offline_def)
  have head: "io_triple (\<lambda>w. offline_at L E t0 T G t (files w) \<and> ot_phase t = OffTargetRootActivated)
      (record_head L E (ot_target_deployment_id t0)) (\<lambda>_ w. committed L E t0 T G t (files w))
      (\<lambda>_ w. offline_safe L E t0 T G (files w))"
  proof (rule io_tripleI; elim conjE)
    fix w x w'
    assume pre: "offline_at L E t0 T G t (files w)" "ot_phase t = OffTargetRootActivated"
    note step = triple_record_head [OF assms(2), of E t0 T G t "files w ?old"]
    show "committed L E t0 T G t (files w')" if "record_head L E (ot_target_deployment_id t0) w = (Inr x, w')"
      using io_tripleD_ok [OF step _ that] pre by simp
    show "offline_safe L E t0 T G (files w')" if "record_head L E (ot_target_deployment_id t0) w = (Inl e, w')" for e
      using io_tripleD_err [OF step _ that] pre by simp
  qed
  have keep: "io_triple (\<lambda>w. committed L E t0 T G t (files w)) m (\<lambda>_ w. committed L E t0 T G t (files w))
      (\<lambda>_ w. offline_safe L E t0 T G (files w))" if "keeps (committed L E t0 T G t) m" for m :: "('e, 'x) io"
    by (rule triple_weaken [OF that [unfolded keeps_def]]) (auto intro: at_safe committed_at)
  have children: "io_triple (\<lambda>w. committed L E t0 T G t (files w)) (io_map_err fs_error (rf_empty_system_subvolumes F ?old))
      (\<lambda>cs w. committed L E t0 T G t (files w) \<and> (\<forall>c \<in> set cs. prefix ?old c)) (\<lambda>_ w. offline_safe L E t0 T G (files w))"
  proof (rule io_tripleI)
    fix w cs w'
    assume pre: "committed L E t0 T G t (files w)"
    show "committed L E t0 T G t (files w') \<and> (\<forall>c \<in> set cs. prefix ?old c)"
      if run: "io_map_err fs_error (rf_empty_system_subvolumes F ?old) w = (Inr cs, w')"
      using run empty_children [of ?old w cs w'] io_tripleD_ok [OF triple_quiet [OF empty_frame, where I = "committed L E t0 T G t"] pre run] by auto
    show "offline_safe L E t0 T G (files w')"
      if run: "io_map_err fs_error (rf_empty_system_subvolumes F ?old) w = (Inl e, w')" for e
      using io_tripleD_err [OF triple_quiet [OF empty_frame, where I = "committed L E t0 T G t"] pre run] by (blast intro: at_safe committed_at)
  qed
  have clear: "keeps (committed L E t0 T G t) (delete_children E cs)" if "\<forall>c \<in> set cs. prefix ?old c" for cs
    by (rule keeps_delete_children [OF assms(1) _ committed_frame old_outside]) (use that in blast)
  have delete: "keeps (committed L E t0 T G t) (io_map_err fs_error (rf_delete F ?old))"
    by (intro keep_rules keeps_frame [OF committed_frame delete_frame old_outside])
  have sync: "keeps (committed L E t0 T G t) (io_map_err fs_error (rf_sync F (off_top E)))"
    by (intro keep_rules keeps_touches_none sync_frame)
  have last: "io_triple (\<lambda>w. committed L E t0 T G t (files w)) (io_map_err fs_error (rf_sync F (off_top E)))
      (\<lambda>_ w. offline_at L E t0 T G t (files w)) (\<lambda>_ w. offline_safe L E t0 T G (files w))"
    by (rule triple_weaken [OF keep [OF sync]]) (auto intro: committed_at)
  show ?thesis
    unfolding discard_old_def Let_def same assms(1)
    by (rule triple_bind [OF head], rule triple_bind [OF children], rule triple_pure,
        rule triple_bind [OF keep [OF clear]], simp, rule triple_bind [OF keep [OF delete] last])
qed


lemma triple_complete:
  assumes "off_fs E = F" and "journal_faithful (off_json L)" and "lin_faithful (off_lineage L)" and "same_offline t t0"
  shows "io_triple (\<lambda>w. (offline_at L E t0 T G t (files w) \<and> ot_phase t = OffTargetRootActivated)
      \<and> laid_out (offline_swap L E t0) (True, False, False) (files w)) (complete L E t)
    (\<lambda>t' w. offline_done L E t0 T G (files w) \<and> same_offline t' t0) (\<lambda>_ w. offline_safe L E t0 T G (files w))"
proof -
  let ?old = "sw_old (offline_swap L E t0)"
  let ?K = "\<lambda>f. committed L E t0 T G t f \<and> None = f ?old"
  let ?t = "\<lambda>now. t\<lparr>ot_phase := OffCompleted, ot_updated_at := now\<rparr>"
  have target: "ot_target_deployment_id t = ot_target_deployment_id t0" using assms(4) by (simp add: same_offline_def)
  have head: "io_triple (\<lambda>w. (offline_at L E t0 T G t (files w) \<and> ot_phase t = OffTargetRootActivated)
      \<and> laid_out (offline_swap L E t0) (True, False, False) (files w))
      (record_head L E (ot_target_deployment_id t0)) (\<lambda>_ w. ?K (files w)) (\<lambda>_ w. offline_safe L E t0 T G (files w))"
    by (rule triple_weaken [OF triple_record_head [OF assms(3)]]) (auto simp: laid_out_def)
  have safe: "offline_safe L E t0 T G f" if "?K f" for f using that by (blast intro: at_safe committed_at)
  have wait: "io_triple (\<lambda>w. ?K (files w)) (io_map_err fs_error (rf_wait_for_deleted_subvolumes F (off_top E)))
      (\<lambda>_ w. ?K (files w)) (\<lambda>_ w. offline_safe L E t0 T G (files w))"
    by (rule triple_weaken [OF triple_quiet [OF wait_frame, where I = ?K]]) (use safe in auto)
  have clock: "io_triple (\<lambda>w. ?K (files w)) utc_now (\<lambda>_ w. ?K (files w)) (\<lambda>_ w. offline_safe L E t0 T G (files w))"
    by (simp add: io_triple_def utc_now_def)
  have commit: "io_triple (\<lambda>w. ?K (files w)) (write_pending L E (?t now))
      (\<lambda>_ w. offline_at L E t0 T G (?t now) (files w) \<and> ot_phase (?t now) = OffCompleted)
      (\<lambda>_ w. offline_safe L E t0 T G (files w))" for now
  proof (rule io_tripleI)
    fix w x w'
    assume pre: "?K (files w)"
    then have entry: "offline_at L E t0 T G t (files w)" "phase_matches L E t0 T G (ot_phase (?t now)) (files w)"
      "same_offline (?t now) t0"
      using assms(4) by (auto simp: committed_at committed_def phase_matches_def activated_def same_offline_def)
    note wrote = write_pending_at [OF assms(2) entry(3,1,2)]
    show "offline_at L E t0 T G (?t now) (files w') \<and> ot_phase (?t now) = OffCompleted"
      if "write_pending L E (?t now) w = (Inr x, w')" using wrote(2) [OF that] by simp
    show "offline_safe L E t0 T G (files w')" if "write_pending L E (?t now) w = (Inl e, w')" for e
      using that by (rule wrote(1))
  qed
  have "same_offline (?t now) t0" for now using assms(4) by (simp add: same_offline_def)
  then show ?thesis
    unfolding complete_def Let_def target assms(1)
    by (intro triple_bind [OF head triple_bind [OF wait triple_bind [OF clock triple_bind [OF commit
              triple_bind [OF triple_archive]]]]]) (simp add: triple_return)
qed

text \<open>The loop, from any phase the journal can hold.\<close>

lemma converge_loop_safe:
  assumes "off_fs E = F" and "journal_faithful (off_json L)" and "lin_faithful (off_lineage L)"
  shows "ot_phase t \<noteq> OffCompleted \<Longrightarrow> same_offline t t0 \<Longrightarrow>
    io_triple (\<lambda>w. offline_at L E t0 T G t (files w)) (converge_loop L E n t)
      (\<lambda>t' w. offline_done L E t0 T G (files w) \<and> same_offline t' t0) (\<lambda>_ w. offline_safe L E t0 T G (files w))"
proof (induction n arbitrary: t)
  case 0
  then show ?case by (auto intro!: triple_throw at_safe)
next
  case (Suc n)
  let ?sw = "offline_swap L E t0" and ?i = "ot_target_deployment_id t0"
  let ?I = "\<lambda>f. offline_at L E t0 T G t f"
  let ?Q = "\<lambda>t' w. offline_done L E t0 T G (files w) \<and> same_offline t' t0" and ?R = "\<lambda>_ w. offline_safe L E t0 T G (files w)"
  have same: "offline_swap L E t = ?sw" "ot_target_deployment_id t = ?i"
    using Suc.prems(2) same_offline_swap [OF Suc.prems(2)] by (simp_all add: same_offline_def)
  have later: "io_triple (\<lambda>w. offline_at L E t0 T G t' (files w) \<and> ot_phase t' = phase) (converge_loop L E n t') ?Q ?R"
    if "phase \<noteq> OffCompleted" for t' phase
  proof (rule io_tripleI; elim conjE)
    fix w x w'
    assume pre: "offline_at L E t0 T G t' (files w)" "ot_phase t' = phase"
    then have "same_offline t' t0" "ot_phase t' \<noteq> OffCompleted" using that by (simp_all add: offline_at_def)
    note ih = Suc.IH [OF this(2,1)]
    show "?Q x w'" if "converge_loop L E n t' w = (Inr x, w')" using io_tripleD_ok [OF ih pre(1) that] .
    show "offline_safe L E t0 T G (files w')" if "converge_loop L E n t' w = (Inl e, w')" for e
      using io_tripleD_err [OF ih pre(1) that] .
  qed
  have look: "io_triple (\<lambda>w. ?I (files w)) (offline_layout ?sw) (\<lambda>s w. ?I (files w) \<and> laid_out ?sw s (files w)) ?R"
    by (rule triple_weaken [OF triple_offline_layout [where I = ?I]]) (auto intro: at_safe)
  show ?case
  proof (cases "ot_phase t = OffTargetRootActivated")
    case True
    have discard: "io_triple (\<lambda>w. ?I (files w) \<and> laid_out ?sw s (files w))
        (io_bind (discard_old L E t) (\<lambda>_. converge_loop L E n t)) ?Q ?R" for s
      by (rule triple_bind [OF triple_weaken [OF triple_discard_old [OF assms(1,3) Suc.prems(2)]] Suc.IH [OF Suc.prems]])
        (use True in auto)
    have finish: "io_triple (\<lambda>w. ?I (files w) \<and> laid_out ?sw (True, False, False) (files w)) (complete L E t) ?Q ?R"
      by (rule triple_weaken [OF triple_complete [OF assms Suc.prems(2)]]) (use True in auto)
    show ?thesis
      unfolding converge_loop.simps Let_def same if_P [OF True]
      by (rule triple_bind [OF look], rule triple_if, rule discard, rule triple_if, use finish in blast,
          rule triple_throw, use at_safe in blast)
  next
    case False
    then have soon: "early (ot_phase t)" using Suc.prems(1) by (simp add: early_def)
    let ?target = "offline_deployment_root L E ?i"
    have out: "under ?target \<inter> swap_paths ?sw = {}" by (rule offline_disjoint)
    then have apart: "apart ?target (sw_new ?sw)" unfolding apart_def swap_paths_def under_def by blast
    have inspect: "io_triple (\<lambda>w. ?I (files w) \<and> laid_out ?sw s (files w))
        (io_map_err fs_error (rf_empty_system_subvolumes F p)) (\<lambda>_ w. ?I (files w) \<and> laid_out ?sw s (files w)) ?R" for s p
      by (rule triple_weaken [OF triple_quiet [OF empty_frame, where I = "\<lambda>f. ?I f \<and> laid_out ?sw s f"]]) (auto intro: at_safe)
    note step = triple_bind [OF triple_offline_step [OF assms(1,2) triple_change [OF _ _ soon]] later]
    have create: "io_triple (\<lambda>w. ?I (files w) \<and> laid_out ?sw (True, False, False) (files w))
        (io_bind (offline_step L E (rf_snapshot F ?target (sw_new ?sw)) OffWritableTargetCreated t) (converge_loop L E n)) ?Q ?R"
      by (rule step [OF snapshot_frame])
        (use snapshot_stays_underway [OF offline_swap_ok apart] in \<open>auto simp: swap_paths_def phase_matches_def\<close>)
    have protect: "io_triple (\<lambda>w. ?I (files w) \<and> laid_out ?sw (True, False, True) (files w))
        (io_bind (offline_step L E (rf_rename F (sw_live ?sw) (sw_old ?sw)) OffCurrentRootProtected t) (converge_loop L E n)) ?Q ?R"
    proof (rule step [OF rename_frame])
      fix w x w'
      assume pre: "underway ?sw T G (files w)" "holds_at (files w) ?target G" "laid_out ?sw (True, False, True) (files w)"
        "rf_rename F (sw_live ?sw) (sw_old ?sw) w = (x, w')"
      have "underway ?sw T G (files w')" by (rule rename_stays_underway [OF offline_swap_ok out _ pre]) simp
      then show "underway ?sw T G (files w') \<and> (isl x \<or> phase_matches L E t0 T G OffCurrentRootProtected (files w'))"
        by (simp add: phase_matches_def)
    qed (auto simp: swap_paths_def)
    have activate: "io_triple (\<lambda>w. ?I (files w) \<and> laid_out ?sw (False, True, True) (files w))
        (io_bind (offline_step L E (rf_rename F (sw_new ?sw) (sw_live ?sw)) OffTargetRootActivated t) (converge_loop L E n)) ?Q ?R"
    proof (rule step [OF rename_frame])
      fix w x w'
      assume pre: "underway ?sw T G (files w)" "holds_at (files w) ?target G" "laid_out ?sw (False, True, True) (files w)"
        "rf_rename F (sw_new ?sw) (sw_live ?sw) w = (x, w')"
      have "underway ?sw T G (files w')" by (rule rename_stays_underway [OF offline_swap_ok out _ pre]) simp
      moreover have "installed ?sw T G (files w')" if "x = Inr y" for y
        by (rule activation_installs [OF offline_swap_ok pre(1,3)]) (use pre(4) that in simp)
      ultimately show "underway ?sw T G (files w') \<and> (isl x \<or> phase_matches L E t0 T G OffTargetRootActivated (files w'))"
        by (cases x) (auto simp: phase_matches_def activated_def installed_def)
    qed (auto simp: swap_paths_def)
    have advance: "io_triple (\<lambda>w. ?I (files w) \<and> laid_out ?sw (True, True, False) (files w))
        (io_bind (update_phase L E OffTargetRootActivated t) (converge_loop L E n)) ?Q ?R"
      by (rule triple_bind [OF triple_weaken [OF triple_update_phase [OF assms(2)]] later])
        (use early_activated [OF soon] in auto)
    have lost: "io_triple (\<lambda>w. ?I (files w) \<and> laid_out ?sw (False, True, False) (files w)) m ?Q ?R"
      for m :: "(OfflineError, OfflineTransaction) io"
      by (rule io_tripleI)
        (use soon in \<open>auto simp: offline_at_def early_matches underway_def laid_out_def dest: holds_at_root\<close>)
    show ?thesis
      unfolding converge_loop.simps Let_def same if_not_P [OF False] assms(1)
      by (rule triple_bind [OF look]; (rule triple_if)+)
        (use create in \<open>auto intro!: triple_bind [OF inspect] triple_throw at_safe create protect activate advance lost\<close>)
  qed
qed

end

subsection \<open>The whole recovery\<close>

lemma touches_offline_queries [io_rules]:
  "touches S (offline_real_directory p)" "touches S (offline_ensure_real_directory p)" "touches S (validate_missing_root E)"
  "touches S (offline_load_pending L E)"
  unfolding offline_ensure_real_directory_def offline_real_directory_def validate_missing_root_def offline_load_pending_def Let_def
  by (intro io_rules)+

lemma triple_offline_load:
  "io_triple (\<lambda>w. I (files w)) (offline_load_pending L E)
    (\<lambda>r w. I (files w) \<and> (\<forall>t. r = Some t \<longrightarrow> journal_decodes (off_json L) (files w (offline_pending_path E)) t))
    (\<lambda>_ w. I (files w))"
proof (rule io_tripleI)
  fix w r w'
  let ?p = "offline_pending_path E"
  assume pre: "I (files w)"
  have same: "files w' = files w" if "offline_load_pending L E w = (x, w')" for x
    using touchesD [OF touches_offline_queries(4) [of "{}"] that] by (simp add: fun_eq_iff)
  have decoded: "journal_decodes (off_json L) (files w ?p) t" if "offline_load_pending L E w = (Inr (Some t), w')" for t
    using that
    by (auto simp: offline_load_pending_def Let_def io_exec io_bind_def syscall_def tick_def journal_decodes_def slot_holds_def
        regular_content_def MAX_TRANSACTION_BYTES_def
        split: option.splits sum.splits prod.splits if_splits file_type.splits)
  show "I (files w') \<and> (\<forall>t. r = Some t \<longrightarrow> journal_decodes (off_json L) (files w' ?p) t)"
    if "offline_load_pending L E w = (Inr r, w')"
    using pre same [OF that] decoded that by auto
  show "I (files w')" if "offline_load_pending L E w = (Inl e, w')" for e
    using pre same [OF that] by simp
qed

lemma in_under: "p @ r \<in> under p"
  by (simp add: under_def)

lemma lock_outside:
  "offline_snapshot_root E @ [''operation.lock''] \<notin> state_paths L E t0 \<union> {offline_pending_path E}"
proof -
  let ?k = "offline_snapshot_root E @ [''operation.lock'']"
  have "?k \<notin> swap_paths (offline_swap L E t0)"
    using snapshot_store_outside [of E L t0] in_under [of "offline_snapshot_root E" "[''operation.lock'']"] by blast
  moreover have "?k \<notin> under (offline_deployment_root L E i)" for i
    by (auto simp: under_def offline_deployment_root_def prefix_def)
  ultimately show ?thesis
    by (simp add: state_paths_def head_slot_def offline_history_def lineage_file_def offline_pending_path_def offline_directory_def)
qed

lemma touches_acquire_lock: "touches {offline_snapshot_root E @ [''operation.lock'']} (acquire_lock E)"
  unfolding acquire_lock_def Let_def by (intro io_rules) simp

lemma safe_frame: "frame_pred (state_paths L E t0 \<union> {offline_pending_path E}) (offline_safe L E t0 T G)"
  unfolding frame_pred_def
proof (intro allI impI)
  fix f g :: "path \<Rightarrow> inode option"
  assume same: "\<forall>k \<in> state_paths L E t0 \<union> {offline_pending_path E}. f k = g k"
  then have "f k = g k" if "k \<in> state_paths L E t0" for k using that by blast
  note cong = state_cong [of L E t0 f g, OF this]
  from same show "offline_safe L E t0 T G f = offline_safe L E t0 T G g"
    by (simp add: offline_safe_def cong)
qed

lemma keeps_lock: "keeps (offline_safe L E t0 T G) (acquire_lock E)"
  by (rule keeps_frame [OF safe_frame touches_acquire_lock]) (use lock_outside [of E L t0] in blast)

context offline_filesystem
begin

lemma touches_validations:
  assumes "off_fs E = F"
  shows "touches {} (validate_layout E)" "touches {} (validate_target L E i)"
proof -
  have "touches {} (validate_subvolumes E ns)" for ns
    using query_frames assms by (induction ns) (auto intro!: io_rules)
  then show "touches {} (validate_layout E)"
    unfolding validate_layout_def assms by (intro io_rules query_frames)
  show "touches {} (validate_target L E i)"
    unfolding validate_target_def Let_def assms by (intro io_rules query_frames)
qed

lemma converge_safe:
  assumes "off_fs E = F" and "journal_faithful (off_json L)" and "lin_faithful (off_lineage L)" and "same_offline t t0"
  shows "io_triple (\<lambda>w. offline_at L E t0 T G t (files w)) (converge L E t)
    (\<lambda>t' w. offline_done L E t0 T G (files w) \<and> same_offline t' t0) (\<lambda>_ w. offline_safe L E t0 T G (files w))"
proof -
  let ?Q = "\<lambda>t' w. offline_done L E t0 T G (files w) \<and> same_offline t' t0" and ?R = "\<lambda>_ w. offline_safe L E t0 T G (files w)"
  have stored: "io_triple (\<lambda>w. offline_at L E t0 T G t (files w)) (io_bind (offline_archive L E t) (\<lambda>_. io_return t)) ?Q ?R"
    if "ot_phase t = OffCompleted"
    by (rule triple_bind [OF triple_weaken [OF triple_archive] triple_return]) (use that assms(4) in auto)
  have valid: "keeps (offline_at L E t0 T G t) (validate_target L E i)" for i
    by (rule keeps_touches_none [OF touches_validations(2) [OF assms(1)]])
  have checked: "io_triple (\<lambda>w. offline_at L E t0 T G t (files w)) (validate_target L E i)
      (\<lambda>_ w. offline_at L E t0 T G t (files w)) ?R" for i
    by (rule triple_weaken [OF valid [unfolded keeps_def]]) (auto intro: at_safe)
  show ?thesis
    unfolding converge_def
    by (rule triple_lift, rule triple_if, rule stored, assumption,
        rule triple_bind [OF checked converge_loop_safe [OF assms(1-3) _ assms(4)]]) (auto intro: at_safe)
qed

lemma resume_safe:
  assumes "off_fs E = F" and "journal_faithful (off_json L)" and "lin_faithful (off_lineage L)"
  shows "io_triple (\<lambda>w. offline_safe L E t0 T G (files w)) (offline_resume L E)
    (\<lambda>r w. offline_safe L E t0 T G (files w) \<and> (r \<noteq> None \<longrightarrow> offline_done L E t0 T G (files w)))
    (\<lambda>_ w. offline_safe L E t0 T G (files w))"
proof -
  let ?Q = "\<lambda>r w. offline_safe L E t0 T G (files w) \<and> (r \<noteq> None \<longrightarrow> offline_done L E t0 T G (files w))"
  let ?R = "\<lambda>_ w. offline_safe L E t0 T G (files w)"
  have layout: "io_triple (\<lambda>w. offline_safe L E t0 T G (files w)) (validate_layout E)
      (\<lambda>_ w. offline_safe L E t0 T G (files w)) ?R"
    using keeps_touches_none [OF touches_validations(1) [OF assms(1)]] by (simp add: keeps_def)
  have found: "io_triple (\<lambda>w. offline_safe L E t0 T G (files w) \<and> journal_decodes (off_json L) (files w (offline_pending_path E)) t)
      (io_bind (converge L E t) (\<lambda>t. io_return (Some t))) ?Q ?R" for t
  proof (cases "same_offline t t0")
    case True
    show ?thesis
      by (rule triple_bind [OF triple_weaken [OF converge_safe [OF assms True]] triple_return])
        (auto intro: safe_at simp: offline_done_def)
  next
    case False
    then show ?thesis by (intro io_tripleI) (auto simp: offline_safe_def)
  qed
  show ?thesis
    unfolding offline_resume_def
    by (rule triple_bind [OF layout triple_bind [OF keeps_lock [unfolded keeps_def]
            triple_bind [OF triple_offline_load [where I = "offline_safe L E t0 T G"]]]],
        rule triple_case_option, rule triple_return, simp, rule triple_weaken [OF found])
      simp_all
qed

end

subsection \<open>A first restore\<close>

text \<open>The installation before a restore: the previous root is live, the target is there, and no
  name of a rescue transaction is taken.\<close>

definition offline_fresh where
  "offline_fresh L E i T G f \<longleftrightarrow>
     T [] \<noteq> None \<and> G [] \<noteq> None \<and> holds_at f (offline_deployment_root L E i) G
     \<and> holds_at f (off_top E @ [''@root'']) T \<and> f (offline_pending_path E) = None
     \<and> (\<forall>t. f (sw_old (offline_swap L E t)) = None \<and> f (sw_new (offline_swap L E t)) = None)"

text \<open>Some complete root: the previous one, live or set aside, or the target, live and the head.\<close>

definition root_complete where
  "root_complete L E i T G f \<longleftrightarrow>
     holds_at f (off_top E @ [''@root'']) T
     \<or> (\<exists>t. ot_target_deployment_id t = i \<and> holds_at f (sw_old (offline_swap L E t)) T)
     \<or> holds_at f (off_top E @ [''@root'']) G \<and> headed L i (f (head_slot E))"

lemma live_is_root: "sw_live (offline_swap L E t) = off_top E @ [''@root'']"
  by (simp add: offline_swap_def)

lemma safe_complete: "offline_safe L E t T G f \<Longrightarrow> root_complete L E (ot_target_deployment_id t) T G f"
  by (auto simp: offline_safe_def root_complete_def underway_def activated_def live_is_root)

lemma fresh_at:
  assumes "offline_fresh L E (ot_target_deployment_id t) T G f" and "ot_phase t = OffPrepared"
  shows "offline_at L E t T G t f"
  using assms
  by (simp add: offline_at_def offline_basis_def offline_fresh_def same_offline_def phase_matches_def underway_def live_is_root)

lemma fresh_complete: "offline_fresh L E i T G f \<Longrightarrow> root_complete L E i T G f"
  by (simp add: offline_fresh_def root_complete_def)

lemma keeps_fresh_lock: "keeps (offline_fresh L E i T G) (acquire_lock E)"
proof (rule keepsI)
  fix w x w'
  assume pre: "offline_fresh L E i T G (files w)" and run: "acquire_lock E w = (x, w')"
  let ?k = "offline_snapshot_root E @ [''operation.lock'']"
  have same: "files w' k = files w k" if "k \<noteq> ?k" for k using touchesD [OF touches_acquire_lock run] that by blast
  have store: "?k \<notin> swap_paths (offline_swap L E t)" for t
    using snapshot_store_outside [of E L t] in_under [of "offline_snapshot_root E" "[''operation.lock'']"] by blast
  have paths: "under (sw_live (offline_swap L E t)) \<subseteq> swap_paths (offline_swap L E t)"
    "sw_old (offline_swap L E t) \<in> swap_paths (offline_swap L E t)"
    "sw_new (offline_swap L E t) \<in> swap_paths (offline_swap L E t)" for t
    by (auto simp: swap_paths_def under_def)
  have names: "files w' k = files w k" if "k \<in> under (off_top E @ [''@root''])" for k
  proof (rule same)
    show "k \<noteq> ?k" using that paths(1) store unfolding live_is_root by blast
  qed
  have others: "files w' (sw_old (offline_swap L E t)) = files w (sw_old (offline_swap L E t))"
    "files w' (sw_new (offline_swap L E t)) = files w (sw_new (offline_swap L E t))" for t
  proof -
    have "sw_old (offline_swap L E t) \<noteq> ?k" "sw_new (offline_swap L E t) \<noteq> ?k" using paths(2,3) [of t] store [of t] by metis+
    then show "files w' (sw_old (offline_swap L E t)) = files w (sw_old (offline_swap L E t))"
      "files w' (sw_new (offline_swap L E t)) = files w (sw_new (offline_swap L E t))" by (simp_all add: same)
  qed
  have "holds_at (files w') (off_top E @ [''@root'']) T = holds_at (files w) (off_top E @ [''@root'']) T"
    by (rule holds_at_cong) (rule names)
  moreover have "holds_at (files w') (offline_deployment_root L E i) G = holds_at (files w) (offline_deployment_root L E i) G"
    by (rule holds_at_cong, rule same) (auto simp: under_def offline_deployment_root_def prefix_def)
  moreover have "files w' (offline_pending_path E) = files w (offline_pending_path E)"
    by (rule same) (simp add: offline_pending_path_def offline_directory_def)
  ultimately show "offline_fresh L E i T G (files w')" using pre others by (simp add: offline_fresh_def)
qed

context offline_filesystem
begin

lemma start_safe:
  assumes "off_fs E = F" and "journal_faithful (off_json L)" and "lin_faithful (off_lineage L)"
    and "ot_target_deployment_id t = i" and "ot_phase t = OffPrepared"
  shows "io_triple (\<lambda>w. offline_fresh L E i T G (files w)) (io_bind (write_pending L E t) (\<lambda>_. converge L E t))
    (\<lambda>t' w. offline_done L E t T G (files w) \<and> same_offline t' t) (\<lambda>_ w. root_complete L E i T G (files w))"
proof -
  have same: "same_offline t t" by (simp add: same_offline_def)
  have commit: "io_triple (\<lambda>w. offline_fresh L E i T G (files w)) (write_pending L E t)
      (\<lambda>_ w. offline_at L E t T G t (files w)) (\<lambda>_ w. root_complete L E i T G (files w))"
  proof (rule io_tripleI)
    fix w x w'
    assume "offline_fresh L E i T G (files w)"
    then have at: "offline_at L E t T G t (files w)" using fresh_at assms(4,5) by blast
    then have "phase_matches L E t T G (ot_phase t) (files w)" by (simp add: offline_at_def)
    note wrote = write_pending_at [OF assms(2) same at this]
    show "offline_at L E t T G t (files w')" if "write_pending L E t w = (Inr x, w')" using wrote(2) [OF that] by simp
    show "root_complete L E i T G (files w')" if "write_pending L E t w = (Inl e, w')" for e
      using safe_complete [OF wrote(1) [OF that]] assms(4) by simp
  qed
  have go: "io_triple (\<lambda>w. offline_at L E t T G t (files w)) (converge L E t)
      (\<lambda>t' w. offline_done L E t T G (files w) \<and> same_offline t' t) (\<lambda>_ w. root_complete L E i T G (files w))"
    by (rule triple_weaken [OF converge_safe [OF assms(1-3) same]]) (use assms(4) in \<open>auto dest: safe_complete\<close>)
  show ?thesis by (rule triple_bind [OF commit go])
qed

lemma restore_safe:
  assumes "off_fs E = F" and "journal_faithful (off_json L)" and "lin_faithful (off_lineage L)"
  shows "io_triple (\<lambda>w. offline_fresh L E i T G (files w)) (offline_restore L E i)
    (\<lambda>t w. ot_target_deployment_id t = i \<and> offline_done L E t T G (files w)) (\<lambda>_ w. root_complete L E i T G (files w))"
proof -
  let ?P = "\<lambda>w. offline_fresh L E i T G (files w)" and ?R = "\<lambda>_ w. root_complete L E i T G (files w)"
  let ?Q = "\<lambda>t w. ot_target_deployment_id t = i \<and> offline_done L E t T G (files w)"
  have keep: "io_triple ?P m (\<lambda>_. ?P) ?R" if "keeps (offline_fresh L E i T G) m" for m :: "('e, 'x) io"
    by (rule triple_weaken [OF that [unfolded keeps_def]]) (auto intro: fresh_complete)
  have quiet: "io_triple ?P m (\<lambda>_. ?P) ?R" if "touches {} m" for m :: "('e, 'x) io"
    by (rule keep) (rule keeps_touches_none [OF that])
  have new: "io_triple ?P (OfflineTransaction_new i)
      (\<lambda>t w. ?P w \<and> (ot_target_deployment_id t = i \<and> ot_phase t = OffPrepared)) ?R"
    by (rule io_tripleI) (auto simp: OfflineTransaction_new_def io_bind_def io_return_def utc_now_def new_v4_def tick_def)
  have same: "offline_done L E t' T G f" if "offline_done L E t T G f" "same_offline t' t" for t t' f
  proof -
    have "offline_swap L E t' = offline_swap L E t" "ot_target_deployment_id t' = ot_target_deployment_id t"
      using that(2) same_offline_swap [OF that(2)] by (simp_all add: same_offline_def)
    with that(1) show ?thesis
      by (simp add: offline_done_def offline_safe_def offline_basis_def activated_def phase_matches_def
          journal_decodes_def slot_holds_def)
  qed
  have going: "io_triple ?P (io_bind (write_pending L E t) (\<lambda>_. converge L E t)) ?Q ?R"
    if "ot_target_deployment_id t = i \<and> ot_phase t = OffPrepared" for t
    by (rule triple_weaken [OF start_safe [OF assms, of t i]])
      (use that same in \<open>auto simp: same_offline_def\<close>)
  have start: "io_triple ?P (io_bind (validate_target L E i) (\<lambda>_.
      io_bind (io_map_err fs_error (rf_empty_system_subvolumes F (off_top E @ [''@root'']))) (\<lambda>_.
      io_bind (OfflineTransaction_new i) (\<lambda>t. io_bind (write_pending L E t) (\<lambda>_. converge L E t))))) ?Q ?R"
    by (rule triple_bind [OF quiet [OF touches_validations(2) [OF assms(1)]] triple_bind [OF quiet
          [OF touches_map_err [OF empty_frame]] triple_bind [OF new triple_pure [OF going]]]])
  have loaded: "io_triple ?P (offline_load_pending L E) (\<lambda>r w. ?P w \<and> r = None) ?R"
  proof (rule io_tripleI)
    fix w r w'
    assume pre: "?P w"
    note load = triple_offline_load [where I = "offline_fresh L E i T G"]
    show "?P w' \<and> r = None" if "offline_load_pending L E w = (Inr r, w')"
      using io_tripleD_ok [OF load pre that] by (cases r) (auto simp: offline_fresh_def)
    show "root_complete L E i T G (files w')" if "offline_load_pending L E w = (Inl e, w')" for e
      using io_tripleD_err [OF load pre that] by (rule fresh_complete)
  qed
  show ?thesis
    unfolding offline_restore_def Let_def assms(1)
    by (rule triple_bind [OF quiet [OF touches_validations(1) [OF assms(1)]] triple_bind [OF keep [OF keeps_fresh_lock]
          triple_bind [OF loaded]]], rule triple_pure, simp, rule start)
qed

end

subsection \<open>The recovery on the system's command\<close>

definition offline_resumes :: "offline_libraries \<Rightarrow> OfflineRecoveryEngine \<Rightarrow> nat \<Rightarrow> world \<Rightarrow> world" where
  "offline_resumes L E n w = ((\<lambda>w. snd (offline_resume L E w)) ^^ n) w"

text \<open>
  C7. The offline recovery never leaves an installation without a complete root: from
  any state that a run of it can leave, however often it is resumed and whatever call of a
  run fails, the previous root is there whole, live or set aside under the transaction's name,
  or the live root is exactly the target and the lineage names the target as its head.
\<close>

theorem offline_keeps_a_root:
  assumes "btrfs_behaves C" and "btrfs_atomic C" and "journal_faithful (off_json L)" and "lin_faithful (off_lineage L)"
    and "E = \<lparr>off_top = d, off_fs = system_fs (off_uuid L) C\<rparr>"
    and "offline_safe L E t T G (map_of (nodes w))"
  shows "root_complete L E (ot_target_deployment_id t) T G (map_of (nodes (offline_resumes L E n w)))"
proof -
  have fs: "offline_filesystem (system_fs (off_uuid L) C)" using assms(1,2) by (rule system_fs_offline)
  have here: "off_fs E = system_fs (off_uuid L) C" using assms(5) by simp
  note resume = offline_filesystem.resume_safe [OF fs here assms(3,4), of t T G]
  have "offline_safe L E t T G (files (offline_resumes L E n w))"
  proof (induction n)
    case (Suc n)
    let ?w = "offline_resumes L E n w"
    obtain x w' where run: "offline_resume L E ?w = (x, w')" by fastforce
    have "offline_safe L E t T G (files w')"
    proof (cases x)
      case (Inl e)
      with io_tripleD_err [OF resume Suc.IH] run show ?thesis by blast
    next
      case (Inr r)
      with io_tripleD_ok [OF resume Suc.IH] run show ?thesis by blast
    qed
    with run show ?case by (simp add: offline_resumes_def)
  qed (use assms(6) in \<open>simp add: offline_resumes_def\<close>)
  then show ?thesis by (rule safe_complete)
qed


subsection \<open>An instance\<close>

definition rescue_transaction :: "OfflinePhase \<Rightarrow> OfflineTransaction" where
  "rescue_transaction p =
     \<lparr>ot_schema_version = 1, ot_id = 3, ot_target_deployment_id = 1, ot_phase = p, ot_created_at = 200, ot_updated_at = 200\<rparr>"

fun phase_text :: "OfflinePhase \<Rightarrow> string" where
  "phase_text OffPrepared = ''P''"
| "phase_text OffWritableTargetCreated = ''W''"
| "phase_text OffCurrentRootProtected = ''C''"
| "phase_text OffTargetRootActivated = ''T''"
| "phase_text OffCompleted = ''D''"

definition rescue_json :: offline_json where
  "rescue_json =
     \<lparr>oj_parse = (\<lambda>b. case map_of [(phase_text p @ newline, p). p \<leftarrow> [OffPrepared, OffWritableTargetCreated,
          OffCurrentRootProtected, OffTargetRootActivated, OffCompleted]] b of
        None \<Rightarrow> Inl ''syntax'' | Some p \<Rightarrow> Inr (rescue_transaction p)),
      oj_print = (\<lambda>t. if t = rescue_transaction (ot_phase t) then Inr (phase_text (ot_phase t)) else Inl ''other'')\<rparr>"

definition rescue_lineage :: SystemLineage where
  "rescue_lineage = SystemLineage_migrate example_uuid_lib [example_deployment]"

definition rescue_lineage_json :: lin_json where
  "rescue_lineage_json =
     \<lparr>lin_parse = (\<lambda>b. if b = ''L'' @ newline then Inr rescue_lineage else Inl ''syntax''),
      lin_print = (\<lambda>l. if l = rescue_lineage then Inr ''L'' else Inl ''other'')\<rparr>"

definition rescue_libraries :: offline_libraries where
  "rescue_libraries =
     \<lparr>off_uuid = example_uuid_lib, off_dep = example_dep_json, off_lineage = rescue_lineage_json, off_json = rescue_json\<rparr>"

definition rescue_engine :: OfflineRecoveryEngine where
  "rescue_engine = \<lparr>off_top = [''t''], off_fs = system_fs example_uuid_lib simulated_btrfs\<rparr>"

definition rescue_world :: "(nat \<Rightarrow> (string \<times> nat) option) \<Rightarrow> world" where
  "rescue_world faults =
     \<lparr>nodes = map (\<lambda>p. (p, a_dir))
        [[''t''], [''t'', ''@root''], [''t'', ''@root'', ''etc''], [''t'', ''@home''], [''t'', ''@log''], [''t'', ''@snapshots''],
         [''t'', ''@containers''], [''t'', ''@libvirt''], example_store, example_store @ [''metadata''],
         example_store @ [''deployments'', ''u1'', ''root''], example_store @ [''deployments'', ''u1'', ''root'', ''usr'']]
        @ [(example_store @ [''metadata'', ''u1.json''], a_file (''D'' @ newline))],
      ticks = 0, fault = faults, clock = (\<lambda>_. 200), entropy = (\<lambda>_. 3)\<rparr>"

lemma rescue_faithful: "journal_faithful (off_json rescue_libraries)" "lin_faithful (off_lineage rescue_libraries)"
proof -
  show "journal_faithful (off_json rescue_libraries)"
    unfolding journal_faithful_def
  proof (intro allI impI)
    fix t s t'
    assume print: "oj_print (off_json rescue_libraries) t = Inr s" and parse: "oj_parse (off_json rescue_libraries) (s @ newline) = Inr t'"
    from print have "t = rescue_transaction (ot_phase t)" "s = phase_text (ot_phase t)"
      by (auto simp: rescue_libraries_def rescue_json_def split: if_splits)
    with parse show "t' = t"
      by (cases "ot_phase t") (auto simp: rescue_libraries_def rescue_json_def split: if_splits)
  qed
  show "lin_faithful (off_lineage rescue_libraries)"
    by (auto simp: lin_faithful_def rescue_libraries_def rescue_lineage_json_def split: if_splits)
qed

lemma rescue_engine_eq:
  "rescue_engine = \<lparr>off_top = [''t''], off_fs = system_fs (off_uuid rescue_libraries) simulated_btrfs\<rparr>"
  by (simp add: rescue_engine_def rescue_libraries_def)

definition rescue_tree :: "string \<Rightarrow> path \<Rightarrow> inode option" where
  "rescue_tree n r = map_of [([], a_dir), ([n], a_dir)] r"

lemmas rescue_defs = rescue_world_def rescue_engine_def rescue_libraries_def rescue_tree_def example_store_def
  offline_deployment_root_def offline_snapshot_root_def offline_pending_path_def offline_directory_def offline_swap_def
  offline_old_root_name_def offline_new_root_name_def example_uuid_lib_def

lemma rescue_fresh:
  "offline_fresh rescue_libraries rescue_engine 1 (rescue_tree ''etc'') (rescue_tree ''usr'')
     (map_of (nodes (rescue_world faults)))"
  by (simp add: offline_fresh_def holds_at_def rescue_defs)

text \<open>A power loss after the current root was set aside; every call from the fiftieth on fails.\<close>

definition interrupted_rescue :: world where
  "interrupted_rescue =
     \<lparr>nodes = map (\<lambda>p. (p, a_dir))
        [[''t''], [''t'', ''@root.rescue-center-old-u3''], [''t'', ''@root.rescue-center-old-u3'', ''etc''],
         [''t'', ''@root.rescue-center-new-u3''], [''t'', ''@root.rescue-center-new-u3'', ''usr''], [''t'', ''@home''],
         [''t'', ''@log''], [''t'', ''@snapshots''], [''t'', ''@containers''], [''t'', ''@libvirt''], example_store,
         example_store @ [''metadata''], example_store @ [''offline-transactions''],
         example_store @ [''deployments'', ''u1'', ''root''], example_store @ [''deployments'', ''u1'', ''root'', ''usr'']]
        @ [(example_store @ [''metadata'', ''u1.json''], a_file (''D'' @ newline)),
           (example_store @ [''offline-transactions'', ''pending.json''], a_file (''C'' @ newline))],
      ticks = 0, fault = (\<lambda>n. if n < 50 then None else Some (''power loss'', 0)), clock = (\<lambda>_. 200), entropy = (\<lambda>_. 3)\<rparr>"

lemma interrupted_safe:
  "offline_safe rescue_libraries rescue_engine (rescue_transaction OffCurrentRootProtected) (rescue_tree ''etc'')
     (rescue_tree ''usr'') (map_of (nodes interrupted_rescue))"
proof -
  let ?t = "rescue_transaction OffCurrentRootProtected"
  have under: "underway (offline_swap rescue_libraries rescue_engine ?t) (rescue_tree ''etc'') (rescue_tree ''usr'')
      (map_of (nodes interrupted_rescue))"
    by (simp add: underway_def holds_at_def interrupted_rescue_def rescue_transaction_def rescue_defs)
  moreover have "t = ?t" if "journal_decodes (off_json rescue_libraries)
      (map_of (nodes interrupted_rescue) (offline_pending_path rescue_engine)) t" for t
    using that by (auto simp: journal_decodes_def slot_holds_def interrupted_rescue_def rescue_defs a_file_def a_dir_def
        rescue_json_def newline_def)
  moreover have "offline_basis rescue_libraries rescue_engine ?t (rescue_tree ''etc'') (rescue_tree ''usr'')
      (map_of (nodes interrupted_rescue))"
    by (simp add: offline_basis_def holds_at_def interrupted_rescue_def rescue_transaction_def rescue_defs)
  moreover have "early (ot_phase ?t)" by (simp add: early_def rescue_transaction_def)
  note early_matches [OF this, of rescue_libraries rescue_engine ?t]
  moreover have "same_offline ?t ?t" by (simp add: same_offline_def)
  ultimately show ?thesis unfolding offline_safe_def by blast
qed

theorem offline_keeps_a_root_witness:
  "root_complete rescue_libraries rescue_engine 1 (rescue_tree ''etc'') (rescue_tree ''usr'')
     (map_of (nodes (offline_resumes rescue_libraries rescue_engine 2 interrupted_rescue)))"
  using offline_keeps_a_root [OF simulated_behaves simulated_atomic rescue_faithful rescue_engine_eq interrupted_safe, of 2]
  by (simp add: rescue_transaction_def)


end
