(* ===== verification/Cleanup.thy ===== *)
theory Cleanup
  imports Transaction_Store Rust_Text
begin

text \<open>
  \<open>cleanup.rs\<close>: the queue of old subvolumes that a confirmed rollback has set aside.
  One record per rollback under \<open>cleanup-pending\<close>, written with the atomic protocol, listed
  oldest first and removed when its subvolumes are gone.
\<close>

subsection \<open>Records\<close>

definition ROOT_CLEANUP_SCHEMA_VERSION :: u32 where "ROOT_CLEANUP_SCHEMA_VERSION = 1"

definition CLEANUP_DIRECTORY :: string where "CLEANUP_DIRECTORY = ''cleanup-pending''"

definition MAX_CLEANUP_BYTES :: nat where "MAX_CLEANUP_BYTES = 1024 * 1024"

definition MAX_CLEANUP_RECORDS :: nat where "MAX_CLEANUP_RECORDS = 1024"

definition MAX_BLOCKED_SUBVOLUMES :: nat where "MAX_BLOCKED_SUBVOLUMES = 256"

definition MAX_DIAGNOSTIC_BYTES :: nat where "MAX_DIAGNOSTIC_BYTES = 4096"

record RootCleanupRecord =
  rc_schema_version :: u32
  rc_transaction_id :: uuid
  rc_old_root_name :: string
  rc_old_home_name :: "string option"
  rc_created_at :: timestamp
  rc_updated_at :: timestamp
  rc_attempts :: u32
  rc_blocked_subvolumes :: "string list"
  rc_last_error :: "string option"

record RootCleanupError =
  rce_message :: string

definition RootCleanupError_new :: "string \<Rightarrow> RootCleanupError" where
  "RootCleanupError_new m = \<lparr>rce_message = m\<rparr>"

definition cleanup_io_error :: "string \<Rightarrow> io_error \<Rightarrow> RootCleanupError" where
  "cleanup_io_error context e = RootCleanupError_new (context @ '': '' @ err_text e)"

definition RootCleanupRecord_new :: "uuid_lib \<Rightarrow> RollbackTransaction \<Rightarrow> ('e, RootCleanupRecord) io" where
  "RootCleanupRecord_new U t =
     io_bind utc_now (\<lambda>now.
     io_return \<lparr>rc_schema_version = ROOT_CLEANUP_SCHEMA_VERSION, rc_transaction_id = tx_id t,
                rc_old_root_name = old_root_name U t,
                rc_old_home_name = (if tx_reset_home t then Some (old_home_name U t) else None),
                rc_created_at = now, rc_updated_at = now, rc_attempts = 0, rc_blocked_subvolumes = [],
                rc_last_error = None\<rparr>)"

text \<open>U+FFFD in UTF-8.\<close>

definition replacement_character :: string where
  "replacement_character = [CHR 0xEF, CHR 0xBF, CHR 0xBD]"

definition diagnostic_character :: "string \<Rightarrow> string" where
  "diagnostic_character c =
     (if c = [CHR 0x0D] \<or> c = [CHR 0x0A] \<or> c = [CHR 0x09] then '' ''
      else if char_is_control c then replacement_character else c)"

fun take_bounded :: "nat \<Rightarrow> string \<Rightarrow> string list \<Rightarrow> string" where
  "take_bounded limit result [] = result"
| "take_bounded limit result (c # cs) =
     (let character = diagnostic_character c in
      if limit < length result + length character then result
      else take_bounded limit (result @ character) cs)"

definition bounded_diagnostic :: "string \<Rightarrow> string" where
  "bounded_diagnostic value =
     (let result = take_bounded MAX_DIAGNOSTIC_BYTES [] (chars (str_trim value)) in
      if result = [] then ''No diagnostic was provided'' else result)"

definition safe_relative_path :: "string \<Rightarrow> bool" where
  "safe_relative_path value \<longleftrightarrow>
     value \<noteq> [] \<and> length value \<le> 4096 \<and> \<not> list_ex char_is_control (chars value) \<and> normal_components value"

definition bad_diagnostic :: "string \<Rightarrow> bool" where
  "bad_diagnostic d \<longleftrightarrow>
     d = [] \<or> MAX_DIAGNOSTIC_BYTES < length d
     \<or> list_ex (\<lambda>c. char_is_control c \<and> c \<noteq> [CHR 0x0A] \<and> c \<noteq> [CHR 0x09]) (chars d)"

definition RootCleanupRecord_validate :: "uuid_lib \<Rightarrow> RootCleanupRecord \<Rightarrow> RootCleanupError + unit" where
  "RootCleanupRecord_validate U r =
     first_error
       [check (rc_schema_version r \<noteq> ROOT_CLEANUP_SCHEMA_VERSION)
          (RootCleanupError_new (''Unsupported root cleanup schema '' @ show_nat (unat (rc_schema_version r)))),
        check (rc_old_root_name r \<noteq> ''@root.snapshots-manager-old-'' @ hyphenated U (rc_transaction_id r))
          (RootCleanupError_new ''Root cleanup record has an invalid old-root name''),
        check (is_some_and (rc_old_home_name r)
                 (\<lambda>name. name \<noteq> ''@home.snapshots-manager-old-'' @ hyphenated U (rc_transaction_id r)))
          (RootCleanupError_new ''Root cleanup record has an invalid old-Home name''),
        check (MAX_BLOCKED_SUBVOLUMES < length (rc_blocked_subvolumes r)
               \<or> list_ex (\<lambda>p. \<not> safe_relative_path p) (rc_blocked_subvolumes r))
          (RootCleanupError_new ''Root cleanup record contains an unsafe blocked subvolume''),
        check (is_some_and (rc_last_error r) bad_diagnostic)
          (RootCleanupError_new ''Root cleanup diagnostic is invalid'')]"

definition saturating_succ :: "u32 \<Rightarrow> u32" where
  "saturating_succ n = (if unat n = 2 ^ 32 - 1 then n else n + 1)"

text \<open>\<open>&mut self\<close>: the record is changed whether or not the validation passes.\<close>

definition record_deferred ::
  "uuid_lib \<Rightarrow> string list \<Rightarrow> string \<Rightarrow> RootCleanupRecord \<Rightarrow> ('e, RootCleanupRecord \<times> (RootCleanupError + unit)) io" where
  "record_deferred U blocked diagnostic r =
     io_bind utc_now (\<lambda>now.
     let r = r\<lparr>rc_attempts := saturating_succ (rc_attempts r), rc_updated_at := now,
               rc_blocked_subvolumes := blocked, rc_last_error := Some (bounded_diagnostic diagnostic)\<rparr> in
     io_return (r, RootCleanupRecord_validate U r))"

subsection \<open>The store\<close>

record cleanup_json =
  cj_parse :: "bytes \<Rightarrow> string + RootCleanupRecord"
  cj_print :: "RootCleanupRecord \<Rightarrow> string + bytes"

definition cleanup_directory :: "path \<Rightarrow> path" where
  "cleanup_directory snapshot_root = snapshot_root @ [CLEANUP_DIRECTORY]"

definition cleanup_record_path :: "uuid_lib \<Rightarrow> path \<Rightarrow> uuid \<Rightarrow> path" where
  "cleanup_record_path U d i = d @ [hyphenated U i @ ''.json'']"

definition cleanup_ensure_directory :: "path \<Rightarrow> (RootCleanupError, unit) io" where
  "cleanup_ensure_directory p =
     io_match (symlink_metadata p) (\<lambda>r.
       case r of
         Inr metadata \<Rightarrow>
           (if ftype metadata = Directory then io_return ()
            else io_throw (RootCleanupError_new ''Root cleanup path is not a real directory''))
       | Inl e \<Rightarrow>
           (if err_kind e \<noteq> NotFound then io_throw (cleanup_io_error ''Could not inspect root cleanup directory'' e)
            else if p = [] then io_throw (RootCleanupError_new ''Root cleanup directory has no parent'')
            else io_map_err (cleanup_io_error ''Could not create root cleanup directory'')
                   (io_bind (create_dir p 0x1C0) (\<lambda>_. sync_directory (butlast p)))))"

definition cleanup_load ::
  "uuid_lib \<Rightarrow> cleanup_json \<Rightarrow> path \<Rightarrow> uuid \<Rightarrow> (RootCleanupError, RootCleanupRecord option) io" where
  "cleanup_load U J d i =
     (let target = cleanup_record_path U d i; refuse = (\<lambda>m. io_throw (RootCleanupError_new m)) in
      io_match (symlink_metadata target) (\<lambda>r.
        case r of
          Inl e \<Rightarrow>
            (if err_kind e = NotFound then io_return None
             else io_throw (cleanup_io_error ''Could not inspect root cleanup record'' e))
        | Inr metadata \<Rightarrow>
            (case regular_content metadata of
               None \<Rightarrow> refuse ''Root cleanup record is not a regular file''
             | Some content \<Rightarrow>
                 if MAX_CLEANUP_BYTES < length content then refuse ''Root cleanup record exceeds the safety limit''
                 else
                   io_bind (io_map_err (cleanup_io_error ''Could not open root cleanup record'') (open_read target)) (\<lambda>_.
                   io_bind (io_map_err (cleanup_io_error ''Could not read root cleanup record'')
                              (read_to_end target (MAX_CLEANUP_BYTES + 1))) (\<lambda>bytes.
                   if MAX_CLEANUP_BYTES < length bytes then refuse ''Root cleanup record exceeds the safety limit''
                   else case cj_parse J bytes of
                     Inl e \<Rightarrow> refuse (''Invalid root cleanup JSON: '' @ e)
                   | Inr record \<Rightarrow>
                       io_bind (io_lift (RootCleanupRecord_validate U record)) (\<lambda>_.
                       if rc_transaction_id record \<noteq> i
                       then refuse ''Root cleanup filename does not match its transaction ID''
                       else io_return (Some record)))))))"

definition cleanup_temporary :: "uuid_lib \<Rightarrow> path \<Rightarrow> uuid \<Rightarrow> uuid \<Rightarrow> path" where
  "cleanup_temporary U d i u = d @ [''.'' @ hyphenated U i @ ''.'' @ hyphenated U u @ ''.tmp'']"

definition cleanup_serialize :: "cleanup_json \<Rightarrow> RootCleanupRecord \<Rightarrow> RootCleanupError + bytes" where
  "cleanup_serialize J r =
     (case cj_print J r of
        Inl e \<Rightarrow> Inl (RootCleanupError_new (''Could not serialize root cleanup record: '' @ e))
      | Inr b \<Rightarrow> Inr b)"

definition cleanup_write_atomic ::
  "uuid_lib \<Rightarrow> cleanup_json \<Rightarrow> path \<Rightarrow> RootCleanupRecord \<Rightarrow> (RootCleanupError, unit) io" where
  "cleanup_write_atomic U J d r =
     io_bind (io_lift (RootCleanupRecord_validate U r)) (\<lambda>_.
     io_bind (cleanup_ensure_directory d) (\<lambda>_.
     io_bind (io_lift (cleanup_serialize J r)) (\<lambda>serialized.
     let target = cleanup_record_path U d (rc_transaction_id r) in
     io_match (symlink_metadata target) (\<lambda>there.
     if (case there of Inr metadata \<Rightarrow> regular_content metadata = None | Inl _ \<Rightarrow> False)
     then io_throw (RootCleanupError_new ''Root cleanup target is not a regular file'')
     else
       io_bind new_v4 (\<lambda>u.
       let temporary = cleanup_temporary U d (rc_transaction_id r) u in
       io_match (io_bind (create_new temporary 0x180) (\<lambda>_. replace_file d temporary target serialized)) (\<lambda>result.
         case result of
           Inr _ \<Rightarrow> io_return ()
         | Inl e \<Rightarrow> io_match (remove_file temporary) (\<lambda>_.
             io_throw (cleanup_io_error ''Could not commit root cleanup record'' e))))))))"

definition cleanup_schedule ::
  "uuid_lib \<Rightarrow> cleanup_json \<Rightarrow> path \<Rightarrow> RollbackTransaction \<Rightarrow> (RootCleanupError, RootCleanupRecord) io" where
  "cleanup_schedule U J d t =
     io_bind (RootCleanupRecord_new U t) (\<lambda>record.
     io_bind (cleanup_load U J d (tx_id t)) (\<lambda>found.
     case found of
       Some existing \<Rightarrow>
         (if rc_old_root_name existing \<noteq> rc_old_root_name record \<or> rc_old_home_name existing \<noteq> rc_old_home_name record
          then io_throw (RootCleanupError_new ''Existing root cleanup record targets different protected subvolumes'')
          else io_return existing)
     | None \<Rightarrow> io_bind (cleanup_write_atomic U J d record) (\<lambda>_. io_return record)))"

definition cleanup_update ::
  "uuid_lib \<Rightarrow> cleanup_json \<Rightarrow> path \<Rightarrow> RootCleanupRecord \<Rightarrow> (RootCleanupError, unit) io" where
  "cleanup_update U J d r =
     io_bind (io_lift (RootCleanupRecord_validate U r)) (\<lambda>_.
     io_bind (cleanup_load U J d (rc_transaction_id r)) (\<lambda>found.
     if found = None
     then io_throw (RootCleanupError_new ''Root cleanup record disappeared before it could be updated'')
     else cleanup_write_atomic U J d r))"

definition cleanup_remove :: "uuid_lib \<Rightarrow> path \<Rightarrow> uuid \<Rightarrow> (RootCleanupError, unit) io" where
  "cleanup_remove U d i =
     (let target = cleanup_record_path U d i in
      io_match (symlink_metadata target) (\<lambda>r.
        case r of
          Inl e \<Rightarrow>
            (if err_kind e = NotFound then io_return ()
             else io_throw (cleanup_io_error ''Could not inspect root cleanup record'' e))
        | Inr metadata \<Rightarrow>
            (if regular_content metadata = None
             then io_throw (RootCleanupError_new ''Root cleanup target is not a regular file'')
             else io_map_err (cleanup_io_error ''Could not remove root cleanup record'')
                    (io_bind (remove_file target) (\<lambda>_. sync_directory d)))))"

definition cleanup_entry_id :: "uuid_lib \<Rightarrow> string \<Rightarrow> RootCleanupError + uuid" where
  "cleanup_entry_id U name =
     (if \<not> utf8_valid name then Inl (RootCleanupError_new ''Root cleanup record has a non-UTF-8 name'')
      else case strip_suffix ''.json'' name of
        None \<Rightarrow> Inl (RootCleanupError_new ''Root cleanup directory contains an unexpected entry'')
      | Some stem \<Rightarrow>
          (case parse_str U stem of
             None \<Rightarrow> Inl (RootCleanupError_new ''Root cleanup filename is not a UUID'')
           | Some i \<Rightarrow> Inr i))"

fun list_entries ::
  "uuid_lib \<Rightarrow> cleanup_json \<Rightarrow> path \<Rightarrow> string list \<Rightarrow> RootCleanupRecord list \<Rightarrow>
   (RootCleanupError, RootCleanupRecord list) io" where
  "list_entries U J d [] records = io_return records"
| "list_entries U J d (name # names) records =
     io_bind (io_map_err (cleanup_io_error ''Could not read root cleanup entry'') (next_entry name)) (\<lambda>name.
     if MAX_CLEANUP_RECORDS \<le> length records
     then io_throw (RootCleanupError_new ''Root cleanup record count exceeds the safety limit'')
     else
       io_bind (io_lift (cleanup_entry_id U name)) (\<lambda>i.
       io_bind (cleanup_load U J d i) (\<lambda>found.
       case found of
         None \<Rightarrow> io_throw (RootCleanupError_new ''Root cleanup record disappeared while listing it'')
       | Some record \<Rightarrow> list_entries U J d names (records @ [record]))))"

definition cleanup_list ::
  "uuid_lib \<Rightarrow> cleanup_json \<Rightarrow> path \<Rightarrow> (RootCleanupError, RootCleanupRecord list) io" where
  "cleanup_list U J d =
     io_match (symlink_metadata d) (\<lambda>r.
       case r of
         Inl e \<Rightarrow>
           (if err_kind e = NotFound then io_return []
            else io_throw (cleanup_io_error ''Could not inspect root cleanup directory'' e))
       | Inr metadata \<Rightarrow>
           (if ftype metadata \<noteq> Directory
            then io_throw (RootCleanupError_new ''Root cleanup path is not a real directory'')
            else
              io_bind (io_map_err (cleanup_io_error ''Could not list root cleanup records'') (read_dir d)) (\<lambda>names.
              io_bind (list_entries U J d names []) (\<lambda>records.
              io_return (sort_key rc_created_at records)))))"


subsection \<open>Diagnostics\<close>

lemma diagnostic_character_chunk: "chunk c \<Longrightarrow> chunk (diagnostic_character c)"
  by (auto simp: diagnostic_character_def chunk_def replacement_character_def is_continuation_def)

lemma diagnostic_character_leads: "leads c \<Longrightarrow> leads (diagnostic_character c)"
  by (auto simp: diagnostic_character_def leads_def replacement_character_def is_continuation_def)

lemma diagnostic_character_not_control [simp]: "\<not> char_is_control (diagnostic_character c)"
  by (simp add: diagnostic_character_def char_is_control_def replacement_character_def)

lemma take_bounded_prefix:
  "\<exists>n. take_bounded limit s cs = s @ concat (take n (map diagnostic_character cs))"
proof (induction limit s cs rule: take_bounded.induct)
  case (1 limit result)
  then show ?case by simp
next
  case (2 limit result c cs)
  show ?case
  proof (cases "limit < length result + length (diagnostic_character c)")
    case True
    then show ?thesis by (intro exI [of _ 0]) (simp add: Let_def)
  next
    case False
    with 2 obtain n where "take_bounded limit (result @ diagnostic_character c) cs
        = (result @ diagnostic_character c) @ concat (take n (map diagnostic_character cs))"
      by (auto simp: Let_def)
    with False show ?thesis by (intro exI [of _ "Suc n"]) (simp add: Let_def)
  qed
qed

lemma take_bounded_length: "length s \<le> limit \<Longrightarrow> length (take_bounded limit s cs) \<le> limit"
  by (induction limit s cs rule: take_bounded.induct) (auto simp: Let_def)

lemma chars_diagnostic:
  "chars (concat (take n (map diagnostic_character (chars s)))) = take n (map diagnostic_character (chars s))"
proof (rule chars_concat)
  show "\<forall>c \<in> set (take n (map diagnostic_character (chars s))). chunk c"
    by (fastforce dest: in_set_takeD intro: diagnostic_character_chunk chars_chunks)
  show "\<forall>c \<in> set (tl (take n (map diagnostic_character (chars s)))). leads c"
  proof
    fix c
    assume "c \<in> set (tl (take n (map diagnostic_character (chars s))))"
    then obtain d where "c = diagnostic_character d" and "d \<in> set (tl (chars s))"
      by (cases n; cases "chars s") (auto dest!: in_set_takeD)
    then show "leads c" by (simp add: diagnostic_character_leads chars_tl_leads)
  qed
qed

lemma bounded_diagnostic_clean:
  "bounded_diagnostic s \<noteq> []" "length (bounded_diagnostic s) \<le> MAX_DIAGNOSTIC_BYTES"
  "c \<in> set (chars (bounded_diagnostic s)) \<Longrightarrow> \<not> char_is_control c"
proof -
  let ?r = "take_bounded MAX_DIAGNOSTIC_BYTES [] (chars (str_trim s))"
  obtain n where r: "?r = concat (take n (map diagnostic_character (chars (str_trim s))))"
    using take_bounded_prefix [of MAX_DIAGNOSTIC_BYTES "[]"] by fastforce
  show "bounded_diagnostic s \<noteq> []" by (simp add: bounded_diagnostic_def Let_def)
  show "length (bounded_diagnostic s) \<le> MAX_DIAGNOSTIC_BYTES"
    using take_bounded_length [of "[]" MAX_DIAGNOSTIC_BYTES]
    by (simp add: bounded_diagnostic_def Let_def) (simp add: MAX_DIAGNOSTIC_BYTES_def)
  have default: "\<forall>c \<in> set (chars ''No diagnostic was provided''). \<not> char_is_control c"
    by code_simp
  have "\<forall>c \<in> set (chars ?r). \<not> char_is_control c"
    unfolding r chars_diagnostic by (auto dest!: in_set_takeD)
  moreover have "bounded_diagnostic s = ?r \<or> bounded_diagnostic s = ''No diagnostic was provided''"
    unfolding bounded_diagnostic_def Let_def by (cases "?r = []") (simp_all only: if_True if_False simp_thms)
  ultimately show "c \<in> set (chars (bounded_diagnostic s)) \<Longrightarrow> \<not> char_is_control c"
    using default by (elim disjE) (simp_all only:, blast+)
qed

lemma bounded_diagnostic_accepted [simp]: "\<not> bad_diagnostic (bounded_diagnostic s)"
  using bounded_diagnostic_clean [of s] bounded_diagnostic_clean(3) [of _ s]
  by (auto simp: bad_diagnostic_def list_ex_iff)


subsection \<open>Frames\<close>

text \<open>What writing one record may touch: the directory itself, the record and its temporaries.\<close>

definition cleanup_paths :: "uuid_lib \<Rightarrow> path \<Rightarrow> uuid \<Rightarrow> path set" where
  "cleanup_paths U d i = insert d (under (cleanup_record_path U d i) \<union> (\<Union>u. under (cleanup_temporary U d i u)))"

lemma touches_cleanup_ensure_directory [io_rules]: "p \<in> S \<Longrightarrow> touches S (cleanup_ensure_directory p)"
  unfolding cleanup_ensure_directory_def by (intro io_rules)

lemma touches_cleanup_load [io_rules]: "touches S (cleanup_load U J d i)"
  unfolding cleanup_load_def Let_def by (intro io_rules)

lemma touches_cleanup_write_atomic [io_rules]:
  "touches (cleanup_paths U d (rc_transaction_id r)) (cleanup_write_atomic U J d r)"
  unfolding cleanup_write_atomic_def Let_def
  by (intro io_rules) (auto simp: cleanup_paths_def under_def)

lemma cleanup_temporary_apart: "apart (cleanup_temporary U d i u) (cleanup_record_path U d j)"
  using json_name_distinct(1) [of "hyphenated U j" "''.'' @ hyphenated U i @ ''.'' @ hyphenated U u"]
  unfolding cleanup_temporary_def cleanup_record_path_def apart_siblings append_assoc by (rule not_sym)

lemma cleanup_record_path_outside:
  assumes "cleanup_record_path U d j \<noteq> cleanup_record_path U d i"
  shows "cleanup_record_path U d j \<notin> cleanup_paths U d i"
proof -
  have "apart (cleanup_record_path U d i) (cleanup_record_path U d j)"
    using assms by (auto simp: cleanup_record_path_def)
  moreover have "cleanup_record_path U d j \<noteq> d" by (simp add: cleanup_record_path_def)
  ultimately show ?thesis
    using cleanup_temporary_apart by (auto simp: cleanup_paths_def under_def apart_def)
qed

lemma cleanup_paths_under: "cleanup_paths U d i \<subseteq> under d"
  by (auto simp: cleanup_paths_def under_def cleanup_record_path_def cleanup_temporary_def prefix_def)

subsection \<open>The contract\<close>

definition cleanup_image :: "uuid_lib \<Rightarrow> cleanup_json \<Rightarrow> RootCleanupRecord \<Rightarrow> bytes \<Rightarrow> bool" where
  "cleanup_image U J r b \<longleftrightarrow>
     RootCleanupRecord_validate U r = Inr () \<and> (\<exists>s. cj_print J r = Inr s \<and> b = s @ newline)"

lemma triple_cleanup_write_atomic:
  "io_triple (\<lambda>w. map_of (nodes w) (cleanup_record_path U d (rc_transaction_id r)) = i)
    (cleanup_write_atomic U J d r)
    (\<lambda>_ w. slot_holds (cleanup_image U J r) (map_of (nodes w) (cleanup_record_path U d (rc_transaction_id r))))
    (\<lambda>_ w. map_of (nodes w) (cleanup_record_path U d (rc_transaction_id r)) = i
       \<or> slot_holds (cleanup_image U J r) (map_of (nodes w) (cleanup_record_path U d (rc_transaction_id r))))"
proof -
  let ?target = "cleanup_record_path U d (rc_transaction_id r)"
  let ?P = "\<lambda>w. map_of (nodes w) ?target = i"
  let ?E = "\<lambda>_ w. ?P w \<or> slot_holds (cleanup_image U J r) (map_of (nodes w) ?target)"
  have directory: "io_triple ?P (cleanup_ensure_directory d) (\<lambda>_. ?P) ?E"
    by (rule triple_weaken [OF triple_unchanged [where S = "{d}"]])
      (auto simp: cleanup_record_path_def intro: io_rules)
  have inspect: "io_triple ?P (symlink_metadata ?target) (\<lambda>_. ?P) (\<lambda>_. ?P)"
    by (rule triple_query) (auto intro: io_rules)
  have new: "io_triple ?P new_v4 (\<lambda>_. ?P) ?E"
    by (rule triple_weaken [OF triple_query]) (auto intro: io_rules)
  have image: "cleanup_image U J r (s @ newline)"
    if "RootCleanupRecord_validate U r = Inr u" "cleanup_serialize J r = Inr s" for u s
    using that by (auto simp: cleanup_image_def cleanup_serialize_def split: sum.splits)
  note commit = triple_commit_closure_atomic [OF cleanup_temporary_apart, where I = "cleanup_image U J r"]
  show ?thesis
    unfolding cleanup_write_atomic_def Let_def
    by (rule triple_lift, rule triple_bind [OF directory], rule triple_lift, rule triple_match [OF inspect];
        (rule triple_if, rule triple_throw, blast, rule triple_bind [OF new], rule commit, rule image)?) auto
qed

interpretation cleanup: durable_store d "\<lambda>r. cleanup_record_path U d (rc_transaction_id r)"
    "cleanup_write_atomic U J d" "cleanup_image U J"
  for U J d
proof
  show "touches (under d) (cleanup_write_atomic U J d r)" for r
    by (rule touches_mono [OF touches_cleanup_write_atomic cleanup_paths_under])
  let ?slot = "\<lambda>r. cleanup_record_path U d (rc_transaction_id r)"
  show "map_of (nodes w') (?slot r') = map_of (nodes w) (?slot r')"
    if "?slot r' \<noteq> ?slot r" "cleanup_write_atomic U J d r w = (x, w')" for r r' w x w'
    by (rule touchesD [OF touches_cleanup_write_atomic that(2) cleanup_record_path_outside [OF that(1)]])
  note triple = triple_cleanup_write_atomic [where i = "map_of (nodes w) (?slot r)" for w r]
  show "slot_holds (cleanup_image U J r) (map_of (nodes w') (?slot r))"
    if "cleanup_write_atomic U J d r w = (Inr (), w')" for r w w'
    using io_tripleD_ok [OF triple refl that] .
  show "map_of (nodes w') (?slot r) = map_of (nodes w) (?slot r)
      \<or> slot_holds (cleanup_image U J r) (map_of (nodes w') (?slot r))"
    if "cleanup_write_atomic U J d r w = (Inl e, w')" for r w e w'
    using io_tripleD_err [OF triple refl that] .
qed

subsection \<open>Listing\<close>

text \<open>A directory entry that is not a record stops the listing, in whichever order the entries come.\<close>

lemma list_entries_refuses:
  assumes "name \<in> set names" and "isl (cleanup_entry_id U name)"
  shows "isl (fst (list_entries U J d names records w))"
  using assms(1)
proof (induction names arbitrary: records w)
  case (Cons n names)
  obtain e where e: "cleanup_entry_id U name = Inl e" using assms(2) by (cases "cleanup_entry_id U name") auto
  from Cons e show ?case
    by (auto simp: io_bind_def io_map_err_def io_match_def io_throw_def io_return_def io_lift_def next_entry_def
        syscall_def split: sum.splits option.splits prod.splits if_splits)
qed simp

lemma entry_without_suffix_refused: "strip_suffix ''.json'' name = None \<Longrightarrow> isl (cleanup_entry_id U name)"
  by (simp add: cleanup_entry_id_def)

lemma temporary_entry_refused: "isl (cleanup_entry_id U (n @ ''.tmp''))"
proof (rule entry_without_suffix_refused, rule ccontr)
  assume "strip_suffix ''.json'' (n @ ''.tmp'') \<noteq> None"
  then obtain r where "n @ ''.tmp'' = r @ ''.json''" by (auto simp only: strip_suffix_iff not_None_eq)
  with json_name_distinct(1) [of r n] show False by (simp only:)
qed

lemma cleanup_list_refuses:
  assumes "map_of (nodes w) (d @ [name]) \<noteq> None" and "isl (cleanup_entry_id U name)"
    and "map_of (nodes w) d = Some i" and "ftype i = Directory"
  shows "isl (fst (cleanup_list U J d w))"
proof -
  have "isl (fst (list_entries U J d (fs_children (nodes w) d) [] w'))" for w'
    by (rule list_entries_refuses [OF fs_children_in [OF assms(1)] assms(2)])
  then have "\<exists>e w''. list_entries U J d (fs_children (nodes w) d) [] w' = (Inl e, w'')" for w'
    by (metis isl_def prod.collapse)
  then show ?thesis
    using assms(3,4)
    by (auto simp: cleanup_list_def io_bind_def io_map_err_def io_match_def io_throw_def io_return_def
        symlink_metadata_def read_dir_def syscall_def fs_is_dir_def tick_def
        split: sum.splits option.splits prod.splits) (metis Inl_Inr_False prod.inject)+
qed

lemma cleanup_temporary_name: "\<exists>n. cleanup_temporary U d i u = d @ [n @ ''.tmp'']"
  unfolding cleanup_temporary_def by (intro exI [of _ "''.'' @ hyphenated U i @ ''.'' @ hyphenated U u"]) simp

subsection \<open>Properties\<close>

text \<open>
  Deferring a cleanup always leaves a storable record: for a valid record, a list of at
  most 256 safe paths and any diagnostic text whatsoever, the updated record validates, its
  attempt counter is the old one plus one but saturates at the largest 32-bit value instead of
  wrapping, its identity and creation time are kept, and the stored diagnostic is non-empty, at
  most 4096 bytes and free of control characters.
\<close>

theorem deferred_record_valid:
  assumes "RootCleanupRecord_validate U r = Inr ()" and "length blocked \<le> MAX_BLOCKED_SUBVOLUMES"
    and "list_all safe_relative_path blocked"
  shows "\<exists>r' w' m. record_deferred U blocked diagnostic r w = (Inr (r', Inr ()), w')
    \<and> unat (rc_attempts r') = min (unat (rc_attempts r) + 1) (2 ^ 32 - 1)
    \<and> rc_transaction_id r' = rc_transaction_id r \<and> rc_created_at r' = rc_created_at r
    \<and> rc_last_error r' = Some m \<and> 0 < length m \<and> length m \<le> 4096 \<and> \<not> list_ex char_is_control (chars m)"
proof -
  have attempts: "unat (saturating_succ n) = min (unat n + 1) (2 ^ 32 - 1)" for n
    using unsigned_less [of n, where ?'a = nat] by (auto simp: saturating_succ_def unat_word_ariths min_def)
  show ?thesis
    using assms bounded_diagnostic_clean [of diagnostic] bounded_diagnostic_clean(3) [of _ diagnostic]
    by (auto simp: record_deferred_def io_bind_def io_return_def utc_now_def attempts
        RootCleanupRecord_validate_def list_ex_iff list_all_iff MAX_DIAGNOSTIC_BYTES_def)
qed

text \<open>
  C35. A record write that is interrupted after it has created its temporary file stops the
  cleanup queue: whatever the write returned, when the temporary file is still there, every
  later listing fails, under every fault schedule, clock and source of randomness, because the
  directory entry is not a record. Nothing in the store removes the left-over file.
\<close>

theorem interrupted_write_blocks_listing:
  assumes "cleanup_write_atomic U J d r w = (x, w')"
    and "map_of (nodes w') (cleanup_temporary U d (rc_transaction_id r) u) \<noteq> None"
    and "map_of (nodes w') d = Some i" and "ftype i = Directory"
  shows "isl (fst (cleanup_list U J d (w'\<lparr>fault := f, clock := c, entropy := e\<rparr>)))"
proof -
  obtain n where n: "cleanup_temporary U d (rc_transaction_id r) u = d @ [n @ ''.tmp'']"
    using cleanup_temporary_name by blast
  show ?thesis
    by (rule cleanup_list_refuses [OF _ temporary_entry_refused _ assms(4), of _ _ n])
      (use assms(2,3) n in simp_all)
qed

text \<open>
  C36. A record that the store reports as written reads back exactly when its JSON text is
  shorter than the limit of one MiB: the reader counts the final newline and refuses larger
  files, while the writer checks no size.
\<close>

theorem cleanup_write_readable:
  assumes "cleanup_write_atomic U J d r w = (Inr (), w')"
    and "cj_print J r = Inr s" and "cj_parse J (s @ newline) = Inr r"
  shows "fst (cleanup_load U J d (rc_transaction_id r) (w'\<lparr>fault := (\<lambda>_. None)\<rparr>))
    = (if length s < MAX_CLEANUP_BYTES then Inr (Some r)
       else Inl (RootCleanupError_new ''Root cleanup record exceeds the safety limit''))"
proof -
  let ?w = "w'\<lparr>fault := (\<lambda>_. None)\<rparr>"
  let ?p = "cleanup_record_path U d (rc_transaction_id r)"
  have free: "fault_free ?w" by (simp add: fault_free_def)
  have valid: "RootCleanupRecord_validate U r = Inr ()"
    and holds: "slot_holds (\<lambda>b. b = s @ newline) (map_of (nodes ?w) ?p)"
    using cleanup.put_ok [OF assms(1)] assms(2) by (auto simp: slot_holds_def cleanup_image_def)
  then obtain i where i: "map_of (nodes ?w) ?p = Some i" "ftype i = Regular (s @ newline)"
    by (auto simp: slot_holds_def)
  show ?thesis
    using free i valid assms(3)
    by (simp add: cleanup_load_def Let_def io_exec regular_content_def)
       (simp add: newline_def)
qed

subsection \<open>Witnesses\<close>

definition example_cleanup :: RootCleanupRecord where
  "example_cleanup =
     \<lparr>rc_schema_version = 1, rc_transaction_id = 3, rc_old_root_name = ''@root.snapshots-manager-old-'' @ hyphenated example_uuid_lib 3,
      rc_old_home_name = None, rc_created_at = 5, rc_updated_at = 5, rc_attempts = 4294967295,
      rc_blocked_subvolumes = [], rc_last_error = None\<rparr>"

definition example_cleanup_json :: cleanup_json where
  "example_cleanup_json =
     \<lparr>cj_parse = (\<lambda>b. if b = ''C'' @ newline then Inr example_cleanup else Inl ''syntax''), cj_print = (\<lambda>_. Inr ''C'')\<rparr>"

text \<open>A world with the cleanup directory, in which every call from the given one on fails.\<close>

definition example_cleanup_world :: "nat \<Rightarrow> world" where
  "example_cleanup_world limit =
     \<lparr>nodes = [([''c''], \<lparr>ftype = Directory, mode = 0x1C0, uid = 0, gid = 0\<rparr>)],
      ticks = 0, fault = (\<lambda>n. if limit \<le> n then Some (''power loss'', 0) else None), clock = (\<lambda>_. 7), entropy = (\<lambda>_. 1)\<rparr>"

lemma example_cleanup_valid: "RootCleanupRecord_validate example_uuid_lib example_cleanup = Inr ()"
  by code_simp

theorem deferred_record_valid_witness:
  "\<exists>r' w' m. record_deferred example_uuid_lib [''var/lib/machines''] ''not empty'' example_cleanup
       (example_cleanup_world 9) = (Inr (r', Inr ()), w')
    \<and> unat (rc_attempts r') = 4294967295 \<and> rc_last_error r' = Some m \<and> length m \<le> 4096"
proof -
  have "length [''var/lib/machines''] \<le> MAX_BLOCKED_SUBVOLUMES" by (simp add: MAX_BLOCKED_SUBVOLUMES_def)
  moreover have "list_all safe_relative_path [''var/lib/machines'']" by code_simp
  ultimately show ?thesis
    using deferred_record_valid [OF example_cleanup_valid, of "[''var/lib/machines'']" "''not empty''"
        "example_cleanup_world 9"]
    by (auto simp: example_cleanup_def)
qed

theorem interrupted_write_blocks_listing_witness:
  "isl (fst (cleanup_list example_uuid_lib example_cleanup_json [''c'']
     ((snd (cleanup_write_atomic example_uuid_lib example_cleanup_json [''c''] example_cleanup (example_cleanup_world 4)))
        \<lparr>fault := (\<lambda>_. None), clock := (\<lambda>_. 8), entropy := (\<lambda>_. 2)\<rparr>)))"
proof -
  let ?run = "cleanup_write_atomic example_uuid_lib example_cleanup_json [''c''] example_cleanup (example_cleanup_world 4)"
  have "map_of (nodes (snd ?run)) (cleanup_temporary example_uuid_lib [''c''] (rc_transaction_id example_cleanup) 1) \<noteq> None"
    by code_simp
  moreover have "map_of (nodes (snd ?run)) [''c''] = Some \<lparr>ftype = Directory, mode = 0x1C0, uid = 0, gid = 0\<rparr>"
    by code_simp
  ultimately show ?thesis
    using interrupted_write_blocks_listing [OF prod.collapse [symmetric]] by simp
qed

theorem cleanup_write_readable_witness:
  "fst (cleanup_load example_uuid_lib example_cleanup_json [''c''] 3
     ((snd (cleanup_write_atomic example_uuid_lib example_cleanup_json [''c''] example_cleanup (example_cleanup_world 40)))
        \<lparr>fault := (\<lambda>_. None)\<rparr>)) = Inr (Some example_cleanup)"
proof -
  let ?run = "cleanup_write_atomic example_uuid_lib example_cleanup_json [''c''] example_cleanup (example_cleanup_world 40)"
  have "fst ?run = Inr ()" by code_simp
  then have "?run = (Inr (), snd ?run)" by (metis prod.collapse)
  from cleanup_write_readable [OF this, of "''C''"] show ?thesis
    by (simp add: example_cleanup_json_def MAX_CLEANUP_BYTES_def example_cleanup_def)
qed

end
