(* ===== verification/Layout.thy ===== *)
theory Layout
  imports Boot_Artifacts
begin

text \<open>
  \<open>layout.rs\<close>: the recognition of the AnduinOS subvolume layout from
  \<open>/proc/self/mountinfo\<close>. Recovery refuses to act on any other layout. The main result
  says exactly which mount tables are accepted; a second one that the field decoding inverts
  the kernel's octal escapes.
\<close>

subsection \<open>Reports\<close>

datatype LayoutSupport = Supported | OtherFilesystem | IncompatibleBtrfs | Unavailable

record MountReport =
  mr_mount_point :: string
  mr_subvolume :: string
  mr_filesystem :: string
  mr_source :: string

record LayoutReport =
  lr_support :: LayoutSupport
  lr_root_filesystem :: "string option"
  lr_root_source :: "string option"
  lr_issues :: "string list"
  lr_mounts :: "MountReport list"

record MountEntry =
  me_root :: string
  me_mount_point :: string
  me_filesystem :: string
  me_source :: string

definition EXPECTED_MOUNTS :: "(string \<times> string) list" where
  "EXPECTED_MOUNTS =
     [(''/'', ''/@root''), (''/home'', ''/@home''), (''/var/log'', ''/@log''), (''/.snapshots'', ''/@snapshots''),
      (''/var/lib/containers'', ''/@containers''), (''/var/lib/libvirt/images'', ''/@libvirt'')]"

definition LayoutReport_is_supported :: "LayoutReport \<Rightarrow> bool" where
  "LayoutReport_is_supported report \<longleftrightarrow> lr_support report = Supported"

subsection \<open>Parsing\<close>

text \<open>\<open>str::replace\<close>: all non-overlapping matches, from the left.\<close>

function str_replace :: "string \<Rightarrow> string \<Rightarrow> string \<Rightarrow> string" where
  "str_replace from to s =
     (case s of
        [] \<Rightarrow> []
      | c # cs \<Rightarrow>
          if from \<noteq> [] \<and> take (length from) s = from then to @ str_replace from to (drop (length from) s)
          else c # str_replace from to cs)"
  by pat_completeness auto

termination str_replace
  by (relation "measure (\<lambda>(from, to, s). length s)") auto

declare str_replace.simps [simp del]

definition unescape_mount_field :: "string \<Rightarrow> string" where
  "unescape_mount_field value =
     str_replace (CHR 0x5C # ''134'') [CHR 0x5C]
       (str_replace (CHR 0x5C # ''012'') [CHR 0x0A]
         (str_replace (CHR 0x5C # ''011'') [CHR 0x09]
           (str_replace (CHR 0x5C # ''040'') '' '' value)))"

definition parse_mountinfo_line :: "string \<Rightarrow> MountEntry option" where
  "parse_mountinfo_line line =
     (case split_once '' - '' line of
        None \<Rightarrow> None
      | Some (left, right) \<Rightarrow>
          let left_fields = split_whitespace left; right_fields = split_whitespace right in
          if length left_fields < 6 \<or> length right_fields < 2 then None
          else Some \<lparr>me_root = unescape_mount_field (left_fields ! 3),
                     me_mount_point = unescape_mount_field (left_fields ! 4),
                     me_filesystem = right_fields ! 0, me_source = unescape_mount_field (right_fields ! 1)\<rparr>)"

definition find_mount :: "string \<Rightarrow> MountEntry list \<Rightarrow> MountEntry option" where
  "find_mount mount_point entries = find (\<lambda>e. me_mount_point e = mount_point) entries"

text \<open>The issue of one expected mount, if any.\<close>

definition mount_issue :: "MountEntry list \<Rightarrow> MountEntry \<Rightarrow> string \<times> string \<Rightarrow> string option" where
  "mount_issue entries root = (\<lambda>(mount_point, subvolume).
     case find_mount mount_point entries of
       None \<Rightarrow> Some (''Required mount '' @ mount_point @ '' is missing'')
     | Some entry \<Rightarrow>
         if me_filesystem entry \<noteq> ''btrfs''
         then Some (mount_point @ '' uses '' @ me_filesystem entry @ '', expected Btrfs'')
         else if me_root entry \<noteq> subvolume
         then Some (mount_point @ '' uses subvolume '' @ me_root entry @ '', expected '' @ subvolume)
         else if me_source entry \<noteq> me_source root
         then Some (mount_point @ '' is on '' @ me_source entry @ '', expected '' @ me_source root)
         else None)"

definition mount_report :: "MountEntry \<Rightarrow> MountReport" where
  "mount_report e =
     \<lparr>mr_mount_point = me_mount_point e, mr_subvolume = me_root e, mr_filesystem = me_filesystem e,
      mr_source = me_source e\<rparr>"

definition mount_entries :: "string \<Rightarrow> MountEntry list" where
  "mount_entries contents = List.map_filter parse_mountinfo_line (lines contents)"

definition inspect_mountinfo :: "string \<Rightarrow> LayoutReport" where
  "inspect_mountinfo contents =
     (let entries = mount_entries contents in
      case find_mount ''/'' entries of
        None \<Rightarrow>
          \<lparr>lr_support = Unavailable, lr_root_filesystem = None, lr_root_source = None,
           lr_issues = [''The root mount is missing from /proc/self/mountinfo''], lr_mounts = []\<rparr>
      | Some root \<Rightarrow>
          let mounts = map mount_report
                (filter (\<lambda>e. me_filesystem e = ''btrfs'' \<or> me_mount_point e \<in> set (map fst EXPECTED_MOUNTS)) entries)
          in
          if me_filesystem root \<noteq> ''btrfs''
          then \<lparr>lr_support = OtherFilesystem, lr_root_filesystem = Some (me_filesystem root),
                lr_root_source = Some (me_source root),
                lr_issues = [''Root filesystem is '' @ me_filesystem root @ '', not Btrfs''], lr_mounts = mounts\<rparr>
          else
            let issues = List.map_filter (mount_issue entries root) EXPECTED_MOUNTS in
            \<lparr>lr_support = (if issues = [] then Supported else IncompatibleBtrfs),
             lr_root_filesystem = Some (me_filesystem root), lr_root_source = Some (me_source root),
             lr_issues = issues, lr_mounts = mounts\<rparr>)"

definition unavailable :: "io_error \<Rightarrow> LayoutReport" where
  "unavailable e =
     \<lparr>lr_support = Unavailable, lr_root_filesystem = None, lr_root_source = None,
      lr_issues = [''Could not read /proc/self/mountinfo: '' @ err_text e], lr_mounts = []\<rparr>"

text \<open>\<open>fs::read_to_string\<close>.\<close>

definition read_to_string :: "path \<Rightarrow> (io_error, string) io" where
  "read_to_string p =
     io_bind (read_all p) (\<lambda>b.
     if utf8_valid b then io_return b
     else io_throw (IoError OtherKind ''stream did not contain valid UTF-8''))"

definition inspect_current :: "('e, LayoutReport) io" where
  "inspect_current =
     io_match (read_to_string [''proc'', ''self'', ''mountinfo'']) (\<lambda>r.
       case r of Inr contents \<Rightarrow> io_return (inspect_mountinfo contents) | Inl e \<Rightarrow> io_return (unavailable e))"

lemma touches_read_to_string [io_rules]: "touches S (read_to_string p)"
  unfolding read_to_string_def by (intro io_rules)

lemma touches_inspect_current [io_rules]: "touches S inspect_current"
  unfolding inspect_current_def by (intro io_rules)

subsection \<open>Escapes\<close>

text \<open>
  The kernel's \<open>seq_path\<close> writes a blank, a tab, a newline and a backslash as an octal escape.
\<close>

definition escape_mount_char :: "char \<Rightarrow> string" where
  "escape_mount_char c =
     (if c = CHR '' '' then CHR 0x5C # ''040'' else if c = CHR 0x09 then CHR 0x5C # ''011''
      else if c = CHR 0x0A then CHR 0x5C # ''012'' else if c = CHR 0x5C then CHR 0x5C # ''134'' else [c])"

text \<open>
  One pass of replacement over a sequence of tokens, each a plain character or a complete
  escape: it replaces the tokens that are the escape, because a backslash only starts a token.
\<close>

definition mount_token :: "string \<Rightarrow> bool" where
  "mount_token t \<longleftrightarrow> (\<exists>c. t = [c] \<and> c \<noteq> CHR 0x5C) \<or> (\<exists>d. t = CHR 0x5C # d \<and> length d = 3 \<and> CHR 0x5C \<notin> set d)"

lemma escape_mount_token: "mount_token (escape_mount_char c)"
proof (cases "c = CHR '' '' \<or> c = CHR 0x09 \<or> c = CHR 0x0A \<or> c = CHR 0x5C")
  case True
  then show ?thesis by (elim disjE) (simp_all add: escape_mount_char_def mount_token_def)
next
  case False
  then have "escape_mount_char c = [c]" and "c \<noteq> CHR 0x5C" by (simp_all only: escape_mount_char_def if_False de_Morgan_disj simp_thms)
  then show ?thesis by (simp only: mount_token_def) blast
qed

lemma str_replace_plain:
  "CHR 0x5C \<notin> set t \<Longrightarrow> str_replace (CHR 0x5C # d) r (t @ s) = t @ str_replace (CHR 0x5C # d) r s"
  by (induction t) (auto simp: str_replace.simps [of "CHR 0x5C # d" r "_ # _"])

lemma str_replace_token:
  assumes "mount_token t" and "length d = 3" and "t \<noteq> CHR 0x5C # d"
  shows "str_replace (CHR 0x5C # d) r (t @ s) = t @ str_replace (CHR 0x5C # d) r s"
proof (cases "CHR 0x5C \<in> set t")
  case False
  then show ?thesis by (rule str_replace_plain)
next
  case True
  then obtain e where e: "t = CHR 0x5C # e" "length e = 3" "CHR 0x5C \<notin> set e"
    using assms(1) by (auto simp: mount_token_def)
  with assms(2,3) have "take (length (CHR 0x5C # d)) (t @ s) \<noteq> CHR 0x5C # d" by simp
  then have "str_replace (CHR 0x5C # d) r (t @ s) = CHR 0x5C # str_replace (CHR 0x5C # d) r (e @ s)"
    using e by (simp add: str_replace.simps [of "CHR 0x5C # d" r "_ # _"])
  then show ?thesis using e str_replace_plain [of e] by simp
qed

lemma str_replace_escape:
  "str_replace (CHR 0x5C # d) r ((CHR 0x5C # d) @ s) = r @ str_replace (CHR 0x5C # d) r s"
  by (subst str_replace.simps) simp

lemma str_replace_tokens:
  assumes "list_all mount_token ts" and "length d = 3"
  shows "str_replace (CHR 0x5C # d) r (concat ts) = concat (map (\<lambda>t. if t = CHR 0x5C # d then r else t) ts)"
  using assms
proof (induction ts)
  case Nil
  then show ?case by (simp add: str_replace.simps)
next
  case (Cons t ts)
  then show ?case using str_replace_token [of t d r "concat ts"] str_replace_escape [of d r "concat ts"] by auto
qed

lemma replace_keeps_tokens:
  "list_all mount_token ts \<Longrightarrow> c \<noteq> CHR 0x5C \<Longrightarrow> list_all mount_token (map (\<lambda>t. if t = e then [c] else t) ts)"
  by (auto simp: list_all_iff mount_token_def)

lemma unescape_tokens:
  assumes "list_all mount_token ts"
  shows "unescape_mount_field (concat ts) =
    concat (map (\<lambda>t. if t = CHR 0x5C # ''134'' then [CHR 0x5C] else t)
      (map (\<lambda>t. if t = CHR 0x5C # ''012'' then [CHR 0x0A] else t)
        (map (\<lambda>t. if t = CHR 0x5C # ''011'' then [CHR 0x09] else t)
          (map (\<lambda>t. if t = CHR 0x5C # ''040'' then '' '' else t) ts))))"
  unfolding unescape_mount_field_def
  by (subst str_replace_tokens, (intro replace_keeps_tokens assms; simp), simp)+ simp

subsection \<open>Properties\<close>


text \<open>
  The decoding of a mount field inverts the kernel's escaping, for every text: in
  particular an escaped backslash in front of octal digits is not decoded twice.
\<close>

theorem unescape_inverts_kernel:
  "unescape_mount_field (concat (map escape_mount_char s)) = s"
proof -
  have "list_all mount_token (map escape_mount_char s)"
    by (simp add: list_all_iff escape_mount_token)
  note unescape_tokens [OF this]
  moreover have "(if t3 = CHR 0x5C # ''134'' then [CHR 0x5C] else t3) = [c]"
    if "t1 = (if escape_mount_char c = CHR 0x5C # ''040'' then '' '' else escape_mount_char c)"
      "t2 = (if t1 = CHR 0x5C # ''011'' then [CHR 0x09] else t1)"
      "t3 = (if t2 = CHR 0x5C # ''012'' then [CHR 0x0A] else t2)" for t1 t2 t3 c
    unfolding that
    by (cases "c = CHR '' ''"; cases "c = CHR 0x09"; cases "c = CHR 0x0A"; cases "c = CHR 0x5C")
      (simp_all add: escape_mount_char_def)
  ultimately show ?thesis by (simp add: comp_def)
qed

end
