(* ===== verification/Boot_Integration.thy ===== *)
theory Boot_Integration
  imports Layout Deployment_Store Transaction_Store Recovery_Filesystem
begin

text \<open>
  \<open>BootIntegration\<close> of \<open>boot.rs\<close>: the external GRUB environment, the one-shot recovery
  selection, the provisioning of the recovery kernel, initramfs and confirmation engine, and
  the GRUB menu entry of a pending rollback. The tools it runs (\<open>grub-editenv\<close>,
  \<open>grub-mkrelpath\<close>, \<open>grub-probe\<close>, \<open>lsinitrd\<close>, \<open>mountpoint\<close>), \<open>statvfs\<close> and SHA-256
  are arguments. The two probes of a target are in \<open>Rollback\<close>, whose coordinator alone uses them.
\<close>

subsection \<open>Tools\<close>

definition GRUB_PROBE :: string where "GRUB_PROBE = ''/usr/sbin/grub-probe''"
definition MACHINE_KEY :: path where "MACHINE_KEY = [''etc'', ''anduinos-luks'', ''machine.key'']"
definition GRUB_MKRELPATH :: string where "GRUB_MKRELPATH = ''/usr/bin/grub-mkrelpath''"
definition GRUB_EDITENV :: string where "GRUB_EDITENV = ''/usr/bin/grub-editenv''"
definition MOUNTPOINT :: string where "MOUNTPOINT = ''/usr/bin/mountpoint''"
definition LSINITRD :: string where "LSINITRD = ''/usr/bin/lsinitrd''"
definition KERNEL_RELEASE :: path where "KERNEL_RELEASE = [''proc'', ''sys'', ''kernel'', ''osrelease'']"
definition SYSTEM_BOOT_ROOT :: path where "SYSTEM_BOOT_ROOT = [''boot'']"
definition RECOVERY_BOOT_DIRECTORY :: string where "RECOVERY_BOOT_DIRECTORY = ''recovery-boot''"
definition RECOVERY_KERNEL :: string where "RECOVERY_KERNEL = ''vmlinuz''"
definition RECOVERY_INITRAMFS :: string where "RECOVERY_INITRAMFS = ''initrd.img''"
definition SYSTEM_CONFIRM_BINARY :: path where
  "SYSTEM_CONFIRM_BINARY = [''usr'', ''libexec'', ''anduinos-btrfs-snapshots-manager-confirm'']"
definition INITRAMFS_SCRIPT :: string where
  "INITRAMFS_SCRIPT = ''var/lib/dracut/hooks/pre-mount/50-anduinos-btrfs-snapshots-manager.sh''"
definition INITRAMFS_BINARY :: string where
  "INITRAMFS_BINARY = ''usr/libexec/anduinos-btrfs-snapshots-manager-initramfs''"
definition INITRAMFS_CONFIRM_BINARY :: string where
  "INITRAMFS_CONFIRM_BINARY = ''usr/libexec/anduinos-btrfs-snapshots-manager-confirm''"
definition INITRAMFS_PROTOCOL :: string where
  "INITRAMFS_PROTOCOL = ''etc/anduinos-btrfs-snapshots-manager/recovery-protocol-version''"
definition INITRAMFS_REQUIRED_TOOLS :: "string list" where
  "INITRAMFS_REQUIRED_TOOLS =
     [''usr/bin/cat'', ''usr/bin/chmod'', ''usr/bin/cp'', ''usr/bin/ln'', ''usr/bin/mkdir'', ''usr/bin/sync'',
      ''usr/sbin/reboot'']"
definition GRUB_EXTERNAL_ENVIRONMENT :: path where
  "GRUB_EXTERNAL_ENVIRONMENT = [''boot'', ''efi'', ''EFI'', ''anduinos'', ''btrfs-snapshots-manager-grubenv'']"
definition GRUB_NEXT_ENTRY_VARIABLE :: string where
  "GRUB_NEXT_ENTRY_VARIABLE = ''btrfs_snapshots_manager_next_entry''"
definition MAX_TOOL_OUTPUT :: nat where "MAX_TOOL_OUTPUT = 4096"
definition MAX_INITRAMFS_LISTING :: nat where "MAX_INITRAMFS_LISTING = 16 * 1024 * 1024"

text \<open>External programs by their path, and the trait \<open>BootToolRunner\<close>.\<close>

type_synonym programs = "string \<Rightarrow> command"
type_synonym boot_tools = "string \<Rightarrow> argument list \<Rightarrow> (BootError, string) io"

definition boot_output :: "programs \<Rightarrow> boot_tools" where
  "boot_output run program arguments =
     io_bind (io_map_err (\<lambda>e. BootError_new BeCommandFailed
         (''Could not execute '' @ program @ '': '' @ err_text e)) (run program arguments)) (\<lambda>out.
     if \<not> success out
     then io_throw (BootError_new BeCommandFailed (program @ '' exited with '' @ status out))
     else
       let maximum_output = (if program = LSINITRD then MAX_INITRAMFS_LISTING else MAX_TOOL_OUTPUT) in
       if maximum_output < length (stdout out)
       then io_throw (BootError_new BeUnsafeOutput (program @ '' returned excessive output''))
       else if \<not> utf8_valid (stdout out)
       then io_throw (BootError_new BeUnsafeOutput (program @ '' returned non-UTF-8 output''))
       else io_return (stdout out))"

record RecoveryBootArtifacts =
  ba_kernel_release :: string
  ba_kernel_sha256 :: string
  ba_initramfs_sha256 :: string
  ba_confirm_sha256 :: string

record boot_libraries =
  bl_uuid :: uuid_lib
  bl_tx :: tx_json
  bl_dep :: dep_json
  bl_sha256 :: "bytes \<Rightarrow> string"
  bl_statvfs :: "path \<Rightarrow> (io_error, u64) io"

record BootIntegration =
  bi_snapshot_root :: path
  bi_runner :: boot_tools

subsection \<open>File checks\<close>

definition boot_ensure_real_directory :: "path \<Rightarrow> bool \<Rightarrow> (BootError, unit) io" where
  "boot_ensure_real_directory p create =
     io_match (symlink_metadata p) (\<lambda>r.
       case r of
         Inr metadata \<Rightarrow>
           (if ftype metadata = Directory then io_return ()
            else io_throw (BootError_new BeUnsupportedEnvironment (display_path p @ '' is not a real directory'')))
       | Inl e \<Rightarrow>
           (if create \<and> err_kind e = NotFound
            then io_map_err (\<lambda>e. BootError_new BeUnsupportedEnvironment
                   (''Could not create '' @ display_path p @ '': '' @ err_text e)) (create_dir p 0x1C0)
            else io_throw (BootError_new BeUnsupportedEnvironment
                   (''Could not inspect '' @ display_path p @ '': '' @ err_text e))))"

definition validate_environment_file :: "path \<Rightarrow> (BootError, unit) io" where
  "validate_environment_file p =
     io_bind (io_map_err (\<lambda>e. BootError_new BeUnsupportedEnvironment
         (''Could not inspect '' @ display_path p @ '': '' @ err_text e)) (symlink_metadata p)) (\<lambda>metadata.
     if (case regular_content metadata of None \<Rightarrow> True | Some content \<Rightarrow> length content \<noteq> 1024)
     then io_throw (BootError_new BeUnsupportedEnvironment
            ''The external GRUB environment is not a regular 1024-byte environment block'')
     else io_return ())"

unbundle bit_operations_syntax

definition protect_environment_file :: "path \<Rightarrow> (BootError, unit) io" where
  "protect_environment_file p =
     io_bind (validate_environment_file p) (\<lambda>_.
     io_bind (io_map_err (\<lambda>e. BootError_new BeUnsupportedEnvironment
         (''Could not inspect '' @ display_path p @ '': '' @ err_text e)) (symlink_metadata p)) (\<lambda>permissions.
     if mode permissions AND 0x12 = 0 then io_return ()
     else
       io_bind (io_map_err (\<lambda>e. BootError_new BeUnsupportedEnvironment
           (''Could not protect '' @ display_path p @ '': '' @ err_text e)) (set_permissions p 0x180)) (\<lambda>_.
       io_bind (io_map_err (\<lambda>e. BootError_new BeUnsupportedEnvironment
           (''Could not re-check '' @ display_path p @ '': '' @ err_text e)) (symlink_metadata p)) (\<lambda>hardened.
       if mode hardened AND 0x12 \<noteq> 0
       then io_throw (BootError_new BeUnsupportedEnvironment (display_path p @ '' is writable by non-root users''))
       else io_return ()))))"

definition validate_executable_mount_flags :: "u64 \<Rightarrow> BootError + unit" where
  "validate_executable_mount_flags flags =
     (if flags AND 8 \<noteq> 0
      then Inl (BootError_new BeUnsupportedEnvironment
        ''The snapshot store is mounted noexec and cannot host the trusted recovery confirmation engine'')
      else Inr ())"

definition ensure_executable_filesystem :: "boot_libraries \<Rightarrow> path \<Rightarrow> (BootError, unit) io" where
  "ensure_executable_filesystem L p =
     (if list_ex (\<lambda>c. CHR 0x00 \<in> set c) p
      then io_throw (BootError_new BeUnsupportedEnvironment ''Recovery artifact path contains an embedded NUL byte'')
      else
        io_bind (io_map_err (\<lambda>e. BootError_new BeUnsupportedEnvironment
            (''Could not inspect recovery artifact mount flags: '' @ err_text e)) (bl_statvfs L p)) (\<lambda>flags.
        io_lift (validate_executable_mount_flags flags)))"

definition boot_validate_kernel_release :: "string \<Rightarrow> BootError + unit" where
  "boot_validate_kernel_release value =
     check (value = [] \<or> 128 < length value
            \<or> \<not> list_all (\<lambda>b. is_ascii_alphanumeric b \<or> b \<in> set ''._+-'') value)
       (BootError_new BeUnsupportedEnvironment ''The running kernel release is unsafe'')"

definition boot_read_kernel_release :: "path \<Rightarrow> (BootError, string) io" where
  "boot_read_kernel_release p =
     io_bind (io_map_err (\<lambda>e. BootError_new BeUnsupportedEnvironment
         (''Could not read the running kernel release: '' @ err_text e)) (read_to_string p)) (\<lambda>value.
     let value = str_trim value in
     io_bind (io_lift (boot_validate_kernel_release value)) (\<lambda>_. io_return value))"

definition validate_machine_credential :: "bool \<Rightarrow> u32 \<Rightarrow> u32 \<Rightarrow> nat \<Rightarrow> BootError + unit" where
  "validate_machine_credential regular owner m len =
     check (\<not> regular \<or> owner \<noteq> 0 \<or> m AND 0xFFF \<noteq> 0x180 \<or> len \<noteq> 64)
       (BootError_new BeUnsupportedEnvironment
          ''The internal boot credential must be a root-owned mode-0600 regular 64-byte file'')"

definition listing_line_contains :: "string \<Rightarrow> string \<Rightarrow> bool" where
  "listing_line_contains required line =
     (let line = str_trim line; fields = split_whitespace line in
      line = required
      \<or> (case fields of
           [] \<Rightarrow> False
         | m # _ \<Rightarrow>
             m \<noteq> [] \<and> hd m \<in> set ''-bcdlps''
             \<and> (if 3 \<le> length fields \<and> fields ! (length fields - 2) = ''->''
                then fields ! (length fields - 3) = required else last fields = required)))"

definition initramfs_listing_contains :: "string \<Rightarrow> string \<Rightarrow> bool" where
  "initramfs_listing_contains text required = list_ex (listing_line_contains required) (lines text)"

subsection \<open>The GRUB environment\<close>

definition verify_external_environment_block :: "BootIntegration \<Rightarrow> (BootError, string) io" where
  "verify_external_environment_block B =
     io_bind (bi_runner B GRUB_EDITENV [PathArg GRUB_EXTERNAL_ENVIRONMENT, Arg ''list'']) (\<lambda>text.
     if list_ex (\<lambda>line. 1024 < length line \<or> list_ex char_is_control (chars line) \<or> CHR ''='' \<notin> set line) (lines text)
     then io_throw (BootError_new BeUnsafeOutput ''GRUB returned unsafe external environment data'')
     else io_return (display_path GRUB_EXTERNAL_ENVIRONMENT))"

definition ensure_external_environment_block :: "BootIntegration \<Rightarrow> (BootError, string) io" where
  "ensure_external_environment_block B =
     (let efi_root = [''boot'', ''efi'']; environment = GRUB_EXTERNAL_ENVIRONMENT in
      io_bind (bi_runner B MOUNTPOINT [Arg ''-q'', PathArg efi_root]) (\<lambda>_.
      io_bind (boot_ensure_real_directory efi_root False) (\<lambda>_.
      io_bind (boot_ensure_real_directory (efi_root @ [''EFI'']) True) (\<lambda>_.
      io_bind (boot_ensure_real_directory (efi_root @ [''EFI'', ''anduinos'']) True) (\<lambda>_.
      io_bind
        (io_match (symlink_metadata environment) (\<lambda>r.
           case r of
             Inr _ \<Rightarrow> validate_environment_file environment
           | Inl e \<Rightarrow>
               (if err_kind e = NotFound
                then io_bind (bi_runner B GRUB_EDITENV [PathArg environment, Arg ''create'']) (\<lambda>_.
                     validate_environment_file environment)
                else io_throw (BootError_new BeUnsupportedEnvironment
                       (''Could not inspect '' @ display_path environment @ '': '' @ err_text e))))) (\<lambda>_.
      io_bind (protect_environment_file environment) (\<lambda>_.
      verify_external_environment_block B)))))))"

definition clear_pending_once :: "BootIntegration \<Rightarrow> (BootError, unit) io" where
  "clear_pending_once B =
     io_bind (bi_runner B GRUB_EDITENV [PathArg GRUB_EXTERNAL_ENVIRONMENT, Arg ''list'']) (\<lambda>text.
     let selection = GRUB_NEXT_ENTRY_VARIABLE @ ''='' in
     if \<not> list_ex (\<lambda>line. strip_prefix selection line \<noteq> None) (lines text) then io_return ()
     else
       io_bind (bi_runner B GRUB_EDITENV
           [PathArg GRUB_EXTERNAL_ENVIRONMENT, Arg ''unset'', Arg GRUB_NEXT_ENTRY_VARIABLE]) (\<lambda>_.
       io_return ()))"

definition invalid_boot_transaction :: "TransactionError \<Rightarrow> BootError" where
  "invalid_boot_transaction e = BootError_new BeInvalidTransaction (te_message e)"

definition arm_pending_once :: "boot_libraries \<Rightarrow> BootIntegration \<Rightarrow> (BootError, string) io" where
  "arm_pending_once L B =
     io_bind (verify_external_environment_block B) (\<lambda>_.
     io_bind (io_map_err invalid_boot_transaction
                (load_pending (bl_uuid L) (bl_tx L) (transactions_dir (bi_snapshot_root B)))) (\<lambda>pending.
     case pending of
       None \<Rightarrow> io_throw (BootError_new BeNoTransaction ''No rollback transaction is pending'')
     | Some t \<Rightarrow>
         if tx_phase t \<noteq> Armed
         then io_throw (BootError_new BeInvalidTransaction
                ''Only an armed rollback transaction can select the one-shot GRUB entry'')
         else if tx_recovery_protocol_version t \<notin> {CONTINUE_BOOT_PROTOCOL_VERSION, RECOVERY_PROTOCOL_VERSION}
         then io_throw (BootError_new BeInvalidTransaction ''A legacy recovery transaction cannot be selected for boot'')
         else
           io_bind (bi_runner B GRUB_EDITENV
               [PathArg GRUB_EXTERNAL_ENVIRONMENT, Arg ''set'', Arg (GRUB_NEXT_ENTRY_VARIABLE @ ''='' @ tx_grub_entry_id t)])
             (\<lambda>_. io_return (tx_grub_entry_id t))))"

subsection \<open>The recovery artifacts\<close>

fun require_members :: "string \<Rightarrow> string list \<Rightarrow> BootError + unit" where
  "require_members listing [] = Inr ()"
| "require_members listing (required # rest) =
     (if \<not> initramfs_listing_contains listing required
      then Inl (BootError_new BeUnsupportedEnvironment
             (''The current initramfs does not contain recovery protocol ''
              @ show_nat (unat RECOVERY_PROTOCOL_VERSION) @ '': missing '' @ required))
      else require_members listing rest)"

definition verify_initramfs_compatibility :: "BootIntegration \<Rightarrow> path \<Rightarrow> (BootError, unit) io" where
  "verify_initramfs_compatibility B initramfs =
     io_bind (bi_runner B LSINITRD [PathArg initramfs]) (\<lambda>listing.
     io_bind (io_lift (require_members listing
         ([INITRAMFS_SCRIPT, INITRAMFS_BINARY, INITRAMFS_CONFIRM_BINARY, INITRAMFS_PROTOCOL]
          @ INITRAMFS_REQUIRED_TOOLS))) (\<lambda>_.
     io_bind (bi_runner B LSINITRD [Arg ''--file'', Arg INITRAMFS_PROTOCOL, PathArg initramfs]) (\<lambda>protocol.
     if str_trim protocol \<noteq> show_nat (unat RECOVERY_PROTOCOL_VERSION)
     then io_throw (BootError_new BeUnsupportedEnvironment
            ''The current initramfs must be refreshed before preparing a restore'')
     else io_return ())))"

definition verify_recovery_boot_source_from ::
  "BootIntegration \<Rightarrow> path \<Rightarrow> path \<Rightarrow> path \<Rightarrow> (BootError, string \<times> path \<times> path) io" where
  "verify_recovery_boot_source_from B kernel_release_path system_boot confirm_binary =
     io_bind (boot_read_kernel_release kernel_release_path) (\<lambda>kernel_release.
     let kernel_file = system_boot @ [''vmlinuz-'' @ kernel_release];
         initramfs = system_boot @ [''initrd.img-'' @ kernel_release] in
     io_bind (ensure_regular_file kernel_file) (\<lambda>_.
     io_bind (ensure_regular_file initramfs) (\<lambda>_.
     io_bind (ensure_regular_file confirm_binary) (\<lambda>_.
     io_bind (verify_initramfs_compatibility B initramfs) (\<lambda>_.
     io_return (kernel_release, kernel_file, initramfs))))))"

definition verify_recovery_boot_source :: "boot_libraries \<Rightarrow> BootIntegration \<Rightarrow> (BootError, unit) io" where
  "verify_recovery_boot_source L B =
     io_bind (verify_recovery_boot_source_from B KERNEL_RELEASE SYSTEM_BOOT_ROOT SYSTEM_CONFIRM_BINARY) (\<lambda>_.
     io_bind (boot_ensure_real_directory (bi_snapshot_root B) False) (\<lambda>_.
     ensure_executable_filesystem L (bi_snapshot_root B)))"

definition provision_recovery_boot_artifacts_from ::
  "boot_libraries \<Rightarrow> BootIntegration \<Rightarrow> path \<Rightarrow> path \<Rightarrow> path \<Rightarrow> (BootError, RecoveryBootArtifacts) io" where
  "provision_recovery_boot_artifacts_from L B kernel_release_path system_boot confirm_binary =
     io_bind (verify_recovery_boot_source_from B kernel_release_path system_boot confirm_binary)
       (\<lambda>(kernel_release, kernel_file, initramfs).
     io_bind (boot_ensure_real_directory (bi_snapshot_root B) False) (\<lambda>_.
     let recovery_boot = bi_snapshot_root B @ [RECOVERY_BOOT_DIRECTORY] in
     io_bind (boot_ensure_real_directory recovery_boot True) (\<lambda>_.
     io_bind (ensure_executable_filesystem L recovery_boot) (\<lambda>_.
     io_bind (copy_regular_file_atomic (bl_uuid L) kernel_file (recovery_boot @ [RECOVERY_KERNEL]) 0x180) (\<lambda>_.
     io_bind (copy_regular_file_atomic (bl_uuid L) initramfs (recovery_boot @ [RECOVERY_INITRAMFS]) 0x180) (\<lambda>_.
     io_bind (copy_regular_file_atomic (bl_uuid L) confirm_binary (recovery_boot @ [RECOVERY_CONFIRM]) 0x1C0) (\<lambda>_.
     io_bind (ensure_protected_executable (recovery_boot @ [RECOVERY_CONFIRM])) (\<lambda>_.
     io_bind (hash_regular_file (bl_sha256 L) (recovery_boot @ [RECOVERY_KERNEL])) (\<lambda>kernel_sha256.
     io_bind (hash_regular_file (bl_sha256 L) (recovery_boot @ [RECOVERY_INITRAMFS])) (\<lambda>initramfs_sha256.
     io_bind (hash_regular_file (bl_sha256 L) (recovery_boot @ [RECOVERY_CONFIRM])) (\<lambda>confirm_sha256.
     io_return \<lparr>ba_kernel_release = kernel_release, ba_kernel_sha256 = kernel_sha256,
       ba_initramfs_sha256 = initramfs_sha256, ba_confirm_sha256 = confirm_sha256\<rparr>)))))))))))"

definition provision_recovery_boot_artifacts ::
  "boot_libraries \<Rightarrow> BootIntegration \<Rightarrow> (BootError, RecoveryBootArtifacts) io" where
  "provision_recovery_boot_artifacts L B =
     provision_recovery_boot_artifacts_from L B KERNEL_RELEASE SYSTEM_BOOT_ROOT SYSTEM_CONFIRM_BINARY"

subsection \<open>The menu entry\<close>

definition safe_grub_path :: "string \<Rightarrow> bool" where
  "safe_grub_path value \<longleftrightarrow>
     value \<noteq> [] \<and> hd value = CHR ''/'' \<and> length value \<le> 1024
     \<and> list_all (\<lambda>b. is_ascii_alphanumeric b \<or> b \<in> set ''/@._+-='') value"

definition grub_path :: "BootIntegration \<Rightarrow> path \<Rightarrow> (BootError, string) io" where
  "grub_path B p =
     io_bind (bi_runner B GRUB_MKRELPATH [PathArg p]) (\<lambda>text.
     let value = str_trim text in
     if \<not> safe_grub_path value
     then io_throw (BootError_new BeUnsafeOutput ''grub-mkrelpath returned an unsafe recovery path'')
     else io_return value)"

definition single_quoted :: "string \<Rightarrow> string" where
  "single_quoted s = CHR 0x27 # s @ [CHR 0x27]"

definition grub_line :: "string \<Rightarrow> string" where
  "grub_line s = CHR 0x09 # s @ [CHR 0x0A]"

definition retry_selection :: "RollbackTransaction \<Rightarrow> string" where
  "retry_selection t =
     (if restarts_after_apply t then []
      else
        grub_line (''set btrfs_snapshots_manager_next_entry='' @ single_quoted (tx_grub_entry_id t))
        @ grub_line (''save_env -f '' @ CHR 0x22
            # ''($btrfs_snapshots_manager_esp)/EFI/anduinos/btrfs-snapshots-manager-grubenv'' @ CHR 0x22
            # '' btrfs_snapshots_manager_next_entry''))"

definition menu_entry_text :: "uuid_lib \<Rightarrow> string option \<Rightarrow> string \<Rightarrow> string \<Rightarrow> RollbackTransaction \<Rightarrow> string" where
  "menu_entry_text U machine_key kernel_path initramfs_path t =
     (let fs_uuid = tx_root_filesystem_uuid t;
          handoff = (case machine_key of None \<Rightarrow> [] | Some key \<Rightarrow> '' newc:/anduinos-unlock.key:'' @ key)
      in
      ''menuentry '' @ single_quoted ''Disk Snapshots Manager recovery''
        @ '' --class anduinos --class gnu-linux --id '' @ single_quoted (tx_grub_entry_id t) @ '' {'' @ [CHR 0x0A]
      @ grub_line ''insmod btrfs''
      @ grub_line (''search --no-floppy --fs-uuid --set=root '' @ fs_uuid)
      @ grub_line (''echo '' @ single_quoted (''Starting AnduinOS system recovery'' @ [CHR 0xE2, CHR 0x80, CHR 0xA6]))
      @ retry_selection t
      @ grub_line (''linux '' @ kernel_path @ '' root=UUID='' @ fs_uuid
          @ '' ro rootflags=subvol=@root anduinos.btrfs_snapshots_manager='' @ hyphenated U (tx_id t)
          @ '' anduinos.btrfs_snapshots_manager_protocol='' @ show_nat (unat (tx_recovery_protocol_version t)))
      @ grub_line (''initrd '' @ initramfs_path @ handoff)
      @ ''}'' @ [CHR 0x0A])"

definition recovery_menu_entry_with_key ::
  "boot_libraries \<Rightarrow> BootIntegration \<Rightarrow> string option \<Rightarrow> (BootError, string option) io" where
  "recovery_menu_entry_with_key L B machine_key =
     io_bind (io_map_err invalid_boot_transaction
                (load_pending (bl_uuid L) (bl_tx L) (transactions_dir (bi_snapshot_root B)))) (\<lambda>pending.
     case pending of
       None \<Rightarrow> io_return None
     | Some t \<Rightarrow>
         if tx_phase t \<notin> {Preparing, Armed} then io_return None
         else if tx_recovery_protocol_version t \<notin> {CONTINUE_BOOT_PROTOCOL_VERSION, RECOVERY_PROTOCOL_VERSION}
         then io_throw (BootError_new BeInvalidTransaction
                ''A legacy recovery transaction cannot be armed with the current boot protocol'')
         else
           io_bind (io_map_err (\<lambda>e. BootError_new BeInvalidDeployment (di_message e))
                      (load_record (bl_uuid L) (bl_dep L) (bi_snapshot_root B) (tx_target_deployment_id t))) (\<lambda>target.
           if \<not> can_restore (bl_uuid L) target
           then io_throw (BootError_new BeInvalidDeployment ''GRUB recovery target is not a complete, healthy snapshot'')
           else
             let recovery_boot = bi_snapshot_root B @ [RECOVERY_BOOT_DIRECTORY];
                 kernel_file = recovery_boot @ [RECOVERY_KERNEL];
                 initramfs = recovery_boot @ [RECOVERY_INITRAMFS];
                 confirm = recovery_boot @ [RECOVERY_CONFIRM] in
             io_bind (ensure_regular_file kernel_file) (\<lambda>_.
             io_bind (ensure_regular_file initramfs) (\<lambda>_.
             io_bind (ensure_protected_executable confirm) (\<lambda>_.
             io_bind (ensure_executable_filesystem L recovery_boot) (\<lambda>_.
             io_bind (verify_digest (bl_sha256 L) kernel_file (tx_recovery_kernel_sha256 t) ''recovery kernel'') (\<lambda>_.
             io_bind (verify_digest (bl_sha256 L) initramfs (tx_recovery_initramfs_sha256 t) ''recovery initramfs'') (\<lambda>_.
             io_bind (verify_digest (bl_sha256 L) confirm (tx_recovery_confirm_sha256 t)
                        ''recovery confirmation engine'') (\<lambda>_.
             io_bind (grub_path B kernel_file) (\<lambda>kernel_path.
             io_bind (grub_path B initramfs) (\<lambda>initramfs_path.
             io_return (Some (menu_entry_text (bl_uuid L) machine_key kernel_path initramfs_path t)))))))))))))"

definition recovery_menu_entry :: "boot_libraries \<Rightarrow> BootIntegration \<Rightarrow> (BootError, string option) io" where
  "recovery_menu_entry L B = recovery_menu_entry_with_key L B None"

definition encrypted_recovery_menu_entry :: "boot_libraries \<Rightarrow> BootIntegration \<Rightarrow> (BootError, string option) io" where
  "encrypted_recovery_menu_entry L B =
     io_bind (bi_runner B GRUB_PROBE [Arg ''--target=abstraction'', Arg ''/'']) (\<lambda>abstraction.
     if ''cryptodisk'' \<notin> set (split_whitespace abstraction)
     then io_throw (BootError_new BeUnsupportedEnvironment ''Encrypted recovery handoff requires an encrypted root'')
     else
       io_bind (io_map_err (\<lambda>e. BootError_new BeUnsupportedEnvironment
           (''Could not inspect the internal boot credential: '' @ err_text e)) (symlink_metadata MACHINE_KEY)) (\<lambda>metadata.
       io_bind (io_lift (validate_machine_credential (regular_content metadata \<noteq> None) (uid metadata) (mode metadata)
                  (case regular_content metadata of None \<Rightarrow> 0 | Some content \<Rightarrow> length content))) (\<lambda>_.
       io_bind (grub_path B MACHINE_KEY) (\<lambda>key_path.
       if key_path \<noteq> ''/@root/etc/anduinos-luks/machine.key''
       then io_throw (BootError_new BeUnsupportedEnvironment
              ''Encrypted recovery handoff requires the installed @root credential'')
       else recovery_menu_entry_with_key L B (Some key_path)))))"

subsection \<open>What a menu entry guarantees\<close>

lemma triple_grub_path:
  "io_triple (\<lambda>_. True) (grub_path B p) (\<lambda>path _. True \<and> safe_grub_path path) (\<lambda>_ _. True)"
  unfolding grub_path_def Let_def
  by (rule triple_bind [OF triple_any]) (auto intro!: triple_return triple_throw)

lemma touches_ensure_executable_filesystem [io_rules]:
  "touches S (bl_statvfs L p) \<Longrightarrow> touches S (ensure_executable_filesystem L p)"
  unfolding ensure_executable_filesystem_def by (intro io_rules)

text \<open>The stored artifacts are the ones the transaction names, the last of them a protected executable.\<close>

definition artifacts_bound :: "boot_libraries \<Rightarrow> path \<Rightarrow> (path \<Rightarrow> inode option) \<Rightarrow> RollbackTransaction \<Rightarrow> bool" where
  "artifacts_bound L boot M t \<longleftrightarrow>
     slot_holds (\<lambda>b. bl_sha256 L b = tx_recovery_kernel_sha256 t) (M (boot @ [RECOVERY_KERNEL]))
     \<and> slot_holds (\<lambda>b. bl_sha256 L b = tx_recovery_initramfs_sha256 t) (M (boot @ [RECOVERY_INITRAMFS]))
     \<and> slot_holds (\<lambda>b. bl_sha256 L b = tx_recovery_confirm_sha256 t) (M (boot @ [RECOVERY_CONFIRM]))
     \<and> (\<exists>i. M (boot @ [RECOVERY_CONFIRM]) = Some i \<and> mode i AND 0x49 \<noteq> 0 \<and> mode i AND 0x12 = 0)"

lemma triple_menu_entry_checks:
  assumes "\<And>p. touches {} (bl_statvfs L p)"
    and rest: "\<And>u. artifacts_bound L boot M t \<Longrightarrow> io_triple (\<lambda>w. map_of (nodes w) = M) (f u) Q (\<lambda>_ _. True)"
  shows "io_triple (\<lambda>w. map_of (nodes w) = M)
    (io_bind (ensure_regular_file (boot @ [RECOVERY_KERNEL])) (\<lambda>_.
     io_bind (ensure_regular_file (boot @ [RECOVERY_INITRAMFS])) (\<lambda>_.
     io_bind (ensure_protected_executable (boot @ [RECOVERY_CONFIRM])) (\<lambda>_.
     io_bind (ensure_executable_filesystem L boot) (\<lambda>_.
     io_bind (verify_digest (bl_sha256 L) (boot @ [RECOVERY_KERNEL]) (tx_recovery_kernel_sha256 t) n1) (\<lambda>_.
     io_bind (verify_digest (bl_sha256 L) (boot @ [RECOVERY_INITRAMFS]) (tx_recovery_initramfs_sha256 t) n2) (\<lambda>_.
     io_bind (verify_digest (bl_sha256 L) (boot @ [RECOVERY_CONFIRM]) (tx_recovery_confirm_sha256 t) n3) f)))))))
    Q (\<lambda>_ _. True)"
proof -
  note digest = triple_bind [OF triple_weaken [OF triple_verify_digest] triple_pure]
  have protected: "io_triple (\<lambda>w. map_of (nodes w) = M) (ensure_protected_executable p)
    (\<lambda>_ w. map_of (nodes w) = M \<and> (\<exists>i. M p = Some i \<and> mode i AND 0x49 \<noteq> 0 \<and> mode i AND 0x12 = 0))
    (\<lambda>_ _. True)" for p
    by (rule triple_weaken [OF triple_protected_executable]) auto
  show ?thesis
    by (rule triple_frozen_then, (intro io_rules)[1], rule triple_frozen_then, (intro io_rules)[1],
        rule triple_bind [OF protected triple_pure], rule triple_frozen_then, (intro io_rules assms)[1],
        rule digest, assumption, assumption, rule TrueI, rule digest, assumption, assumption, rule TrueI,
        rule digest, assumption, assumption, rule TrueI, rule rest)
      (auto simp: artifacts_bound_def)
qed

text \<open>
  C24. A GRUB recovery entry is only ever generated for a valid pending rollback that is being
  prepared or armed, when the stored kernel, initramfs and confirmation engine are regular
  files whose digests are exactly those the transaction recorded and the engine is executable
  and not writable by others; the two paths in the entry consist of safe characters only.
\<close>

theorem menu_entry_bound:
  assumes "\<forall>p. touches {} (bl_statvfs L p)"
    and "recovery_menu_entry_with_key L B key w = (Inr (Some text), w')"
  shows "\<exists>t kernel_path initramfs_path.
    pending_decodes (bl_uuid L) (bl_tx L) (map_of (nodes w) (bi_snapshot_root B @ [''transactions'', ''pending-rollback.json''])) t
    \<and> (tx_phase t = Preparing \<or> tx_phase t = Armed)
    \<and> artifacts_bound L (bi_snapshot_root B @ [''recovery-boot'']) (map_of (nodes w)) t
    \<and> safe_grub_path kernel_path \<and> safe_grub_path initramfs_path
    \<and> text = menu_entry_text (bl_uuid L) key kernel_path initramfs_path t"
proof -
  let ?M = "map_of (nodes w)" and ?root = "bi_snapshot_root B"
  let ?boot = "?root @ [RECOVERY_BOOT_DIRECTORY]" and ?slot = "pending_path (transactions_dir ?root)"
  let ?Q = "\<lambda>r _. \<forall>text. r = Some text \<longrightarrow> (\<exists>t k i. pending_decodes (bl_uuid L) (bl_tx L) (?M ?slot) t
    \<and> (tx_phase t = Preparing \<or> tx_phase t = Armed) \<and> artifacts_bound L ?boot ?M t
    \<and> safe_grub_path k \<and> safe_grub_path i \<and> text = menu_entry_text (bl_uuid L) key k i t)"
  have pending: "io_triple (\<lambda>w. map_of (nodes w) = ?M)
      (io_map_err invalid_boot_transaction (load_pending (bl_uuid L) (bl_tx L) (transactions_dir ?root)))
      (\<lambda>r w. map_of (nodes w) = ?M \<and> (\<forall>t. r = Some t \<longrightarrow> pending_decodes (bl_uuid L) (bl_tx L) (?M ?slot) t)) (\<lambda>_ _. True)"
    by (rule triple_map_err, rule triple_weaken [OF triple_load_pending]) (auto split: option.splits)
  have entry: "io_triple (\<lambda>w. map_of (nodes w) = ?M)
      (io_bind (grub_path B p) (\<lambda>k. io_bind (grub_path B q) (\<lambda>i.
         io_return (Some (menu_entry_text (bl_uuid L) key k i t))))) ?Q (\<lambda>_ _. True)"
    if "pending_decodes (bl_uuid L) (bl_tx L) (?M ?slot) t" "tx_phase t = Preparing \<or> tx_phase t = Armed"
      "artifacts_bound L ?boot ?M t" for t p q
  proof -
    have "io_triple (\<lambda>_. True) (io_bind (grub_path B p) (\<lambda>k. io_bind (grub_path B q) (\<lambda>i.
         io_return (Some (menu_entry_text (bl_uuid L) key k i t)))))
        (\<lambda>r _. \<exists>k i. safe_grub_path k \<and> safe_grub_path i \<and> r = Some (menu_entry_text (bl_uuid L) key k i t)) (\<lambda>_ _. True)"
      by (rule triple_bind [OF triple_grub_path triple_pure], rule triple_bind [OF triple_grub_path triple_pure],
          rule triple_return) blast
    then show ?thesis by (rule triple_weaken) (use that in auto)
  qed
  have "io_triple (\<lambda>w. map_of (nodes w) = ?M) (recovery_menu_entry_with_key L B key) ?Q (\<lambda>_ _. True)"
    unfolding recovery_menu_entry_with_key_def Let_def
    by (rule triple_bind [OF pending triple_pure], rule triple_case_option, rule triple_return, simp,
        rule triple_if, rule triple_return, simp, rule triple_if, rule triple_throw, simp,
        rule triple_frozen_then, (intro io_rules)[1], rule triple_if, rule triple_throw, simp,
        rule triple_menu_entry_checks, use assms(1) in simp, rule entry) auto
  from io_tripleD_ok [OF this refl assms(2)] show ?thesis
    by (auto simp: pending_path_def transactions_dir_def RECOVERY_BOOT_DIRECTORY_def)
qed

subsection \<open>Witness\<close>

definition example_boot_libraries :: boot_libraries where
  "example_boot_libraries =
     \<lparr>bl_uuid = example_uuid_lib, bl_tx = example_tx_json, bl_dep = example_dep_json,
      bl_sha256 = (\<lambda>b. example_digest (hd b)), bl_statvfs = (\<lambda>_. io_return 0)\<rparr>"

definition example_boot :: BootIntegration where
  "example_boot = \<lparr>bi_snapshot_root = [''s''], bi_runner = (\<lambda>_ _. io_return ''/@snapshots/vmlinuz'')\<rparr>"

definition example_boot_world :: world where
  "example_boot_world =
     (let file = (\<lambda>m b. \<lparr>ftype = Regular b, mode = m, uid = 0, gid = 0\<rparr>) in
      \<lparr>nodes = [([''s'', ''transactions'', ''pending-rollback.json''], file 0x180 (''T'' @ newline)),
               (record_path example_uuid_lib [''s''] 1, file 0x180 (''D'' @ newline)),
               ([''s'', ''recovery-boot'', ''vmlinuz''], file 0x180 ''a''),
               ([''s'', ''recovery-boot'', ''initrd.img''], file 0x180 ''b''),
               ([''s'', ''recovery-boot'', ''confirm''], file 0x1C0 ''c'')],
       ticks = 0, fault = (\<lambda>_. None), clock = (\<lambda>_. 0), entropy = (\<lambda>_. 1)\<rparr>)"

lemma example_load_pending:
  assumes "fault_free w" and "map_of (nodes w) (pending_path d) = Some \<lparr>ftype = Regular (''T'' @ newline), mode = m, uid = 0, gid = 0\<rparr>"
  shows "load_pending example_uuid_lib example_tx_json d w = (Inr (Some example_transaction), tick (tick (tick w)))"
proof -
  have "json_round_trips example_tx_json example_transaction"
    by (simp add: json_round_trips_def example_tx_json_def example_transaction_def RollbackTransaction_new_def version_defs)
  moreover have "json_print example_tx_json example_transaction = Inr ''T''" by (simp add: example_tx_json_def)
  moreover have "RollbackTransaction_validate example_uuid_lib example_transaction = Inr ()"
    using example_transaction_valid by (simp add: tx_valid_def)
  ultimately have "decode_pending example_uuid_lib example_tx_json (''T'' @ newline) w = (Inr (Some example_transaction), w)" for w
    by (rule decode_pending_printed)
  then show ?thesis
    using assms by (simp add: load_pending_def io_exec regular_content_def newline_def MAX_TRANSACTION_BYTES_def)
qed

theorem menu_entry_bound_witness:
  "\<exists>text w' t. recovery_menu_entry_with_key example_boot_libraries example_boot None example_boot_world = (Inr (Some text), w')
    \<and> artifacts_bound example_boot_libraries [''s'', ''recovery-boot''] (map_of (nodes example_boot_world)) t"
proof -
  let ?run = "recovery_menu_entry_with_key example_boot_libraries example_boot None example_boot_world"
  let ?w = "tick (tick (tick example_boot_world))"
  have free: "fault_free example_boot_world" by (simp add: fault_free_def example_boot_world_def Let_def)
  have pending: "load_pending example_uuid_lib example_tx_json [''s'', ''transactions''] example_boot_world
      = (Inr (Some example_transaction), ?w)"
    by (rule example_load_pending [OF free]) (simp add: example_boot_world_def Let_def pending_path_def)
  have i: "dep_id example_deployment = 1" by (simp add: example_deployment_def)
  have "dep_round_trips example_dep_json example_deployment" and "dep_print example_dep_json example_deployment = Inr ''D''"
    by (simp_all add: dep_round_trips_def example_dep_json_def)
  moreover have "utf8_valid (hyphenated example_uuid_lib 1)" by code_simp
  moreover have "file_holds (nodes ?w) (record_path example_uuid_lib [''s''] 1) (''D'' @ newline)"
    by (simp add: file_holds_def example_boot_world_def Let_def record_path_def metadata_dir_def)
  ultimately obtain v where v: "load_record example_uuid_lib example_dep_json [''s''] 1 ?w = (Inr example_deployment, v)"
      "fault_free v" "nodes v = nodes example_boot_world"
    using load_record_reads [of ?w example_dep_json example_deployment "''D''" example_uuid_lib "[''s'']"] free
      example_deployment_valid
    by (auto simp: i uuid_displays_def example_uuid_lib_def)
  have restorable: "can_restore example_uuid_lib example_deployment" by (rule example_deployment_restorable)
  have tx: "tx_phase example_transaction = Armed" "tx_recovery_protocol_version example_transaction = RECOVERY_PROTOCOL_VERSION"
      "tx_target_deployment_id example_transaction = 1" "tx_recovery_kernel_sha256 example_transaction = example_digest CHR ''a''"
      "tx_recovery_initramfs_sha256 example_transaction = example_digest CHR ''b''"
      "tx_recovery_confirm_sha256 example_transaction = example_digest CHR ''c''"
    by (simp_all add: example_transaction_def RollbackTransaction_new_def)
  have safe: "safe_grub_path (str_trim ''/@snapshots/vmlinuz'')" by code_simp
  have record_file: "record_path example_uuid_lib [''s''] 1 = [''s'', ''metadata'', ''u1.json'']"
    by (simp add: record_path_def metadata_dir_def example_uuid_lib_def)
  have files: "map_of (nodes v) [''s'', ''recovery-boot'', ''vmlinuz''] = Some \<lparr>ftype = Regular ''a'', mode = 0x180, uid = 0, gid = 0\<rparr>"
      "map_of (nodes v) [''s'', ''recovery-boot'', ''initrd.img''] = Some \<lparr>ftype = Regular ''b'', mode = 0x180, uid = 0, gid = 0\<rparr>"
      "map_of (nodes v) [''s'', ''recovery-boot'', ''confirm''] = Some \<lparr>ftype = Regular ''c'', mode = 0x1C0, uid = 0, gid = 0\<rparr>"
    by (simp_all add: v(3) example_boot_world_def Let_def record_file)
  have "\<exists>text w'. ?run = (Inr (Some text), w')"
    using files v(2) pending v(1) restorable tx safe
    by (simp add: recovery_menu_entry_with_key_def Let_def example_boot_libraries_def example_boot_def io_exec
        transactions_dir_def ensure_regular_file_def ensure_protected_executable_def verify_digest_def hash_regular_file_def
        read_all_def ensure_executable_filesystem_def validate_executable_mount_flags_def grub_path_def
        regular_content_def RECOVERY_BOOT_DIRECTORY_def RECOVERY_KERNEL_def RECOVERY_INITRAMFS_def
        RECOVERY_CONFIRM_def)
  then obtain entry w' where run: "?run = (Inr (Some entry), w')" by blast
  have "\<forall>p. touches {} (bl_statvfs example_boot_libraries p)"
    by (simp add: example_boot_libraries_def touches_return)
  from menu_entry_bound [OF this run] run show ?thesis by (auto simp: example_boot_def)
qed

end
