(* ===== verification/Coordination.thy ===== *)
theory Coordination
  imports Transaction_Store Rust_Text
begin

text \<open>
  \<open>coordination.rs\<close>, \<open>browse_lock.rs\<close> and \<open>space.rs\<close>: the advisory locks that serialize the
  recovery transactions and protect a deployment while it is browsed, and the probe of free
  space. \<open>statvfs\<close> is an argument. Locks are released at the end of the scope in the source;
  the model has no other processes, so an acquisition is an attempt that may fail.
\<close>

subsection \<open>Transaction locks\<close>

definition acquire_named :: "path \<Rightarrow> string \<Rightarrow> (io_error, unit) io" where
  "acquire_named snapshot_root filename =
     (let transactions = transactions_dir snapshot_root in
      io_bind (symlink_metadata transactions) (\<lambda>metadata.
      if ftype metadata \<noteq> Directory
      then io_throw (IoError OtherKind ''Disk Snapshots Manager transactions path is not a real directory'')
      else
        io_bind (open_create (transactions @ [filename]) 0x180) (\<lambda>_.
        flock_exclusive (transactions @ [filename]))))"

definition acquire_preparation :: "path \<Rightarrow> (io_error, unit) io" where
  "acquire_preparation snapshot_root = acquire_named snapshot_root ''recovery-prepare.lock''"

definition acquire :: "path \<Rightarrow> (io_error, unit) io" where
  "acquire snapshot_root = acquire_named snapshot_root ''start.lock''"

subsection \<open>Browse locks\<close>

definition browse_lock_path :: "path \<Rightarrow> string \<Rightarrow> path" where
  "browse_lock_path root deployment_id = root @ [''browse-locks'', ''system-'' @ deployment_id @ ''.lock'']"

definition open_deployment_lock :: "uuid_lib \<Rightarrow> path \<Rightarrow> string \<Rightarrow> (io_error, unit) io" where
  "open_deployment_lock U root deployment_id =
     (if parse_str U deployment_id = None
      then io_throw (IoError OtherKind ''invalid deployment lock identifier'')
      else
        let directory = root @ [''browse-locks''] in
        io_bind
          (io_match (symlink_metadata directory) (\<lambda>r.
             case r of
               Inr metadata \<Rightarrow>
                 (if ftype metadata = Directory then io_return ()
                  else io_throw (IoError OtherKind ''deployment browse-lock path is not a real directory''))
             | Inl e \<Rightarrow>
                 (if err_kind e = NotFound
                  then io_bind (create_dir directory 0x1ED) (\<lambda>_. set_permissions directory 0x1C0)
                  else io_throw e))) (\<lambda>_.
        open_create (browse_lock_path root deployment_id) 0x180))"

definition acquire_exclusive_deployment_lock_at :: "uuid_lib \<Rightarrow> path \<Rightarrow> string \<Rightarrow> (io_error, unit) io" where
  "acquire_exclusive_deployment_lock_at U root deployment_id =
     io_bind (open_deployment_lock U root deployment_id) (\<lambda>_.
     io_map_err (\<lambda>e. if err_kind e = WouldBlock then IoError WouldBlock ''deployment is currently being browsed'' else e)
       (flock_nonblocking (browse_lock_path root deployment_id)))"

definition acquire_shared_deployment_lock_at :: "uuid_lib \<Rightarrow> path \<Rightarrow> string \<Rightarrow> (io_error, unit) io" where
  "acquire_shared_deployment_lock_at U root deployment_id =
     io_bind (open_deployment_lock U root deployment_id) (\<lambda>_.
     flock_exclusive (browse_lock_path root deployment_id))"

subsection \<open>Free space\<close>

definition MINIMUM_TRANSACTION_RESERVE_BYTES :: u64 where
  "MINIMUM_TRANSACTION_RESERVE_BYTES = 2 * 1024 * 1024 * 1024"

record statvfs =
  f_frsize :: u64
  f_blocks :: u64
  f_bavail :: u64

record FilesystemSpace =
  total_bytes :: u64
  available_bytes :: u64

definition has_reserve :: "FilesystemSpace \<Rightarrow> u64 \<Rightarrow> bool" where
  "has_reserve space reserve_bytes \<longleftrightarrow> reserve_bytes \<le> available_bytes space"

definition checked_mul_u64 :: "u64 \<Rightarrow> u64 \<Rightarrow> u64 option" where
  "checked_mul_u64 a b = (if unat a * unat b < 2 ^ 64 then Some (a * b) else None)"

definition probe_filesystem_space ::
  "(path \<Rightarrow> (io_error, statvfs) io) \<Rightarrow> path \<Rightarrow> (io_error, FilesystemSpace) io" where
  "probe_filesystem_space statvfs p =
     (if list_ex (\<lambda>c. CHR 0x00 \<in> set c) p then io_throw (IoError OtherKind ''path contains a NUL byte'')
      else
        io_bind (statvfs p) (\<lambda>values.
        case checked_mul_u64 (f_blocks values) (f_frsize values) of
          None \<Rightarrow> io_throw (IoError OtherKind ''filesystem size overflow'')
        | Some all_bytes \<Rightarrow>
            (case checked_mul_u64 (f_bavail values) (f_frsize values) of
               None \<Rightarrow> io_throw (IoError OtherKind ''available-space overflow'')
             | Some available \<Rightarrow> io_return \<lparr>total_bytes = all_bytes, available_bytes = available\<rparr>)))"

record SnapshotSpace =
  referenced_bytes :: "u64 option"
  exclusive_bytes :: "u64 option"

definition estimated_reclaimable_bytes :: "SnapshotSpace \<Rightarrow> u64 option" where
  "estimated_reclaimable_bytes s = exclusive_bytes s"

text \<open>\<open>str::parse::<u64>\<close>: an optional plus sign, at least one digit, no overflow.\<close>

definition parse_u64 :: "string \<Rightarrow> u64 option" where
  "parse_u64 s =
     (let d = (if s \<noteq> [] \<and> hd s = CHR ''+'' then tl s else s);
          n = foldl (\<lambda>n c. n * 10 + (of_char c - 48)) (0 :: nat) d
      in if d = [] \<or> \<not> list_all is_ascii_digit d \<or> 2 ^ 64 \<le> n then None else Some (of_nat n))"

fun find_map :: "('a \<Rightarrow> 'b option) \<Rightarrow> 'a list \<Rightarrow> 'b option" where
  "find_map f [] = None"
| "find_map f (x # xs) = (case f x of None \<Rightarrow> find_map f xs | Some y \<Rightarrow> Some y)"

definition qgroup_line :: "(string \<Rightarrow> bool) \<Rightarrow> string \<Rightarrow> SnapshotSpace option" where
  "qgroup_line wanted line =
     (let fields = split_whitespace line in
      if 3 \<le> length fields \<and> wanted (fields ! 0)
      then (case (parse_u64 (fields ! 1), parse_u64 (fields ! 2)) of
              (Some referenced, Some exclusive) \<Rightarrow>
                Some \<lparr>referenced_bytes = Some referenced, exclusive_bytes = Some exclusive\<rparr>
            | _ \<Rightarrow> None)
      else None)"

definition parse_qgroup_numbers :: "string \<Rightarrow> SnapshotSpace option" where
  "parse_qgroup_numbers text = find_map (qgroup_line (\<lambda>f. CHR ''/'' \<in> set f)) (rev (lines text))"

definition parse_qgroup_for_subvolume :: "string \<Rightarrow> u64 \<Rightarrow> SnapshotSpace option" where
  "parse_qgroup_for_subvolume text subvolume_id =
     find_map (qgroup_line (\<lambda>f. f = ''0/'' @ show_nat (unat subvolume_id))) (lines text)"

subsection \<open>Frames\<close>

lemma touches_acquire_named: "transactions_dir root @ [filename] \<in> S \<Longrightarrow> touches S (acquire_named root filename)"
  unfolding acquire_named_def Let_def by (intro io_rules) simp

lemma touches_acquire_preparation: "touches {transactions_dir root @ [''recovery-prepare.lock'']} (acquire_preparation root)"
  unfolding acquire_preparation_def by (rule touches_acquire_named) simp

lemma touches_acquire: "transactions_dir root @ [''start.lock''] \<in> S \<Longrightarrow> touches S (acquire root)"
  unfolding acquire_def by (rule touches_acquire_named)

lemma touches_deployment_locks [io_rules]:
  assumes "root @ [''browse-locks''] \<in> S" and "browse_lock_path root i \<in> S"
  shows "touches S (open_deployment_lock U root i)" "touches S (acquire_exclusive_deployment_lock_at U root i)"
    "touches S (acquire_shared_deployment_lock_at U root i)"
  unfolding acquire_exclusive_deployment_lock_at_def acquire_shared_deployment_lock_at_def open_deployment_lock_def Let_def
  by (intro io_rules assms)+

lemma touches_probe [io_rules]: "touches S (statvfs p) \<Longrightarrow> touches S (probe_filesystem_space statvfs p)"
  unfolding probe_filesystem_space_def by (intro io_rules)

end
