(* ===== verification/Confirmation.thy ===== *)
theory Confirmation
  imports Boot_Integration Cleanup Lineage Coordination
begin

text \<open>
  \<open>confirmation.rs\<close>, the service that runs after a boot: it confirms a rollback in the boot
  it was applied for, records a reverted or failed one, and works off the queue of old
  subvolumes. The trait \<open>ConfirmationBackend\<close> is a record of operations;
  \<open>SystemConfirmationBackend\<close> is its instance on the stores of the recovery engine. External
  programs are an argument, and so is \<open>history_cleanup::purge\<close>, which drives the snapshot
  engines and is not modelled.
\<close>

subsection \<open>Outcomes and errors\<close>

datatype ConfirmationOutcome =
  CoNoAction | CoConfirmed | CoConfirmedCleanupPending | CoCleanupCompleted | CoCleanupPending
  | CoRevertedRecorded | CoFailedRecorded

datatype ConfirmationErrorCode = CeInvalidTransaction | CeIdentityMismatch | CeStateCommit | CeCommandFailed

record ConfirmationError =
  ce_code :: ConfirmationErrorCode
  ce_message :: string

definition ConfirmationError_new :: "ConfirmationErrorCode \<Rightarrow> string \<Rightarrow> ConfirmationError" where
  "ConfirmationError_new c m = \<lparr>ce_code = c, ce_message = m\<rparr>"

definition confirmation_transaction_error :: "TransactionError \<Rightarrow> ConfirmationError" where
  "confirmation_transaction_error e = ConfirmationError_new CeInvalidTransaction (te_message e)"

definition cleanup_error :: "RootCleanupError \<Rightarrow> ConfirmationError" where
  "cleanup_error e = ConfirmationError_new CeStateCommit (rce_message e)"

datatype CleanupPass = NoRecords | Completed | CleanupsPending

datatype OldRootCleanupOutcome = Removed | Deferred (blocked_subvolumes: "string list") (diagnostic: string)

subsection \<open>The trait\<close>

record confirmation_backend =
  cb_lock_confirmation :: "(ConfirmationError, unit) io"
  cb_pending :: "(ConfirmationError, RollbackTransaction option) io"
  cb_deployment :: "uuid \<Rightarrow> (ConfirmationError, DeploymentRecord) io"
  cb_boot_id :: "(ConfirmationError, string) io"
  cb_kernel_release :: "(ConfirmationError, string) io"
  cb_requested_rollback :: "(ConfirmationError, uuid option) io"
  cb_current_snapshot_parent_uuid :: "(ConfirmationError, string) io"
  cb_current_root_uuid :: "(ConfirmationError, string) io"
  cb_current_home_snapshot_parent_uuid :: "(ConfirmationError, string) io"
  cb_update_transaction :: "RollbackTransaction \<Rightarrow> (ConfirmationError, unit) io"
  cb_pending_root_cleanups :: "(ConfirmationError, RootCleanupRecord list) io"
  cb_schedule_old_root_cleanup :: "RollbackTransaction \<Rightarrow> (ConfirmationError, RootCleanupRecord) io"
  cb_cleanup_old_root :: "RootCleanupRecord \<Rightarrow> (ConfirmationError, OldRootCleanupOutcome) io"
  cb_defer_old_root_cleanup :: "RootCleanupRecord \<Rightarrow> string list \<Rightarrow> string \<Rightarrow> (ConfirmationError, unit) io"
  cb_complete_old_root_cleanup :: "RootCleanupRecord \<Rightarrow> (ConfirmationError, unit) io"
  cb_remove_transaction :: "(ConfirmationError, unit) io"
  cb_archive_transaction :: "RollbackTransaction \<Rightarrow> (ConfirmationError, unit) io"
  cb_purge_factory_reset_history :: "RollbackTransaction \<Rightarrow> (ConfirmationError, unit) io"
  cb_clear_once :: "(ConfirmationError, unit) io"
  cb_regenerate_grub :: "(ConfirmationError, unit) io"
  cb_record_lineage_activation :: "RollbackTransaction \<Rightarrow> ActivationOutcome \<Rightarrow> (ConfirmationError, unit) io"

subsection \<open>The engine\<close>

definition verify_target_identity :: "confirmation_backend \<Rightarrow> RollbackTransaction \<Rightarrow> (ConfirmationError, unit) io" where
  "verify_target_identity B t =
     io_bind (cb_deployment B (tx_target_deployment_id t)) (\<lambda>target.
     case (if tx_home_only t then dep_snapshot_parent_uuid target else dep_snapshot_uuid target) of
       None \<Rightarrow> io_throw (ConfirmationError_new CeInvalidTransaction ''The rollback target has no snapshot UUID'')
     | Some expected_parent \<Rightarrow>
         io_bind (if tx_home_only t then cb_current_root_uuid B else cb_current_snapshot_parent_uuid B) (\<lambda>running_identity.
         if running_identity \<noteq> expected_parent
         then io_throw (ConfirmationError_new CeIdentityMismatch
                ''The running root is not a writable snapshot of the rollback target'')
         else if tx_reset_home t
         then
           (case tx_factory_home_snapshot_uuid t of
              None \<Rightarrow> io_throw (ConfirmationError_new CeInvalidTransaction
                        ''The factory Home reset has no baseline UUID'')
            | Some expected_home_parent \<Rightarrow>
                io_bind (cb_current_home_snapshot_parent_uuid B) (\<lambda>home_parent.
                if home_parent \<noteq> expected_home_parent
                then io_throw (ConfirmationError_new CeIdentityMismatch
                       ''The running Home is not a writable snapshot of the factory baseline'')
                else io_return ()))
         else io_return ()))"

definition expected_boot :: "RollbackTransaction \<Rightarrow> string option" where
  "expected_boot t = (if restarts_after_apply t then tx_target_boot_id t else tx_applying_boot_id t)"

definition expected_kernel :: "RollbackTransaction \<Rightarrow> string" where
  "expected_kernel t = (case tx_target_kernel_release t of Some k \<Rightarrow> k | None \<Rightarrow> tx_kernel_release t)"

definition verify_running_target :: "confirmation_backend \<Rightarrow> RollbackTransaction \<Rightarrow> (ConfirmationError, unit) io" where
  "verify_running_target B t =
     io_bind (cb_boot_id B) (\<lambda>boot_id.
     if Some boot_id \<noteq> expected_boot t
     then io_throw (ConfirmationError_new CeIdentityMismatch ''Rollback confirmation is running in a different boot'')
     else
       io_bind (cb_kernel_release B) (\<lambda>release.
       if release \<noteq> expected_kernel t
       then io_throw (ConfirmationError_new CeIdentityMismatch
              ''The running kernel does not match the rollback transaction'')
       else verify_target_identity B t))"

fun retry_loop :: "confirmation_backend \<Rightarrow> RootCleanupRecord list \<Rightarrow> bool \<Rightarrow> (ConfirmationError, CleanupPass) io" where
  "retry_loop B [] pending = io_return (if pending then CleanupsPending else Completed)"
| "retry_loop B (record # records) pending =
     io_match (cb_cleanup_old_root B record) (\<lambda>result.
       case result of
         Inr Removed \<Rightarrow>
           io_bind (cb_complete_old_root_cleanup B record) (\<lambda>_. retry_loop B records pending)
       | Inr (Deferred blocked message) \<Rightarrow>
           io_bind (cb_defer_old_root_cleanup B record blocked message) (\<lambda>_. retry_loop B records True)
       | Inl e \<Rightarrow>
           io_bind (cb_defer_old_root_cleanup B record [] (ce_message e)) (\<lambda>_. retry_loop B records True))"

definition retry_pending_root_cleanups :: "confirmation_backend \<Rightarrow> (ConfirmationError, CleanupPass) io" where
  "retry_pending_root_cleanups B =
     io_bind (cb_pending_root_cleanups B) (\<lambda>records.
     if records = [] then io_return NoRecords else retry_loop B records False)"

definition finish_confirmed :: "confirmation_backend \<Rightarrow> RollbackTransaction \<Rightarrow> (ConfirmationError, bool) io" where
  "finish_confirmed B t =
     io_bind (if \<not> tx_home_only t then cb_record_lineage_activation B t ActConfirmed else io_return ()) (\<lambda>_.
     io_bind (cb_schedule_old_root_cleanup B t) (\<lambda>_.
     io_bind
       (if tx_purge_history t
        then
          io_bind (verify_target_identity B t) (\<lambda>_.
          io_bind (retry_pending_root_cleanups B) (\<lambda>pass.
          if pass = CleanupsPending
          then io_throw (ConfirmationError_new CeCommandFailed
                 ''Factory reset history cleanup is incomplete; old subvolumes remain'')
          else cb_purge_factory_reset_history B t))
        else io_return ()) (\<lambda>_.
     io_bind (cb_clear_once B) (\<lambda>_.
     io_bind (cb_archive_transaction B t) (\<lambda>_.
     io_bind (cb_remove_transaction B) (\<lambda>_.
     io_bind (cb_regenerate_grub B) (\<lambda>_.
     io_bind (retry_pending_root_cleanups B) (\<lambda>pass. io_return (pass = CleanupsPending)))))))))"

definition finish_failed :: "confirmation_backend \<Rightarrow> RollbackTransaction \<Rightarrow> (ConfirmationError, unit) io" where
  "finish_failed B t =
     io_bind (cb_clear_once B) (\<lambda>_.
     io_bind (cb_archive_transaction B t) (\<lambda>_.
     io_bind (cb_remove_transaction B) (\<lambda>_.
     io_bind (cb_regenerate_grub B) (\<lambda>_.
     io_return ()))))"

definition finish_reverted :: "confirmation_backend \<Rightarrow> RollbackTransaction \<Rightarrow> (ConfirmationError, unit) io" where
  "finish_reverted B t =
     io_bind (if \<not> tx_home_only t then cb_record_lineage_activation B t ActReverted else io_return ()) (\<lambda>_.
     io_bind (cb_clear_once B) (\<lambda>_.
     io_bind (cb_archive_transaction B t) (\<lambda>_.
     io_bind (cb_remove_transaction B) (\<lambda>_.
     io_bind (cb_regenerate_grub B) (\<lambda>_.
     io_return ())))))"

definition confirmed_outcome :: "bool \<Rightarrow> ConfirmationOutcome" where
  "confirmed_outcome pending = (if pending then CoConfirmedCleanupPending else CoConfirmed)"

definition missed_recovery :: string where
  "missed_recovery = ''The recovery boot reached userspace without entering the initramfs recovery engine''"

text \<open>A method of the transaction with its error mapped: the updated record, or the error.\<close>

definition io_update :: "tx_update \<Rightarrow> (ConfirmationError, RollbackTransaction) io" where
  "io_update u =
     (case snd u of Inl e \<Rightarrow> io_throw (confirmation_transaction_error e) | Inr _ \<Rightarrow> io_return (fst u))"

definition reconcile :: "uuid_lib \<Rightarrow> confirmation_backend \<Rightarrow> (ConfirmationError, ConfirmationOutcome) io" where
  "reconcile U B =
     io_bind (cb_lock_confirmation B) (\<lambda>_.
     io_bind (cb_pending B) (\<lambda>pending.
     case pending of
       None \<Rightarrow>
         io_bind (retry_pending_root_cleanups B) (\<lambda>pass.
         io_return (case pass of NoRecords \<Rightarrow> CoNoAction | Completed \<Rightarrow> CoCleanupCompleted
                    | CleanupsPending \<Rightarrow> CoCleanupPending))
     | Some t \<Rightarrow>
         (case tx_phase t of
            Armed \<Rightarrow>
              io_bind (cb_requested_rollback B) (\<lambda>requested.
              if requested = Some (tx_id t)
              then
                io_bind utc_now (\<lambda>now.
                io_bind (io_update (record_failure U missed_recovery now t)) (\<lambda>t.
                io_bind (cb_update_transaction B t) (\<lambda>_.
                io_bind (finish_failed B t) (\<lambda>_. io_return CoFailedRecorded))))
              else io_return CoNoAction)
          | BootedUnconfirmed \<Rightarrow>
              io_bind (verify_running_target B t) (\<lambda>_.
              io_bind utc_now (\<lambda>now.
              io_bind (io_update (transition U Confirmed now t)) (\<lambda>t.
              io_bind (cb_update_transaction B t) (\<lambda>_.
              io_bind (finish_confirmed B t) (\<lambda>pending. io_return (confirmed_outcome pending))))))
          | Confirmed \<Rightarrow> io_bind (finish_confirmed B t) (\<lambda>pending. io_return (confirmed_outcome pending))
          | Reverted \<Rightarrow> io_bind (finish_reverted B t) (\<lambda>_. io_return CoRevertedRecorded)
          | Failed \<Rightarrow> io_bind (finish_failed B t) (\<lambda>_. io_return CoFailedRecorded)
          | _ \<Rightarrow> io_return CoNoAction)))"

subsection \<open>Commands and parsers\<close>

definition MOUNT :: string where "MOUNT = ''/usr/bin/mount''"
definition UMOUNT :: string where "UMOUNT = ''/usr/bin/umount''"
definition UPDATE_GRUB :: string where "UPDATE_GRUB = ''/usr/sbin/update-grub''"
definition BOOT_ID :: path where "BOOT_ID = [''proc'', ''sys'', ''kernel'', ''random'', ''boot_id'']"
definition KERNEL_COMMAND_LINE :: path where "KERNEL_COMMAND_LINE = [''proc'', ''cmdline'']"
definition TOP_LEVEL :: path where "TOP_LEVEL = [''run'', ''anduinos-btrfs-snapshots-manager'', ''top'']"
definition MAX_COMMAND_OUTPUT :: nat where "MAX_COMMAND_OUTPUT = 1024 * 1024"
definition MAX_COMMAND_DIAGNOSTIC :: nat where "MAX_COMMAND_DIAGNOSTIC = 4096"
definition RECOVERY_STORE_ROOT :: path where
  "RECOVERY_STORE_ROOT = [''.snapshots'', ''anduinos-btrfs-snapshots-manager'']"

definition command_diagnostic :: "bytes \<Rightarrow> string" where
  "command_diagnostic err =
     (if MAX_COMMAND_DIAGNOSTIC < length err
      then ''diagnostic output exceeded '' @ show_nat MAX_COMMAND_DIAGNOSTIC @ '' bytes''
      else if utf8_valid err
      then (let value = str_trim err in if value = [] then [] else bounded_diagnostic value)
      else ''diagnostic output was not UTF-8'')"

definition run_command :: "programs \<Rightarrow> string \<Rightarrow> argument list \<Rightarrow> string \<Rightarrow> (ConfirmationError, string) io" where
  "run_command run program arguments stage =
     io_bind (io_map_err (\<lambda>e. ConfirmationError_new CeCommandFailed
         (''Could not execute '' @ program @ '' while '' @ stage @ '': '' @ err_text e)) (run program arguments)) (\<lambda>out.
     if \<not> success out
     then
       let d = command_diagnostic (stderr out) in
       io_throw (ConfirmationError_new CeCommandFailed
         (program @ '' exited with '' @ status out @ '' while '' @ stage @ (if d = [] then [] else '': '' @ d)))
     else if MAX_COMMAND_OUTPUT < length (stdout out)
     then io_throw (ConfirmationError_new CeCommandFailed (program @ '' returned excessive output while '' @ stage))
     else if \<not> utf8_valid (stdout out)
     then io_throw (ConfirmationError_new CeCommandFailed (program @ '' returned non-UTF-8 output while '' @ stage))
     else io_return (stdout out))"

definition validate_cleanup_name :: "uuid_lib \<Rightarrow> string \<Rightarrow> string \<Rightarrow> ConfirmationError + unit" where
  "validate_cleanup_name U value expected_prefix =
     (case strip_prefix expected_prefix value of
        None \<Rightarrow> Inl (ConfirmationError_new CeInvalidTransaction ''The root cleanup target has an invalid name'')
      | Some i \<Rightarrow>
          (case parse_str U i of
             None \<Rightarrow> Inl (ConfirmationError_new CeInvalidTransaction
                       ''The root cleanup target has an invalid transaction ID'')
           | Some parsed \<Rightarrow>
               check (hyphenated U parsed \<noteq> i) (ConfirmationError_new CeInvalidTransaction
                 ''The root cleanup target has a non-canonical transaction ID'')))"

text \<open>One record of \<open>btrfs subvolume list\<close>: the path below the old root, as reported.\<close>

definition descendant_path :: "string \<Rightarrow> string \<Rightarrow> ConfirmationError + string" where
  "descendant_path root_name line =
     (case split_once '' path '' line of
        None \<Rightarrow> Inl (ConfirmationError_new CeCommandFailed
                  ''Btrfs returned an unrecognized descendant-subvolume record'')
      | Some (_, reported) \<Rightarrow>
          let reported = (case strip_prefix ''<FS_TREE>/'' reported of None \<Rightarrow> reported | Some r \<Rightarrow> r) in
          case strip_prefix (root_name @ ''/'') reported of
            None \<Rightarrow> Inl (ConfirmationError_new CeIdentityMismatch
                      ''Btrfs reported a descendant outside the protected old root'')
          | Some relative \<Rightarrow>
              if relative = [] \<or> list_ex char_is_control (chars relative) \<or> \<not> normal_components relative
              then Inl (ConfirmationError_new CeIdentityMismatch ''Btrfs reported an unsafe old-root descendant path'')
              else Inr relative)"

fun descendant_paths :: "string \<Rightarrow> string list \<Rightarrow> ConfirmationError + string list" where
  "descendant_paths root_name [] = Inr []"
| "descendant_paths root_name (line # ls) =
     (if str_trim line = [] then descendant_paths root_name ls
      else case descendant_path root_name line of
        Inl e \<Rightarrow> Inl e
      | Inr relative \<Rightarrow>
          (case descendant_paths root_name ls of Inl e \<Rightarrow> Inl e | Inr paths \<Rightarrow> Inr (relative # paths)))"

text \<open>\<open>Vec<PathBuf>::sort\<close> and \<open>dedup\<close>: paths are compared by their components.\<close>

fun dedup_paths :: "string list \<Rightarrow> string list" where
  "dedup_paths (a # b # ps) =
     (if path_components a = path_components b then dedup_paths (a # ps) else a # dedup_paths (b # ps))"
| "dedup_paths ps = ps"

definition parse_descendant_subvolumes :: "string \<Rightarrow> string \<Rightarrow> ConfirmationError + string list" where
  "parse_descendant_subvolumes listing root_name =
     (case descendant_paths root_name (lines listing) of
        Inl e \<Rightarrow> Inl e
      | Inr paths \<Rightarrow> Inr (dedup_paths (sort_key path_components paths)))"

definition path_to_record :: "string \<Rightarrow> ConfirmationError + string" where
  "path_to_record p =
     (if utf8_valid p then Inr p
      else Inl (ConfirmationError_new CeIdentityMismatch ''An old-root descendant path is not UTF-8''))"

fun requested_loop :: "uuid_lib \<Rightarrow> string list \<Rightarrow> uuid option \<Rightarrow> ConfirmationError + uuid option" where
  "requested_loop U [] requested = Inr requested"
| "requested_loop U (argument # arguments) requested =
     (case strip_prefix ''anduinos.btrfs_snapshots_manager='' argument of
        None \<Rightarrow> requested_loop U arguments requested
      | Some value \<Rightarrow>
          (case parse_str U value of
             None \<Rightarrow> Inl (ConfirmationError_new CeInvalidTransaction
                       ''The kernel command line contains an invalid rollback ID'')
           | Some i \<Rightarrow>
               if hyphenated U i \<noteq> value \<or> requested \<noteq> None
               then Inl (ConfirmationError_new CeInvalidTransaction
                      ''The kernel command line contains an ambiguous rollback request'')
               else requested_loop U arguments (Some i)))"

definition parse_requested_rollback :: "uuid_lib \<Rightarrow> string \<Rightarrow> ConfirmationError + uuid option" where
  "parse_requested_rollback U command_line = requested_loop U (split_whitespace command_line) None"

text \<open>The first line that, trimmed, starts with the label.\<close>

definition labelled :: "string \<Rightarrow> string \<Rightarrow> string option" where
  "labelled label text =
     (case List.map_filter (\<lambda>line. strip_prefix label (str_trim line)) (lines text) of [] \<Rightarrow> None | v # _ \<Rightarrow> Some v)"

definition parse_parent_uuid :: "uuid_lib \<Rightarrow> string \<Rightarrow> ConfirmationError + string" where
  "parse_parent_uuid U text =
     (case labelled ''Parent UUID:'' text of
        None \<Rightarrow> Inl (ConfirmationError_new CeIdentityMismatch ''Btrfs did not report the running root parent UUID'')
      | Some value \<Rightarrow>
          (case parse_str U (str_trim value) of
             None \<Rightarrow> Inl (ConfirmationError_new CeIdentityMismatch ''The running root parent UUID is invalid'')
           | Some u \<Rightarrow> Inr (hyphenated U u)))"

definition parse_root_uuid :: "uuid_lib \<Rightarrow> string \<Rightarrow> ConfirmationError + string" where
  "parse_root_uuid U text =
     (case labelled ''UUID:'' text of
        None \<Rightarrow> Inl (ConfirmationError_new CeIdentityMismatch ''Missing root UUID'')
      | Some value \<Rightarrow>
          (case parse_str U (str_trim value) of
             None \<Rightarrow> Inl (ConfirmationError_new CeIdentityMismatch ''Invalid root UUID'')
           | Some u \<Rightarrow> Inr (hyphenated U u)))"

definition read_canonical_uuid :: "uuid_lib \<Rightarrow> path \<Rightarrow> string \<Rightarrow> (ConfirmationError, string) io" where
  "read_canonical_uuid U p name =
     io_bind (io_map_err (\<lambda>e. ConfirmationError_new CeIdentityMismatch
         (''Could not read '' @ name @ '': '' @ err_text e)) (read_to_string p)) (\<lambda>value.
     let value = str_trim value in
     case parse_str U value of
       None \<Rightarrow> io_throw (ConfirmationError_new CeIdentityMismatch (name @ '' is invalid''))
     | Some parsed \<Rightarrow>
         if hyphenated U parsed \<noteq> value
         then io_throw (ConfirmationError_new CeIdentityMismatch (name @ '' is not canonical''))
         else io_return value)"

subsection \<open>The old subvolumes\<close>

text \<open>\<open>Path::is_dir\<close>: an error counts as no.\<close>

definition path_is_dir :: "path \<Rightarrow> ('e, bool) io" where
  "path_is_dir p w = (Inr (fault w (ticks w) = None \<and> fs_is_dir (nodes w) p), tick w)"

text \<open>\<open>fs::create_dir_all\<close>, with the usual file mode mask.\<close>

function create_dir_all :: "path \<Rightarrow> (io_error, unit) io" where
  "create_dir_all p =
     (if p = [] then io_return ()
      else
        io_match (create_dir p 0x1ED) (\<lambda>r.
          case r of
            Inr _ \<Rightarrow> io_return ()
          | Inl e \<Rightarrow>
              io_bind (if err_kind e = NotFound then io_return False else path_is_dir p) (\<lambda>there.
              if there then io_return ()
              else if err_kind e \<noteq> NotFound then io_throw e
              else
                io_bind (create_dir_all (butlast p)) (\<lambda>_.
                io_match (create_dir p 0x1ED) (\<lambda>r.
                  case r of
                    Inr _ \<Rightarrow> io_return ()
                  | Inl e \<Rightarrow>
                      io_bind (path_is_dir p) (\<lambda>there. if there then io_return () else io_throw e))))))"
  by pat_completeness auto

termination create_dir_all
  by (relation "measure length") auto

declare create_dir_all.simps [simp del]

definition ensure_mount_directory :: "path \<Rightarrow> (ConfirmationError, unit) io" where
  "ensure_mount_directory p =
     io_bind
       (if p \<noteq> []
        then io_map_err (\<lambda>e. ConfirmationError_new CeCommandFailed
               (''Could not create the recovery runtime directory: '' @ err_text e)) (create_dir_all (butlast p))
        else io_return ()) (\<lambda>_.
     io_match (symlink_metadata p) (\<lambda>r.
       case r of
         Inr metadata \<Rightarrow>
           (if ftype metadata = Directory then io_return ()
            else io_throw (ConfirmationError_new CeIdentityMismatch ''The recovery mount point is not a real directory''))
       | Inl e \<Rightarrow>
           (if err_kind e = NotFound
            then io_map_err (\<lambda>e. ConfirmationError_new CeCommandFailed
                   (''Could not create the recovery mount point: '' @ err_text e)) (create_dir p 0x1ED)
            else io_throw (ConfirmationError_new CeCommandFailed
                   (''Could not inspect the recovery mount point: '' @ err_text e)))))"

fun delete_descendants ::
  "programs \<Rightarrow> path \<Rightarrow> string list \<Rightarrow> string list \<Rightarrow> (ConfirmationError, string list) io" where
  "delete_descendants run old_root [] blocked = io_return blocked"
| "delete_descendants run old_root (relative # rest) blocked =
     (let target = old_root @ path_components relative;
          failed = (\<lambda>e. ConfirmationError_new CeCommandFailed
            (''Could not inspect an old-root descendant subvolume: '' @ err_text e)) in
      io_match (symlink_metadata target) (\<lambda>r.
        case r of
          Inl e \<Rightarrow>
            (if err_kind e = NotFound then delete_descendants run old_root rest blocked else io_throw (failed e))
        | Inr metadata \<Rightarrow>
            if ftype metadata \<noteq> Directory
            then io_throw (ConfirmationError_new CeIdentityMismatch
                   ''An old-root descendant subvolume is not a real directory'')
            else
              io_bind (io_map_err failed (read_dir target)) (\<lambda>entries.
              io_match (first_entry entries) (\<lambda>first.
              if first \<noteq> Inr None
              then io_bind (io_lift (path_to_record relative)) (\<lambda>p.
                   delete_descendants run old_root rest (blocked @ [p]))
              else
                io_bind (run_command run BTRFS (btrfs_delete target)
                    ''deleting an empty descendant subvolume from the old root'') (\<lambda>_.
                delete_descendants run old_root rest blocked)))))"

definition deferred_diagnostic :: string where
  "deferred_diagnostic =
     ''The old root contains non-empty descendant subvolumes; automatic deletion was deferred''"

definition cleanup_old_subvolume_at ::
  "uuid_lib \<Rightarrow> programs \<Rightarrow> path \<Rightarrow> string \<Rightarrow> string \<Rightarrow> (ConfirmationError, OldRootCleanupOutcome) io" where
  "cleanup_old_subvolume_at U run top_level root_name expected_prefix =
     io_bind (io_lift (validate_cleanup_name U root_name expected_prefix)) (\<lambda>_.
     let old_root = top_level @ [root_name] in
     io_match (symlink_metadata old_root) (\<lambda>r.
       case r of
         Inl e \<Rightarrow>
           (if err_kind e = NotFound then io_return Removed
            else io_throw (ConfirmationError_new CeCommandFailed
                   (''Could not inspect the protected old root: '' @ err_text e)))
       | Inr metadata \<Rightarrow>
           if ftype metadata \<noteq> Directory
           then io_throw (ConfirmationError_new CeIdentityMismatch ''The protected old root is not a real directory'')
           else
             io_bind (run_command run BTRFS (btrfs_list old_root)
                 ''listing descendant subvolumes below the old root'') (\<lambda>listing.
             io_bind (io_lift (parse_descendant_subvolumes listing root_name)) (\<lambda>descendants.
             io_bind (delete_descendants run old_root
                 (sort_key (\<lambda>p. - int (length (path_components p))) descendants) []) (\<lambda>blocked.
             if blocked \<noteq> [] then io_return (Deferred blocked deferred_diagnostic)
             else
               io_bind (run_command run BTRFS (btrfs_delete old_root) ''deleting the old root subvolume'') (\<lambda>_.
               io_return Removed))))))"

definition cleanup_old_root_at :: "uuid_lib \<Rightarrow> programs \<Rightarrow> path \<Rightarrow> string \<Rightarrow> (ConfirmationError, OldRootCleanupOutcome) io" where
  "cleanup_old_root_at U run top_level root_name =
     cleanup_old_subvolume_at U run top_level root_name ''@root.snapshots-manager-old-''"

definition cleanup_old_home_at :: "uuid_lib \<Rightarrow> programs \<Rightarrow> path \<Rightarrow> string \<Rightarrow> (ConfirmationError, OldRootCleanupOutcome) io" where
  "cleanup_old_home_at U run top_level home_name =
     cleanup_old_subvolume_at U run top_level home_name ''@home.snapshots-manager-old-''"

definition ensure_supported_root :: "LayoutReport \<Rightarrow> ConfirmationError + unit" where
  "ensure_supported_root report =
     check (\<not> LayoutReport_is_supported report)
       (ConfirmationError_new CeIdentityMismatch ''The running root no longer has the AnduinOS Btrfs layout'')"

subsection \<open>The system backend\<close>

text \<open>
  What the backend reaches outside the modelled code: the libraries, the external programs and
  \<open>history_cleanup::purge\<close>.
\<close>

record confirmation_env =
  cv_uuid :: uuid_lib
  cv_tx :: tx_json
  cv_dep :: dep_json
  cv_lin :: lin_json
  cv_cleanup :: cleanup_json
  cv_run :: programs
  cv_purge :: "RollbackTransaction \<Rightarrow> (string, unit) io"

definition system_lock_confirmation :: "(ConfirmationError, unit) io" where
  "system_lock_confirmation =
     io_map_err (\<lambda>e. ConfirmationError_new CeStateCommit
       (''Could not coordinate recovery confirmation: '' @ err_text e)) (acquire_preparation RECOVERY_STORE_ROOT)"

definition system_pending :: "confirmation_env \<Rightarrow> (ConfirmationError, RollbackTransaction option) io" where
  "system_pending V =
     io_map_err confirmation_transaction_error
       (load_pending (cv_uuid V) (cv_tx V) (transactions_dir RECOVERY_STORE_ROOT))"

definition system_deployment :: "confirmation_env \<Rightarrow> uuid \<Rightarrow> (ConfirmationError, DeploymentRecord) io" where
  "system_deployment V i =
     io_map_err (\<lambda>e. ConfirmationError_new CeInvalidTransaction (di_message e))
       (load_record (cv_uuid V) (cv_dep V) RECOVERY_STORE_ROOT i)"

definition system_boot_id :: "confirmation_env \<Rightarrow> (ConfirmationError, string) io" where
  "system_boot_id V = read_canonical_uuid (cv_uuid V) BOOT_ID ''boot ID''"

definition system_kernel_release :: "(ConfirmationError, string) io" where
  "system_kernel_release =
     io_bind (io_map_err (\<lambda>e. ConfirmationError_new CeIdentityMismatch
         (''Could not read the running kernel release: '' @ err_text e)) (read_to_string KERNEL_RELEASE)) (\<lambda>value.
     let value = str_trim value in
     if value = [] \<or> 128 < length value \<or> \<not> list_all (\<lambda>b. is_ascii_alphanumeric b \<or> b \<in> set ''._+-'') value
     then io_throw (ConfirmationError_new CeIdentityMismatch ''The running kernel release is unsafe'')
     else io_return value)"

definition system_requested_rollback :: "confirmation_env \<Rightarrow> (ConfirmationError, uuid option) io" where
  "system_requested_rollback V =
     io_bind (io_map_err (\<lambda>e. ConfirmationError_new CeIdentityMismatch
         (''Could not read the kernel command line: '' @ err_text e)) (read_to_string KERNEL_COMMAND_LINE)) (\<lambda>command_line.
     io_lift (parse_requested_rollback (cv_uuid V) command_line))"

definition system_current_snapshot_parent_uuid :: "confirmation_env \<Rightarrow> (ConfirmationError, string) io" where
  "system_current_snapshot_parent_uuid V =
     io_bind (run_command (cv_run V) BTRFS (btrfs_show []) ''inspecting the running root subvolume'') (\<lambda>text.
     io_lift (parse_parent_uuid (cv_uuid V) text))"

definition system_current_home_snapshot_parent_uuid :: "confirmation_env \<Rightarrow> (ConfirmationError, string) io" where
  "system_current_home_snapshot_parent_uuid V =
     io_bind (run_command (cv_run V) BTRFS (btrfs_show [''home'']) ''inspecting the running Home subvolume'') (\<lambda>text.
     io_lift (parse_parent_uuid (cv_uuid V) text))"

definition system_current_root_uuid :: "confirmation_env \<Rightarrow> (ConfirmationError, string) io" where
  "system_current_root_uuid V =
     io_bind (run_command (cv_run V) BTRFS (btrfs_show []) ''inspecting the unchanged root subvolume'') (\<lambda>text.
     io_lift (parse_root_uuid (cv_uuid V) text))"

definition system_update_transaction :: "confirmation_env \<Rightarrow> RollbackTransaction \<Rightarrow> (ConfirmationError, unit) io" where
  "system_update_transaction V t =
     io_map_err confirmation_transaction_error
       (tx_update_store (cv_uuid V) (cv_tx V) (transactions_dir RECOVERY_STORE_ROOT) t)"

definition system_pending_root_cleanups :: "confirmation_env \<Rightarrow> (ConfirmationError, RootCleanupRecord list) io" where
  "system_pending_root_cleanups V =
     io_map_err cleanup_error (cleanup_list (cv_uuid V) (cv_cleanup V) (cleanup_directory RECOVERY_STORE_ROOT))"

definition system_schedule_old_root_cleanup ::
  "confirmation_env \<Rightarrow> RollbackTransaction \<Rightarrow> (ConfirmationError, RootCleanupRecord) io" where
  "system_schedule_old_root_cleanup V t =
     io_map_err cleanup_error (cleanup_schedule (cv_uuid V) (cv_cleanup V) (cleanup_directory RECOVERY_STORE_ROOT) t)"

definition system_cleanup_old_root ::
  "confirmation_env \<Rightarrow> RootCleanupRecord \<Rightarrow> (ConfirmationError, OldRootCleanupOutcome) io" where
  "system_cleanup_old_root V r =
     io_bind inspect_current (\<lambda>report.
     io_bind (io_lift (ensure_supported_root report)) (\<lambda>_.
     case lr_root_source report of
       None \<Rightarrow> io_throw (ConfirmationError_new CeIdentityMismatch ''The root filesystem source is unavailable'')
     | Some source \<Rightarrow>
         io_bind (ensure_mount_directory TOP_LEVEL) (\<lambda>_.
         io_bind (run_command (cv_run V) MOUNT [Arg ''-o'', Arg ''subvolid=5'', Arg source, PathArg TOP_LEVEL]
             ''mounting the Btrfs top level for old-root cleanup'') (\<lambda>_.
         io_match
           (io_bind (cleanup_old_root_at (cv_uuid V) (cv_run V) TOP_LEVEL (rc_old_root_name r)) (\<lambda>outcome.
            case rc_old_home_name r of
              None \<Rightarrow> io_return outcome
            | Some name \<Rightarrow>
                io_bind (cleanup_old_home_at (cv_uuid V) (cv_run V) TOP_LEVEL name) (\<lambda>home_outcome.
                io_return (case outcome of Removed \<Rightarrow> home_outcome | Deferred _ _ \<Rightarrow> outcome)))) (\<lambda>result.
         io_match (run_command (cv_run V) UMOUNT [PathArg TOP_LEVEL]
             ''unmounting the Btrfs top level after old-root cleanup'') (\<lambda>unmount.
         case (result, unmount) of
           (Inl e, _) \<Rightarrow> io_throw e
         | (Inr _, Inl e) \<Rightarrow> io_throw e
         | (Inr outcome, Inr _) \<Rightarrow> io_return outcome))))))"

definition system_defer_old_root_cleanup ::
  "confirmation_env \<Rightarrow> RootCleanupRecord \<Rightarrow> string list \<Rightarrow> string \<Rightarrow> (ConfirmationError, unit) io" where
  "system_defer_old_root_cleanup V r blocked message =
     io_bind (record_deferred (cv_uuid V) blocked message r) (\<lambda>(r, result).
     io_bind (io_map_err cleanup_error (io_lift result)) (\<lambda>_.
     io_map_err cleanup_error (cleanup_update (cv_uuid V) (cv_cleanup V) (cleanup_directory RECOVERY_STORE_ROOT) r)))"

definition system_complete_old_root_cleanup :: "confirmation_env \<Rightarrow> RootCleanupRecord \<Rightarrow> (ConfirmationError, unit) io" where
  "system_complete_old_root_cleanup V r =
     io_map_err cleanup_error (cleanup_remove (cv_uuid V) (cleanup_directory RECOVERY_STORE_ROOT) (rc_transaction_id r))"

definition system_remove_transaction :: "(ConfirmationError, unit) io" where
  "system_remove_transaction = io_map_err confirmation_transaction_error (tx_remove (transactions_dir RECOVERY_STORE_ROOT))"

definition system_archive_transaction :: "confirmation_env \<Rightarrow> RollbackTransaction \<Rightarrow> (ConfirmationError, unit) io" where
  "system_archive_transaction V t =
     io_map_err confirmation_transaction_error
       (tx_archive (cv_uuid V) (cv_tx V) (transactions_dir RECOVERY_STORE_ROOT) t)"

definition system_purge_factory_reset_history ::
  "confirmation_env \<Rightarrow> RollbackTransaction \<Rightarrow> (ConfirmationError, unit) io" where
  "system_purge_factory_reset_history V t = io_map_err (ConfirmationError_new CeCommandFailed) (cv_purge V t)"

definition system_clear_once :: "confirmation_env \<Rightarrow> (ConfirmationError, unit) io" where
  "system_clear_once V =
     io_map_err (\<lambda>e. ConfirmationError_new CeCommandFailed (be_message e))
       (clear_pending_once \<lparr>bi_snapshot_root = RECOVERY_STORE_ROOT, bi_runner = boot_output (cv_run V)\<rparr>)"

definition system_regenerate_grub :: "confirmation_env \<Rightarrow> (ConfirmationError, unit) io" where
  "system_regenerate_grub V =
     io_bind (run_command (cv_run V) UPDATE_GRUB [] ''regenerating GRUB after recovery confirmation'') (\<lambda>_. io_return ())"

definition system_record_lineage_activation ::
  "confirmation_env \<Rightarrow> RollbackTransaction \<Rightarrow> ActivationOutcome \<Rightarrow> (ConfirmationError, unit) io" where
  "system_record_lineage_activation V t outcome =
     (let failed = (\<lambda>e. ConfirmationError_new CeStateCommit (''Could not update system history: '' @ le_message e));
          directory = RECOVERY_STORE_ROOT @ [''history''] in
      io_match (discover (cv_uuid V) (cv_dep V) RECOVERY_STORE_ROOT) (\<lambda>discovered.
      case discovered of
        Inl e \<Rightarrow> io_throw (ConfirmationError_new CeStateCommit (di_message e))
      | Inr deployments \<Rightarrow>
          io_map_err failed
            (io_bind (ensure_initialized (cv_uuid V) (cv_lin V) directory (dr_deployments deployments)) (\<lambda>_.
             io_bind utc_now (\<lambda>now.
             io_bind (record_activation (cv_uuid V) (cv_lin V) directory t outcome now) (\<lambda>_. io_return ()))))))"

definition system_backend :: "confirmation_env \<Rightarrow> confirmation_backend" where
  "system_backend V =
     \<lparr>cb_lock_confirmation = system_lock_confirmation, cb_pending = system_pending V,
      cb_deployment = system_deployment V, cb_boot_id = system_boot_id V, cb_kernel_release = system_kernel_release,
      cb_requested_rollback = system_requested_rollback V,
      cb_current_snapshot_parent_uuid = system_current_snapshot_parent_uuid V,
      cb_current_root_uuid = system_current_root_uuid V,
      cb_current_home_snapshot_parent_uuid = system_current_home_snapshot_parent_uuid V,
      cb_update_transaction = system_update_transaction V,
      cb_pending_root_cleanups = system_pending_root_cleanups V,
      cb_schedule_old_root_cleanup = system_schedule_old_root_cleanup V,
      cb_cleanup_old_root = system_cleanup_old_root V,
      cb_defer_old_root_cleanup = system_defer_old_root_cleanup V,
      cb_complete_old_root_cleanup = system_complete_old_root_cleanup V,
      cb_remove_transaction = system_remove_transaction, cb_archive_transaction = system_archive_transaction V,
      cb_purge_factory_reset_history = system_purge_factory_reset_history V, cb_clear_once = system_clear_once V,
      cb_regenerate_grub = system_regenerate_grub V,
      cb_record_lineage_activation = system_record_lineage_activation V\<rparr>"

subsection \<open>The contract of a backend\<close>

definition boot_holds :: "inode option \<Rightarrow> string \<Rightarrow> bool" where
  "boot_holds i value \<longleftrightarrow> slot_holds (\<lambda>b. str_trim b = value) i"

text \<open>A verification that holds in the boot and under the kernel that the transaction names.\<close>

definition verified_boot :: "inode option \<Rightarrow> inode option \<Rightarrow> RollbackTransaction \<Rightarrow> bool" where
  "verified_boot boot release t \<longleftrightarrow>
     (\<exists>b. boot_holds boot b \<and> expected_boot t = Some b) \<and> boot_holds release (expected_kernel t)"

definition archived :: "uuid_lib \<Rightarrow> tx_json \<Rightarrow> path \<Rightarrow> RollbackTransaction \<Rightarrow> world \<Rightarrow> bool" where
  "archived U J d t w \<longleftrightarrow>
     RollbackPhase_is_terminal (tx_phase t) \<and> RollbackTransaction_validate U t = Inr ()
     \<and> slot_holds (archived_as U J t) (map_of (nodes w) (history_path U d t))"

text \<open>What only the transaction store may change, and the files of the kernel that identify the boot.\<close>

definition kept_paths :: "path \<Rightarrow> path set" where
  "kept_paths d = {pending_path d, BOOT_ID, KERNEL_RELEASE} \<union> under (history_dir d)"

fun reconciled_phase :: "RollbackPhase \<Rightarrow> RollbackPhase" where
  "reconciled_phase Armed = Failed"
| "reconciled_phase BootedUnconfirmed = Confirmed"
| "reconciled_phase p = p"

text \<open>
  The rollback of the pending file \<open>i\<close> is on record: at most one step further, in a terminal
  phase, and complete in the pending file or in the archive.
\<close>

definition rollback_recorded ::
  "uuid_lib \<Rightarrow> tx_json \<Rightarrow> path \<Rightarrow> inode option \<Rightarrow> (RollbackTransaction \<Rightarrow> bool) \<Rightarrow> world \<Rightarrow> bool" where
  "rollback_recorded U J d i verified w \<longleftrightarrow>
     (\<exists>t t'. pending_decodes U J i t \<and> (t' = t \<or> tx_step U t t') \<and> tx_id t' = tx_id t
        \<and> tx_phase t' = reconciled_phase (tx_phase t) \<and> RollbackPhase_is_terminal (tx_phase t')
        \<and> (tx_phase t = BootedUnconfirmed \<longrightarrow> verified t)
        \<and> (slot_holds (tx_image U J t') (map_of (nodes w) (pending_path d)) \<or> archived U J d t' w))"

text \<open>
  A backend keeps the pending transaction: only \<open>update_transaction\<close> and
  \<open>remove_transaction\<close> change it, only \<open>archive_transaction\<close> changes the archive, and
  archiving succeeds only when the archive holds the transaction.
\<close>

locale confirmation_contract =
  fixes B :: confirmation_backend and U :: uuid_lib and J :: tx_json and d :: path
  assumes pending_ok: "io_triple (\<lambda>w. map_of (nodes w) = M) (cb_pending B)
      (\<lambda>r w. map_of (nodes w) = M \<and> (\<forall>t. r = Some t \<longrightarrow> pending_decodes U J (M (pending_path d)) t))
      (\<lambda>_ w. map_of (nodes w) = M)"
    and boot_id_ok: "io_triple (\<lambda>w. map_of (nodes w) BOOT_ID = i) (cb_boot_id B)
      (\<lambda>b _. boot_holds i b) (\<lambda>_ _. True)"
    and kernel_release_ok: "io_triple (\<lambda>w. map_of (nodes w) KERNEL_RELEASE = i) (cb_kernel_release B)
      (\<lambda>b _. boot_holds i b) (\<lambda>_ _. True)"
    and update_ok: "io_triple (\<lambda>w. map_of (nodes w) (pending_path d) = i) (cb_update_transaction B t)
      (\<lambda>_ w. slot_holds (tx_image U J t) (map_of (nodes w) (pending_path d)))
      (\<lambda>_ w. map_of (nodes w) (pending_path d) = i
         \<or> slot_holds (tx_image U J t) (map_of (nodes w) (pending_path d)))"
    and archive_ok: "io_triple (\<lambda>_. True) (cb_archive_transaction B t) (\<lambda>_. archived U J d t) (\<lambda>_ _. True)"
    and archive_frame: "touches (under (history_dir d)) (cb_archive_transaction B t)"
    and remove_frame: "touches {pending_path d} (cb_remove_transaction B)"
    and store_apart: "pending_path d \<notin> under (history_dir d)"
    and lock_frame: "touches (- kept_paths d) (cb_lock_confirmation B)"
    and deployment_frame: "touches (- kept_paths d) (cb_deployment B i')"
    and boot_id_frame: "touches (- kept_paths d) (cb_boot_id B)"
    and kernel_release_frame: "touches (- kept_paths d) (cb_kernel_release B)"
    and requested_frame: "touches (- kept_paths d) (cb_requested_rollback B)"
    and parent_frame: "touches (- kept_paths d) (cb_current_snapshot_parent_uuid B)"
    and root_frame: "touches (- kept_paths d) (cb_current_root_uuid B)"
    and home_frame: "touches (- kept_paths d) (cb_current_home_snapshot_parent_uuid B)"
    and cleanups_frame: "touches (- kept_paths d) (cb_pending_root_cleanups B)"
    and schedule_frame: "touches (- kept_paths d) (cb_schedule_old_root_cleanup B t)"
    and cleanup_frame: "touches (- kept_paths d) (cb_cleanup_old_root B r)"
    and defer_frame: "touches (- kept_paths d) (cb_defer_old_root_cleanup B r blocked message)"
    and complete_frame: "touches (- kept_paths d) (cb_complete_old_root_cleanup B r)"
    and purge_frame: "touches (- kept_paths d) (cb_purge_factory_reset_history B t)"
    and clear_frame: "touches (- kept_paths d) (cb_clear_once B)"
    and grub_frame: "touches (- kept_paths d) (cb_regenerate_grub B)"
    and lineage_frame: "touches (- kept_paths d) (cb_record_lineage_activation B t outcome)"
begin

lemmas quiet_frames = lock_frame deployment_frame boot_id_frame kernel_release_frame requested_frame parent_frame
  root_frame home_frame cleanups_frame schedule_frame cleanup_frame defer_frame complete_frame purge_frame
  clear_frame grub_frame lineage_frame

lemma history_kept: "history_path U d t \<in> kept_paths d"
  by (simp add: kept_paths_def history_path_def under_def)

lemma quiet_keeps:
  assumes "touches (- kept_paths d) m"
  shows "io_triple (\<lambda>w. P (map_of (nodes w) (pending_path d))) m
      (\<lambda>_ w. P (map_of (nodes w) (pending_path d))) (\<lambda>_ w. P (map_of (nodes w) (pending_path d)))"
    and "io_triple (archived U J d t) m (\<lambda>_. archived U J d t) (\<lambda>_. archived U J d t)"
proof -
  have "pending_path d \<in> kept_paths d" by (simp add: kept_paths_def)
  then show "io_triple (\<lambda>w. P (map_of (nodes w) (pending_path d))) m
      (\<lambda>_ w. P (map_of (nodes w) (pending_path d))) (\<lambda>_ w. P (map_of (nodes w) (pending_path d)))"
    using touchesD [OF assms] by (intro io_tripleI) force+
  show "io_triple (archived U J d t) m (\<lambda>_. archived U J d t) (\<lambda>_. archived U J d t)"
    using touchesD [OF assms, of _ _ _ "history_path U d t"] history_kept
    by (intro io_tripleI) (auto simp: archived_def)
qed

lemma retry_frame: "touches (- kept_paths d) (retry_pending_root_cleanups B)"
proof -
  have "touches (- kept_paths d) (retry_loop B rs pending)" for rs pending
    by (induction rs arbitrary: pending)
      (auto intro!: io_rules quiet_frames split: sum.splits OldRootCleanupOutcome.splits)
  then show ?thesis
    unfolding retry_pending_root_cleanups_def by (intro io_rules quiet_frames) auto
qed

lemma identity_frame: "touches (- kept_paths d) (verify_target_identity B t)"
  unfolding verify_target_identity_def by (intro io_rules quiet_frames)

text \<open>Whatever fails, the pending file still satisfies \<open>P\<close> or the transaction is in the archive.\<close>

lemma triple_finish_tail:
  assumes "touches (- kept_paths d) tail"
  shows "io_triple (\<lambda>w. P (map_of (nodes w) (pending_path d)))
    (io_bind (cb_clear_once B) (\<lambda>_. io_bind (cb_archive_transaction B t) (\<lambda>_.
     io_bind (cb_remove_transaction B) (\<lambda>_. io_bind (cb_regenerate_grub B) (\<lambda>_. tail)))))
    (\<lambda>_. archived U J d t)
    (\<lambda>_ w. P (map_of (nodes w) (pending_path d)) \<or> archived U J d t w)"
    (is "io_triple ?P _ _ ?E")
proof -
  have quiet: "io_triple ?P m (\<lambda>_. ?P) ?E" "io_triple (archived U J d t) m (\<lambda>_. archived U J d t) ?E"
    if "touches (- kept_paths d) m" for m :: "(ConfirmationError, 'y) io"
    using that by (auto intro: triple_weaken [OF quiet_keeps(1)] triple_weaken [OF quiet_keeps(2)])
  have archive: "io_triple ?P (cb_archive_transaction B t) (\<lambda>_. archived U J d t) ?E"
  proof (rule io_tripleI)
    show "archived U J d t w'" if "cb_archive_transaction B t w = (Inr x, w')" for w x w'
      using io_tripleD_ok [OF archive_ok TrueI that] .
    show "?E e w'" if "?P w" "cb_archive_transaction B t w = (Inl e, w')" for w e w'
      using touchesD [OF archive_frame that(2) store_apart] that(1) by simp
  qed
  have "history_path U d t \<noteq> pending_path d"
    using store_apart by (metis history_path_def mem_Collect_eq prefixI under_def)
  then have remove: "io_triple (archived U J d t) (cb_remove_transaction B) (\<lambda>_. archived U J d t) ?E"
    using touchesD [OF remove_frame, of _ _ _ "history_path U d t"] by (intro io_tripleI) (auto simp: archived_def)
  show ?thesis
    by (rule triple_bind [OF quiet(1) [OF clear_frame]], rule triple_bind [OF archive], rule triple_bind [OF remove],
        rule triple_bind [OF quiet(2) [OF grub_frame]], rule quiet(2) [OF assms])
qed

lemma triple_finish_failed:
  "io_triple (\<lambda>w. P (map_of (nodes w) (pending_path d))) (finish_failed B t) (\<lambda>_. archived U J d t)
    (\<lambda>_ w. P (map_of (nodes w) (pending_path d)) \<or> archived U J d t w)"
  unfolding finish_failed_def by (rule triple_finish_tail) (intro io_rules)

lemma triple_quiet_first:
  assumes "touches (- kept_paths d) m"
    and "\<And>x. io_triple (\<lambda>w. P (map_of (nodes w) (pending_path d))) (f x) Q
      (\<lambda>_ w. P (map_of (nodes w) (pending_path d)) \<or> archived U J d t w)"
  shows "io_triple (\<lambda>w. P (map_of (nodes w) (pending_path d))) (io_bind m f) Q
      (\<lambda>_ w. P (map_of (nodes w) (pending_path d)) \<or> archived U J d t w)"
  by (rule triple_bind [OF triple_weaken [OF quiet_keeps(1) [OF assms(1), of P]] assms(2)]) auto

lemma triple_finish_reverted:
  "io_triple (\<lambda>w. P (map_of (nodes w) (pending_path d))) (finish_reverted B t) (\<lambda>_. archived U J d t)
    (\<lambda>_ w. P (map_of (nodes w) (pending_path d)) \<or> archived U J d t w)"
  unfolding finish_reverted_def
  by (rule triple_quiet_first, (intro io_rules quiet_frames)[1], rule triple_finish_tail) (intro io_rules)

lemma triple_finish_confirmed:
  "io_triple (\<lambda>w. P (map_of (nodes w) (pending_path d))) (finish_confirmed B t) (\<lambda>_. archived U J d t)
    (\<lambda>_ w. P (map_of (nodes w) (pending_path d)) \<or> archived U J d t w)"
  unfolding finish_confirmed_def
  by (rule triple_quiet_first, (intro io_rules quiet_frames)[1],
      rule triple_quiet_first, (intro io_rules quiet_frames)[1],
      rule triple_quiet_first, (intro io_rules quiet_frames identity_frame retry_frame)[1],
      rule triple_finish_tail, intro io_rules retry_frame)

lemma boot_frozen:
  assumes "touches (- kept_paths d) m"
  shows "io_triple (\<lambda>w. map_of (nodes w) (pending_path d) = i \<and> map_of (nodes w) BOOT_ID = b \<and> map_of (nodes w) KERNEL_RELEASE = k) m
     (\<lambda>_ w. map_of (nodes w) (pending_path d) = i \<and> map_of (nodes w) BOOT_ID = b \<and> map_of (nodes w) KERNEL_RELEASE = k)
     (\<lambda>_ w. map_of (nodes w) (pending_path d) = i)"
  using touchesD [OF assms] by (intro io_tripleI) (force simp: kept_paths_def)+

lemma triple_verify_running_target:
  "io_triple (\<lambda>w. map_of (nodes w) (pending_path d) = i \<and> map_of (nodes w) BOOT_ID = b \<and> map_of (nodes w) KERNEL_RELEASE = k)
     (verify_running_target B t)
     (\<lambda>_ w. map_of (nodes w) (pending_path d) = i \<and> verified_boot b k t) (\<lambda>_ w. map_of (nodes w) (pending_path d) = i)"
    (is "io_triple ?P _ _ ?E")
proof -
  have boot: "io_triple ?P (cb_boot_id B) (\<lambda>x w. ?P w \<and> boot_holds b x) ?E"
    by (rule triple_weaken [OF triple_conj [OF boot_frozen [OF boot_id_frame] boot_id_ok [of b]]]) auto
  have release: "io_triple ?P (cb_kernel_release B) (\<lambda>x w. map_of (nodes w) (pending_path d) = i \<and> boot_holds k x) ?E"
    by (rule triple_weaken [OF triple_conj [OF boot_frozen [OF kernel_release_frame] kernel_release_ok [of k]]]) auto
  have identity: "io_triple (\<lambda>w. map_of (nodes w) (pending_path d) = i) (verify_target_identity B t)
      (\<lambda>_ w. map_of (nodes w) (pending_path d) = i) ?E"
    by (rule quiet_keeps(1) [OF identity_frame])
  show ?thesis
    unfolding verify_running_target_def
    by (rule triple_bind [OF boot triple_pure], rule triple_if, rule triple_throw, simp,
        rule triple_bind [OF release triple_pure], rule triple_if, rule triple_throw, simp,
        rule triple_weaken [OF identity]) (auto simp: verified_boot_def)
qed

lemma triple_io_update:
  assumes "\<And>t'. u = (t', Inr ()) \<Longrightarrow> io_triple P (f t') Q E" and "\<And>e w. P w \<Longrightarrow> E e w"
  shows "io_triple P (io_bind (io_update u) f) Q E"
proof -
  obtain t' r where u: "u = (t', r)" by fastforce
  show ?thesis
    using assms by (cases r) (auto simp: u io_update_def io_triple_def io_bind_def io_throw_def io_return_def)
qed

lemma triple_update_then:
  assumes "io_triple (\<lambda>w. slot_holds (tx_image U J t) (map_of (nodes w) (pending_path d))) m (\<lambda>_. archived U J d t)
      (\<lambda>_ w. slot_holds (tx_image U J t) (map_of (nodes w) (pending_path d)) \<or> archived U J d t w)"
    and "\<And>w. slot_holds (tx_image U J t) (map_of (nodes w) (pending_path d)) \<or> archived U J d t w \<Longrightarrow> R w"
  shows "io_triple (\<lambda>w. map_of (nodes w) (pending_path d) = i) (io_bind (cb_update_transaction B t) (\<lambda>_. io_bind m (\<lambda>x. io_return (g x))))
    (\<lambda>_ w. map_of (nodes w) (pending_path d) = i \<or> R w) (\<lambda>_ w. map_of (nodes w) (pending_path d) = i \<or> R w)"
proof -
  have finish: "io_triple (\<lambda>w. slot_holds (tx_image U J t) (map_of (nodes w) (pending_path d))) m (\<lambda>_. R)
      (\<lambda>_ w. map_of (nodes w) (pending_path d) = i \<or> R w)"
    by (rule triple_weaken [OF assms(1)]) (use assms(2) in auto)
  show ?thesis
    by (rule triple_bind [OF triple_weaken [OF update_ok] triple_bind [OF finish triple_return]])
      (use assms(2) in auto)
qed

lemma triple_terminal:
  assumes "io_triple (\<lambda>w. map_of (nodes w) (pending_path d) = i) m (\<lambda>_. archived U J d t)
      (\<lambda>_ w. map_of (nodes w) (pending_path d) = i \<or> archived U J d t w)"
    and "\<And>w. archived U J d t w \<Longrightarrow> R w"
  shows "io_triple (\<lambda>w. map_of (nodes w) (pending_path d) = i) (io_bind m (\<lambda>x. io_return (g x)))
    (\<lambda>_ w. map_of (nodes w) (pending_path d) = i \<or> R w) (\<lambda>_ w. map_of (nodes w) (pending_path d) = i \<or> R w)"
  by (rule triple_bind [OF triple_weaken [OF assms(1)] triple_return]) (use assms(2) in auto)

lemma triple_reconcile:
  "io_triple (\<lambda>w. map_of (nodes w) (pending_path d) = i \<and> map_of (nodes w) BOOT_ID = b \<and> map_of (nodes w) KERNEL_RELEASE = k)
     (reconcile U B)
     (\<lambda>_ w. map_of (nodes w) (pending_path d) = i \<or> rollback_recorded U J d i (verified_boot b k) w)
     (\<lambda>_ w. map_of (nodes w) (pending_path d) = i \<or> rollback_recorded U J d i (verified_boot b k) w)"
    (is "io_triple ?S _ (\<lambda>_. ?R) ?E")
proof -
  let ?P = "\<lambda>w. map_of (nodes w) (pending_path d) = i"
  have quiet: "io_triple ?P m (\<lambda>_. ?P) ?E" if "touches (- kept_paths d) m" for m :: "(ConfirmationError, 'y) io"
    by (rule triple_weaken [OF quiet_keeps(1) [OF that, of "\<lambda>j. j = i"]]) auto
  have lock: "io_triple ?S (cb_lock_confirmation B) (\<lambda>_. ?S) ?E"
    by (rule triple_weaken [OF boot_frozen [OF lock_frame]]) auto
  have pending: "io_triple ?S (cb_pending B) (\<lambda>r w. ?S w \<and> (\<forall>t. r = Some t \<longrightarrow> pending_decodes U J i t)) ?E"
    using io_tripleD_ok [OF pending_ok refl] io_tripleD_err [OF pending_ok refl] by (intro io_tripleI) auto
  have rest: "io_triple ?P (io_bind (retry_pending_root_cleanups B) (\<lambda>pass. io_return (g pass))) (\<lambda>_. ?R) ?E"
    for g :: "CleanupPass \<Rightarrow> ConfirmationOutcome"
    by (rule triple_bind [OF quiet [OF retry_frame] triple_return]) auto
  have failed: "io_triple ?P (io_bind (io_update (record_failure U missed_recovery now t)) (\<lambda>t.
        io_bind (cb_update_transaction B t) (\<lambda>_. io_bind (finish_failed B t) (\<lambda>_. io_return CoFailedRecorded))))
      (\<lambda>_. ?R) ?E"
    if "pending_decodes U J i t" "tx_phase t = Armed" for t now
  proof (rule triple_io_update)
    fix t' assume u: "record_failure U missed_recovery now t = (t', Inr ())"
    then have "tx_phase t' = Failed \<and> tx_id t' = tx_id t"
      by (auto simp: record_failure_def validated_def split: if_splits)
    with u that tx_step.fail [OF u] show "io_triple ?P (io_bind (cb_update_transaction B t') (\<lambda>_.
        io_bind (finish_failed B t') (\<lambda>_. io_return CoFailedRecorded))) (\<lambda>_. ?R) ?E"
      by (intro triple_update_then triple_finish_failed) (fastforce simp: rollback_recorded_def)
  qed simp
  have confirmed: "io_triple ?P (io_bind (io_update (transition U Confirmed now t)) (\<lambda>t.
        io_bind (cb_update_transaction B t) (\<lambda>_. io_bind (finish_confirmed B t) (\<lambda>p. io_return (confirmed_outcome p)))))
      (\<lambda>_. ?R) ?E"
    if "pending_decodes U J i t" "tx_phase t = BootedUnconfirmed" "verified_boot b k t" for t now
  proof (rule triple_io_update)
    fix t' assume u: "transition U Confirmed now t = (t', Inr ())"
    then have "tx_phase t' = Confirmed \<and> tx_id t' = tx_id t"
      by (auto simp: transition_def validated_def split: if_splits)
    with u that tx_step.move [OF u] show "io_triple ?P (io_bind (cb_update_transaction B t') (\<lambda>_.
        io_bind (finish_confirmed B t') (\<lambda>p. io_return (confirmed_outcome p)))) (\<lambda>_. ?R) ?E"
      by (intro triple_update_then triple_finish_confirmed) (fastforce simp: rollback_recorded_def)
  qed simp
  have recorded: "rollback_recorded U J d i (verified_boot b k) w"
    if "pending_decodes U J i t" "tx_phase t \<noteq> BootedUnconfirmed" "tx_phase t \<noteq> Armed" "archived U J d t w" for t w
    unfolding rollback_recorded_def
    using that by (intro exI [of _ t]) (cases "tx_phase t"; simp add: archived_def)
  have verify: "io_triple ?S (verify_running_target B t) (\<lambda>_ w. ?P w \<and> verified_boot b k t) ?E" for t
    by (rule triple_weaken [OF triple_verify_running_target]) auto
  have now: "io_triple ?P utc_now (\<lambda>_. ?P) ?E"
    by (rule quiet) (intro io_rules)
  have dispatch: "io_triple ?S (case tx_phase t of
       Armed \<Rightarrow> io_bind (cb_requested_rollback B) (\<lambda>requested. if requested = Some (tx_id t)
         then io_bind utc_now (\<lambda>now. io_bind (io_update (record_failure U missed_recovery now t)) (\<lambda>t.
              io_bind (cb_update_transaction B t) (\<lambda>_. io_bind (finish_failed B t) (\<lambda>_. io_return CoFailedRecorded))))
         else io_return CoNoAction)
     | BootedUnconfirmed \<Rightarrow> io_bind (verify_running_target B t) (\<lambda>_. io_bind utc_now (\<lambda>now.
         io_bind (io_update (transition U Confirmed now t)) (\<lambda>t. io_bind (cb_update_transaction B t) (\<lambda>_.
         io_bind (finish_confirmed B t) (\<lambda>p. io_return (confirmed_outcome p))))))
     | Confirmed \<Rightarrow> io_bind (finish_confirmed B t) (\<lambda>p. io_return (confirmed_outcome p))
     | Reverted \<Rightarrow> io_bind (finish_reverted B t) (\<lambda>_. io_return CoRevertedRecorded)
     | Failed \<Rightarrow> io_bind (finish_failed B t) (\<lambda>_. io_return CoFailedRecorded)
     | _ \<Rightarrow> io_return CoNoAction) (\<lambda>_. ?R) ?E" (is "io_triple _ ?m _ _")
    if t: "pending_decodes U J i t" for t
  proof (cases "tx_phase t = BootedUnconfirmed")
    case True
    then show ?thesis
      by simp (rule triple_bind [OF verify triple_pure], rule triple_bind [OF now confirmed [OF t]])
  next
    case False
    have "io_triple ?P ?m (\<lambda>_. ?R) ?E"
    proof (cases "tx_phase t")
      case Armed
      then show ?thesis
        by (auto intro!: triple_bind [OF quiet [OF requested_frame]] triple_bind [OF now failed [OF t]] triple_return)
    next
      case Confirmed
      then show ?thesis by simp (rule triple_terminal [OF triple_finish_confirmed recorded [OF t]], simp_all)
    next
      case Reverted
      then show ?thesis by simp (rule triple_terminal [OF triple_finish_reverted recorded [OF t]], simp_all)
    next
      case Failed
      then show ?thesis by simp (rule triple_terminal [OF triple_finish_failed recorded [OF t]], simp_all)
    qed (use False in \<open>auto intro: triple_return\<close>)
    then show ?thesis by (rule triple_weaken) auto
  qed
  show ?thesis
    unfolding reconcile_def
    by (rule triple_bind [OF lock], rule triple_bind [OF pending triple_pure], rule triple_case_option,
        rule triple_weaken [OF rest], simp, simp, simp, rule dispatch, simp)
qed

end

end
