(* ===== verification/Confirmation_Safety.thy ===== *)
theory Confirmation_Safety
  imports Confirmation
begin

text \<open>
  The system backend of \<open>confirmation.rs\<close> meets the contract of the confirmation engine, so that
  what holds of the engine holds of the service; and what the cleanup of old subvolumes may
  delete.
\<close>

subsection \<open>The system backend meets the contract\<close>

lemma touches_list_entries [io_rules]: "touches S (list_entries U J d names records)"
  by (induction names arbitrary: records) (auto intro!: io_rules split: option.splits)

lemma touches_cleanup_list [io_rules]: "touches S (cleanup_list U J d)"
  unfolding cleanup_list_def by (intro io_rules)

lemma touches_cleanup_write_under [io_rules]: "touches (under d) (cleanup_write_atomic U J d r)"
  by (rule cleanup.put_frame)

lemma touches_RootCleanupRecord_new [io_rules]: "touches S (RootCleanupRecord_new U t)"
  unfolding RootCleanupRecord_new_def by (intro io_rules)

lemma touches_cleanup_schedule [io_rules]: "touches (under d) (cleanup_schedule U J d t)"
  unfolding cleanup_schedule_def by (intro io_rules)

lemma touches_cleanup_update [io_rules]: "touches (under d) (cleanup_update U J d r)"
  unfolding cleanup_update_def by (intro io_rules)

lemma touches_cleanup_remove [io_rules]: "touches (under d) (cleanup_remove U d i)"
  unfolding cleanup_remove_def Let_def
  by (intro io_rules) (simp add: under_def cleanup_record_path_def)

lemma touches_record_deferred [io_rules]: "touches S (record_deferred U blocked message r)"
  unfolding record_deferred_def Let_def by (intro io_rules)

lemma touches_run_command [io_rules]: "touches S (run program a) \<Longrightarrow> touches S (run_command run program a stage)"
  unfolding run_command_def Let_def by (intro io_rules)

lemma touches_path_is_dir [io_rules]: "touches S (path_is_dir p)"
  by (simp add: touches_def path_is_dir_def tick_def)

lemma touches_read_canonical_uuid [io_rules]: "touches S (read_canonical_uuid U p name)"
  unfolding read_canonical_uuid_def Let_def by (intro io_rules)

lemma touches_create_dir_all: "\<forall>q. prefix q p \<longrightarrow> q \<in> S \<Longrightarrow> touches S (create_dir_all p)"
proof (induction p rule: create_dir_all.induct)
  case (1 p)
  have "p \<in> S" using 1 by simp
  moreover have "touches S (create_dir_all (butlast p))" if "p \<noteq> []" "err_kind e = NotFound" for e
    using "1.IH" that "1.prems" by (metis prefix_order.trans prefixeq_butlast)
  ultimately show ?case
    by (subst create_dir_all.simps) (auto intro!: io_rules)
qed

lemma touches_ensure_mount_directory:
  assumes "\<forall>q. prefix q p \<longrightarrow> q \<in> S"
  shows "touches S (ensure_mount_directory p)"
proof -
  have "touches S (create_dir_all (butlast p))"
    using assms by (intro touches_create_dir_all) (metis prefix_order.trans prefixeq_butlast)
  moreover have "p \<in> S" using assms by simp
  ultimately show ?thesis unfolding ensure_mount_directory_def by (intro io_rules)
qed

lemma touches_delete_descendants:
  "(\<And>r. touches S (run BTRFS (btrfs_delete (root @ r)))) \<Longrightarrow> touches S (delete_descendants run root ds blocked)"
  by (induction ds arbitrary: blocked) (auto simp: Let_def intro!: io_rules split: sum.splits)

lemma touches_cleanup_old_subvolume_at:
  "touches S (run BTRFS (btrfs_list (p @ [name]))) \<Longrightarrow>
   (\<And>r. touches S (run BTRFS (btrfs_delete ((p @ [name]) @ r)))) \<Longrightarrow> touches S (cleanup_old_subvolume_at U run p name pre)"
  unfolding cleanup_old_subvolume_at_def Let_def
  by (intro io_rules touches_delete_descendants) (assumption | metis append_Nil2)+

text \<open>
  What the backend relies on: the external programs write neither in the recovery store nor in
  the kernel's files, and the purge keeps the pending transaction and the archive, as its
  documentation promises.
\<close>

locale confirmation_environment =
  fixes V :: confirmation_env
  assumes run_spares: "touches (- (under RECOVERY_STORE_ROOT \<union> {BOOT_ID, KERNEL_RELEASE})) (cv_run V program a)"
    and purge_spares: "touches (- kept_paths (transactions_dir RECOVERY_STORE_ROOT)) (cv_purge V t)"
begin

lemma run_kept: "touches (- kept_paths (transactions_dir RECOVERY_STORE_ROOT)) (cv_run V program a)"
  by (rule touches_mono [OF run_spares])
    (auto simp: kept_paths_def under_def pending_path_def history_dir_def transactions_dir_def prefix_def)

end

lemma triple_read_to_string:
  "io_triple (\<lambda>w. map_of (nodes w) p = i) (read_to_string p) (\<lambda>b _. slot_holds ((=) b) i) (\<lambda>_ _. True)"
proof -
  have "io_triple (\<lambda>w. map_of (nodes w) p = i) (read_all p) (\<lambda>b _. slot_holds ((=) b) i) (\<lambda>_ _. True)"
    by (auto simp: io_triple_def read_all_def syscall_def tick_def slot_holds_def split: option.splits file_type.splits)
  then show ?thesis
    unfolding read_to_string_def by (rule triple_bind) (auto intro!: triple_return triple_throw)
qed

lemma triple_read_canonical_uuid:
  "io_triple (\<lambda>w. map_of (nodes w) p = i) (read_canonical_uuid U p name) (\<lambda>b _. boot_holds i b) (\<lambda>_ _. True)"
  unfolding read_canonical_uuid_def Let_def
  by (rule triple_bind, rule triple_map_err, rule triple_read_to_string)
    (auto simp: boot_holds_def slot_holds_def split: option.splits intro!: triple_return triple_throw)

lemma triple_system_kernel_release:
  "io_triple (\<lambda>w. map_of (nodes w) KERNEL_RELEASE = i) system_kernel_release (\<lambda>b _. boot_holds i b) (\<lambda>_ _. True)"
  unfolding system_kernel_release_def Let_def
  by (rule triple_bind, rule triple_map_err, rule triple_read_to_string)
    (auto simp: boot_holds_def slot_holds_def intro!: triple_return triple_throw)

abbreviation system_transactions :: path where
  "system_transactions \<equiv> transactions_dir RECOVERY_STORE_ROOT"

text \<open>Directories of the recovery store beside the transactions, and paths outside it, are not kept paths.\<close>

lemma not_kept:
  assumes "x \<noteq> ''transactions''" and "x \<noteq> ''rollback-history''"
  shows "under (RECOVERY_STORE_ROOT @ [x]) \<subseteq> - kept_paths system_transactions"
  using assms
  by (auto simp: kept_paths_def under_def pending_path_def history_dir_def transactions_dir_def RECOVERY_STORE_ROOT_def
      BOOT_ID_def KERNEL_RELEASE_def prefix_def)

lemma runtime_not_kept: "prefix q TOP_LEVEL \<Longrightarrow> q \<notin> kept_paths system_transactions"
  by (auto simp: kept_paths_def under_def pending_path_def history_dir_def transactions_dir_def RECOVERY_STORE_ROOT_def
      BOOT_ID_def KERNEL_RELEASE_def TOP_LEVEL_def prefix_Cons prefix_def)

lemma touches_tx_remove: "touches {pending_path d} (tx_remove d)"
  unfolding tx_remove_def by (intro io_rules) simp

lemma lock_not_kept: "transactions_dir RECOVERY_STORE_ROOT @ [''recovery-prepare.lock''] \<notin> kept_paths system_transactions"
  by (simp add: kept_paths_def under_def pending_path_def history_dir_def transactions_dir_def RECOVERY_STORE_ROOT_def
      BOOT_ID_def KERNEL_RELEASE_def)

lemma triple_system_update:
  "io_triple (\<lambda>w. map_of (nodes w) (pending_path system_transactions) = i) (system_update_transaction V t)
      (\<lambda>_ w. slot_holds (tx_image (cv_uuid V) (cv_tx V) t) (map_of (nodes w) (pending_path system_transactions)))
      (\<lambda>_ w. map_of (nodes w) (pending_path system_transactions) = i
         \<or> slot_holds (tx_image (cv_uuid V) (cv_tx V) t) (map_of (nodes w) (pending_path system_transactions)))"
  unfolding system_update_transaction_def by (rule triple_map_err, rule triple_tx_update_store)

lemma triple_system_archive:
  "io_triple (\<lambda>_. True) (system_archive_transaction V t) (\<lambda>_. archived (cv_uuid V) (cv_tx V) system_transactions t) (\<lambda>_ _. True)"
  unfolding system_archive_transaction_def
  by (rule triple_map_err, rule triple_weaken [OF triple_tx_archive]) (auto simp: archived_def)

lemma triple_system_pending:
  "io_triple (\<lambda>w. map_of (nodes w) = M) (system_pending V)
      (\<lambda>r w. map_of (nodes w) = M \<and> (\<forall>t. r = Some t \<longrightarrow> pending_decodes (cv_uuid V) (cv_tx V) (M (pending_path system_transactions)) t))
      (\<lambda>_ w. map_of (nodes w) = M)"
  unfolding system_pending_def by (rule triple_map_err, rule triple_weaken [OF triple_load_pending]) auto

lemmas system_query_defs = system_deployment_def system_boot_id_def system_kernel_release_def
  system_requested_rollback_def system_current_snapshot_parent_uuid_def system_current_root_uuid_def
  system_current_home_snapshot_parent_uuid_def system_pending_root_cleanups_def

lemma touches_clear_pending_once:
  "(\<And>p a. touches S (bi_runner B p a)) \<Longrightarrow> touches S (clear_pending_once B)"
  unfolding clear_pending_once_def Let_def by (intro io_rules)

lemma touches_boot_output: "touches S (run p a) \<Longrightarrow> touches S (boot_output run p a)"
  unfolding boot_output_def Let_def by (intro io_rules)

lemma touches_record_lineage:
  "touches (under (RECOVERY_STORE_ROOT @ [''history''])) (system_record_lineage_activation V t outcome)"
  unfolding system_record_lineage_activation_def Let_def ensure_initialized_def record_activation_def
  by (intro io_rules)

sublocale confirmation_environment \<subseteq> confirmation_contract "system_backend V" "cv_uuid V" "cv_tx V" system_transactions
proof
  have history: "- kept_paths system_transactions \<supseteq> under (RECOVERY_STORE_ROOT @ [''history''])"
    and cleanup: "- kept_paths system_transactions \<supseteq> under (cleanup_directory RECOVERY_STORE_ROOT)"
    unfolding cleanup_directory_def CLEANUP_DIRECTORY_def by (rule not_kept; simp)+
  note cleanup_frames = touches_mono [OF touches_cleanup_schedule cleanup] touches_mono [OF touches_cleanup_update cleanup]
    touches_mono [OF touches_cleanup_remove cleanup]
  let ?S = "- kept_paths system_transactions"
  show "touches ?S (cb_lock_confirmation (system_backend V))"
    using lock_not_kept
    by (auto simp: system_backend_def system_lock_confirmation_def intro!: io_rules touches_mono [OF touches_acquire_preparation])
  show "touches ?S (cb_deployment (system_backend V) i')" "touches ?S (cb_boot_id (system_backend V))"
    "touches ?S (cb_kernel_release (system_backend V))" "touches ?S (cb_requested_rollback (system_backend V))"
    "touches ?S (cb_current_snapshot_parent_uuid (system_backend V))" "touches ?S (cb_current_root_uuid (system_backend V))"
    "touches ?S (cb_current_home_snapshot_parent_uuid (system_backend V))" "touches ?S (cb_pending_root_cleanups (system_backend V))" for i'
    by (simp_all add: system_backend_def system_query_defs Let_def, (intro io_rules run_kept)+)
  show "touches ?S (cb_schedule_old_root_cleanup (system_backend V) t)"
    "touches ?S (cb_defer_old_root_cleanup (system_backend V) r blocked message)"
    "touches ?S (cb_complete_old_root_cleanup (system_backend V) r)" for t r blocked message
    by (simp_all add: system_backend_def system_schedule_old_root_cleanup_def system_defer_old_root_cleanup_def
        system_complete_old_root_cleanup_def, (intro io_rules cleanup_frames)+)
  show "touches ?S (cb_cleanup_old_root (system_backend V) r)" for r
    using runtime_not_kept
    by (simp add: system_backend_def system_cleanup_old_root_def)
      (unfold cleanup_old_root_at_def cleanup_old_home_at_def,
       intro io_rules run_kept touches_cleanup_old_subvolume_at touches_ensure_mount_directory, auto)
  show "touches ?S (cb_purge_factory_reset_history (system_backend V) t)" for t
    by (simp add: system_backend_def system_purge_factory_reset_history_def) (intro io_rules purge_spares)
  show "touches ?S (cb_clear_once (system_backend V))"
    by (simp add: system_backend_def system_clear_once_def)
      (intro io_rules touches_clear_pending_once, simp add: touches_boot_output run_kept)
  show "touches ?S (cb_regenerate_grub (system_backend V))"
    by (simp add: system_backend_def system_regenerate_grub_def) (intro io_rules run_kept)
  show "touches ?S (cb_record_lineage_activation (system_backend V) t outcome)" for t outcome
    by (simp add: system_backend_def touches_mono [OF touches_record_lineage history])
  show "touches (under (history_dir system_transactions)) (cb_archive_transaction (system_backend V) t)" for t
    by (simp add: system_backend_def system_archive_transaction_def) (intro io_rules)
  show "touches {pending_path system_transactions} (cb_remove_transaction (system_backend V))"
    by (simp add: system_backend_def system_remove_transaction_def) (intro io_rules touches_tx_remove)
  show "pending_path system_transactions \<notin> under (history_dir system_transactions)"
    by (simp add: under_def pending_path_def history_dir_def transactions_dir_def RECOVERY_STORE_ROOT_def)
qed (simp_all add: system_backend_def system_boot_id_def triple_system_update triple_system_archive
    triple_system_pending triple_read_canonical_uuid triple_system_kernel_release)

subsection \<open>What the cleanup may delete\<close>

text \<open>Every entry of the tree lies in a directory.\<close>

definition rooted :: "tree \<Rightarrow> bool" where
  "rooted ns \<longleftrightarrow> (\<forall>k. map_of ns k \<noteq> None \<longrightarrow> k \<noteq> [] \<longrightarrow> fs_is_dir ns (butlast k))"

lemma rooted_none_below: "rooted ns \<Longrightarrow> map_of ns p = None \<Longrightarrow> p \<noteq> [] \<Longrightarrow> map_of ns (p @ r) = None"
proof (induction r rule: rev_induct)
  case (snoc x r)
  then have "map_of ns (p @ r) = None" and "p @ r \<noteq> []" by simp_all
  then have "\<not> fs_is_dir ns (butlast (p @ r @ [x]))" by (simp add: butlast_append fs_is_dir_def)
  with snoc.prems(1) show ?case by (auto simp: rooted_def)
qed simp

lemma childless_none_below: "rooted ns \<Longrightarrow> fs_children ns p = [] \<Longrightarrow> map_of ns (p @ x # r) = None"
  using rooted_none_below [of ns "p @ [x]" r] fs_children_in [of ns p x] by fastforce

definition files_kept :: "tree \<Rightarrow> tree \<Rightarrow> bool" where
  "files_kept ns ns' \<longleftrightarrow> (\<forall>k i b. map_of ns k = Some i \<longrightarrow> ftype i = Regular b \<longrightarrow> map_of ns' k = Some i)"

lemma delete_childless:
  assumes "rooted ns" and "fs_children ns p = []" and "map_of ns p = Some i" and "ftype i = Directory" and "p \<noteq> []"
    and "\<forall>r. map_of ns' (p @ r) = None" and "\<forall>k. prefix p k \<or> map_of ns' k = map_of ns k"
  shows "rooted ns' \<and> files_kept ns ns'"
proof -
  have below: "map_of ns k = None \<or> k = p" if "prefix p k" for k
  proof -
    from that obtain r where "k = p @ r" by (auto simp: prefix_def)
    then show ?thesis using childless_none_below [OF assms(1,2)] by (cases r) auto
  qed
  have eq: "map_of ns' k = (if prefix p k then None else map_of ns k)" for k
    using assms(6,7) by (auto simp: prefix_def)
  have "files_kept ns ns'"
    unfolding files_kept_def using below assms(3,4) by (auto simp: eq) fastforce
  moreover have "rooted ns'"
    unfolding rooted_def
  proof (intro allI impI)
    fix k assume k: "map_of ns' k \<noteq> None" "k \<noteq> []"
    then have "fs_is_dir ns (butlast k)" and "map_of ns k \<noteq> None"
      using assms(1) by (auto simp: rooted_def eq split: if_splits)
    moreover have "\<not> prefix p (butlast k)"
    proof
      assume "prefix p (butlast k)"
      then have "prefix p k" using prefix_order.trans prefixeq_butlast by blast
      with k show False by (simp add: eq)
    qed
    ultimately show "fs_is_dir ns' (butlast k)" by (simp add: fs_is_dir_def eq)
  qed
  ultimately show ?thesis by blast
qed

lemma files_kept_trans: "files_kept a b \<Longrightarrow> files_kept b c \<Longrightarrow> files_kept a c"
  by (fastforce simp: files_kept_def)

lemma run_command_ok:
  "run_command run program a stage w = (Inr s, w') \<Longrightarrow> \<exists>out. run program a w = (Inr out, w') \<and> success out"
  by (auto simp: run_command_def Let_def io_bind_def io_map_err_def io_match_def io_return_def io_throw_def
      split: prod.splits sum.splits if_splits)

lemma triple_delete_empty:
  assumes "btrfs_behaves (run BTRFS)" and "p \<noteq> []"
  shows "io_triple (\<lambda>w. rooted (nodes w) \<and> files_kept ns (nodes w) \<and> fs_children (nodes w) p = []
        \<and> (\<exists>i. map_of (nodes w) p = Some i \<and> ftype i = Directory))
     (run_command run BTRFS (btrfs_delete p) stage)
     (\<lambda>_ w. rooted (nodes w) \<and> files_kept ns (nodes w)) (\<lambda>_ _. True)"
proof (rule io_tripleI)
  fix w x w'
  assume w: "rooted (nodes w) \<and> files_kept ns (nodes w) \<and> fs_children (nodes w) p = []
      \<and> (\<exists>i. map_of (nodes w) p = Some i \<and> ftype i = Directory)"
    and "run_command run BTRFS (btrfs_delete p) stage w = (Inr x, w')"
  then obtain out where out: "run BTRFS (btrfs_delete p) w = (Inr out, w')" "success out"
    using run_command_ok by blast
  have "\<forall>r. map_of (nodes w') (p @ r) = None" using assms(1) out by (auto simp: btrfs_behaves_def)
  moreover have "\<forall>k. prefix p k \<or> map_of (nodes w') k = map_of (nodes w) k"
    using touchesD [of "under p" "run BTRFS (btrfs_delete p)", OF _ out(1)] assms(1) by (auto simp: btrfs_behaves_def under_def)
  ultimately show "rooted (nodes w') \<and> files_kept ns (nodes w')"
    using delete_childless [of "nodes w" p _ "nodes w'"] w assms(2) files_kept_trans by blast
qed simp

lemma triple_inspect_directory:
  "io_triple (\<lambda>w. P (nodes w)) (read_dir p)
    (\<lambda>names w. P (nodes w) \<and> names = fs_children (nodes w) p) (\<lambda>_ w. P (nodes w))"
  by (auto simp: io_triple_def read_dir_def syscall_def tick_def split: option.splits)

lemma triple_first_entry:
  "io_triple (\<lambda>w. P (nodes w)) (first_entry names) (\<lambda>e w. P (nodes w) \<and> (e = None \<longrightarrow> names = [])) (\<lambda>_ w. P (nodes w))"
  by (cases names) (auto simp: io_triple_def first_entry_def next_entry_def syscall_def tick_def io_bind_def io_return_def
      split: option.splits)

lemma triple_inspect_kind_any:
  "io_triple (\<lambda>w. P (nodes w)) (symlink_metadata p) (\<lambda>m w. P (nodes w) \<and> map_of (nodes w) p = Some m)
    (\<lambda>e w. P (nodes w) \<and> (err_kind e = NotFound \<longrightarrow> map_of (nodes w) p = None))"
  by (auto simp: io_triple_def symlink_metadata_def syscall_def tick_def enoent_def split: option.splits)

lemma triple_delete_descendants:
  assumes "btrfs_behaves (run BTRFS)" and "old_root \<noteq> []"
  shows "io_triple (\<lambda>w. rooted (nodes w) \<and> files_kept ns (nodes w)) (delete_descendants run old_root ds blocked)
     (\<lambda>_ w. rooted (nodes w) \<and> files_kept ns (nodes w)) (\<lambda>_ _. True)"
proof (induction ds arbitrary: blocked)
  case Nil
  then show ?case by (simp add: triple_return)
next
  case (Cons relative ds)
  let ?I = "\<lambda>ns'. rooted ns' \<and> files_kept ns ns'"
  let ?p = "old_root @ path_components relative"
  have inspect: "io_triple (\<lambda>w. ?I (nodes w)) (symlink_metadata ?p)
      (\<lambda>m w. ?I (nodes w) \<and> map_of (nodes w) ?p = Some m) (\<lambda>_ w. ?I (nodes w))"
    by (rule triple_weaken [OF triple_inspect_kind_any [of ?I]]) auto
  let ?D = "\<lambda>ns'. ?I ns' \<and> (\<exists>m. map_of ns' ?p = Some m \<and> ftype m = Directory)"
  have entries: "io_triple (\<lambda>w. ?I (nodes w) \<and> map_of (nodes w) ?p = Some m) (io_map_err h (read_dir ?p))
      (\<lambda>names w. ?D (nodes w) \<and> names = fs_children (nodes w) ?p) (\<lambda>_ _. True)"
    if "ftype m = Directory" for m and h :: "io_error \<Rightarrow> ConfirmationError"
    by (rule triple_map_err, rule triple_weaken [OF triple_inspect_directory [of ?D]]) (use that in auto)
  have first: "io_triple (\<lambda>w. ?D (nodes w) \<and> names = fs_children (nodes w) ?p) (first_entry names)
      (\<lambda>e w. (?D (nodes w) \<and> names = fs_children (nodes w) ?p) \<and> (e = None \<longrightarrow> names = []))
      (\<lambda>_ w. ?D (nodes w) \<and> names = fs_children (nodes w) ?p)" for names
    by (rule triple_first_entry)
  have keep: "io_triple (\<lambda>w. ?D (nodes w) \<and> names = fs_children (nodes w) ?p)
      (io_bind (io_lift (path_to_record relative)) (\<lambda>p. delete_descendants run old_root ds (blocked @ [p])))
      (\<lambda>_ w. ?I (nodes w)) (\<lambda>_ _. True)" for names
    by (rule triple_lift, rule triple_weaken [OF Cons.IH]) auto
  have delete: "io_triple (\<lambda>w. (?D (nodes w) \<and> names = fs_children (nodes w) ?p) \<and> (None = (None :: string option) \<longrightarrow> names = []))
      (io_bind (run_command run BTRFS (btrfs_delete ?p) stage) (\<lambda>_. delete_descendants run old_root ds blocked))
      (\<lambda>_ w. ?I (nodes w)) (\<lambda>_ _. True)" for names stage
    by (rule triple_bind [OF triple_weaken [OF triple_delete_empty [of run ?p, OF assms(1)]] Cons.IH]) (use assms(2) in auto)
  have visit: "io_triple (\<lambda>w. ?I (nodes w) \<and> map_of (nodes w) ?p = Some m)
      (if ftype m \<noteq> Directory then io_throw err
       else io_bind (io_map_err h (read_dir ?p)) (\<lambda>entries. io_match (first_entry entries) (\<lambda>first.
         if first \<noteq> Inr None
         then io_bind (io_lift (path_to_record relative)) (\<lambda>p. delete_descendants run old_root ds (blocked @ [p]))
         else io_bind (run_command run BTRFS (btrfs_delete ?p) stage) (\<lambda>_. delete_descendants run old_root ds blocked))))
      (\<lambda>_ w. ?I (nodes w)) (\<lambda>_ _. True)" for m err stage and h :: "io_error \<Rightarrow> ConfirmationError"
  proof (rule triple_if, rule triple_throw, simp, rule triple_bind [OF entries], simp, rule triple_match [OF first])
    fix names and e :: "string option"
    show "io_triple (\<lambda>w. (?D (nodes w) \<and> names = fs_children (nodes w) ?p) \<and> (e = None \<longrightarrow> names = []))
      (if Inr e \<noteq> Inr None
       then io_bind (io_lift (path_to_record relative)) (\<lambda>p. delete_descendants run old_root ds (blocked @ [p]))
       else io_bind (run_command run BTRFS (btrfs_delete ?p) stage) (\<lambda>_. delete_descendants run old_root ds blocked))
      (\<lambda>_ w. ?I (nodes w)) (\<lambda>_ _. True)"
    proof (cases e)
      case None
      then show ?thesis using delete [of names] by simp
    next
      case (Some n)
      then show ?thesis using keep [of names] by simp
    qed
  next
    fix names and e :: io_error
    show "io_triple (\<lambda>w. ?D (nodes w) \<and> names = fs_children (nodes w) ?p)
      (if Inl e \<noteq> Inr None
       then io_bind (io_lift (path_to_record relative)) (\<lambda>p. delete_descendants run old_root ds (blocked @ [p]))
       else io_bind (run_command run BTRFS (btrfs_delete ?p) stage) (\<lambda>_. delete_descendants run old_root ds blocked))
      (\<lambda>_ w. ?I (nodes w)) (\<lambda>_ _. True)"
      using keep [of names] by simp
  qed
  show ?case
    unfolding delete_descendants.simps Let_def
    by (rule triple_match [OF inspect]) (simp_all only: sum.case visit, auto intro!: triple_throw Cons.IH)
qed

lemma triple_delete_whole:
  assumes "btrfs_behaves (run BTRFS)"
  shows "io_triple P (run_command run BTRFS (btrfs_delete p) stage) (\<lambda>_ w. \<forall>r. map_of (nodes w) (p @ r) = None) (\<lambda>_ _. True)"
proof (rule io_tripleI)
  fix w x w'
  assume "run_command run BTRFS (btrfs_delete p) stage w = (Inr x, w')"
  then obtain out where "run BTRFS (btrfs_delete p) w = (Inr out, w')" "success out" using run_command_ok by blast
  then show "\<forall>r. map_of (nodes w') (p @ r) = None" using assms by (auto simp: btrfs_behaves_def)
qed simp

definition cleanup_result :: "tree \<Rightarrow> path \<Rightarrow> OldRootCleanupOutcome \<Rightarrow> world \<Rightarrow> bool" where
  "cleanup_result ns old_root outcome w \<longleftrightarrow>
     (case outcome of
        Removed \<Rightarrow> \<forall>r. map_of (nodes w) (old_root @ r) = None
      | Deferred blocked _ \<Rightarrow> blocked \<noteq> [] \<and> files_kept ns (nodes w))"

lemma triple_cleanup_old_subvolume_at:
  assumes "btrfs_behaves (run BTRFS)"
  shows "io_triple (\<lambda>w. rooted (nodes w) \<and> files_kept ns (nodes w)) (cleanup_old_subvolume_at U run p name pre)
     (cleanup_result ns (p @ [name])) (\<lambda>_ _. True)"
proof -
  let ?I = "\<lambda>ns'. rooted ns' \<and> files_kept ns ns'"
  let ?root = "p @ [name]"
  have list: "io_triple (\<lambda>w. ?I (nodes w)) (run_command run BTRFS (btrfs_list ?root) stage) (\<lambda>_ w. ?I (nodes w)) (\<lambda>_ _. True)" for stage
  proof (rule io_tripleI)
    fix w x w'
    assume "?I (nodes w)" and run: "run_command run BTRFS (btrfs_list ?root) stage w = (Inr x, w')"
    moreover have "touches {} (run_command run BTRFS (btrfs_list ?root) stage)"
      using assms by (intro io_rules) (auto simp: btrfs_behaves_def)
    from touchesD [OF this run] have "map_of (nodes w') = map_of (nodes w)" by auto
    ultimately show "?I (nodes w')" by (simp add: rooted_def files_kept_def fs_is_dir_def)
  qed simp
  have finish: "io_triple (\<lambda>w. ?I (nodes w))
      (if blocked \<noteq> [] then io_return (Deferred blocked deferred_diagnostic)
       else io_bind (run_command run BTRFS (btrfs_delete ?root) stage) (\<lambda>_. io_return Removed))
      (cleanup_result ns ?root) (\<lambda>_ _. True)" for blocked stage
    by (rule triple_if, rule triple_return, simp add: cleanup_result_def,
        rule triple_bind [OF triple_delete_whole [of run, OF assms] triple_return]) (simp_all add: cleanup_result_def)
  note descendants = triple_delete_descendants [of run ?root ns, OF assms]
  have inspect: "io_triple (\<lambda>w. ?I (nodes w)) (symlink_metadata ?root) (\<lambda>_ w. ?I (nodes w))
      (\<lambda>e w. ?I (nodes w) \<and> (err_kind e = NotFound \<longrightarrow> map_of (nodes w) ?root = None))"
    by (rule triple_weaken [OF triple_inspect_kind_any [of ?I]]) auto
  have missing: "cleanup_result ns ?root Removed w" if "rooted (nodes w)" "map_of (nodes w) ?root = None" for w
    using rooted_none_below [OF that] by (simp add: cleanup_result_def)
  have below: "io_triple (\<lambda>w. ?I (nodes w)) (if ftype m \<noteq> Directory then io_throw err
      else io_bind (run_command run BTRFS (btrfs_list ?root) stage) (\<lambda>listing.
        io_bind (io_lift (parse_descendant_subvolumes listing name)) (\<lambda>ds.
        io_bind (delete_descendants run ?root (sort_key (\<lambda>p. - int (length (path_components p))) ds) []) (\<lambda>blocked.
        if blocked \<noteq> [] then io_return (Deferred blocked deferred_diagnostic)
        else io_bind (run_command run BTRFS (btrfs_delete ?root) stage') (\<lambda>_. io_return Removed)))))
      (cleanup_result ns ?root) (\<lambda>_ _. True)" for m err stage stage'
    by (rule triple_if, rule triple_throw, simp, rule triple_bind [OF list], rule triple_lift,
        rule triple_bind [OF descendants finish]) simp_all
  show ?thesis
    unfolding cleanup_old_subvolume_at_def Let_def
    by (rule triple_lift, rule triple_match [OF inspect])
      (simp_all only: sum.case below, auto intro!: triple_throw triple_return missing)
qed

subsection \<open>Properties\<close>

context confirmation_environment
begin

lemmas system_reconcile = triple_reconcile

end

definition environment_spares_store :: "confirmation_env \<Rightarrow> bool" where
  "environment_spares_store V \<longleftrightarrow>
     (\<forall>program a. touches (- (under RECOVERY_STORE_ROOT \<union> {BOOT_ID, KERNEL_RELEASE})) (cv_run V program a))
     \<and> (\<forall>t. touches (- kept_paths system_transactions) (cv_purge V t))"

lemma environment_contract: "environment_spares_store V \<Longrightarrow> confirmation_environment V"
  by unfold_locales (simp_all add: environment_spares_store_def)

lemma reconcile_outcome:
  assumes "environment_spares_store V" and "reconcile (cv_uuid V) (system_backend V) w = (x, w')"
  shows "map_of (nodes w') (pending_path system_transactions) = map_of (nodes w) (pending_path system_transactions)
    \<or> rollback_recorded (cv_uuid V) (cv_tx V) system_transactions (map_of (nodes w) (pending_path system_transactions))
        (verified_boot (map_of (nodes w) BOOT_ID) (map_of (nodes w) KERNEL_RELEASE)) w'"
proof -
  note triple = confirmation_environment.system_reconcile [OF environment_contract [OF assms(1)], of "map_of (nodes w) (pending_path system_transactions)"
      "map_of (nodes w) BOOT_ID" "map_of (nodes w) KERNEL_RELEASE"]
  show ?thesis
  proof (cases x)
    case (Inl e)
    with io_tripleD_err [OF triple, of w e w'] assms(2) show ?thesis by simp
  next
    case (Inr r)
    with io_tripleD_ok [OF triple, of w r w'] assms(2) show ?thesis by simp
  qed
qed

text \<open>
  C9. Reconciliation never loses a rollback. Whatever fails on the way, including any system
  call, when \<open>reconcile\<close> ends the pending file is as it was, or the rollback is on record: in a
  terminal phase, at most one valid step further, and complete in the pending file or in the
  archive. A rollback that waited for its boot is recorded only as confirmed, and only in the
  boot and under the kernel it was applied for.
\<close>

theorem reconcile_records:
  assumes "environment_spares_store V" and "reconcile (cv_uuid V) (system_backend V) w = (x, w')"
  shows "map_of (nodes w') (pending_path system_transactions) = map_of (nodes w) (pending_path system_transactions)
    \<or> rollback_recorded (cv_uuid V) (cv_tx V) system_transactions (map_of (nodes w) (pending_path system_transactions))
        (verified_boot (map_of (nodes w) BOOT_ID) (map_of (nodes w) KERNEL_RELEASE)) w'"
  using assms by (rule reconcile_outcome)


definition example_booted :: RollbackTransaction where
  "example_booted = example_transaction
     \<lparr>tx_phase := BootedUnconfirmed, tx_initramfs_attempts := 1, tx_initramfs_boot_id := Some ''u2'',
      tx_checkpoint := Some BootedUnconfirmedRecorded, tx_checkpoint_at := Some 120,
      tx_apply_attempts := 1, tx_applying_boot_id := Some ''u2'', tx_target_boot_id := Some ''u3''\<rparr>"

definition example_environment :: confirmation_env where
  "example_environment =
     \<lparr>cv_uuid = example_uuid_lib,
      cv_tx = example_tx_json\<lparr>json_tx := \<lambda>_. Inr example_booted, json_print := \<lambda>_. Inr ''T''\<rparr>,
      cv_dep = example_dep_json, cv_lin = example_lin_json 2, cv_cleanup = example_cleanup_json,
      cv_run = \<lambda>_ _. io_return (command_ok []), cv_purge = \<lambda>_. io_return ()\<rparr>"

lemma booted_ok: "RollbackTransaction_validate example_uuid_lib example_booted = Inr ()"
  by code_simp

interpretation example: confirmation_environment example_environment
  by unfold_locales (simp_all add: example_environment_def touches_return)

lemma example_spares: "environment_spares_store example_environment"
  unfolding environment_spares_store_def using example.run_spares example.purge_spares by blast

definition example_confirmation_world :: "string \<Rightarrow> world" where
  "example_confirmation_world boot =
     \<lparr>nodes = [(pending_path system_transactions, \<lparr>ftype = Regular (''T'' @ newline), mode = 0x180, uid = 0, gid = 0\<rparr>),
               (BOOT_ID, \<lparr>ftype = Regular (boot @ newline), mode = 0x124, uid = 0, gid = 0\<rparr>),
               (KERNEL_RELEASE, \<lparr>ftype = Regular (''7.0.0-28'' @ newline), mode = 0x124, uid = 0, gid = 0\<rparr>)],
      ticks = 0, fault = (\<lambda>_. None), clock = (\<lambda>_. 130), entropy = (\<lambda>_. 1)\<rparr>"


lemma example_world_files:
  "map_of (nodes (example_confirmation_world boot)) (pending_path system_transactions)
     = Some \<lparr>ftype = Regular (''T'' @ newline), mode = 0x180, uid = 0, gid = 0\<rparr>"
  "map_of (nodes (example_confirmation_world boot)) BOOT_ID
     = Some \<lparr>ftype = Regular (boot @ newline), mode = 0x124, uid = 0, gid = 0\<rparr>"
  by (simp_all add: example_confirmation_world_def pending_path_def transactions_dir_def RECOVERY_STORE_ROOT_def BOOT_ID_def)

theorem reconcile_records_witness:
  "\<exists>x w'. reconcile (cv_uuid example_environment) (system_backend example_environment) (example_confirmation_world ''u3'') = (x, w')
     \<and> (map_of (nodes w') (pending_path system_transactions)
           = map_of (nodes (example_confirmation_world ''u3'')) (pending_path system_transactions)
         \<or> rollback_recorded (cv_uuid example_environment) (cv_tx example_environment) system_transactions
              (map_of (nodes (example_confirmation_world ''u3'')) (pending_path system_transactions))
              (verified_boot (map_of (nodes (example_confirmation_world ''u3'')) BOOT_ID)
                 (map_of (nodes (example_confirmation_world ''u3'')) KERNEL_RELEASE)) w')"
  using reconcile_records [OF example_spares, of "example_confirmation_world ''u3''"] by (metis prod.collapse)

lemma example_decodes:
  assumes "pending_decodes example_uuid_lib (cv_tx example_environment) (Some \<lparr>ftype = Regular b, mode = m, uid = u, gid = g\<rparr>) t"
  shows "t = example_booted"
proof -
  obtain v v' where "decode_pending example_uuid_lib (cv_tx example_environment) b v = (Inr (Some t), v')"
    using assms by (auto simp: pending_decodes_def slot_holds_def)
  then show ?thesis
    by (cases "b = ''T'' @ newline")
      (simp_all add: decode_pending_def migrate_pending_def example_environment_def
      example_tx_json_def io_bind_def io_return_def io_throw_def io_lift_def booted_ok)
qed


lemma under_append: "under (p @ r) \<subseteq> under p"
  by (auto simp: under_def prefix_def)

lemma cleanup_frame_below:
  assumes "btrfs_behaves (run BTRFS)"
  shows "touches (under (p @ [name])) (cleanup_old_subvolume_at U run p name pre)"
proof (rule touches_cleanup_old_subvolume_at)
  have "touches {} (run BTRFS (btrfs_list (p @ [name])))" using assms by (auto simp: btrfs_behaves_def)
  then show "touches (under (p @ [name])) (run BTRFS (btrfs_list (p @ [name])))" by (rule touches_mono) simp
  have "touches (under ((p @ [name]) @ r)) (run BTRFS (btrfs_delete ((p @ [name]) @ r)))" for r
    using assms by (simp add: btrfs_behaves_def)
  then show "touches (under (p @ [name])) (run BTRFS (btrfs_delete ((p @ [name]) @ r)))" for r
    by (rule touches_mono) (rule under_append)
qed

text \<open>
  C10. The cleanup of an old subvolume changes nothing outside of it. It reports the subvolume as
  removed only when nothing of it is left, and when it defers the deletion, it names the
  subvolumes that block it and has deleted no regular file: only empty descendants are gone.
\<close>

theorem old_subvolume_cleanup_safe:
  assumes "btrfs_behaves (run BTRFS)" and "rooted (nodes w)"
    and "cleanup_old_subvolume_at U run p name pre w = (x, w')"
  shows "(\<forall>k. prefix (p @ [name]) k \<or> map_of (nodes w') k = map_of (nodes w) k)
    \<and> (case x of
         Inr Removed \<Rightarrow> \<forall>r. map_of (nodes w') (p @ [name] @ r) = None
       | Inr (Deferred blocked message) \<Rightarrow> blocked \<noteq> [] \<and> files_kept (nodes w) (nodes w')
       | Inl _ \<Rightarrow> True)"
proof
  show "\<forall>k. prefix (p @ [name]) k \<or> map_of (nodes w') k = map_of (nodes w) k"
    using touchesD [OF cleanup_frame_below [of run, OF assms(1)] assms(3)] by (auto simp: under_def)
  have "files_kept (nodes w) (nodes w)" by (simp add: files_kept_def)
  with assms have "x = Inr r \<Longrightarrow> cleanup_result (nodes w) (p @ [name]) r w'" for r
    using io_tripleD_ok [OF triple_cleanup_old_subvolume_at [of run "nodes w", OF assms(1)]] by blast
  then show "case x of
         Inr Removed \<Rightarrow> \<forall>r. map_of (nodes w') (p @ [name] @ r) = None
       | Inr (Deferred blocked message) \<Rightarrow> blocked \<noteq> [] \<and> files_kept (nodes w) (nodes w')
       | Inl _ \<Rightarrow> True"
    unfolding cleanup_result_def by (cases x) (auto split: OldRootCleanupOutcome.split)
qed

text \<open>An old root whose descendant subvolume holds a file.\<close>

definition example_old_root :: string where
  "example_old_root = ''@root.snapshots-manager-old-u3''"

definition example_listing :: string where
  "example_listing = ''ID 257 gen 9 top level 256 path '' @ example_old_root @ ''/nested''"

fun nested_programs :: programs where
  "nested_programs program [Arg a, Arg b, Arg c, PathArg p] =
     (if b = ''list'' then io_return (command_ok example_listing)
      else simulated_btrfs [Arg a, Arg b, Arg c, PathArg p])"
| "nested_programs program args = simulated_btrfs args"

lemma nested_behaves: "btrfs_behaves (nested_programs program)"
proof -
  have "nested_programs program (btrfs_snapshot p q) = simulated_btrfs (btrfs_snapshot p q)"
    "nested_programs program (btrfs_delete p) = simulated_btrfs (btrfs_delete p)" for p q
    by (simp_all add: btrfs_argument_defs)
  moreover have "touches {} (nested_programs program a)"
    if "a \<in> {btrfs_sync p, btrfs_wait p, btrfs_show p, btrfs_property p, btrfs_list p}" for p a
    using that simulated_behaves
    by (auto simp: btrfs_argument_defs btrfs_behaves_def touches_return)
  ultimately show ?thesis using simulated_behaves by (simp add: btrfs_behaves_def)
qed

definition example_old_world :: world where
  "example_old_world =
     \<lparr>nodes = [([], \<lparr>ftype = Directory, mode = 0x1ED, uid = 0, gid = 0\<rparr>),
               ([example_old_root], \<lparr>ftype = Directory, mode = 0x1ED, uid = 0, gid = 0\<rparr>),
               ([example_old_root, ''nested''], \<lparr>ftype = Directory, mode = 0x1ED, uid = 0, gid = 0\<rparr>),
               ([example_old_root, ''nested'', ''f''], \<lparr>ftype = Regular ''data'', mode = 0x180, uid = 0, gid = 0\<rparr>)],
      ticks = 0, fault = (\<lambda>_. None), clock = (\<lambda>_. 130), entropy = (\<lambda>_. 1)\<rparr>"

lemma example_old_rooted: "rooted (nodes example_old_world)"
  by (auto simp: rooted_def example_old_world_def fs_is_dir_def split: if_splits)


lemma run_command_returns:
  "run program a w = (Inr (command_ok b), w') \<Longrightarrow> length b \<le> MAX_COMMAND_OUTPUT \<Longrightarrow> utf8_valid b \<Longrightarrow>
     run_command run program a stage w = (Inr b, w')"
  by (simp add: run_command_def io_bind_def io_map_err_def io_match_def io_return_def command_ok_def)

lemma example_old_parts:
  "validate_cleanup_name example_uuid_lib example_old_root ''@root.snapshots-manager-old-'' = Inr ()"
  "utf8_valid example_listing"
  "length example_listing = 69"
  "parse_descendant_subvolumes example_listing example_old_root = Inr [''nested'']"
  "sort_key (\<lambda>p. - int (length (path_components p))) [''nested''] = [''nested'']"
  "fst (delete_descendants nested_programs [example_old_root] [''nested''] [] (tick example_old_world)) = Inr [''nested'']"
  by code_simp+

lemma example_old_metadata:
  "symlink_metadata [example_old_root] example_old_world
     = (Inr \<lparr>ftype = Directory, mode = 0x1ED, uid = 0, gid = 0\<rparr>, tick example_old_world)"
  by (simp add: symlink_metadata_def syscall_def example_old_world_def tick_def)

lemma example_old_deferred:
  "\<exists>w'. cleanup_old_subvolume_at example_uuid_lib nested_programs [] example_old_root ''@root.snapshots-manager-old-''
     example_old_world = (Inr (Deferred [''nested''] deferred_diagnostic), w')"
proof -
  obtain w' where "delete_descendants nested_programs [example_old_root] [''nested''] [] (tick example_old_world) = (Inr [''nested''], w')"
    using example_old_parts(6) by (metis prod.collapse)
  moreover have "nested_programs BTRFS (btrfs_list [example_old_root]) w = (Inr (command_ok example_listing), w)" for w
    by (simp add: btrfs_list_def io_return_def)
  then have "run_command nested_programs BTRFS (btrfs_list [example_old_root]) stage w = (Inr example_listing, w)" for stage w
    using run_command_returns example_old_parts(2,3) by (simp add: MAX_COMMAND_OUTPUT_def)
  ultimately show ?thesis
    using example_old_metadata example_old_parts(1,4,5)
    by (simp add: cleanup_old_subvolume_at_def Let_def io_bind_def io_match_def io_lift_def io_return_def)
qed

theorem old_subvolume_cleanup_safe_witness:
  "\<exists>w'. cleanup_old_subvolume_at example_uuid_lib nested_programs [] example_old_root ''@root.snapshots-manager-old-'' example_old_world
       = (Inr (Deferred [''nested''] deferred_diagnostic), w')
     \<and> files_kept (nodes example_old_world) (nodes w')"
proof -
  obtain w' where run: "cleanup_old_subvolume_at example_uuid_lib nested_programs [] example_old_root ''@root.snapshots-manager-old-''
      example_old_world = (Inr (Deferred [''nested''] deferred_diagnostic), w')"
    using example_old_deferred by blast
  from old_subvolume_cleanup_safe [OF nested_behaves example_old_rooted run] run show ?thesis by simp
qed

end
