(* ===== verification/Package_Transaction.thy ===== *)
theory Package_Transaction
  imports Transaction_Store Deployment_Store Recovery_Filesystem
begin

text \<open>
  \<open>package_transaction.rs\<close>: the record that pairs the snapshots before and after a run of the
  package manager, and its store: one pending file, and a history of terminal transactions.
\<close>

subsection \<open>The record\<close>

definition PACKAGE_TRANSACTION_SCHEMA_VERSION :: u32 where "PACKAGE_TRANSACTION_SCHEMA_VERSION = 1"
definition PACKAGE_MAX_TRANSACTION_BYTES :: nat where "PACKAGE_MAX_TRANSACTION_BYTES = 1024 * 1024"
definition PACKAGE_MAX_FAILURE_LENGTH :: nat where "PACKAGE_MAX_FAILURE_LENGTH = 2000"
definition PENDING_PACKAGE_TRANSACTION :: string where "PENDING_PACKAGE_TRANSACTION = ''pending-package.json''"

datatype PackageTransactionPhase = PreparingPre | AwaitingPost | Complete | Interrupted

record PackageTransaction =
  pt_schema_version :: u32
  pt_id :: uuid
  pt_phase :: PackageTransactionPhase
  pt_created_at :: timestamp
  pt_updated_at :: timestamp
  pt_pre_deployment_id :: "uuid option"
  pt_post_deployment_id :: "uuid option"
  pt_failure :: "string option"

datatype PackageTransactionErrorCode =
  PkAlreadyPending | PkNotFound | PkUnsafePath | PkTooLarge | PkInvalidJson | PkUnsupportedSchema
  | PkInvalidRecord | PkIo

record PackageTransactionError =
  pk_code :: PackageTransactionErrorCode
  pk_message :: string

definition PackageTransactionError_new :: "PackageTransactionErrorCode \<Rightarrow> string \<Rightarrow> PackageTransactionError" where
  "PackageTransactionError_new c m = \<lparr>pk_code = c, pk_message = m\<rparr>"

definition pkg_invalid :: "string \<Rightarrow> PackageTransactionError" where
  "pkg_invalid m = PackageTransactionError_new PkInvalidRecord m"

definition pkg_io_error :: "string \<Rightarrow> io_error \<Rightarrow> PackageTransactionError" where
  "pkg_io_error context e = PackageTransactionError_new PkIo (context @ '': '' @ err_text e)"

text \<open>\<open>created_at\<close> and \<open>updated_at\<close> are one reading of the clock.\<close>

definition PackageTransaction_new :: "('e, PackageTransaction) io" where
  "PackageTransaction_new =
     io_bind utc_now (\<lambda>now.
     io_bind new_v4 (\<lambda>i.
     io_return \<lparr>pt_schema_version = PACKAGE_TRANSACTION_SCHEMA_VERSION, pt_id = i, pt_phase = PreparingPre,
                pt_created_at = now, pt_updated_at = now, pt_pre_deployment_id = None,
                pt_post_deployment_id = None, pt_failure = None\<rparr>))"

definition validate_package_phase :: "PackageTransaction \<Rightarrow> PackageTransactionError + unit" where
  "validate_package_phase t =
     (case pt_phase t of
        PreparingPre \<Rightarrow>
          check (pt_pre_deployment_id t \<noteq> None \<or> pt_post_deployment_id t \<noteq> None \<or> pt_failure t \<noteq> None)
            (pkg_invalid ''A preparing package transaction contains later state'')
      | AwaitingPost \<Rightarrow>
          check (pt_post_deployment_id t \<noteq> None \<or> pt_failure t \<noteq> None)
            (pkg_invalid ''An awaiting package transaction has invalid snapshot references'')
      | Complete \<Rightarrow>
          check ((pt_pre_deployment_id t = None \<and> pt_post_deployment_id t = None) \<or> pt_failure t \<noteq> None)
            (pkg_invalid ''A complete package transaction is incomplete'')
      | Interrupted \<Rightarrow>
          check (pt_post_deployment_id t \<noteq> None \<or> pt_failure t = None)
            (pkg_invalid ''An interrupted package transaction has invalid terminal state''))"

definition bad_package_failure :: "string \<Rightarrow> bool" where
  "bad_package_failure f \<longleftrightarrow>
     f = [] \<or> PACKAGE_MAX_FAILURE_LENGTH < length (chars f) \<or> list_ex char_is_control (chars f)"

definition PackageTransaction_validate :: "PackageTransaction \<Rightarrow> PackageTransactionError + unit" where
  "PackageTransaction_validate t =
     first_error
       [check (pt_schema_version t \<noteq> PACKAGE_TRANSACTION_SCHEMA_VERSION)
          (PackageTransactionError_new PkUnsupportedSchema
            (''Unsupported package transaction schema '' @ show_nat (unat (pt_schema_version t)))),
        check (pt_updated_at t < pt_created_at t)
          (pkg_invalid ''Package transaction timestamps are out of order''),
        validate_package_phase t,
        check (is_some_and (pt_failure t) bad_package_failure)
          (pkg_invalid ''Package transaction failure diagnostic is invalid'')]"

text \<open>Methods on \<open>&mut self\<close> return the record as they leave it, also with an error.\<close>

type_synonym pkg_update = "PackageTransaction \<times> (PackageTransactionError + unit)"

definition pkg_validated :: "PackageTransaction \<Rightarrow> pkg_update" where
  "pkg_validated t = (t, PackageTransaction_validate t)"

definition record_pre :: "uuid \<Rightarrow> timestamp \<Rightarrow> PackageTransaction \<Rightarrow> pkg_update" where
  "record_pre i now t =
     (if pt_phase t \<noteq> PreparingPre
      then (t, Inl (pkg_invalid ''Only a preparing transaction can record its pre snapshot''))
      else pkg_validated (t\<lparr>pt_pre_deployment_id := Some i, pt_phase := AwaitingPost, pt_updated_at := now\<rparr>))"

definition skip_pre :: "timestamp \<Rightarrow> PackageTransaction \<Rightarrow> pkg_update" where
  "skip_pre now t =
     (if pt_phase t \<noteq> PreparingPre
      then (t, Inl (pkg_invalid ''Only a preparing transaction can skip its pre snapshot''))
      else pkg_validated (t\<lparr>pt_phase := AwaitingPost, pt_updated_at := now\<rparr>))"

definition complete_without_post :: "timestamp \<Rightarrow> PackageTransaction \<Rightarrow> pkg_update" where
  "complete_without_post now t =
     (if pt_phase t \<noteq> AwaitingPost \<or> pt_pre_deployment_id t = None
      then (t, Inl (pkg_invalid ''Only a pre-snapshot transaction can finish without post''))
      else pkg_validated (t\<lparr>pt_phase := Complete, pt_updated_at := now\<rparr>))"

definition record_post :: "uuid \<Rightarrow> timestamp \<Rightarrow> PackageTransaction \<Rightarrow> pkg_update" where
  "record_post i now t =
     (if pt_phase t \<noteq> AwaitingPost
      then (t, Inl (pkg_invalid ''Only an awaiting transaction can record its post snapshot''))
      else pkg_validated (t\<lparr>pt_post_deployment_id := Some i, pt_phase := Complete, pt_updated_at := now\<rparr>))"

definition sanitize_failure :: "string \<Rightarrow> string" where
  "sanitize_failure value =
     (let sanitized = str_trim (concat (take PACKAGE_MAX_FAILURE_LENGTH (map blank_control (chars value)))) in
      if sanitized = [] then ''Unspecified package hook failure'' else sanitized)"

definition interrupt :: "string \<Rightarrow> timestamp \<Rightarrow> PackageTransaction \<Rightarrow> pkg_update" where
  "interrupt failure now t =
     (if pt_phase t = Complete \<or> pt_phase t = Interrupted
      then (t, Inl (pkg_invalid ''A terminal package transaction cannot be interrupted again''))
      else pkg_validated (t\<lparr>pt_phase := Interrupted, pt_post_deployment_id := None,
                            pt_failure := Some (sanitize_failure failure), pt_updated_at := now\<rparr>))"

subsection \<open>The store\<close>

record pkg_json =
  pj_parse :: "bytes \<Rightarrow> string + PackageTransaction"
  pj_print :: "PackageTransaction \<Rightarrow> string + bytes"

definition package_history_dir :: "path \<Rightarrow> path" where
  "package_history_dir d = d @ [''package-history'']"

definition package_pending_path :: "path \<Rightarrow> path" where
  "package_pending_path d = d @ [PENDING_PACKAGE_TRANSACTION]"

definition package_not_found :: "io_error \<Rightarrow> PackageTransactionError" where
  "package_not_found e =
     (if err_kind e = NotFound then PackageTransactionError_new PkNotFound ''No package transaction is pending''
      else pkg_io_error ''Could not inspect package transaction'' e)"

definition read_transaction :: "pkg_json \<Rightarrow> path \<Rightarrow> (PackageTransactionError, PackageTransaction) io" where
  "read_transaction J p =
     (let too_large = PackageTransactionError_new PkTooLarge ''Package transaction exceeds the safety limit'' in
      io_bind (io_map_err package_not_found (symlink_metadata p)) (\<lambda>metadata.
      case regular_content metadata of
        None \<Rightarrow> io_throw (PackageTransactionError_new PkUnsafePath ''Package transaction is not a regular file'')
      | Some content \<Rightarrow>
          if PACKAGE_MAX_TRANSACTION_BYTES < length content then io_throw too_large
          else
            io_bind (io_map_err (pkg_io_error ''Could not open package transaction'') (open_read p)) (\<lambda>_.
            io_bind (io_map_err (pkg_io_error ''Could not read package transaction'')
                       (read_to_end p (PACKAGE_MAX_TRANSACTION_BYTES + 1))) (\<lambda>bytes.
            if PACKAGE_MAX_TRANSACTION_BYTES < length bytes then io_throw too_large
            else case pj_parse J bytes of
              Inl e \<Rightarrow> io_throw (PackageTransactionError_new PkInvalidJson (''Package transaction is invalid JSON: '' @ e))
            | Inr t \<Rightarrow> io_bind (io_lift (PackageTransaction_validate t)) (\<lambda>_. io_return t)))))"

definition package_load_pending :: "pkg_json \<Rightarrow> path \<Rightarrow> (PackageTransactionError, PackageTransaction option) io" where
  "package_load_pending J d =
     io_match (read_transaction J (package_pending_path d)) (\<lambda>r.
       case r of
         Inr t \<Rightarrow> io_return (Some t)
       | Inl e \<Rightarrow> (if pk_code e = PkNotFound then io_return None else io_throw e))"

definition history_entry_id :: "uuid_lib \<Rightarrow> path \<Rightarrow> PackageTransactionError + uuid" where
  "history_entry_id U p =
     (let unsafe = (\<lambda>m. Inl (PackageTransactionError_new PkUnsafePath m)) in
      case file_stem p of
        None \<Rightarrow> unsafe ''Package transaction history filename is not valid UTF-8''
      | Some stem \<Rightarrow>
          if \<not> utf8_valid stem then unsafe ''Package transaction history filename is not valid UTF-8''
          else case parse_str U stem of
            None \<Rightarrow> unsafe ''Package transaction history filename is not a UUID''
          | Some i \<Rightarrow>
              if hyphenated U i \<noteq> stem then unsafe ''Package transaction history filename is not canonical''
              else Inr i)"

fun history_entries ::
  "uuid_lib \<Rightarrow> pkg_json \<Rightarrow> path \<Rightarrow> string list \<Rightarrow> PackageTransaction list \<Rightarrow>
   (PackageTransactionError, PackageTransaction list) io" where
  "history_entries U J d [] transactions = io_return transactions"
| "history_entries U J d (name # names) transactions =
     io_bind (io_map_err (pkg_io_error ''Could not read a package transaction history entry'') (next_entry name)) (\<lambda>name.
     let p = d @ [name] in
     if file_extension p \<noteq> Some ''json'' then history_entries U J d names transactions
     else
       io_bind (io_lift (history_entry_id U p)) (\<lambda>i.
       io_bind (read_transaction J p) (\<lambda>t.
       if pt_id t \<noteq> i
       then io_throw (pkg_invalid ''Package transaction ID does not match its history filename'')
       else if pt_phase t \<noteq> Complete \<and> pt_phase t \<noteq> Interrupted
       then io_throw (pkg_invalid ''Package transaction history contains a nonterminal record'')
       else history_entries U J d names (transactions @ [t]))))"

definition package_load_history ::
  "uuid_lib \<Rightarrow> pkg_json \<Rightarrow> path \<Rightarrow> (PackageTransactionError, PackageTransaction list) io" where
  "package_load_history U J d =
     io_match (symlink_metadata (package_history_dir d)) (\<lambda>r.
       case r of
         Inl e \<Rightarrow>
           (if err_kind e = NotFound then io_return []
            else io_throw (pkg_io_error ''Could not inspect package transaction history'' e))
       | Inr metadata \<Rightarrow>
           if ftype metadata \<noteq> Directory
           then io_throw (PackageTransactionError_new PkUnsafePath ''Package transaction history is not a real directory'')
           else
             io_bind (io_map_err (pkg_io_error ''Could not read package transaction history'')
                        (read_dir (package_history_dir d))) (\<lambda>names.
             io_bind (history_entries U J (package_history_dir d) names []) (\<lambda>transactions.
             io_return (sort_key (\<lambda>t. (- pt_created_at t, hyphenated U (pt_id t))) transactions))))"

definition package_temporary :: "uuid_lib \<Rightarrow> path \<Rightarrow> uuid \<Rightarrow> path" where
  "package_temporary U d u = d @ [''.pending-package.'' @ hyphenated U u @ ''.tmp'']"

definition package_serialize :: "pkg_json \<Rightarrow> PackageTransaction \<Rightarrow> PackageTransactionError + bytes" where
  "package_serialize J t =
     (case pj_print J t of
        Inl e \<Rightarrow> Inl (pkg_invalid (''Could not serialize package transaction: '' @ e))
      | Inr b \<Rightarrow> Inr b)"

definition package_write_atomic ::
  "uuid_lib \<Rightarrow> pkg_json \<Rightarrow> path \<Rightarrow> PackageTransaction \<Rightarrow> bool \<Rightarrow> (PackageTransactionError, unit) io" where
  "package_write_atomic U J d t replace =
     io_bind new_v4 (\<lambda>u.
     let temporary = package_temporary U d u; target = package_pending_path d in
     io_bind (io_lift (package_serialize J t)) (\<lambda>serialized.
     io_bind (io_map_err (pkg_io_error ''Could not create package transaction'') (create_new temporary 0x180)) (\<lambda>_.
     io_match (if replace then replace_file d temporary target serialized
               else link_file d temporary target serialized) (\<lambda>result.
       case result of
         Inr _ \<Rightarrow> io_return ()
       | Inl e \<Rightarrow> io_match (remove_file temporary) (\<lambda>_.
           io_throw (pkg_io_error ''Could not atomically commit package transaction'' e))))))"

definition package_ensure_real_directory :: "path \<Rightarrow> (PackageTransactionError, unit) io" where
  "package_ensure_real_directory p =
     io_bind (io_map_err (pkg_io_error ''Could not inspect package transaction directory'') (symlink_metadata p)) (\<lambda>metadata.
     if ftype metadata = Directory then io_return ()
     else io_throw (PackageTransactionError_new PkUnsafePath ''Package transaction directory is not a real directory''))"

definition package_ensure_regular_file :: "path \<Rightarrow> (PackageTransactionError, unit) io" where
  "package_ensure_regular_file p =
     io_bind (io_map_err package_not_found (symlink_metadata p)) (\<lambda>metadata.
     if regular_content metadata \<noteq> None then io_return ()
     else io_throw (PackageTransactionError_new PkUnsafePath ''Package transaction is not a regular file''))"

definition package_ensure_directory :: "path \<Rightarrow> (PackageTransactionError, unit) io" where
  "package_ensure_directory p =
     (let secure = io_map_err (pkg_io_error ''Could not secure package transaction history'') (set_permissions p 0x1C0) in
      io_match (symlink_metadata p) (\<lambda>r.
        case r of
          Inr metadata \<Rightarrow>
            (if ftype metadata = Directory then secure
             else io_throw (PackageTransactionError_new PkUnsafePath
                    ''Package transaction history is not a real directory''))
        | Inl e \<Rightarrow>
            (if err_kind e \<noteq> NotFound
             then io_throw (pkg_io_error ''Could not inspect package transaction history'' e)
             else
               io_bind (io_map_err (pkg_io_error ''Could not create package transaction history'') (create_dir p 0x1ED)) (\<lambda>_.
               io_bind secure (\<lambda>_. package_ensure_real_directory p)))))"

definition package_create :: "uuid_lib \<Rightarrow> pkg_json \<Rightarrow> path \<Rightarrow> PackageTransaction \<Rightarrow> (PackageTransactionError, unit) io" where
  "package_create U J d t =
     io_bind (io_lift (PackageTransaction_validate t)) (\<lambda>_.
     io_bind (package_ensure_real_directory d) (\<lambda>_.
     io_match (symlink_metadata (package_pending_path d)) (\<lambda>r.
       case r of
         Inr _ \<Rightarrow> io_throw (PackageTransactionError_new PkAlreadyPending ''Another package transaction is already pending'')
       | Inl e \<Rightarrow>
           (if err_kind e = NotFound then package_write_atomic U J d t False
            else io_throw (pkg_io_error ''Could not inspect pending package transaction'' e)))))"

definition package_update :: "uuid_lib \<Rightarrow> pkg_json \<Rightarrow> path \<Rightarrow> PackageTransaction \<Rightarrow> (PackageTransactionError, unit) io" where
  "package_update U J d t =
     io_bind (io_lift (PackageTransaction_validate t)) (\<lambda>_.
     io_bind (package_ensure_regular_file (package_pending_path d)) (\<lambda>_.
     package_write_atomic U J d t True))"

definition package_archive :: "uuid_lib \<Rightarrow> pkg_json \<Rightarrow> path \<Rightarrow> PackageTransaction \<Rightarrow> (PackageTransactionError, unit) io" where
  "package_archive U J d t =
     (if pt_phase t \<noteq> Complete \<and> pt_phase t \<noteq> Interrupted
      then io_throw (pkg_invalid ''Only terminal package transactions can be archived'')
      else
        io_bind (package_update U J d t) (\<lambda>_.
        io_bind (package_ensure_directory (package_history_dir d)) (\<lambda>_.
        let destination = package_history_dir d @ [hyphenated U (pt_id t) @ ''.json''] in
        io_match (symlink_metadata destination) (\<lambda>there.
        case there of
          Inr _ \<Rightarrow> io_throw (PackageTransactionError_new PkUnsafePath ''Package transaction history entry already exists'')
        | Inl _ \<Rightarrow>
            io_bind (io_map_err (pkg_io_error ''Could not archive package transaction'')
                       (fs_rename (package_pending_path d) destination)) (\<lambda>_.
            io_bind (io_map_err (pkg_io_error ''Could not sync package transaction history'')
                       (sync_directory (package_history_dir d))) (\<lambda>_.
            io_map_err (pkg_io_error ''Could not sync package transactions'') (sync_directory d)))))))"


subsection \<open>Steps of a package transaction\<close>

inductive pkg_step :: "PackageTransaction \<Rightarrow> PackageTransaction \<Rightarrow> bool" where
  pre: "record_pre i now t = (t', Inr ()) \<Longrightarrow> pkg_step t t'"
| skip: "skip_pre now t = (t', Inr ()) \<Longrightarrow> pkg_step t t'"
| without_post: "complete_without_post now t = (t', Inr ()) \<Longrightarrow> pkg_step t t'"
| post: "record_post i now t = (t', Inr ()) \<Longrightarrow> pkg_step t t'"
| stop: "interrupt failure now t = (t', Inr ()) \<Longrightarrow> pkg_step t t'"

fun pkg_rank :: "PackageTransactionPhase \<Rightarrow> nat" where
  "pkg_rank PreparingPre = 0"
| "pkg_rank AwaitingPost = 1"
| "pkg_rank Complete = 2"
| "pkg_rank Interrupted = 2"

lemmas pkg_update_defs = record_pre_def skip_pre_def complete_without_post_def record_post_def interrupt_def
  pkg_validated_def

lemma pkg_step_facts:
  "pkg_step t t' \<Longrightarrow> PackageTransaction_validate t' = Inr () \<and> pt_id t' = pt_id t \<and> pt_created_at t' = pt_created_at t
    \<and> pkg_rank (pt_phase t) < pkg_rank (pt_phase t')
    \<and> (pt_phase t \<noteq> PreparingPre \<longrightarrow> pt_pre_deployment_id t' = pt_pre_deployment_id t)"
  by (erule pkg_step.cases; cases "pt_phase t"; simp add: pkg_update_defs split: if_splits; elim conjE; simp)

lemma pkg_steps_facts:
  assumes "pkg_step\<^sup>*\<^sup>* t t'" and "PackageTransaction_validate t = Inr ()"
  shows "PackageTransaction_validate t' = Inr () \<and> pt_id t' = pt_id t \<and> pt_created_at t' = pt_created_at t
    \<and> (t' = t \<or> pkg_rank (pt_phase t) < pkg_rank (pt_phase t'))
    \<and> (pt_phase t \<noteq> PreparingPre \<longrightarrow> pt_pre_deployment_id t' = pt_pre_deployment_id t)"
  using assms
proof (induction rule: rtranclp_induct)
  case (step u v)
  then have IH: "pt_id u = pt_id t" "pt_created_at u = pt_created_at t"
      "u = t \<or> pkg_rank (pt_phase t) < pkg_rank (pt_phase u)"
      "pt_phase t \<noteq> PreparingPre \<longrightarrow> pt_pre_deployment_id u = pt_pre_deployment_id t"
    by blast+
  have "pt_phase t \<noteq> PreparingPre \<Longrightarrow> pt_phase u \<noteq> PreparingPre"
    using IH(3) by (cases "pt_phase u") auto
  then show ?case using IH pkg_step_facts [OF step.hyps(2)] by auto
qed simp

subsection \<open>Diagnostics\<close>

lemma chars_trim: "\<exists>a b. chars s = a @ chars (str_trim s) @ b"
proof -
  define m where "m = rev (dropWhile char_is_whitespace (rev (dropWhile char_is_whitespace (chars s))))"
  obtain a where a: "chars s = a @ dropWhile char_is_whitespace (chars s)" by (metis takeWhile_dropWhile_id)
  obtain b where b: "dropWhile char_is_whitespace (chars s) = m @ b"
    unfolding m_def by (metis rev_append rev_rev_ident takeWhile_dropWhile_id)
  have split: "chars s = a @ m @ b" using a b by simp
  have "chars (concat m) = m"
  proof (rule chars_concat)
    show "\<forall>c \<in> set m. chunk c" using split chars_chunks [of _ s] by auto
    show "\<forall>c \<in> set (tl m). leads c"
    proof
      fix c assume "c \<in> set (tl m)"
      then have "c \<in> set (tl (chars s))" unfolding split by (cases a; cases m) auto
      then show "leads c" by (rule chars_tl_leads)
    qed
  qed
  with split show ?thesis unfolding str_trim_def m_def [symmetric] by metis
qed

lemma sanitize_failure_ok: "\<not> bad_package_failure (sanitize_failure s)"
proof -
  let ?cut = "concat (take PACKAGE_MAX_FAILURE_LENGTH (map blank_control (chars s)))"
  obtain a b where "chars ?cut = a @ chars (str_trim ?cut) @ b" using chars_trim by blast
  then have parts: "set (chars (str_trim ?cut)) \<subseteq> set (chars ?cut)" "length (chars (str_trim ?cut)) \<le> length (chars ?cut)"
    by (metis Un_subset_iff order_refl set_append, simp)
  have clean: "\<not> char_is_control c" if "c \<in> set (chars ?cut)" for c
    using that unfolding chars_clean by (auto dest!: in_set_takeD)
  have "length (chars ?cut) \<le> PACKAGE_MAX_FAILURE_LENGTH" unfolding chars_clean by simp
  then have trimmed: "\<not> bad_package_failure (str_trim ?cut)" if "str_trim ?cut \<noteq> []"
    using that parts clean by (auto simp: bad_package_failure_def list_ex_iff)
  have default: "\<not> bad_package_failure ''Unspecified package hook failure''"
    unfolding bad_package_failure_def PACKAGE_MAX_FAILURE_LENGTH_def by code_simp
  show ?thesis
    unfolding sanitize_failure_def Let_def using trimmed default by (cases "str_trim ?cut = []") (simp_all only: if_True if_False simp_thms)
qed

subsection \<open>The store\<close>

lemma package_temporary_apart: "apart (package_temporary U d u) (package_pending_path d)"
  by (simp add: package_temporary_def package_pending_path_def PENDING_PACKAGE_TRANSACTION_def)

lemma package_under:
  "package_pending_path d \<in> under d" "package_temporary U d u \<in> under d"
  "under (package_pending_path d) \<subseteq> under d" "under (package_temporary U d u) \<subseteq> under d"
  "package_history_dir d \<in> under d" "under (package_history_dir d @ [n]) \<subseteq> under d"
  by (auto simp: under_def package_pending_path_def package_temporary_def package_history_dir_def prefix_def)

lemma touches_read_transaction [io_rules]: "touches S (read_transaction J p)"
  unfolding read_transaction_def Let_def by (intro io_rules)

lemma touches_package_load_pending [io_rules]: "touches S (package_load_pending J d)"
  unfolding package_load_pending_def by (intro io_rules)

lemma touches_package_checks [io_rules]:
  "touches S (package_ensure_real_directory p)" "touches S (package_ensure_regular_file p)"
  unfolding package_ensure_real_directory_def package_ensure_regular_file_def by (intro io_rules)+

lemma touches_package_ensure_directory [io_rules]: "p \<in> S \<Longrightarrow> touches S (package_ensure_directory p)"
  unfolding package_ensure_directory_def Let_def by (intro io_rules)

lemma touches_package_write_atomic [io_rules]: "touches (under d) (package_write_atomic U J d t replace)"
  unfolding package_write_atomic_def Let_def by (intro io_rules package_under)

lemma touches_package_create [io_rules]: "touches (under d) (package_create U J d t)"
  unfolding package_create_def by (intro io_rules)

lemma touches_package_update [io_rules]: "touches (under d) (package_update U J d t)"
  unfolding package_update_def by (intro io_rules)

lemma touches_package_archive [io_rules]: "touches (under d) (package_archive U J d t)"
  unfolding package_archive_def Let_def by (intro io_rules package_under)

definition pkg_image :: "pkg_json \<Rightarrow> PackageTransaction \<Rightarrow> bytes \<Rightarrow> bool" where
  "pkg_image J t b \<longleftrightarrow> PackageTransaction_validate t = Inr () \<and> (\<exists>s. pj_print J t = Inr s \<and> b = s @ newline)"

lemma triple_package_write_atomic:
  assumes "PackageTransaction_validate t = Inr ()"
  shows "io_triple (\<lambda>w. map_of (nodes w) (package_pending_path d) = i) (package_write_atomic U J d t replace)
    (\<lambda>_ w. (i = None \<or> replace) \<and> slot_holds (pkg_image J t) (map_of (nodes w) (package_pending_path d)))
    (\<lambda>_ w. map_of (nodes w) (package_pending_path d) = i
       \<or> (i = None \<or> replace) \<and> slot_holds (pkg_image J t) (map_of (nodes w) (package_pending_path d)))"
    (is "io_triple ?P _ _ ?E")
proof -
  have new: "io_triple ?P new_v4 (\<lambda>_. ?P) ?E"
    by (simp add: io_triple_def new_v4_def tick_def)
  show ?thesis
    unfolding package_write_atomic_def Let_def
    by (rule triple_bind [OF new], rule triple_lift, rule triple_write_closure [OF package_temporary_apart])
      (use assms in \<open>auto simp: package_serialize_def pkg_image_def split: sum.splits\<close>)
qed

lemma triple_package_update:
  "io_triple (\<lambda>w. map_of (nodes w) (package_pending_path d) = i) (package_update U J d t)
    (\<lambda>_ w. slot_holds (pkg_image J t) (map_of (nodes w) (package_pending_path d)))
    (\<lambda>_ w. map_of (nodes w) (package_pending_path d) = i
       \<or> slot_holds (pkg_image J t) (map_of (nodes w) (package_pending_path d)))"
    (is "io_triple ?P _ ?Q ?E")
proof -
  have inspect: "io_triple ?P (package_ensure_regular_file (package_pending_path d)) (\<lambda>_. ?P) ?E"
    by (rule triple_weaken [OF triple_query]) (auto intro: io_rules)
  have commit: "io_triple ?P (package_write_atomic U J d t True) ?Q ?E"
    if "PackageTransaction_validate t = Inr u" for u
    using that by (intro triple_weaken [OF triple_package_write_atomic]) auto
  show ?thesis
    unfolding package_update_def
    by (rule triple_lift, rule triple_bind [OF inspect commit]) auto
qed

lemma triple_package_create:
  "io_triple (\<lambda>w. map_of (nodes w) (package_pending_path d) = i) (package_create U J d t)
    (\<lambda>_ w. i = None \<and> slot_holds (pkg_image J t) (map_of (nodes w) (package_pending_path d)))
    (\<lambda>_ w. map_of (nodes w) (package_pending_path d) = i
       \<or> i = None \<and> slot_holds (pkg_image J t) (map_of (nodes w) (package_pending_path d)))"
    (is "io_triple ?P _ ?Q ?E")
proof -
  have directory: "io_triple ?P (package_ensure_real_directory d) (\<lambda>_. ?P) ?E"
    by (rule triple_weaken [OF triple_query]) (auto intro: io_rules)
  have inspect: "io_triple ?P (symlink_metadata (package_pending_path d)) (\<lambda>_. ?P) (\<lambda>_. ?P)"
    by (rule triple_query) (rule io_rules)
  have commit: "io_triple ?P (package_write_atomic U J d t False) ?Q ?E"
    if "PackageTransaction_validate t = Inr u" for u
    using that by (intro triple_weaken [OF triple_package_write_atomic]) auto
  show ?thesis
    unfolding package_create_def
    by (rule triple_lift, rule triple_bind [OF directory], rule triple_match [OF inspect])
      (auto simp: triple_throw intro: commit)
qed

interpretation package: durable_store d "\<lambda>_. package_pending_path d" "package_update U J d" "pkg_image J"
  for d U J
proof
  show "touches (under d) (package_update U J d t)" for t by (rule touches_package_update)
  note triple = triple_package_update [of d "map_of (nodes w) (package_pending_path d)" U J for w]
  show "slot_holds (pkg_image J t) (map_of (nodes w') (package_pending_path d))"
    if "package_update U J d t w = (Inr (), w')" for t w w'
    using io_tripleD_ok [OF triple refl that] .
  show "map_of (nodes w') (package_pending_path d) = map_of (nodes w) (package_pending_path d)
      \<or> slot_holds (pkg_image J t) (map_of (nodes w') (package_pending_path d))"
    if "package_update U J d t w = (Inl e, w')" for t w e w'
    using io_tripleD_err [OF triple refl that] .
qed simp

subsection \<open>Archiving\<close>

definition package_history_path :: "uuid_lib \<Rightarrow> path \<Rightarrow> PackageTransaction \<Rightarrow> path" where
  "package_history_path U d t = package_history_dir d @ [hyphenated U (pt_id t) @ ''.json'']"

lemma package_history_apart: "apart (package_pending_path d) (package_history_path U d t)"
  by (simp add: package_pending_path_def package_history_path_def package_history_dir_def
      PENDING_PACKAGE_TRANSACTION_def apart_def)

lemma triple_package_archive:
  "io_triple (\<lambda>w. map_of (nodes w) (package_pending_path d) = i) (package_archive U J d t)
    (\<lambda>_ w. map_of (nodes w) (package_pending_path d) = None
       \<and> slot_holds (pkg_image J t) (map_of (nodes w) (package_history_path U d t)))
    (\<lambda>_ w. map_of (nodes w) (package_pending_path d) = i
       \<or> slot_holds (pkg_image J t) (map_of (nodes w) (package_pending_path d))
       \<or> map_of (nodes w) (package_pending_path d) = None
         \<and> slot_holds (pkg_image J t) (map_of (nodes w) (package_history_path U d t)))"
    (is "io_triple ?P _ (\<lambda>_. ?Q) ?E")
proof -
  let ?I = "\<lambda>w. slot_holds (pkg_image J t) (map_of (nodes w) (package_pending_path d))"
  have update: "io_triple ?P (package_update U J d t) (\<lambda>_. ?I) ?E"
    by (rule triple_weaken [OF triple_package_update]) auto
  have keep: "io_triple ?I m (\<lambda>_. ?I) (\<lambda>_. ?I)"
    if "touches {package_history_dir d} m" for m :: "('e, 'y) io"
    using touchesD [OF that, of _ _ _ "package_pending_path d"]
    by (intro io_tripleI) (auto simp: package_pending_path_def package_history_dir_def PENDING_PACKAGE_TRANSACTION_def)
  have directory: "io_triple ?I (package_ensure_directory (package_history_dir d)) (\<lambda>_. ?I) ?E"
    by (rule triple_weaken [OF keep]) (auto intro: io_rules)
  have inspect: "io_triple ?I (symlink_metadata p) (\<lambda>_. ?I) (\<lambda>_. ?I)" for p
    by (rule keep) (rule io_rules)
  have move: "io_triple ?I (fs_rename (package_pending_path d) (package_history_path U d t)) (\<lambda>_. ?Q) (\<lambda>_. ?I)"
    using fs_rename_moves [OF package_history_apart, where r = "[]"] fs_rename_refused
    by (intro io_tripleI) (fastforce, metis)
  have sync: "io_triple ?Q (io_map_err h (sync_directory p)) (\<lambda>_. ?Q) ?E" for h p
    by (rule triple_map_err, rule triple_weaken [OF triple_sync_directory [where P = "\<lambda>ns.
          map_of ns (package_pending_path d) = None
          \<and> slot_holds (pkg_image J t) (map_of ns (package_history_path U d t))"]]) auto
  have rename: "io_triple ?I (io_map_err h (fs_rename (package_pending_path d) (package_history_path U d t))) (\<lambda>_. ?Q) ?E" for h
    by (rule triple_map_err, rule triple_weaken [OF move]) auto
  show ?thesis
    unfolding package_archive_def Let_def package_history_path_def [symmetric]
    by (rule triple_if, rule triple_throw, simp, rule triple_bind [OF update], rule triple_bind [OF directory],
        rule triple_match [OF inspect])
      (auto intro!: triple_throw triple_bind [OF rename triple_bind [OF sync sync]])
qed

subsection \<open>Properties\<close>

text \<open>C34. Every sequence of updates of a valid package transaction ends in a valid record of the same transaction. A record that changed is in a later phase, so a finished transaction stays as it is. Once the transaction waits for the packages, its pre snapshot is fixed.\<close>

lemma package_steps_safe:
  assumes "PackageTransaction_validate t = Inr ()" and "pkg_step\<^sup>*\<^sup>* t t'"
  shows "PackageTransaction_validate t' = Inr () \<and> pt_id t' = pt_id t \<and> pt_created_at t' = pt_created_at t
    \<and> (t' = t \<or> pkg_rank (pt_phase t) < pkg_rank (pt_phase t'))
    \<and> (pt_phase t \<noteq> PreparingPre \<longrightarrow> pt_pre_deployment_id t' = pt_pre_deployment_id t)"
  using pkg_steps_facts [OF assms(2,1)] .

definition witness_package :: PackageTransaction where
  "witness_package =
     \<lparr>pt_schema_version = PACKAGE_TRANSACTION_SCHEMA_VERSION, pt_id = 7, pt_phase = PreparingPre,
      pt_created_at = 100, pt_updated_at = 100, pt_pre_deployment_id = None,
      pt_post_deployment_id = None, pt_failure = None\<rparr>"

lemma package_steps_safe_witness:
  "\<exists>t'. pkg_step\<^sup>*\<^sup>* witness_package t' \<and> pt_phase t' = Complete
     \<and> PackageTransaction_validate t' = Inr () \<and> pt_id t' = 7"
proof -
  obtain t where t: "record_pre 8 101 witness_package = (t, Inr ())" "pt_phase t = AwaitingPost" "pt_id t = 7"
      "pt_post_deployment_id t = None"
    and "PackageTransaction_validate witness_package = Inr ()"
    by (simp add: witness_package_def record_pre_def pkg_validated_def
        PackageTransaction_validate_def validate_package_phase_def check_def PACKAGE_TRANSACTION_SCHEMA_VERSION_def)
  obtain t' where t': "record_post 9 102 t = (t', Inr ())" "pt_phase t' = Complete"
    using t by (auto simp: witness_package_def record_pre_def record_post_def pkg_validated_def
        PackageTransaction_validate_def validate_package_phase_def check_def PACKAGE_TRANSACTION_SCHEMA_VERSION_def)
  have "pkg_step\<^sup>*\<^sup>* witness_package t'"
    using pkg_step.pre [OF t(1)] pkg_step.post [OF t'(1)] by (meson converse_rtranclp_into_rtranclp r_into_rtranclp)
  with package_steps_safe [OF \<open>PackageTransaction_validate witness_package = Inr ()\<close>] t'(2)
  show ?thesis by (auto simp: witness_package_def)
qed

text \<open>A valid package transaction that has not ended can be interrupted at any later time and with any diagnostic: the text is cleaned and cut so that the record stays valid.\<close>

lemma package_interrupt_total:
  assumes "PackageTransaction_validate t = Inr ()" and "pt_phase t \<noteq> Complete" and "pt_phase t \<noteq> Interrupted"
    and "pt_created_at t \<le> now"
  shows "interrupt failure now t
    = (t\<lparr>pt_phase := Interrupted, pt_post_deployment_id := None,
         pt_failure := Some (sanitize_failure failure), pt_updated_at := now\<rparr>, Inr ())"
  using assms sanitize_failure_ok [of failure]
  by (simp add: interrupt_def pkg_validated_def PackageTransaction_validate_def validate_package_phase_def check_def
      split: if_splits)


lemma package_interrupt_total_witness:
  "snd (interrupt ''hook failed'' 101 witness_package) = Inr ()"
  using package_interrupt_total [of witness_package 101 "''hook failed''"]
  by (simp add: witness_package_def PackageTransaction_validate_def
      validate_package_phase_def check_def PACKAGE_TRANSACTION_SCHEMA_VERSION_def)

text \<open>Archiving a package transaction leaves its record in one place whatever fails.\<close>

lemma package_archive_durable:
  "case package_archive U J d t w of
     (Inr _, w') \<Rightarrow> map_of (nodes w') (package_pending_path d) = None
       \<and> slot_holds (pkg_image J t) (map_of (nodes w') (package_history_path U d t))
   | (Inl _, w') \<Rightarrow> map_of (nodes w') (package_pending_path d) = map_of (nodes w) (package_pending_path d)
       \<or> slot_holds (pkg_image J t) (map_of (nodes w') (package_pending_path d))
       \<or> map_of (nodes w') (package_pending_path d) = None
         \<and> slot_holds (pkg_image J t) (map_of (nodes w') (package_history_path U d t))"
proof (cases "package_archive U J d t w")
  case (Pair r w')
  note triple = triple_package_archive [of d "map_of (nodes w) (package_pending_path d)" U J t]
  show ?thesis
  proof (cases r)
    case (Inl e)
    from io_tripleD_err [OF triple refl] Pair this show ?thesis by simp
  next
    case (Inr u)
    from io_tripleD_ok [OF triple refl] Pair this show ?thesis by simp
  qed
qed

end
