(* ===== verification/Operations.thy ===== *)
theory Operations
  imports Package_Transaction Coordination Layout Lineage
begin

text \<open>
  \<open>operations.rs\<close>: the engine that creates, verifies, renames, pins and deletes system
  snapshots. One record per snapshot in \<open>metadata\<close>, the snapshot itself under
  \<open>deployments\<close>, and a node in the system lineage. With the two checks of
  \<open>history_cleanup.rs\<close> that guard creation and deletion.
\<close>

subsection \<open>Errors and phases\<close>

datatype OperationPhase =
  OpValidate | OpRecordTransaction | OpSnapshot | OpCaptureIdentity | OpCommit | OpCleanup

fun OperationPhase_as_str :: "OperationPhase \<Rightarrow> string" where
  "OperationPhase_as_str OpValidate = ''validate''"
| "OperationPhase_as_str OpRecordTransaction = ''record-transaction''"
| "OperationPhase_as_str OpSnapshot = ''snapshot''"
| "OperationPhase_as_str OpCaptureIdentity = ''capture-identity''"
| "OperationPhase_as_str OpCommit = ''commit''"
| "OperationPhase_as_str OpCleanup = ''cleanup''"

datatype OperationErrorCode =
  OeBusy | OeUnsupportedLayout | OeInvalidInput | OeUnsafePath | OeNotFound | OeProtected | OeIo
  | OeCommandFailed | OeInvalidIdentity | OeInsufficientSpace

fun OperationErrorCode_as_str :: "OperationErrorCode \<Rightarrow> string" where
  "OperationErrorCode_as_str OeBusy = ''busy''"
| "OperationErrorCode_as_str OeUnsupportedLayout = ''unsupported-layout''"
| "OperationErrorCode_as_str OeInvalidInput = ''invalid-input''"
| "OperationErrorCode_as_str OeUnsafePath = ''unsafe-path''"
| "OperationErrorCode_as_str OeNotFound = ''not-found''"
| "OperationErrorCode_as_str OeProtected = ''protected''"
| "OperationErrorCode_as_str OeIo = ''io-error''"
| "OperationErrorCode_as_str OeCommandFailed = ''command-failed''"
| "OperationErrorCode_as_str OeInvalidIdentity = ''invalid-identity''"
| "OperationErrorCode_as_str OeInsufficientSpace = ''insufficient-space''"

record OperationError =
  oe_code :: OperationErrorCode
  oe_message :: string

definition OperationError_new :: "OperationErrorCode \<Rightarrow> string \<Rightarrow> OperationError" where
  "OperationError_new c m = \<lparr>oe_code = c, oe_message = m\<rparr>"

definition op_io_error :: "string \<Rightarrow> io_error \<Rightarrow> OperationError" where
  "op_io_error context e = OperationError_new OeIo (context @ '': '' @ err_text e)"

definition op_lineage_error :: "LineageError \<Rightarrow> OperationError" where
  "op_lineage_error e =
     OperationError_new
       (case le_code e of LeUnsafePath \<Rightarrow> OeUnsafePath | LeInvalidRecord \<Rightarrow> OeInvalidIdentity | LeIo \<Rightarrow> OeIo)
       (''Could not update system history: '' @ le_message e)"

definition identity_mismatch :: "string \<Rightarrow> OperationError" where
  "identity_mismatch identity =
     OperationError_new OeInvalidIdentity
       (''System snapshot '' @ identity @ '' does not match its recorded identity'')"

datatype ScheduledSnapshotOutcome = ScheduledCreated DeploymentRecord | NotDue
datatype FactorySnapshotOutcome = FactoryCreated DeploymentRecord | FactoryExisting DeploymentRecord

subsection \<open>The engine and its environment\<close>

definition MOK_CERTIFICATE :: path where "MOK_CERTIFICATE = [''var'', ''lib'', ''shim-signed'', ''mok'', ''MOK.der'']"
definition OP_MAX_COMMAND_DIAGNOSTIC :: nat where "OP_MAX_COMMAND_DIAGNOSTIC = 2000"
definition OP_MAX_FAILURE_MESSAGE :: nat where "OP_MAX_FAILURE_MESSAGE = 2000"

text \<open>The trait \<open>CommandRunner\<close>: the standard output of a program that succeeded.\<close>

type_synonym command_runner = "string \<Rightarrow> argument list \<Rightarrow> (OperationError, bytes) io"

definition op_safe_diagnostic :: "bytes \<Rightarrow> string" where
  "op_safe_diagnostic b =
     concat (take OP_MAX_COMMAND_DIAGNOSTIC
       (chars (str_trim (concat (map blank_control (chars (from_utf8_lossy b)))))))"

definition system_command_runner :: "(string \<Rightarrow> command) \<Rightarrow> command_runner" where
  "system_command_runner run program arguments =
     io_bind (io_map_err (\<lambda>e. OperationError_new OeCommandFailed
         (''Could not execute '' @ program @ '': '' @ err_text e)) (run program arguments)) (\<lambda>out.
     if \<not> success out
     then
       let d = op_safe_diagnostic (stderr out) in
       io_throw (OperationError_new OeCommandFailed
         (program @ '' exited with '' @ status out @ (if d = [] then [] else '': '' @ d)))
     else io_return (stdout out))"

record OperationEngine =
  oe_system_root :: path
  oe_snapshot_root :: path
  oe_runner :: command_runner
  oe_minimum_free_bytes :: u64

text \<open>
  Library code and kernel state that the file tree does not hold: the \<open>uuid\<close> crate, JSON,
  SHA-256, \<open>statvfs\<close> and the target of a symbolic link.
\<close>

record operation_libs =
  ol_uuid :: uuid_lib
  ol_tx :: tx_json
  ol_dep :: dep_json
  ol_lin :: lin_json
  ol_pkg :: pkg_json
  ol_sha256 :: "bytes \<Rightarrow> string"
  ol_statvfs :: "path \<Rightarrow> (io_error, statvfs) io"
  ol_read_link :: "path \<Rightarrow> (io_error, string) io"

text \<open>
  The progress callback, with the fraction in hundredths. It returns no value to the engine, so
  the continuation runs whatever it does.
\<close>

type_synonym op_progress = "OperationPhase \<Rightarrow> int \<Rightarrow> string \<Rightarrow> (unit, unit) io"

definition notify :: "(unit, unit) io \<Rightarrow> ('e, 'a) io \<Rightarrow> ('e, 'a) io" where
  "notify m k = io_match m (\<lambda>_. k)"

definition lineage_dir :: "path \<Rightarrow> path" where
  "lineage_dir root = root @ [''history'']"

definition deployment_dir :: "uuid_lib \<Rightarrow> OperationEngine \<Rightarrow> uuid \<Rightarrow> path" where
  "deployment_dir U E i = oe_snapshot_root E @ [''deployments'', hyphenated U i]"

subsection \<open>Checks on history\<close>

definition ensure_creation_allowed :: "uuid_lib \<Rightarrow> tx_json \<Rightarrow> path \<Rightarrow> (string, unit) io" where
  "ensure_creation_allowed U J root =
     io_bind (io_map_err te_message (load_pending U J (transactions_dir root))) (\<lambda>pending.
     if is_some_and pending tx_purge_history
     then io_throw ''Snapshot creation is paused until factory history cleanup completes''
     else io_return ())"

definition validate_consent :: "uuid_lib \<Rightarrow> tx_json \<Rightarrow> dep_json \<Rightarrow> path \<Rightarrow> (string, RollbackTransaction) io" where
  "validate_consent U J D root =
     io_bind (io_map_err te_message (load_pending U J (transactions_dir root))) (\<lambda>pending.
     case pending of
       None \<Rightarrow> io_throw ''History cleanup requires a pending factory reset''
     | Some t \<Rightarrow>
         if \<not> tx_purge_history t \<or> \<not> tx_reset_home t \<or> tx_home_only t \<or> tx_phase t \<noteq> Confirmed
         then io_throw ''History cleanup requires an explicitly authorized, confirmed factory reset''
         else
           io_bind (io_map_err di_message (load_record U D root (tx_target_deployment_id t))) (\<lambda>target.
           if dep_kind target \<noteq> Factory \<or> \<not> dep_pinned target \<or> \<not> can_restore U target
           then io_throw ''History cleanup requires a healthy protected factory System snapshot''
           else io_return t))"

subsection \<open>Small checks\<close>

definition ensure_supported_layout :: "LayoutReport \<Rightarrow> OperationError + unit" where
  "ensure_supported_layout layout =
     check (lr_support layout \<noteq> Supported)
       (OperationError_new OeUnsupportedLayout ''The complete AnduinOS Btrfs layout is required'')"

definition validate_transaction_label :: "uuid_lib \<Rightarrow> string \<Rightarrow> OperationError + unit" where
  "validate_transaction_label U value =
     (case parse_str U value of
        None \<Rightarrow> Inl (OperationError_new OeInvalidInput ''Package transaction identifier is not a UUID'')
      | Some parsed \<Rightarrow>
          check (hyphenated U parsed \<noteq> value)
            (OperationError_new OeInvalidInput ''Package transaction identifier is not canonical''))"

definition op_validate_snapshot_interval :: "u32 \<Rightarrow> OperationError + unit" where
  "op_validate_snapshot_interval interval_hours =
     check (\<not> (1 \<le> interval_hours \<and> interval_hours \<le> 24))
       (OperationError_new OeInvalidInput ''Snapshot interval must be between 1 and 24 hours'')"

definition ordinary_kind :: "DeploymentKind \<Rightarrow> bool" where
  "ordinary_kind k \<longleftrightarrow> k = Manual \<or> k = Automatic \<or> k = AptPre \<or> k = AptPost \<or> k = PreRollback"

text \<open>Timestamps count nanoseconds, as \<open>chrono\<close> does.\<close>

definition op_scheduled_snapshot_due :: "DeploymentRecord list \<Rightarrow> u32 \<Rightarrow> timestamp \<Rightarrow> bool" where
  "op_scheduled_snapshot_due deployments interval_hours now =
     (let taken = map dep_created_at (filter (\<lambda>r. dep_state r = Ready \<and> ordinary_kind (dep_kind r)) deployments)
      in if taken = [] then True
         else int (unat interval_hours) * 3600000000000 \<le> now - fold max (tl taken) (hd taken))"

definition op_validate_kernel_release :: "string \<Rightarrow> OperationError + unit" where
  "op_validate_kernel_release value =
     check (value = [] \<or> 128 < length value
            \<or> \<not> list_all (\<lambda>b. is_ascii_alphanumeric b \<or> b \<in> set ''._+-'') value)
       (OperationError_new OeInvalidIdentity ''Kernel release contains unsafe characters'')"

definition op_verify_digest :: "string \<Rightarrow> string option \<Rightarrow> string \<Rightarrow> OperationError + unit" where
  "op_verify_digest identity expected actual = check (expected \<noteq> Some actual) (identity_mismatch identity)"

definition truncate_failure :: "string \<Rightarrow> string" where
  "truncate_failure message = concat (take OP_MAX_FAILURE_MESSAGE (chars message))"

definition parse_btrfs_uuid :: "uuid_lib \<Rightarrow> string \<Rightarrow> string \<Rightarrow> OperationError + string option" where
  "parse_btrfs_uuid U text field =
     (case find_map (\<lambda>line. map_option str_trim (strip_prefix field (str_trim_start line))) (lines text) of
        None \<Rightarrow> Inr None
      | Some value \<Rightarrow>
          if value = ''-'' then Inr None
          else case parse_str U value of
            None \<Rightarrow> Inl (OperationError_new OeInvalidIdentity (''Btrfs reported an invalid '' @ field @ '' value''))
          | Some u \<Rightarrow> Inr (Some (hyphenated U u)))"

subsection \<open>Files\<close>

definition remove_dir :: "path \<Rightarrow> (io_error, unit) io" where
  "remove_dir p = syscall (\<lambda>ns.
     (case map_of ns p of
        None \<Rightarrow> (Inl enoent, ns)
      | Some i \<Rightarrow>
          (if ftype i \<noteq> Directory then (Inl (IoError OtherKind ''Not a directory (os error 20)''), ns)
           else if fs_children ns p \<noteq> [] then (Inl (IoError OtherKind ''Directory not empty (os error 39)''), ns)
           else (Inr (), fs_remove p ns))))"

definition ensure_existing_directory :: "path \<Rightarrow> (OperationError, unit) io" where
  "ensure_existing_directory p =
     io_bind (io_map_err (op_io_error (''Could not inspect '' @ display_path p)) (symlink_metadata p)) (\<lambda>metadata.
     if ftype metadata = Directory then io_return ()
     else io_throw (OperationError_new OeUnsafePath (display_path p @ '' is not a real directory'')))"

definition op_ensure_directory :: "path \<Rightarrow> u32 \<Rightarrow> (OperationError, unit) io" where
  "op_ensure_directory p m =
     (let secure = io_map_err (op_io_error (''Could not secure '' @ display_path p)) (set_permissions p m) in
      io_match (symlink_metadata p) (\<lambda>r.
        case r of
          Inr metadata \<Rightarrow>
            (if ftype metadata = Directory then secure
             else io_throw (OperationError_new OeUnsafePath (display_path p @ '' is not a real directory'')))
        | Inl e \<Rightarrow>
            (if err_kind e \<noteq> NotFound then io_throw (op_io_error (''Could not inspect '' @ display_path p) e)
             else
               io_bind (io_map_err (op_io_error (''Could not create '' @ display_path p)) (create_dir p 0x1ED)) (\<lambda>_.
               io_bind secure (\<lambda>_. ensure_existing_directory p)))))"

definition ensure_new_directory :: "path \<Rightarrow> u32 \<Rightarrow> (OperationError, unit) io" where
  "ensure_new_directory p m =
     io_bind (io_map_err (op_io_error (''Could not create '' @ display_path p)) (create_dir p 0x1ED)) (\<lambda>_.
     io_bind (io_map_err (op_io_error (''Could not secure '' @ display_path p)) (set_permissions p m)) (\<lambda>_.
     ensure_existing_directory p))"

text \<open>Opening with \<open>O_NOFOLLOW\<close>, then \<open>fstat\<close> on the open file.\<close>

definition open_regular_file :: "path \<Rightarrow> (OperationError, unit) io" where
  "open_regular_file p =
     io_bind (io_map_err (op_io_error (''Could not open '' @ display_path p)) (open_read p)) (\<lambda>_.
     io_bind (io_map_err (op_io_error (''Could not inspect '' @ display_path p)) (symlink_metadata p)) (\<lambda>metadata.
     if regular_content metadata = None
     then io_throw (OperationError_new OeUnsafePath (display_path p @ '' is not a regular file''))
     else io_return ()))"

definition op_hash_regular_file :: "(bytes \<Rightarrow> string) \<Rightarrow> path \<Rightarrow> (OperationError, string) io" where
  "op_hash_regular_file sha256 p =
     io_bind (open_regular_file p) (\<lambda>_.
     io_bind (io_map_err (op_io_error (''Could not read '' @ display_path p)) (read_all p)) (\<lambda>content.
     io_return (sha256 content)))"

definition hash_optional_regular_file :: "(bytes \<Rightarrow> string) \<Rightarrow> path \<Rightarrow> (OperationError, string option) io" where
  "hash_optional_regular_file sha256 p =
     io_match (symlink_metadata p) (\<lambda>r.
       case r of
         Inr _ \<Rightarrow> io_bind (op_hash_regular_file sha256 p) (\<lambda>d. io_return (Some d))
       | Inl e \<Rightarrow>
           (if err_kind e = NotFound then io_return None
            else io_throw (op_io_error (''Could not inspect '' @ display_path p) e)))"

definition op_read_kernel_release :: "path \<Rightarrow> (OperationError, string) io" where
  "op_read_kernel_release system_root =
     (let p = system_root @ [''proc'', ''sys'', ''kernel'', ''osrelease''] in
      io_bind (open_regular_file p) (\<lambda>_.
      io_bind (io_map_err (op_io_error ''Could not read the kernel release'') (read_to_end p 130)) (\<lambda>bytes.
      if \<not> utf8_valid bytes then io_throw (OperationError_new OeInvalidIdentity ''Kernel release is not UTF-8'')
      else io_bind (io_lift (op_validate_kernel_release (str_trim bytes))) (\<lambda>_. io_return (str_trim bytes)))))"

text \<open>The number of components of a path as a string, with the root and a leading dot.\<close>

definition component_count :: "string \<Rightarrow> nat" where
  "component_count s =
     (if s \<noteq> [] \<and> hd s = CHR ''/'' then 1 else 0) + (if hd (split_char CHR ''/'' s) = ''.'' then 1 else 0)
     + length (path_components s)"

definition boot_file :: "path \<Rightarrow> string \<Rightarrow> string \<Rightarrow> path" where
  "boot_file root stem release = root @ [''boot'', stem @ release]"

definition read_default_installed_kernel_release ::
  "(path \<Rightarrow> (io_error, string) io) \<Rightarrow> path \<Rightarrow> (OperationError, string) io" where
  "read_default_installed_kernel_release read_link system_root =
     (let invalid = (\<lambda>m. io_throw (OperationError_new OeInvalidIdentity m)) in
      io_bind (io_map_err (op_io_error ''Could not read the default installed kernel link'')
                 (read_link (system_root @ [''boot'', ''vmlinuz'']))) (\<lambda>target.
      if component_count target \<noteq> 1 then invalid ''The default installed kernel link is unsafe''
      else if path_components target = [] \<or> hd (path_components target) = ''..'' \<or> \<not> utf8_valid target
      then invalid ''The default installed kernel link is not UTF-8''
      else case strip_prefix ''vmlinuz-'' (hd (path_components target)) of
        None \<Rightarrow> invalid ''The default installed kernel link does not name a kernel image''
      | Some release \<Rightarrow>
          io_bind (io_lift (op_validate_kernel_release release)) (\<lambda>_.
          io_bind (open_regular_file (boot_file system_root ''vmlinuz-'' release)) (\<lambda>_.
          io_bind (open_regular_file (boot_file system_root ''initrd.img-'' release)) (\<lambda>_.
          io_return release)))))"

subsection \<open>The recovery store\<close>

definition ensure_store_directories :: "OperationEngine \<Rightarrow> (OperationError, unit) io" where
  "ensure_store_directories E =
     (let root = oe_snapshot_root E in
      if root = [] then io_throw (OperationError_new OeUnsafePath ''Snapshot root has no parent directory'')
      else
        io_bind (ensure_existing_directory (butlast root)) (\<lambda>_.
        io_bind (op_ensure_directory root 0x1C0) (\<lambda>_.
        io_bind (op_ensure_directory (root @ [''deployments'']) 0x1C0) (\<lambda>_.
        io_bind (op_ensure_directory (root @ [''metadata'']) 0x1C0) (\<lambda>_.
        op_ensure_directory (root @ [''transactions'']) 0x1C0)))))"

definition ensure_transaction_reserve :: "operation_libs \<Rightarrow> OperationEngine \<Rightarrow> (OperationError, unit) io" where
  "ensure_transaction_reserve L E =
     (if oe_minimum_free_bytes E = 0 then io_return ()
      else if oe_snapshot_root E = []
      then io_throw (OperationError_new OeUnsafePath ''Snapshot root has no parent directory'')
      else
        io_bind (io_map_err (\<lambda>e. OperationError_new OeIo
            (''Could not inspect recovery storage space: '' @ err_text e))
            (probe_filesystem_space (ol_statvfs L) (butlast (oe_snapshot_root E)))) (\<lambda>space.
        if has_reserve space (oe_minimum_free_bytes E) then io_return ()
        else io_throw (OperationError_new OeInsufficientSpace
               (''Recovery storage has '' @ show_nat (unat (available_bytes space))
                @ '' bytes available; at least '' @ show_nat (unat (oe_minimum_free_bytes E))
                @ '' bytes are required''))))"

definition operation_lock :: "path \<Rightarrow> path" where
  "operation_lock root = root @ [''operation.lock'']"

definition op_acquire_lock :: "OperationEngine \<Rightarrow> (OperationError, unit) io" where
  "op_acquire_lock E =
     (let p = operation_lock (oe_snapshot_root E) in
      io_bind (io_map_err (op_io_error ''Could not open the operation lock'') (open_create p 0x180)) (\<lambda>_.
      io_map_err (\<lambda>e. OperationError_new (if err_kind e = WouldBlock then OeBusy else OeIo)
        (''Could not lock the recovery store: '' @ err_text e)) (flock_nonblocking p)))"

definition op_load_record :: "operation_libs \<Rightarrow> OperationEngine \<Rightarrow> uuid \<Rightarrow> (OperationError, DeploymentRecord) io" where
  "op_load_record L E i =
     io_map_err (\<lambda>e. OperationError_new (if di_code e = ReadFailed then OeNotFound else OeInvalidIdentity) (di_message e))
       (load_record (ol_uuid L) (ol_dep L) (oe_snapshot_root E) i)"

text \<open>\<open>DeploymentStore::discover\<close> always returns a report.\<close>

definition op_discover :: "operation_libs \<Rightarrow> OperationEngine \<Rightarrow> (OperationError, DiscoveryReport) io" where
  "op_discover L E =
     io_map_err (\<lambda>e. OperationError_new OeIo (di_message e)) (discover (ol_uuid L) (ol_dep L) (oe_snapshot_root E))"

definition op_check_record :: "uuid_lib \<Rightarrow> OperationErrorCode \<Rightarrow> DeploymentRecord \<Rightarrow> OperationError + unit" where
  "op_check_record U code r =
     (case DeploymentRecord_validate U r of
        Inl e \<Rightarrow> Inl (OperationError_new code (ModelError_to_string e))
      | Inr _ \<Rightarrow> Inr ())"

definition op_write_record_atomic :: "operation_libs \<Rightarrow> OperationEngine \<Rightarrow> DeploymentRecord \<Rightarrow> (OperationError, unit) io" where
  "op_write_record_atomic L E r =
     (let U = ol_uuid L; root = oe_snapshot_root E in
      io_bind (io_lift (op_check_record U OeInvalidIdentity r)) (\<lambda>_.
      io_bind (ensure_existing_directory (metadata_dir root)) (\<lambda>_.
      let target = record_path U root (dep_id r) in
      io_match (symlink_metadata target) (\<lambda>there.
      if (case there of Inr metadata \<Rightarrow> regular_content metadata = None | Inl _ \<Rightarrow> False)
      then io_throw (OperationError_new OeUnsafePath ''Deployment metadata target is not a regular file'')
      else
        io_bind new_v4 (\<lambda>u.
        let temporary = record_temporary U root (dep_id r) u in
        io_bind (io_lift (case dep_print (ol_dep L) r of
            Inl e \<Rightarrow> Inl (OperationError_new OeInvalidIdentity (''Could not serialize deployment metadata: '' @ e))
          | Inr b \<Rightarrow> Inr b)) (\<lambda>serialized.
        io_bind (io_map_err (op_io_error ''Could not create temporary deployment metadata'') (create_new temporary 0x180)) (\<lambda>_.
        io_match (replace_file (metadata_dir root) temporary target serialized) (\<lambda>result.
          case result of
            Inr _ \<Rightarrow> io_return ()
          | Inl e \<Rightarrow> io_match (remove_file temporary) (\<lambda>_.
              io_throw (op_io_error ''Could not atomically commit deployment metadata'' e))))))))))"

definition remove_record :: "operation_libs \<Rightarrow> OperationEngine \<Rightarrow> uuid \<Rightarrow> (OperationError, unit) io" where
  "remove_record L E i =
     io_match (remove_file (record_path (ol_uuid L) (oe_snapshot_root E) i)) (\<lambda>r.
       case r of
         Inr _ \<Rightarrow> io_map_err (op_io_error ''Could not sync the metadata directory'')
                    (sync_directory (metadata_dir (oe_snapshot_root E)))
       | Inl e \<Rightarrow>
           (if err_kind e = NotFound then io_return ()
            else io_throw (op_io_error ''Could not remove deployment metadata'' e)))"

subsection \<open>Snapshots\<close>

definition btrfs_snapshot_readonly :: "path \<Rightarrow> path \<Rightarrow> argument list" where
  "btrfs_snapshot_readonly source destination =
     [Arg ''subvolume'', Arg ''snapshot'', Arg ''-r'', PathArg source, PathArg destination]"

definition op_run_btrfs :: "OperationEngine \<Rightarrow> argument list \<Rightarrow> (OperationError, bytes) io" where
  "op_run_btrfs E arguments = oe_runner E BTRFS arguments"

definition snapshot_identity ::
  "operation_libs \<Rightarrow> OperationEngine \<Rightarrow> path \<Rightarrow> (OperationError, string \<times> string option) io" where
  "snapshot_identity L E snapshot =
     io_bind (op_run_btrfs E (btrfs_show snapshot)) (\<lambda>text.
     if \<not> utf8_valid text
     then io_throw (OperationError_new OeInvalidIdentity ''Btrfs returned a non-UTF-8 subvolume identity'')
     else
       io_bind (io_lift (parse_btrfs_uuid (ol_uuid L) text ''UUID:'')) (\<lambda>u.
       case u of
         None \<Rightarrow> io_throw (OperationError_new OeInvalidIdentity ''Btrfs did not report a snapshot UUID'')
       | Some snapshot_uuid \<Rightarrow>
           io_bind (io_lift (parse_btrfs_uuid (ol_uuid L) text ''Parent UUID:'')) (\<lambda>parent.
           io_return (snapshot_uuid, parent))))"

definition verify_read_only :: "OperationEngine \<Rightarrow> path \<Rightarrow> (OperationError, unit) io" where
  "verify_read_only E snapshot =
     io_bind (op_run_btrfs E (btrfs_property snapshot)) (\<lambda>value.
     if \<not> utf8_valid value
     then io_throw (OperationError_new OeInvalidIdentity ''Btrfs returned a non-UTF-8 read-only property'')
     else if str_trim value \<noteq> ''ro=true'' then io_throw (identity_mismatch ''read-only snapshot property'')
     else io_return ())"

definition sync_btrfs :: "OperationEngine \<Rightarrow> (OperationError, unit) io" where
  "sync_btrfs E = io_bind (op_run_btrfs E (btrfs_sync (oe_snapshot_root E))) (\<lambda>_. io_return ())"

text \<open>The two steps that deletion and cleanup share: the subvolume, then its directory.\<close>

definition delete_subvolume :: "OperationEngine \<Rightarrow> path \<Rightarrow> string \<Rightarrow> string \<Rightarrow> (OperationError, unit) io" where
  "delete_subvolume E snapshot unsafe context =
     io_match (symlink_metadata snapshot) (\<lambda>r.
       case r of
         Inr metadata \<Rightarrow>
           (if ftype metadata = Directory
            then io_bind (op_run_btrfs E (btrfs_delete snapshot)) (\<lambda>_. io_return ())
            else io_throw (OperationError_new OeUnsafePath unsafe))
       | Inl e \<Rightarrow> (if err_kind e = NotFound then io_return () else io_throw (op_io_error context e)))"

definition remove_deployment_dir :: "path \<Rightarrow> string \<Rightarrow> (OperationError, unit) io" where
  "remove_deployment_dir p context =
     io_match (remove_dir p) (\<lambda>r.
       case r of
         Inr _ \<Rightarrow> io_return ()
       | Inl e \<Rightarrow> (if err_kind e = NotFound then io_return () else io_throw (op_io_error context e)))"

definition cleanup_snapshot :: "OperationEngine \<Rightarrow> path \<Rightarrow> path \<Rightarrow> (OperationError, unit) io" where
  "cleanup_snapshot E snapshot directory =
     io_bind (delete_subvolume E snapshot ''Incomplete snapshot path is not a real directory''
                ''Could not inspect incomplete snapshot'') (\<lambda>_.
     io_bind (remove_deployment_dir directory ''Could not remove incomplete deployment'') (\<lambda>_.
     sync_btrfs E))"

subsection \<open>Creation\<close>

text \<open>A step of the creation: its error carries the record as it was when the step failed.\<close>

definition creating :: "'r \<Rightarrow> ('e, 'a) io \<Rightarrow> ('e \<times> 'r, 'a) io" where
  "creating r m = io_map_err (\<lambda>e. (e, r)) m"

definition capture_identity ::
  "operation_libs \<Rightarrow> OperationEngine \<Rightarrow> path \<Rightarrow> string option \<Rightarrow> DeploymentRecord \<Rightarrow>
   (OperationError \<times> DeploymentRecord, DeploymentRecord) io" where
  "capture_identity L E snapshot kernel_release r =
     (let hash = op_hash_regular_file (ol_sha256 L) in
      io_bind (creating r (case kernel_release of
          Some release \<Rightarrow> io_bind (io_lift (op_validate_kernel_release release)) (\<lambda>_. io_return release)
        | None \<Rightarrow> op_read_kernel_release (oe_system_root E))) (\<lambda>release.
      let r = r\<lparr>dep_kernel_release := Some release\<rparr> in
      io_bind (creating r (hash (boot_file snapshot ''initrd.img-'' release))) (\<lambda>d.
      let r = r\<lparr>dep_initramfs_sha256 := Some d\<rparr> in
      io_bind (creating r (hash (boot_file snapshot ''vmlinuz-'' release))) (\<lambda>d.
      let r = r\<lparr>dep_boot_artifact_sha256 := Some d\<rparr> in
      io_bind (creating r (hash (snapshot @ [''var'', ''lib'', ''dpkg'', ''status'']))) (\<lambda>d.
      let r = r\<lparr>dep_dpkg_status_sha256 := Some d\<rparr> in
      io_bind (creating r (hash_optional_regular_file (ol_sha256 L) (snapshot @ MOK_CERTIFICATE))) (\<lambda>d.
      io_return (r\<lparr>dep_mok_certificate_sha256 := d\<rparr>)))))))"

definition commit_created ::
  "operation_libs \<Rightarrow> OperationEngine \<Rightarrow> DeploymentState \<Rightarrow> DeploymentRecord \<Rightarrow>
   (OperationError \<times> DeploymentRecord, DeploymentRecord) io" where
  "commit_created L E completed_state r =
     (if \<not> DeploymentState_can_transition_to (dep_state r) completed_state
      then io_throw (OperationError_new OeInvalidIdentity ''System snapshot cannot enter its completed state'', r)
      else
        let r = r\<lparr>dep_state := completed_state\<rparr> in
        io_bind (creating r (io_lift (op_check_record (ol_uuid L) OeInvalidIdentity r))) (\<lambda>_.
        io_bind (creating r (op_write_record_atomic L E r)) (\<lambda>_.
        io_bind (creating r (sync_btrfs E)) (\<lambda>_.
        io_bind (creating r (io_map_err op_lineage_error
          (record_recovery_point (ol_uuid L) (ol_lin L) (lineage_dir (oe_snapshot_root E)) r))) (\<lambda>_.
        io_return r)))))"

definition fill_snapshot ::
  "operation_libs \<Rightarrow> OperationEngine \<Rightarrow> op_progress \<Rightarrow> DeploymentState \<Rightarrow> string option \<Rightarrow> DeploymentRecord \<Rightarrow>
   (OperationError \<times> DeploymentRecord, DeploymentRecord) io" where
  "fill_snapshot L E progress completed_state kernel_release r =
     (let directory = deployment_dir (ol_uuid L) E (dep_id r); snapshot = directory @ [''root''] in
      io_bind (creating r (ensure_new_directory directory 0x1C0)) (\<lambda>_.
      notify (progress OpSnapshot 18 ''Creating a read-only Btrfs snapshot'')
      (io_bind (creating r (op_run_btrfs E (btrfs_snapshot_readonly (oe_system_root E) snapshot))) (\<lambda>_.
      io_bind (creating r (snapshot_identity L E snapshot)) (\<lambda>(snapshot_uuid, parent_uuid).
      let r = r\<lparr>dep_snapshot_uuid := Some snapshot_uuid, dep_snapshot_parent_uuid := parent_uuid\<rparr> in
      io_bind (creating r (sync_btrfs E)) (\<lambda>_.
      notify (progress OpCaptureIdentity 55 ''Hashing package and boot identities'')
      (io_bind (capture_identity L E snapshot kernel_release r) (\<lambda>r.
      notify (progress OpCommit 90 ''Committing verified recovery metadata'')
      (commit_created L E completed_state r)))))))))"

definition new_deployment ::
  "uuid \<Rightarrow> uuid option \<Rightarrow> DeploymentKind \<Rightarrow> timestamp \<Rightarrow> string \<Rightarrow> string \<Rightarrow> string option \<Rightarrow> bool \<Rightarrow> DeploymentRecord" where
  "new_deployment i parent_id kind now title reason schedule_id pinned =
     \<lparr>dep_schema_version = DEPLOYMENT_SCHEMA_VERSION, dep_id = i, dep_parent_id = parent_id, dep_kind = kind,
      dep_state = Creating, dep_created_at = now, dep_title = title, dep_reason = reason,
      dep_schedule_id = schedule_id, dep_snapshot_uuid = None, dep_snapshot_parent_uuid = None,
      dep_kernel_release = None, dep_initramfs_sha256 = None, dep_boot_artifact_sha256 = None,
      dep_dpkg_status_sha256 = None, dep_mok_certificate_sha256 = None, dep_pinned = pinned, dep_failure = None\<rparr>"

definition revert_created ::
  "operation_libs \<Rightarrow> OperationEngine \<Rightarrow> DeploymentRecord \<Rightarrow> OperationError \<Rightarrow> (OperationError, 'a) io" where
  "revert_created L E r e =
     (let directory = deployment_dir (ol_uuid L) E (dep_id r) in
      io_match (cleanup_snapshot E (directory @ [''root'']) directory) (\<lambda>cleanup.
      let failure = truncate_failure (case cleanup of
            Inl cleanup \<Rightarrow> oe_message e @ ''; cleanup also failed: '' @ oe_message cleanup
          | Inr _ \<Rightarrow> oe_message e);
          r = r\<lparr>dep_state := Incomplete, dep_snapshot_uuid := None, dep_snapshot_parent_uuid := None,
                dep_failure := Some failure\<rparr> in
      io_match (op_write_record_atomic L E r) (\<lambda>metadata.
      io_throw (case metadata of
          Inl metadata \<Rightarrow> OperationError_new (oe_code e)
            (oe_message e @ ''; could not persist failure state: '' @ oe_message metadata)
        | Inr _ \<Rightarrow> e))))"

definition create_snapshot_locked ::
  "operation_libs \<Rightarrow> OperationEngine \<Rightarrow> string \<Rightarrow> string \<Rightarrow> string option \<Rightarrow> bool \<Rightarrow> DeploymentKind \<Rightarrow>
   DeploymentState \<Rightarrow> string option \<Rightarrow> op_progress \<Rightarrow> DiscoveryReport \<Rightarrow> (OperationError, DeploymentRecord) io" where
  "create_snapshot_locked L E title reason schedule_id pinned kind completed_state kernel_release progress deployments =
     (let U = ol_uuid L; root = oe_snapshot_root E in
      io_bind (io_map_err (OperationError_new OeBusy) (ensure_creation_allowed U (ol_tx L) root)) (\<lambda>_.
      io_bind (io_map_err op_lineage_error
        (ensure_initialized U (ol_lin L) (lineage_dir root) (dr_deployments deployments))) (\<lambda>lineage.
      io_bind new_v4 (\<lambda>i.
      io_bind utc_now (\<lambda>now.
      let r = new_deployment i (sl_current_head_id lineage) kind now title reason schedule_id pinned in
      io_bind (io_lift (op_check_record U OeInvalidInput r)) (\<lambda>_.
      notify (progress OpRecordTransaction 8 ''Recording the recovery transaction'')
      (io_bind (op_write_record_atomic L E r) (\<lambda>_.
      io_match (fill_snapshot L E progress completed_state kernel_release r) (\<lambda>result.
        case result of
          Inl (e, r) \<Rightarrow>
            notify (progress OpCleanup 95 ''Reverting the incomplete system snapshot'') (revert_created L E r e)
        | Inr r \<Rightarrow> notify (progress OpCommit 100 ''System snapshot created'') (io_return r))))))))))"

text \<open>The common beginning of the operations that create a snapshot.\<close>

definition create_snapshot_with ::
  "operation_libs \<Rightarrow> OperationEngine \<Rightarrow> LayoutReport \<Rightarrow> string \<Rightarrow> string \<Rightarrow> string \<Rightarrow> string option \<Rightarrow> bool \<Rightarrow>
   DeploymentKind \<Rightarrow> DeploymentState \<Rightarrow> string option \<Rightarrow> op_progress \<Rightarrow> (OperationError, DeploymentRecord) io" where
  "create_snapshot_with L E layout message title reason schedule_id pinned kind completed_state kernel_release progress =
     notify (progress OpValidate 2 message)
     (io_bind (io_lift (ensure_supported_layout layout)) (\<lambda>_.
      io_bind (ensure_transaction_reserve L E) (\<lambda>_.
      io_bind (ensure_store_directories E) (\<lambda>_.
      io_bind (op_acquire_lock E) (\<lambda>_.
      io_bind (op_discover L E) (\<lambda>deployments.
      create_snapshot_locked L E title reason schedule_id pinned kind completed_state kernel_release progress deployments))))))"

definition create_snapshot ::
  "operation_libs \<Rightarrow> OperationEngine \<Rightarrow> LayoutReport \<Rightarrow> string \<Rightarrow> string \<Rightarrow> string option \<Rightarrow> bool \<Rightarrow>
   DeploymentKind \<Rightarrow> DeploymentState \<Rightarrow> op_progress \<Rightarrow> (OperationError, DeploymentRecord) io" where
  "create_snapshot L E layout title reason schedule_id pinned kind completed_state progress =
     create_snapshot_with L E layout ''Validating recovery storage'' title reason schedule_id pinned kind
       completed_state None progress"

definition create_snapshot_with_kernel ::
  "operation_libs \<Rightarrow> OperationEngine \<Rightarrow> LayoutReport \<Rightarrow> string \<Rightarrow> string \<Rightarrow> bool \<Rightarrow> DeploymentKind \<Rightarrow> string \<Rightarrow>
   op_progress \<Rightarrow> (OperationError, DeploymentRecord) io" where
  "create_snapshot_with_kernel L E layout title reason pinned kind kernel_release progress =
     create_snapshot_with L E layout ''Validating offline recovery storage'' title reason None pinned kind
       Ready (Some kernel_release) progress"

definition create_manual ::
  "operation_libs \<Rightarrow> OperationEngine \<Rightarrow> LayoutReport \<Rightarrow> string \<Rightarrow> string \<Rightarrow> bool \<Rightarrow> op_progress \<Rightarrow>
   (OperationError, DeploymentRecord) io" where
  "create_manual L E layout title reason pinned progress =
     create_snapshot L E layout title reason None pinned Manual Ready progress"

definition create_offline_manual ::
  "operation_libs \<Rightarrow> OperationEngine \<Rightarrow> LayoutReport \<Rightarrow> string \<Rightarrow> string \<Rightarrow> bool \<Rightarrow> op_progress \<Rightarrow>
   (OperationError, DeploymentRecord) io" where
  "create_offline_manual L E layout title reason pinned progress =
     io_bind (read_default_installed_kernel_release (ol_read_link L) (oe_system_root E)) (\<lambda>release.
     create_snapshot_with_kernel L E layout title reason pinned Manual release progress)"

definition create_offline_pre_rollback ::
  "operation_libs \<Rightarrow> OperationEngine \<Rightarrow> LayoutReport \<Rightarrow> op_progress \<Rightarrow> (OperationError, DeploymentRecord) io" where
  "create_offline_pre_rollback L E layout progress =
     io_bind (read_default_installed_kernel_release (ol_read_link L) (oe_system_root E)) (\<lambda>release.
     create_snapshot_with_kernel L E layout ''Before offline system restore''
       ''Safety snapshot created by AnduinOS Rescue Center'' False PreRollback release progress)"

definition create_factory_if_missing ::
  "operation_libs \<Rightarrow> OperationEngine \<Rightarrow> LayoutReport \<Rightarrow> op_progress \<Rightarrow> (OperationError, FactorySnapshotOutcome) io" where
  "create_factory_if_missing L E layout progress =
     (let invalid = (\<lambda>m. io_throw (OperationError_new OeInvalidIdentity m)) in
      notify (progress OpValidate 2 ''Validating factory recovery storage'')
      (io_bind (io_lift (ensure_supported_layout layout)) (\<lambda>_.
       io_bind (ensure_store_directories E) (\<lambda>_.
       io_bind (op_acquire_lock E) (\<lambda>_.
       io_bind (op_discover L E) (\<lambda>deployments.
       if dr_issues deployments \<noteq> []
       then invalid ''Factory recovery creation stopped because snapshot metadata has unresolved issues''
       else case filter (\<lambda>r. dep_kind r = Factory) (dr_deployments deployments) of
         [] \<Rightarrow>
           io_bind (read_default_installed_kernel_release (ol_read_link L) (oe_system_root E)) (\<lambda>release.
           io_bind (ensure_transaction_reserve L E) (\<lambda>_.
           io_bind (create_snapshot_locked L E FACTORY_DEPLOYMENT_TITLE ''Initial AnduinOS installation'' None True
             Factory Ready (Some release) progress deployments) (\<lambda>r. io_return (FactoryCreated r))))
       | [r] \<Rightarrow>
           if can_restore (ol_uuid L) r \<and> dep_pinned r
           then notify (progress OpCommit 100 ''Factory recovery point already exists'') (io_return (FactoryExisting r))
           else invalid ''The existing factory recovery point is not healthy''
       | _ \<Rightarrow> invalid ''More than one factory recovery point is registered''))))))"

definition create_automatic ::
  "operation_libs \<Rightarrow> OperationEngine \<Rightarrow> LayoutReport \<Rightarrow> op_progress \<Rightarrow> (OperationError, DeploymentRecord) io" where
  "create_automatic L E layout progress =
     create_snapshot L E layout ''Scheduled system snapshot'' ''Created by the automatic snapshot schedule''
       (Some ''automatic'') False Automatic Ready progress"

definition create_scheduled ::
  "operation_libs \<Rightarrow> OperationEngine \<Rightarrow> LayoutReport \<Rightarrow> string \<Rightarrow> string \<Rightarrow> string \<Rightarrow> op_progress \<Rightarrow>
   (OperationError, DeploymentRecord) io" where
  "create_scheduled L E layout schedule_id title reason progress =
     create_snapshot L E layout title reason (Some schedule_id) False Automatic Ready progress"

definition engine_scheduled_snapshot_due ::
  "operation_libs \<Rightarrow> OperationEngine \<Rightarrow> u32 \<Rightarrow> timestamp \<Rightarrow> (OperationError, bool) io" where
  "engine_scheduled_snapshot_due L E interval_hours now =
     io_bind (io_lift (op_validate_snapshot_interval interval_hours)) (\<lambda>_.
     io_bind (op_discover L E) (\<lambda>deployments.
     io_return (op_scheduled_snapshot_due (dr_deployments deployments) interval_hours now)))"

definition create_scheduled_if_due ::
  "operation_libs \<Rightarrow> OperationEngine \<Rightarrow> LayoutReport \<Rightarrow> string \<Rightarrow> string \<Rightarrow> string \<Rightarrow> u32 \<Rightarrow> timestamp \<Rightarrow> op_progress \<Rightarrow>
   (OperationError, ScheduledSnapshotOutcome) io" where
  "create_scheduled_if_due L E layout schedule_id title reason interval_hours now progress =
     io_bind (io_lift (op_validate_snapshot_interval interval_hours)) (\<lambda>_.
     io_bind (io_lift (ensure_supported_layout layout)) (\<lambda>_.
     io_bind (ensure_store_directories E) (\<lambda>_.
     io_bind (op_acquire_lock E) (\<lambda>_.
     io_bind (op_discover L E) (\<lambda>deployments.
     if \<not> op_scheduled_snapshot_due (dr_deployments deployments) interval_hours now then io_return NotDue
     else
       io_bind (ensure_transaction_reserve L E) (\<lambda>_.
       io_bind (create_snapshot_locked L E title reason (Some schedule_id) False Automatic Ready None progress deployments)
         (\<lambda>r. io_return (ScheduledCreated r))))))))"

definition create_pre_rollback ::
  "operation_libs \<Rightarrow> OperationEngine \<Rightarrow> LayoutReport \<Rightarrow> op_progress \<Rightarrow> (OperationError, DeploymentRecord) io" where
  "create_pre_rollback L E layout progress =
     create_snapshot L E layout ''Before system restore''
       ''Safety snapshot created before restoring an earlier system snapshot'' None False PreRollback Ready progress"

definition check_pre_rollback_capacity ::
  "operation_libs \<Rightarrow> OperationEngine \<Rightarrow> LayoutReport \<Rightarrow> (OperationError, unit) io" where
  "check_pre_rollback_capacity L E layout =
     io_bind (io_lift (ensure_supported_layout layout)) (\<lambda>_.
     io_bind (ensure_store_directories E) (\<lambda>_.
     io_bind (op_acquire_lock E) (\<lambda>_.
     io_bind (ensure_transaction_reserve L E) (\<lambda>_.
     io_bind (op_discover L E) (\<lambda>discovery.
     if dr_issues discovery \<noteq> []
     then io_throw (OperationError_new OeInvalidIdentity ''Recovery storage contains unresolved system snapshot metadata'')
     else io_return ())))))"

definition apt_reason :: "string \<Rightarrow> string" where
  "apt_reason transaction_id = ''Automatic system snapshot for package transaction '' @ transaction_id"

definition create_apt_pre ::
  "operation_libs \<Rightarrow> OperationEngine \<Rightarrow> LayoutReport \<Rightarrow> string \<Rightarrow> op_progress \<Rightarrow> (OperationError, DeploymentRecord) io" where
  "create_apt_pre L E layout transaction_id progress =
     io_bind (io_lift (validate_transaction_label (ol_uuid L) transaction_id)) (\<lambda>_.
     create_snapshot L E layout ''Before package changes'' (apt_reason transaction_id) None False AptPre Ready progress)"

definition create_apt_post ::
  "operation_libs \<Rightarrow> OperationEngine \<Rightarrow> LayoutReport \<Rightarrow> string \<Rightarrow> op_progress \<Rightarrow> (OperationError, DeploymentRecord) io" where
  "create_apt_post L E layout transaction_id progress =
     io_bind (io_lift (validate_transaction_label (ol_uuid L) transaction_id)) (\<lambda>_.
     create_snapshot L E layout ''After package changes'' (apt_reason transaction_id) None False AptPost Ready progress)"

subsection \<open>Changes of a record\<close>

definition transition_deployment ::
  "operation_libs \<Rightarrow> OperationEngine \<Rightarrow> LayoutReport \<Rightarrow> uuid \<Rightarrow> DeploymentState \<Rightarrow> (OperationError, DeploymentRecord) io" where
  "transition_deployment L E layout i next =
     io_bind (io_lift (ensure_supported_layout layout)) (\<lambda>_.
     io_bind (ensure_store_directories E) (\<lambda>_.
     io_bind (op_acquire_lock E) (\<lambda>_.
     io_bind (op_load_record L E i) (\<lambda>r.
     if dep_state r = next then io_return r
     else if \<not> DeploymentState_can_transition_to (dep_state r) next
     then io_throw (OperationError_new OeProtected
            (''System snapshot cannot transition from '' @ state_debug (dep_state r) @ '' to '' @ state_debug next))
     else
       let r = r\<lparr>dep_state := next\<rparr> in
       io_bind (io_lift (op_check_record (ol_uuid L) OeInvalidIdentity r)) (\<lambda>_.
       io_bind (op_write_record_atomic L E r) (\<lambda>_. io_return r))))))"

definition set_pinned ::
  "operation_libs \<Rightarrow> OperationEngine \<Rightarrow> LayoutReport \<Rightarrow> uuid \<Rightarrow> bool \<Rightarrow> (OperationError, DeploymentRecord) io" where
  "set_pinned L E layout i pinned =
     io_bind (io_lift (ensure_supported_layout layout)) (\<lambda>_.
     io_bind (ensure_store_directories E) (\<lambda>_.
     io_bind (op_acquire_lock E) (\<lambda>_.
     io_bind (op_load_record L E i) (\<lambda>r.
     if dep_state r = Deleting
     then io_throw (OperationError_new OeProtected ''A deleting system snapshot cannot be pinned'')
     else if dep_kind r = Factory \<and> \<not> pinned
     then io_throw (OperationError_new OeProtected ''The factory recovery point cannot be unpinned'')
     else
       let r = r\<lparr>dep_pinned := pinned\<rparr> in
       io_bind (io_lift (op_check_record (ol_uuid L) OeInvalidIdentity r)) (\<lambda>_.
       io_bind (op_write_record_atomic L E r) (\<lambda>_. io_return r))))))"

definition rename_deployment ::
  "operation_libs \<Rightarrow> OperationEngine \<Rightarrow> LayoutReport \<Rightarrow> uuid \<Rightarrow> string \<Rightarrow> (OperationError, DeploymentRecord) io" where
  "rename_deployment L E layout i title =
     io_bind (io_lift (ensure_supported_layout layout)) (\<lambda>_.
     io_bind (ensure_store_directories E) (\<lambda>_.
     io_bind (op_acquire_lock E) (\<lambda>_.
     io_bind (op_load_record L E i) (\<lambda>r.
     if dep_state r = Deleting
     then io_throw (OperationError_new OeProtected ''A deleting system snapshot cannot be renamed'')
     else if dep_kind r = Factory
     then io_throw (OperationError_new OeProtected ''The factory recovery point cannot be renamed'')
     else
       let r = r\<lparr>dep_title := str_trim title\<rparr> in
       io_bind (io_lift (op_check_record (ol_uuid L) OeInvalidIdentity r)) (\<lambda>_.
       io_bind (op_write_record_atomic L E r) (\<lambda>_. io_return r))))))"

subsection \<open>Verification\<close>

definition verify_deployment ::
  "operation_libs \<Rightarrow> OperationEngine \<Rightarrow> LayoutReport \<Rightarrow> uuid \<Rightarrow> op_progress \<Rightarrow> (OperationError, DeploymentRecord) io" where
  "verify_deployment L E layout i progress =
     (let invalid = (\<lambda>m. io_throw (OperationError_new OeInvalidIdentity m)); hash = op_hash_regular_file (ol_sha256 L) in
      notify (progress OpValidate 5 ''Validating recovery metadata'')
      (io_bind (io_lift (ensure_supported_layout layout)) (\<lambda>_.
       io_bind (ensure_store_directories E) (\<lambda>_.
       io_bind (op_acquire_lock E) (\<lambda>_.
       io_bind (op_load_record L E i) (\<lambda>r.
       if \<not> can_restore (ol_uuid L) r then invalid ''This deployment is not in a restorable state''
       else
         let snapshot = deployment_dir (ol_uuid L) E i @ [''root''] in
         case dep_snapshot_uuid r of
           None \<Rightarrow> invalid ''Recovery metadata has no snapshot UUID''
         | Some expected_uuid \<Rightarrow>
             io_bind (snapshot_identity L E snapshot) (\<lambda>(actual_uuid, actual_parent_uuid).
             if actual_uuid \<noteq> expected_uuid then io_throw (identity_mismatch ''Btrfs snapshot UUID'')
             else if actual_parent_uuid \<noteq> dep_snapshot_parent_uuid r
             then io_throw (identity_mismatch ''Btrfs parent UUID'')
             else
               io_bind (verify_read_only E snapshot) (\<lambda>_.
               notify (progress OpCaptureIdentity 35 ''Verifying kernel and package identities'')
               (case dep_kernel_release r of
                  None \<Rightarrow> invalid ''Recovery metadata has no kernel release''
                | Some release \<Rightarrow>
                    io_bind (hash (boot_file snapshot ''initrd.img-'' release)) (\<lambda>d.
                    io_bind (io_lift (op_verify_digest ''initramfs'' (dep_initramfs_sha256 r) d)) (\<lambda>_.
                    notify (progress OpCaptureIdentity 58 ''Verifying boot artifacts'')
                    (io_bind (hash (boot_file snapshot ''vmlinuz-'' release)) (\<lambda>d.
                     io_bind (io_lift (op_verify_digest ''kernel boot artifact'' (dep_boot_artifact_sha256 r) d)) (\<lambda>_.
                     io_bind (hash (snapshot @ [''var'', ''lib'', ''dpkg'', ''status''])) (\<lambda>d.
                     io_bind (io_lift (op_verify_digest ''dpkg database'' (dep_dpkg_status_sha256 r) d)) (\<lambda>_.
                     io_bind (hash_optional_regular_file (ol_sha256 L) (snapshot @ MOK_CERTIFICATE)) (\<lambda>actual_mok.
                     if actual_mok \<noteq> dep_mok_certificate_sha256 r then io_throw (identity_mismatch ''MOK certificate'')
                     else
                       notify (progress OpCommit 100 ''System snapshot integrity verified'') (io_return r))))))))))))))))))"

definition check_available ::
  "operation_libs \<Rightarrow> OperationEngine \<Rightarrow> LayoutReport \<Rightarrow> uuid \<Rightarrow> (OperationError, DeploymentRecord) io" where
  "check_available L E layout i =
     (let invalid = (\<lambda>m. io_throw (OperationError_new OeInvalidIdentity m)) in
      io_bind (io_lift (ensure_supported_layout layout)) (\<lambda>_.
      io_bind (ensure_store_directories E) (\<lambda>_.
      io_bind (op_acquire_lock E) (\<lambda>_.
      io_bind (op_load_record L E i) (\<lambda>r.
      if \<not> can_restore (ol_uuid L) r then invalid ''This system snapshot is not available for recovery''
      else
        let snapshot = deployment_dir (ol_uuid L) E i @ [''root''] in
        case dep_snapshot_uuid r of
          None \<Rightarrow> invalid ''Recovery metadata has no snapshot UUID''
        | Some expected_uuid \<Rightarrow>
            io_bind (snapshot_identity L E snapshot) (\<lambda>(actual_uuid, actual_parent_uuid).
            if actual_uuid \<noteq> expected_uuid \<or> actual_parent_uuid \<noteq> dep_snapshot_parent_uuid r
            then io_throw (identity_mismatch ''Btrfs snapshot identity'')
            else
              io_bind (verify_read_only E snapshot) (\<lambda>_.
              case dep_kernel_release r of
                None \<Rightarrow> invalid ''Recovery metadata has no kernel release''
              | Some release \<Rightarrow>
                  io_bind (open_regular_file (boot_file snapshot ''vmlinuz-'' release)) (\<lambda>_.
                  io_bind (open_regular_file (boot_file snapshot ''initrd.img-'' release)) (\<lambda>_.
                  io_bind (open_regular_file (snapshot @ [''var'', ''lib'', ''dpkg'', ''status''])) (\<lambda>_.
                  io_return r))))))))))"

subsection \<open>Deletion\<close>

definition ensure_not_transaction_referenced ::
  "operation_libs \<Rightarrow> OperationEngine \<Rightarrow> uuid \<Rightarrow> bool \<Rightarrow> (OperationError, unit) io" where
  "ensure_not_transaction_referenced L E i purge_history =
     (let d = transactions_dir (oe_snapshot_root E) in
      io_bind (io_map_err (\<lambda>e. OperationError_new OeInvalidIdentity
          (''Could not validate pending rollback references: '' @ te_message e))
          (load_pending (ol_uuid L) (ol_tx L) d)) (\<lambda>rollback.
      if is_some_and rollback (\<lambda>t. tx_target_deployment_id t = i
           \<or> (tx_fallback_deployment_id t = i \<and> \<not> purge_history))
      then io_throw (OperationError_new OeProtected ''This system snapshot is referenced by a pending rollback'')
      else
        io_bind (io_map_err (\<lambda>e. OperationError_new OeInvalidIdentity
            (''Could not validate pending package references: '' @ pk_message e))
            (package_load_pending (ol_pkg L) d)) (\<lambda>package.
        if is_some_and package (\<lambda>t. pt_pre_deployment_id t = Some i \<or> pt_post_deployment_id t = Some i)
        then io_throw (OperationError_new OeProtected
               ''This system snapshot is referenced by a pending package transaction'')
        else io_return ())))"

text \<open>The floor of automatic cleanup.\<close>

definition check_restorable_floor ::
  "operation_libs \<Rightarrow> OperationEngine \<Rightarrow> DeploymentRecord \<Rightarrow> nat \<Rightarrow> (OperationError, unit) io" where
  "check_restorable_floor L E r minimum =
     (if \<not> ordinary_kind (dep_kind r)
      then io_throw (OperationError_new OeProtected ''Automatic cleanup may delete only ordinary system snapshots'')
      else if dep_pinned r
      then io_throw (OperationError_new OeProtected
             ''Permanently retained system snapshots cannot be cleaned automatically'')
      else
        io_bind (op_discover L E) (\<lambda>discovery.
        if dr_issues discovery \<noteq> []
        then io_throw (OperationError_new OeInvalidIdentity
               ''Automatic cleanup stopped because recovery metadata has unresolved issues'')
        else if can_restore (ol_uuid L) r
             \<and> length (filter (can_restore (ol_uuid L)) (dr_deployments discovery)) \<le> minimum
        then io_throw (OperationError_new OeProtected
               ''Automatic cleanup would remove the last known-good system snapshot'')
        else io_return ()))"

definition deliberately_deleting_factory :: "bool \<Rightarrow> DeploymentRecord \<Rightarrow> bool" where
  "deliberately_deleting_factory allow_factory_deletion r \<longleftrightarrow>
     allow_factory_deletion \<and> dep_kind r = Factory
     \<and> (dep_state r = Ready \<or> dep_state r = Incomplete \<or> dep_state r = Broken)"

definition mark_deleting ::
  "operation_libs \<Rightarrow> OperationEngine \<Rightarrow> nat option \<Rightarrow> bool \<Rightarrow> bool \<Rightarrow> DeploymentRecord \<Rightarrow> (OperationError, unit) io" where
  "mark_deleting L E minimum_restorable allow_factory_deletion purge_history r =
     (if dep_state r = Deleting then io_return ()
      else
        io_bind (case minimum_restorable of None \<Rightarrow> io_return () | Some minimum \<Rightarrow> check_restorable_floor L E r minimum) (\<lambda>_.
        if \<not> can_delete r \<and> \<not> deliberately_deleting_factory allow_factory_deletion r \<and> \<not> purge_history
        then io_throw (OperationError_new OeProtected ''This system snapshot is pinned or protects a boot transaction'')
        else if \<not> DeploymentState_can_transition_to (dep_state r) Deleting
        then io_throw (OperationError_new OeProtected ''This system snapshot cannot enter the deleting state'')
        else op_write_record_atomic L E (r\<lparr>dep_state := Deleting\<rparr>)))"

definition erase_deployment :: "operation_libs \<Rightarrow> OperationEngine \<Rightarrow> uuid \<Rightarrow> (OperationError, unit) io" where
  "erase_deployment L E i =
     (let directory = deployment_dir (ol_uuid L) E i; history = lineage_dir (oe_snapshot_root E) in
      io_bind (delete_subvolume E (directory @ [''root'']) ''The deployment root is not a real directory''
                 ''Could not inspect the deployment root'') (\<lambda>_.
      io_bind (remove_deployment_dir directory ''Could not remove the deployment directory'') (\<lambda>_.
      io_bind (op_discover L E) (\<lambda>deployments.
      io_bind (io_map_err op_lineage_error
        (io_bind (ensure_initialized (ol_uuid L) (ol_lin L) history (dr_deployments deployments)) (\<lambda>_.
         io_bind utc_now (\<lambda>now. mark_snapshot_removed (ol_uuid L) (ol_lin L) history i now)))) (\<lambda>_.
      io_bind (remove_record L E i) (\<lambda>_.
      sync_btrfs E))))))"

definition delete_with_restorable_floor ::
  "operation_libs \<Rightarrow> OperationEngine \<Rightarrow> LayoutReport \<Rightarrow> uuid \<Rightarrow> nat option \<Rightarrow> bool \<Rightarrow> bool \<Rightarrow> (OperationError, unit) io" where
  "delete_with_restorable_floor L E layout i minimum_restorable allow_factory_deletion purge_history =
     (let U = ol_uuid L; root = oe_snapshot_root E in
      io_bind (io_lift (ensure_supported_layout layout)) (\<lambda>_.
      io_bind (ensure_store_directories E) (\<lambda>_.
      io_bind (op_acquire_lock E) (\<lambda>_.
      io_bind (io_map_err (\<lambda>e. OperationError_new OeBusy
          (''Could not coordinate system snapshot deletion: '' @ err_text e)) (acquire root)) (\<lambda>_.
      io_bind (io_map_err (\<lambda>e. OperationError_new (if err_kind e = WouldBlock then OeBusy else OeIo)
          (''Could not coordinate with snapshot browsing: '' @ err_text e))
          (acquire_exclusive_deployment_lock_at U root (hyphenated U i))) (\<lambda>_.
      io_bind (op_load_record L E i) (\<lambda>r.
      io_bind
        (if purge_history
         then
           io_bind (io_map_err (OperationError_new OeProtected) (validate_consent U (ol_tx L) (ol_dep L) root)) (\<lambda>_.
           if dep_kind r = Factory
           then io_throw (OperationError_new OeProtected ''History cleanup must preserve the factory system snapshot'')
           else io_return ())
         else io_return ()) (\<lambda>_.
      io_bind (ensure_not_transaction_referenced L E i purge_history) (\<lambda>_.
      if allow_factory_deletion \<and> dep_kind r \<noteq> Factory
      then io_throw (OperationError_new OeInvalidInput
             ''The dedicated factory deletion path accepts only the factory recovery point'')
      else
        io_bind (mark_deleting L E minimum_restorable allow_factory_deletion purge_history r) (\<lambda>_.
        erase_deployment L E i))))))))))"

definition delete_deployment :: "operation_libs \<Rightarrow> OperationEngine \<Rightarrow> LayoutReport \<Rightarrow> uuid \<Rightarrow> (OperationError, unit) io" where
  "delete_deployment L E layout i = delete_with_restorable_floor L E layout i None False False"

definition delete_factory :: "operation_libs \<Rightarrow> OperationEngine \<Rightarrow> LayoutReport \<Rightarrow> uuid \<Rightarrow> (OperationError, unit) io" where
  "delete_factory L E layout i = delete_with_restorable_floor L E layout i None True False"

definition delete_automatic ::
  "operation_libs \<Rightarrow> OperationEngine \<Rightarrow> LayoutReport \<Rightarrow> uuid \<Rightarrow> nat \<Rightarrow> (OperationError, unit) io" where
  "delete_automatic L E layout i minimum_restorable_deployments =
     delete_with_restorable_floor L E layout i (Some minimum_restorable_deployments) False False"

definition delete_factory_reset_history ::
  "operation_libs \<Rightarrow> OperationEngine \<Rightarrow> LayoutReport \<Rightarrow> uuid \<Rightarrow> (OperationError, unit) io" where
  "delete_factory_reset_history L E layout i = delete_with_restorable_floor L E layout i None False True"

end
