(* ===== verification/Operations_Safety.thy ===== *)
theory Operations_Safety
  imports Operations
begin

text \<open>
  Safety of the snapshot engine. A creation changes only the paths of the one identifier it
  draws, and a snapshot it reports is complete: stored, valid, and with the digests of its own
  files. Verification succeeds only when the files still have the recorded digests. The rules of
  the \<open>btrfs\<close> command that the engine relies on are the locale \<open>operation_runner\<close>.
\<close>

subsection \<open>What the engine relies on\<close>

text \<open>
  The \<open>btrfs\<close> command changes only the subvolume it creates or deletes, and the probes of the
  kernel change nothing.
\<close>

locale snapshot_runner =
  fixes run :: command_runner
  assumes snapshot_frame: "touches (under q) (run BTRFS (btrfs_snapshot_readonly p q))"
    and delete_frame: "touches (under p) (run BTRFS (btrfs_delete p))"
    and show_frame: "touches {} (run BTRFS (btrfs_show p))"
    and property_frame: "touches {} (run BTRFS (btrfs_property p))"
    and sync_frame: "touches {} (run BTRFS (btrfs_sync p))"

locale operation_runner = snapshot_runner "oe_runner E" for L :: operation_libs and E :: OperationEngine +
  assumes statvfs_frame: "touches {} (ol_statvfs L p)"
    and read_link_frame: "touches {} (ol_read_link L p)"

locale operation_environment = operation_runner +
  fixes progress :: op_progress
  assumes progress_frame: "touches {} (progress phase fraction message)"

subsection \<open>Frames\<close>

definition store_dirs :: "path \<Rightarrow> path set" where
  "store_dirs root = {root, root @ [''deployments''], root @ [''metadata''], root @ [''transactions'']}"

definition engine_paths :: "path \<Rightarrow> path set" where
  "engine_paths root = insert (operation_lock root) (store_dirs root)"

lemma touches_remove_dir [io_rules]: "p \<in> S \<Longrightarrow> touches S (remove_dir p)"
  unfolding remove_dir_def by (rule touches_syscall) (auto split: option.splits)

lemma touches_notify: "touches S m \<Longrightarrow> touches S k \<Longrightarrow> touches S (notify m k)"
  unfolding notify_def by (intro io_rules)

lemma touches_creating [io_rules]: "touches S m \<Longrightarrow> touches S (creating r m)"
  unfolding creating_def by (intro io_rules)

lemma touches_op_queries [io_rules]:
  "touches S (ensure_existing_directory p)" "touches S (open_regular_file p)"
  "touches S (op_load_record L E i)" "touches S (op_discover L E)"
  unfolding ensure_existing_directory_def open_regular_file_def op_load_record_def op_discover_def
  by (intro io_rules)+

lemma touches_op_hashes [io_rules]:
  "touches S (op_hash_regular_file sha p)" "touches S (hash_optional_regular_file sha p)"
  "touches S (op_read_kernel_release p)"
  unfolding op_hash_regular_file_def hash_optional_regular_file_def op_read_kernel_release_def Let_def
  by (intro io_rules)+

lemma touches_op_ensure_directory [io_rules]: "p \<in> S \<Longrightarrow> touches S (op_ensure_directory p m)"
  unfolding op_ensure_directory_def Let_def by (intro io_rules)

lemma touches_ensure_new_directory [io_rules]: "p \<in> S \<Longrightarrow> touches S (ensure_new_directory p m)"
  unfolding ensure_new_directory_def by (intro io_rules)

lemma touches_ensure_store_directories [io_rules]:
  "store_dirs (oe_snapshot_root E) \<subseteq> S \<Longrightarrow> touches S (ensure_store_directories E)"
  unfolding ensure_store_directories_def Let_def by (intro io_rules) (auto simp: store_dirs_def)

lemma touches_op_acquire_lock [io_rules]:
  "operation_lock (oe_snapshot_root E) \<in> S \<Longrightarrow> touches S (op_acquire_lock E)"
  unfolding op_acquire_lock_def Let_def by (intro io_rules)

lemma touches_op_write_record_atomic:
  "touches (record_paths (ol_uuid L) (oe_snapshot_root E) (dep_id r)) (op_write_record_atomic L E r)"
  unfolding op_write_record_atomic_def Let_def
  by (intro io_rules) (auto simp: record_paths_def under_def)

lemma touches_remove_record [io_rules]:
  "record_path (ol_uuid L) (oe_snapshot_root E) i \<in> S \<Longrightarrow> touches S (remove_record L E i)"
  unfolding remove_record_def by (intro io_rules)

lemma touches_ensure_creation_allowed [io_rules]: "touches S (ensure_creation_allowed U J root)"
  unfolding ensure_creation_allowed_def by (intro io_rules)

lemma touches_validate_consent [io_rules]: "touches S (validate_consent U J D root)"
  unfolding validate_consent_def by (intro io_rules)

lemma touches_ensure_not_referenced [io_rules]: "touches S (ensure_not_transaction_referenced L E i purge)"
  unfolding ensure_not_transaction_referenced_def Let_def by (intro io_rules)

lemma touches_check_restorable_floor [io_rules]: "touches S (check_restorable_floor L E r n)"
  unfolding check_restorable_floor_def by (intro io_rules)

lemma touches_none: "touches {} m \<Longrightarrow> touches S m"
  by (erule touches_mono) simp

context operation_runner
begin

lemmas quiet = touches_none [OF show_frame] touches_none [OF property_frame] touches_none [OF sync_frame]
  touches_none [OF statvfs_frame] touches_none [OF read_link_frame]

lemma sync_quiet: "touches S (sync_btrfs E)"
  unfolding sync_btrfs_def op_run_btrfs_def by (intro io_rules quiet)

lemma snapshot_identity_quiet: "touches S (snapshot_identity L E p)"
  unfolding snapshot_identity_def op_run_btrfs_def by (intro io_rules quiet)

lemma verify_read_only_quiet: "touches S (verify_read_only E p)"
  unfolding verify_read_only_def op_run_btrfs_def by (intro io_rules quiet)

lemma reserve_quiet: "touches S (ensure_transaction_reserve L E)"
  unfolding ensure_transaction_reserve_def by (intro io_rules quiet)

lemma kernel_link_quiet: "touches S (read_default_installed_kernel_release (ol_read_link L) p)"
  unfolding read_default_installed_kernel_release_def Let_def by (intro io_rules quiet)

lemma delete_subvolume_frame: "under p \<subseteq> S \<Longrightarrow> touches S (delete_subvolume E p unsafe context)"
  unfolding delete_subvolume_def op_run_btrfs_def by (intro io_rules touches_mono [OF delete_frame])

lemma remove_deployment_dir_frame: "p \<in> S \<Longrightarrow> touches S (remove_deployment_dir p context)"
  unfolding remove_deployment_dir_def by (intro io_rules)

lemma cleanup_snapshot_frame: "under (p @ [''root'']) \<subseteq> S \<Longrightarrow> p \<in> S \<Longrightarrow> touches S (cleanup_snapshot E (p @ [''root'']) p)"
  unfolding cleanup_snapshot_def by (intro io_rules delete_subvolume_frame remove_deployment_dir_frame sync_quiet)

end

text \<open>The paths that creating the deployment \<open>i\<close> may change.\<close>

definition creation_paths :: "uuid_lib \<Rightarrow> path \<Rightarrow> uuid \<Rightarrow> path set" where
  "creation_paths U root i =
     under (root @ [''deployments'', hyphenated U i]) \<union> record_paths U root i \<union> under (lineage_dir root)"

context operation_environment
begin

lemma capture_quiet: "touches S (capture_identity L E snapshot release r)"
  unfolding capture_identity_def Let_def by (cases release) (simp_all, (intro io_rules)+)

lemma commit_frame:
  assumes "record_paths (ol_uuid L) (oe_snapshot_root E) (dep_id r) \<subseteq> S" and "under (lineage_dir (oe_snapshot_root E)) \<subseteq> S"
  shows "touches S (commit_created L E st r)"
proof -
  have "touches S (op_write_record_atomic L E (r\<lparr>dep_state := st\<rparr>))"
    using touches_mono [OF touches_op_write_record_atomic [of L E "r\<lparr>dep_state := st\<rparr>"]] assms(1) by simp
  moreover have "touches S (record_recovery_point (ol_uuid L) (ol_lin L) (lineage_dir (oe_snapshot_root E)) q)" for q
    unfolding record_recovery_point_def by (intro io_rules touches_mono [OF touches_mutate assms(2)])
  ultimately show ?thesis
    unfolding commit_created_def Let_def by (intro io_rules sync_quiet) auto
qed

end

text \<open>What the steps of the creation do to the record: its identity stays, also in an error.\<close>

lemma triple_creating: "io_triple (\<lambda>_. True) (creating r m) (\<lambda>_ _. True) (\<lambda>e _. snd e = r)"
  unfolding creating_def by (rule triple_map_err) (auto simp: io_triple_def split: prod.splits sum.splits)

lemma triple_creating_bind:
  assumes "\<And>x. io_triple (\<lambda>_. True) (f x) Q E" and "\<And>e w. E (e, r) w"
  shows "io_triple (\<lambda>_. True) (io_bind (creating r m) f) Q E"
  by (rule triple_bind [OF triple_weaken [OF triple_creating] assms(1)]) (use assms(2) in \<open>auto simp: prod_eq_iff\<close>)

lemma triple_notify: "io_triple (\<lambda>_. True) k Q E \<Longrightarrow> io_triple (\<lambda>_. True) (notify m k) Q E"
  unfolding notify_def by (rule triple_match [where Q = "\<lambda>_ _. True" and E' = "\<lambda>_ _. True"])
    (auto simp: io_triple_def split: prod.splits sum.splits)

definition dep_core where
  "dep_core r = (dep_id r, dep_parent_id r, dep_kind r, dep_created_at r, dep_title r, dep_reason r, dep_schedule_id r, dep_pinned r, dep_failure r)"

lemma dep_core_update [simp]:
  "dep_core (r\<lparr>dep_state := s\<rparr>) = dep_core r" "dep_core (r\<lparr>dep_snapshot_uuid := u\<rparr>) = dep_core r"
  "dep_core (r\<lparr>dep_snapshot_parent_uuid := u\<rparr>) = dep_core r" "dep_core (r\<lparr>dep_kernel_release := k\<rparr>) = dep_core r"
  "dep_core (r\<lparr>dep_initramfs_sha256 := d\<rparr>) = dep_core r" "dep_core (r\<lparr>dep_boot_artifact_sha256 := d\<rparr>) = dep_core r"
  "dep_core (r\<lparr>dep_dpkg_status_sha256 := d\<rparr>) = dep_core r" "dep_core (r\<lparr>dep_mok_certificate_sha256 := d\<rparr>) = dep_core r"
  by (simp_all add: dep_core_def)

lemma dep_core_id: "dep_core r = dep_core q \<Longrightarrow> dep_id r = dep_id q"
  by (simp add: dep_core_def)

lemma yields_capture:
  "io_triple (\<lambda>_. True) (capture_identity L E snapshot release r) (\<lambda>r' _. dep_core r' = dep_core r) (\<lambda>e _. dep_core (snd e) = dep_core r)"
  unfolding capture_identity_def Let_def by (intro triple_creating_bind triple_return) simp_all

lemma yields_commit:
  "io_triple (\<lambda>_. True) (commit_created L E st r) (\<lambda>r' _. dep_core r' = dep_core r) (\<lambda>e _. dep_core (snd e) = dep_core r)"
  unfolding commit_created_def Let_def by (rule triple_if, rule triple_throw, simp)
    (intro triple_creating_bind triple_return; simp)

lemma yields_fill:
  "io_triple (\<lambda>_. True) (fill_snapshot L E progress st release r) (\<lambda>r' _. dep_core r' = dep_core r) (\<lambda>e _. dep_core (snd e) = dep_core r)"
proof -
  have commit: "io_triple (\<lambda>_. dep_core q = dep_core r) (notify m (commit_created L E st q))
      (\<lambda>r' _. dep_core r' = dep_core r) (\<lambda>e _. dep_core (snd e) = dep_core r)" for q m
  proof (cases "dep_core q = dep_core r")
    case True
    then show ?thesis using triple_notify [OF yields_commit [of L E st q], of m] by (simp add: True)
  next
    case False
    then show ?thesis by (simp add: io_triple_def)
  qed
  show ?thesis
    unfolding fill_snapshot_def Let_def
    by (intro triple_creating_bind triple_notify triple_case_prod;
        (rule triple_bind [OF triple_weaken [OF yields_capture] commit])?) simp_all
qed

lemma touchesI:
  "(\<And>w x w' k. m w = (x, w') \<Longrightarrow> k \<notin> S \<Longrightarrow> map_of (nodes w') k = map_of (nodes w) k) \<Longrightarrow> touches S m"
  unfolding touches_def by (metis prod.collapse)

lemma touches_bind_yields:
  assumes "touches S m" and "io_triple (\<lambda>_. True) m (\<lambda>x _. R x) E" and "\<And>x. R x \<Longrightarrow> touches S (f x)"
  shows "touches S (io_bind m f)"
proof -
  have "map_of (nodes w') k = map_of (nodes w) k" if run: "io_bind m f w = (y, w')" and k: "k \<notin> S" for w y w' k
  proof (cases "m w")
    case (Pair r v)
    with touchesD [OF assms(1) _ k] have same: "map_of (nodes v) k = map_of (nodes w) k" by blast
    show ?thesis
    proof (cases r)
      case (Inl e)
      with run Pair same show ?thesis by (simp add: io_bind_def)
    next
      case (Inr x)
      with io_tripleD_ok [OF assms(2) TrueI] Pair have "R x" by blast
      from touchesD [OF assms(3) [OF this] _ k] run Pair Inr same show ?thesis by (simp add: io_bind_def)
    qed
  qed
  then show ?thesis by (rule touchesI)
qed

lemma touches_match_yields:
  assumes "touches S m" and "io_triple (\<lambda>_. True) m (\<lambda>x _. R x) (\<lambda>e _. R' e)"
    and "\<And>x. R x \<Longrightarrow> touches S (f (Inr x))" and "\<And>e. R' e \<Longrightarrow> touches S (f (Inl e))"
  shows "touches S (io_match m f)"
proof -
  have "map_of (nodes w') k = map_of (nodes w) k" if run: "io_match m f w = (y, w')" and k: "k \<notin> S" for w y w' k
  proof (cases "m w")
    case (Pair r v)
    with touchesD [OF assms(1) _ k] have same: "map_of (nodes v) k = map_of (nodes w) k" by blast
    have "touches S (f r)"
      using io_tripleD_ok [OF assms(2) TrueI] io_tripleD_err [OF assms(2) TrueI] Pair assms(3,4) by (cases r) blast+
    from touchesD [OF this _ k] run Pair same show ?thesis by (simp add: io_match_def)
  qed
  then show ?thesis by (rule touchesI)
qed

text \<open>Programs that draw an identifier and then change the paths of that identifier only.\<close>

definition touches_drawn :: "(uuid \<Rightarrow> path set) \<Rightarrow> ('e, 'a) io \<Rightarrow> bool" where
  "touches_drawn F m \<longleftrightarrow>
     (\<forall>w x w'. m w = (x, w') \<longrightarrow> (\<exists>i. \<forall>k. k \<notin> F i \<longrightarrow> map_of (nodes w') k = map_of (nodes w) k))"

named_theorems drawn_rules \<open>rules for programs that draw an identifier\<close>

lemma drawn_frame: "touches S m \<Longrightarrow> (\<And>i. S \<subseteq> F i) \<Longrightarrow> touches_drawn F m"
  unfolding touches_drawn_def by (meson subsetD touchesD)

lemma drawn_lift [drawn_rules]: "(\<And>x. touches_drawn F (f x)) \<Longrightarrow> touches_drawn F (io_bind (io_lift r) f)"
  by (cases r) (simp_all add: touches_drawn_def io_bind_def io_lift_def)

lemma drawn_bind:
  assumes "touches S m" and "\<And>i. S \<subseteq> F i" and "\<And>x. touches_drawn F (f x)"
  shows "touches_drawn F (io_bind m f)"
  unfolding touches_drawn_def
proof (intro allI impI)
  fix w y w' assume run: "io_bind m f w = (y, w')"
  obtain r v where m: "m w = (r, v)" by fastforce
  have same: "map_of (nodes v) k = map_of (nodes w) k" if "k \<notin> F i" for k i
    using touchesD [OF assms(1) m] assms(2) that by blast
  show "\<exists>i. \<forall>k. k \<notin> F i \<longrightarrow> map_of (nodes w') k = map_of (nodes w) k"
  proof (cases r)
    case (Inl e)
    with run m same show ?thesis by (auto simp: io_bind_def)
  next
    case (Inr x)
    with run m have "f x v = (y, w')" by (simp add: io_bind_def)
    with assms(3) [of x] obtain i where "\<forall>k. k \<notin> F i \<longrightarrow> map_of (nodes w') k = map_of (nodes v) k"
      unfolding touches_drawn_def by blast
    with same show ?thesis by (intro exI [of _ i]) simp
  qed
qed

lemma drawn_v4: "(\<And>i. touches (F i) (f i)) \<Longrightarrow> touches_drawn F (io_bind new_v4 f)"
  by (fastforce simp: touches_drawn_def io_bind_def new_v4_def tick_def dest: touchesD)

lemma drawn_notify:
  assumes "touches {} m" and "touches_drawn F k"
  shows "touches_drawn F (notify m k)"
  using assms unfolding touches_drawn_def notify_def io_match_def
  by (auto split: prod.splits) (metis empty_iff touchesD)

lemma drawn_if [drawn_rules]:
  "(c \<Longrightarrow> touches_drawn F m) \<Longrightarrow> (\<not> c \<Longrightarrow> touches_drawn F m') \<Longrightarrow> touches_drawn F (if c then m else m')"
  by simp

context operation_environment
begin

lemma fill_frame: "touches (creation_paths (ol_uuid L) (oe_snapshot_root E) (dep_id r)) (fill_snapshot L E progress st release r)"
proof -
  let ?S = "creation_paths (ol_uuid L) (oe_snapshot_root E) (dep_id r)"
  let ?d = "deployment_dir (ol_uuid L) E (dep_id r)"
  have paths: "?d \<in> ?S" "under (?d @ [''root'']) \<subseteq> ?S"
    by (auto simp: creation_paths_def deployment_dir_def under_def prefix_def)
  have commit: "touches ?S (commit_created L E st q)" if "dep_id q = dep_id r" for q
    by (rule commit_frame) (auto simp: creation_paths_def that)
  have capture: "touches ?S (io_bind (capture_identity L E p release q) (\<lambda>q. notify m (commit_created L E st q)))"
    if "dep_id q = dep_id r" "touches {} m" for p q m
    by (rule touches_bind_yields [OF capture_quiet yields_capture], rule touches_notify,
        rule touches_none [OF that(2)], rule commit, drule dep_core_id) (simp add: that(1))
  show ?thesis
    unfolding fill_snapshot_def Let_def op_run_btrfs_def
    by (intro io_rules touches_notify touches_none [OF progress_frame] capture progress_frame sync_quiet snapshot_identity_quiet
        touches_mono [OF snapshot_frame] paths touches_creating) simp_all
qed

lemma revert_frame: "touches (creation_paths (ol_uuid L) (oe_snapshot_root E) (dep_id r)) (revert_created L E r e)"
proof -
  let ?S = "creation_paths (ol_uuid L) (oe_snapshot_root E) (dep_id r)"
  let ?d = "deployment_dir (ol_uuid L) E (dep_id r)"
  have paths: "?d \<in> ?S" "under (?d @ [''root'']) \<subseteq> ?S"
    by (auto simp: creation_paths_def deployment_dir_def under_def prefix_def)
  have "touches ?S (op_write_record_atomic L E q)" if "dep_id q = dep_id r" for q
    by (rule touches_mono [OF touches_op_write_record_atomic]) (auto simp: creation_paths_def that)
  then show ?thesis
    unfolding revert_created_def Let_def by (intro io_rules cleanup_snapshot_frame paths) simp
qed

lemma create_locked_frame:
  "touches_drawn (creation_paths (ol_uuid L) (oe_snapshot_root E))
     (create_snapshot_locked L E title reason schedule pinned kind st release progress deployments)"
proof -
  let ?F = "creation_paths (ol_uuid L) (oe_snapshot_root E)"
  have written: "touches (?F (dep_id r)) (op_write_record_atomic L E r)" for r
    by (rule touches_mono [OF touches_op_write_record_atomic]) (auto simp: creation_paths_def)
  have body: "touches (?F (dep_id r)) (io_match (fill_snapshot L E progress st release r) (\<lambda>result.
        case result of Inl (e, r) \<Rightarrow> notify m (revert_created L E r e) | Inr r \<Rightarrow> notify m' (io_return r)))"
    if "touches {} m" "touches {} m'" for r m m'
  proof (rule touches_match_yields [OF fill_frame yields_fill])
    show "touches (?F (dep_id r)) (case Inr q of Inl (e, r) \<Rightarrow> notify m (revert_created L E r e) | Inr r \<Rightarrow> notify m' (io_return r))" for q
      by (simp add: touches_notify touches_none that touches_return)
    show "touches (?F (dep_id r)) (case Inl e of Inl (e, r) \<Rightarrow> notify m (revert_created L E r e) | Inr r \<Rightarrow> notify m' (io_return r))"
      if "dep_core (snd e) = dep_core r" for e :: "OperationError \<times> DeploymentRecord"
      using revert_frame [of "snd e" "fst e"] \<open>touches {} m\<close> dep_core_id [OF that]
      by (cases e) (auto intro: touches_notify touches_none)
  qed
  have rest: "touches (?F i) (let r = new_deployment i parent kind now title reason schedule pinned in
      io_bind (io_lift (op_check_record (ol_uuid L) OeInvalidInput r)) (\<lambda>_.
      notify (progress OpRecordTransaction 8 m)
      (io_bind (op_write_record_atomic L E r) (\<lambda>_.
      io_match (fill_snapshot L E progress st release r) (\<lambda>result.
        case result of
          Inl (e, r) \<Rightarrow> notify (progress OpCleanup 95 m') (revert_created L E r e)
        | Inr r \<Rightarrow> notify (progress OpCommit 100 m'') (io_return r))))))" for i parent now m m' m''
  proof -
    have "dep_id (new_deployment i parent kind now title reason schedule pinned) = i" by (simp add: new_deployment_def)
    with written [of "new_deployment i parent kind now title reason schedule pinned"]
      body [OF progress_frame progress_frame, of "new_deployment i parent kind now title reason schedule pinned"]
    show ?thesis
      unfolding Let_def by (intro touches_bind touches_lift touches_notify touches_none [OF progress_frame]) simp_all
  qed
  have initialize: "touches (under (lineage_dir (oe_snapshot_root E))) (ensure_initialized U J (lineage_dir (oe_snapshot_root E)) ds)" for U J ds
    unfolding ensure_initialized_def by (rule touches_mutate)
  show ?thesis
    unfolding create_snapshot_locked_def Let_def [of "ol_uuid L"] Let_def [of "oe_snapshot_root E"]
    by (rule drawn_bind [where S = "{}"], intro io_rules, simp,
        rule drawn_bind [where S = "under (lineage_dir (oe_snapshot_root E))"], intro io_rules initialize,
        simp add: creation_paths_def subset_iff, rule drawn_v4, intro io_rules rest)
qed

end

subsection \<open>Digests\<close>

definition file_digest :: "(bytes \<Rightarrow> string) \<Rightarrow> (path \<Rightarrow> inode option) \<Rightarrow> path \<Rightarrow> string \<Rightarrow> bool" where
  "file_digest sha M p d \<longleftrightarrow> (\<exists>c. inode_holds (M p) c \<and> d = sha c)"

text \<open>The record's digests are those of the files of the snapshot.\<close>

definition digests_match :: "(bytes \<Rightarrow> string) \<Rightarrow> (path \<Rightarrow> inode option) \<Rightarrow> path \<Rightarrow> DeploymentRecord \<Rightarrow> bool" where
  "digests_match sha M snapshot r \<longleftrightarrow>
     (\<exists>release i b d. dep_kernel_release r = Some release
        \<and> dep_initramfs_sha256 r = Some i \<and> file_digest sha M (boot_file snapshot ''initrd.img-'' release) i
        \<and> dep_boot_artifact_sha256 r = Some b \<and> file_digest sha M (boot_file snapshot ''vmlinuz-'' release) b
        \<and> dep_dpkg_status_sha256 r = Some d \<and> file_digest sha M (snapshot @ [''var'', ''lib'', ''dpkg'', ''status'']) d)
     \<and> (case dep_mok_certificate_sha256 r of
          None \<Rightarrow> M (snapshot @ MOK_CERTIFICATE) = None
        | Some m \<Rightarrow> file_digest sha M (snapshot @ MOK_CERTIFICATE) m)"

lemma digests_match_agree:
  assumes "\<And>k. k \<in> under snapshot \<Longrightarrow> M' k = M k"
  shows "digests_match sha M' snapshot r = digests_match sha M snapshot r"
proof -
  have "M' (snapshot @ q) = M (snapshot @ q)" for q using assms by (simp add: under_def)
  then show ?thesis by (simp add: digests_match_def file_digest_def boot_file_def split: option.split)
qed

lemma triple_open_regular_file:
  "io_triple (\<lambda>w. map_of (nodes w) = M) (open_regular_file p) (\<lambda>_ w. map_of (nodes w) = M) (\<lambda>_ w. map_of (nodes w) = M)"
  by (rule triple_frozen) (rule io_rules)

lemma triple_op_hash:
  "io_triple (\<lambda>w. map_of (nodes w) = M) (op_hash_regular_file sha p)
    (\<lambda>d w. map_of (nodes w) = M \<and> file_digest sha M p d) (\<lambda>_ w. map_of (nodes w) = M)"
proof -
  have read: "io_triple (\<lambda>w. map_of (nodes w) = M) (read_all p)
      (\<lambda>b w. map_of (nodes w) = M \<and> inode_holds (M p) b) (\<lambda>_ w. map_of (nodes w) = M)"
    by (rule triple_weaken [OF triple_read_all [of "\<lambda>ns. map_of ns = M" p "M p"]]) auto
  show ?thesis
    unfolding op_hash_regular_file_def
    by (rule triple_bind [OF triple_open_regular_file], rule triple_bind [OF triple_map_err [OF read]])
      (auto simp: file_digest_def intro: triple_return)
qed

lemma triple_hash_optional:
  "io_triple (\<lambda>w. map_of (nodes w) = M) (hash_optional_regular_file sha p)
    (\<lambda>d w. map_of (nodes w) = M \<and> (case d of None \<Rightarrow> M p = None | Some d \<Rightarrow> file_digest sha M p d))
    (\<lambda>_ w. map_of (nodes w) = M)"
proof -
  have inspect: "io_triple (\<lambda>w. map_of (nodes w) = M) (symlink_metadata p) (\<lambda>_ w. map_of (nodes w) = M)
      (\<lambda>e w. map_of (nodes w) = M \<and> (err_kind e = NotFound \<longrightarrow> M p = None))"
    by (auto simp: io_triple_def symlink_metadata_def syscall_def tick_def enoent_def split: option.splits)
  show ?thesis
    unfolding hash_optional_regular_file_def
    by (rule triple_match [OF inspect]) (auto intro!: triple_bind [OF triple_op_hash] triple_return triple_throw)
qed

lemma triple_notify_frozen:
  assumes "touches {} m" and "io_triple (\<lambda>w. map_of (nodes w) = M) k Q E"
  shows "io_triple (\<lambda>w. map_of (nodes w) = M) (notify m k) Q E"
  unfolding notify_def by (rule triple_match [OF triple_frozen [OF assms(1)]]) (rule assms(2))+

lemma triple_op_load_record:
  "io_triple (\<lambda>w. map_of (nodes w) = M) (op_load_record L E i)
    (\<lambda>r w. map_of (nodes w) = M
       \<and> inode_records (ol_uuid L) (ol_dep L) (record_path (ol_uuid L) (oe_snapshot_root E) i)
           (M (record_path (ol_uuid L) (oe_snapshot_root E) i)) r) (\<lambda>_ w. map_of (nodes w) = M)"
proof -
  let ?p = "record_path (ol_uuid L) (oe_snapshot_root E) i"
  have "io_triple (\<lambda>w. map_of (nodes w) ?p = M ?p) (load_record (ol_uuid L) (ol_dep L) (oe_snapshot_root E) i)
      (\<lambda>r w. inode_records (ol_uuid L) (ol_dep L) ?p (M ?p) r) (\<lambda>_ _. True)"
    unfolding load_record_def by (rule triple_weaken [OF triple_read_metadata_record]) auto
  then have "io_triple (\<lambda>w. map_of (nodes w) = M) (load_record (ol_uuid L) (ol_dep L) (oe_snapshot_root E) i)
      (\<lambda>r w. inode_records (ol_uuid L) (ol_dep L) ?p (M ?p) r) (\<lambda>_ _. True)"
    by (rule triple_weaken) auto
  from triple_conj [OF this triple_frozen [OF touches_load_record, of M]] show ?thesis
    unfolding op_load_record_def by (intro triple_map_err) (elim triple_weaken, auto)
qed

context operation_environment
begin

lemma capture_digests:
  "io_triple (\<lambda>w. map_of (nodes w) = M) (capture_identity L E snapshot release r)
    (\<lambda>r' w. map_of (nodes w) = M \<and> digests_match (ol_sha256 L) M snapshot r') (\<lambda>_ _. True)"
proof -
  have choose: "io_triple (\<lambda>w. map_of (nodes w) = M) (creating q m) (\<lambda>_ w. map_of (nodes w) = M) (\<lambda>_ _. True)"
    if "touches {} m" for q and m :: "(OperationError, 'y) io"
    unfolding creating_def by (rule triple_map_err, rule triple_weaken [OF triple_frozen [OF that]]) auto
  have hash: "io_triple (\<lambda>w. map_of (nodes w) = M) (creating q (op_hash_regular_file (ol_sha256 L) p))
      (\<lambda>d w. map_of (nodes w) = M \<and> file_digest (ol_sha256 L) M p d) (\<lambda>_ _. True)" for q p
    unfolding creating_def by (rule triple_map_err, rule triple_weaken [OF triple_op_hash]) auto
  have optional: "io_triple (\<lambda>w. map_of (nodes w) = M) (creating q (hash_optional_regular_file (ol_sha256 L) p))
      (\<lambda>d w. map_of (nodes w) = M \<and> (case d of None \<Rightarrow> M p = None | Some d \<Rightarrow> file_digest (ol_sha256 L) M p d))
      (\<lambda>_ _. True)" for q p
    unfolding creating_def by (rule triple_map_err, rule triple_weaken [OF triple_hash_optional]) auto
  show ?thesis
    unfolding capture_identity_def Let_def
    by (rule triple_bind [OF choose], cases release, simp_all, intro io_rules, intro io_rules,
        (rule triple_bind [OF hash], rule triple_pure)+, rule triple_bind [OF optional], rule triple_pure, rule triple_return)
      (auto simp: digests_match_def)
qed

end

lemma triple_op_write_record_atomic:
  "io_triple (\<lambda>w. map_of (nodes w) (record_path (ol_uuid L) (oe_snapshot_root E) (dep_id r)) = i) (op_write_record_atomic L E r)
    (\<lambda>_ w. slot_holds (dep_image (ol_uuid L) (ol_dep L) r) (map_of (nodes w) (record_path (ol_uuid L) (oe_snapshot_root E) (dep_id r))))
    (\<lambda>_ w. map_of (nodes w) (record_path (ol_uuid L) (oe_snapshot_root E) (dep_id r)) = i
       \<or> slot_holds (dep_image (ol_uuid L) (ol_dep L) r) (map_of (nodes w) (record_path (ol_uuid L) (oe_snapshot_root E) (dep_id r))))"
    (is "io_triple ?P _ ?Q ?E")
proof -
  have quiet: "io_triple ?P m (\<lambda>_. ?P) ?E" if "\<And>S. touches S m" for m :: "(OperationError, 'y) io"
    by (rule triple_weaken [OF triple_query [OF that]]) auto
  have inspect: "io_triple ?P (symlink_metadata p) (\<lambda>_. ?P) (\<lambda>_. ?P)" for p
    by (rule triple_query) (rule io_rules)
  have new: "io_triple ?P new_v4 (\<lambda>_. ?P) ?E"
    by (rule quiet) (rule io_rules)
  have directory: "io_triple ?P (ensure_existing_directory p) (\<lambda>_. ?P) ?E" for p
    by (rule quiet) (rule io_rules)
  have refuse: "io_triple ?P (io_throw e) ?Q ?E" for e
    by (rule triple_throw) simp
  have image: "dep_image (ol_uuid L) (ol_dep L) r (s @ newline)"
    if "op_check_record (ol_uuid L) c r = Inr u"
      "(case dep_print (ol_dep L) r of Inl e \<Rightarrow> Inl (g e) | Inr b \<Rightarrow> Inr b) = (Inr s :: OperationError + bytes)" for c u g s
    using that by (auto simp: dep_image_def op_check_record_def split: sum.splits)
  show ?thesis
    unfolding op_write_record_atomic_def Let_def
    by (rule triple_lift, rule triple_bind [OF directory], rule triple_match [OF inspect]; (rule triple_if, rule refuse)?;
        (rule triple_bind [OF new], rule triple_lift,
         rule triple_commit_replace [OF record_temporary_apart, where I = "dep_image (ol_uuid L) (ol_dep L) r"],
         erule image, assumption)?) auto
qed

subsection \<open>What a created snapshot is\<close>

lemma triple_digests:
  assumes "touches S m" and "S \<inter> under snapshot = {}"
  shows "io_triple (\<lambda>w. digests_match sha (map_of (nodes w)) snapshot r) m
    (\<lambda>_ w. digests_match sha (map_of (nodes w)) snapshot r) (\<lambda>_ _. True)"
proof (rule io_tripleI)
  show "digests_match sha (map_of (nodes w')) snapshot r"
    if "digests_match sha (map_of (nodes w)) snapshot r" "m w = (Inr x, w')" for w x w'
    using that digests_match_agree [of snapshot "map_of (nodes w')" "map_of (nodes w)"] touchesD [OF assms(1) that(2)] assms(2)
    by blast
qed simp

text \<open>A finished snapshot: its record is valid and stored, and its digests are those of its files.\<close>

definition snapshot_finished :: "operation_libs \<Rightarrow> OperationEngine \<Rightarrow> DeploymentState \<Rightarrow> DeploymentRecord \<Rightarrow> world \<Rightarrow> bool" where
  "snapshot_finished L E st r w \<longleftrightarrow>
     dep_state r = st \<and> DeploymentRecord_validate (ol_uuid L) r = Inr ()
     \<and> slot_holds (dep_image (ol_uuid L) (ol_dep L) r)
         (map_of (nodes w) (record_path (ol_uuid L) (oe_snapshot_root E) (dep_id r)))
     \<and> digests_match (ol_sha256 L) (map_of (nodes w)) (deployment_dir (ol_uuid L) E (dep_id r) @ [''root'']) r"

lemma finished_agree:
  assumes "\<And>k. k \<in> insert (record_path (ol_uuid L) (oe_snapshot_root E) (dep_id r)) (under (deployment_dir (ol_uuid L) E (dep_id r)))
      \<Longrightarrow> map_of (nodes w') k = map_of (nodes w) k"
  shows "snapshot_finished L E st r w' = snapshot_finished L E st r w"
proof -
  let ?s = "deployment_dir (ol_uuid L) E (dep_id r) @ [''root'']"
  have "digests_match (ol_sha256 L) (map_of (nodes w')) ?s r = digests_match (ol_sha256 L) (map_of (nodes w)) ?s r"
    by (rule digests_match_agree) (rule assms, auto simp: under_def prefix_def)
  then show ?thesis using assms by (simp add: snapshot_finished_def)
qed

lemma triple_finished:
  assumes "touches S m" and "record_path (ol_uuid L) (oe_snapshot_root E) (dep_id r) \<notin> S"
    and "S \<inter> under (deployment_dir (ol_uuid L) E (dep_id r)) = {}"
  shows "io_triple (snapshot_finished L E st r) m (\<lambda>_. snapshot_finished L E st r) (\<lambda>_ _. True)"
proof (rule io_tripleI)
  show "snapshot_finished L E st r w'" if "snapshot_finished L E st r w" "m w = (Inr x, w')" for w x w'
    using that(1) finished_agree [of L E r w' w] touchesD [OF assms(1) that(2)] assms(2,3) by blast
qed simp

lemma store_parts_apart:
  "record_path U root i \<notin> under (lineage_dir root)"
  "record_paths U root i \<inter> under (root @ [''deployments'', n]) = {}"
  "under (lineage_dir root) \<inter> under (root @ [''deployments'', n]) = {}"
  using record_paths_under [of U root i]
  by (auto simp: under_def lineage_dir_def record_path_def metadata_dir_def prefix_def)

context operation_environment
begin

lemma creating_finished:
  assumes "touches S m" and "record_path (ol_uuid L) (oe_snapshot_root E) (dep_id r) \<notin> S"
    and "S \<inter> under (deployment_dir (ol_uuid L) E (dep_id r)) = {}"
  shows "io_triple (snapshot_finished L E st r) (creating q m) (\<lambda>_. snapshot_finished L E st r) (\<lambda>_ _. True)"
  unfolding creating_def by (rule triple_map_err, rule triple_finished [OF assms])

lemma commit_finishes:
  "io_triple (\<lambda>w. digests_match (ol_sha256 L) (map_of (nodes w)) (deployment_dir (ol_uuid L) E (dep_id r) @ [''root'']) r)
     (commit_created L E st r) (snapshot_finished L E st) (\<lambda>_ _. True)"
proof -
  let ?r = "r\<lparr>dep_state := st\<rparr>" and ?s = "deployment_dir (ol_uuid L) E (dep_id r) @ [''root'']"
  let ?D = "\<lambda>w. digests_match (ol_sha256 L) (map_of (nodes w)) ?s ?r"
  have "record_paths (ol_uuid L) (oe_snapshot_root E) (dep_id r) \<inter> under ?s = {}"
    using store_parts_apart(2) [of "ol_uuid L" "oe_snapshot_root E" "dep_id r" "hyphenated (ol_uuid L) (dep_id r)"]
    by (auto simp: deployment_dir_def under_def prefix_def)
  with triple_digests [OF touches_op_write_record_atomic [of L E ?r]]
  have kept: "io_triple ?D (op_write_record_atomic L E ?r) (\<lambda>_. ?D) (\<lambda>_ _. True)" by simp
  have stored: "io_triple (\<lambda>_. True) (op_write_record_atomic L E ?r) (\<lambda>_ w. slot_holds (dep_image (ol_uuid L) (ol_dep L) ?r)
      (map_of (nodes w) (record_path (ol_uuid L) (oe_snapshot_root E) (dep_id ?r)))) (\<lambda>_ _. True)"
    by (rule triple_from_any, rule triple_weaken [OF triple_op_write_record_atomic]) auto
  have store: "io_triple ?D (creating q (op_write_record_atomic L E ?r)) (\<lambda>_. snapshot_finished L E st ?r) (\<lambda>_ _. True)"
    if "DeploymentRecord_validate (ol_uuid L) ?r = Inr ()" for q
    unfolding creating_def
    by (rule triple_map_err, rule triple_weaken [OF triple_conj [OF kept stored]]) (use that in \<open>auto simp: snapshot_finished_def\<close>)
  have lineage: "touches (under (lineage_dir (oe_snapshot_root E))) (io_map_err op_lineage_error
      (record_recovery_point (ol_uuid L) (ol_lin L) (lineage_dir (oe_snapshot_root E)) ?r))"
    unfolding record_recovery_point_def by (intro io_rules)
  have apart: "record_path (ol_uuid L) (oe_snapshot_root E) (dep_id ?r) \<notin> under (lineage_dir (oe_snapshot_root E))"
      "under (lineage_dir (oe_snapshot_root E)) \<inter> under (deployment_dir (ol_uuid L) E (dep_id ?r)) = {}"
    unfolding deployment_dir_def by (rule store_parts_apart)+
  have check: "io_triple ?D (creating ?r (io_lift (op_check_record (ol_uuid L) c ?r)))
      (\<lambda>_ w. ?D w \<and> DeploymentRecord_validate (ol_uuid L) ?r = Inr ()) (\<lambda>_ _. True)" for c
    unfolding creating_def by (rule triple_map_err, rule triple_lift_last) (auto simp: op_check_record_def split: sum.splits)
  have body: "io_triple ?D
      (io_bind (creating ?r (io_lift (op_check_record (ol_uuid L) OeInvalidIdentity ?r))) (\<lambda>_.
        io_bind (creating ?r (op_write_record_atomic L E ?r)) (\<lambda>_.
        io_bind (creating ?r (sync_btrfs E)) (\<lambda>_.
        io_bind (creating ?r (io_map_err op_lineage_error
          (record_recovery_point (ol_uuid L) (ol_lin L) (lineage_dir (oe_snapshot_root E)) ?r))) (\<lambda>_.
        io_return ?r))))) (snapshot_finished L E st) (\<lambda>_ _. True)"
    by (rule triple_bind [OF check], rule triple_pure, rule triple_bind [OF store],
        assumption, rule triple_bind [OF creating_finished [OF sync_quiet [of "{}"]]], simp, simp,
        rule triple_bind [OF creating_finished [OF lineage apart]], rule triple_return)
  have "?D = (\<lambda>w. digests_match (ol_sha256 L) (map_of (nodes w)) ?s r)" by (simp add: digests_match_def)
  from body [unfolded this] show ?thesis
    unfolding commit_created_def Let_def by (intro triple_if triple_throw) simp_all
qed

end

lemma triple_skip: "(\<And>x. io_triple (\<lambda>_. True) (f x) Q (\<lambda>_ _. True)) \<Longrightarrow> io_triple (\<lambda>_. True) (io_bind m f) Q (\<lambda>_ _. True)"
  by (rule triple_bind [OF triple_any])

context operation_environment
begin

lemma capture_then_commit:
  "io_triple (\<lambda>_. True) (io_bind (capture_identity L E (deployment_dir (ol_uuid L) E (dep_id r) @ [''root'']) release r) (\<lambda>r.
      notify (progress phase fraction message) (commit_created L E st r))) (snapshot_finished L E st) (\<lambda>_ _. True)"
proof -
  let ?s = "deployment_dir (ol_uuid L) E (dep_id r) @ [''root'']"
  let ?D = "\<lambda>q w. digests_match (ol_sha256 L) (map_of (nodes w)) (deployment_dir (ol_uuid L) E (dep_id q) @ [''root'']) q"
  have "io_triple (\<lambda>w. map_of (nodes w) = M) (capture_identity L E ?s release r) ?D (\<lambda>_ _. True)" for M
    by (rule triple_weaken [OF triple_conj [OF capture_digests yields_capture]]) (auto dest: dep_core_id)
  from triple_from_any [OF this]
  have capture: "io_triple (\<lambda>_. True) (capture_identity L E ?s release r) ?D (\<lambda>_ _. True)" .
  have told: "io_triple (?D q) (notify (progress phase fraction message) (commit_created L E st q))
      (snapshot_finished L E st) (\<lambda>_ _. True)" for q
  proof -
    have "io_triple (?D q) (progress phase fraction message) (\<lambda>_. ?D q) (\<lambda>_. ?D q)"
      using touchesD [OF progress_frame] by (intro io_tripleI; simp) (metis (no_types, lifting) empty_iff ext)+
    then show ?thesis unfolding notify_def by (rule triple_match) (rule commit_finishes)+
  qed
  show ?thesis by (rule triple_bind [OF capture told])
qed

lemma fill_finishes:
  "io_triple (\<lambda>_. True) (fill_snapshot L E progress st release r)
     (\<lambda>r' w. snapshot_finished L E st r' w \<and> dep_core r' = dep_core r) (\<lambda>_ _. True)"
proof -
  have same: "dep_id (r\<lparr>dep_snapshot_uuid := a, dep_snapshot_parent_uuid := b\<rparr>) = dep_id r" for a b by simp
  have "io_triple (\<lambda>_. True) (fill_snapshot L E progress st release r) (snapshot_finished L E st) (\<lambda>_ _. True)"
    unfolding fill_snapshot_def Let_def
    by (rule triple_skip, rule triple_notify, rule triple_skip, rule triple_skip, rule triple_case_prod, rule triple_skip,
        rule triple_notify, rule capture_then_commit [of "r\<lparr>dep_snapshot_uuid := a, dep_snapshot_parent_uuid := b\<rparr>" for a b, unfolded same])
  from triple_conj [OF this yields_fill] show ?thesis by (rule triple_weaken) simp_all
qed

lemma create_locked_finishes:
  "io_triple (\<lambda>_. True) (create_snapshot_locked L E title reason schedule pinned kind st release progress deployments)
     (\<lambda>r w. snapshot_finished L E st r w \<and> dep_title r = title \<and> dep_reason r = reason
        \<and> dep_kind r = kind \<and> dep_pinned r = pinned \<and> dep_schedule_id r = schedule \<and> dep_failure r = None) (\<lambda>_ _. True)"
proof -
  let ?new = "\<lambda>i parent now. new_deployment i parent kind now title reason schedule pinned"
  let ?F = "\<lambda>r w. snapshot_finished L E st r w \<and> dep_title r = title \<and> dep_reason r = reason
        \<and> dep_kind r = kind \<and> dep_pinned r = pinned \<and> dep_schedule_id r = schedule \<and> dep_failure r = None"
  have filled: "io_triple (\<lambda>_. True) (fill_snapshot L E progress st release (?new i parent now)) ?F (\<lambda>_ _. True)" for i parent now
    by (rule triple_weaken [OF fill_finishes]) (auto simp: dep_core_def new_deployment_def)
  have told: "io_triple (?F r) (notify (progress phase fraction message) (io_return r)) ?F (\<lambda>_ _. True)" for r phase fraction message
  proof -
    have "io_triple (snapshot_finished L E st r) (progress phase fraction message)
        (\<lambda>_. snapshot_finished L E st r) (\<lambda>_. snapshot_finished L E st r)"
      using touchesD [OF progress_frame] finished_agree by (intro io_tripleI) blast+
    then have "io_triple (?F r) (progress phase fraction message) (\<lambda>_. ?F r) (\<lambda>_. ?F r)"
      by (auto simp: io_triple_def split: prod.splits sum.splits)
    then show ?thesis unfolding notify_def by (rule triple_match) (auto intro: triple_return)
  qed
  have reverted: "io_triple (\<lambda>_. True) (notify m (revert_created L E q e)) ?F (\<lambda>_ _. True)" for m q e
    unfolding revert_created_def Let_def
    by (intro triple_notify) (auto intro!: triple_match [OF triple_any] triple_throw)
  show ?thesis
    unfolding create_snapshot_locked_def Let_def
    by (intro triple_skip triple_notify, rule triple_match [OF filled])
      (auto intro!: told reverted split: prod.split)
qed

lemma create_with_finishes:
  "io_triple (\<lambda>_. True) (create_snapshot_with L E layout message title reason schedule pinned kind st release progress)
     (\<lambda>r w. snapshot_finished L E st r w \<and> dep_title r = title \<and> dep_reason r = reason
        \<and> dep_kind r = kind \<and> dep_pinned r = pinned \<and> dep_schedule_id r = schedule \<and> dep_failure r = None) (\<lambda>_ _. True)"
  unfolding create_snapshot_with_def by (intro triple_notify triple_skip create_locked_finishes)

lemma create_with_frame:
  assumes "create_snapshot_with L E layout message title reason schedule pinned kind st release progress w = (x, w')"
  shows "\<exists>i. \<forall>k. k \<notin> creation_paths (ol_uuid L) (oe_snapshot_root E) i \<union> engine_paths (oe_snapshot_root E) \<longrightarrow>
    map_of (nodes w') k = map_of (nodes w) k"
proof -
  let ?F = "\<lambda>i. creation_paths (ol_uuid L) (oe_snapshot_root E) i \<union> engine_paths (oe_snapshot_root E)"
  have store: "touches (engine_paths (oe_snapshot_root E)) (ensure_store_directories E)"
      "touches (engine_paths (oe_snapshot_root E)) (op_acquire_lock E)"
    by (intro io_rules; auto simp: engine_paths_def)+
  have locked: "touches_drawn ?F (create_snapshot_locked L E title reason schedule pinned kind st release progress ds)" for ds
    using create_locked_frame unfolding touches_drawn_def by (meson UnI1)
  have "touches_drawn ?F (create_snapshot_with L E layout message title reason schedule pinned kind st release progress)"
    unfolding create_snapshot_with_def
    by (intro drawn_notify [OF progress_frame] drawn_lift drawn_bind [OF reserve_quiet [of "{}"]] drawn_bind [OF store(1)]
        drawn_bind [OF store(2)] drawn_bind [OF touches_op_queries(4) [of "{}"]] locked) auto
  with assms show ?thesis unfolding touches_drawn_def by blast
qed

end

subsection \<open>What verification establishes\<close>

lemma triple_settled:
  "(\<And>M. io_triple (\<lambda>w. map_of (nodes w) = M) m Q E) \<Longrightarrow> io_triple (\<lambda>_. True) m Q E"
  by (rule triple_from_any)

abbreviation frozen :: "(path \<Rightarrow> inode option) \<Rightarrow> world \<Rightarrow> bool" where
  "frozen M w \<equiv> map_of (nodes w) = M"

context operation_environment
begin

lemma verify_digests:
  "io_triple (frozen M)
    (io_bind (op_hash_regular_file (ol_sha256 L) (boot_file snapshot ''initrd.img-'' release)) (\<lambda>d.
     io_bind (io_lift (op_verify_digest ''initramfs'' (dep_initramfs_sha256 r) d)) (\<lambda>_.
     notify (progress phase fraction message)
     (io_bind (op_hash_regular_file (ol_sha256 L) (boot_file snapshot ''vmlinuz-'' release)) (\<lambda>d.
      io_bind (io_lift (op_verify_digest ''kernel boot artifact'' (dep_boot_artifact_sha256 r) d)) (\<lambda>_.
      io_bind (op_hash_regular_file (ol_sha256 L) (snapshot @ [''var'', ''lib'', ''dpkg'', ''status''])) (\<lambda>d.
      io_bind (io_lift (op_verify_digest ''dpkg database'' (dep_dpkg_status_sha256 r) d)) (\<lambda>_.
      io_bind (hash_optional_regular_file (ol_sha256 L) (snapshot @ MOK_CERTIFICATE)) (\<lambda>actual_mok.
      if actual_mok \<noteq> dep_mok_certificate_sha256 r then io_throw e
      else notify (progress phase' fraction' message') (io_return r))))))))))
    (\<lambda>r' w. map_of (nodes w) = M \<and> r' = r \<and> (dep_kernel_release r = Some release \<longrightarrow> digests_match (ol_sha256 L) M snapshot r))
    (\<lambda>_ _. True)"
proof -
  have hash: "io_triple (frozen M) (op_hash_regular_file (ol_sha256 L) p)
      (\<lambda>d w. map_of (nodes w) = M \<and> file_digest (ol_sha256 L) M p d) (\<lambda>_ _. True)" for p
    by (rule triple_weaken [OF triple_op_hash]) auto
  have optional: "io_triple (frozen M) (hash_optional_regular_file (ol_sha256 L) p)
      (\<lambda>d w. map_of (nodes w) = M \<and> (case d of None \<Rightarrow> M p = None | Some d \<Rightarrow> file_digest (ol_sha256 L) M p d)) (\<lambda>_ _. True)" for p
    by (rule triple_weaken [OF triple_hash_optional]) auto
  note told = triple_notify_frozen [OF progress_frame]
  show ?thesis
    by (rule triple_bind [OF hash], rule triple_pure, rule triple_lift, rule told, rule triple_bind [OF hash], rule triple_pure,
        rule triple_lift, rule triple_bind [OF hash], rule triple_pure, rule triple_lift, rule triple_bind [OF optional],
        rule triple_pure, rule triple_if, rule triple_throw, simp, rule told, rule triple_return)
      (auto simp: digests_match_def op_verify_digest_def check_def split: if_splits)
qed

lemma verify_establishes:
  "io_triple (\<lambda>_. True) (verify_deployment L E layout i progress)
    (\<lambda>r w. can_restore (ol_uuid L) r
       \<and> inode_records (ol_uuid L) (ol_dep L) (record_path (ol_uuid L) (oe_snapshot_root E) i)
           (map_of (nodes w) (record_path (ol_uuid L) (oe_snapshot_root E) i)) r
       \<and> digests_match (ol_sha256 L) (map_of (nodes w)) (deployment_dir (ol_uuid L) E i @ [''root'']) r) (\<lambda>_ _. True)"
    (is "io_triple _ _ ?Q _")
proof -
  let ?records = "\<lambda>M. inode_records (ol_uuid L) (ol_dep L) (record_path (ol_uuid L) (oe_snapshot_root E) i)
           (M (record_path (ol_uuid L) (oe_snapshot_root E) i))"
  have load: "io_triple (frozen M) (op_load_record L E i) (\<lambda>r w. map_of (nodes w) = M \<and> ?records M r) (\<lambda>_ _. True)" for M
    by (rule triple_weaken [OF triple_op_load_record]) auto
  have finish: "io_triple (frozen M) m ?Q (\<lambda>_ _. True)"
    if "?records M r" "can_restore (ol_uuid L) r" "dep_kernel_release r = Some release"
      "io_triple (frozen M) m (\<lambda>r' w. map_of (nodes w) = M \<and> r' = r \<and> (dep_kernel_release r = Some release \<longrightarrow>
         digests_match (ol_sha256 L) M (deployment_dir (ol_uuid L) E i @ [''root'']) r)) (\<lambda>_ _. True)" for M r release m
    using that(4) by (rule triple_weaken) (use that(1-3) in auto)
  note quiet = triple_frozen_then [OF snapshot_identity_quiet] triple_frozen_then [OF verify_read_only_quiet]
  note told = triple_notify_frozen [OF progress_frame]
  have body: "io_triple (frozen M) (io_bind (op_load_record L E i) f) ?Q (\<lambda>_ _. True)"
    if "\<And>r. ?records M r \<Longrightarrow> io_triple (frozen M) (f r) ?Q (\<lambda>_ _. True)" for M f
    by (rule triple_bind [OF load], rule triple_pure, rule that)
  show ?thesis
    unfolding verify_deployment_def Let_def
    by (rule triple_notify, rule triple_skip, rule triple_skip, rule triple_skip, rule triple_settled, rule body)
      (auto intro!: triple_if triple_throw triple_case_option quiet told finish verify_digests triple_case_prod)
qed

end

subsection \<open>A simulated machine\<close>

fun simulated_snapshots :: command where
  "simulated_snapshots [Arg a, Arg b, Arg c, PathArg p, PathArg q] =
     simulated_change (\<lambda>ns. fs_is_dir ns p \<and> free_name ns q \<and> apart p q)
       (\<lambda>ns. fs_copy_tree p q (fs_remove_tree q ns))"
| "simulated_snapshots [Arg a, Arg b, Arg c, PathArg p] =
     (if b = ''show'' then syscall (\<lambda>ns. (Inr (command_ok (''UUID: u1'' @ newline @ ''Parent UUID: u2'')), ns))
      else simulated_btrfs [Arg a, Arg b, Arg c, PathArg p])"
| "simulated_snapshots args = simulated_btrfs args"

definition witness_engine :: OperationEngine where
  "witness_engine =
     \<lparr>oe_system_root = [''s''], oe_snapshot_root = [''r''], oe_runner = system_command_runner (\<lambda>_. simulated_snapshots),
      oe_minimum_free_bytes = 0\<rparr>"

definition no_progress :: op_progress where
  "no_progress phase fraction message = io_return ()"

definition witness_lin_json :: lin_json where
  "witness_lin_json =
     \<lparr>lin_parse = (\<lambda>b. Inr (SystemLineage_migrate example_uuid_lib [])), lin_print = (\<lambda>l. Inr ''L'')\<rparr>"

definition example_sha :: "bytes \<Rightarrow> string" where
  "example_sha b = replicate 64 (if b = ''i'' then CHR ''a'' else if b = ''b'' then CHR ''b'' else CHR ''c'')"

definition witness_pkg_json :: pkg_json where
  "witness_pkg_json = \<lparr>pj_parse = (\<lambda>_. Inl ''syntax''), pj_print = (\<lambda>_. Inl ''syntax'')\<rparr>"

definition witness_operation_libs :: operation_libs where
  "witness_operation_libs =
     \<lparr>ol_uuid = example_uuid_lib, ol_tx = example_tx_json, ol_dep = example_dep_json, ol_lin = witness_lin_json,
      ol_pkg = witness_pkg_json,
      ol_sha256 = example_sha, ol_statvfs = (\<lambda>_. io_throw enoent), ol_read_link = (\<lambda>_. io_throw enoent)\<rparr>"

definition supported_report :: LayoutReport where
  "supported_report = \<lparr>lr_support = Supported, lr_root_filesystem = None, lr_root_source = None, lr_issues = [], lr_mounts = []\<rparr>"

definition verified_world :: world where
  "verified_world =
     \<lparr>nodes = [([], \<lparr>ftype = Directory, mode = 0, uid = 0, gid = 0\<rparr>),
       ([''r''], \<lparr>ftype = Directory, mode = 0, uid = 0, gid = 0\<rparr>),
       ([''r'', ''deployments''], \<lparr>ftype = Directory, mode = 0, uid = 0, gid = 0\<rparr>),
       ([''r'', ''metadata''], \<lparr>ftype = Directory, mode = 0, uid = 0, gid = 0\<rparr>),
       ([''r'', ''transactions''], \<lparr>ftype = Directory, mode = 0, uid = 0, gid = 0\<rparr>),
       ([''r'', ''metadata'', ''u1.json''], \<lparr>ftype = Regular (''D'' @ newline), mode = 0, uid = 0, gid = 0\<rparr>),
       ([''r'', ''deployments'', ''u1'', ''root'', ''boot'', ''initrd.img-7.0.0-28''], \<lparr>ftype = Regular ''i'', mode = 0, uid = 0, gid = 0\<rparr>),
       ([''r'', ''deployments'', ''u1'', ''root'', ''boot'', ''vmlinuz-7.0.0-28''], \<lparr>ftype = Regular ''b'', mode = 0, uid = 0, gid = 0\<rparr>),
       ([''r'', ''deployments'', ''u1'', ''root'', ''var'', ''lib'', ''dpkg'', ''status''], \<lparr>ftype = Regular ''c'', mode = 0, uid = 0, gid = 0\<rparr>)],
      ticks = 0, fault = (\<lambda>_. None), clock = (\<lambda>_. 0), entropy = (\<lambda>_. 2)\<rparr>"

lemma flock_nonblocking_fault_free [simp]: "fault_free w \<Longrightarrow> flock_nonblocking p w = (Inr (), tick w)"
  by (simp add: flock_nonblocking_def fault_free_def)

lemma verified_store:
  "\<exists>w. ensure_store_directories witness_engine verified_world = (Inr (), w) \<and> fault_free w \<and> nodes w = foldr (\<lambda>(p, m) ns. fs_set p \<lparr>ftype = Directory, mode = m, uid = 0, gid = 0\<rparr> ns)
     [([''r'', ''transactions''], 0x1C0), ([''r'', ''metadata''], 0x1C0), ([''r'', ''deployments''], 0x1C0), ([''r''], 0x1C0)] (nodes verified_world)"
proof -
  have ff: "fault_free verified_world" by (simp add: fault_free_def verified_world_def)
  have n: "map_of (nodes verified_world) [] = Some \<lparr>ftype = Directory, mode = 0, uid = 0, gid = 0\<rparr>"
   "map_of (nodes verified_world) [''r''] = Some \<lparr>ftype = Directory, mode = 0, uid = 0, gid = 0\<rparr>"
   "map_of (nodes verified_world) [''r'', ''deployments''] = Some \<lparr>ftype = Directory, mode = 0, uid = 0, gid = 0\<rparr>"
   "map_of (nodes verified_world) [''r'', ''metadata''] = Some \<lparr>ftype = Directory, mode = 0, uid = 0, gid = 0\<rparr>"
   "map_of (nodes verified_world) [''r'', ''transactions''] = Some \<lparr>ftype = Directory, mode = 0, uid = 0, gid = 0\<rparr>"
    by (simp_all add: verified_world_def)
  show ?thesis using ff
  by (simp add: ensure_store_directories_def witness_engine_def ensure_existing_directory_def op_ensure_directory_def Let_def io_exec
    set_permissions_def n)
qed

lemma verified_locked:
  "\<exists>w w'. ensure_store_directories witness_engine verified_world = (Inr (), w) \<and> op_acquire_lock witness_engine w = (Inr (), w')
     \<and> fault_free w' \<and> (\<forall>k. k \<notin> engine_paths [''r''] \<longrightarrow> map_of (nodes w') k = map_of (nodes verified_world) k)"
proof -
  obtain w where w: "ensure_store_directories witness_engine verified_world = (Inr (), w)" "fault_free w"
    "nodes w = foldr (\<lambda>(p, m) ns. fs_set p \<lparr>ftype = Directory, mode = m, uid = 0, gid = 0\<rparr> ns)
     [([''r'', ''transactions''], 0x1C0), ([''r'', ''metadata''], 0x1C0), ([''r'', ''deployments''], 0x1C0), ([''r''], 0x1C0)] (nodes verified_world)"
    using verified_store by blast
  have "map_of (nodes verified_world) [''r'', ''operation.lock''] = None" by (simp add: verified_world_def)
  then have "\<exists>w'. op_acquire_lock witness_engine w = (Inr (), w') \<and> fault_free w'
      \<and> nodes w' = fs_set [''r'', ''operation.lock''] \<lparr>ftype = Regular [], mode = 0x180, uid = 0, gid = 0\<rparr> (nodes w)"
    using w(2) by (simp add: op_acquire_lock_def witness_engine_def Let_def io_exec open_create_def operation_lock_def w(3) fs_is_dir_def)
  with w show ?thesis by (fastforce simp: engine_paths_def store_dirs_def operation_lock_def)
qed

lemma verified_loads:
  assumes "fault_free w" and "map_of (nodes w) [''r'', ''metadata'', ''u1.json''] = map_of (nodes verified_world) [''r'', ''metadata'', ''u1.json'']"
  shows "\<exists>w'. op_load_record witness_operation_libs witness_engine 1 w = (Inr example_deployment, w') \<and> fault_free w' \<and> nodes w' = nodes w"
proof -
  have i: "dep_id example_deployment = 1" by (simp add: example_deployment_def)
  have "utf8_valid (hyphenated example_uuid_lib 1)" by code_simp
  with load_record_reads [of w example_dep_json example_deployment "''D''" example_uuid_lib "[''r'']"] assms example_deployment_valid
  have "\<exists>w'. load_record example_uuid_lib example_dep_json [''r''] 1 w = (Inr example_deployment, w') \<and> fault_free w' \<and> nodes w' = nodes w"
    by (simp add: i verified_world_def file_holds_def record_path_def metadata_dir_def uuid_displays_def example_uuid_lib_def
        dep_round_trips_def example_dep_json_def)
  then show ?thesis
    by (auto simp: op_load_record_def io_map_err_def io_match_def io_return_def witness_operation_libs_def witness_engine_def)
qed

lemma shown: "parse_btrfs_uuid example_uuid_lib (''UUID: u1'' @ newline @ ''Parent UUID: u2'') ''UUID:'' = Inr (Some ''u1'')"
  "parse_btrfs_uuid example_uuid_lib (''UUID: u1'' @ newline @ ''Parent UUID: u2'') ''Parent UUID:'' = Inr (Some ''u2'')"
  "utf8_valid (''UUID: u1'' @ newline @ ''Parent UUID: u2'')" "utf8_valid ''ro=true''" "str_trim ''ro=true'' = ''ro=true''"
  by code_simp+

lemma verified_hash:
  assumes "fault_free w" and "map_of (nodes w) p = Some i" and "ftype i = Regular c"
  shows "op_hash_regular_file sha p w = (Inr (sha c), tick (tick (tick w)))"
  using assms by (simp add: op_hash_regular_file_def open_regular_file_def io_exec regular_content_def read_all_def)

lemma verified_files:
  "map_of (nodes verified_world) ([''r'', ''deployments'', ''u1'', ''root''] @ [''boot'', ''initrd.img-7.0.0-28'']) = Some \<lparr>ftype = Regular ''i'', mode = 0, uid = 0, gid = 0\<rparr>"
  "map_of (nodes verified_world) ([''r'', ''deployments'', ''u1'', ''root''] @ [''boot'', ''vmlinuz-7.0.0-28'']) = Some \<lparr>ftype = Regular ''b'', mode = 0, uid = 0, gid = 0\<rparr>"
  "map_of (nodes verified_world) ([''r'', ''deployments'', ''u1'', ''root''] @ [''var'', ''lib'', ''dpkg'', ''status'']) = Some \<lparr>ftype = Regular ''c'', mode = 0, uid = 0, gid = 0\<rparr>"
  "map_of (nodes verified_world) ([''r'', ''deployments'', ''u1'', ''root''] @ MOK_CERTIFICATE) = None"
  by (simp_all add: verified_world_def MOK_CERTIFICATE_def)

lemma shows_identity:
  "fault_free w \<Longrightarrow> snapshot_identity witness_operation_libs witness_engine p w = (Inr (''u1'', Some ''u2''), tick w)"
  by (simp add: snapshot_identity_def op_run_btrfs_def witness_engine_def system_command_runner_def btrfs_show_def io_exec
      command_ok_def witness_operation_libs_def shown [simplified])

lemma shows_read_only: "fault_free w \<Longrightarrow> verify_read_only witness_engine p w = (Inr (), tick w)"
  by (simp add: verify_read_only_def op_run_btrfs_def witness_engine_def system_command_runner_def btrfs_property_def io_exec
      command_ok_def shown)

lemma verified_no_mok:
  "fault_free w \<Longrightarrow> map_of (nodes w) p = None \<Longrightarrow> hash_optional_regular_file sha p w = (Inr None, tick w)"
  by (simp add: hash_optional_regular_file_def io_exec enoent_def)

lemma verification_runs:
  "\<exists>w'. verify_deployment witness_operation_libs witness_engine supported_report 1 no_progress verified_world
     = (Inr example_deployment, w')"
proof -
  let ?s = "[''r'', ''deployments'', ''u1'', ''root'']"
  obtain w w1 where w: "ensure_store_directories witness_engine verified_world = (Inr (), w)"
      "op_acquire_lock witness_engine w = (Inr (), w1)" "fault_free w1"
      "\<forall>k. k \<notin> engine_paths [''r''] \<longrightarrow> map_of (nodes w1) k = map_of (nodes verified_world) k"
    using verified_locked by blast
  then have "map_of (nodes w1) [''r'', ''metadata'', ''u1.json''] = map_of (nodes verified_world) [''r'', ''metadata'', ''u1.json'']"
    by (simp add: engine_paths_def store_dirs_def operation_lock_def)
  from verified_loads [OF w(3) this] obtain w2
    where w2: "op_load_record witness_operation_libs witness_engine 1 w1 = (Inr example_deployment, w2)"
      "fault_free w2" "nodes w2 = nodes w1" by blast
  have same: "map_of (nodes w2) (?s @ q) = map_of (nodes verified_world) (?s @ q)" for q
    using w(4) w2(3) by (simp add: engine_paths_def store_dirs_def operation_lock_def)
  note files = verified_files [folded same]
  have fields: "dep_snapshot_uuid example_deployment = Some ''u1''" "dep_snapshot_parent_uuid example_deployment = Some ''u2''"
      "dep_kernel_release example_deployment = Some ''7.0.0-28''" "dep_initramfs_sha256 example_deployment = Some (example_sha ''i'')"
      "dep_boot_artifact_sha256 example_deployment = Some (example_sha ''b'')"
      "dep_dpkg_status_sha256 example_deployment = Some (example_sha ''c'')" "dep_mok_certificate_sha256 example_deployment = None"
    by (simp_all add: example_deployment_def example_sha_def)
  have libs: "ol_uuid witness_operation_libs = example_uuid_lib" "ol_sha256 witness_operation_libs = example_sha"
      "deployment_dir example_uuid_lib witness_engine 1 @ [''root''] = ?s"
    by (simp_all add: witness_operation_libs_def deployment_dir_def witness_engine_def example_uuid_lib_def)
  have hashes: "op_hash_regular_file example_sha (boot_file ?s ''initrd.img-'' ''7.0.0-28'') v = (Inr (example_sha ''i''), tick (tick (tick v)))"
      "op_hash_regular_file example_sha (boot_file ?s ''vmlinuz-'' ''7.0.0-28'') v = (Inr (example_sha ''b''), tick (tick (tick v)))"
      "op_hash_regular_file example_sha (?s @ [''var'', ''lib'', ''dpkg'', ''status'']) v = (Inr (example_sha ''c''), tick (tick (tick v)))"
      "hash_optional_regular_file example_sha (?s @ MOK_CERTIFICATE) v = (Inr None, tick v)"
    if "fault_free v" "nodes v = nodes w2" for v
    using files that by (auto simp: boot_file_def intro!: verified_hash verified_no_mok)
  show ?thesis
    unfolding verify_deployment_def Let_def notify_def libs
    using w(1,2) w2 example_deployment_restorable
    by (simp add: no_progress_def ensure_supported_layout_def supported_report_def check_def io_exec shows_identity shows_read_only
        fields hashes op_verify_digest_def del: append.simps)
qed

text \<open>The code's own runner on the simulated command.\<close>

lemma system_runner_frame: "touches S (run program a) \<Longrightarrow> touches S (system_command_runner run program a)"
  unfolding system_command_runner_def Let_def by (intro io_rules)

interpretation machine: operation_environment witness_operation_libs witness_engine no_progress
proof
  note laws = simulated_behaves [unfolded btrfs_behaves_def]
  note runner = system_runner_frame [where run = "\<lambda>_. simulated_snapshots"]
  show "touches (under q) (oe_runner witness_engine BTRFS (btrfs_snapshot_readonly p q))" for p q
    using map_of_fs_copy_other [of q _ p]
    by (fastforce simp: witness_engine_def btrfs_snapshot_readonly_def under_def intro!: runner touches_simulated_change)
  show "touches (under p) (oe_runner witness_engine BTRFS (btrfs_delete p))" for p
    using laws by (auto simp: witness_engine_def btrfs_delete_def intro!: runner)
  show "touches {} (oe_runner witness_engine BTRFS (btrfs_show p))" for p
    by (auto simp: witness_engine_def btrfs_show_def intro!: runner touches_syscall)
  show "touches {} (oe_runner witness_engine BTRFS (btrfs_property p))" for p
    by (auto simp: witness_engine_def btrfs_property_def intro!: runner touches_syscall)
  show "touches {} (oe_runner witness_engine BTRFS (btrfs_sync p))" for p
    using laws by (auto simp: witness_engine_def btrfs_sync_def intro!: runner)
  show "touches {} (ol_statvfs witness_operation_libs p)" "touches {} (ol_read_link witness_operation_libs p)" for p
    by (simp_all add: witness_operation_libs_def touches_throw)
  show "touches {} (no_progress phase fraction message)" for phase fraction message
    by (simp add: no_progress_def touches_return)
qed

lemma touches_verify_deployment:
  assumes "operation_environment L E progress"
  shows "touches (engine_paths (oe_snapshot_root E)) (verify_deployment L E layout i progress)"
proof -
  note laws = operation_environment.axioms(1) [OF assms]
  have quiet: "touches S (progress phase fraction message)" for S phase fraction message
    by (rule touches_none [OF operation_environment.progress_frame [OF assms]])
  have store: "store_dirs (oe_snapshot_root E) \<subseteq> engine_paths (oe_snapshot_root E)"
      "operation_lock (oe_snapshot_root E) \<in> engine_paths (oe_snapshot_root E)"
    by (auto simp: engine_paths_def)
  show ?thesis
    unfolding verify_deployment_def Let_def
    by (intro io_rules touches_notify quiet store operation_runner.snapshot_identity_quiet [OF laws]
        operation_runner.verify_read_only_quiet [OF laws])
qed

subsection \<open>Properties\<close>





text \<open>
  When verifying a snapshot succeeds, the record it returns is the stored one, it is restorable,
  and the kernel, the initramfs, the package database and the MOK certificate in the snapshot
  have the recorded digests, an absent certificate included. Verification changes nothing but
  the lock and the modes of the store's directories.
\<close>

theorem verified_snapshot_matches:
  assumes "operation_environment L E progress" and "verify_deployment L E layout i progress w = (Inr r, w')"
  shows "can_restore (ol_uuid L) r
    \<and> inode_records (ol_uuid L) (ol_dep L) (record_path (ol_uuid L) (oe_snapshot_root E) i)
        (map_of (nodes w') (record_path (ol_uuid L) (oe_snapshot_root E) i)) r
    \<and> digests_match (ol_sha256 L) (map_of (nodes w')) (deployment_dir (ol_uuid L) E i @ [''root'']) r
    \<and> (\<forall>k. k \<notin> engine_paths (oe_snapshot_root E) \<longrightarrow> map_of (nodes w') k = map_of (nodes w) k)"
  using io_tripleD_ok [OF operation_environment.verify_establishes [OF assms(1)] TrueI assms(2)]
    touchesD [OF touches_verify_deployment [OF assms(1)] assms(2)] by blast

theorem verified_snapshot_matches_witness:
  "\<exists>w'. verify_deployment witness_operation_libs witness_engine supported_report 1 no_progress verified_world
       = (Inr example_deployment, w')
     \<and> digests_match example_sha (map_of (nodes w')) [''r'', ''deployments'', ''u1'', ''root''] example_deployment"
proof -
  obtain w' where run: "verify_deployment witness_operation_libs witness_engine supported_report 1 no_progress verified_world
      = (Inr example_deployment, w')"
    using verification_runs by blast
  have "deployment_dir (ol_uuid witness_operation_libs) witness_engine 1 @ [''root''] = [''r'', ''deployments'', ''u1'', ''root'']"
      "ol_sha256 witness_operation_libs = example_sha"
    by (simp_all add: deployment_dir_def witness_operation_libs_def witness_engine_def example_uuid_lib_def)
  with verified_snapshot_matches [OF machine.operation_environment_axioms run] run show ?thesis by auto
qed


end
