(* ===== verification/Deletion_Safety.thy ===== *)
theory Deletion_Safety
  imports Operations_Safety
begin

text \<open>
  Safety of deleting snapshots. Up to the durable mark in the record nothing but locks and the
  modes of the store's directories changes, and the mark is written only when the record allows
  it, no pending transaction refers to the deployment, and automatic cleanup leaves enough
  restorable snapshots. Other deployments are never touched.
\<close>

subsection \<open>What discovery lists\<close>

lemma json_name_split:
  assumes "file_extension (d @ [n]) = Some ''json''" and "file_stem (d @ [n]) = Some s"
  shows "n = s @ ''.json''"
proof -
  let ?e = "takeWhile (\<lambda>c. c \<noteq> CHR ''.'') (rev n)" and ?r = "dropWhile (\<lambda>c. c \<noteq> CHR ''.'') (rev n)"
  have e: "?e = rev ''json''" and s: "name_before_dot n = s" "s \<noteq> []"
    using assms by (auto simp: file_extension_def file_stem_def split: if_splits)
  have "n = rev ?r @ rev ?e" by (metis rev_append rev_rev_ident takeWhile_dropWhile_id)
  moreover have "?r \<noteq> []" using s unfolding name_before_dot_def by (metis list.sel(2) rev.simps(1))
  then have "?r = CHR ''.'' # tl ?r" using hd_dropWhile [of "\<lambda>c. c \<noteq> CHR ''.''" "rev n"] by (cases ?r) auto
  moreover have "rev (tl ?r) = s" using s(1) by (simp add: name_before_dot_def)
  ultimately show ?thesis using e by (metis append.assoc append_Cons append_Nil rev.simps(2) rev_rev_ident)
qed

lemma filename_id_json:
  assumes "filename_id U (metadata_dir root @ [n]) = Inr i" and "file_extension (metadata_dir root @ [n]) = Some ''json''"
  shows "metadata_dir root @ [n] = record_path U root i"
  using assms json_name_split [OF assms(2)]
  by (auto simp: filename_id_def Let_def record_path_def split: option.splits if_splits)

text \<open>The records in a report are those of the files under their own names, each once.\<close>

definition report_stored :: "uuid_lib \<Rightarrow> dep_json \<Rightarrow> path \<Rightarrow> (path \<Rightarrow> inode option) \<Rightarrow> DiscoveryReport \<Rightarrow> bool" where
  "report_stored U J root M report \<longleftrightarrow>
     distinct (map dep_id (dr_deployments report))
     \<and> (\<forall>r \<in> set (dr_deployments report).
          inode_records U J (record_path U root (dep_id r)) (M (record_path U root (dep_id r))) r)"

lemma triple_read_discoverable:
  "io_triple (\<lambda>w. map_of (nodes w) = M) (read_discoverable_record U J root p)
    (\<lambda>r w. map_of (nodes w) = M \<and> inode_records U J p (M p) r) (\<lambda>_ w. map_of (nodes w) = M)"
proof -
  have "io_triple (\<lambda>w. map_of (nodes w) = M) (read_metadata_record U J p)
      (\<lambda>r w. inode_records U J p (M p) r) (\<lambda>_ _. True)"
    by (rule triple_weaken [OF triple_read_metadata_record [of p "M p"]]) auto
  from triple_conj [OF this triple_frozen [OF touches_read_metadata_record, of M]]
  have read: "io_triple (\<lambda>w. map_of (nodes w) = M) (read_metadata_record U J p)
      (\<lambda>r w. map_of (nodes w) = M \<and> inode_records U J p (M p) r) (\<lambda>_ w. map_of (nodes w) = M)"
    by (rule triple_weaken) auto
  have inspect: "io_triple (\<lambda>w. map_of (nodes w) = M) (symlink_metadata q) (\<lambda>_ w. map_of (nodes w) = M) (\<lambda>_ w. map_of (nodes w) = M)" for q
    by (rule triple_frozen) (rule io_rules)
  show ?thesis
    unfolding read_discoverable_record_def Let_def
    by (rule triple_bind [OF read], rule triple_pure)
      (auto intro!: triple_if triple_return triple_throw triple_match [OF inspect])
qed

lemma triple_discover_entries:
  assumes "distinct ns" and "report_stored U J root M report"
    and "\<And>r n. r \<in> set (dr_deployments report) \<Longrightarrow> n \<in> set ns \<Longrightarrow> record_path U root (dep_id r) \<noteq> metadata_dir root @ [n]"
  shows "io_triple (\<lambda>w. map_of (nodes w) = M) (discover_entries U J root ns report)
    (\<lambda>rep w. map_of (nodes w) = M \<and> report_stored U J root M rep) (\<lambda>_ _. True)"
  using assms
proof (induction ns arbitrary: report)
  case Nil
  then show ?case by (auto intro: triple_return)
next
  case (Cons n ns)
  have entry: "io_triple (\<lambda>w. map_of (nodes w) = M) (next_entry n) (\<lambda>x w. map_of (nodes w) = M \<and> x = n) (\<lambda>_ w. map_of (nodes w) = M)"
    by (auto simp: io_triple_def next_entry_def syscall_def tick_def split: option.splits)
  have skip: "io_triple (\<lambda>w. map_of (nodes w) = M) (discover_entries U J root ns (report\<lparr>dr_issues := x\<rparr>))
      (\<lambda>rep w. map_of (nodes w) = M \<and> report_stored U J root M rep) (\<lambda>_ _. True)" for x
    using Cons.prems by (intro Cons.IH) (auto simp: report_stored_def)
  have add: "io_triple (\<lambda>w. map_of (nodes w) = M) (discover_entries U J root ns (report\<lparr>dr_deployments := dr_deployments report @ [r]\<rparr>))
      (\<lambda>rep w. map_of (nodes w) = M \<and> report_stored U J root M rep) (\<lambda>_ _. True)"
    if rec: "inode_records U J (metadata_dir root @ [n]) (M (metadata_dir root @ [n])) r"
      and ext: "file_extension (metadata_dir root @ [n]) = Some ''json''" for r
  proof -
    have p: "metadata_dir root @ [n] = record_path U root (dep_id r)"
      using filename_id_json [OF _ ext] rec by (auto simp: inode_records_def)
    have "dep_id r \<notin> dep_id ` set (dr_deployments report)"
      using Cons.prems(3) [of _ n] p by (metis imageE list.set_intros(1))
    then have "report_stored U J root M (report\<lparr>dr_deployments := dr_deployments report @ [r]\<rparr>)"
      using Cons.prems(2) rec p by (auto simp: report_stored_def)
    then show ?thesis using Cons.prems p by (intro Cons.IH) (auto simp: record_path_def)
  qed
  have keep: "io_triple (\<lambda>w. map_of (nodes w) = M) (discover_entries U J root ns report)
      (\<lambda>rep w. map_of (nodes w) = M \<and> report_stored U J root M rep) (\<lambda>_ _. True)"
    using Cons.prems by (intro Cons.IH) auto
  show ?case
    unfolding discover_entries.simps Let_def
    by (rule triple_match [OF entry]) (auto intro!: triple_pure keep skip add triple_match [OF triple_read_discoverable])
qed

lemma triple_discover:
  "io_triple (\<lambda>w. map_of (nodes w) = M) (discover U J root)
    (\<lambda>rep w. map_of (nodes w) = M \<and> report_stored U J root M rep) (\<lambda>_ _. True)"
proof -
  have inspect: "io_triple (\<lambda>w. map_of (nodes w) = M) (symlink_metadata q) (\<lambda>_ w. map_of (nodes w) = M) (\<lambda>_ w. map_of (nodes w) = M)" for q
    by (rule triple_frozen) (rule io_rules)
  have entries: "io_triple (\<lambda>w. map_of (nodes w) = M) (read_dir q)
      (\<lambda>ns w. map_of (nodes w) = M \<and> distinct ns) (\<lambda>_ w. map_of (nodes w) = M)" for q
    by (auto simp: io_triple_def read_dir_def syscall_def tick_def fs_children_def split: option.splits)
  have sorted: "report_stored U J root M (rep\<lparr>dr_deployments := sort_deployments U (dr_deployments rep)\<rparr>)"
    if "report_stored U J root M rep" for rep
    using that by (auto simp: report_stored_def sort_deployments_def distinct_map)
  let ?Q = "\<lambda>rep w. map_of (nodes w) = M \<and> report_stored U J root M rep"
  have simple: "io_triple (\<lambda>w. map_of (nodes w) = M) (io_return rep) ?Q E" if "dr_deployments rep = []" for rep E
    using that by (intro triple_return) (simp add: report_stored_def)
  have listed: "io_triple (\<lambda>w. map_of (nodes w) = M \<and> distinct ns) (io_bind (discover_entries U J root ns rep)
      (\<lambda>rep. io_return (rep\<lparr>dr_deployments := sort_deployments U (dr_deployments rep)\<rparr>))) ?Q (\<lambda>_ _. True)"
    if "dr_deployments rep = []" for ns rep
    by (rule triple_pure, rule triple_bind [OF triple_discover_entries])
      (use that sorted in \<open>auto simp: report_stored_def intro: triple_return\<close>)
  show ?thesis
    unfolding discover_def Let_def
    by (rule triple_match [OF inspect]) (simp_all add: simple listed triple_match [OF entries])
qed

subsection \<open>Deletion\<close>

definition deletion_locks :: "uuid_lib \<Rightarrow> path \<Rightarrow> uuid \<Rightarrow> path set" where
  "deletion_locks U root i = engine_paths root
     \<union> {transactions_dir root @ [''start.lock''], root @ [''browse-locks''], browse_lock_path root (hyphenated U i)}"

definition package_decodes :: "pkg_json \<Rightarrow> inode option \<Rightarrow> PackageTransaction \<Rightarrow> bool" where
  "package_decodes J i t \<longleftrightarrow>
     PackageTransaction_validate t = Inr () \<and> slot_holds (\<lambda>b. pj_parse J b = Inr t) i"

text \<open>Neither pending transaction refers to the deployment.\<close>

definition unreferenced :: "operation_libs \<Rightarrow> path \<Rightarrow> (path \<Rightarrow> inode option) \<Rightarrow> uuid \<Rightarrow> bool \<Rightarrow> bool" where
  "unreferenced L root M i purge_history \<longleftrightarrow>
     (M (pending_path (transactions_dir root)) = None
      \<or> (\<exists>t. pending_decodes (ol_uuid L) (ol_tx L) (M (pending_path (transactions_dir root))) t
           \<and> tx_target_deployment_id t \<noteq> i \<and> (purge_history \<or> tx_fallback_deployment_id t \<noteq> i)))
     \<and> (M (package_pending_path (transactions_dir root)) = None
        \<or> (\<exists>t. package_decodes (ol_pkg L) (M (package_pending_path (transactions_dir root))) t
             \<and> pt_pre_deployment_id t \<noteq> Some i \<and> pt_post_deployment_id t \<noteq> Some i))"

text \<open>The restorable deployments that the metadata directory holds, each once.\<close>

definition restorable_records :: "operation_libs \<Rightarrow> path \<Rightarrow> (path \<Rightarrow> inode option) \<Rightarrow> DeploymentRecord list \<Rightarrow> bool" where
  "restorable_records L root M rs \<longleftrightarrow>
     distinct (map dep_id rs)
     \<and> (\<forall>r \<in> set rs. can_restore (ol_uuid L) r
          \<and> inode_records (ol_uuid L) (ol_dep L) (record_path (ol_uuid L) root (dep_id r))
              (M (record_path (ol_uuid L) root (dep_id r))) r)"

text \<open>What the guards of a deletion establish about the deployment's record.\<close>

definition deletion_allowed ::
  "operation_libs \<Rightarrow> path \<Rightarrow> (path \<Rightarrow> inode option) \<Rightarrow> uuid \<Rightarrow> nat option \<Rightarrow> bool \<Rightarrow> bool \<Rightarrow> DeploymentRecord \<Rightarrow> bool" where
  "deletion_allowed L root M i minimum allow_factory purge_history r \<longleftrightarrow>
     inode_records (ol_uuid L) (ol_dep L) (record_path (ol_uuid L) root i) (M (record_path (ol_uuid L) root i)) r
     \<and> unreferenced L root M i purge_history
     \<and> (allow_factory \<longrightarrow> dep_kind r = Factory) \<and> (purge_history \<longrightarrow> dep_kind r \<noteq> Factory)
     \<and> (dep_state r = Deleting \<or> purge_history \<or> can_delete r \<or> deliberately_deleting_factory allow_factory r)
     \<and> (\<forall>n. minimum = Some n \<longrightarrow> dep_state r \<noteq> Deleting \<longrightarrow>
          ordinary_kind (dep_kind r) \<and> \<not> dep_pinned r
          \<and> (can_restore (ol_uuid L) r \<longrightarrow> (\<exists>rs. n < length rs \<and> restorable_records L root M rs)))"

lemma triple_package_load_pending:
  "io_triple (\<lambda>w. map_of (nodes w) = M) (package_load_pending J d)
    (\<lambda>r w. map_of (nodes w) = M \<and> (case r of None \<Rightarrow> M (package_pending_path d) = None
       | Some t \<Rightarrow> package_decodes J (M (package_pending_path d)) t)) (\<lambda>_ w. map_of (nodes w) = M)"
proof -
  let ?p = "package_pending_path d" and ?P = "\<lambda>w. map_of (nodes w) = M"
  let ?E = "\<lambda>e w. ?P w \<and> pk_code e \<noteq> PkNotFound"
  have inspect: "io_triple ?P (io_map_err package_not_found (symlink_metadata ?p)) (\<lambda>m w. ?P w \<and> M ?p = Some m)
      (\<lambda>e w. ?P w \<and> (pk_code e = PkNotFound \<longrightarrow> M ?p = None))"
    by (rule triple_map_err)
      (auto simp: io_triple_def symlink_metadata_def syscall_def tick_def enoent_def package_not_found_def
        pkg_io_error_def PackageTransactionError_new_def split: option.splits)
  have opened: "io_triple ?P (io_map_err (pkg_io_error c) (open_read ?p)) (\<lambda>_. ?P) ?E" for c
    by (rule triple_map_err, rule triple_weaken [OF triple_frozen])
      (auto intro: io_rules simp: pkg_io_error_def PackageTransactionError_new_def)
  have content: "io_triple ?P (io_map_err (pkg_io_error c) (read_to_end ?p n))
      (\<lambda>b w. ?P w \<and> (\<forall>m c. M ?p = Some m \<longrightarrow> ftype m = Regular c \<longrightarrow> b = take n c)) ?E" for c n
    by (rule triple_map_err)
      (auto simp: io_triple_def read_to_end_def syscall_def tick_def pkg_io_error_def PackageTransactionError_new_def
        split: option.splits file_type.splits)
  have code: "pk_code e \<noteq> PkNotFound" if "PackageTransaction_validate t = Inl e" for t e
  proof -
    have "Inl e \<in> set [check (pt_schema_version t \<noteq> PACKAGE_TRANSACTION_SCHEMA_VERSION)
          (PackageTransactionError_new PkUnsupportedSchema
            (''Unsupported package transaction schema '' @ show_nat (unat (pt_schema_version t)))),
        check (pt_updated_at t < pt_created_at t) (pkg_invalid ''Package transaction timestamps are out of order''),
        validate_package_phase t,
        check (is_some_and (pt_failure t) bad_package_failure) (pkg_invalid ''Package transaction failure diagnostic is invalid'')]"
      using that unfolding PackageTransaction_validate_def by (rule first_error_in)
    then show ?thesis
      by (auto simp: validate_package_phase_def check_def pkg_invalid_def PackageTransactionError_new_def
          split: if_splits PackageTransactionPhase.splits)
  qed
  have checked: "io_triple ?P (io_bind (io_lift (PackageTransaction_validate t)) (\<lambda>_. io_return t))
      (\<lambda>t w. ?P w \<and> package_decodes J (M ?p) t) ?E" if "slot_holds (\<lambda>b. pj_parse J b = Inr t) (M ?p)" for t
    by (rule triple_lift, rule triple_return) (use that code in \<open>auto simp: package_decodes_def\<close>)
  have content_read: "io_triple ?P (io_bind (io_map_err (pkg_io_error a) (open_read ?p)) (\<lambda>_.
      io_bind (io_map_err (pkg_io_error b) (read_to_end ?p (PACKAGE_MAX_TRANSACTION_BYTES + 1))) (\<lambda>bytes.
      if PACKAGE_MAX_TRANSACTION_BYTES < length bytes then io_throw (PackageTransactionError_new PkTooLarge x)
      else case pj_parse J bytes of
        Inl e \<Rightarrow> io_throw (PackageTransactionError_new PkInvalidJson (y @ e))
      | Inr t \<Rightarrow> io_bind (io_lift (PackageTransaction_validate t)) (\<lambda>_. io_return t))))
      (\<lambda>t w. ?P w \<and> package_decodes J (M ?p) t) (\<lambda>e w. ?P w \<and> (pk_code e = PkNotFound \<longrightarrow> M ?p = None))"
    if m: "M ?p = Some m" "ftype m = Regular c" "\<not> PACKAGE_MAX_TRANSACTION_BYTES < length c" for m c a b x y
  proof -
    have "slot_holds (\<lambda>b. pj_parse J b = Inr t) (M ?p)"
      if "pj_parse J bytes = Inr t" "\<forall>m c. M ?p = Some m \<longrightarrow> ftype m = Regular c \<longrightarrow> bytes = take (PACKAGE_MAX_TRANSACTION_BYTES + 1) c"
      for bytes t
      using m that by (auto simp: slot_holds_def)
    then show ?thesis
      by (intro triple_bind [OF opened, THEN triple_weaken] triple_bind [OF content] triple_pure triple_if)
        (auto simp: PackageTransactionError_new_def split: sum.split intro!: triple_throw checked)
  qed
  have "io_triple ?P (read_transaction J ?p) (\<lambda>t w. ?P w \<and> package_decodes J (M ?p) t)
      (\<lambda>e w. ?P w \<and> (pk_code e = PkNotFound \<longrightarrow> M ?p = None))"
    unfolding read_transaction_def Let_def
    by (rule triple_bind [OF inspect], rule triple_pure, rule triple_case_option, rule triple_throw,
        simp add: PackageTransactionError_new_def, rule triple_if, rule triple_throw,
        simp add: PackageTransactionError_new_def, erule content_read)
      (simp_all add: regular_content_def split: file_type.splits)
  then show ?thesis
    unfolding package_load_pending_def by (rule triple_match) (auto intro!: triple_return triple_throw)
qed

lemma triple_unreferenced:
  "io_triple (\<lambda>w. map_of (nodes w) = M) (ensure_not_transaction_referenced L E i purge)
    (\<lambda>_ w. map_of (nodes w) = M \<and> unreferenced L (oe_snapshot_root E) M i purge) (\<lambda>_ w. map_of (nodes w) = M)"
  unfolding ensure_not_transaction_referenced_def Let_def
  by (rule triple_bind [OF triple_map_err [OF triple_load_pending]], rule triple_pure, rule triple_if, rule triple_throw, simp,
      rule triple_bind [OF triple_map_err [OF triple_package_load_pending]], rule triple_pure, rule triple_if, rule triple_throw, simp,
      rule triple_return)
    (auto simp: unreferenced_def split: option.splits)

lemma triple_floor:
  "io_triple (\<lambda>w. map_of (nodes w) = M) (check_restorable_floor L E r n)
    (\<lambda>_ w. map_of (nodes w) = M \<and> ordinary_kind (dep_kind r) \<and> \<not> dep_pinned r
       \<and> (can_restore (ol_uuid L) r \<longrightarrow> (\<exists>rs. n < length rs \<and> restorable_records L (oe_snapshot_root E) M rs)))
    (\<lambda>_ w. map_of (nodes w) = M)"
proof -
  have found: "io_triple (\<lambda>w. map_of (nodes w) = M) (op_discover L E)
      (\<lambda>rep w. map_of (nodes w) = M \<and> report_stored (ol_uuid L) (ol_dep L) (oe_snapshot_root E) M rep) (\<lambda>_ w. map_of (nodes w) = M)"
    unfolding op_discover_def
    by (rule triple_map_err, rule triple_weaken [OF triple_conj [OF triple_discover triple_frozen [OF touches_discover]]]) auto
  have "\<exists>rs. n < length rs \<and> restorable_records L (oe_snapshot_root E) M rs"
    if "report_stored (ol_uuid L) (ol_dep L) (oe_snapshot_root E) M rep"
      "n < length (filter (can_restore (ol_uuid L)) (dr_deployments rep))" for rep
    using that by (intro exI [of _ "filter (can_restore (ol_uuid L)) (dr_deployments rep)"])
      (auto simp: report_stored_def restorable_records_def distinct_map_filter)
  then show ?thesis
    unfolding check_restorable_floor_def
    by (intro triple_if triple_throw) (auto intro!: triple_bind [OF found] triple_pure triple_throw triple_return simp: not_le)
qed

lemma triple_allowed:
  assumes "inode_records (ol_uuid L) (ol_dep L) (record_path (ol_uuid L) (oe_snapshot_root E) i)
      (M (record_path (ol_uuid L) (oe_snapshot_root E) i)) r"
    and "unreferenced L (oe_snapshot_root E) M i purge"
    and "allow \<longrightarrow> dep_kind r = Factory" and "purge \<longrightarrow> dep_kind r \<noteq> Factory"
  shows "io_triple (\<lambda>w. map_of (nodes w) = M) (io_bind (mark_deleting L E minimum allow purge r) f)
    (\<lambda>_ w. map_of (nodes w) = M \<or> deletion_allowed L (oe_snapshot_root E) M i minimum allow purge r)
    (\<lambda>_ w. map_of (nodes w) = M \<or> deletion_allowed L (oe_snapshot_root E) M i minimum allow purge r)"
proof -
  let ?P = "\<lambda>w. map_of (nodes w) = M" and ?A = "deletion_allowed L (oe_snapshot_root E) M i minimum allow purge r"
  let ?C = "\<lambda>n. ordinary_kind (dep_kind r) \<and> \<not> dep_pinned r
       \<and> (can_restore (ol_uuid L) r \<longrightarrow> (\<exists>rs. n < length rs \<and> restorable_records L (oe_snapshot_root E) M rs))"
  have free: "io_triple Q m (\<lambda>_ _. ?A) (\<lambda>_ w. ?P w \<or> ?A)" if ?A for Q and m :: "(OperationError, 'y) io"
    using that by (simp add: io_triple_def split: prod.splits sum.splits)
  have floor: "io_triple ?P (case minimum of None \<Rightarrow> io_return () | Some n \<Rightarrow> check_restorable_floor L E r n)
      (\<lambda>_ w. ?P w \<and> (\<forall>n. minimum = Some n \<longrightarrow> ?C n)) (\<lambda>_ w. ?P w \<or> ?A)"
    by (rule triple_case_option, rule triple_return, simp, rule triple_weaken [OF triple_floor]) auto
  have "io_triple ?P (mark_deleting L E minimum allow purge r) (\<lambda>_ _. ?A) (\<lambda>_ w. ?P w \<or> ?A)"
    unfolding mark_deleting_def
    by (rule triple_if, rule triple_return, use assms in \<open>simp add: deletion_allowed_def\<close>,
        rule triple_bind [OF floor], rule triple_pure, rule triple_if, rule triple_throw, simp, rule triple_if, rule triple_throw, simp,
        rule free) (use assms in \<open>simp add: deletion_allowed_def, blast\<close>)
  then show ?thesis by (rule triple_bind) (auto simp: io_triple_def split: prod.splits sum.splits)
qed

lemma deletion_slots:
  "record_path U root j \<notin> deletion_locks U root i" "pending_path (transactions_dir root) \<notin> deletion_locks U root i"
  "package_pending_path (transactions_dir root) \<notin> deletion_locks U root i"
  by (auto simp: deletion_locks_def engine_paths_def store_dirs_def operation_lock_def record_path_def metadata_dir_def
      pending_path_def package_pending_path_def PENDING_PACKAGE_TRANSACTION_def transactions_dir_def browse_lock_path_def)

lemma restorable_agree:
  "(\<And>j. N (record_path (ol_uuid L) root j) = M (record_path (ol_uuid L) root j)) \<Longrightarrow>
     restorable_records L root N rs = restorable_records L root M rs"
  by (simp add: restorable_records_def)

lemma allowed_agree:
  assumes "\<forall>k. k \<notin> deletion_locks (ol_uuid L) root i \<longrightarrow> N k = M k"
  shows "deletion_allowed L root N i minimum allow purge r = deletion_allowed L root M i minimum allow purge r"
proof -
  have "N (record_path (ol_uuid L) root j) = M (record_path (ol_uuid L) root j)"
    "N (pending_path (transactions_dir root)) = M (pending_path (transactions_dir root))"
    "N (package_pending_path (transactions_dir root)) = M (package_pending_path (transactions_dir root))" for j
    using assms deletion_slots by blast+
  then show ?thesis by (simp add: deletion_allowed_def unreferenced_def restorable_records_def)
qed

lemma triple_delete:
  "io_triple (agrees_off (deletion_locks (ol_uuid L) (oe_snapshot_root E) i) M) (delete_with_restorable_floor L E layout i minimum allow purge)
    (\<lambda>_ w. agrees_off (deletion_locks (ol_uuid L) (oe_snapshot_root E) i) M w
       \<or> (\<exists>r. deletion_allowed L (oe_snapshot_root E) M i minimum allow purge r))
    (\<lambda>_ w. agrees_off (deletion_locks (ol_uuid L) (oe_snapshot_root E) i) M w
       \<or> (\<exists>r. deletion_allowed L (oe_snapshot_root E) M i minimum allow purge r))"
    (is "io_triple ?A _ (\<lambda>_. ?G) _")
proof -
  let ?S = "deletion_locks (ol_uuid L) (oe_snapshot_root E) i"
  let ?records = "\<lambda>N. inode_records (ol_uuid L) (ol_dep L) (record_path (ol_uuid L) (oe_snapshot_root E) i)
           (N (record_path (ol_uuid L) (oe_snapshot_root E) i))"
  have locks: "touches ?S (ensure_store_directories E)" "touches ?S (op_acquire_lock E)"
      "touches ?S (io_map_err f (acquire (oe_snapshot_root E)))"
      "touches ?S (io_map_err g (acquire_exclusive_deployment_lock_at (ol_uuid L) (oe_snapshot_root E) (hyphenated (ol_uuid L) i)))"
    for f g :: "io_error \<Rightarrow> OperationError"
    by (intro io_rules touches_acquire; auto simp: deletion_locks_def engine_paths_def)+
  have settled: "io_triple (\<lambda>w. map_of (nodes w) = N) m (\<lambda>_. ?G) (\<lambda>_. ?G)"
    if agree: "\<forall>k. k \<notin> ?S \<longrightarrow> N k = M k" and "io_triple (\<lambda>w. map_of (nodes w) = N) m
        (\<lambda>_ w. map_of (nodes w) = N \<or> deletion_allowed L (oe_snapshot_root E) N i minimum allow purge r)
        (\<lambda>_ w. map_of (nodes w) = N \<or> deletion_allowed L (oe_snapshot_root E) N i minimum allow purge r)" for N r m
    using that(2) by (rule triple_weaken) (use allowed_agree [OF agree] agree in \<open>auto simp: agrees_off_def\<close>)
  have still: "?G w" if "\<forall>k. k \<notin> ?S \<longrightarrow> N k = M k" "map_of (nodes w) = N" for N w
    using that by (simp add: agrees_off_def)
  have load: "io_triple (\<lambda>w. map_of (nodes w) = N) (op_load_record L E i)
      (\<lambda>r w. map_of (nodes w) = N \<and> ?records N r) (\<lambda>_. ?G)" if "\<forall>k. k \<notin> ?S \<longrightarrow> N k = M k" for N
    by (rule triple_weaken [OF triple_op_load_record]) (use still [OF that] in auto)
  have consent: "io_triple (\<lambda>w. map_of (nodes w) = N)
      (if purge then io_bind (io_map_err h (validate_consent U J D root)) (\<lambda>_.
         if dep_kind r = Factory then io_throw e else io_return ()) else io_return ())
      (\<lambda>_ w. map_of (nodes w) = N \<and> (purge \<longrightarrow> dep_kind r \<noteq> Factory)) (\<lambda>_. ?G)"
    if "\<forall>k. k \<notin> ?S \<longrightarrow> N k = M k" for N r h U J D root e
    by (intro triple_if triple_frozen_then triple_return triple_throw io_rules) (use still [OF that] in auto)
  have free: "io_triple (\<lambda>w. map_of (nodes w) = N) (ensure_not_transaction_referenced L E i purge)
      (\<lambda>_ w. map_of (nodes w) = N \<and> unreferenced L (oe_snapshot_root E) N i purge) (\<lambda>_. ?G)"
    if "\<forall>k. k \<notin> ?S \<longrightarrow> N k = M k" for N
    by (rule triple_weaken [OF triple_unreferenced]) (use still [OF that] in auto)
  have A: "?A w \<Longrightarrow> ?G w" for w by simp
  show ?thesis
    unfolding delete_with_restorable_floor_def Let_def
    by (rule triple_lift, rule triple_agrees_then [OF locks(1)], rule triple_agrees_then [OF locks(2)],
        rule triple_agrees_then [OF locks(3)], rule triple_agrees_then [OF locks(4)], rule triple_settle,
        rule triple_bind [OF load], assumption, rule triple_pure, rule triple_bind [OF consent], assumption, rule triple_pure,
        rule triple_bind [OF free], assumption, rule triple_pure, rule triple_if, rule triple_throw, rule still, assumption, assumption,
        rule settled, assumption, rule triple_allowed) (auto intro: A)
qed

context operation_runner
begin

lemma delete_frame_all:
  assumes "hyphenated (ol_uuid L) i \<noteq> []"
  shows "touches (creation_paths (ol_uuid L) (oe_snapshot_root E) i \<union> deletion_locks (ol_uuid L) (oe_snapshot_root E) i)
     (delete_with_restorable_floor L E layout i minimum allow purge)"
proof -
  let ?S = "creation_paths (ol_uuid L) (oe_snapshot_root E) i \<union> deletion_locks (ol_uuid L) (oe_snapshot_root E) i"
  let ?d = "deployment_dir (ol_uuid L) E i"
  have paths: "?d \<in> ?S" "under (?d @ [''root'']) \<subseteq> ?S" "record_path (ol_uuid L) (oe_snapshot_root E) i \<in> ?S"
    by (auto simp: creation_paths_def deployment_dir_def record_paths_def under_def prefix_def)
  have lineage: "touches ?S (ensure_initialized U J (lineage_dir (oe_snapshot_root E)) ds)"
      "touches ?S (mark_snapshot_removed U J (lineage_dir (oe_snapshot_root E)) i now)" for U J ds now
    unfolding ensure_initialized_def mark_snapshot_removed_def
    by (rule touches_mono [OF touches_mutate], auto simp: creation_paths_def)+
  have erase: "touches ?S (erase_deployment L E i)"
    unfolding erase_deployment_def Let_def
    by (intro io_rules delete_subvolume_frame remove_deployment_dir_frame lineage sync_quiet paths)
  have mark: "touches ?S (mark_deleting L E minimum allow purge r)"
    if "hyphenated (ol_uuid L) (dep_id r) = hyphenated (ol_uuid L) i" for r
  proof -
    have "record_paths (ol_uuid L) (oe_snapshot_root E) (dep_id (r\<lparr>dep_state := Deleting\<rparr>)) \<subseteq> ?S"
      using that by (auto simp: creation_paths_def record_paths_def record_path_def record_temporary_def)
    from touches_mono [OF touches_op_write_record_atomic this] show ?thesis
      unfolding mark_deleting_def by (intro io_rules)
  qed
  have loaded: "io_triple (\<lambda>_. True) (op_load_record L E i)
      (\<lambda>r _. hyphenated (ol_uuid L) (dep_id r) = hyphenated (ol_uuid L) i) (\<lambda>_ _. True)"
  proof (rule triple_from_any [where f = "\<lambda>w. map_of (nodes w)"], rule triple_weaken [OF triple_op_load_record])
    fix M r and w :: world
    assume "map_of (nodes w) = M \<and> inode_records (ol_uuid L) (ol_dep L) (record_path (ol_uuid L) (oe_snapshot_root E) i)
        (M (record_path (ol_uuid L) (oe_snapshot_root E) i)) r"
    then show "hyphenated (ol_uuid L) (dep_id r) = hyphenated (ol_uuid L) i"
      using file_stem_json [OF assms]
      by (auto simp: inode_records_def filename_id_def record_path_def Let_def split: option.splits if_splits)
  qed simp_all
  have locks: "touches ?S (ensure_store_directories E)" "touches ?S (op_acquire_lock E)"
      "touches ?S (io_map_err f (acquire (oe_snapshot_root E)))"
      "touches ?S (io_map_err g (acquire_exclusive_deployment_lock_at (ol_uuid L) (oe_snapshot_root E) (hyphenated (ol_uuid L) i)))"
    for f g :: "io_error \<Rightarrow> OperationError"
    by (intro io_rules touches_acquire; auto simp: deletion_locks_def engine_paths_def)+
  show ?thesis
    unfolding delete_with_restorable_floor_def Let_def
    by (rule touches_bind, rule io_rules, rule touches_bind, rule locks, rule touches_bind, rule locks, rule touches_bind, rule locks,
        rule touches_bind, rule locks, rule touches_bind_yields [OF touches_op_queries(3) loaded])
      (intro io_rules mark erase)
qed

end

lemma deletion_facts:
  fixes layout minimum allow purge w
  assumes "operation_runner L E" and "hyphenated (ol_uuid L) i \<noteq> []"
  defines "run \<equiv> delete_with_restorable_floor L E layout i minimum allow purge"
  shows "(\<forall>k. k \<notin> creation_paths (ol_uuid L) (oe_snapshot_root E) i \<union> deletion_locks (ol_uuid L) (oe_snapshot_root E) i \<longrightarrow>
      map_of (nodes (snd (run w))) k = map_of (nodes w) k)
    \<and> ((\<forall>k. k \<notin> deletion_locks (ol_uuid L) (oe_snapshot_root E) i \<longrightarrow> map_of (nodes (snd (run w))) k = map_of (nodes w) k)
       \<or> (\<exists>r. deletion_allowed L (oe_snapshot_root E) (map_of (nodes w)) i minimum allow purge r))"
proof -
  have triple: "io_triple (agrees_off (deletion_locks (ol_uuid L) (oe_snapshot_root E) i) (map_of (nodes w))) run
      (\<lambda>_ w'. agrees_off (deletion_locks (ol_uuid L) (oe_snapshot_root E) i) (map_of (nodes w)) w'
        \<or> (\<exists>r. deletion_allowed L (oe_snapshot_root E) (map_of (nodes w)) i minimum allow purge r))
      (\<lambda>_ w'. agrees_off (deletion_locks (ol_uuid L) (oe_snapshot_root E) i) (map_of (nodes w)) w'
        \<or> (\<exists>r. deletion_allowed L (oe_snapshot_root E) (map_of (nodes w)) i minimum allow purge r))"
    unfolding run_def by (rule triple_delete)
  have same: "agrees_off (deletion_locks (ol_uuid L) (oe_snapshot_root E) i) (map_of (nodes w)) w" by (simp add: agrees_off_def)
  have "agrees_off (deletion_locks (ol_uuid L) (oe_snapshot_root E) i) (map_of (nodes w)) (snd (run w))
      \<or> (\<exists>r. deletion_allowed L (oe_snapshot_root E) (map_of (nodes w)) i minimum allow purge r)"
    using io_tripleD_ok [OF triple same] io_tripleD_err [OF triple same] by (cases "run w"; cases "fst (run w)") auto
  moreover have "map_of (nodes (snd (run w))) k = map_of (nodes w) k"
    if "k \<notin> creation_paths (ol_uuid L) (oe_snapshot_root E) i \<union> deletion_locks (ol_uuid L) (oe_snapshot_root E) i" for k
    using operation_runner.delete_frame_all [OF assms(1,2), of layout minimum allow purge] that
    by (auto simp: touches_def run_def)
  ultimately show ?thesis by (auto simp: agrees_off_def)
qed

lemma others_left: "distinct (map f xs) \<Longrightarrow> length xs \<le> Suc (length (filter (\<lambda>x. f x \<noteq> a) xs))"
proof (induction xs)
  case (Cons x xs)
  show ?case
  proof (cases "f x = a")
    case True
    with Cons.prems have "filter (\<lambda>y. f y \<noteq> a) xs = xs" by (auto simp: filter_id_conv) (metis imageI)
    with True show ?thesis by simp
  qed (use Cons in simp)
qed simp

subsection \<open>Properties\<close>



text \<open>
  C14. Automatic cleanup keeps its floor: when it is asked to leave \<open>n\<close> restorable snapshots and the
  one it deletes is restorable, then either it changed nothing but locks and the modes of the
  store's directories, or \<open>n\<close> other restorable snapshots are still recorded afterwards.
\<close>

theorem automatic_cleanup_keeps_floor:
  assumes "operation_runner L E" and "hyphenated (ol_uuid L) i \<noteq> []"
    and "inode_records (ol_uuid L) (ol_dep L) (record_path (ol_uuid L) (oe_snapshot_root E) i)
      (map_of (nodes w) (record_path (ol_uuid L) (oe_snapshot_root E) i)) r" and "can_restore (ol_uuid L) r"
    and "w' = snd (delete_automatic L E layout i n w)"
  shows "(\<forall>k. k \<notin> deletion_locks (ol_uuid L) (oe_snapshot_root E) i \<longrightarrow> map_of (nodes w') k = map_of (nodes w) k)
    \<or> (\<exists>rs. length rs = n \<and> restorable_records L (oe_snapshot_root E) (map_of (nodes w')) rs
         \<and> (\<forall>q \<in> set rs. dep_id q \<noteq> dep_id r))"
proof -
  let ?root = "oe_snapshot_root E" and ?M = "map_of (nodes w)"
  let ?p = "record_path (ol_uuid L) ?root"
  note facts = deletion_facts [OF assms(1,2), of layout "Some n" False False w, folded delete_automatic_def, folded assms(5)]
  have "\<exists>rs. length rs = n \<and> restorable_records L ?root (map_of (nodes w')) rs \<and> (\<forall>q \<in> set rs. dep_id q \<noteq> dep_id r)"
    if allowed: "deletion_allowed L ?root ?M i (Some n) False False q" for q
  proof -
    from allowed assms(3) have "q = r"
      by (auto simp: deletion_allowed_def inode_records_def slot_holds_def)
    with allowed assms(4) obtain rs where rs: "n < length rs" "restorable_records L ?root ?M rs"
      by (auto simp: deletion_allowed_def can_restore_def)
    let ?rest = "filter (\<lambda>q. dep_id q \<noteq> dep_id r) rs"
    have "length rs \<le> Suc (length ?rest)" using rs(2) others_left by (auto simp: restorable_records_def)
    then have enough: "length (take n ?rest) = n" using rs(1) by simp
    have kept: "map_of (nodes w') (?p (dep_id q)) = ?M (?p (dep_id q))" if "q \<in> set ?rest" for q
    proof -
      have id: "filename_id (ol_uuid L) (?p (dep_id q)) = Inr (dep_id q)" "filename_id (ol_uuid L) (?p i) = Inr (dep_id r)"
        using rs(2) that assms(3) by (auto simp: restorable_records_def inode_records_def)
      then have "?p (dep_id q) \<noteq> ?p i" using that by auto
      from record_path_outside [OF this] store_parts_apart(1)
      have "?p (dep_id q) \<notin> creation_paths (ol_uuid L) ?root i \<union> deletion_locks (ol_uuid L) ?root i"
        using deletion_slots(1) by (auto simp: creation_paths_def record_path_def metadata_dir_def under_def prefix_def)
      with facts show ?thesis by blast
    qed
    have "restorable_records L ?root (map_of (nodes w')) (take n ?rest)"
      using rs(2) kept by (auto simp: restorable_records_def distinct_map_filter take_map [symmetric] dest!: in_set_takeD)
    with enough show ?thesis by (intro exI [of _ "take n ?rest"]) (auto dest: in_set_takeD)
  qed
  with facts show ?thesis by blast
qed

theorem automatic_cleanup_keeps_floor_witness:
  "(\<forall>k. k \<notin> deletion_locks example_uuid_lib [''r''] 1 \<longrightarrow>
      map_of (nodes (snd (delete_automatic witness_operation_libs witness_engine supported_report 1 2 verified_world))) k
        = map_of (nodes verified_world) k)
    \<or> (\<exists>rs. length rs = 2 \<and> restorable_records witness_operation_libs [''r'']
          (map_of (nodes (snd (delete_automatic witness_operation_libs witness_engine supported_report 1 2 verified_world)))) rs
         \<and> (\<forall>q \<in> set rs. dep_id q \<noteq> 1))"
proof -
  let ?L = witness_operation_libs
  have root: "oe_snapshot_root witness_engine = [''r'']" and uuid: "ol_uuid ?L = example_uuid_lib" and i: "dep_id example_deployment = 1"
    by (simp_all add: witness_engine_def witness_operation_libs_def example_deployment_def)
  have "utf8_valid (hyphenated example_uuid_lib 1)" by code_simp
  then have "inode_records (ol_uuid ?L) (ol_dep ?L) (record_path (ol_uuid ?L) [''r''] 1)
      (map_of (nodes verified_world) (record_path (ol_uuid ?L) [''r''] 1)) example_deployment"
    using example_deployment_valid file_stem_json [of "''u1''" "[''r'', ''metadata'']"]
    by (auto simp: inode_records_def slot_holds_def witness_operation_libs_def verified_world_def record_path_def metadata_dir_def
        example_uuid_lib_def example_dep_json_def filename_id_def Let_def i STORE_MAX_METADATA_BYTES_def newline_def)
  moreover have "hyphenated (ol_uuid ?L) 1 \<noteq> []" "can_restore (ol_uuid ?L) example_deployment"
    using example_deployment_restorable by (simp_all add: uuid example_uuid_lib_def)
  ultimately show ?thesis
    using automatic_cleanup_keeps_floor [OF machine.operation_runner_axioms, of 1 verified_world example_deployment _ supported_report 2]
    unfolding root uuid i by blast
qed


end
