(* ===== verification/Personal_Operations.thy ===== *)
theory Personal_Operations
  imports Operations Personal
begin

text \<open>
  The engine of \<open>personal.rs\<close>: it creates, discovers, verifies, renames, pins, imports and
  deletes read-only snapshots of Home. One record per snapshot in \<open>personal/metadata\<close>, the
  snapshot itself under \<open>personal/snapshots\<close>. The browser of a snapshot works on file
  descriptors; only the check of its relative paths is modelled.
\<close>

subsection \<open>The engine\<close>

definition MAX_RELATIVE_PATH_BYTES :: nat where "MAX_RELATIVE_PATH_BYTES = 4096"

record PersonalSnapshotEngine =
  pse_home_root :: path
  pse_store_root :: path
  pse_runner :: command_runner
  pse_minimum_free_bytes :: u64

record PersonalDiscoveryIssue =
  pdi_entry :: string
  pdi_message :: string

record PersonalDiscovery =
  pd_schema_version :: u32
  pd_snapshots :: "PersonalSnapshotRecord list"
  pd_issues :: "PersonalDiscoveryIssue list"

datatype ScheduledPersonalSnapshotOutcome = PersonalScheduledCreated PersonalSnapshotRecord | PersonalNotDue
datatype FactoryHomeSnapshotOutcome =
  HomeFactoryCreated PersonalSnapshotRecord | HomeFactoryExisting PersonalSnapshotRecord

text \<open>Library code: the \<open>uuid\<close> crate, JSON and \<open>statvfs\<close>.\<close>

record personal_libs =
  pl_uuid :: uuid_lib
  pl_tx :: tx_json
  pl_dep :: dep_json
  pl_parse :: "bytes \<Rightarrow> string + PersonalSnapshotRecord"
  pl_print :: "PersonalSnapshotRecord \<Rightarrow> string + bytes"
  pl_statvfs :: "path \<Rightarrow> (io_error, statvfs) io"

definition personal_root :: "path \<Rightarrow> path" where
  "personal_root store = store @ [''personal'']"

definition personal_metadata_root :: "path \<Rightarrow> path" where
  "personal_metadata_root store = store @ [''personal'', ''metadata'']"

definition personal_snapshots_root :: "path \<Rightarrow> path" where
  "personal_snapshots_root store = store @ [''personal'', ''snapshots'']"

definition snapshot_container :: "uuid_lib \<Rightarrow> path \<Rightarrow> uuid \<Rightarrow> path" where
  "snapshot_container U store i = store @ [''personal'', ''snapshots'', hyphenated U i]"

definition import_staging_root :: "path \<Rightarrow> path" where
  "import_staging_root store = store @ [''personal'', ''import-staging'']"

definition personal_lock_path :: "path \<Rightarrow> path" where
  "personal_lock_path store = store @ [''personal'', ''operation.lock'']"

definition personal_browse_lock_path :: "uuid_lib \<Rightarrow> path \<Rightarrow> uuid \<Rightarrow> path" where
  "personal_browse_lock_path U store i = store @ [''personal'', ''browse-locks'', hyphenated U i @ ''.lock'']"

subsection \<open>Checks and files\<close>

definition ensure_supported :: "LayoutReport \<Rightarrow> PersonalError + unit" where
  "ensure_supported layout =
     check (\<not> LayoutReport_is_supported layout)
       (PersonalError_new PeUnsupportedLayout ''The complete AnduinOS Btrfs layout is required'')"

text \<open>The process runs as root, so \<open>geteuid\<close> is zero.\<close>

definition personal_ensure_directory :: "path \<Rightarrow> u32 \<Rightarrow> (PersonalError, unit) io" where
  "personal_ensure_directory p m =
     (let secure = io_map_err (personal_io ''Could not secure personal storage'') (set_permissions p m) in
      io_match (symlink_metadata p) (\<lambda>r.
        case r of
          Inr metadata \<Rightarrow>
            (if ftype metadata = Directory
             then if uid metadata \<noteq> 0
               then io_throw (PersonalError_new PeUnsafePath (display_path p @ '' is not owned by the recovery helper''))
               else secure
             else io_throw (PersonalError_new PeUnsafePath (display_path p @ '' is not a real directory'')))
        | Inl e \<Rightarrow>
            (if err_kind e = NotFound
             then
               io_bind (io_map_err (personal_io ''Could not create personal storage'') (create_dir p 0x1ED)) (\<lambda>_. secure)
             else io_throw (personal_io ''Could not inspect personal storage'' e))))"

definition personal_ensure_new_directory :: "path \<Rightarrow> (PersonalError, unit) io" where
  "personal_ensure_new_directory p =
     io_bind (io_map_err (personal_io ''Could not create snapshot container'') (create_dir p 0x1ED)) (\<lambda>_.
     io_map_err (personal_io ''Could not secure snapshot container'') (set_permissions p 0x1C0))"

definition personal_ensure_real_directory :: "path \<Rightarrow> (PersonalError, unit) io" where
  "personal_ensure_real_directory p =
     io_bind (io_map_err (personal_io ''Could not inspect personal snapshot'') (symlink_metadata p)) (\<lambda>metadata.
     if ftype metadata = Directory then io_return ()
     else io_throw (PersonalError_new PeUnsafePath ''Personal snapshot is not a real directory''))"

definition reject_non_regular_target :: "path \<Rightarrow> (PersonalError, unit) io" where
  "reject_non_regular_target p =
     io_match (symlink_metadata p) (\<lambda>r.
       case r of
         Inr metadata \<Rightarrow>
           (if regular_content metadata \<noteq> None then io_return ()
            else io_throw (PersonalError_new PeUnsafePath ''Personal metadata target is not a regular file''))
       | Inl e \<Rightarrow>
           (if err_kind e = NotFound then io_return ()
            else io_throw (personal_io ''Could not inspect personal metadata target'' e)))"

definition personal_sync_directory :: "path \<Rightarrow> (PersonalError, unit) io" where
  "personal_sync_directory p = io_map_err (personal_io ''Could not sync personal metadata'') (sync_directory p)"

definition StoreLock_acquire :: "path \<Rightarrow> (PersonalError, unit) io" where
  "StoreLock_acquire p =
     io_bind (io_map_err (personal_io ''Could not open personal snapshot lock'') (open_create p 0x180)) (\<lambda>_.
     io_map_err (personal_io ''Could not lock personal snapshot'') (flock_exclusive p))"

definition StoreLock_acquire_nonblocking :: "path \<Rightarrow> (PersonalError, unit) io" where
  "StoreLock_acquire_nonblocking p =
     io_bind (io_map_err (personal_io ''Could not open personal snapshot lock'') (open_create p 0x180)) (\<lambda>_.
     io_map_err (\<lambda>e. if err_kind e = WouldBlock
         then PersonalError_new PeBusy ''Personal snapshot is being browsed''
         else personal_io ''Could not lock personal snapshot'' e) (flock_nonblocking p))"

text \<open>A normal relative path: no root, no leading dot, no parent; \<open>component_count\<close> counts all of them.\<close>

definition validate_relative_path :: "string \<Rightarrow> bool \<Rightarrow> PersonalError + unit" where
  "validate_relative_path value allow_empty =
     (if MAX_RELATIVE_PATH_BYTES < length value \<or> list_ex char_is_control (chars value)
      then Inl (PersonalError_invalid ''Invalid personal relative path'')
      else if value = []
      then (if allow_empty then Inr () else Inl (PersonalError_invalid ''Personal file path is empty''))
      else check (component_count value \<noteq> length (path_components value) \<or> ''..'' \<in> set (path_components value))
             (PersonalError_invalid ''Personal path must contain only normal relative components''))"

definition validate_single_component :: "string \<Rightarrow> PersonalError + unit" where
  "validate_single_component value =
     (case validate_relative_path value False of
        Inl e \<Rightarrow> Inl e
      | Inr _ \<Rightarrow>
          check (component_count value \<noteq> 1) (PersonalError_invalid ''User directory must be one component''))"

definition ensure_space :: "personal_libs \<Rightarrow> PersonalSnapshotEngine \<Rightarrow> (PersonalError, unit) io" where
  "ensure_space L E =
     (if pse_minimum_free_bytes E = 0 then io_return ()
      else if pse_store_root E = [] then io_throw (PersonalError_new PeUnsafePath ''invalid store'')
      else
        io_bind (io_map_err (\<lambda>e. PersonalError_new PeIo
            (''Could not inspect personal snapshot storage: '' @ err_text e))
            (probe_filesystem_space (pl_statvfs L) (butlast (pse_store_root E)))) (\<lambda>space.
        if available_bytes space < pse_minimum_free_bytes E
        then io_throw (PersonalError_new PeInsufficientSpace
               (''Personal snapshot requires '' @ show_nat (unat (pse_minimum_free_bytes E))
                @ '' free bytes; only '' @ show_nat (unat (available_bytes space)) @ '' are available''))
        else io_return ()))"

definition ensure_directories :: "PersonalSnapshotEngine \<Rightarrow> (PersonalError, unit) io" where
  "ensure_directories E =
     (let store = pse_store_root E in
      io_bind (personal_ensure_directory store 0x1C0) (\<lambda>_.
      io_bind (personal_ensure_directory (personal_root store) 0x1C0) (\<lambda>_.
      io_bind (personal_ensure_directory (personal_metadata_root store) 0x1C0) (\<lambda>_.
      io_bind (personal_ensure_directory (personal_snapshots_root store) 0x1C0) (\<lambda>_.
      personal_ensure_directory (personal_root store @ [''browse-locks'']) 0x1C0)))))"

subsection \<open>Records\<close>

definition personal_temporary :: "uuid_lib \<Rightarrow> path \<Rightarrow> uuid \<Rightarrow> uuid \<Rightarrow> path" where
  "personal_temporary U store i u =
     store @ [''personal'', ''metadata'', CHR ''.'' # hyphenated U i @ ''.'' @ hyphenated U u @ ''.tmp'']"

definition personal_serialize ::
  "personal_libs \<Rightarrow> PersonalSnapshotRecord \<Rightarrow> PersonalError + bytes" where
  "personal_serialize L r =
     (case PersonalSnapshotRecord_validate (pl_uuid L) r of
        Inl e \<Rightarrow> Inl e
      | Inr _ \<Rightarrow>
          (case pl_print L r of
             Inl e \<Rightarrow> Inl (PersonalError_invalid (''Could not serialize record: '' @ e))
           | Inr b \<Rightarrow>
               (if PERSONAL_MAX_METADATA_BYTES < length b
                then Inl (PersonalError_invalid ''Personal snapshot metadata is too large'') else Inr b)))"

definition personal_write_record ::
  "personal_libs \<Rightarrow> PersonalSnapshotEngine \<Rightarrow> PersonalSnapshotRecord \<Rightarrow> (PersonalError, unit) io" where
  "personal_write_record L E r =
     (let U = pl_uuid L; store = pse_store_root E; target = personal_metadata_path U store (ps_id r) in
      io_bind (io_lift (personal_serialize L r)) (\<lambda>serialized.
      io_bind (reject_non_regular_target target) (\<lambda>_.
      io_bind new_v4 (\<lambda>u.
      let temporary = personal_temporary U store (ps_id r) u in
      io_bind (io_map_err (personal_io ''Could not create personal metadata'') (create_new temporary 0x180)) (\<lambda>_.
      io_match (replace_file (personal_metadata_root store) temporary target serialized) (\<lambda>result.
        case result of
          Inr _ \<Rightarrow> io_return ()
        | Inl e \<Rightarrow> io_match (remove_file temporary) (\<lambda>_.
            io_throw (personal_io ''Could not commit personal metadata'' e))))))))"

definition engine_load ::
  "personal_libs \<Rightarrow> PersonalSnapshotEngine \<Rightarrow> uuid \<Rightarrow> (PersonalError, PersonalSnapshotRecord) io" where
  "engine_load L E i = personal_load (pl_uuid L) (pl_parse L) (pse_store_root E) i"

definition discovery_issue :: "string \<Rightarrow> string \<Rightarrow> PersonalDiscovery \<Rightarrow> PersonalDiscovery" where
  "discovery_issue entry message report =
     report\<lparr>pd_issues := pd_issues report @ [\<lparr>pdi_entry = from_utf8_lossy entry, pdi_message = message\<rparr>]\<rparr>"

text \<open>The loop over \<open>entries.flatten()\<close>: an entry that cannot be read is skipped.\<close>

fun personal_discover_entries ::
  "personal_libs \<Rightarrow> path \<Rightarrow> string list \<Rightarrow> PersonalDiscovery \<Rightarrow> ('e, PersonalDiscovery) io" where
  "personal_discover_entries L store [] report = io_return report"
| "personal_discover_entries L store (name # names) report =
     (let continue = personal_discover_entries L store names; p = personal_metadata_root store @ [name] in
      io_match (next_entry name) (\<lambda>r.
      case r of
        Inl _ \<Rightarrow> continue report
      | Inr _ \<Rightarrow>
          if file_extension p \<noteq> Some ''json'' then continue report
          else
            io_match (personal_read_record_path (pl_uuid L) (pl_parse L) p) (\<lambda>read.
            case read of
              Inl e \<Rightarrow> continue (discovery_issue name (pe_message e) report)
            | Inr r \<Rightarrow>
                io_match (symlink_metadata (personal_snapshot_path (pl_uuid L) store (ps_id r))) (\<lambda>there.
                case there of
                  Inr metadata \<Rightarrow>
                    (if ftype metadata = Directory
                     then continue (report\<lparr>pd_snapshots := pd_snapshots report @ [r]\<rparr>)
                     else continue (discovery_issue name ''Personal snapshot is not a real directory'' report))
                | Inl e \<Rightarrow>
                    (if ps_state r = PersonalDeleting \<and> err_kind e = NotFound
                     then continue (report\<lparr>pd_snapshots := pd_snapshots report @ [r]\<rparr>)
                     else continue (discovery_issue name (''Personal snapshot is unavailable: '' @ err_text e) report))))))"

definition personal_discover ::
  "personal_libs \<Rightarrow> PersonalSnapshotEngine \<Rightarrow> ('e, PersonalDiscovery) io" where
  "personal_discover L E =
     (let report = \<lparr>pd_schema_version = PERSONAL_SNAPSHOT_SCHEMA_VERSION, pd_snapshots = [], pd_issues = []\<rparr> in
      io_match (read_dir (personal_metadata_root (pse_store_root E))) (\<lambda>r.
      case r of
        Inl e \<Rightarrow>
          (if err_kind e = NotFound then io_return report
           else io_return (discovery_issue ''metadata'' (''Could not read personal snapshot metadata: '' @ err_text e) report))
      | Inr names \<Rightarrow>
          io_bind (personal_discover_entries L (pse_store_root E) names report) (\<lambda>report.
          io_return (report\<lparr>pd_snapshots :=
            sort_key (\<lambda>r. (- ps_created_at r, hyphenated (pl_uuid L) (ps_id r))) (pd_snapshots report)\<rparr>))))"

subsection \<open>Snapshots\<close>

definition personal_run_btrfs ::
  "PersonalSnapshotEngine \<Rightarrow> argument list \<Rightarrow> (PersonalError, bytes) io" where
  "personal_run_btrfs E arguments =
     io_map_err (\<lambda>e. PersonalError_new PeCommandFailed (oe_message e)) (pse_runner E BTRFS arguments)"

definition personal_identity_line ::
  "string option \<times> string option \<Rightarrow> string \<Rightarrow> string option \<times> string option" where
  "personal_identity_line found line =
     (case strip_prefix ''UUID:'' (str_trim line) of
        Some value \<Rightarrow> (Some (str_trim value), snd found)
      | None \<Rightarrow>
          (case strip_prefix ''Parent UUID:'' (str_trim line) of
             Some value \<Rightarrow> if str_trim value \<noteq> ''-'' then (fst found, Some (str_trim value)) else found
           | None \<Rightarrow> found))"

definition personal_parse_identity ::
  "uuid_lib \<Rightarrow> string \<Rightarrow> PersonalError + string \<times> string option" where
  "personal_parse_identity U text =
     (case foldl personal_identity_line (None, None) (lines text) of
        (None, _) \<Rightarrow> Inl (PersonalError_invalid ''Btrfs reported no UUID'')
      | (Some u, parent) \<Rightarrow>
          (if parse_str U u = None \<or> is_some_and parent (\<lambda>v. parse_str U v = None)
           then Inl (PersonalError_invalid ''Btrfs reported an invalid UUID'') else Inr (u, parent)))"

definition btrfs_show_plain :: "path \<Rightarrow> argument list" where
  "btrfs_show_plain p = [Arg ''subvolume'', Arg ''show'', PathArg p]"

definition personal_snapshot_identity ::
  "personal_libs \<Rightarrow> PersonalSnapshotEngine \<Rightarrow> path \<Rightarrow> (PersonalError, string \<times> string option) io" where
  "personal_snapshot_identity L E p =
     io_bind (personal_run_btrfs E (btrfs_show_plain p)) (\<lambda>text.
     if \<not> utf8_valid text then io_throw (PersonalError_invalid ''Btrfs returned a non-UTF-8 identity'')
     else io_lift (personal_parse_identity (pl_uuid L) text))"

definition personal_verify_read_only ::
  "PersonalSnapshotEngine \<Rightarrow> path \<Rightarrow> string \<Rightarrow> (PersonalError, unit) io" where
  "personal_verify_read_only E p message =
     io_bind (personal_run_btrfs E (btrfs_property p)) (\<lambda>value.
     if str_trim (from_utf8_lossy value) \<noteq> ''ro=true'' then io_throw (PersonalError_new PeUnsafePath message)
     else io_return ())"

definition check_restore_capacity ::
  "personal_libs \<Rightarrow> PersonalSnapshotEngine \<Rightarrow> LayoutReport \<Rightarrow> (PersonalError, unit) io" where
  "check_restore_capacity L E layout =
     io_bind (io_lift (ensure_supported layout)) (\<lambda>_.
     io_bind (ensure_space L E) (\<lambda>_.
     io_bind (personal_run_btrfs E (btrfs_list (pse_home_root E))) (\<lambda>descendants.
     if descendants \<noteq> []
     then io_throw (PersonalError_new PeUnsafePath
            ''Home rollback cannot safely replace nested Btrfs subvolumes: snapshots do not include their contents'')
     else io_return ())))"

definition personal_verify ::
  "personal_libs \<Rightarrow> PersonalSnapshotEngine \<Rightarrow> LayoutReport \<Rightarrow> uuid \<Rightarrow> (PersonalError, PersonalSnapshotRecord) io" where
  "personal_verify L E layout i =
     (let snapshot = personal_snapshot_path (pl_uuid L) (pse_store_root E) i in
      io_bind (io_lift (ensure_supported layout)) (\<lambda>_.
      io_bind (engine_load L E i) (\<lambda>r.
      if ps_state r \<noteq> PersonalReady then io_throw (PersonalError_new PeInvalidInput ''Personal snapshot is not ready'')
      else
        io_bind (personal_ensure_real_directory snapshot) (\<lambda>_.
        io_bind (personal_snapshot_identity L E snapshot) (\<lambda>(u, parent).
        if ps_snapshot_uuid r \<noteq> Some u \<or> ps_snapshot_parent_uuid r \<noteq> parent
        then io_throw (PersonalError_new PeUnsafePath ''Personal snapshot filesystem identity does not match metadata'')
        else
          io_bind (personal_verify_read_only E snapshot ''Personal snapshot is not read-only'') (\<lambda>_. io_return r))))))"

subsection \<open>Creation\<close>

definition new_personal ::
  "uuid \<Rightarrow> PersonalSnapshotKind \<Rightarrow> timestamp \<Rightarrow> string \<Rightarrow> string \<Rightarrow> string option \<Rightarrow> bool \<Rightarrow> PersonalSnapshotRecord" where
  "new_personal i kind now title reason schedule_id pinned =
     \<lparr>ps_schema_version = PERSONAL_SNAPSHOT_SCHEMA_VERSION, ps_id = i, ps_kind = kind, ps_state = PersonalCreating,
      ps_created_at = now, ps_title = title, ps_reason = reason, ps_schedule_id = schedule_id,
      ps_snapshot_uuid = None, ps_snapshot_parent_uuid = None, ps_pinned = pinned, ps_failure = None\<rparr>"

text \<open>The closure that makes the snapshot: an error carries the record as it was then.\<close>

definition fill_personal ::
  "personal_libs \<Rightarrow> PersonalSnapshotEngine \<Rightarrow> PersonalSnapshotRecord \<Rightarrow>
   (PersonalError \<times> PersonalSnapshotRecord, PersonalSnapshotRecord) io" where
  "fill_personal L E r =
     (let container = snapshot_container (pl_uuid L) (pse_store_root E) (ps_id r); snapshot = container @ [''home''] in
      io_bind (creating r (personal_ensure_new_directory container)) (\<lambda>_.
      io_bind (creating r (personal_run_btrfs E (btrfs_snapshot_readonly (pse_home_root E) snapshot))) (\<lambda>_.
      io_bind (creating r (personal_snapshot_identity L E snapshot)) (\<lambda>(snapshot_uuid, parent_uuid).
      let r = r\<lparr>ps_snapshot_uuid := Some snapshot_uuid, ps_snapshot_parent_uuid := parent_uuid\<rparr> in
      io_bind (creating r (personal_run_btrfs E (btrfs_sync (pse_home_root E)))) (\<lambda>_.
      let r = r\<lparr>ps_state := PersonalReady\<rparr> in
      io_bind (creating r (personal_write_record L E r)) (\<lambda>_. io_return r))))))"

definition broken_personal :: "PersonalSnapshotRecord \<Rightarrow> PersonalError \<Rightarrow> PersonalSnapshotRecord" where
  "broken_personal r e =
     r\<lparr>ps_state := PersonalBroken, ps_failure := Some (concat (take 2000 (chars (pe_message e))))\<rparr>"

definition revert_personal ::
  "personal_libs \<Rightarrow> PersonalSnapshotEngine \<Rightarrow> PersonalSnapshotRecord \<Rightarrow> PersonalError \<Rightarrow> (PersonalError, 'a) io" where
  "revert_personal L E r e =
     (let container = snapshot_container (pl_uuid L) (pse_store_root E) (ps_id r); snapshot = container @ [''home''] in
      io_match (personal_write_record L E (broken_personal r e)) (\<lambda>_.
      io_bind (path_exists snapshot) (\<lambda>there.
      io_match (if there then personal_run_btrfs E (btrfs_delete snapshot) else io_return []) (\<lambda>_.
      io_match (remove_dir container) (\<lambda>_. io_throw e)))))"

definition personal_creation_allowed ::
  "personal_libs \<Rightarrow> PersonalSnapshotEngine \<Rightarrow> (PersonalError, unit) io" where
  "personal_creation_allowed L E =
     io_map_err PersonalError_invalid (ensure_creation_allowed (pl_uuid L) (pl_tx L) (pse_store_root E))"

definition personal_create_locked ::
  "personal_libs \<Rightarrow> PersonalSnapshotEngine \<Rightarrow> string \<Rightarrow> string \<Rightarrow> string option \<Rightarrow> bool \<Rightarrow> PersonalSnapshotKind \<Rightarrow>
   (PersonalError, PersonalSnapshotRecord) io" where
  "personal_create_locked L E title reason schedule_id pinned kind =
     io_bind (personal_creation_allowed L E) (\<lambda>_.
     io_bind new_v4 (\<lambda>i.
     io_bind utc_now (\<lambda>now.
     let r = new_personal i kind now title reason schedule_id pinned in
     io_bind (io_lift (PersonalSnapshotRecord_validate (pl_uuid L) r)) (\<lambda>_.
     io_bind (personal_write_record L E r) (\<lambda>_.
     io_match (fill_personal L E r) (\<lambda>result.
       case result of
         Inl (e, r) \<Rightarrow> revert_personal L E r e
       | Inr r \<Rightarrow> io_return r))))))"

definition personal_acquire :: "PersonalSnapshotEngine \<Rightarrow> (PersonalError, unit) io" where
  "personal_acquire E = StoreLock_acquire (personal_lock_path (pse_store_root E))"

definition personal_create ::
  "personal_libs \<Rightarrow> PersonalSnapshotEngine \<Rightarrow> LayoutReport \<Rightarrow> string \<Rightarrow> string \<Rightarrow> string option \<Rightarrow> bool \<Rightarrow>
   PersonalSnapshotKind \<Rightarrow> (PersonalError, PersonalSnapshotRecord) io" where
  "personal_create L E layout title reason schedule_id pinned kind =
     io_bind (io_lift (ensure_supported layout)) (\<lambda>_.
     io_bind (io_lift (validate_text title 120 ''title'')) (\<lambda>_.
     io_bind (io_lift (validate_text reason 500 ''reason'')) (\<lambda>_.
     io_bind (io_lift (case schedule_id of None \<Rightarrow> Inr () | Some value \<Rightarrow> validate_label value)) (\<lambda>_.
     io_bind (ensure_space L E) (\<lambda>_.
     io_bind (ensure_directories E) (\<lambda>_.
     io_bind (personal_acquire E) (\<lambda>_.
     personal_create_locked L E title reason schedule_id pinned kind)))))))"

definition personal_create_manual ::
  "personal_libs \<Rightarrow> PersonalSnapshotEngine \<Rightarrow> LayoutReport \<Rightarrow> string \<Rightarrow> string \<Rightarrow> bool \<Rightarrow>
   (PersonalError, PersonalSnapshotRecord) io" where
  "personal_create_manual L E layout title reason pinned =
     personal_create L E layout title reason None pinned PersonalManual"

definition personal_create_scheduled ::
  "personal_libs \<Rightarrow> PersonalSnapshotEngine \<Rightarrow> LayoutReport \<Rightarrow> string \<Rightarrow> string \<Rightarrow> string \<Rightarrow>
   (PersonalError, PersonalSnapshotRecord) io" where
  "personal_create_scheduled L E layout schedule_id title reason =
     personal_create L E layout title reason (Some schedule_id) False PersonalAutomatic"

definition personal_create_factory_if_missing ::
  "personal_libs \<Rightarrow> PersonalSnapshotEngine \<Rightarrow> LayoutReport \<Rightarrow> (PersonalError, FactoryHomeSnapshotOutcome) io" where
  "personal_create_factory_if_missing L E layout =
     io_bind (io_lift (ensure_supported layout)) (\<lambda>_.
     io_bind (ensure_directories E) (\<lambda>_.
     io_bind (personal_acquire E) (\<lambda>_.
     io_bind (personal_discover L E) (\<lambda>discovery.
     if pd_issues discovery \<noteq> []
     then io_throw (PersonalError_invalid ''Home recovery storage contains unresolved metadata issues'')
     else case filter (\<lambda>r. ps_kind r = PersonalFactory) (pd_snapshots discovery) of
       [r] \<Rightarrow> io_bind (personal_verify L E layout (ps_id r)) (\<lambda>r. io_return (HomeFactoryExisting r))
     | [] \<Rightarrow>
         io_bind (ensure_space L E) (\<lambda>_.
         io_bind (personal_create_locked L E FACTORY_HOME_TITLE ''Initial AnduinOS Home'' None True PersonalFactory)
           (\<lambda>r. io_return (HomeFactoryCreated r)))
     | _ \<Rightarrow> io_throw (PersonalError_invalid ''More than one factory Home baseline is registered'')))))"

definition personal_scheduled_snapshot_due ::
  "personal_libs \<Rightarrow> PersonalSnapshotEngine \<Rightarrow> u32 \<Rightarrow> timestamp \<Rightarrow> (PersonalError, bool) io" where
  "personal_scheduled_snapshot_due L E interval_hours now =
     io_bind (io_lift (validate_snapshot_interval interval_hours)) (\<lambda>_.
     io_bind (personal_discover L E) (\<lambda>discovery.
     io_return (scheduled_snapshot_due (pd_snapshots discovery) interval_hours now)))"

definition personal_create_scheduled_if_due ::
  "personal_libs \<Rightarrow> PersonalSnapshotEngine \<Rightarrow> LayoutReport \<Rightarrow> string \<Rightarrow> string \<Rightarrow> string \<Rightarrow> u32 \<Rightarrow> timestamp \<Rightarrow>
   (PersonalError, ScheduledPersonalSnapshotOutcome) io" where
  "personal_create_scheduled_if_due L E layout schedule_id title reason interval_hours now =
     io_bind (io_lift (validate_snapshot_interval interval_hours)) (\<lambda>_.
     io_bind (io_lift (ensure_supported layout)) (\<lambda>_.
     io_bind (io_lift (validate_text title 120 ''title'')) (\<lambda>_.
     io_bind (io_lift (validate_text reason 500 ''reason'')) (\<lambda>_.
     io_bind (io_lift (validate_label schedule_id)) (\<lambda>_.
     io_bind (ensure_directories E) (\<lambda>_.
     io_bind (personal_acquire E) (\<lambda>_.
     io_bind (personal_discover L E) (\<lambda>discovery.
     if \<not> scheduled_snapshot_due (pd_snapshots discovery) interval_hours now then io_return PersonalNotDue
     else
       io_bind (ensure_space L E) (\<lambda>_.
       io_bind (personal_create_locked L E title reason (Some schedule_id) False PersonalAutomatic)
         (\<lambda>r. io_return (PersonalScheduledCreated r)))))))))))"

subsection \<open>Changes of a record\<close>

definition personal_set_pinned ::
  "personal_libs \<Rightarrow> PersonalSnapshotEngine \<Rightarrow> LayoutReport \<Rightarrow> uuid \<Rightarrow> bool \<Rightarrow> (PersonalError, PersonalSnapshotRecord) io" where
  "personal_set_pinned L E layout i pinned =
     io_bind (io_lift (ensure_supported layout)) (\<lambda>_.
     io_bind (personal_acquire E) (\<lambda>_.
     io_bind (engine_load L E i) (\<lambda>r.
     if ps_state r \<noteq> PersonalReady
     then io_throw (PersonalError_new PeInvalidInput ''Only ready personal snapshots can change protection'')
     else if ps_kind r = PersonalFactory
     then io_throw (PersonalError_new PeProtected ''The factory Home baseline cannot be unpinned'')
     else
       let r = r\<lparr>ps_pinned := pinned\<rparr> in
       io_bind (personal_write_record L E r) (\<lambda>_. io_return r))))"

definition personal_rename ::
  "personal_libs \<Rightarrow> PersonalSnapshotEngine \<Rightarrow> LayoutReport \<Rightarrow> uuid \<Rightarrow> string \<Rightarrow> (PersonalError, PersonalSnapshotRecord) io" where
  "personal_rename L E layout i title =
     io_bind (io_lift (ensure_supported layout)) (\<lambda>_.
     io_bind (io_lift (validate_text (str_trim title) 120 ''title'')) (\<lambda>_.
     io_bind (personal_acquire E) (\<lambda>_.
     io_bind (engine_load L E i) (\<lambda>r.
     if ps_state r \<noteq> PersonalReady
     then io_throw (PersonalError_new PeInvalidInput ''Only ready personal snapshots can be renamed'')
     else if ps_kind r = PersonalFactory
     then io_throw (PersonalError_new PeProtected ''The factory Home baseline cannot be renamed'')
     else
       let r = r\<lparr>ps_title := str_trim title\<rparr> in
       io_bind (personal_write_record L E r) (\<lambda>_. io_return r)))))"

subsection \<open>Import\<close>

definition prepare_import_staging ::
  "personal_libs \<Rightarrow> PersonalSnapshotEngine \<Rightarrow> LayoutReport \<Rightarrow> (PersonalError, path) io" where
  "prepare_import_staging L E layout =
     (let p = import_staging_root (pse_store_root E) in
      io_bind (io_lift (ensure_supported layout)) (\<lambda>_.
      io_bind (ensure_space L E) (\<lambda>_.
      io_bind (ensure_directories E) (\<lambda>_.
      io_bind (personal_ensure_directory p 0x1C0) (\<lambda>_. io_return p)))))"

definition trusted_staging :: "path \<Rightarrow> path \<Rightarrow> bool" where
  "trusted_staging store received \<longleftrightarrow>
     received \<noteq> [] \<and> last received = ''home'' \<and> prefix (import_staging_root store) received \<and> ''..'' \<notin> set received"

definition adopt_received ::
  "personal_libs \<Rightarrow> PersonalSnapshotEngine \<Rightarrow> path \<Rightarrow> PersonalSnapshotRecord \<Rightarrow>
   (PersonalError \<times> PersonalSnapshotRecord, PersonalSnapshotRecord) io" where
  "adopt_received L E received r =
     (let container = snapshot_container (pl_uuid L) (pse_store_root E) (ps_id r) in
      io_bind (creating r (personal_ensure_new_directory container)) (\<lambda>_.
      io_bind (creating r (io_map_err (personal_io ''Could not commit imported personal snapshot'')
                             (fs_rename received (container @ [''home''])))) (\<lambda>_.
      io_bind (creating r (personal_sync_directory container)) (\<lambda>_.
      io_bind (creating r (personal_sync_directory (personal_snapshots_root (pse_store_root E)))) (\<lambda>_.
      let r = r\<lparr>ps_state := PersonalReady\<rparr> in
      io_bind (creating r (personal_write_record L E r)) (\<lambda>_. io_return r))))))"

definition revert_adopted ::
  "personal_libs \<Rightarrow> PersonalSnapshotEngine \<Rightarrow> PersonalSnapshotRecord \<Rightarrow> PersonalError \<Rightarrow> (PersonalError, 'a) io" where
  "revert_adopted L E r e =
     (let container = snapshot_container (pl_uuid L) (pse_store_root E) (ps_id r); destination = container @ [''home''] in
      io_match (symlink_metadata destination) (\<lambda>there.
      io_match (if (case there of Inr metadata \<Rightarrow> ftype metadata = Directory | Inl _ \<Rightarrow> False)
                then personal_run_btrfs E (btrfs_delete destination) else io_return []) (\<lambda>_.
      io_match (remove_dir container) (\<lambda>_.
      io_match (personal_write_record L E (broken_personal r e)) (\<lambda>_. io_throw e)))))"

definition adopt_imported ::
  "personal_libs \<Rightarrow> PersonalSnapshotEngine \<Rightarrow> LayoutReport \<Rightarrow> PersonalSnapshotRecord \<Rightarrow> path \<Rightarrow>
   (PersonalError, PersonalSnapshotRecord) io" where
  "adopt_imported L E layout source received =
     io_bind (io_lift (ensure_supported layout)) (\<lambda>_.
     io_bind (io_lift (PersonalSnapshotRecord_validate (pl_uuid L) source)) (\<lambda>_.
     if ps_state source \<noteq> PersonalReady then io_throw (PersonalError_invalid ''Imported personal source is not ready'')
     else
       io_bind (ensure_space L E) (\<lambda>_.
       io_bind (ensure_directories E) (\<lambda>_.
       if \<not> trusted_staging (pse_store_root E) received
       then io_throw (PersonalError_new PeUnsafePath ''Imported personal snapshot is outside trusted staging'')
       else
         io_bind (personal_ensure_real_directory received) (\<lambda>_.
         io_bind (personal_verify_read_only E received ''Imported personal snapshot is not read-only'') (\<lambda>_.
         io_bind (personal_snapshot_identity L E received) (\<lambda>(snapshot_uuid, snapshot_parent_uuid).
         io_bind (personal_acquire E) (\<lambda>_.
         io_bind (personal_creation_allowed L E) (\<lambda>_.
         io_bind new_v4 (\<lambda>i.
         io_bind utc_now (\<lambda>now.
         let r = (new_personal i PersonalImported now (ps_title source) (ps_reason source) None (ps_pinned source))
                   \<lparr>ps_snapshot_uuid := Some snapshot_uuid, ps_snapshot_parent_uuid := snapshot_parent_uuid\<rparr> in
         io_bind (personal_write_record L E r) (\<lambda>_.
         io_match (adopt_received L E received r) (\<lambda>result.
           case result of
             Inl (e, r) \<Rightarrow> revert_adopted L E r e
           | Inr r \<Rightarrow> io_return r)))))))))))))"

subsection \<open>Deletion\<close>

definition personal_transaction_lock ::
  "PersonalSnapshotEngine \<Rightarrow> (PersonalError, unit) io" where
  "personal_transaction_lock E =
     io_bind (path_exists (pse_store_root E @ [''transactions''])) (\<lambda>there.
     if there
     then io_map_err (personal_io ''Could not coordinate Home snapshot deletion'') (acquire (pse_store_root E))
     else io_return ())"

definition ensure_home_unreferenced ::
  "personal_libs \<Rightarrow> PersonalSnapshotEngine \<Rightarrow> uuid \<Rightarrow> bool \<Rightarrow> (PersonalError, unit) io" where
  "ensure_home_unreferenced L E i purge_history =
     io_bind (io_map_err (\<lambda>e. PersonalError_invalid (te_message e))
       (load_pending (pl_uuid L) (pl_tx L) (transactions_dir (pse_store_root E)))) (\<lambda>pending.
     if is_some_and pending (\<lambda>t. tx_factory_home_snapshot_id t = Some i
          \<or> (tx_fallback_home_snapshot_id t = Some i \<and> \<not> purge_history))
     then io_throw (PersonalError_new PeProtected ''This Home snapshot is referenced by a pending rollback'')
     else io_return ())"

definition ensure_home_deletable ::
  "personal_libs \<Rightarrow> PersonalSnapshotEngine \<Rightarrow> bool \<Rightarrow> bool \<Rightarrow> PersonalSnapshotRecord \<Rightarrow> (PersonalError, unit) io" where
  "ensure_home_deletable L E allow_protected purge_history r =
     (if ps_kind r = PersonalFactory \<and> \<not> allow_protected
      then io_throw (PersonalError_new PeProtected ''The factory Home baseline cannot be deleted'')
      else if \<not> allow_protected \<and> \<not> purge_history \<and> \<not> PersonalSnapshotRecord_can_delete r
      then io_throw (PersonalError_new PeProtected ''Personal snapshot is protected'')
      else if purge_history
      then
        io_bind (io_map_err PersonalError_invalid
          (validate_consent (pl_uuid L) (pl_tx L) (pl_dep L) (pse_store_root E))) (\<lambda>_.
        if ps_kind r = PersonalFactory
        then io_throw (PersonalError_invalid ''History cleanup must preserve the factory Home snapshot'')
        else io_return ())
      else io_return ())"

definition home_snapshot_exists :: "path \<Rightarrow> (PersonalError, bool) io" where
  "home_snapshot_exists snapshot =
     io_match (symlink_metadata snapshot) (\<lambda>r.
       case r of
         Inr metadata \<Rightarrow>
           (if ftype metadata = Directory then io_return True
            else io_throw (PersonalError_new PeUnsafePath ''Personal snapshot deletion target is not a real directory''))
       | Inl e \<Rightarrow>
           (if err_kind e = NotFound then io_return False
            else io_throw (personal_io ''Could not inspect personal snapshot deletion target'' e)))"

definition erase_personal ::
  "personal_libs \<Rightarrow> PersonalSnapshotEngine \<Rightarrow> uuid \<Rightarrow> bool \<Rightarrow> (PersonalError, unit) io" where
  "erase_personal L E i snapshot_exists =
     (let U = pl_uuid L; store = pse_store_root E in
      io_bind (if snapshot_exists then personal_run_btrfs E (btrfs_delete (personal_snapshot_path U store i)) else io_return []) (\<lambda>_.
      io_match (remove_dir (snapshot_container U store i)) (\<lambda>_.
      io_bind (io_map_err (personal_io ''Could not remove personal snapshot metadata'')
                 (remove_file (personal_metadata_path U store i))) (\<lambda>_.
      personal_sync_directory (personal_metadata_root store)))))"

definition personal_delete_locked ::
  "personal_libs \<Rightarrow> PersonalSnapshotEngine \<Rightarrow> uuid \<Rightarrow> bool \<Rightarrow> bool \<Rightarrow> (PersonalError, unit) io" where
  "personal_delete_locked L E i allow_protected purge_history =
     (let U = pl_uuid L; store = pse_store_root E in
      io_bind (personal_transaction_lock E) (\<lambda>_.
      io_bind (ensure_home_unreferenced L E i purge_history) (\<lambda>_.
      io_bind (StoreLock_acquire_nonblocking (personal_browse_lock_path U store i)) (\<lambda>_.
      io_bind (engine_load L E i) (\<lambda>r.
      io_bind (ensure_home_deletable L E allow_protected purge_history r) (\<lambda>_.
      io_bind (home_snapshot_exists (personal_snapshot_path U store i)) (\<lambda>there.
      io_bind (personal_write_record L E (r\<lparr>ps_state := PersonalDeleting\<rparr>)) (\<lambda>_.
      erase_personal L E i there))))))))"

definition personal_delete ::
  "personal_libs \<Rightarrow> PersonalSnapshotEngine \<Rightarrow> LayoutReport \<Rightarrow> uuid \<Rightarrow> (PersonalError, unit) io" where
  "personal_delete L E layout i =
     io_bind (io_lift (ensure_supported layout)) (\<lambda>_.
     io_bind (personal_acquire E) (\<lambda>_.
     personal_delete_locked L E i False False))"

definition personal_delete_factory ::
  "personal_libs \<Rightarrow> PersonalSnapshotEngine \<Rightarrow> LayoutReport \<Rightarrow> uuid \<Rightarrow> (PersonalError, unit) io" where
  "personal_delete_factory L E layout i =
     io_bind (io_lift (ensure_supported layout)) (\<lambda>_.
     io_bind (personal_acquire E) (\<lambda>_.
     io_bind (engine_load L E i) (\<lambda>r.
     if ps_kind r \<noteq> PersonalFactory
     then io_throw (PersonalError_invalid ''The selected snapshot is not a factory recovery point'')
     else personal_delete_locked L E i True False)))"

definition personal_delete_factory_reset_history ::
  "personal_libs \<Rightarrow> PersonalSnapshotEngine \<Rightarrow> LayoutReport \<Rightarrow> uuid \<Rightarrow> (PersonalError, unit) io" where
  "personal_delete_factory_reset_history L E layout i =
     io_bind (io_lift (ensure_supported layout)) (\<lambda>_.
     io_bind (personal_acquire E) (\<lambda>_.
     personal_delete_locked L E i False True))"

end
