(* ===== verification/Personal_Safety.thy ===== *)
theory Personal_Safety
  imports Deletion_Safety Personal_Operations
begin

text \<open>
  Safety of Home snapshots. A creation changes only the paths of the one identifier it draws,
  and a snapshot that is reported is a complete copy of Home with a stored, valid record. A
  deletion changes more than locks only when no pending rollback refers to the snapshot and its
  record allows it. What the engine relies on are the locales \<open>home_runner\<close> and \<open>home_copier\<close>.
\<close>

subsection \<open>What the engine relies on\<close>

locale home_runner = snapshot_runner "pse_runner E" for L :: personal_libs and E :: PersonalSnapshotEngine +
  assumes show_plain_frame: "touches {} (pse_runner E BTRFS (btrfs_show_plain p))"
    and list_frame: "touches {} (pse_runner E BTRFS (btrfs_list p))"
    and home_statvfs_frame: "touches {} (pl_statvfs L p)"

text \<open>A snapshot that succeeds is a copy.\<close>

locale home_copier = home_runner +
  assumes snapshot_copies: "apart p q \<Longrightarrow> map_of (nodes w) q = None \<Longrightarrow>
    pse_runner E BTRFS (btrfs_snapshot_readonly p q) w = (Inr b, w') \<Longrightarrow>
    map_of (nodes w') (q @ r) = map_of (nodes w) (p @ r)"

subsection \<open>Frames\<close>

definition home_dirs :: "path \<Rightarrow> path set" where
  "home_dirs store = {store, personal_root store, personal_metadata_root store, personal_snapshots_root store,
     personal_root store @ [''browse-locks''], personal_lock_path store}"

definition home_record_paths :: "uuid_lib \<Rightarrow> path \<Rightarrow> uuid \<Rightarrow> path set" where
  "home_record_paths U store i =
     under (personal_metadata_path U store i) \<union> (\<Union>u. under (personal_temporary U store i u))"

text \<open>The paths that belong to the snapshot \<open>i\<close>.\<close>

definition home_paths :: "uuid_lib \<Rightarrow> path \<Rightarrow> uuid \<Rightarrow> path set" where
  "home_paths U store i = under (snapshot_container U store i) \<union> home_record_paths U store i"

lemma personal_temporary_apart: "apart (personal_temporary U store i u) (personal_metadata_path U store j)"
  using json_name_distinct(1) [of "hyphenated U j" "''.'' @ hyphenated U i @ ''.'' @ hyphenated U u"]
    apart_siblings [of "store @ [''personal'', ''metadata'']"]
  by (simp add: personal_temporary_def personal_metadata_path_def)

lemma home_record_paths_outside:
  assumes "personal_metadata_path U store j \<noteq> personal_metadata_path U store i"
  shows "personal_metadata_path U store j \<notin> home_record_paths U store i"
proof -
  have "apart (personal_metadata_path U store i) (personal_metadata_path U store j)"
    using assms apart_siblings [of "store @ [''personal'', ''metadata'']"] by (auto simp: personal_metadata_path_def)
  then show ?thesis using personal_temporary_apart by (auto simp: home_record_paths_def under_def apart_def)
qed

lemma home_parts_apart:
  "home_record_paths U store i \<inter> under (snapshot_container U store j) = {}"
  "home_dirs store \<inter> under (snapshot_container U store j) = {}"
  "home_dirs store \<inter> home_record_paths U store i = {}"
  by (auto simp: home_record_paths_def home_dirs_def under_def snapshot_container_def personal_metadata_path_def
      personal_temporary_def personal_root_def personal_metadata_root_def personal_snapshots_root_def personal_lock_path_def
      prefix_def)

lemma touches_home_files [io_rules]:
  "p \<in> S \<Longrightarrow> touches S (personal_ensure_directory p m)" "p \<in> S \<Longrightarrow> touches S (personal_ensure_new_directory p)"
  "touches S (personal_ensure_real_directory p)" "touches S (reject_non_regular_target p)"
  "touches S (personal_sync_directory p)" "touches S (home_snapshot_exists p)"
  "p \<in> S \<Longrightarrow> touches S (StoreLock_acquire p)" "p \<in> S \<Longrightarrow> touches S (StoreLock_acquire_nonblocking p)"
  unfolding personal_ensure_directory_def personal_ensure_new_directory_def personal_ensure_real_directory_def
    reject_non_regular_target_def personal_sync_directory_def home_snapshot_exists_def StoreLock_acquire_def
    StoreLock_acquire_nonblocking_def Let_def
  by (intro io_rules; assumption)+

lemma touches_ensure_directories [io_rules]:
  "home_dirs (pse_store_root E) \<subseteq> S \<Longrightarrow> touches S (ensure_directories E)"
  unfolding ensure_directories_def Let_def by (intro io_rules) (auto simp: home_dirs_def)

lemma touches_personal_acquire [io_rules]: "home_dirs (pse_store_root E) \<subseteq> S \<Longrightarrow> touches S (personal_acquire E)"
  unfolding personal_acquire_def by (intro io_rules) (auto simp: home_dirs_def)

lemma touches_personal_reads [io_rules]:
  "touches S (personal_read_record_path U json p)" "touches S (engine_load L E i)"
  unfolding personal_read_record_path_def engine_load_def by (intro io_rules)+

lemma touches_home_checks [io_rules]:
  "touches S (personal_creation_allowed L E)" "touches S (ensure_home_unreferenced L E i purge)"
  "touches S (ensure_home_deletable L E allow purge r)"
  unfolding personal_creation_allowed_def ensure_home_unreferenced_def ensure_home_deletable_def
  by (intro io_rules)+

lemma touches_personal_discover_entries: "touches S (personal_discover_entries L store ns report)"
  by (induction ns arbitrary: report) (auto simp: Let_def intro!: io_rules split: sum.splits)

lemma touches_personal_discover [io_rules]: "touches S (personal_discover L E)"
  unfolding personal_discover_def Let_def by (intro io_rules touches_personal_discover_entries)

lemma touches_personal_write_record:
  "touches (home_record_paths (pl_uuid L) (pse_store_root E) (ps_id r)) (personal_write_record L E r)"
  unfolding personal_write_record_def Let_def
  by (intro io_rules) (auto simp: home_record_paths_def under_def)

context home_runner
begin

lemma run_frame: "touches S (pse_runner E BTRFS a) \<Longrightarrow> touches S (personal_run_btrfs E a)"
  unfolding personal_run_btrfs_def by (intro io_rules)

lemmas home_quiet = run_frame [OF touches_none [OF show_plain_frame]] run_frame [OF touches_none [OF property_frame]]
  run_frame [OF touches_none [OF sync_frame]] run_frame [OF touches_none [OF list_frame]]
  touches_none [OF home_statvfs_frame]

lemma home_probes_quiet:
  "touches S (personal_snapshot_identity L E p)" "touches S (personal_verify_read_only E p m)"
  "touches S (ensure_space L E)"
  unfolding personal_snapshot_identity_def personal_verify_read_only_def ensure_space_def
  by (intro io_rules home_quiet)+

lemma home_verify_quiet: "touches S (personal_verify L E layout i)"
  unfolding personal_verify_def Let_def by (intro io_rules home_probes_quiet)

lemma home_capacity_quiet: "touches S (check_restore_capacity L E layout)"
  unfolding check_restore_capacity_def by (intro io_rules home_probes_quiet home_quiet)

lemma write_frame:
  assumes "ps_id q = ps_id r"
  shows "touches (home_paths (pl_uuid L) (pse_store_root E) (ps_id r)) (personal_write_record L E q)"
  by (rule touches_mono [OF touches_personal_write_record]) (auto simp: assms home_paths_def)

lemma home_container_paths:
  "snapshot_container U store i \<in> home_paths U store i"
  "under (snapshot_container U store i @ [''home'']) \<subseteq> home_paths U store i"
  "under (personal_snapshot_path U store i) \<subseteq> home_paths U store i"
  "personal_metadata_path U store i \<in> home_paths U store i"
  by (auto simp: home_paths_def home_record_paths_def under_def snapshot_container_def personal_snapshot_path_def prefix_def)

lemma fill_personal_frame: "touches (home_paths (pl_uuid L) (pse_store_root E) (ps_id r)) (fill_personal L E r)"
  unfolding fill_personal_def Let_def
  by (intro io_rules home_probes_quiet home_quiet run_frame touches_mono [OF snapshot_frame] write_frame home_container_paths) simp

lemma revert_personal_frame: "touches (home_paths (pl_uuid L) (pse_store_root E) (ps_id r)) (revert_personal L E r e)"
  unfolding revert_personal_def Let_def
  by (intro io_rules touches_remove_dir run_frame touches_mono [OF delete_frame] write_frame home_container_paths)
    (simp add: broken_personal_def)

end

subsection \<open>Containment\<close>

definition home_core where
  "home_core r = (ps_id r, ps_kind r, ps_created_at r, ps_title r, ps_reason r, ps_schedule_id r, ps_pinned r, ps_failure r)"

lemma home_core_update [simp]:
  "home_core (r\<lparr>ps_state := s\<rparr>) = home_core r" "home_core (r\<lparr>ps_snapshot_uuid := u\<rparr>) = home_core r"
  "home_core (r\<lparr>ps_snapshot_parent_uuid := u\<rparr>) = home_core r"
  by (simp_all add: home_core_def)

lemma home_core_id: "home_core r = home_core q \<Longrightarrow> ps_id r = ps_id q"
  by (simp add: home_core_def)

lemma yields_fill_personal:
  "io_triple (\<lambda>_. True) (fill_personal L E r) (\<lambda>r' _. home_core r' = home_core r) (\<lambda>e _. home_core (snd e) = home_core r)"
  unfolding fill_personal_def Let_def by (intro triple_creating_bind triple_case_prod triple_return) simp_all

context home_runner
begin

lemma created_or_reverted_frame:
  "touches (home_paths (pl_uuid L) (pse_store_root E) (ps_id r)) (io_match (fill_personal L E r) (\<lambda>result.
     case result of Inl (e, r) \<Rightarrow> revert_personal L E r e | Inr r \<Rightarrow> io_return r))"
proof (rule touches_match_yields [OF fill_personal_frame yields_fill_personal])
  show "touches (home_paths (pl_uuid L) (pse_store_root E) (ps_id r))
      (case Inl e of Inl (e, r) \<Rightarrow> revert_personal L E r e | Inr r \<Rightarrow> io_return r)"
    if "home_core (snd e) = home_core r" for e :: "PersonalError \<times> PersonalSnapshotRecord"
    using revert_personal_frame [of "snd e" "fst e"] home_core_id [OF that] by (cases e) simp
qed (simp add: touches_return)

lemma personal_create_locked_frame:
  "touches_drawn (home_paths (pl_uuid L) (pse_store_root E)) (personal_create_locked L E title reason schedule pinned kind)"
proof -
  have rest: "touches (home_paths (pl_uuid L) (pse_store_root E) i)
      (let r = new_personal i kind now title reason schedule pinned in
       io_bind (io_lift (PersonalSnapshotRecord_validate (pl_uuid L) r)) (\<lambda>_.
       io_bind (personal_write_record L E r) (\<lambda>_.
       io_match (fill_personal L E r) (\<lambda>result.
         case result of Inl (e, r) \<Rightarrow> revert_personal L E r e | Inr r \<Rightarrow> io_return r))))" for i now
    using write_frame [of "new_personal i kind now title reason schedule pinned" "new_personal i kind now title reason schedule pinned"]
      created_or_reverted_frame [of "new_personal i kind now title reason schedule pinned"]
    unfolding Let_def by (intro touches_bind touches_lift) (simp_all add: new_personal_def)
  show ?thesis
    unfolding personal_create_locked_def
    by (rule drawn_bind [where S = "{}"], intro io_rules, simp, rule drawn_v4, intro io_rules rest)
qed

lemma personal_create_frame:
  assumes "personal_create L E layout title reason schedule pinned kind w = (x, w')"
  shows "\<exists>i. \<forall>k. k \<notin> home_paths (pl_uuid L) (pse_store_root E) i \<union> home_dirs (pse_store_root E) \<longrightarrow>
    map_of (nodes w') k = map_of (nodes w) k"
proof -
  let ?F = "\<lambda>i. home_paths (pl_uuid L) (pse_store_root E) i \<union> home_dirs (pse_store_root E)"
  have store: "touches (home_dirs (pse_store_root E)) (ensure_directories E)"
      "touches (home_dirs (pse_store_root E)) (personal_acquire E)"
    by (intro io_rules; simp)+
  have locked: "touches_drawn ?F (personal_create_locked L E title reason schedule pinned kind)"
    using personal_create_locked_frame unfolding touches_drawn_def by (meson UnI1)
  have "touches_drawn ?F (personal_create L E layout title reason schedule pinned kind)"
    unfolding personal_create_def
    by (intro drawn_lift drawn_bind [OF home_probes_quiet(3) [of "{}"]] drawn_bind [OF store(1)] drawn_bind [OF store(2)] locked)
      auto
  with assms show ?thesis unfolding touches_drawn_def by blast
qed

end

subsection \<open>A created snapshot is a copy of Home\<close>

definition home_image :: "personal_libs \<Rightarrow> PersonalSnapshotRecord \<Rightarrow> bytes \<Rightarrow> bool" where
  "home_image L r b \<longleftrightarrow> PersonalSnapshotRecord_validate (pl_uuid L) r = Inr () \<and> (\<exists>s. pl_print L r = Inr s \<and> b = s @ newline)"

lemma triple_personal_write_record:
  "io_triple (\<lambda>w. map_of (nodes w) (personal_metadata_path (pl_uuid L) (pse_store_root E) (ps_id r)) = i) (personal_write_record L E r)
    (\<lambda>_ w. slot_holds (home_image L r) (map_of (nodes w) (personal_metadata_path (pl_uuid L) (pse_store_root E) (ps_id r))))
    (\<lambda>_ w. map_of (nodes w) (personal_metadata_path (pl_uuid L) (pse_store_root E) (ps_id r)) = i
       \<or> slot_holds (home_image L r) (map_of (nodes w) (personal_metadata_path (pl_uuid L) (pse_store_root E) (ps_id r))))"
    (is "io_triple ?P _ ?Q ?E")
proof -
  have quiet: "io_triple ?P m (\<lambda>_. ?P) ?E" if "\<And>S. touches S m" for m :: "(PersonalError, 'y) io"
    by (rule triple_weaken [OF triple_query [OF that]]) auto
  have new: "io_triple ?P new_v4 (\<lambda>_. ?P) ?E" by (rule quiet) (rule io_rules)
  have target: "io_triple ?P (reject_non_regular_target p) (\<lambda>_. ?P) ?E" for p by (rule quiet) (rule io_rules)
  have image: "home_image L r (s @ newline)" if "personal_serialize L r = Inr s" for s
    using that by (auto simp: home_image_def personal_serialize_def split: sum.splits if_splits)
  show ?thesis
    unfolding personal_write_record_def Let_def
    by (rule triple_lift, rule triple_bind [OF target], rule triple_bind [OF new],
        rule triple_commit_replace [OF personal_temporary_apart, where I = "home_image L r"], erule image) auto
qed

definition home_copied :: "PersonalSnapshotEngine \<Rightarrow> (path \<Rightarrow> inode option) \<Rightarrow> path \<Rightarrow> world \<Rightarrow> bool" where
  "home_copied E M snapshot w \<longleftrightarrow> (\<forall>q. map_of (nodes w) (snapshot @ q) = M (pse_home_root E @ q))"

lemma triple_copied:
  assumes "touches S m" and "S \<inter> under snapshot = {}"
  shows "io_triple (home_copied E M snapshot) m (\<lambda>_. home_copied E M snapshot) (\<lambda>_ _. True)"
proof (rule io_tripleI)
  have out: "snapshot @ q \<notin> S" for q using assms(2) by (auto simp: under_def)
  show "home_copied E M snapshot w'" if "home_copied E M snapshot w" "m w = (Inr x, w')" for w x w'
    using that(1) touchesD [OF assms(1) that(2) out] by (simp add: home_copied_def)
qed simp

lemma triple_new_directory:
  assumes "p \<notin> S"
  shows "io_triple (agrees_off S M) (personal_ensure_new_directory p)
    (\<lambda>_ w. agrees_off (insert p S) M w \<and> M p = None) (\<lambda>_ _. True)"
proof -
  have "io_triple (agrees_off S M) (create_dir p m) (\<lambda>_ w. agrees_off (insert p S) M w \<and> M p = None) (\<lambda>_ _. True)" for m
    using assms by (auto simp: io_triple_def create_dir_def syscall_def tick_def agrees_off_def split: option.splits)
  moreover have "io_triple (\<lambda>w. agrees_off (insert p S) M w \<and> M p = None) (io_map_err h (set_permissions p m))
      (\<lambda>_ w. agrees_off (insert p S) M w \<and> M p = None) (\<lambda>_ _. True)" for m and h :: "io_error \<Rightarrow> PersonalError"
    by (rule triple_map_err, rule triple_pure, rule triple_weaken [OF triple_agrees]) (auto intro: io_rules)
  ultimately show ?thesis
    unfolding personal_ensure_new_directory_def by (intro triple_bind [OF triple_map_err])
qed

text \<open>Nothing lies below a container that does not exist, and Home is outside of the store.\<close>

definition home_ready :: "uuid_lib \<Rightarrow> PersonalSnapshotEngine \<Rightarrow> (path \<Rightarrow> inode option) \<Rightarrow> bool" where
  "home_ready U E M \<longleftrightarrow> apart (pse_home_root E) (pse_store_root E)
     \<and> (\<forall>i q. M (snapshot_container U (pse_store_root E) i) = None \<longrightarrow>
          M (snapshot_container U (pse_store_root E) i @ q) = None)"

definition home_finished :: "personal_libs \<Rightarrow> PersonalSnapshotEngine \<Rightarrow> (path \<Rightarrow> inode option) \<Rightarrow> PersonalSnapshotRecord \<Rightarrow> world \<Rightarrow> bool" where
  "home_finished L E M r w \<longleftrightarrow>
     ps_state r = PersonalReady \<and> PersonalSnapshotRecord_validate (pl_uuid L) r = Inr ()
     \<and> slot_holds (home_image L r) (map_of (nodes w) (personal_metadata_path (pl_uuid L) (pse_store_root E) (ps_id r)))
     \<and> home_copied E M (personal_snapshot_path (pl_uuid L) (pse_store_root E) (ps_id r)) w"

lemma under_store:
  "home_dirs store \<subseteq> under store" "home_paths U store i \<subseteq> under store"
  by (auto simp: home_dirs_def home_paths_def home_record_paths_def under_def prefix_def snapshot_container_def
      personal_metadata_path_def personal_temporary_def personal_root_def personal_metadata_root_def
      personal_snapshots_root_def personal_lock_path_def)

lemma slot_valid: "slot_holds (home_image L r) i \<Longrightarrow> PersonalSnapshotRecord_validate (pl_uuid L) r = Inr ()"
  by (auto simp: slot_holds_def home_image_def)

context home_copier
begin

lemma fill_copies:
  assumes ready: "home_ready (pl_uuid L) E M"
  shows "io_triple (agrees_off (home_dirs (pse_store_root E) \<union> home_record_paths (pl_uuid L) (pse_store_root E) (ps_id r)) M)
    (fill_personal L E r) (home_finished L E M) (\<lambda>_ _. True)"
proof -
  let ?store = "pse_store_root E"
  let ?c = "snapshot_container (pl_uuid L) ?store (ps_id r)"
  let ?s = "?c @ [''home'']"
  let ?S = "home_dirs ?store \<union> home_record_paths (pl_uuid L) ?store (ps_id r)"
  have s: "personal_snapshot_path (pl_uuid L) ?store (ps_id r) = ?s"
    by (simp add: personal_snapshot_path_def snapshot_container_def)
  have out: "?c \<notin> ?S" "?S \<inter> under ?s = {}" "home_record_paths (pl_uuid L) ?store (ps_id r) \<inter> under ?s = {}"
    using home_parts_apart(1) [of "pl_uuid L" ?store "ps_id r" "ps_id r"] home_parts_apart(2) [of ?store "pl_uuid L" "ps_id r"] by (auto simp: under_def prefix_def)
  have home: "apart (pse_home_root E) ?s" and kept: "pse_home_root E @ q \<notin> insert ?c ?S" for q
  proof -
    have "apart (pse_home_root E) ?store" using ready by (simp add: home_ready_def)
    then show "apart (pse_home_root E) ?s" using apart_extend [of _ ?store] by (simp add: snapshot_container_def)
    have "insert ?c ?S \<subseteq> under ?store"
      using under_store(1) [of ?store] under_store(2) [of "pl_uuid L" ?store "ps_id r"]
      by (auto simp: home_paths_def under_def)
    moreover have "pse_home_root E @ q \<notin> under ?store"
      using apart_append [OF \<open>apart (pse_home_root E) ?store\<close>] by (simp add: under_def)
    ultimately show "pse_home_root E @ q \<notin> insert ?c ?S" by blast
  qed
  have make: "io_triple (agrees_off ?S M) (creating r (personal_ensure_new_directory ?c))
      (\<lambda>_ w. agrees_off (insert ?c ?S) M w \<and> M ?c = None) (\<lambda>_ _. True)"
    unfolding creating_def by (rule triple_map_err, rule triple_new_directory) (rule out)
  have copy: "io_triple (\<lambda>w. agrees_off (insert ?c ?S) M w \<and> M ?c = None)
      (creating r (personal_run_btrfs E (btrfs_snapshot_readonly (pse_home_root E) ?s)))
      (\<lambda>_. home_copied E M ?s) (\<lambda>_ _. True)"
    unfolding creating_def personal_run_btrfs_def
  proof (rule triple_map_err, rule triple_map_err, rule io_tripleI)
    fix w b w'
    assume at: "agrees_off (insert ?c ?S) M w \<and> M ?c = None"
      and run: "pse_runner E BTRFS (btrfs_snapshot_readonly (pse_home_root E) ?s) w = (Inr b, w')"
    have "?s \<notin> insert ?c ?S" using out(2) by (auto simp: under_def)
    with at ready have "map_of (nodes w) ?s = None" by (auto simp: agrees_off_def home_ready_def)
    from snapshot_copies [OF home this run] at kept show "home_copied E M ?s w'"
      by (simp add: home_copied_def agrees_off_def)
  qed simp
  have still: "io_triple (home_copied E M ?s) (creating q m) (\<lambda>_. home_copied E M ?s) (\<lambda>_ _. True)"
    if "touches {} m" for q and m :: "(PersonalError, 'y) io"
    unfolding creating_def by (rule triple_map_err, rule triple_copied [OF that]) simp
  have store: "io_triple (home_copied E M ?s) (creating q (personal_write_record L E q)) (\<lambda>_. home_finished L E M q) (\<lambda>_ _. True)"
    if q: "ps_id q = ps_id r" "ps_state q = PersonalReady" for q
  proof -
    have stored: "io_triple (\<lambda>_. True) (personal_write_record L E q) (\<lambda>_ w. slot_holds (home_image L q)
        (map_of (nodes w) (personal_metadata_path (pl_uuid L) ?store (ps_id q)))) (\<lambda>_ _. True)"
      by (rule triple_from_any, rule triple_weaken [OF triple_personal_write_record]) auto
    have "io_triple (home_copied E M ?s) (personal_write_record L E q) (\<lambda>_. home_copied E M ?s) (\<lambda>_ _. True)"
      by (rule triple_copied [OF touches_personal_write_record]) (use out(3) q in simp)
    from triple_conj [OF stored this] show ?thesis
      unfolding creating_def
      by (intro triple_map_err) (elim triple_weaken, use q s in \<open>auto simp: home_finished_def dest: slot_valid\<close>)
  qed
  show ?thesis
    unfolding fill_personal_def Let_def
    by (rule triple_bind [OF make], rule triple_bind [OF copy], rule triple_bind [OF still [OF home_probes_quiet(1)]],
        rule triple_case_prod, rule triple_bind [OF still [OF home_quiet(3)]], rule triple_bind [OF store], simp, simp,
        rule triple_return)
qed

end

lemma agrees_off_mono: "agrees_off S M w \<Longrightarrow> S \<subseteq> T \<Longrightarrow> agrees_off T M w"
  by (auto simp: agrees_off_def)

definition home_as_asked ::
  "string \<Rightarrow> string \<Rightarrow> string option \<Rightarrow> bool \<Rightarrow> PersonalSnapshotKind \<Rightarrow> PersonalSnapshotRecord \<Rightarrow> bool" where
  "home_as_asked title reason schedule pinned kind r \<longleftrightarrow>
     ps_title r = title \<and> ps_reason r = reason \<and> ps_schedule_id r = schedule \<and> ps_pinned r = pinned
     \<and> ps_kind r = kind \<and> ps_failure r = None"

context home_copier
begin

lemma create_locked_copies:
  assumes "home_ready (pl_uuid L) E M"
  shows "io_triple (agrees_off (home_dirs (pse_store_root E)) M)
    (personal_create_locked L E title reason schedule pinned kind)
    (\<lambda>r w. home_finished L E M r w \<and> home_as_asked title reason schedule pinned kind r) (\<lambda>_ _. True)"
proof -
  let ?store = "pse_store_root E"
  let ?Q = "\<lambda>r w. home_finished L E M r w \<and> home_as_asked title reason schedule pinned kind r"
  let ?new = "\<lambda>i now. new_personal i kind now title reason schedule pinned"
  have written: "io_triple (agrees_off (home_dirs ?store) M) (personal_write_record L E r)
      (\<lambda>_. agrees_off (home_dirs ?store \<union> home_record_paths (pl_uuid L) ?store (ps_id r)) M) (\<lambda>_ _. True)" for r
    by (rule triple_weaken [OF triple_agrees [OF touches_mono [OF touches_personal_write_record, of _ _ _
          "home_dirs ?store \<union> home_record_paths (pl_uuid L) ?store (ps_id r)"]]])
      (auto intro: agrees_off_mono)
  have filled: "io_triple (agrees_off (home_dirs ?store \<union> home_record_paths (pl_uuid L) ?store (ps_id (?new i now))) M)
      (fill_personal L E (?new i now)) ?Q (\<lambda>_ _. True)" for i now
    by (rule triple_weaken [OF triple_conj [OF fill_copies [OF assms] yields_fill_personal]])
      (auto simp: home_core_def new_personal_def home_as_asked_def)
  have reverted: "io_triple (\<lambda>_. True) (revert_personal L E r e) ?Q (\<lambda>_ _. True)" for r e
    unfolding revert_personal_def Let_def
    by (rule triple_match [OF triple_any]; rule triple_bind [OF triple_any]; rule triple_match [OF triple_any];
        rule triple_match [OF triple_any]; rule triple_throw; simp)
  have drawn: "io_triple (agrees_off (home_dirs ?store) M) new_v4 (\<lambda>_. agrees_off (home_dirs ?store) M) (\<lambda>_ _. True)"
      "io_triple (agrees_off (home_dirs ?store) M) utc_now (\<lambda>_. agrees_off (home_dirs ?store) M) (\<lambda>_ _. True)"
      "io_triple (agrees_off (home_dirs ?store) M) (personal_creation_allowed L E) (\<lambda>_. agrees_off (home_dirs ?store) M) (\<lambda>_ _. True)"
    by (rule triple_weaken [OF triple_agrees]; (intro io_rules)?; simp)+
  show ?thesis
    unfolding personal_create_locked_def Let_def
    by (rule triple_bind [OF drawn(3)], rule triple_bind [OF drawn(1)], rule triple_bind [OF drawn(2)], rule triple_lift,
        rule triple_bind [OF written], rule triple_match [OF filled])
      (auto intro!: triple_return reverted split: prod.split)
qed

lemma create_copies:
  assumes "home_ready (pl_uuid L) E M"
  shows "io_triple (\<lambda>w. map_of (nodes w) = M) (personal_create L E layout title reason schedule pinned kind)
    (\<lambda>r w. home_finished L E M r w \<and> home_as_asked title reason schedule pinned kind r) (\<lambda>_ _. True)"
proof -
  let ?S = "home_dirs (pse_store_root E)"
  have steps: "touches ?S (ensure_space L E)" "touches ?S (ensure_directories E)" "touches ?S (personal_acquire E)"
    by (rule home_probes_quiet, (intro io_rules; simp)+)
  have "io_triple (agrees_off ?S M) (personal_create L E layout title reason schedule pinned kind)
      (\<lambda>r w. home_finished L E M r w \<and> home_as_asked title reason schedule pinned kind r) (\<lambda>_ _. True)"
    unfolding personal_create_def
    by (rule triple_lift, rule triple_lift, rule triple_lift, rule triple_lift, rule triple_agrees_then [OF steps(1)],
        rule triple_agrees_then [OF steps(2)], rule triple_agrees_then [OF steps(3)], rule create_locked_copies [OF assms]) simp_all
  then show ?thesis by (rule triple_weaken) (simp_all add: agrees_off_def)
qed

end

subsection \<open>Deletion\<close>

definition home_locks :: "uuid_lib \<Rightarrow> path \<Rightarrow> uuid \<Rightarrow> path set" where
  "home_locks U store i =
     {personal_lock_path store, transactions_dir store @ [''start.lock''], personal_browse_lock_path U store i}"

definition home_unreferenced :: "personal_libs \<Rightarrow> path \<Rightarrow> (path \<Rightarrow> inode option) \<Rightarrow> uuid \<Rightarrow> bool \<Rightarrow> bool" where
  "home_unreferenced L store M i purge_history \<longleftrightarrow>
     M (pending_path (transactions_dir store)) = None
     \<or> (\<exists>t. pending_decodes (pl_uuid L) (pl_tx L) (M (pending_path (transactions_dir store))) t
          \<and> tx_factory_home_snapshot_id t \<noteq> Some i \<and> (purge_history \<or> tx_fallback_home_snapshot_id t \<noteq> Some i))"

text \<open>The inode of a metadata file holds the text of the valid record \<open>r\<close> with the identifier \<open>i\<close>.\<close>

definition home_records :: "personal_libs \<Rightarrow> uuid \<Rightarrow> inode option \<Rightarrow> PersonalSnapshotRecord \<Rightarrow> bool" where
  "home_records L i node r \<longleftrightarrow>
     PersonalSnapshotRecord_validate (pl_uuid L) r = Inr () \<and> hyphenated (pl_uuid L) (ps_id r) = hyphenated (pl_uuid L) i
     \<and> slot_holds (\<lambda>b. length b \<le> PERSONAL_MAX_METADATA_BYTES \<and> pl_parse L b = Inr r) node"

definition home_deletion_allowed ::
  "personal_libs \<Rightarrow> path \<Rightarrow> (path \<Rightarrow> inode option) \<Rightarrow> uuid \<Rightarrow> bool \<Rightarrow> bool \<Rightarrow> PersonalSnapshotRecord \<Rightarrow> bool" where
  "home_deletion_allowed L store M i allow_protected purge_history r \<longleftrightarrow>
     home_records L i (M (personal_metadata_path (pl_uuid L) store i)) r
     \<and> home_unreferenced L store M i purge_history
     \<and> (ps_kind r = PersonalFactory \<longrightarrow> allow_protected \<and> \<not> purge_history)
     \<and> (allow_protected \<or> purge_history \<or> PersonalSnapshotRecord_can_delete r)"

lemma triple_engine_load:
  assumes "hyphenated (pl_uuid L) i \<noteq> []"
  shows "io_triple (\<lambda>w. map_of (nodes w) = M) (engine_load L E i)
    (\<lambda>r w. map_of (nodes w) = M \<and> home_records L i (M (personal_metadata_path (pl_uuid L) (pse_store_root E) i)) r)
    (\<lambda>_ w. map_of (nodes w) = M)"
proof -
  let ?p = "personal_metadata_path (pl_uuid L) (pse_store_root E) i" and ?P = "\<lambda>w. map_of (nodes w) = M"
  have inspect: "io_triple ?P (io_map_err f (symlink_metadata ?p)) (\<lambda>m w. ?P w \<and> M ?p = Some m) (\<lambda>_. ?P)" for f :: "io_error \<Rightarrow> PersonalError"
    by (rule triple_map_err) (auto simp: io_triple_def symlink_metadata_def syscall_def tick_def split: option.splits)
  have opened: "io_triple ?P (io_map_err f (open_read ?p)) (\<lambda>_. ?P) (\<lambda>_. ?P)" for f :: "io_error \<Rightarrow> PersonalError"
    by (rule triple_frozen) (intro io_rules)
  have content: "io_triple ?P (io_map_err f (read_to_end ?p n))
      (\<lambda>b w. ?P w \<and> (\<forall>m c. M ?p = Some m \<longrightarrow> ftype m = Regular c \<longrightarrow> b = take n c)) (\<lambda>_. ?P)" for f :: "io_error \<Rightarrow> PersonalError" and n
    by (rule triple_map_err)
      (auto simp: io_triple_def read_to_end_def syscall_def tick_def split: option.splits file_type.splits)
  show ?thesis
    unfolding engine_load_def personal_load_def personal_read_record_path_def
    by (rule triple_bind [OF inspect], rule triple_pure, rule triple_if, rule triple_throw, simp, rule triple_lift,
        rule triple_bind [OF opened], rule triple_bind [OF content], rule triple_pure, rule triple_if, rule triple_throw, simp)
      (auto simp: home_records_def slot_holds_def regular_content_def split: sum.split file_type.splits
        intro!: triple_throw triple_lift triple_if triple_return dest: personal_filename_id_metadata [OF assms])
qed

lemma home_records_unique: "home_records L i node r \<Longrightarrow> home_records L j node q \<Longrightarrow> r = q"
  by (auto simp: home_records_def slot_holds_def)

lemma triple_home_unreferenced:
  "io_triple (\<lambda>w. map_of (nodes w) = M) (ensure_home_unreferenced L E i purge)
    (\<lambda>_ w. map_of (nodes w) = M \<and> home_unreferenced L (pse_store_root E) M i purge) (\<lambda>_ w. map_of (nodes w) = M)"
  unfolding ensure_home_unreferenced_def
  by (rule triple_bind [OF triple_map_err [OF triple_load_pending]], rule triple_pure, rule triple_if, rule triple_throw, simp,
      rule triple_return)
    (auto simp: home_unreferenced_def split: option.splits)

definition home_kind_allows :: "bool \<Rightarrow> bool \<Rightarrow> PersonalSnapshotRecord \<Rightarrow> bool" where
  "home_kind_allows allow_protected purge_history r \<longleftrightarrow>
     (ps_kind r = PersonalFactory \<longrightarrow> allow_protected \<and> \<not> purge_history)
     \<and> (allow_protected \<or> purge_history \<or> PersonalSnapshotRecord_can_delete r)"

lemma triple_home_deletable:
  "io_triple (\<lambda>w. map_of (nodes w) = M) (ensure_home_deletable L E allow purge r)
    (\<lambda>_ w. map_of (nodes w) = M \<and> home_kind_allows allow purge r) (\<lambda>_ w. map_of (nodes w) = M)"
  unfolding ensure_home_deletable_def
  by (rule triple_if, rule triple_throw, simp, rule triple_if, rule triple_throw, simp, rule triple_if,
      rule triple_frozen_then, intro io_rules, rule triple_if, rule triple_throw, simp, rule triple_return)
    (auto simp: home_kind_allows_def intro: triple_return)

lemma home_locks_outside:
  "personal_metadata_path U store i \<notin> home_locks U store j" "pending_path (transactions_dir store) \<notin> home_locks U store j"
  by (auto simp: home_locks_def personal_metadata_path_def personal_lock_path_def transactions_dir_def
      personal_browse_lock_path_def pending_path_def)

lemma touches_transaction_lock: "touches (home_locks (pl_uuid L) (pse_store_root E) i) (personal_transaction_lock E)"
  unfolding personal_transaction_lock_def by (intro io_rules touches_acquire) (simp add: home_locks_def)

text \<open>Up to the durable mark only locks change, and the mark is written only when it is allowed.\<close>

lemma triple_home_delete:
  fixes L E i allow purge M
  assumes "hyphenated (pl_uuid L) i \<noteq> []"
  defines "S \<equiv> home_locks (pl_uuid L) (pse_store_root E) i"
  defines "G \<equiv> \<lambda>w. agrees_off S M w \<or> (\<exists>r. home_deletion_allowed L (pse_store_root E) M i allow purge r)"
  shows "io_triple (agrees_off S M) (personal_delete_locked L E i allow purge) (\<lambda>_. G) (\<lambda>_. G)"
proof -
  let ?p = "personal_metadata_path (pl_uuid L) (pse_store_root E) i"
  have out: "N ?p = M ?p" "home_unreferenced L (pse_store_root E) N i purge = home_unreferenced L (pse_store_root E) M i purge"
    if "\<forall>k. k \<notin> S \<longrightarrow> N k = M k" for N
    using that home_locks_outside by (simp_all add: S_def home_unreferenced_def)
  have G: "agrees_off S M w \<Longrightarrow> G w" for w by (simp add: G_def)
  have free: "io_triple P m (\<lambda>_. G) (\<lambda>_. G)" if "home_deletion_allowed L (pse_store_root E) M i allow purge r"
    for P and m :: "(PersonalError, 'y) io" and r
    using that by (auto simp: io_triple_def G_def split: prod.splits sum.splits)
  have still: "io_triple (\<lambda>w. map_of (nodes w) = N) m (\<lambda>x w. map_of (nodes w) = N \<and> Q x) (\<lambda>_. G)"
    if "\<forall>k. k \<notin> S \<longrightarrow> N k = M k" "io_triple (\<lambda>w. map_of (nodes w) = N) m (\<lambda>x w. map_of (nodes w) = N \<and> Q x) (\<lambda>_ w. map_of (nodes w) = N)"
    for N m Q
    using that(2) by (rule triple_weaken) (use that(1) in \<open>auto simp: G_def agrees_off_def\<close>)
  have free_of: "io_triple (agrees_off S M) (ensure_home_unreferenced L E i purge)
      (\<lambda>_ w. agrees_off S M w \<and> home_unreferenced L (pse_store_root E) M i purge) (\<lambda>_. G)"
  proof (rule triple_settle)
    fix N assume agree: "\<forall>k. k \<notin> S \<longrightarrow> N k = M k"
    show "io_triple (\<lambda>w. map_of (nodes w) = N) (ensure_home_unreferenced L E i purge)
        (\<lambda>_ w. agrees_off S M w \<and> home_unreferenced L (pse_store_root E) M i purge) (\<lambda>_. G)"
      by (rule triple_weaken [OF triple_home_unreferenced]) (use agree out(2) [OF agree] in \<open>auto simp: agrees_off_def G_def\<close>)
  qed
  have guarded: "io_triple (\<lambda>w. map_of (nodes w) = N)
      (io_bind (ensure_home_deletable L E allow purge r) (\<lambda>_.
       io_bind (home_snapshot_exists p) (\<lambda>there.
       io_bind (personal_write_record L E q) (\<lambda>_. erase_personal L E i there)))) (\<lambda>_. G) (\<lambda>_. G)"
    if agree: "\<forall>k. k \<notin> S \<longrightarrow> N k = M k" and "home_records L i (N ?p) r" "home_unreferenced L (pse_store_root E) M i purge" for N r p q
  proof -
    have "home_deletion_allowed L (pse_store_root E) M i allow purge r" if "home_kind_allows allow purge r"
      using \<open>home_kind_allows allow purge r\<close> \<open>home_records L i (N ?p) r\<close> out(1) [OF agree] \<open>home_unreferenced L (pse_store_root E) M i purge\<close>
      by (simp add: home_deletion_allowed_def home_kind_allows_def)
    then show ?thesis
      by (intro triple_bind [OF still [OF agree triple_home_deletable]] triple_pure free)
  qed
  have loaded: "io_triple (agrees_off S M) (io_bind (engine_load L E i) (\<lambda>r.
      io_bind (ensure_home_deletable L E allow purge r) (\<lambda>_.
      io_bind (home_snapshot_exists p) (\<lambda>there.
      io_bind (personal_write_record L E (r\<lparr>ps_state := PersonalDeleting\<rparr>)) (\<lambda>_. erase_personal L E i there))))) (\<lambda>_. G) (\<lambda>_. G)"
    if "home_unreferenced L (pse_store_root E) M i purge" for p
    by (rule triple_settle, rule triple_bind [OF still [OF _ triple_engine_load [OF assms(1)]]], assumption, rule triple_pure,
        rule guarded [OF _ _ that])
  have browse: "touches S (StoreLock_acquire_nonblocking (personal_browse_lock_path (pl_uuid L) (pse_store_root E) i))"
    by (intro io_rules) (simp add: S_def home_locks_def)
  show ?thesis
    unfolding personal_delete_locked_def Let_def
    by (rule triple_agrees_then [OF touches_transaction_lock [of L E i, folded S_def]], rule triple_bind [OF free_of], rule triple_pure,
        rule triple_agrees_then [OF browse], rule loaded) (auto intro: G)
qed

context home_runner
begin

lemma home_delete_frame:
  assumes "hyphenated (pl_uuid L) i \<noteq> []"
  shows "touches (home_paths (pl_uuid L) (pse_store_root E) i \<union> home_locks (pl_uuid L) (pse_store_root E) i)
     (personal_delete_locked L E i allow purge)"
proof -
  let ?S = "home_paths (pl_uuid L) (pse_store_root E) i \<union> home_locks (pl_uuid L) (pse_store_root E) i"
  have mark: "touches ?S (personal_write_record L E q)" if "hyphenated (pl_uuid L) (ps_id q) = hyphenated (pl_uuid L) i" for q
    by (rule touches_mono [OF touches_personal_write_record])
      (use that in \<open>auto simp: home_paths_def home_record_paths_def personal_metadata_path_def personal_temporary_def\<close>)
  have erase: "touches ?S (erase_personal L E i there)" for there
    unfolding erase_personal_def Let_def
    by (intro io_rules touches_remove_dir run_frame touches_mono [OF delete_frame])
      (use home_container_paths in \<open>auto simp: subset_iff\<close>)
  have loaded: "io_triple (\<lambda>_. True) (engine_load L E i)
      (\<lambda>r _. hyphenated (pl_uuid L) (ps_id r) = hyphenated (pl_uuid L) i) (\<lambda>_ _. True)"
    by (rule triple_from_any [where f = "\<lambda>w. map_of (nodes w)"], rule triple_weaken [OF triple_engine_load [OF assms]])
      (auto simp: home_records_def)
  have browse: "touches ?S (StoreLock_acquire_nonblocking (personal_browse_lock_path (pl_uuid L) (pse_store_root E) i))"
    by (intro io_rules) (simp add: home_locks_def)
  show ?thesis
    unfolding personal_delete_locked_def Let_def
    by (rule touches_bind, rule touches_mono [OF touches_transaction_lock [of L E i]], simp, rule touches_bind, intro io_rules,
        rule touches_bind, rule browse, rule touches_bind_yields [OF touches_personal_reads(2) loaded])
      (intro io_rules mark erase; simp)
qed

end

subsection \<open>What discovery reports\<close>

lemma read_record_path_quiet:
  assumes "fault_free w"
  shows "\<exists>x w'. personal_read_record_path U J p w = (x, w') \<and> fault_free w' \<and> nodes w' = nodes w"
  using assms
  by (auto simp: personal_read_record_path_def io_exec split: option.splits sum.splits file_type.splits)

lemma read_record_path_reads:
  assumes "fault_free w" and "hyphenated U (ps_id r) \<noteq> []" and "uuid_displays U (ps_id r)"
    and "PersonalSnapshotRecord_validate U r = Inr ()"
    and "slot_holds (\<lambda>b. length b \<le> PERSONAL_MAX_METADATA_BYTES \<and> J b = Inr r) (map_of (nodes w) (personal_metadata_path U store (ps_id r)))"
  shows "\<exists>w'. personal_read_record_path U J (personal_metadata_path U store (ps_id r)) w = (Inr r, w')"
proof -
  obtain i b where content: "map_of (nodes w) (personal_metadata_path U store (ps_id r)) = Some i" "ftype i = Regular b"
    "length b \<le> PERSONAL_MAX_METADATA_BYTES" "J b = Inr r"
    using assms(5) by (auto simp: slot_holds_def)
  have "personal_filename_id U (personal_metadata_path U store (ps_id r)) = Inr (ps_id r)"
    using assms(2,3) file_stem_json [OF assms(2), of "store @ [''personal'', ''metadata'']"]
    by (simp add: personal_filename_id_def personal_metadata_path_def uuid_displays_def)
  with content assms(1,4) show ?thesis
    by (simp add: personal_read_record_path_def io_exec regular_content_def)
qed

lemma discover_entries_reports:
  assumes "hyphenated (pl_uuid L) (ps_id r) \<noteq> []" and "uuid_displays (pl_uuid L) (ps_id r)"
    and "PersonalSnapshotRecord_validate (pl_uuid L) r = Inr ()" and "ps_state r \<noteq> PersonalDeleting"
    and "slot_holds (\<lambda>b. length b \<le> PERSONAL_MAX_METADATA_BYTES \<and> pl_parse L b = Inr r)
      (map_of ns (personal_metadata_path (pl_uuid L) store (ps_id r)))"
    and "map_of ns (personal_snapshot_path (pl_uuid L) store (ps_id r)) = None"
    and "fault_free w" and "nodes w = ns"
  shows "\<exists>rep w'. (personal_discover_entries L store names report :: (PersonalError, PersonalDiscovery) io) w = (Inr rep, w')
    \<and> (hyphenated (pl_uuid L) (ps_id r) @ ''.json'' \<in> set names \<or> pd_issues report \<noteq> [] \<longrightarrow> pd_issues rep \<noteq> [])
    \<and> (r \<in> set (pd_snapshots rep) \<longrightarrow> r \<in> set (pd_snapshots report))"
  using assms(7,8)
proof (induction names arbitrary: report w)
  case Nil
  then show ?case by (simp add: io_return_def)
next
  case (Cons n names)
  let ?D = "personal_discover_entries L store :: string list \<Rightarrow> PersonalDiscovery \<Rightarrow> (PersonalError, PersonalDiscovery) io"
  let ?p = "personal_metadata_root store @ [n]"
  let ?goal = "\<lambda>run. \<exists>rep w'. run = (Inr rep, w')
    \<and> (hyphenated (pl_uuid L) (ps_id r) @ ''.json'' \<in> set (n # names) \<or> pd_issues report \<noteq> [] \<longrightarrow> pd_issues rep \<noteq> [])
    \<and> (r \<in> set (pd_snapshots rep) \<longrightarrow> r \<in> set (pd_snapshots report))"
  have mine: "?p = personal_metadata_path (pl_uuid L) store (ps_id r)" if "n = hyphenated (pl_uuid L) (ps_id r) @ ''.json''"
    using that by (simp add: personal_metadata_root_def personal_metadata_path_def)
  have json: "file_extension ?p = Some ''json''" if "n = hyphenated (pl_uuid L) (ps_id r) @ ''.json''"
    using that assms(1) file_extension_json [of "hyphenated (pl_uuid L) (ps_id r)"] by simp
  have tick: "fault_free (tick w)" "nodes (tick w) = ns" using Cons.prems by simp_all
  obtain x v where read: "personal_read_record_path (pl_uuid L) (pl_parse L) ?p (tick w) = (x, v)" "fault_free v" "nodes v = ns"
    using read_record_path_quiet [OF tick(1)] tick(2) by metis
  have known: "x = Inr r" if "n = hyphenated (pl_uuid L) (ps_id r) @ ''.json''"
    using read_record_path_reads [of "tick w" "pl_uuid L" r "pl_parse L" store] read(1) mine [OF that] tick assms(1-3,5) by auto
  have skip: "?goal (?D names (report\<lparr>pd_issues := pd_issues report @ [i]\<rparr>) u)"
    if u: "fault_free u" "nodes u = ns" for i u
  proof -
    obtain rep w' where "?D names (report\<lparr>pd_issues := pd_issues report @ [i]\<rparr>) u = (Inr rep, w')"
      "hyphenated (pl_uuid L) (ps_id r) @ ''.json'' \<in> set names \<or> pd_issues ((report\<lparr>pd_issues := pd_issues report @ [i]\<rparr>)) \<noteq> [] \<longrightarrow> pd_issues rep \<noteq> []"
      "r \<in> set (pd_snapshots rep) \<longrightarrow> r \<in> set (pd_snapshots ((report\<lparr>pd_issues := pd_issues report @ [i]\<rparr>)))"
      using Cons.IH [OF u(1,2), of "report\<lparr>pd_issues := pd_issues report @ [i]\<rparr>"] by blast
    then show ?thesis by (intro exI [of _ rep] exI [of _ w']) (use u in auto)
  qed
  have keep: "?goal (?D names report u)"
    if u: "fault_free u" "nodes u = ns" "n \<noteq> hyphenated (pl_uuid L) (ps_id r) @ ''.json''" for u
  proof -
    obtain rep w' where "?D names report u = (Inr rep, w')"
      "hyphenated (pl_uuid L) (ps_id r) @ ''.json'' \<in> set names \<or> pd_issues (report) \<noteq> [] \<longrightarrow> pd_issues rep \<noteq> []"
      "r \<in> set (pd_snapshots rep) \<longrightarrow> r \<in> set (pd_snapshots (report))"
      using Cons.IH [OF u(1,2), of report] by blast
    then show ?thesis by (intro exI [of _ rep] exI [of _ w']) (use u in auto)
  qed
  have add: "?goal (?D names (report\<lparr>pd_snapshots := pd_snapshots report @ [q]\<rparr>) u)"
    if u: "fault_free u" "nodes u = ns" "n \<noteq> hyphenated (pl_uuid L) (ps_id r) @ ''.json''" "q \<noteq> r" for q u
  proof -
    obtain rep w' where "?D names (report\<lparr>pd_snapshots := pd_snapshots report @ [q]\<rparr>) u = (Inr rep, w')"
      "hyphenated (pl_uuid L) (ps_id r) @ ''.json'' \<in> set names \<or> pd_issues ((report\<lparr>pd_snapshots := pd_snapshots report @ [q]\<rparr>)) \<noteq> [] \<longrightarrow> pd_issues rep \<noteq> []"
      "r \<in> set (pd_snapshots rep) \<longrightarrow> r \<in> set (pd_snapshots ((report\<lparr>pd_snapshots := pd_snapshots report @ [q]\<rparr>)))"
      using Cons.IH [OF u(1,2), of "report\<lparr>pd_snapshots := pd_snapshots report @ [q]\<rparr>"] by blast
    then show ?thesis by (intro exI [of _ rep] exI [of _ w']) (use u in auto)
  qed
  note run = io_exec Let_def discovery_issue_def
  show ?case
  proof (cases "file_extension ?p = Some ''json''")
    case False
    then have "?D (n # names) report w = ?D names report (tick w)" using Cons.prems by (auto simp: run)
    with keep [OF tick] json False show ?thesis by metis
  next
    case True
    show ?thesis
    proof (cases x)
      case (Inl e)
      with True read(1) Cons.prems have "?D (n # names) report w = ?D names (report\<lparr>pd_issues := pd_issues report
          @ [\<lparr>pdi_entry = from_utf8_lossy n, pdi_message = pe_message e\<rparr>]\<rparr>) v"
        by (auto simp: run)
      with skip [OF read(2,3)] show ?thesis by metis
    next
      case (Inr q)
      let ?s = "personal_snapshot_path (pl_uuid L) store (ps_id q)"
      have ticked: "fault_free (tick v)" "nodes (tick v) = ns" using read by simp_all
      have same: "v\<lparr>nodes := ns\<rparr> = v" "w\<lparr>nodes := ns\<rparr> = w" using read(3) Cons.prems(2) by auto
      consider i where "?D (n # names) report w = ?D names (report\<lparr>pd_issues := pd_issues report @ [i]\<rparr>) (tick v)"
        | "?D (n # names) report w = ?D names (report\<lparr>pd_snapshots := pd_snapshots report @ [q]\<rparr>) (tick v)"
          "map_of ns ?s \<noteq> None \<or> ps_state q = PersonalDeleting"
        using True read Inr Cons.prems
        by (cases "map_of ns ?s"; cases "ps_state q = PersonalDeleting";
            cases "ftype (the (map_of ns ?s)) = Directory"; simp add: run same enoent_def)
      then show ?thesis
      proof cases
        case 1
        with skip [OF ticked] show ?thesis by metis
      next
        case 2
        then have "q \<noteq> r" using assms(4,6) by auto
        with known Inr have "n \<noteq> hyphenated (pl_uuid L) (ps_id r) @ ''.json''" by auto
        from add [OF ticked this \<open>q \<noteq> r\<close>] 2 show ?thesis by metis
      qed
    qed
  qed
qed

subsection \<open>The three deletions\<close>

lemma home_deletion_facts:
  assumes "home_runner L E" and "hyphenated (pl_uuid L) i \<noteq> []"
    and "(m, allow, purge) \<in> {(personal_delete L E layout i, False, False), (personal_delete_factory L E layout i, True, False),
      (personal_delete_factory_reset_history L E layout i, False, True)}"
  shows "(\<forall>k. k \<notin> home_paths (pl_uuid L) (pse_store_root E) i \<union> home_locks (pl_uuid L) (pse_store_root E) i \<longrightarrow>
      map_of (nodes (snd (m w))) k = map_of (nodes w) k)
    \<and> ((\<forall>k. k \<notin> home_locks (pl_uuid L) (pse_store_root E) i \<longrightarrow> map_of (nodes (snd (m w))) k = map_of (nodes w) k)
       \<or> (\<exists>r. home_deletion_allowed L (pse_store_root E) (map_of (nodes w)) i allow purge r
            \<and> (allow \<longrightarrow> ps_kind r = PersonalFactory)))"
proof -
  let ?S = "home_locks (pl_uuid L) (pse_store_root E) i" and ?M = "map_of (nodes w)"
  let ?p = "personal_metadata_path (pl_uuid L) (pse_store_root E) i"
  let ?G = "\<lambda>w'. agrees_off ?S ?M w' \<or> (\<exists>r. home_deletion_allowed L (pse_store_root E) ?M i allow purge r
            \<and> (allow \<longrightarrow> ps_kind r = PersonalFactory))"
  have lock: "touches ?S (personal_acquire E)"
    unfolding personal_acquire_def by (intro io_rules) (simp add: home_locks_def)
  have plain: "io_triple (agrees_off ?S ?M) (personal_delete_locked L E i allow purge) (\<lambda>_. ?G) (\<lambda>_. ?G)" if "\<not> allow"
    by (rule triple_weaken [OF triple_home_delete [OF assms(2)]]) (use that in auto)
  have factory: "io_triple (agrees_off ?S ?M) (io_bind (engine_load L E i) (\<lambda>r.
      if ps_kind r \<noteq> PersonalFactory then io_throw e else personal_delete_locked L E i allow purge)) (\<lambda>_. ?G) (\<lambda>_. ?G)" for e
  proof (rule triple_settle)
    fix N assume agree: "\<forall>k. k \<notin> ?S \<longrightarrow> N k = ?M k"
    then have p: "N ?p = ?M ?p" using home_locks_outside(1) by blast
    have body: "io_triple (\<lambda>w. map_of (nodes w) = N) (personal_delete_locked L E i allow purge) (\<lambda>_. ?G) (\<lambda>_. ?G)"
      if "home_records L i (N ?p) r" "ps_kind r = PersonalFactory" for r
      by (rule triple_weaken [OF triple_home_delete [OF assms(2), of E ?M]])
        (use that agree p in \<open>auto simp: agrees_off_def home_deletion_allowed_def dest: home_records_unique\<close>)
    have load: "io_triple (\<lambda>w. map_of (nodes w) = N) (engine_load L E i)
        (\<lambda>r w. map_of (nodes w) = N \<and> home_records L i (N ?p) r) (\<lambda>_. ?G)"
      by (rule triple_weaken [OF triple_engine_load [OF assms(2)]]) (use agree in \<open>auto simp: agrees_off_def\<close>)
    show "io_triple (\<lambda>w. map_of (nodes w) = N) (io_bind (engine_load L E i) (\<lambda>r.
        if ps_kind r \<noteq> PersonalFactory then io_throw e else personal_delete_locked L E i allow purge)) (\<lambda>_. ?G) (\<lambda>_. ?G)"
      by (rule triple_bind [OF load], rule triple_pure, rule triple_if, rule triple_throw)
        (use agree body in \<open>auto simp: agrees_off_def\<close>)
  qed
  consider "m = personal_delete L E layout i" "\<not> allow" "\<not> purge" | "m = personal_delete_factory L E layout i" "allow" "\<not> purge"
    | "m = personal_delete_factory_reset_history L E layout i" "\<not> allow" "purge"
    using assms(3) by auto
  then have triple: "io_triple (agrees_off ?S ?M) m (\<lambda>_. ?G) (\<lambda>_. ?G)"
  proof cases
    case 1
    have "io_triple (agrees_off ?S ?M) (personal_delete L E layout i) (\<lambda>_. ?G) (\<lambda>_. ?G)"
      unfolding personal_delete_def by (rule triple_lift, rule triple_agrees_then [OF lock]) (use plain 1 in auto)
    with 1 show ?thesis by simp
  next
    case 2
    then have flags: "allow = True" "purge = False" by simp_all
    have located: "io_triple (agrees_off ?S ?M) (io_bind (engine_load L E i) (\<lambda>r.
        if ps_kind r \<noteq> PersonalFactory then io_throw e else personal_delete_locked L E i True False)) (\<lambda>_. ?G) (\<lambda>_. ?G)" for e
      using factory [of e] unfolding flags .
    have "io_triple (agrees_off ?S ?M) (personal_delete_factory L E layout i) (\<lambda>_. ?G) (\<lambda>_. ?G)"
      unfolding personal_delete_factory_def
      by (rule triple_lift, rule triple_agrees_then [OF lock]) (rule located, simp_all)
    with 2 show ?thesis by simp
  next
    case 3
    have "io_triple (agrees_off ?S ?M) (personal_delete_factory_reset_history L E layout i) (\<lambda>_. ?G) (\<lambda>_. ?G)"
      unfolding personal_delete_factory_reset_history_def
      by (rule triple_lift, rule triple_agrees_then [OF lock]) (use plain 3 in auto)
    with 3 show ?thesis by simp
  qed
  have locked: "touches (home_paths (pl_uuid L) (pse_store_root E) i \<union> ?S) (personal_acquire E)"
    by (rule touches_mono [OF lock]) simp
  have frame: "touches (home_paths (pl_uuid L) (pse_store_root E) i \<union> ?S) m"
  proof -
    have "touches (home_paths (pl_uuid L) (pse_store_root E) i \<union> ?S) (personal_delete L E layout i)"
      "touches (home_paths (pl_uuid L) (pse_store_root E) i \<union> ?S) (personal_delete_factory L E layout i)"
      "touches (home_paths (pl_uuid L) (pse_store_root E) i \<union> ?S) (personal_delete_factory_reset_history L E layout i)"
      unfolding personal_delete_def personal_delete_factory_def personal_delete_factory_reset_history_def
      by (rule touches_bind, rule touches_lift, rule touches_bind, rule locked;
          (intro io_rules)?; (rule home_runner.home_delete_frame [OF assms(1,2)])?)+
    with assms(3) show ?thesis by auto
  qed
  have "?G (snd (m w))"
    using io_tripleD_ok [OF triple, of w] io_tripleD_err [OF triple, of w]
    by (cases "m w"; cases "fst (m w)") (auto simp: agrees_off_def)
  with frame show ?thesis by (auto simp: agrees_off_def touches_def)
qed

subsection \<open>A simulated machine\<close>

fun simulated_home :: command where
  "simulated_home [Arg a, Arg b, PathArg p] =
     (if b = ''show'' then syscall (\<lambda>ns. (Inr (command_ok (''UUID: u1'' @ newline @ ''Parent UUID: u2'')), ns))
      else simulated_btrfs [Arg a, Arg b, PathArg p])"
| "simulated_home args = simulated_snapshots args"

definition home_engine :: PersonalSnapshotEngine where
  "home_engine =
     \<lparr>pse_home_root = [''h''], pse_store_root = [''r''], pse_runner = system_command_runner (\<lambda>_. simulated_home),
      pse_minimum_free_bytes = 0\<rparr>"

text \<open>A snapshot whose creation failed and that was pinned: its record stays, its directory is gone.\<close>

definition broken_home :: PersonalSnapshotRecord where
  "broken_home =
     \<lparr>ps_schema_version = 1, ps_id = 2, ps_kind = PersonalManual, ps_state = PersonalBroken, ps_created_at = 0,
      ps_title = ''T'', ps_reason = ''R'', ps_schedule_id = None, ps_snapshot_uuid = None, ps_snapshot_parent_uuid = None,
      ps_pinned = True, ps_failure = Some ''no space''\<rparr>"

definition home_libs :: personal_libs where
  "home_libs =
     \<lparr>pl_uuid = example_uuid_lib, pl_tx = example_tx_json, pl_dep = example_dep_json, pl_parse = (\<lambda>_. Inr broken_home),
      pl_print = (\<lambda>_. Inr ''P''), pl_statvfs = (\<lambda>_. io_throw enoent)\<rparr>"

definition plain_dir :: inode where "plain_dir = \<lparr>ftype = Directory, mode = 0, uid = 0, gid = 0\<rparr>"

definition home_world :: world where
  "home_world =
     \<lparr>nodes = [([], plain_dir), ([''h''], plain_dir), ([''h'', ''file''], \<lparr>ftype = Regular ''data'', mode = 0, uid = 0, gid = 0\<rparr>),
       ([''r''], plain_dir), ([''r'', ''personal''], plain_dir), ([''r'', ''personal'', ''metadata''], plain_dir),
       ([''r'', ''personal'', ''snapshots''], plain_dir), ([''r'', ''personal'', ''browse-locks''], plain_dir)],
      ticks = 0, fault = (\<lambda>_. None), clock = (\<lambda>_. 0), entropy = (\<lambda>_. 2)\<rparr>"

definition broken_home_world :: world where
  "broken_home_world = home_world\<lparr>nodes := ([''r'', ''personal'', ''metadata'', ''u2.json''],
     \<lparr>ftype = Regular (''P'' @ newline), mode = 0, uid = 0, gid = 0\<rparr>) # nodes home_world\<rparr>"

interpretation home: home_copier home_libs home_engine
proof
  note laws = simulated_behaves [unfolded btrfs_behaves_def]
  note runner = system_runner_frame [where run = "\<lambda>_. simulated_home"]
  show "touches (under q) (pse_runner home_engine BTRFS (btrfs_snapshot_readonly p q))" for p q
    using map_of_fs_copy_other [of q _ p]
    by (fastforce simp: home_engine_def btrfs_snapshot_readonly_def under_def intro!: runner touches_simulated_change)
  show "touches (under p) (pse_runner home_engine BTRFS (btrfs_delete p))" for p
    using laws by (auto simp: home_engine_def btrfs_delete_def intro!: runner)
  show "touches {} (pse_runner home_engine BTRFS (btrfs_show p))" for p
    by (auto simp: home_engine_def btrfs_show_def intro!: runner touches_syscall)
  show "touches {} (pse_runner home_engine BTRFS (btrfs_property p))" for p
    by (auto simp: home_engine_def btrfs_property_def intro!: runner touches_syscall)
  show "touches {} (pse_runner home_engine BTRFS (btrfs_sync p))" for p
    using laws by (auto simp: home_engine_def btrfs_sync_def intro!: runner)
  show "touches {} (pse_runner home_engine BTRFS (btrfs_show_plain p))" for p
    by (auto simp: home_engine_def btrfs_show_plain_def intro!: runner touches_syscall)
  show "touches {} (pse_runner home_engine BTRFS (btrfs_list p))" for p
    using laws by (auto simp: home_engine_def btrfs_list_def intro!: runner)
  show "touches {} (pl_statvfs home_libs p)" for p
    by (simp add: home_libs_def touches_throw)
  show "map_of (nodes w') (q @ r) = map_of (nodes w) (p @ r)"
    if "apart p q" "pse_runner home_engine BTRFS (btrfs_snapshot_readonly p q) w = (Inr b, w')" for p q w b w' r
  proof -
    from that(2) obtain out where "simulated_home (btrfs_snapshot_readonly p q) w = (Inr out, w')" "success out"
      by (auto simp: home_engine_def system_command_runner_def Let_def io_bind_def io_map_err_def io_match_def io_return_def io_throw_def
          split: prod.splits sum.splits if_splits)
    then show ?thesis
      using simulated_change_ok [of _ _ w out w'] map_of_fs_copy_target [OF that(1)]
      by (fastforce simp: btrfs_snapshot_readonly_def)
  qed
qed

lemma home_ready_world: "home_ready example_uuid_lib home_engine (map_of (nodes home_world))"
  by (auto simp: home_ready_def home_engine_def home_world_def apart_def snapshot_container_def)



lemma home_run_text: "validate_text ''T'' 120 x = Inr ()" "validate_text ''R'' 500 y = Inr ()"
  by code_simp+

lemma home_run_valid:
  "PersonalSnapshotRecord_validate example_uuid_lib (new_personal 2 PersonalManual 0 ''T'' ''R'' None True) = Inr ()"
  "PersonalSnapshotRecord_validate example_uuid_lib ((new_personal 2 PersonalManual 0 ''T'' ''R'' None True)
     \<lparr>ps_snapshot_uuid := Some ''u1'', ps_snapshot_parent_uuid := Some ''u2'', ps_state := PersonalReady\<rparr>) = Inr ()"
  "PersonalSnapshotRecord_validate example_uuid_lib broken_home = Inr ()"
  by code_simp+

lemma home_run_identity: "utf8_valid (''UUID: u1'' @ newline @ ''Parent UUID: u2'')"
  "personal_parse_identity example_uuid_lib (''UUID: u1'' @ newline @ ''Parent UUID: u2'') = Inr (''u1'', Some ''u2'')"
  by code_simp+

lemmas home_run_defs = personal_create_manual_def personal_create_def ensure_supported_def LayoutReport_is_supported_def
  supported_report_def check_def io_exec ensure_space_def ensure_directories_def home_engine_def personal_ensure_directory_def
  Let_def set_permissions_def plain_dir_def personal_root_def personal_metadata_root_def personal_snapshots_root_def
  personal_acquire_def StoreLock_acquire_def open_create_def personal_lock_path_def fs_is_dir_def fs_set_def fs_remove_def
  personal_create_locked_def personal_creation_allowed_def ensure_creation_allowed_def load_pending_def home_libs_def
  pending_path_def transactions_dir_def enoent_def new_v4_def utc_now_def new_personal_def personal_write_record_def
  personal_serialize_def PERSONAL_MAX_METADATA_BYTES_def reject_non_regular_target_def personal_metadata_path_def
  personal_temporary_def create_new_def replace_file_def sync_directory_def fs_rename_def fs_append_def fs_move_def rebase_def
  fs_remove_tree_def regular_content_def fill_personal_def creating_def personal_ensure_new_directory_def create_dir_def
  personal_run_btrfs_def system_command_runner_def btrfs_snapshot_readonly_def btrfs_show_plain_def btrfs_sync_def
  simulated_change_def command_ok_def snapshot_container_def personal_snapshot_identity_def free_name_def apart_def fs_copy_tree_def

lemma home_created:
  "\<exists>r w'. personal_create_manual home_libs home_engine supported_report ''T'' ''R'' True home_world = (Inr r, w')"
proof -
  have "fault_free home_world" by (simp add: fault_free_def home_world_def)
  moreover have "nodes home_world = [([], plain_dir), ([''h''], plain_dir),
       ([''h'', ''file''], \<lparr>ftype = Regular ''data'', mode = 0, uid = 0, gid = 0\<rparr>),
       ([''r''], plain_dir), ([''r'', ''personal''], plain_dir), ([''r'', ''personal'', ''metadata''], plain_dir),
       ([''r'', ''personal'', ''snapshots''], plain_dir), ([''r'', ''personal'', ''browse-locks''], plain_dir)]"
    "clock home_world = (\<lambda>_. 0)" "entropy home_world = (\<lambda>_. 2)"
    by (simp_all add: home_world_def)
  moreover have "clock (tick w) = clock w" "entropy (tick w) = entropy w" for w by (simp_all add: tick_def)
  ultimately show ?thesis
    by (simp add: home_run_defs home_run_text home_run_valid [unfolded new_personal_def, simplified] home_run_identity
        home_run_identity [simplified] example_uuid_lib_def [THEN arg_cong [where f = hyphenated]])
qed

subsection \<open>Properties\<close>

text \<open>
  Creating a Home snapshot is contained. Whatever fails, and at whatever point, there is one
  identifier such that nothing changes outside the files of that identifier and the directories
  and the lock of the personal store: Home itself and every other snapshot stay as they are.
\<close>

theorem home_snapshot_contained:
  assumes "home_runner L E"
  shows "\<exists>i. \<forall>k. k \<notin> home_paths (pl_uuid L) (pse_store_root E) i \<union> home_dirs (pse_store_root E) \<longrightarrow>
    map_of (nodes (snd (personal_create L E layout title reason schedule pinned kind w))) k = map_of (nodes w) k"
  using home_runner.personal_create_frame [OF assms, of layout title reason schedule pinned kind w] prod.collapse by metis

theorem home_snapshot_contained_witness:
  "\<exists>i. \<forall>k. k \<notin> home_paths example_uuid_lib [''r''] i \<union> home_dirs [''r''] \<longrightarrow>
    map_of (nodes (snd (personal_create home_libs home_engine supported_report ''T'' ''R'' None True PersonalManual home_world))) k
      = map_of (nodes home_world) k"
  using home_snapshot_contained [OF home.home_runner_axioms, of supported_report "''T''" "''R''" None True PersonalManual home_world]
  by (simp add: home_libs_def home_engine_def)





text \<open>
  C19. A record whose snapshot directory is missing, such as the broken record that a failed creation
  leaves behind, is reported as an issue by every discovery and never listed, unless it is being
  deleted. Creating the factory baseline, a factory reset and the purge of the history refuse to
  run while there is an issue.
\<close>

theorem missing_home_snapshot_is_issue:
  assumes "fault_free w" and "hyphenated (pl_uuid L) (ps_id r) \<noteq> []" and "uuid_displays (pl_uuid L) (ps_id r)"
    and "PersonalSnapshotRecord_validate (pl_uuid L) r = Inr ()" and "ps_state r \<noteq> PersonalDeleting"
    and "slot_holds (\<lambda>b. length b \<le> PERSONAL_MAX_METADATA_BYTES \<and> pl_parse L b = Inr r)
      (map_of (nodes w) (personal_metadata_path (pl_uuid L) (pse_store_root E) (ps_id r)))"
    and "fs_is_dir (nodes w) (personal_metadata_root (pse_store_root E))"
    and "map_of (nodes w) (personal_snapshot_path (pl_uuid L) (pse_store_root E) (ps_id r)) = None"
  shows "\<exists>rep w'. (personal_discover L E w :: (PersonalError + PersonalDiscovery) \<times> world) = (Inr rep, w')
    \<and> pd_issues rep \<noteq> [] \<and> r \<notin> set (pd_snapshots rep)"
proof -
  let ?names = "fs_children (nodes w) (personal_metadata_root (pse_store_root E))"
  let ?report = "\<lparr>pd_schema_version = PERSONAL_SNAPSHOT_SCHEMA_VERSION, pd_snapshots = [], pd_issues = []\<rparr>"
  let ?name = "hyphenated (pl_uuid L) (ps_id r) @ ''.json''"
  have "map_of (nodes w) (personal_metadata_root (pse_store_root E) @ [?name]) \<noteq> None"
    using assms(6) by (auto simp: slot_holds_def personal_metadata_root_def personal_metadata_path_def)
  then have "?name \<in> set ?names" by (rule fs_children_in)
  moreover obtain rep w' where run: "(personal_discover_entries L (pse_store_root E) ?names ?report :: (PersonalError, PersonalDiscovery) io)
      (tick w) = (Inr rep, w')"
      "?name \<in> set ?names \<or> pd_issues ?report \<noteq> [] \<longrightarrow> pd_issues rep \<noteq> []" "r \<in> set (pd_snapshots rep) \<longrightarrow> r \<in> set (pd_snapshots ?report)"
    using discover_entries_reports [OF assms(2-6,8), of "tick w" ?names ?report] assms(1) by auto
  ultimately have found: "pd_issues rep \<noteq> []" "r \<notin> set (pd_snapshots rep)" by auto
  have "read_dir (personal_metadata_root (pse_store_root E)) w = (Inr ?names, tick w)"
    using assms(1,7) by (auto simp: read_dir_def fs_is_dir_def personal_metadata_root_def split: option.splits)
  then have "(personal_discover L E w :: (PersonalError + PersonalDiscovery) \<times> world)
      = (Inr (rep\<lparr>pd_snapshots := sort_key (\<lambda>r. (- ps_created_at r, hyphenated (pl_uuid L) (ps_id r))) (pd_snapshots rep)\<rparr>), w')"
    using run(1) by (simp add: personal_discover_def Let_def io_match_def io_bind_def io_return_def)
  with found show ?thesis by auto
qed

theorem missing_home_snapshot_is_issue_witness:
  "\<exists>rep w'. (personal_discover home_libs home_engine broken_home_world :: (PersonalError + PersonalDiscovery) \<times> world) = (Inr rep, w')
     \<and> pd_issues rep \<noteq> [] \<and> broken_home \<notin> set (pd_snapshots rep)"
proof -
  have "slot_holds (\<lambda>b. length b \<le> PERSONAL_MAX_METADATA_BYTES \<and> pl_parse home_libs b = Inr broken_home)
      (map_of (nodes broken_home_world) (personal_metadata_path (pl_uuid home_libs) (pse_store_root home_engine) (ps_id broken_home)))"
    by (simp add: slot_holds_def home_libs_def home_engine_def broken_home_world_def personal_metadata_path_def example_uuid_lib_def
        broken_home_def PERSONAL_MAX_METADATA_BYTES_def newline_def)
  with missing_home_snapshot_is_issue [of broken_home_world home_libs broken_home home_engine] home_run_valid(3)
  show ?thesis
    by (simp add: fault_free_def home_libs_def home_engine_def broken_home_world_def home_world_def broken_home_def
        uuid_displays_def example_uuid_lib_def personal_metadata_root_def personal_snapshot_path_def fs_is_dir_def plain_dir_def)
qed

end
