(* ===== verification/History_Cleanup.thy ===== *)
theory History_Cleanup
  imports Confirmation_Safety Personal_Safety
begin

text \<open>
  \<open>history_cleanup::purge\<close>: after a confirmed factory reset that asked for it, all snapshots but
  the factory baselines are deleted. The pending transaction is the consent and the journal of
  the purge; its two checks are in \<open>Operations\<close>. The purge is what the confirmation engine calls,
  and an instance of it discharges what that engine relies on.
\<close>

subsection \<open>The purge\<close>

fun for_each :: "('a \<Rightarrow> ('e, unit) io) \<Rightarrow> 'a list \<Rightarrow> ('e, unit) io" where
  "for_each f [] = io_return ()"
| "for_each f (x # xs) = io_bind (f x) (\<lambda>_. for_each f xs)"

definition ensure_only_factory_container :: "path \<Rightarrow> string \<Rightarrow> (string, unit) io" where
  "ensure_only_factory_container directory factory_id =
     io_bind (io_map_err err_text (read_dir directory)) (\<lambda>names.
     for_each (\<lambda>name. io_bind (io_map_err err_text (next_entry name)) (\<lambda>name.
       if name \<noteq> factory_id
       then io_throw (''Unregistered snapshot storage remains: '' @ display_path (directory @ [name]))
       else io_return ())) names)"

definition purge_delete_system ::
  "operation_libs \<Rightarrow> OperationEngine \<Rightarrow> LayoutReport \<Rightarrow> DeploymentRecord \<Rightarrow> (string, unit) io" where
  "purge_delete_system L E report r =
     (if dep_kind r \<noteq> Factory then io_map_err oe_message (delete_factory_reset_history L E report (dep_id r))
      else io_return ())"

definition purge_delete_home ::
  "personal_libs \<Rightarrow> PersonalSnapshotEngine \<Rightarrow> LayoutReport \<Rightarrow> PersonalSnapshotRecord \<Rightarrow> (string, unit) io" where
  "purge_delete_home P H report r =
     (if ps_kind r \<noteq> PersonalFactory
      then io_map_err pe_message (personal_delete_factory_reset_history P H report (ps_id r)) else io_return ())"

text \<open>The checks after the deletion.\<close>

definition purge_complete ::
  "operation_libs \<Rightarrow> personal_libs \<Rightarrow> path \<Rightarrow> PersonalSnapshotEngine \<Rightarrow> RollbackTransaction \<Rightarrow> (string, unit) io" where
  "purge_complete L P root H t =
     io_bind (io_map_err di_message (discover (ol_uuid L) (ol_dep L) root)) (\<lambda>systems.
     io_bind (personal_discover P H) (\<lambda>homes.
     case (dr_deployments systems, pd_snapshots homes) of
       ([system], [home]) \<Rightarrow>
         if dr_issues systems \<noteq> [] \<or> pd_issues homes \<noteq> [] \<or> dep_id system \<noteq> tx_target_deployment_id t
            \<or> Some (ps_id home) \<noteq> tx_factory_home_snapshot_id t
         then io_throw ''Factory reset history cleanup is incomplete''
         else
           io_bind (ensure_only_factory_container (root @ [''deployments''])
                      (hyphenated (ol_uuid L) (tx_target_deployment_id t))) (\<lambda>_.
           ensure_only_factory_container (root @ [''personal'', ''snapshots''])
             (hyphenated (ol_uuid L) (the (tx_factory_home_snapshot_id t))))
     | _ \<Rightarrow> io_throw ''Factory reset history cleanup is incomplete''))"

definition purge_at ::
  "operation_libs \<Rightarrow> personal_libs \<Rightarrow> path \<Rightarrow> LayoutReport \<Rightarrow> OperationEngine \<Rightarrow> PersonalSnapshotEngine \<Rightarrow>
   RollbackTransaction \<Rightarrow> (string, unit) io \<Rightarrow> (string, unit) io" where
  "purge_at L P root report system home t wait =
     io_bind (validate_consent (ol_uuid L) (ol_tx L) (ol_dep L) root) (\<lambda>pending.
     if pending \<noteq> t then io_throw ''The history cleanup transaction changed''
     else
       io_bind (io_map_err di_message (discover (ol_uuid L) (ol_dep L) root)) (\<lambda>systems.
       io_bind (personal_discover P home) (\<lambda>homes.
       if dr_issues systems \<noteq> [] \<or> pd_issues homes \<noteq> []
       then io_throw ''History cleanup stopped: snapshot metadata has unresolved issues''
       else case (filter (\<lambda>r. dep_kind r = Factory) (dr_deployments systems),
                  filter (\<lambda>r. ps_kind r = PersonalFactory) (pd_snapshots homes)) of
         ([factory_system], [factory_home]) \<Rightarrow>
           if dep_id factory_system \<noteq> tx_target_deployment_id t
              \<or> Some (ps_id factory_home) \<noteq> tx_factory_home_snapshot_id t
           then io_throw ''History cleanup must retain exactly the bound factory System and Home snapshots''
           else
             io_bind (io_map_err oe_message (check_available L system report (tx_target_deployment_id t))) (\<lambda>_.
             io_bind (io_map_err pe_message (personal_verify P home report (ps_id factory_home))) (\<lambda>verified.
             if \<not> ps_pinned verified \<or> ps_snapshot_uuid verified \<noteq> tx_factory_home_snapshot_uuid t
             then io_throw ''The factory Home identity changed''
             else
               io_bind (for_each (purge_delete_system L system report) (dr_deployments systems)) (\<lambda>_.
               io_bind (for_each (purge_delete_home P home report) (pd_snapshots homes)) (\<lambda>_.
               io_bind wait (\<lambda>_. purge_complete L P root home t)))))
       | _ \<Rightarrow> io_throw ''History cleanup must retain exactly the bound factory System and Home snapshots'')))"

subsection \<open>The engines of the running system\<close>

definition default_operation_engine :: "programs \<Rightarrow> OperationEngine" where
  "default_operation_engine run =
     \<lparr>oe_system_root = [], oe_snapshot_root = RECOVERY_STORE_ROOT, oe_runner = system_command_runner run,
      oe_minimum_free_bytes = MINIMUM_TRANSACTION_RESERVE_BYTES\<rparr>"

definition default_personal_engine :: "programs \<Rightarrow> PersonalSnapshotEngine" where
  "default_personal_engine run =
     \<lparr>pse_home_root = [''home''], pse_store_root = RECOVERY_STORE_ROOT, pse_runner = system_command_runner run,
      pse_minimum_free_bytes = MINIMUM_TRANSACTION_RESERVE_BYTES\<rparr>"

definition wait_for_deletion :: "programs \<Rightarrow> (string, unit) io" where
  "wait_for_deletion run =
     io_bind (io_map_err (\<lambda>e. ''Could not wait for snapshot deletion: '' @ err_text e)
       (run BTRFS (btrfs_wait [''.snapshots'']))) (\<lambda>out.
     if success out then io_return () else io_throw ''Snapshot deletion has not completed'')"

definition purge_history :: "operation_libs \<Rightarrow> personal_libs \<Rightarrow> programs \<Rightarrow> RollbackTransaction \<Rightarrow> (string, unit) io" where
  "purge_history L P run t =
     io_bind inspect_current (\<lambda>report.
     purge_at L P RECOVERY_STORE_ROOT report (default_operation_engine run) (default_personal_engine run) t
       (wait_for_deletion run))"

subsection \<open>What is consented to, and what is kept\<close>

definition purge_consented :: "operation_libs \<Rightarrow> path \<Rightarrow> (path \<Rightarrow> inode option) \<Rightarrow> RollbackTransaction \<Rightarrow> bool" where
  "purge_consented L root M t \<longleftrightarrow>
     pending_decodes (ol_uuid L) (ol_tx L) (M (pending_path (transactions_dir root))) t
     \<and> tx_purge_history t \<and> tx_reset_home t \<and> \<not> tx_home_only t \<and> tx_phase t = Confirmed
     \<and> (\<exists>r. inode_records (ol_uuid L) (ol_dep L) (record_path (ol_uuid L) root (tx_target_deployment_id t))
            (M (record_path (ol_uuid L) root (tx_target_deployment_id t))) r
          \<and> dep_kind r = Factory \<and> dep_pinned r \<and> can_restore (ol_uuid L) r)"

text \<open>What lies outside the store, the pending transaction, the archive, and the factory baselines with their records.\<close>

definition purge_keeps :: "uuid_lib \<Rightarrow> path \<Rightarrow> RollbackTransaction \<Rightarrow> path set" where
  "purge_keeps U root t =
     - under root \<union> {pending_path (transactions_dir root)} \<union> under (history_dir (transactions_dir root))
     \<union> {record_path U root (tx_target_deployment_id t)}
     \<union> under (root @ [''deployments'', hyphenated U (tx_target_deployment_id t)])
     \<union> (case tx_factory_home_snapshot_id t of None \<Rightarrow> {} | Some i \<Rightarrow>
          insert (personal_metadata_path U root i) (under (snapshot_container U root i)))"

lemma triple_consent:
  "io_triple (\<lambda>w. map_of (nodes w) = M) (validate_consent (ol_uuid L) (ol_tx L) (ol_dep L) root)
    (\<lambda>t w. map_of (nodes w) = M \<and> purge_consented L root M t) (\<lambda>_ w. map_of (nodes w) = M)"
proof -
  let ?p = "\<lambda>i. record_path (ol_uuid L) root i"
  have load: "io_triple (\<lambda>w. map_of (nodes w) = M) (load_record (ol_uuid L) (ol_dep L) root i)
      (\<lambda>r w. map_of (nodes w) = M \<and> inode_records (ol_uuid L) (ol_dep L) (?p i) (M (?p i)) r) (\<lambda>_ w. map_of (nodes w) = M)" for i
  proof -
    have "io_triple (\<lambda>w. map_of (nodes w) = M) (load_record (ol_uuid L) (ol_dep L) root i)
        (\<lambda>r w. inode_records (ol_uuid L) (ol_dep L) (?p i) (M (?p i)) r) (\<lambda>_ _. True)"
      unfolding load_record_def by (rule triple_weaken [OF triple_read_metadata_record [of "?p i" "M (?p i)"]]) auto
    from triple_conj [OF this triple_frozen [OF touches_load_record, of M]] show ?thesis by (rule triple_weaken) auto
  qed
  show ?thesis
    unfolding validate_consent_def
    by (rule triple_bind [OF triple_map_err [OF triple_load_pending]], rule triple_pure, rule triple_case_option, rule triple_throw, simp,
        rule triple_if, rule triple_throw, simp, rule triple_bind [OF triple_map_err [OF load]], rule triple_pure,
        rule triple_if, rule triple_throw, simp, rule triple_return)
      (auto simp: purge_consented_def)
qed

text \<open>The records that discovery lists are those stored under their own names.\<close>

definition homes_stored :: "personal_libs \<Rightarrow> path \<Rightarrow> (path \<Rightarrow> inode option) \<Rightarrow> PersonalDiscovery \<Rightarrow> bool" where
  "homes_stored P root M rep \<longleftrightarrow>
     (\<forall>r \<in> set (pd_snapshots rep). home_records P (ps_id r) (M (personal_metadata_path (pl_uuid P) root (ps_id r))) r)"

lemma triple_read_record_path:
  "io_triple (\<lambda>w. map_of (nodes w) = M) (personal_read_record_path U J p)
    (\<lambda>r w. map_of (nodes w) = M \<and> personal_filename_id U p = Inr (ps_id r) \<and> PersonalSnapshotRecord_validate U r = Inr ()
       \<and> slot_holds (\<lambda>b. length b \<le> PERSONAL_MAX_METADATA_BYTES \<and> J b = Inr r) (M p)) (\<lambda>_ w. map_of (nodes w) = M)"
proof -
  let ?P = "\<lambda>w. map_of (nodes w) = M"
  have inspect: "io_triple ?P (io_map_err f (symlink_metadata p)) (\<lambda>m w. ?P w \<and> M p = Some m) (\<lambda>_. ?P)" for f :: "io_error \<Rightarrow> PersonalError"
    by (rule triple_map_err) (auto simp: io_triple_def symlink_metadata_def syscall_def tick_def split: option.splits)
  have opened: "io_triple ?P (io_map_err f (open_read p)) (\<lambda>_. ?P) (\<lambda>_. ?P)" for f :: "io_error \<Rightarrow> PersonalError"
    by (rule triple_frozen) (intro io_rules)
  have content: "io_triple ?P (io_map_err f (read_to_end p n))
      (\<lambda>b w. ?P w \<and> (\<forall>m c. M p = Some m \<longrightarrow> ftype m = Regular c \<longrightarrow> b = take n c)) (\<lambda>_. ?P)" for f :: "io_error \<Rightarrow> PersonalError" and n
    by (rule triple_map_err)
      (auto simp: io_triple_def read_to_end_def syscall_def tick_def split: option.splits file_type.splits)
  show ?thesis
    unfolding personal_read_record_path_def
    by (rule triple_bind [OF inspect], rule triple_pure, rule triple_if, rule triple_throw, simp, rule triple_lift,
        rule triple_bind [OF opened], rule triple_bind [OF content], rule triple_pure, rule triple_if, rule triple_throw, simp)
      (auto simp: slot_holds_def regular_content_def split: sum.split file_type.splits
        intro!: triple_throw triple_lift triple_if triple_return)
qed


lemma triple_discover_home_entries:
  "homes_stored P root M report \<Longrightarrow> io_triple (\<lambda>w. map_of (nodes w) = M) (personal_discover_entries P root ns report :: ('e, PersonalDiscovery) io)
    (\<lambda>rep w. map_of (nodes w) = M \<and> homes_stored P root M rep) (\<lambda>_ _. False)"
proof (induction ns arbitrary: report)
  case Nil
  then show ?case by (auto intro: triple_return)
next
  case (Cons n ns)
  let ?p = "personal_metadata_root root @ [n]"
  have skip: "io_triple (\<lambda>w. map_of (nodes w) = M) (personal_discover_entries P root ns (discovery_issue a b report) :: ('e, PersonalDiscovery) io)
      (\<lambda>rep w. map_of (nodes w) = M \<and> homes_stored P root M rep) (\<lambda>_ _. False)" for a b
    using Cons.prems by (intro Cons.IH) (simp add: homes_stored_def discovery_issue_def)
  have add: "io_triple (\<lambda>w. map_of (nodes w) = M) (personal_discover_entries P root ns (report\<lparr>pd_snapshots := pd_snapshots report @ [r]\<rparr>) :: ('e, PersonalDiscovery) io)
      (\<lambda>rep w. map_of (nodes w) = M \<and> homes_stored P root M rep) (\<lambda>_ _. False)"
    if ext: "file_extension ?p = Some ''json''" and read: "personal_filename_id (pl_uuid P) ?p = Inr (ps_id r)"
      "PersonalSnapshotRecord_validate (pl_uuid P) r = Inr ()"
      "slot_holds (\<lambda>b. length b \<le> PERSONAL_MAX_METADATA_BYTES \<and> pl_parse P b = Inr r) (M ?p)" for r
  proof -
    have "?p = personal_metadata_path (pl_uuid P) root (ps_id r)"
      using read(1) json_name_split [OF ext]
      by (auto simp: personal_filename_id_def personal_metadata_root_def personal_metadata_path_def split: option.splits if_splits)
    then have "homes_stored P root M (report\<lparr>pd_snapshots := pd_snapshots report @ [r]\<rparr>)"
      using Cons.prems read by (auto simp: homes_stored_def home_records_def)
    then show ?thesis by (rule Cons.IH)
  qed
  have quiet: "io_triple (\<lambda>w. map_of (nodes w) = M) m (\<lambda>_ w. map_of (nodes w) = M) (\<lambda>_ w. map_of (nodes w) = M)"
    if "touches {} m" for m :: "(io_error, 'y) io"
    by (rule triple_frozen [OF that])
  have listed: "io_triple (\<lambda>w. map_of (nodes w) = M) (io_match (symlink_metadata q) (\<lambda>there.
      case there of
        Inr metadata \<Rightarrow> (if ftype metadata = Directory
           then personal_discover_entries P root ns (report\<lparr>pd_snapshots := pd_snapshots report @ [r]\<rparr>)
           else personal_discover_entries P root ns (discovery_issue n a report))
      | Inl e \<Rightarrow> (if ps_state r = PersonalDeleting \<and> err_kind e = NotFound
           then personal_discover_entries P root ns (report\<lparr>pd_snapshots := pd_snapshots report @ [r]\<rparr>)
           else personal_discover_entries P root ns (discovery_issue n (b @ err_text e) report))) :: ('e, PersonalDiscovery) io)
      (\<lambda>rep w. map_of (nodes w) = M \<and> homes_stored P root M rep) (\<lambda>_ _. False)"
    if "file_extension ?p = Some ''json''" "personal_filename_id (pl_uuid P) ?p = Inr (ps_id r)"
      "PersonalSnapshotRecord_validate (pl_uuid P) r = Inr ()"
      "slot_holds (\<lambda>b. length b \<le> PERSONAL_MAX_METADATA_BYTES \<and> pl_parse P b = Inr r) (M ?p)" for r q a b
    by (rule triple_match [OF quiet [OF touches_queries(1)]]) (use add [OF that] skip in simp_all)
  show ?case
    unfolding personal_discover_entries.simps Let_def
    by (rule triple_match [OF quiet [OF touches_queries(7)]], simp_all only: sum.case, rule triple_if, rule Cons.IH [OF Cons.prems],
        rule triple_match [OF triple_read_record_path])
      (auto intro!: triple_pure listed skip Cons.IH [OF Cons.prems])
qed

lemma triple_discover_homes:
  "io_triple (\<lambda>w. map_of (nodes w) = M) (personal_discover P H :: ('e, PersonalDiscovery) io)
    (\<lambda>rep w. map_of (nodes w) = M \<and> homes_stored P (pse_store_root H) M rep) (\<lambda>_ _. False)"
proof -
  let ?Q = "\<lambda>rep w. map_of (nodes w) = M \<and> homes_stored P (pse_store_root H) M rep"
  have names: "io_triple (\<lambda>w. map_of (nodes w) = M) (read_dir d) (\<lambda>_ w. map_of (nodes w) = M) (\<lambda>_ w. map_of (nodes w) = M)" for d
    by (rule triple_frozen) (rule io_rules)
  have empty: "homes_stored P (pse_store_root H) N \<lparr>pd_schema_version = v, pd_snapshots = [], pd_issues = is\<rparr>" for v "is" N
    by (simp add: homes_stored_def)
  have empty2: "homes_stored P (pse_store_root H) N (discovery_issue a b \<lparr>pd_schema_version = v, pd_snapshots = [], pd_issues = is\<rparr>)" for a b v "is" N
    by (simp add: homes_stored_def discovery_issue_def)
  have sorted: "homes_stored P (pse_store_root H) N (rep\<lparr>pd_snapshots := sort_key f (pd_snapshots rep)\<rparr>)"
    if "homes_stored P (pse_store_root H) N rep" for rep N and f :: "_ \<Rightarrow> int \<times> string"
    using that by (simp add: homes_stored_def)
  show ?thesis
    unfolding personal_discover_def Let_def
    by (rule triple_match [OF names])
      (auto intro!: triple_return empty empty2 triple_bind [OF triple_discover_home_entries] sorted)
qed

subsection \<open>The deletions keep the factory baselines\<close>

lemma deletion_paths_under:
  "deletion_locks U root i \<subseteq> under root" "home_locks U root i \<subseteq> under root" "engine_paths root \<subseteq> under root"
  "creation_paths U root i \<subseteq> under root" "home_paths U root i \<subseteq> under root"
  by (auto simp: deletion_locks_def home_locks_def engine_paths_def store_dirs_def operation_lock_def browse_lock_path_def
      personal_lock_path_def personal_browse_lock_path_def transactions_dir_def creation_paths_def lineage_dir_def record_paths_def
      record_path_def record_temporary_def metadata_dir_def home_paths_def home_record_paths_def snapshot_container_def
      personal_metadata_path_def personal_temporary_def under_def prefix_def)

lemma keeps_outside:
  assumes "k \<in> purge_keeps U root t"
  shows "k \<notin> deletion_locks U root i" and "k \<notin> home_locks U root i" and "k \<notin> engine_paths root"
    and "hyphenated U i \<noteq> hyphenated U (tx_target_deployment_id t) \<Longrightarrow> k \<notin> creation_paths U root i"
    and "(\<And>f. tx_factory_home_snapshot_id t = Some f \<Longrightarrow> hyphenated U i \<noteq> hyphenated U f) \<Longrightarrow> k \<notin> home_paths U root i"
proof -
  note inside = deletion_paths_under(1,2) [of U root i] deletion_paths_under(3) [of root] deletion_paths_under(4,5) [of U root i]
  note paths = purge_keeps_def pending_path_def history_dir_def transactions_dir_def record_path_def metadata_dir_def
    snapshot_container_def personal_metadata_path_def
  show "k \<notin> deletion_locks U root i" "k \<notin> home_locks U root i" "k \<notin> engine_paths root"
    using assms inside(1-3)
    by (auto simp: paths deletion_locks_def home_locks_def engine_paths_def store_dirs_def operation_lock_def browse_lock_path_def
        personal_lock_path_def personal_browse_lock_path_def under_def prefix_def split: option.splits)
  show "k \<notin> creation_paths U root i" if "hyphenated U i \<noteq> hyphenated U (tx_target_deployment_id t)"
  proof -
    have "record_path U root (tx_target_deployment_id t) \<notin> record_paths U root i"
      using that by (intro record_path_outside) (simp add: record_path_def)
    with assms that inside(4) show ?thesis
      using record_paths_under [of U root i]
      by (auto simp: creation_paths_def lineage_dir_def paths under_def prefix_def split: option.splits)
  qed
  show "k \<notin> home_paths U root i" if "\<And>f. tx_factory_home_snapshot_id t = Some f \<Longrightarrow> hyphenated U i \<noteq> hyphenated U f"
  proof -
    have "personal_metadata_path U root f \<notin> home_record_paths U root i" if "tx_factory_home_snapshot_id t = Some f" for f
      using \<open>\<And>f. tx_factory_home_snapshot_id t = Some f \<Longrightarrow> hyphenated U i \<noteq> hyphenated U f\<close> [OF that]
      by (intro home_record_paths_outside) (simp add: personal_metadata_path_def)
    moreover have "home_record_paths U root i \<subseteq> under (root @ [''personal'', ''metadata''])"
      by (auto simp: home_record_paths_def personal_metadata_path_def personal_temporary_def under_def prefix_def)
    ultimately show ?thesis
      using assms that inside(5)
      by (auto simp: home_paths_def paths under_def prefix_def split: option.splits)
  qed
qed


lemma slot_holds_parse: "slot_holds (\<lambda>b. A b \<and> f b = Inr x) i \<Longrightarrow> slot_holds (\<lambda>b. B b \<and> f b = Inr y) i \<Longrightarrow> x = y"
  by (auto simp: slot_holds_def)

lemma purge_delete_system_keeps:
  assumes "operation_runner L E" and "oe_snapshot_root E = root" and "\<forall>i. hyphenated (ol_uuid L) i \<noteq> []"
    and "purge_consented L root M t"
  defines "K \<equiv> purge_keeps (ol_uuid L) root t"
  shows "io_triple (agrees_off (- K) M) (purge_delete_system L E report r) (\<lambda>_. agrees_off (- K) M) (\<lambda>_. agrees_off (- K) M)"
proof -
  let ?U = "ol_uuid L" and ?i = "dep_id r" and ?T = "tx_target_deployment_id t"
  have keep: "agrees_off (- K) M (snd (delete_factory_reset_history L E report ?i w))" if agree: "agrees_off (- K) M w" for w
  proof -
    from assms(3) have "hyphenated ?U ?i \<noteq> []" by blast
    note facts = deletion_facts [OF assms(1) this, of report None False True w, folded delete_factory_reset_history_def, unfolded assms(2)]
    have "map_of (nodes (snd (delete_factory_reset_history L E report ?i w))) k = map_of (nodes w) k" if k: "k \<in> K" for k
    proof (cases "hyphenated ?U ?i = hyphenated ?U ?T")
      case True
      have "\<not> deletion_allowed L root (map_of (nodes w)) ?i None False True q" for q
      proof
        assume "deletion_allowed L root (map_of (nodes w)) ?i None False True q"
        then have q: "inode_records ?U (ol_dep L) (record_path ?U root ?i) (map_of (nodes w) (record_path ?U root ?i)) q" "dep_kind q \<noteq> Factory"
          by (auto simp: deletion_allowed_def)
        have p: "record_path ?U root ?i = record_path ?U root ?T" using True by (simp add: record_path_def)
        have "record_path ?U root ?T \<in> K" by (simp add: K_def purge_keeps_def)
        with agree have "map_of (nodes w) (record_path ?U root ?T) = M (record_path ?U root ?T)" by (auto simp: agrees_off_def)
        with q p assms(4) show False
          by (auto simp: purge_consented_def inode_records_def dest: slot_holds_parse)
      qed
      with facts keeps_outside(1) [OF k [unfolded K_def], of ?i] show ?thesis by blast
    next
      case False
      with facts keeps_outside(1,4) [OF k [unfolded K_def]] show ?thesis by blast
    qed
    with agree show ?thesis by (simp add: agrees_off_def)
  qed
  have "io_triple (agrees_off (- K) M) (delete_factory_reset_history L E report ?i) (\<lambda>_. agrees_off (- K) M) (\<lambda>_. agrees_off (- K) M)"
    by (rule io_tripleI) (metis keep snd_conv)+
  then show ?thesis
    unfolding purge_delete_system_def by (auto intro!: triple_if triple_return triple_map_err)
qed

lemma purge_delete_home_keeps:
  assumes "home_runner P H" and "pse_store_root H = root" and "\<forall>i. hyphenated (pl_uuid P) i \<noteq> []"
    and "tx_factory_home_snapshot_id t = Some f" and "home_records P f (M (personal_metadata_path (pl_uuid P) root f)) q"
    and "ps_kind q = PersonalFactory"
  defines "K \<equiv> purge_keeps (pl_uuid P) root t"
  shows "io_triple (agrees_off (- K) M) (purge_delete_home P H report r) (\<lambda>_. agrees_off (- K) M) (\<lambda>_. agrees_off (- K) M)"
proof -
  let ?U = "pl_uuid P" and ?i = "ps_id r"
  let ?p = "personal_metadata_path ?U root"
  have keep: "agrees_off (- K) M (snd (personal_delete_factory_reset_history P H report ?i w))" if agree: "agrees_off (- K) M w" for w
  proof -
    from assms(3) have "hyphenated ?U ?i \<noteq> []" by blast
    note facts = home_deletion_facts [OF assms(1) this, of "personal_delete_factory_reset_history P H report ?i" False True report w, unfolded assms(2)]
    have "map_of (nodes (snd (personal_delete_factory_reset_history P H report ?i w))) k = map_of (nodes w) k" if k: "k \<in> K" for k
    proof (cases "hyphenated ?U ?i = hyphenated ?U f")
      case True
      have "\<not> home_deletion_allowed P root (map_of (nodes w)) ?i False True s" for s
      proof
        assume "home_deletion_allowed P root (map_of (nodes w)) ?i False True s"
        then have s: "home_records P ?i (map_of (nodes w) (?p ?i)) s" "ps_kind s \<noteq> PersonalFactory"
          by (auto simp: home_deletion_allowed_def)
        have p: "?p ?i = ?p f" using True by (simp add: personal_metadata_path_def)
        have "?p f \<in> K" using assms(4) by (simp add: K_def purge_keeps_def)
        with agree have "map_of (nodes w) (?p f) = M (?p f)" by (auto simp: agrees_off_def)
        with s p assms(5,6) show False by (auto simp: home_records_def dest: slot_holds_parse)
      qed
      with facts keeps_outside(2) [OF k [unfolded K_def], of ?i] show ?thesis by blast
    next
      case False
      with keeps_outside(2,5) [OF k [unfolded K_def]] assms(4) have "k \<notin> home_paths ?U root ?i \<union> home_locks ?U root ?i" by auto
      with facts show ?thesis by blast
    qed
    with agree show ?thesis by (simp add: agrees_off_def)
  qed
  have "io_triple (agrees_off (- K) M) (personal_delete_factory_reset_history P H report ?i) (\<lambda>_. agrees_off (- K) M) (\<lambda>_. agrees_off (- K) M)"
    by (rule io_tripleI) (metis keep snd_conv)+
  then show ?thesis
    unfolding purge_delete_home_def by (auto intro!: triple_if triple_return triple_map_err)
qed

lemma triple_for_each:
  assumes "\<And>x. io_triple I (f x) (\<lambda>_. I) (\<lambda>_. I)"
  shows "io_triple I (for_each f xs) (\<lambda>_. I) (\<lambda>_. I)"
  by (induction xs) (auto intro!: triple_return triple_bind [OF assms])

subsection \<open>What a purge that succeeds leaves\<close>

definition only_entry :: "(path \<Rightarrow> inode option) \<Rightarrow> path \<Rightarrow> string \<Rightarrow> bool" where
  "only_entry M d name \<longleftrightarrow> (\<forall>n. M (d @ [n]) \<noteq> None \<longrightarrow> n = name)"

lemma triple_only_factory:
  "io_triple (frozen M) (ensure_only_factory_container d name) (\<lambda>_ w. frozen M w \<and> only_entry M d name) (\<lambda>_. frozen M)"
proof -
  have names: "io_triple (frozen M) (io_map_err g (read_dir d))
      (\<lambda>ns w. frozen M w \<and> (\<forall>n. M (d @ [n]) \<noteq> None \<longrightarrow> n \<in> set ns)) (\<lambda>_. frozen M)" for g :: "io_error \<Rightarrow> string"
    by (rule triple_map_err)
      (auto simp: io_triple_def read_dir_def syscall_def tick_def split: option.splits intro!: fs_children_in)
  have entry: "io_triple (frozen M) (io_map_err g (next_entry n)) (\<lambda>x w. frozen M w \<and> x = n) (\<lambda>_. frozen M)"
    for g :: "io_error \<Rightarrow> string" and n
    by (rule triple_map_err) (auto simp: io_triple_def next_entry_def syscall_def tick_def split: option.splits)
  have each: "io_triple (frozen M) (for_each (\<lambda>name'. io_bind (io_map_err err_text (next_entry name')) (\<lambda>name'.
      if name' \<noteq> name then io_throw (e name') else io_return ())) ns) (\<lambda>_ w. frozen M w \<and> (\<forall>n \<in> set ns. n = name)) (\<lambda>_. frozen M)" for e ns
  proof (induction ns)
    case Nil
    then show ?case by (auto intro: triple_return)
  next
    case (Cons n ns)
    have "io_triple (frozen M) (io_bind (io_map_err err_text (next_entry n)) (\<lambda>name'.
        if name' \<noteq> name then io_throw (e name') else io_return ())) (\<lambda>_ w. frozen M w \<and> n = name) (\<lambda>_. frozen M)"
      by (rule triple_bind [OF entry], rule triple_pure) (auto intro: triple_throw triple_return)
    then show ?case
      unfolding for_each.simps by (rule triple_bind, intro triple_pure triple_weaken [OF Cons.IH]) auto
  qed
  show ?thesis
    unfolding ensure_only_factory_container_def
    by (rule triple_bind [OF names], rule triple_pure, rule triple_weaken [OF each]) (auto simp: only_entry_def)
qed

definition purge_complete_state :: "uuid_lib \<Rightarrow> path \<Rightarrow> RollbackTransaction \<Rightarrow> (path \<Rightarrow> inode option) \<Rightarrow> bool" where
  "purge_complete_state U root t M \<longleftrightarrow>
     only_entry M (root @ [''deployments'']) (hyphenated U (tx_target_deployment_id t))
     \<and> only_entry M (root @ [''personal'', ''snapshots'']) (hyphenated U (the (tx_factory_home_snapshot_id t)))"

lemma triple_discover_frozen:
  "io_triple (frozen M) (io_map_err (di_message :: _ \<Rightarrow> string) (discover U J root)) (\<lambda>rep w. frozen M w \<and> report_stored U J root M rep) (\<lambda>_. frozen M)"
  by (rule triple_map_err, rule triple_weaken [OF triple_conj [OF triple_discover triple_frozen [OF touches_discover]]]) auto

lemma triple_purge_complete:
  "io_triple (frozen M) (purge_complete L P root H t)
     (\<lambda>_ w. frozen M w \<and> purge_complete_state (ol_uuid L) root t M) (\<lambda>_. frozen M)"
proof -
  have homes: "io_triple (frozen M) (personal_discover P H :: (string, _) io) (\<lambda>_. frozen M) (\<lambda>_. frozen M)"
    by (rule triple_weaken [OF triple_discover_homes]) auto
  have checks: "io_triple (frozen M)
      (io_bind (ensure_only_factory_container d n) (\<lambda>_. ensure_only_factory_container d' n'))
      (\<lambda>_ w. frozen M w \<and> only_entry M d n \<and> only_entry M d' n') (\<lambda>_. frozen M)" for d n d' n'
    by (rule triple_bind [OF triple_only_factory], rule triple_pure, rule triple_weaken [OF triple_only_factory]) auto
  show ?thesis
    unfolding purge_complete_def
    by (rule triple_bind [OF triple_discover_frozen], rule triple_pure, rule triple_bind [OF homes])
      (auto split: list.split intro!: triple_throw triple_if triple_weaken [OF checks] simp: purge_complete_state_def)
qed

lemma check_available_frame:
  assumes "operation_runner L E"
  shows "touches (engine_paths (oe_snapshot_root E)) (check_available L E report i)"
  using operation_runner.snapshot_identity_quiet [OF assms] operation_runner.verify_read_only_quiet [OF assms]
  unfolding check_available_def Let_def
  by (intro io_rules) (auto simp: engine_paths_def store_dirs_def)

lemma triple_purge:
  fixes M t
  assumes ops: "operation_runner L E" and home: "home_runner P H"
    and roots: "oe_snapshot_root E = root" "pse_store_root H = root" and uuid: "pl_uuid P = ol_uuid L"
    and names: "\<forall>i. hyphenated (ol_uuid L) i \<noteq> []" and wait: "touches {} wait"
  defines "I \<equiv> agrees_off (- purge_keeps (ol_uuid L) root t) M"
  shows "io_triple (frozen M) (purge_at L P root report E H t wait)
    (\<lambda>_ w. I w \<and> purge_consented L root M t \<and> purge_complete_state (ol_uuid L) root t (map_of (nodes w)))
    (\<lambda>_ w. I w \<and> (purge_consented L root M t \<or> frozen M w))"
proof -
  let ?K = "purge_keeps (ol_uuid L) root t"
  have apart: "engine_paths root \<subseteq> - ?K" using keeps_outside(3) by auto
  have start: "frozen M w \<Longrightarrow> I w" for w by (simp add: I_def agrees_off_def)
  have homes: "io_triple (frozen M) (personal_discover P H :: (string, _) io) (\<lambda>rep w. frozen M w \<and> homes_stored P root M rep) (\<lambda>_. frozen M)"
    by (rule triple_weaken [OF triple_discover_homes]) (auto simp: roots)
  have quiet: "io_triple I m (\<lambda>_. I) (\<lambda>_. I)" if "touches {} m" for m :: "('e, 'x) io"
    unfolding I_def by (rule triple_agrees [OF touches_none [OF that]])
  have available: "io_triple I (io_map_err f (check_available L E report i)) (\<lambda>_. I) (\<lambda>_. I)" for f :: "OperationError \<Rightarrow> string" and i
    unfolding I_def by (intro triple_agrees io_rules touches_mono [OF check_available_frame [OF ops]]) (use apart roots in auto)
  have verified: "io_triple I (io_map_err f (personal_verify P H report i)) (\<lambda>_. I) (\<lambda>_. I)" for f :: "PersonalError \<Rightarrow> string" and i
    by (intro quiet io_rules home_runner.home_verify_quiet [OF home])
  have systems: "io_triple I (for_each (purge_delete_system L E report) rs) (\<lambda>_. I) (\<lambda>_. I)" if "purge_consented L root M t" for rs
    unfolding I_def by (intro triple_for_each purge_delete_system_keeps [OF ops roots(1) names that])
  have deletes: "io_triple I (for_each (purge_delete_home P H report) rs) (\<lambda>_. I) (\<lambda>_. I)"
    if "homes_stored P root M homes" "filter (\<lambda>r. ps_kind r = PersonalFactory) (pd_snapshots homes) = [q]"
      "Some (ps_id q) = tx_factory_home_snapshot_id t" for rs homes q
  proof -
    have "q \<in> set (filter (\<lambda>r. ps_kind r = PersonalFactory) (pd_snapshots homes))" unfolding that(2) by simp
    then have "q \<in> set (pd_snapshots homes)" "ps_kind q = PersonalFactory" by simp_all
    with that(1) have "home_records P (ps_id q) (M (personal_metadata_path (pl_uuid P) root (ps_id q))) q" by (simp add: homes_stored_def)
    then show ?thesis
      unfolding I_def using names that(3) \<open>ps_kind q = PersonalFactory\<close>
      by (intro triple_for_each purge_delete_home_keeps [OF home roots(2), unfolded uuid, of t "ps_id q"]) (auto simp: uuid)
  qed
  have final: "io_triple I (purge_complete L P root H t)
      (\<lambda>_ w. I w \<and> purge_complete_state (ol_uuid L) root t (map_of (nodes w))) (\<lambda>_. I)"
    unfolding I_def
  proof (rule triple_settle)
    fix N assume "\<forall>k. k \<notin> - ?K \<longrightarrow> N k = M k"
    then show "io_triple (frozen N) (purge_complete L P root H t)
        (\<lambda>_ w. agrees_off (- ?K) M w \<and> purge_complete_state (ol_uuid L) root t (map_of (nodes w))) (\<lambda>_. agrees_off (- ?K) M)"
      by (intro triple_weaken [OF triple_purge_complete]) (auto simp: agrees_off_def)
  qed
  have rest: "io_triple (frozen M)
      (io_bind (io_map_err f (check_available L E report i)) (\<lambda>_.
       io_bind (io_map_err g (personal_verify P H report j)) (\<lambda>verified.
       if B verified then io_throw e else
         io_bind (for_each (purge_delete_system L E report) rs) (\<lambda>_.
         io_bind (for_each (purge_delete_home P H report) qs) (\<lambda>_.
         io_bind wait (\<lambda>_. purge_complete L P root H t))))))
      (\<lambda>_ w. I w \<and> purge_complete_state (ol_uuid L) root t (map_of (nodes w))) (\<lambda>_. I)"
    if "purge_consented L root M t" "homes_stored P root M homes"
      "filter (\<lambda>r. ps_kind r = PersonalFactory) (pd_snapshots homes) = [q]" "Some (ps_id q) = tx_factory_home_snapshot_id t"
    for f g i j B e rs qs homes q
  proof -
    have tail: "io_triple I (io_bind (for_each (purge_delete_system L E report) rs) (\<lambda>_.
         io_bind (for_each (purge_delete_home P H report) qs) (\<lambda>_.
         io_bind wait (\<lambda>_. purge_complete L P root H t))))
        (\<lambda>_ w. I w \<and> purge_complete_state (ol_uuid L) root t (map_of (nodes w))) (\<lambda>_. I)"
      by (rule triple_bind [OF systems [OF that(1)]], rule triple_bind [OF deletes [OF that(2-4)]],
          rule triple_bind [OF quiet [OF wait] final])
    have "io_triple I (io_bind (io_map_err f (check_available L E report i)) (\<lambda>_.
       io_bind (io_map_err g (personal_verify P H report j)) (\<lambda>verified.
       if B verified then io_throw e else
         io_bind (for_each (purge_delete_system L E report) rs) (\<lambda>_.
         io_bind (for_each (purge_delete_home P H report) qs) (\<lambda>_.
         io_bind wait (\<lambda>_. purge_complete L P root H t))))))
        (\<lambda>_ w. I w \<and> purge_complete_state (ol_uuid L) root t (map_of (nodes w))) (\<lambda>_. I)"
      by (rule triple_bind [OF available], rule triple_bind [OF verified], rule triple_if, rule triple_throw, simp, rule tail)
    then show ?thesis by (rule triple_weaken) (use start in auto)
  qed
  let ?Q = "\<lambda>_ w. I w \<and> purge_consented L root M t \<and> purge_complete_state (ol_uuid L) root t (map_of (nodes w))"
  let ?E = "\<lambda>_ w. I w \<and> (purge_consented L root M t \<or> frozen M w)"
  have stop: "io_triple (frozen M) (io_throw e) ?Q ?E" for e :: string by (rule triple_throw) (simp add: start)
  have stop': "io_triple (frozen M) (io_throw e) Q (\<lambda>_. I)" for e :: string and Q :: "unit \<Rightarrow> world \<Rightarrow> bool"
    by (rule triple_throw) (simp add: start)
  have consent: "io_triple (frozen M) (validate_consent (ol_uuid L) (ol_tx L) (ol_dep L) root)
      (\<lambda>t w. frozen M w \<and> purge_consented L root M t) ?E"
    by (rule triple_weaken [OF triple_consent]) (auto simp: start)
  have listed: "io_triple (frozen M) (io_map_err di_message (discover (ol_uuid L) (ol_dep L) root)) (\<lambda>_. frozen M) ?E"
    by (rule triple_weaken [OF triple_discover_frozen]) (auto simp: start)
  have found: "io_triple (frozen M) (personal_discover P H :: (string, _) io) (\<lambda>rep w. frozen M w \<and> homes_stored P root M rep) ?E"
    by (rule triple_weaken [OF homes]) (auto simp: start)
  show ?thesis
    unfolding purge_at_def
    by (rule triple_bind [OF consent], rule triple_pure, rule triple_if, rule stop,
        rule triple_bind [OF listed], rule triple_bind [OF found], rule triple_pure, rule triple_if, rule stop)
      (auto split: list.split intro!: stop' rest)
qed

text \<open>The purge of the running system keeps what the confirmation engine relies on.\<close>

lemma purge_history_frame:
  assumes "operation_runner L (default_operation_engine run)" and "home_runner P (default_personal_engine run)"
    and "pl_uuid P = ol_uuid L" and "\<forall>i. hyphenated (ol_uuid L) i \<noteq> []" and "touches {} (run BTRFS (btrfs_wait [''.snapshots'']))"
  shows "touches (- kept_paths (transactions_dir RECOVERY_STORE_ROOT)) (purge_history L P run t)"
proof -
  have wait: "touches {} (wait_for_deletion run)"
    unfolding wait_for_deletion_def by (intro io_rules assms(5))
  have inside: "kept_paths (transactions_dir RECOVERY_STORE_ROOT) \<subseteq> purge_keeps (ol_uuid L) RECOVERY_STORE_ROOT t"
    by (auto simp: kept_paths_def purge_keeps_def BOOT_ID_def KERNEL_RELEASE_def RECOVERY_STORE_ROOT_def under_def prefix_def)
  have "touches (- purge_keeps (ol_uuid L) RECOVERY_STORE_ROOT t)
      (purge_at L P RECOVERY_STORE_ROOT report (default_operation_engine run) (default_personal_engine run) t (wait_for_deletion run))" for report
  proof -
    have "agrees_off (- purge_keeps (ol_uuid L) RECOVERY_STORE_ROOT t) (map_of (nodes w)) (snd (purge_at L P RECOVERY_STORE_ROOT report
        (default_operation_engine run) (default_personal_engine run) t (wait_for_deletion run) w))" for w
    proof -
      have roots: "oe_snapshot_root (default_operation_engine run) = RECOVERY_STORE_ROOT"
          "pse_store_root (default_personal_engine run) = RECOVERY_STORE_ROOT"
        by (simp_all add: default_operation_engine_def default_personal_engine_def)
      note triple = triple_purge [OF assms(1,2) roots assms(3,4) wait, of "map_of (nodes w)" report t]
      let ?m = "purge_at L P RECOVERY_STORE_ROOT report (default_operation_engine run) (default_personal_engine run) t (wait_for_deletion run)"
      obtain x w' where run: "?m w = (x, w')" by fastforce
      then have "agrees_off (- purge_keeps (ol_uuid L) RECOVERY_STORE_ROOT t) (map_of (nodes w)) w'"
        using io_tripleD_ok [OF triple refl] io_tripleD_err [OF triple refl] by (cases x) blast+
      with run show ?thesis by simp
    qed
    then show ?thesis by (auto simp: touches_def agrees_off_def)
  qed
  then show ?thesis
    unfolding purge_history_def inspect_current_def using inside
    by (intro io_rules) (auto intro: touches_mono)
qed

subsection \<open>Properties\<close>

text \<open>
  C16. The purge after a factory reset, whatever fails and at whatever point: the factory baselines of
  system and Home with their records, the pending transaction, the archive and everything outside the
  store keep every byte; nothing at all changes unless the pending transaction is a confirmed factory
  reset that asked for the purge and its target is a healthy pinned factory snapshot; and a purge
  that reports success has left no other snapshot.
\<close>

theorem history_purge_safe:
  assumes "operation_runner L E" and "home_runner P H"
    and "oe_snapshot_root E = root" and "pse_store_root H = root" and "pl_uuid P = ol_uuid L"
    and "\<forall>i. hyphenated (ol_uuid L) i \<noteq> []" and "touches {} wait"
    and "purge_at L P root report E H t wait w = (x, w')"
  shows "(\<forall>k \<in> purge_keeps (ol_uuid L) root t. map_of (nodes w') k = map_of (nodes w) k)
    \<and> (purge_consented L root (map_of (nodes w)) t \<or> map_of (nodes w') = map_of (nodes w))
    \<and> (x = Inr () \<longrightarrow> purge_complete_state (ol_uuid L) root t (map_of (nodes w')))"
  using io_tripleD_ok [OF triple_purge [OF assms(1-7), of "map_of (nodes w)" report t], of w _ w']
    io_tripleD_err [OF triple_purge [OF assms(1-7), of "map_of (nodes w)" report t], of w _ w'] assms(8)
  by (cases x) (auto simp: agrees_off_def)

theorem history_purge_safe_witness:
  "map_of (nodes (snd (purge_at witness_operation_libs home_libs [''r''] supported_report witness_engine home_engine
      example_transaction (io_return ()) broken_home_world))) = map_of (nodes broken_home_world)"
proof -
  let ?run = "purge_at witness_operation_libs home_libs [''r''] supported_report witness_engine home_engine
      example_transaction (io_return ()) broken_home_world"
  have args: "oe_snapshot_root witness_engine = [''r'']" "pse_store_root home_engine = [''r'']"
      "pl_uuid home_libs = ol_uuid witness_operation_libs" "\<forall>i. hyphenated (ol_uuid witness_operation_libs) i \<noteq> []"
    by (simp_all add: witness_engine_def home_engine_def home_libs_def witness_operation_libs_def example_uuid_lib_def)
  have "\<not> purge_consented witness_operation_libs [''r''] (map_of (nodes broken_home_world)) example_transaction"
    by (simp add: purge_consented_def example_transaction_def)
  with history_purge_safe [OF machine.operation_runner_axioms home.home_runner_axioms args touches_return
      prod.collapse [of ?run, symmetric]]
  show ?thesis by blast
qed

text \<open>The confirmation engine with the purge of the code.\<close>

definition purging_environment :: confirmation_env where
  "purging_environment = example_environment
     \<lparr>cv_purge := purge_history witness_operation_libs home_libs (\<lambda>_. simulated_home)\<rparr>"

lemma simulated_system_runner:
  "operation_runner witness_operation_libs (default_operation_engine (\<lambda>_. simulated_home))"
  using home.snapshot_runner_axioms
  by (auto simp: operation_runner_def operation_runner_axioms_def default_operation_engine_def home_engine_def
      machine.statvfs_frame machine.read_link_frame)

interpretation purging: confirmation_environment purging_environment
proof
  have personal: "home_runner home_libs (default_personal_engine (\<lambda>_. simulated_home))"
    using home.home_runner_axioms by (simp add: home_runner_def home_runner_axioms_def default_personal_engine_def home_engine_def)
  have "touches {} (simulated_home (btrfs_wait [''.snapshots'']))"
    using simulated_behaves by (auto simp: btrfs_behaves_def btrfs_wait_def)
  then have "touches (- kept_paths system_transactions) (purge_history witness_operation_libs home_libs (\<lambda>_. simulated_home) t)" for t
    by (intro purge_history_frame [OF simulated_system_runner personal])
      (simp_all add: home_libs_def witness_operation_libs_def example_uuid_lib_def)
  then show "touches (- kept_paths system_transactions) (cv_purge purging_environment t)" for t
    by (simp add: purging_environment_def)
  show "touches (- (under RECOVERY_STORE_ROOT \<union> {BOOT_ID, KERNEL_RELEASE})) (cv_run purging_environment program a)" for program a
    using example.run_spares by (simp add: purging_environment_def)
qed

end
