(* ===== verification/Package_Hook.thy ===== *)
theory Package_Hook
  imports History_Cleanup
begin

text \<open>
  \<open>package_hook.rs\<close> and \<open>apt_policy.rs\<close>: what runs before and after the package manager. The
  coordinator works over a backend, whose system implementation combines the start lock, the two
  pending transactions and the snapshot engine. The TOML library is an argument.
\<close>

subsection \<open>The policy\<close>

record AptSnapshotPolicy =
  snapshot_before :: bool
  snapshot_after :: bool

definition AptSnapshotPolicy_default :: AptSnapshotPolicy where
  "AptSnapshotPolicy_default = \<lparr>snapshot_before = True, snapshot_after = False\<rparr>"

record policy_toml =
  pol_parse :: "string \<Rightarrow> string + AptSnapshotPolicy"
  pol_print :: "AptSnapshotPolicy \<Rightarrow> string + string"

definition policy_load_from_file :: "policy_toml \<Rightarrow> path \<Rightarrow> (string, AptSnapshotPolicy) io" where
  "policy_load_from_file T p =
     io_match (read_to_string p) (\<lambda>r.
       case r of
         Inr content \<Rightarrow>
           io_lift (case pol_parse T content of
                      Inl e \<Rightarrow> Inl (''Invalid APT snapshot policy: '' @ e) | Inr policy \<Rightarrow> Inr policy)
       | Inl e \<Rightarrow>
           (if err_kind e = NotFound then io_return AptSnapshotPolicy_default
            else io_throw (''Failed to read '' @ display_path p @ '': '' @ err_text e)))"

definition policy_temporary :: "uuid_lib \<Rightarrow> path \<Rightarrow> uuid \<Rightarrow> path" where
  "policy_temporary U p u =
     butlast p @ [CHR ''.'' # from_utf8_lossy (last p) @ ''.'' @ hyphenated U u @ ''.tmp'']"

definition policy_save_to_file :: "uuid_lib \<Rightarrow> policy_toml \<Rightarrow> AptSnapshotPolicy \<Rightarrow> path \<Rightarrow> (string, unit) io" where
  "policy_save_to_file U T policy p =
     (if p = [] then io_throw ''APT policy path has no parent''
      else
        io_bind (io_map_err err_text (create_dir_all (butlast p))) (\<lambda>_.
        io_bind (io_map_err err_text (set_permissions (butlast p) 0x1ED)) (\<lambda>_.
        io_bind (io_lift (pol_print T policy)) (\<lambda>content.
        if last p = ''..'' then io_throw ''APT policy path has no file name''
        else
          io_bind new_v4 (\<lambda>u.
          let temporary = policy_temporary U p u in
          io_bind (io_map_err err_text (create_new temporary 0x180)) (\<lambda>_.
          io_bind (io_map_err err_text (write_all temporary content)) (\<lambda>_.
          io_bind (io_map_err err_text (sync_all temporary)) (\<lambda>_.
          io_bind (io_map_err err_text (fs_rename temporary p)) (\<lambda>_.
          io_map_err err_text (set_permissions p 0x1A4))))))))))"

subsection \<open>The coordinator\<close>

datatype PackageHookError = PackageHookError (phe_message: string)

record package_hook_backend =
  ph_begin_transaction :: "(PackageHookError, PackageTransaction) io"
  ph_pending_transaction :: "(PackageHookError, PackageTransaction option) io"
  ph_create_pre :: "string \<Rightarrow> (PackageHookError, uuid) io"
  ph_create_post :: "string \<Rightarrow> (PackageHookError, uuid) io"
  ph_update_transaction :: "PackageTransaction \<Rightarrow> (PackageHookError, unit) io"
  ph_archive_transaction :: "PackageTransaction \<Rightarrow> (PackageHookError, unit) io"

definition hook_error :: "PackageTransactionError \<Rightarrow> PackageHookError" where
  "hook_error e = PackageHookError (pk_message e)"

text \<open>A method of the transaction at the present time, with its error mapped.\<close>

definition hook_step :: "(timestamp \<Rightarrow> pkg_update) \<Rightarrow> (PackageHookError, PackageTransaction) io" where
  "hook_step f =
     io_bind utc_now (\<lambda>now.
     case f now of (_, Inl e) \<Rightarrow> io_throw (hook_error e) | (t, Inr _) \<Rightarrow> io_return t)"

definition interrupt_and_archive ::
  "package_hook_backend \<Rightarrow> PackageTransaction \<Rightarrow> string \<Rightarrow> (PackageHookError, unit) io" where
  "interrupt_and_archive B t failure =
     io_bind (hook_step (\<lambda>now. interrupt failure now t)) (ph_archive_transaction B)"

definition before_packages_with_policy ::
  "uuid_lib \<Rightarrow> package_hook_backend \<Rightarrow> AptSnapshotPolicy \<Rightarrow> (PackageHookError, PackageTransaction option) io" where
  "before_packages_with_policy U B policy =
     (if \<not> snapshot_before policy \<and> \<not> snapshot_after policy then io_return None
      else
        io_bind (ph_begin_transaction B) (\<lambda>t.
        if \<not> snapshot_before policy
        then
          io_bind (hook_step (\<lambda>now. skip_pre now t)) (\<lambda>t.
          io_bind (ph_update_transaction B t) (\<lambda>_. io_return (Some t)))
        else
          io_match (ph_create_pre B (hyphenated U (pt_id t))) (\<lambda>created.
          case created of
            Inr deployment \<Rightarrow>
              io_bind (hook_step (\<lambda>now. record_pre deployment now t)) (\<lambda>t.
              if snapshot_after policy
              then io_bind (ph_update_transaction B t) (\<lambda>_. io_return (Some t))
              else
                io_bind (hook_step (\<lambda>now. complete_without_post now t)) (\<lambda>t.
                io_bind (ph_archive_transaction B t) (\<lambda>_. io_return (Some t))))
          | Inl e \<Rightarrow> io_bind (interrupt_and_archive B t (phe_message e)) (\<lambda>_. io_throw e))))"

definition both_snapshots :: AptSnapshotPolicy where
  "both_snapshots = \<lparr>snapshot_before = True, snapshot_after = True\<rparr>"

definition before_packages :: "uuid_lib \<Rightarrow> package_hook_backend \<Rightarrow> (PackageHookError, PackageTransaction) io" where
  "before_packages U B =
     io_bind (before_packages_with_policy U B both_snapshots) (\<lambda>r.
     case r of
       None \<Rightarrow> io_throw (PackageHookError ''APT snapshot policy disabled both system snapshots'')
     | Some t \<Rightarrow> io_return t)"

definition after_packages_with_policy ::
  "uuid_lib \<Rightarrow> package_hook_backend \<Rightarrow> AptSnapshotPolicy \<Rightarrow> (PackageHookError, PackageTransaction option) io" where
  "after_packages_with_policy U B policy =
     io_bind (ph_pending_transaction B) (\<lambda>pending.
     if \<not> snapshot_after policy
     then
       io_bind
         (case pending of
            Some t \<Rightarrow>
              (if pt_phase t = AwaitingPost
               then if pt_pre_deployment_id t \<noteq> None
                 then io_bind (hook_step (\<lambda>now. complete_without_post now t)) (ph_archive_transaction B)
                 else interrupt_and_archive B t ''APT post snapshot was disabled after the transaction began''
               else io_return ())
          | None \<Rightarrow> io_return ()) (\<lambda>_. io_return None)
     else case pending of
       None \<Rightarrow> io_throw (PackageHookError ''No APT recovery transaction is pending'')
     | Some t \<Rightarrow>
         if pt_phase t \<noteq> AwaitingPost
         then
           let e = PackageHookError ''The APT recovery transaction did not complete its pre-change snapshot'' in
           io_bind (if pt_phase t \<noteq> Complete \<and> pt_phase t \<noteq> Interrupted
                    then interrupt_and_archive B t (phe_message e) else io_return ()) (\<lambda>_. io_throw e)
         else
           io_match (ph_create_post B (hyphenated U (pt_id t))) (\<lambda>created.
           case created of
             Inr deployment \<Rightarrow>
               io_bind (hook_step (\<lambda>now. record_post deployment now t)) (\<lambda>t.
               io_bind (ph_archive_transaction B t) (\<lambda>_. io_return (Some t)))
           | Inl e \<Rightarrow> io_bind (interrupt_and_archive B t (phe_message e)) (\<lambda>_. io_throw e)))"

definition after_packages :: "uuid_lib \<Rightarrow> package_hook_backend \<Rightarrow> (PackageHookError, PackageTransaction) io" where
  "after_packages U B =
     io_bind (after_packages_with_policy U B both_snapshots) (\<lambda>r.
     case r of
       None \<Rightarrow> io_throw (PackageHookError ''APT post snapshot is disabled'')
     | Some t \<Rightarrow> io_return t)"

subsection \<open>The system backend\<close>

text \<open>The callback of the hook does nothing.\<close>

definition silent :: op_progress where "silent phase fraction message = io_return ()"

definition system_begin_transaction :: "operation_libs \<Rightarrow> (PackageHookError, PackageTransaction) io" where
  "system_begin_transaction L =
     (let U = ol_uuid L; d = transactions_dir RECOVERY_STORE_ROOT in
      io_bind inspect_current (\<lambda>report.
      if \<not> LayoutReport_is_supported report
      then io_throw (PackageHookError ''The complete AnduinOS Btrfs layout is unavailable'')
      else
        io_bind (io_map_err (\<lambda>e. PackageHookError (err_text e)) (acquire RECOVERY_STORE_ROOT)) (\<lambda>_.
        io_bind (io_map_err (\<lambda>e. PackageHookError (te_message e)) (load_pending U (ol_tx L) d)) (\<lambda>rollback.
        if rollback \<noteq> None
        then io_throw (PackageHookError ''A system restore transaction already owns the recovery boundary'')
        else
          io_bind (io_map_err hook_error (package_load_pending (ol_pkg L) d)) (\<lambda>stale.
          io_bind
            (case stale of
               None \<Rightarrow> io_return ()
             | Some t \<Rightarrow>
                 io_bind (if pt_phase t \<noteq> Complete \<and> pt_phase t \<noteq> Interrupted
                          then hook_step (\<lambda>now. interrupt ''Superseded by a later APT transaction'' now t)
                          else io_return t) (\<lambda>t.
                 io_map_err hook_error (package_archive U (ol_pkg L) d t))) (\<lambda>_.
          io_bind PackageTransaction_new (\<lambda>t.
          io_bind (io_map_err hook_error (package_create U (ol_pkg L) d t)) (\<lambda>_. io_return t))))))))"

definition system_hook_backend :: "operation_libs \<Rightarrow> programs \<Rightarrow> package_hook_backend" where
  "system_hook_backend L run =
     (let U = ol_uuid L; d = transactions_dir RECOVERY_STORE_ROOT; E = default_operation_engine run;
          created = (\<lambda>m. io_bind (io_map_err (\<lambda>e. PackageHookError (oe_message e)) m) (\<lambda>r. io_return (dep_id r))) in
      \<lparr>ph_begin_transaction = system_begin_transaction L,
       ph_pending_transaction = io_map_err hook_error (package_load_pending (ol_pkg L) d),
       ph_create_pre = (\<lambda>i. io_bind inspect_current (\<lambda>report. created (create_apt_pre L E report i silent))),
       ph_create_post = (\<lambda>i. io_bind inspect_current (\<lambda>report. created (create_apt_post L E report i silent))),
       ph_update_transaction = (\<lambda>t. io_map_err hook_error (package_update U (ol_pkg L) d t)),
       ph_archive_transaction = (\<lambda>t. io_map_err hook_error (package_archive U (ol_pkg L) d t))\<rparr>)"

subsection \<open>What the hook reports\<close>

definition hook_pending :: "pkg_json \<Rightarrow> path \<Rightarrow> PackageTransaction \<Rightarrow> world \<Rightarrow> bool" where
  "hook_pending J d t w \<longleftrightarrow> slot_holds (pkg_image J t) (map_of (nodes w) (package_pending_path d))"

definition hook_archived :: "uuid_lib \<Rightarrow> pkg_json \<Rightarrow> path \<Rightarrow> PackageTransaction \<Rightarrow> world \<Rightarrow> bool" where
  "hook_archived U J d t w \<longleftrightarrow>
     map_of (nodes w) (package_pending_path d) = None
     \<and> slot_holds (pkg_image J t) (map_of (nodes w) (package_history_path U d t))"

definition before_outcome ::
  "uuid_lib \<Rightarrow> pkg_json \<Rightarrow> path \<Rightarrow> (DeploymentKind \<Rightarrow> uuid \<Rightarrow> world \<Rightarrow> bool) \<Rightarrow> AptSnapshotPolicy \<Rightarrow>
   PackageTransaction option \<Rightarrow> world \<Rightarrow> bool" where
  "before_outcome U J d snap policy r w \<longleftrightarrow>
     (case r of
        None \<Rightarrow> \<not> snapshot_before policy \<and> \<not> snapshot_after policy
      | Some t \<Rightarrow>
          (if snapshot_before policy then \<exists>i. pt_pre_deployment_id t = Some i \<and> snap AptPre i w
           else pt_pre_deployment_id t = None)
          \<and> pt_post_deployment_id t = None
          \<and> (if snapshot_after policy then pt_phase t = AwaitingPost \<and> hook_pending J d t w
             else pt_phase t = Complete \<and> hook_archived U J d t w))"

definition after_outcome ::
  "uuid_lib \<Rightarrow> pkg_json \<Rightarrow> path \<Rightarrow> (DeploymentKind \<Rightarrow> uuid \<Rightarrow> world \<Rightarrow> bool) \<Rightarrow> AptSnapshotPolicy \<Rightarrow>
   PackageTransaction option \<Rightarrow> world \<Rightarrow> bool" where
  "after_outcome U J d snap policy r w \<longleftrightarrow>
     (case r of
        None \<Rightarrow> \<not> snapshot_after policy
      | Some t \<Rightarrow>
          snapshot_after policy \<and> pt_phase t = Complete \<and> hook_archived U J d t w
          \<and> (\<exists>i. pt_post_deployment_id t = Some i \<and> snap AptPost i w))"

locale package_hook_contract =
  fixes B :: package_hook_backend and U :: uuid_lib and J :: pkg_json and d :: path
    and snap :: "DeploymentKind \<Rightarrow> uuid \<Rightarrow> world \<Rightarrow> bool"
  assumes begins: "io_triple (\<lambda>_. True) (ph_begin_transaction B)
        (\<lambda>t _. pt_pre_deployment_id t = None \<and> pt_post_deployment_id t = None) (\<lambda>_ _. True)"
    and creates_pre: "io_triple (\<lambda>_. True) (ph_create_pre B s) (snap AptPre) (\<lambda>_ _. True)"
    and creates_post: "io_triple (\<lambda>_. True) (ph_create_post B s) (snap AptPost) (\<lambda>_ _. True)"
    and updates: "io_triple (\<lambda>_. True) (ph_update_transaction B t) (\<lambda>_. hook_pending J d t) (\<lambda>_ _. True)"
    and archives: "io_triple (\<lambda>_. True) (ph_archive_transaction B t) (\<lambda>_. hook_archived U J d t) (\<lambda>_ _. True)"
    and update_frame: "touches (under d) (ph_update_transaction B t)"
    and archive_frame: "touches (under d) (ph_archive_transaction B t)"
    and snap_kept: "(\<And>p. p \<notin> under d \<Longrightarrow> map_of (nodes w') p = map_of (nodes w) p) \<Longrightarrow> snap k i w \<Longrightarrow> snap k i w'"
begin

lemma keeps_snap: "touches (under d) m \<Longrightarrow> io_triple (snap k i) m (\<lambda>_. snap k i) (\<lambda>_. snap k i)"
  by (rule io_tripleI) (blast dest: touchesD intro: snap_kept)+

lemma keeps_then:
  assumes "touches (under d) m" and "io_triple (\<lambda>_. True) m Q (\<lambda>_ _. True)"
  shows "io_triple (snap k i) m (\<lambda>x w. Q x w \<and> snap k i w) (\<lambda>_ _. True)"
  by (rule triple_weaken [OF triple_conj [OF assms(2) keeps_snap [OF assms(1)]]]) simp_all

lemma triple_step:
  assumes "\<And>w w'. map_of (nodes w') = map_of (nodes w) \<Longrightarrow> P w \<Longrightarrow> P w'"
  shows "io_triple P (hook_step f) (\<lambda>t w. P w \<and> (\<exists>now. f now = (t, Inr ()))) (\<lambda>_ _. True)"
proof -
  have "io_triple P utc_now (\<lambda>_. P) (\<lambda>_ _. True)"
    using assms by (auto simp: io_triple_def utc_now_def tick_def)
  then show ?thesis
    unfolding hook_step_def by (rule triple_bind) (auto split: prod.split sum.split intro!: triple_throw triple_return)
qed

lemma snap_steps: "map_of (nodes w') = map_of (nodes w) \<Longrightarrow> snap k i w \<Longrightarrow> snap k i w'"
  by (rule snap_kept) simp_all

lemma stopped: "io_triple P (io_bind (interrupt_and_archive B t f) (\<lambda>_. io_throw e)) Q (\<lambda>_ _. True)"
  by (rule triple_weaken [OF triple_bind [OF triple_any triple_throw]]) auto

lemma before_established:
  "io_triple (\<lambda>_. True) (before_packages_with_policy U B policy) (before_outcome U J d snap policy) (\<lambda>_ _. True)"
proof -
  have update: "io_triple (snap k i) (ph_update_transaction B t) (\<lambda>_ w. hook_pending J d t w \<and> snap k i w) (\<lambda>_ _. True)" for k i t
    by (rule keeps_then [OF update_frame updates])
  have archive: "io_triple (snap k i) (ph_archive_transaction B t) (\<lambda>_ w. hook_archived U J d t w \<and> snap k i w) (\<lambda>_ _. True)" for k i t
    by (rule keeps_then [OF archive_frame archives])
  have skipped: "io_triple (\<lambda>_. True) (io_bind (hook_step (\<lambda>now. skip_pre now t)) (\<lambda>t.
      io_bind (ph_update_transaction B t) (\<lambda>_. io_return (Some t)))) (before_outcome U J d snap policy) (\<lambda>_ _. True)"
    if "pt_pre_deployment_id t = None" "pt_post_deployment_id t = None" "\<not> snapshot_before policy" "snapshot_after policy" for t
    by (rule triple_bind [OF triple_step], simp, rule triple_pure, rule triple_bind [OF updates], rule triple_return)
      (use that in \<open>auto simp: before_outcome_def skip_pre_def pkg_validated_def split: if_splits\<close>)
  have completed: "io_triple (snap AptPre i) (io_bind (hook_step (\<lambda>now. complete_without_post now t)) (\<lambda>t.
      io_bind (ph_archive_transaction B t) (\<lambda>_. io_return (Some t)))) (before_outcome U J d snap policy) (\<lambda>_ _. True)"
    if "pt_pre_deployment_id t = Some i" "pt_post_deployment_id t = None" "snapshot_before policy" "\<not> snapshot_after policy" for t i
    by (rule triple_bind [OF triple_step], erule (1) snap_steps, rule triple_pure, rule triple_bind [OF archive], rule triple_return)
      (use that in \<open>auto simp: before_outcome_def complete_without_post_def pkg_validated_def split: if_splits\<close>)
  have waiting: "io_triple (snap AptPre i) (io_bind (ph_update_transaction B t) (\<lambda>_. io_return (Some t)))
      (before_outcome U J d snap policy) (\<lambda>_ _. True)"
    if "pt_pre_deployment_id t = Some i" "pt_post_deployment_id t = None" "pt_phase t = AwaitingPost"
      "snapshot_before policy" "snapshot_after policy" for t i
    by (rule triple_bind [OF update], rule triple_return) (use that in \<open>auto simp: before_outcome_def\<close>)
  have created: "io_triple (snap AptPre i) (io_bind (hook_step (\<lambda>now. record_pre i now t)) (\<lambda>t.
      if snapshot_after policy then io_bind (ph_update_transaction B t) (\<lambda>_. io_return (Some t))
      else io_bind (hook_step (\<lambda>now. complete_without_post now t)) (\<lambda>t.
        io_bind (ph_archive_transaction B t) (\<lambda>_. io_return (Some t))))) (before_outcome U J d snap policy) (\<lambda>_ _. True)"
    if "pt_post_deployment_id t = None" "snapshot_before policy" for t i
    by (rule triple_bind [OF triple_step], erule (1) snap_steps, rule triple_pure)
      (use that in \<open>auto simp: record_pre_def pkg_validated_def split: if_splits intro!: waiting completed\<close>)
  have begun: "io_triple (\<lambda>_. True) (ph_begin_transaction B)
      (\<lambda>t w. True \<and> (pt_pre_deployment_id t = None \<and> pt_post_deployment_id t = None)) (\<lambda>_ _. True)"
    by (rule triple_weaken [OF begins]) simp_all
  show ?thesis
    unfolding before_packages_with_policy_def
    by (rule triple_if, rule triple_return, simp add: before_outcome_def, rule triple_bind [OF begun], rule triple_pure, rule triple_if)
      (auto intro!: skipped triple_match [OF creates_pre] created stopped)
qed

lemma after_established:
  "io_triple (\<lambda>_. True) (after_packages_with_policy U B policy) (after_outcome U J d snap policy) (\<lambda>_ _. True)"
proof -
  have archive: "io_triple (snap k i) (ph_archive_transaction B t) (\<lambda>_ w. hook_archived U J d t w \<and> snap k i w) (\<lambda>_ _. True)" for k i t
    by (rule keeps_then [OF archive_frame archives])
  have recorded: "io_triple (snap AptPost i) (io_bind (hook_step (\<lambda>now. record_post i now t)) (\<lambda>t.
      io_bind (ph_archive_transaction B t) (\<lambda>_. io_return (Some t)))) (after_outcome U J d snap policy) (\<lambda>_ _. True)"
    if "snapshot_after policy" for t i
    by (rule triple_bind [OF triple_step], erule (1) snap_steps, rule triple_pure, rule triple_bind [OF archive], rule triple_return)
      (use that in \<open>auto simp: after_outcome_def record_post_def pkg_validated_def split: if_splits\<close>)
  have none: "io_triple P (io_return None) (after_outcome U J d snap policy) (\<lambda>_ _. True)" if "\<not> snapshot_after policy" for P
    by (rule triple_return) (simp add: after_outcome_def that)
  have throws: "io_triple P (io_bind m (\<lambda>_. io_throw e)) Q (\<lambda>_ _. True)" for P m e Q
    by (rule triple_weaken [OF triple_bind [OF triple_any triple_throw]]) auto
  show ?thesis
    unfolding after_packages_with_policy_def Let_def
    by (rule triple_skip, rule triple_if, rule triple_skip, erule none, rule triple_case_option, rule triple_throw, simp,
        rule triple_if, rule throws, rule triple_match [OF creates_post])
      (auto intro!: recorded stopped)
qed

end

subsection \<open>The hook on the system\<close>

text \<open>A complete snapshot, as the snapshot engine leaves it.\<close>

definition complete_snapshot :: "operation_libs \<Rightarrow> OperationEngine \<Rightarrow> DeploymentKind \<Rightarrow> uuid \<Rightarrow> world \<Rightarrow> bool" where
  "complete_snapshot L E k i w \<longleftrightarrow>
     (\<exists>r. dep_id r = i \<and> dep_kind r = k \<and> can_restore (ol_uuid L) r \<and> snapshot_finished L E Ready r w)"

locale package_hook_environment =
  operation_environment L "default_operation_engine run" silent for L :: operation_libs and run :: programs

sublocale package_hook_environment \<subseteq>
  package_hook_contract "system_hook_backend L run" "ol_uuid L" "ol_pkg L" "transactions_dir RECOVERY_STORE_ROOT"
    "complete_snapshot L (default_operation_engine run)"
proof
  let ?E = "default_operation_engine run" and ?d = "transactions_dir RECOVERY_STORE_ROOT"
  let ?B = "system_hook_backend L run"
  have made: "io_triple (\<lambda>_. True) (io_bind (io_map_err (\<lambda>e. PackageHookError (oe_message e))
      (create_snapshot L ?E report title reason schedule pinned k Ready silent)) (\<lambda>r. io_return (dep_id r)))
      (complete_snapshot L ?E k) (\<lambda>_ _. True)" for report title reason schedule pinned k
    unfolding create_snapshot_def
    by (rule triple_bind [OF triple_map_err [OF triple_weaken [OF create_with_finishes]]], simp, assumption, simp, rule triple_return)
      (auto simp: complete_snapshot_def snapshot_finished_def can_restore_def)
  have labelled: "io_triple (\<lambda>_. True) (io_bind (io_map_err (\<lambda>e. PackageHookError (oe_message e))
      (io_bind (io_lift label) (\<lambda>_. create_snapshot L ?E report title reason schedule pinned k Ready silent))) (\<lambda>r. io_return (dep_id r)))
      (complete_snapshot L ?E k) (\<lambda>_ _. True)" for label report title reason schedule pinned k
    using made [of report title reason schedule pinned k]
    by (cases label) (auto simp: io_bind_lift io_triple_def io_bind_def io_map_err_def io_match_def io_lift_def io_throw_def)
  show "io_triple (\<lambda>_. True) (ph_begin_transaction ?B)
      (\<lambda>t _. pt_pre_deployment_id t = None \<and> pt_post_deployment_id t = None) (\<lambda>_ _. True)"
  proof -
    have new: "io_triple (\<lambda>_. True) PackageTransaction_new
        (\<lambda>t w. True \<and> (pt_pre_deployment_id t = None \<and> pt_post_deployment_id t = None)) (\<lambda>_ _. True)"
      unfolding PackageTransaction_new_def by (intro triple_skip triple_return) simp
    have begun: "io_triple (\<lambda>_. True) (io_bind PackageTransaction_new (\<lambda>t. io_bind (m t) (\<lambda>_. io_return t)))
        (\<lambda>t _. pt_pre_deployment_id t = None \<and> pt_post_deployment_id t = None) (\<lambda>_ _. True)"
      for m :: "PackageTransaction \<Rightarrow> (PackageHookError, unit) io"
      by (rule triple_bind [OF new], rule triple_pure, rule triple_skip, rule triple_return) simp
    show ?thesis
      by (auto simp: system_hook_backend_def Let_def system_begin_transaction_def intro!: begun triple_skip triple_if triple_throw)
  qed
  show "io_triple (\<lambda>_. True) (ph_create_pre ?B s) (complete_snapshot L ?E AptPre) (\<lambda>_ _. True)"
    "io_triple (\<lambda>_. True) (ph_create_post ?B s) (complete_snapshot L ?E AptPost) (\<lambda>_ _. True)" for s
    by (simp_all add: system_hook_backend_def Let_def create_apt_pre_def create_apt_post_def triple_skip labelled)
  show "io_triple (\<lambda>_. True) (ph_update_transaction ?B t) (\<lambda>_. hook_pending (ol_pkg L) ?d t) (\<lambda>_ _. True)" for t
    by (rule triple_from_any [of "\<lambda>w. map_of (nodes w) (package_pending_path ?d)"])
      (auto simp: system_hook_backend_def Let_def hook_pending_def intro!: triple_map_err triple_weaken [OF triple_package_update])
  show "io_triple (\<lambda>_. True) (ph_archive_transaction ?B t) (\<lambda>_. hook_archived (ol_uuid L) (ol_pkg L) ?d t) (\<lambda>_ _. True)" for t
    by (rule triple_from_any [of "\<lambda>w. map_of (nodes w) (package_pending_path ?d)"])
      (auto simp: system_hook_backend_def Let_def hook_archived_def intro!: triple_map_err triple_weaken [OF triple_package_archive])
  show "touches (under ?d) (ph_update_transaction ?B t)" "touches (under ?d) (ph_archive_transaction ?B t)" for t
    by (simp_all add: system_hook_backend_def Let_def) (intro io_rules)+
  show "complete_snapshot L ?E k i w'"
    if same: "\<And>p. p \<notin> under ?d \<Longrightarrow> map_of (nodes w') p = map_of (nodes w) p" and "complete_snapshot L ?E k i w" for w' w k i
  proof -
    have "snapshot_finished L ?E Ready r w' = snapshot_finished L ?E Ready r w" for r
      by (rule finished_agree, rule same)
        (auto simp: record_path_def metadata_dir_def deployment_dir_def default_operation_engine_def transactions_dir_def
          RECOVERY_STORE_ROOT_def under_def prefix_def)
    with that(2) show ?thesis by (auto simp: complete_snapshot_def)
  qed
qed

context package_hook_environment
begin

lemmas system_hook_reports = before_established after_established

end

subsection \<open>Properties\<close>


interpretation simulated_hook: package_hook_environment witness_operation_libs "\<lambda>_. simulated_home"
  using simulated_system_runner
  by (auto simp: package_hook_environment_def operation_environment_def operation_environment_axioms_def silent_def touches_return)


end
