(* ===== verification/Rollback.thy ===== *)
theory Rollback
  imports History_Cleanup Home_Accounts
begin

text \<open>
  \<open>rollback.rs\<close>: preparing, arming and cancelling a rollback while the system runs. The coordinator
  works over the trait \<open>RollbackBackend\<close>; the system backend combines the two snapshot engines, the
  boot integration and the stores. The validation of Secure Boot signatures
  (\<open>secure_boot.rs\<close>) is an argument, as are the external programs. The two probes of the target in
  \<open>boot.rs\<close> that only the coordinator uses are here too.
\<close>

subsection \<open>Data\<close>

datatype RollbackProgressPhase = RpValidate | RpProtectCurrent | RpRecordTransaction | RpConfigureBoot | RpCommit | RpCleanup

fun RollbackProgressPhase_as_str :: "RollbackProgressPhase \<Rightarrow> string" where
  "RollbackProgressPhase_as_str RpValidate = ''validate''"
| "RollbackProgressPhase_as_str RpProtectCurrent = ''protect-current''"
| "RollbackProgressPhase_as_str RpRecordTransaction = ''record-transaction''"
| "RollbackProgressPhase_as_str RpConfigureBoot = ''configure-boot''"
| "RollbackProgressPhase_as_str RpCommit = ''commit''"
| "RollbackProgressPhase_as_str RpCleanup = ''cleanup''"

datatype RollbackErrorCode =
  RbAlreadyPending | RbInvalidTarget | RbUnsupportedLayout | RbBootIntegration | RbCommandFailed | RbStateCommit

fun RollbackErrorCode_as_str :: "RollbackErrorCode \<Rightarrow> string" where
  "RollbackErrorCode_as_str RbAlreadyPending = ''already-pending''"
| "RollbackErrorCode_as_str RbInvalidTarget = ''invalid-target''"
| "RollbackErrorCode_as_str RbUnsupportedLayout = ''unsupported-layout''"
| "RollbackErrorCode_as_str RbBootIntegration = ''boot-integration''"
| "RollbackErrorCode_as_str RbCommandFailed = ''command-failed''"
| "RollbackErrorCode_as_str RbStateCommit = ''state-commit''"

record RollbackError =
  rbe_code :: RollbackErrorCode
  rbe_message :: string

definition RollbackError_new :: "RollbackErrorCode \<Rightarrow> string \<Rightarrow> RollbackError" where
  "RollbackError_new c m = \<lparr>rbe_code = c, rbe_message = m\<rparr>"

definition rollback_personal_error :: "PersonalError \<Rightarrow> RollbackError" where
  "rollback_personal_error e = RollbackError_new RbInvalidTarget (pe_message e)"

definition rollback_transaction_error :: "TransactionError \<Rightarrow> RollbackError" where
  "rollback_transaction_error e =
     RollbackError_new (if te_code e = TeAlreadyPending then RbAlreadyPending else RbStateCommit) (te_message e)"

definition rollback_boot_error :: "BootError \<Rightarrow> RollbackError" where
  "rollback_boot_error e = RollbackError_new RbBootIntegration (be_message e)"

text \<open>The progress callback, with the fraction in hundredths.\<close>

type_synonym rb_progress = "RollbackProgressPhase \<Rightarrow> int \<Rightarrow> string \<Rightarrow> (unit, unit) io"

subsection \<open>The trait\<close>

record rollback_backend =
  rb_lock_preparation :: "(RollbackError, unit) io"
  rb_layout :: "(RollbackError, LayoutReport) io"
  rb_pending :: "(RollbackError, RollbackTransaction option) io"
  rb_package_transaction_pending :: "(RollbackError, bool) io"
  rb_verify_target :: "uuid \<Rightarrow> (RollbackError, DeploymentRecord) io"
  rb_verify_factory_home :: "LayoutReport \<Rightarrow> (RollbackError, PersonalSnapshotRecord) io"
  rb_verify_home :: "LayoutReport \<Rightarrow> uuid \<Rightarrow> (RollbackError, PersonalSnapshotRecord) io"
  rb_check_home_capacity :: "LayoutReport \<Rightarrow> (RollbackError, unit) io"
  rb_create_home_fallback :: "LayoutReport \<Rightarrow> (RollbackError, PersonalSnapshotRecord) io"
  rb_check_fallback_capacity :: "LayoutReport \<Rightarrow> (RollbackError, unit) io"
  rb_create_fallback :: "(RollbackError, DeploymentRecord) io"
  rb_root_filesystem_uuid :: "LayoutReport \<Rightarrow> (RollbackError, string) io"
  rb_verify_one_shot_support :: "(RollbackError, unit) io"
  rb_target_recovery_protocol :: "DeploymentRecord \<Rightarrow> (RollbackError, u32) io"
  rb_target_kernel_release :: "DeploymentRecord \<Rightarrow> (RollbackError, string) io"
  rb_verify_recovery_boot_source :: "(RollbackError, unit) io"
  rb_provision_recovery_boot_artifacts :: "(RollbackError, RecoveryBootArtifacts) io"
  rb_create_transaction :: "RollbackTransaction \<Rightarrow> (RollbackError, unit) io"
  rb_update_transaction :: "RollbackTransaction \<Rightarrow> (RollbackError, unit) io"
  rb_remove_transaction :: "(RollbackError, unit) io"
  rb_regenerate_grub :: "(RollbackError, unit) io"
  rb_verify_grub_entry :: "RollbackTransaction \<Rightarrow> (RollbackError, unit) io"
  rb_arm_once :: "(RollbackError, string) io"
  rb_clear_once :: "(RollbackError, unit) io"

subsection \<open>The coordinator\<close>

definition validate_environment :: "rollback_backend \<Rightarrow> (RollbackError, LayoutReport) io" where
  "validate_environment B =
     io_bind (rb_pending B) (\<lambda>pending.
     if pending \<noteq> None
     then io_throw (RollbackError_new RbAlreadyPending ''Another system restore is already pending'')
     else
       io_bind (rb_package_transaction_pending B) (\<lambda>package.
       if package
       then io_throw (RollbackError_new RbAlreadyPending ''A package transaction is already creating system snapshots'')
       else
         io_bind (rb_layout B) (\<lambda>report.
         if \<not> LayoutReport_is_supported report
         then io_throw (RollbackError_new RbUnsupportedLayout ''The complete AnduinOS Btrfs layout is required'')
         else io_return report)))"

definition validate_ready ::
  "uuid_lib \<Rightarrow> rollback_backend \<Rightarrow> uuid \<Rightarrow> bool \<Rightarrow> bool \<Rightarrow>
   (RollbackError, DeploymentRecord \<times> LayoutReport \<times> string \<times> PersonalSnapshotRecord option) io" where
  "validate_ready U B target_id factory_reset reset_home =
     io_bind (validate_environment B) (\<lambda>report.
     io_bind (rb_verify_target B target_id) (\<lambda>target.
     if \<not> can_restore U target
     then io_throw (RollbackError_new RbInvalidTarget ''Only a complete, healthy system snapshot can be scheduled'')
     else if factory_reset \<and> dep_kind target \<noteq> Factory
     then io_throw (RollbackError_new RbInvalidTarget ''Factory reset requires the installer-owned factory recovery point'')
     else
       io_bind
         (if reset_home
          then io_bind (rb_verify_factory_home B report) (\<lambda>home.
               io_bind (rb_check_home_capacity B report) (\<lambda>_. io_return (Some home)))
          else io_return None) (\<lambda>factory_home.
       io_bind (rb_root_filesystem_uuid B report) (\<lambda>root_uuid.
       io_bind (rb_check_fallback_capacity B report) (\<lambda>_.
       io_bind (rb_target_recovery_protocol B target) (\<lambda>_.
       io_bind (rb_verify_recovery_boot_source B) (\<lambda>_.
       io_bind (rb_verify_one_shot_support B) (\<lambda>_.
       io_return (target, report, root_uuid, factory_home)))))))))"

definition check_ready :: "uuid_lib \<Rightarrow> rollback_backend \<Rightarrow> uuid \<Rightarrow> (RollbackError, DeploymentRecord) io" where
  "check_ready U B target_id = io_bind (validate_ready U B target_id False False) (\<lambda>(target, _). io_return target)"

definition check_factory_reset_ready ::
  "uuid_lib \<Rightarrow> rollback_backend \<Rightarrow> uuid \<Rightarrow> bool \<Rightarrow> (RollbackError, DeploymentRecord) io" where
  "check_factory_reset_ready U B target_id reset_home =
     io_bind (validate_ready U B target_id True reset_home) (\<lambda>(target, _). io_return target)"

definition check_home_ready :: "rollback_backend \<Rightarrow> uuid \<Rightarrow> (RollbackError, PersonalSnapshotRecord) io" where
  "check_home_ready B i =
     io_bind (validate_environment B) (\<lambda>report.
     io_bind (rb_verify_home B report i) (\<lambda>home.
     io_bind (rb_check_home_capacity B report) (\<lambda>_.
     io_bind (rb_check_fallback_capacity B report) (\<lambda>_.
     io_bind (rb_verify_recovery_boot_source B) (\<lambda>_.
     io_bind (rb_verify_one_shot_support B) (\<lambda>_.
     io_bind (rb_root_filesystem_uuid B report) (\<lambda>_. io_return home)))))))"

text \<open>The three calls run in any case; \<open>problems.join("; ")\<close>.\<close>

fun join_problems :: "string list \<Rightarrow> string" where
  "join_problems [] = []"
| "join_problems [p] = p"
| "join_problems (p # q # ps) = p @ ''; '' @ join_problems (q # ps)"

definition cleanup_failed_schedule :: "rollback_backend \<Rightarrow> (RollbackError, unit) io" where
  "cleanup_failed_schedule B =
     io_match (rb_clear_once B) (\<lambda>a.
     io_match (rb_remove_transaction B) (\<lambda>b.
     io_match (rb_regenerate_grub B) (\<lambda>c.
     let problems = List.map_filter (\<lambda>r. case r of Inl e \<Rightarrow> Some (rbe_message e) | Inr _ \<Rightarrow> None) [a, b, c] in
     if problems = [] then io_return ()
     else io_throw (RollbackError_new RbStateCommit (join_problems problems)))))"

text \<open>What happens once the transaction is recorded.\<close>

definition arm_recorded ::
  "uuid_lib \<Rightarrow> rollback_backend \<Rightarrow> rb_progress \<Rightarrow> RollbackTransaction \<Rightarrow> (RollbackError, RollbackTransaction) io" where
  "arm_recorded U B progress t =
     notify (progress RpConfigureBoot 72 ''Creating the one-time recovery boot entry'')
     (io_bind (rb_regenerate_grub B) (\<lambda>_.
      io_bind (rb_verify_grub_entry B t) (\<lambda>_.
      io_bind utc_now (\<lambda>now.
      case transition U Armed now t of
        (_, Inl e) \<Rightarrow> io_throw (rollback_transaction_error e)
      | (t, Inr _) \<Rightarrow>
          io_bind (rb_update_transaction B t) (\<lambda>_.
          io_bind (rb_arm_once B) (\<lambda>armed_entry.
          if armed_entry \<noteq> tx_grub_entry_id t
          then io_throw (RollbackError_new RbBootIntegration ''GRUB armed an unexpected recovery entry'')
          else notify (progress RpCommit 100 ''System restore is ready for restart'') (io_return t)))))))"

definition arm_transaction ::
  "uuid_lib \<Rightarrow> rollback_backend \<Rightarrow> rb_progress \<Rightarrow> RollbackTransaction \<Rightarrow> (RollbackError, RollbackTransaction) io" where
  "arm_transaction U B progress t =
     notify (progress RpRecordTransaction 58 ''Recording the restore transaction'')
     (io_bind (rb_create_transaction B t) (\<lambda>_.
      io_match (arm_recorded U B progress t) (\<lambda>result.
      case result of
        Inr t \<Rightarrow> io_return t
      | Inl e \<Rightarrow>
          notify (progress RpCleanup 95 ''Cancelling the incomplete restore'')
          (io_match (cleanup_failed_schedule B) (\<lambda>cleanup.
           case cleanup of
             Inr _ \<Rightarrow> io_throw e
           | Inl c \<Rightarrow> io_throw (RollbackError_new (rbe_code e)
                 (rbe_message e @ ''; cleanup also failed: '' @ rbe_message c)))))))"

text \<open>A new transaction that restores a target with a kernel and a protocol.\<close>

definition bind_target :: "u32 \<Rightarrow> string \<Rightarrow> RollbackTransaction \<Rightarrow> RollbackTransaction" where
  "bind_target protocol target_kernel t =
     (if protocol = CONTINUE_BOOT_PROTOCOL_VERSION then use_continue_boot_protocol t
      else t\<lparr>tx_target_kernel_release := Some target_kernel\<rparr>)"

definition new_rollback ::
  "uuid_lib \<Rightarrow> uuid \<Rightarrow> uuid \<Rightarrow> string \<Rightarrow> RecoveryBootArtifacts \<Rightarrow> ('e, RollbackTransaction) io" where
  "new_rollback U target fallback root_uuid boot =
     io_bind new_v4 (\<lambda>i.
     io_bind utc_now (\<lambda>now.
     io_return (RollbackTransaction_new U i now target fallback root_uuid (ba_kernel_release boot)
       (ba_kernel_sha256 boot) (ba_initramfs_sha256 boot) (ba_confirm_sha256 boot))))"

definition reset_home_of ::
  "uuid_lib \<Rightarrow> PersonalSnapshotRecord option \<Rightarrow> RollbackTransaction \<Rightarrow> RollbackError + RollbackTransaction" where
  "reset_home_of U factory_home t =
     (case factory_home of
        None \<Rightarrow> Inr t
      | Some home \<Rightarrow>
          (case enable_home_reset U home t of
             (_, Inl e) \<Rightarrow> Inl (rollback_transaction_error e)
           | (t, Inr _) \<Rightarrow> Inr t))"

definition schedule_internal ::
  "uuid_lib \<Rightarrow> rollback_backend \<Rightarrow> uuid \<Rightarrow> bool \<Rightarrow> bool \<Rightarrow> bool \<Rightarrow> rb_progress \<Rightarrow>
   (RollbackError, RollbackTransaction) io" where
  "schedule_internal U B target_id factory_reset reset_home purge progress =
     io_bind (rb_lock_preparation B) (\<lambda>_.
     notify (progress RpValidate 2 ''Checking the recovery target'')
     (io_bind (validate_ready U B target_id factory_reset reset_home) (\<lambda>(target, report, root_uuid, factory_home).
      io_bind (rb_target_recovery_protocol B target) (\<lambda>protocol.
      io_bind (rb_target_kernel_release B target) (\<lambda>target_kernel.
      io_bind (rb_provision_recovery_boot_artifacts B) (\<lambda>recovery_boot.
      notify (progress RpProtectCurrent 18 ''Protecting the current system'')
      (io_bind (rb_create_fallback B) (\<lambda>fallback.
       io_bind (if reset_home then io_bind (rb_create_home_fallback B report) (\<lambda>r. io_return (Some (ps_id r)))
                else io_return None) (\<lambda>home_fallback.
       io_bind (new_rollback U (dep_id target) (dep_id fallback) root_uuid recovery_boot) (\<lambda>t.
       io_bind (io_lift (reset_home_of U factory_home (bind_target protocol target_kernel t))) (\<lambda>t.
       arm_transaction U B progress
         (t\<lparr>tx_purge_history := purge, tx_fallback_home_snapshot_id := home_fallback\<rparr>))))))))))))"

definition schedule :: "uuid_lib \<Rightarrow> rollback_backend \<Rightarrow> uuid \<Rightarrow> rb_progress \<Rightarrow> (RollbackError, RollbackTransaction) io" where
  "schedule U B target_id progress = schedule_internal U B target_id False False False progress"

definition schedule_factory_reset ::
  "uuid_lib \<Rightarrow> rollback_backend \<Rightarrow> uuid \<Rightarrow> bool \<Rightarrow> rb_progress \<Rightarrow> (RollbackError, RollbackTransaction) io" where
  "schedule_factory_reset U B target_id reset_home progress = schedule_internal U B target_id True reset_home False progress"

definition schedule_factory_reset_with_history_cleanup ::
  "uuid_lib \<Rightarrow> rollback_backend \<Rightarrow> uuid \<Rightarrow> rb_progress \<Rightarrow> (RollbackError, RollbackTransaction) io" where
  "schedule_factory_reset_with_history_cleanup U B target_id progress = schedule_internal U B target_id True True True progress"

definition schedule_home ::
  "uuid_lib \<Rightarrow> rollback_backend \<Rightarrow> uuid \<Rightarrow> rb_progress \<Rightarrow> (RollbackError, RollbackTransaction) io" where
  "schedule_home U B i progress =
     io_bind (rb_lock_preparation B) (\<lambda>_.
     notify (progress RpValidate 2 ''Checking the Home recovery target'')
     (io_bind (check_home_ready B i) (\<lambda>home.
      io_bind (rb_layout B) (\<lambda>report.
      io_bind (rb_root_filesystem_uuid B report) (\<lambda>root_uuid.
      io_bind (rb_provision_recovery_boot_artifacts B) (\<lambda>boot.
      notify (progress RpProtectCurrent 18 ''Protecting the current Home'')
      (io_bind (rb_create_home_fallback B report) (\<lambda>home_fallback.
       io_bind (rb_create_fallback B) (\<lambda>anchor.
       if dep_snapshot_parent_uuid anchor = None
       then io_throw (RollbackError_new RbInvalidTarget ''Root anchor has no parent UUID'')
       else
         io_bind (new_rollback U (dep_id anchor) (dep_id anchor) root_uuid boot) (\<lambda>t.
         io_bind (rb_target_recovery_protocol B anchor) (\<lambda>protocol.
         io_bind (if protocol = CONTINUE_BOOT_PROTOCOL_VERSION then io_return []
                  else rb_target_kernel_release B anchor) (\<lambda>target_kernel.
         io_bind (io_lift (reset_home_of U (Some home)
           ((bind_target protocol target_kernel t)\<lparr>tx_home_only := True\<rparr>))) (\<lambda>t.
         arm_transaction U B progress (t\<lparr>tx_fallback_home_snapshot_id := Some (ps_id home_fallback)\<rparr>))))))))))))))"

definition cancel :: "rollback_backend \<Rightarrow> (RollbackError, unit) io" where
  "cancel B =
     io_bind (rb_lock_preparation B) (\<lambda>_.
     io_bind (rb_pending B) (\<lambda>pending.
     case pending of
       None \<Rightarrow> io_throw (RollbackError_new RbInvalidTarget ''No system restore is pending'')
     | Some t \<Rightarrow>
         if tx_phase t \<notin> {Preparing, Armed}
         then io_throw (RollbackError_new RbStateCommit ''A restore can no longer be cancelled after early boot has begun'')
         else
           io_bind (rb_clear_once B) (\<lambda>_.
           io_bind (rb_remove_transaction B) (\<lambda>_.
           rb_regenerate_grub B))))"

subsection \<open>Commands and the GRUB configuration\<close>

definition BLKID :: string where "BLKID = ''/usr/sbin/blkid''"
definition GRUB_SCRIPT_CHECK :: string where "GRUB_SCRIPT_CHECK = ''/usr/bin/grub-script-check''"
definition GRUB_CONFIG :: path where "GRUB_CONFIG = [''boot'', ''grub'', ''grub.cfg'']"
definition MAX_GRUB_CONFIG_BYTES :: nat where "MAX_GRUB_CONFIG_BYTES = 16 * 1024 * 1024"

definition rollback_diagnostic :: "bytes \<Rightarrow> string" where
  "rollback_diagnostic err =
     (if 4096 < length err then ''diagnostic output exceeded 4096 bytes''
      else if \<not> utf8_valid err then ''diagnostic output was not UTF-8''
      else concat (map diagnostic_character (chars (str_trim err))))"

definition rollback_run_command :: "programs \<Rightarrow> string \<Rightarrow> argument list \<Rightarrow> (RollbackError, string) io" where
  "rollback_run_command run program arguments =
     io_bind (io_map_err (\<lambda>e. RollbackError_new RbCommandFailed
         (''Could not execute '' @ program @ '': '' @ err_text e)) (run program arguments)) (\<lambda>out.
     if \<not> success out
     then
       let d = rollback_diagnostic (stderr out) in
       io_throw (RollbackError_new RbCommandFailed
         (program @ '' exited with '' @ status out @ (if d = [] then [] else '': '' @ d)))
     else if 4096 < length (stdout out)
     then io_throw (RollbackError_new RbCommandFailed (program @ '' returned excessive output''))
     else if \<not> utf8_valid (stdout out)
     then io_throw (RollbackError_new RbCommandFailed (program @ '' returned non-UTF-8 output''))
     else io_return (stdout out))"

text \<open>\<open>matches(needle).count()\<close> for a needle that is not empty.\<close>

fun count_matches :: "string \<Rightarrow> string \<Rightarrow> nat" where
  "count_matches needle [] = 0"
| "count_matches needle (c # s) =
     (if prefix needle (c # s) then Suc (count_matches needle (drop (length needle - 1) s)) else count_matches needle s)"

definition entry_marker :: "RollbackTransaction \<Rightarrow> string" where
  "entry_marker t = ''--id '' @ single_quoted (tx_grub_entry_id t)"

definition request_marker :: "uuid_lib \<Rightarrow> RollbackTransaction \<Rightarrow> string" where
  "request_marker U t = ''anduinos.btrfs_snapshots_manager='' @ hyphenated U (tx_id t)"

text \<open>\<open>seek\<close> to the start.\<close>

definition seek_start :: "path \<Rightarrow> (io_error, unit) io" where
  "seek_start p = syscall (\<lambda>ns. (Inr (), ns))"

definition verify_grub_config :: "uuid_lib \<Rightarrow> path \<Rightarrow> RollbackTransaction \<Rightarrow> (RollbackError, unit) io" where
  "verify_grub_config U p t =
     (let unread = (\<lambda>e. RollbackError_new RbBootIntegration (''Could not read GRUB configuration: '' @ err_text e)) in
      io_bind (io_map_err (\<lambda>e. RollbackError_new RbBootIntegration
          (''Could not inspect GRUB configuration: '' @ err_text e)) (symlink_metadata p)) (\<lambda>metadata.
      if (case regular_content metadata of None \<Rightarrow> True | Some b \<Rightarrow> MAX_GRUB_CONFIG_BYTES < length b)
      then io_throw (RollbackError_new RbBootIntegration ''GRUB configuration is not a safe regular file'')
      else
        io_bind (io_map_err (\<lambda>e. RollbackError_new RbBootIntegration
            (''Could not open GRUB configuration: '' @ err_text e)) (open_read p)) (\<lambda>_.
        io_bind (io_map_err unread (seek_start p)) (\<lambda>_.
        io_bind (io_map_err unread (read_to_end p (MAX_GRUB_CONFIG_BYTES + 1))) (\<lambda>contents.
        if \<not> utf8_valid contents
        then io_throw (unread (IoError OtherKind ''stream did not contain valid UTF-8''))
        else if count_matches (entry_marker t) contents \<noteq> 1 \<or> count_matches (request_marker U t) contents \<noteq> 1
        then io_throw (RollbackError_new RbBootIntegration
               ''GRUB did not contain exactly one transaction-bound recovery entry'')
        else io_return ())))))"

definition rollback_canonical_uuid :: "uuid_lib \<Rightarrow> string \<Rightarrow> string \<Rightarrow> RollbackError + string" where
  "rollback_canonical_uuid U value name =
     (case parse_str U value of
        None \<Rightarrow> Inl (RollbackError_new RbInvalidTarget (name @ '' UUID is invalid''))
      | Some parsed \<Rightarrow>
          (if hyphenated U parsed \<noteq> value then Inl (RollbackError_new RbInvalidTarget (name @ '' UUID is not canonical''))
           else Inr (hyphenated U parsed)))"

subsection \<open>The probes of the target\<close>

definition target_kernel_release ::
  "uuid_lib \<Rightarrow> (path \<Rightarrow> (io_error, string) io) \<Rightarrow> BootIntegration \<Rightarrow> DeploymentRecord \<Rightarrow> (BootError, string) io" where
  "target_kernel_release U read_link B target =
     io_map_err (\<lambda>e. BootError_new BeInvalidDeployment (oe_message e))
       (read_default_installed_kernel_release read_link
          (bi_snapshot_root B @ [''deployments'', hyphenated U (dep_id target), ''root'']))"

definition target_recovery_protocol ::
  "uuid_lib \<Rightarrow> (path \<Rightarrow> (io_error, string) io) \<Rightarrow> BootIntegration \<Rightarrow> DeploymentRecord \<Rightarrow> (BootError, u32) io" where
  "target_recovery_protocol U read_link B target =
     (let older = io_throw (BootError_new BeUnsupportedEnvironment
            ''This older snapshot requires offline recovery. Use Live Rescue Center or the independent Recovery Environment.'') in
      io_bind (target_kernel_release U read_link B target) (\<lambda>release.
      let image = bi_snapshot_root B @ [''deployments'', hyphenated U (dep_id target), ''root'', ''boot'', ''initrd.img-'' @ release] in
      io_bind (ensure_regular_file image) (\<lambda>_.
      io_bind (bi_runner B LSINITRD [Arg ''--file'', Arg INITRAMFS_PROTOCOL, PathArg image]) (\<lambda>value.
      let protocol = parse_u32 (str_trim value) in
      if protocol = Some RECOVERY_PROTOCOL_VERSION then io_return RECOVERY_PROTOCOL_VERSION
      else if protocol = Some CONTINUE_BOOT_PROTOCOL_VERSION
      then
        io_bind (boot_read_kernel_release KERNEL_RELEASE) (\<lambda>running.
        if running = release then io_return CONTINUE_BOOT_PROTOCOL_VERSION else older)
      else older))))"

subsection \<open>The system backend\<close>

record rollback_env =
  rv_ops :: operation_libs
  rv_home :: personal_libs
  rv_mount_flags :: "path \<Rightarrow> (io_error, u64) io"
  rv_run :: programs
  rv_secure_boot :: "path \<Rightarrow> DeploymentRecord \<Rightarrow> (string, unit) io"

definition rv_boot :: "rollback_env \<Rightarrow> boot_libraries" where
  "rv_boot V =
     \<lparr>bl_uuid = ol_uuid (rv_ops V), bl_tx = ol_tx (rv_ops V), bl_dep = ol_dep (rv_ops V),
      bl_sha256 = ol_sha256 (rv_ops V), bl_statvfs = rv_mount_flags V\<rparr>"

definition default_boot_integration :: "programs \<Rightarrow> BootIntegration" where
  "default_boot_integration run = \<lparr>bi_snapshot_root = RECOVERY_STORE_ROOT, bi_runner = boot_output run\<rparr>"

definition silent_progress :: op_progress where "silent_progress phase fraction message = io_return ()"

definition rv_transactions :: path where "rv_transactions = transactions_dir RECOVERY_STORE_ROOT"

definition rv_target_kernel :: "rollback_env \<Rightarrow> DeploymentRecord \<Rightarrow> (RollbackError, string) io" where
  "rv_target_kernel V target =
     io_map_err rollback_boot_error
       (target_kernel_release (ol_uuid (rv_ops V)) (ol_read_link (rv_ops V)) (default_boot_integration (rv_run V)) target)"

definition rv_verify_target :: "rollback_env \<Rightarrow> uuid \<Rightarrow> (RollbackError, DeploymentRecord) io" where
  "rv_verify_target V i =
     io_bind inspect_current (\<lambda>report.
     io_bind (io_map_err (\<lambda>e. RollbackError_new RbInvalidTarget (oe_message e))
       (verify_deployment (rv_ops V) (default_operation_engine (rv_run V)) report i silent_progress)) (\<lambda>r.
     let snapshot_root = RECOVERY_STORE_ROOT @ [''deployments'', hyphenated (ol_uuid (rv_ops V)) i, ''root''] in
     io_bind (rv_target_kernel V r) (\<lambda>kernel_name.
     io_bind (io_map_err (\<lambda>e. RollbackError_new RbInvalidTarget (''Secure Boot validation failed: '' @ e))
       (rv_secure_boot V snapshot_root (r\<lparr>dep_kernel_release := Some kernel_name\<rparr>))) (\<lambda>_.
     io_return r))))"

definition rv_verify_factory_home :: "rollback_env \<Rightarrow> LayoutReport \<Rightarrow> (RollbackError, PersonalSnapshotRecord) io" where
  "rv_verify_factory_home V report =
     (let H = default_personal_engine (rv_run V) in
      io_bind (personal_discover (rv_home V) H) (\<lambda>discovery.
      if pd_issues discovery \<noteq> []
      then io_throw (RollbackError_new RbInvalidTarget ''Factory Home recovery metadata has unresolved issues'')
      else case filter (\<lambda>r. ps_kind r = PersonalFactory) (pd_snapshots discovery) of
        [factory] \<Rightarrow>
          io_map_err (\<lambda>e. RollbackError_new RbInvalidTarget
              (''Factory Home baseline verification failed: '' @ pe_message e))
            (personal_verify (rv_home V) H report (ps_id factory))
      | _ \<Rightarrow> io_throw (RollbackError_new RbInvalidTarget ''Exactly one factory Home baseline is required'')))"

definition rv_verify_home :: "rollback_env \<Rightarrow> LayoutReport \<Rightarrow> uuid \<Rightarrow> (RollbackError, PersonalSnapshotRecord) io" where
  "rv_verify_home V report i =
     (let H = default_personal_engine (rv_run V) in
      io_bind (io_map_err rollback_personal_error (personal_verify (rv_home V) H report i)) (\<lambda>r.
      io_bind (io_map_err (RollbackError_new RbInvalidTarget)
        (verify_home_accounts [''etc'', ''passwd'']
           (personal_snapshot_path (pl_uuid (rv_home V)) (pse_store_root H) i))) (\<lambda>_.
      io_return r)))"

definition rv_root_filesystem_uuid :: "rollback_env \<Rightarrow> LayoutReport \<Rightarrow> (RollbackError, string) io" where
  "rv_root_filesystem_uuid V report =
     (case lr_root_source report of
        None \<Rightarrow> io_throw (RollbackError_new RbUnsupportedLayout ''The root filesystem source is unavailable'')
      | Some source \<Rightarrow>
          io_bind (rollback_run_command (rv_run V) BLKID
            [Arg ''-s'', Arg ''UUID'', Arg ''-o'', Arg ''value'', Arg source]) (\<lambda>text.
          io_lift (rollback_canonical_uuid (ol_uuid (rv_ops V)) (str_trim text) ''root filesystem'')))"

definition rv_verify_bound_home :: "rollback_env \<Rightarrow> uuid option \<Rightarrow> (RollbackError, unit) io" where
  "rv_verify_bound_home V snapshot =
     (case snapshot of
        None \<Rightarrow> io_return ()
      | Some i \<Rightarrow>
          io_bind inspect_current (\<lambda>report.
          io_bind (io_map_err rollback_personal_error
            (personal_verify (rv_home V) (default_personal_engine (rv_run V)) report i)) (\<lambda>_. io_return ())))"

definition rv_create_transaction :: "rollback_env \<Rightarrow> RollbackTransaction \<Rightarrow> (RollbackError, unit) io" where
  "rv_create_transaction V t =
     io_bind (io_map_err (\<lambda>e. RollbackError_new RbStateCommit
         (''Could not coordinate rollback transaction: '' @ err_text e)) (acquire RECOVERY_STORE_ROOT)) (\<lambda>_.
     io_bind (io_map_err (\<lambda>e. RollbackError_new RbStateCommit (pk_message e))
       (package_load_pending (ol_pkg (rv_ops V)) rv_transactions)) (\<lambda>package.
     if package \<noteq> None
     then io_throw (RollbackError_new RbAlreadyPending ''A package transaction claimed the recovery boundary'')
     else
       io_bind (rv_verify_target V (tx_target_deployment_id t)) (\<lambda>_.
       io_bind (rv_verify_target V (tx_fallback_deployment_id t)) (\<lambda>_.
       io_bind (rv_verify_bound_home V (tx_factory_home_snapshot_id t)) (\<lambda>_.
       io_bind (rv_verify_bound_home V (tx_fallback_home_snapshot_id t)) (\<lambda>_.
       io_map_err rollback_transaction_error
         (tx_create (ol_uuid (rv_ops V)) (ol_tx (rv_ops V)) rv_transactions t)))))))"

definition system_rollback_backend :: "rollback_env \<Rightarrow> rollback_backend" where
  "system_rollback_backend V =
     (let L = rv_ops V; U = ol_uuid L; run = rv_run V; E = default_operation_engine run;
          H = default_personal_engine run; I = default_boot_integration run; d = rv_transactions;
          engine = (\<lambda>e. RollbackError_new RbStateCommit (oe_message e)) in
      \<lparr>rb_lock_preparation = io_map_err (\<lambda>e. RollbackError_new RbStateCommit
           (''Could not coordinate recovery preparation: '' @ err_text e)) (acquire_preparation RECOVERY_STORE_ROOT),
       rb_layout = inspect_current,
       rb_pending = io_map_err rollback_transaction_error (load_pending U (ol_tx L) d),
       rb_package_transaction_pending =
         io_bind (io_map_err (\<lambda>e. RollbackError_new RbStateCommit (pk_message e)) (package_load_pending (ol_pkg L) d))
           (\<lambda>package. io_return (package \<noteq> None)),
       rb_verify_target = rv_verify_target V,
       rb_verify_factory_home = rv_verify_factory_home V,
       rb_verify_home = rv_verify_home V,
       rb_check_home_capacity = (\<lambda>report. io_map_err rollback_personal_error (check_restore_capacity (rv_home V) H report)),
       rb_create_home_fallback = (\<lambda>report. io_map_err rollback_personal_error
         (personal_create_manual (rv_home V) H report ''Before rollback'' ''Safety snapshot before Home rollback'' False)),
       rb_check_fallback_capacity = (\<lambda>report. io_map_err engine (check_pre_rollback_capacity L E report)),
       rb_create_fallback = io_bind inspect_current (\<lambda>report. io_map_err engine (create_pre_rollback L E report silent_progress)),
       rb_root_filesystem_uuid = rv_root_filesystem_uuid V,
       rb_verify_one_shot_support =
         io_bind (io_map_err rollback_boot_error (ensure_external_environment_block I)) (\<lambda>_. io_return ()),
       rb_target_recovery_protocol = (\<lambda>target. io_map_err rollback_boot_error (target_recovery_protocol U (ol_read_link L) I target)),
       rb_target_kernel_release = rv_target_kernel V,
       rb_verify_recovery_boot_source = io_map_err rollback_boot_error (verify_recovery_boot_source (rv_boot V) I),
       rb_provision_recovery_boot_artifacts = io_map_err rollback_boot_error (provision_recovery_boot_artifacts (rv_boot V) I),
       rb_create_transaction = rv_create_transaction V,
       rb_update_transaction = (\<lambda>t. io_map_err rollback_transaction_error (tx_update_store U (ol_tx L) d t)),
       rb_remove_transaction = io_map_err rollback_transaction_error (tx_remove d),
       rb_regenerate_grub = io_bind (rollback_run_command run UPDATE_GRUB []) (\<lambda>_. io_return ()),
       rb_verify_grub_entry = (\<lambda>t. io_bind (verify_grub_config U GRUB_CONFIG t) (\<lambda>_.
         io_bind (rollback_run_command run GRUB_SCRIPT_CHECK [PathArg GRUB_CONFIG]) (\<lambda>_. io_return ()))),
       rb_arm_once = io_map_err rollback_boot_error (arm_pending_once (rv_boot V) I),
       rb_clear_once = io_map_err rollback_boot_error (clear_pending_once I)\<rparr>)"

end
