(* ===== verification/Rollback_Safety.thy ===== *)
theory Rollback_Safety
  imports Rollback
begin

text \<open>
  What is shown of the preparation of a rollback. The coordinator is verified once, in the locale
  \<open>rollback_contract\<close>, over a backend of which only three calls change the pending transaction and one
  the recovery artifacts; \<open>rollback_environment\<close> names what the running system provides, and a
  \<open>sublocale\<close> shows that the system backend keeps the contract there.
\<close>

subsection \<open>What the coordinator guarantees\<close>

text \<open>The step from a recorded transaction to an armed one.\<close>

definition armed_from :: "uuid_lib \<Rightarrow> RollbackTransaction \<Rightarrow> RollbackTransaction \<Rightarrow> bool" where
  "armed_from U t t' \<longleftrightarrow> (\<exists>now. transition U Armed now t = (t', Inr ()))"

lemma armed_from_facts:
  "armed_from U t t' \<Longrightarrow> RollbackTransaction_validate U t' = Inr () \<and> tx_phase t' = Armed
     \<and> (\<exists>now. t' = t\<lparr>tx_phase := Armed, tx_updated_at := now\<rparr>)"
  by (auto simp: armed_from_def transition_def validated_def split: if_splits)

definition tx_recorded :: "uuid_lib \<Rightarrow> tx_json \<Rightarrow> RollbackTransaction \<Rightarrow> inode option \<Rightarrow> bool" where
  "tx_recorded U J t i \<longleftrightarrow> slot_holds (tx_image U J t) i \<or> (\<exists>t'. armed_from U t t' \<and> slot_holds (tx_image U J t') i)"

text \<open>The artifacts that provisioning reports are the stored ones, the last of them a protected executable.\<close>

definition artifacts_stored :: "(bytes \<Rightarrow> string) \<Rightarrow> path \<Rightarrow> (path \<Rightarrow> inode option) \<Rightarrow> RecoveryBootArtifacts \<Rightarrow> bool" where
  "artifacts_stored sha boot M a \<longleftrightarrow>
     slot_holds (\<lambda>b. sha b = ba_kernel_sha256 a) (M (boot @ [RECOVERY_KERNEL]))
     \<and> slot_holds (\<lambda>b. sha b = ba_initramfs_sha256 a) (M (boot @ [RECOVERY_INITRAMFS]))
     \<and> slot_holds (\<lambda>b. sha b = ba_confirm_sha256 a) (M (boot @ [RECOVERY_CONFIRM]))
     \<and> (\<exists>i. M (boot @ [RECOVERY_CONFIRM]) = Some i \<and> mode i AND 0x49 \<noteq> 0 \<and> mode i AND 0x12 = 0)"

definition records_artifacts :: "RollbackTransaction \<Rightarrow> RecoveryBootArtifacts \<Rightarrow> bool" where
  "records_artifacts t a \<longleftrightarrow>
     tx_recovery_kernel_sha256 t = ba_kernel_sha256 a \<and> tx_recovery_initramfs_sha256 t = ba_initramfs_sha256 a
     \<and> tx_recovery_confirm_sha256 t = ba_confirm_sha256 a"

text \<open>What a successful preparation leaves, and what a failed one can leave in the pending slot.\<close>

definition rollback_armed ::
  "uuid_lib \<Rightarrow> tx_json \<Rightarrow> (bytes \<Rightarrow> string) \<Rightarrow> path \<Rightarrow> path \<Rightarrow> RollbackTransaction \<Rightarrow> world \<Rightarrow> bool" where
  "rollback_armed U J sha p boot t w \<longleftrightarrow>
     RollbackTransaction_validate U t = Inr () \<and> tx_phase t = Armed \<and> slot_holds (tx_image U J t) (map_of (nodes w) p)
     \<and> (\<exists>a. records_artifacts t a \<and> artifacts_stored sha boot (map_of (nodes w)) a)"

definition left_by_failure :: "uuid_lib \<Rightarrow> tx_json \<Rightarrow> inode option \<Rightarrow> inode option \<Rightarrow> bool" where
  "left_by_failure U J i j \<longleftrightarrow>
     j = i \<or> i = None \<and> (\<exists>t. tx_phase t \<in> {Preparing, Armed} \<and> slot_holds (tx_image U J t) j)"

text \<open>What a transaction of the system or of Home was asked for.\<close>

definition restores_system :: "uuid_lib \<Rightarrow> uuid \<Rightarrow> bool \<Rightarrow> bool \<Rightarrow> RollbackTransaction \<Rightarrow> bool" where
  "restores_system U i purge reset t \<longleftrightarrow>
     hyphenated U (tx_target_deployment_id t) = hyphenated U i \<and> tx_purge_history t = purge
     \<and> \<not> tx_home_only t \<and> (tx_reset_home t \<longleftrightarrow> reset)"

definition restores_home :: "uuid_lib \<Rightarrow> uuid \<Rightarrow> RollbackTransaction \<Rightarrow> bool" where
  "restores_home U i t \<longleftrightarrow>
     (\<exists>f. tx_factory_home_snapshot_id t = Some f \<and> hyphenated U f = hyphenated U i)
     \<and> tx_home_only t \<and> tx_reset_home t \<and> \<not> tx_purge_history t
     \<and> tx_target_deployment_id t = tx_fallback_deployment_id t \<and> tx_fallback_home_snapshot_id t \<noteq> None"

lemma triple_new_rollback:
  "io_triple P (new_rollback U target fallback root_uuid a)
    (\<lambda>t w. P w \<and> (\<exists>i now. t = RollbackTransaction_new U i now target fallback root_uuid (ba_kernel_release a)
       (ba_kernel_sha256 a) (ba_initramfs_sha256 a) (ba_confirm_sha256 a))) E"
  if "\<And>w w'. nodes w' = nodes w \<Longrightarrow> P w \<Longrightarrow> P w'" for P :: "world \<Rightarrow> bool"
  using that
  by (auto simp: io_triple_def new_rollback_def io_bind_def io_return_def new_v4_def utc_now_def tick_def)

lemma reset_home_of_facts:
  "reset_home_of U home t = Inr t' \<Longrightarrow>
     tx_phase t' = tx_phase t \<and> tx_target_deployment_id t' = tx_target_deployment_id t
     \<and> tx_fallback_deployment_id t' = tx_fallback_deployment_id t
     \<and> tx_root_filesystem_uuid t' = tx_root_filesystem_uuid t \<and> tx_home_only t' = tx_home_only t
     \<and> (tx_reset_home t' \<longleftrightarrow> tx_reset_home t \<or> home \<noteq> None) \<and> tx_purge_history t' = tx_purge_history t
     \<and> (\<forall>r. home = Some r \<longrightarrow> tx_factory_home_snapshot_id t' = Some (ps_id r))
     \<and> (records_artifacts t' a \<longleftrightarrow> records_artifacts t a)"
  by (auto simp: reset_home_of_def enable_home_reset_def validated_def records_artifacts_def split: option.splits sum.splits)

lemma bind_target_facts [simp]:
  "tx_phase (bind_target pr k t) = tx_phase t" "tx_target_deployment_id (bind_target pr k t) = tx_target_deployment_id t"
  "tx_fallback_deployment_id (bind_target pr k t) = tx_fallback_deployment_id t"
  "tx_root_filesystem_uuid (bind_target pr k t) = tx_root_filesystem_uuid t"
  "tx_home_only (bind_target pr k t) = tx_home_only t" "tx_reset_home (bind_target pr k t) = tx_reset_home t"
  "tx_purge_history (bind_target pr k t) = tx_purge_history t" "records_artifacts (bind_target pr k t) a = records_artifacts t a"
  by (simp_all add: bind_target_def use_continue_boot_protocol_def records_artifacts_def)

lemma new_rollback_facts:
  "tx_phase (RollbackTransaction_new U i now target fallback root_uuid r k n c) = Preparing"
  "tx_target_deployment_id (RollbackTransaction_new U i now target fallback root_uuid r k n c) = target"
  "tx_fallback_deployment_id (RollbackTransaction_new U i now target fallback root_uuid r k n c) = fallback"
  "\<not> tx_purge_history (RollbackTransaction_new U i now target fallback root_uuid r k n c)"
  "\<not> tx_home_only (RollbackTransaction_new U i now target fallback root_uuid r k n c)"
  "\<not> tx_reset_home (RollbackTransaction_new U i now target fallback root_uuid r k n c)"
  "records_artifacts (RollbackTransaction_new U i now target fallback root_uuid r (ba_kernel_sha256 a)
     (ba_initramfs_sha256 a) (ba_confirm_sha256 a)) a"
  by (simp_all add: RollbackTransaction_new_def records_artifacts_def)

text \<open>The artifacts are those of a tree, and the pending slot satisfies a condition.\<close>

definition slot_state ::
  "path \<Rightarrow> path \<Rightarrow> (path \<Rightarrow> inode option) \<Rightarrow> (inode option \<Rightarrow> bool) \<Rightarrow> world \<Rightarrow> bool" where
  "slot_state p boot M F w \<longleftrightarrow> agrees_off (- under boot) M w \<and> F (map_of (nodes w) p)"

text \<open>What the coordinator relies on: only three calls change the pending slot, only one the artifacts.\<close>

locale rollback_contract =
  fixes B :: rollback_backend and U :: uuid_lib and J :: tx_json and sha :: "bytes \<Rightarrow> string"
    and p :: path and boot :: path and progress :: rb_progress
  assumes lock_frame: "touches (- insert p (under boot)) (rb_lock_preparation B)"
    and layout_frame: "touches (- insert p (under boot)) (rb_layout B)"
    and pending_frame: "touches (- insert p (under boot)) (rb_pending B)"
    and package_frame: "touches (- insert p (under boot)) (rb_package_transaction_pending B)"
    and target_frame: "touches (- insert p (under boot)) (rb_verify_target B i)"
    and factory_home_frame: "touches (- insert p (under boot)) (rb_verify_factory_home B report)"
    and home_frame: "touches (- insert p (under boot)) (rb_verify_home B report i)"
    and home_capacity_frame: "touches (- insert p (under boot)) (rb_check_home_capacity B report)"
    and home_fallback_frame: "touches (- insert p (under boot)) (rb_create_home_fallback B report)"
    and capacity_frame: "touches (- insert p (under boot)) (rb_check_fallback_capacity B report)"
    and fallback_frame: "touches (- insert p (under boot)) (rb_create_fallback B)"
    and root_uuid_frame: "touches (- insert p (under boot)) (rb_root_filesystem_uuid B report)"
    and one_shot_frame: "touches (- insert p (under boot)) (rb_verify_one_shot_support B)"
    and protocol_frame: "touches (- insert p (under boot)) (rb_target_recovery_protocol B target)"
    and kernel_frame: "touches (- insert p (under boot)) (rb_target_kernel_release B target)"
    and source_frame: "touches (- insert p (under boot)) (rb_verify_recovery_boot_source B)"
    and regenerate_frame: "touches (- insert p (under boot)) (rb_regenerate_grub B)"
    and entry_frame: "touches (- insert p (under boot)) (rb_verify_grub_entry B t)"
    and arm_frame: "touches (- insert p (under boot)) (rb_arm_once B)"
    and clear_frame: "touches (- insert p (under boot)) (rb_clear_once B)"
    and progress_frame: "touches {} (progress phase fraction message)"
    and provision_frame: "touches (- {p}) (rb_provision_recovery_boot_artifacts B)"
    and provisions: "io_triple (\<lambda>_. True) (rb_provision_recovery_boot_artifacts B)
          (\<lambda>a w. artifacts_stored sha boot (map_of (nodes w)) a) (\<lambda>_ _. True)"
    and verifies: "io_triple (\<lambda>_. True) (rb_verify_target B i)
          (\<lambda>r _. hyphenated U (dep_id r) = hyphenated U i) (\<lambda>_ _. True)"
    and verifies_home: "io_triple (\<lambda>_. True) (rb_verify_home B report i)
          (\<lambda>r _. hyphenated U (ps_id r) = hyphenated U i) (\<lambda>_ _. True)"
    and loads: "io_triple (\<lambda>w. map_of (nodes w) p = j) (rb_pending B)
          (\<lambda>r _. case r of None \<Rightarrow> j = None | Some t \<Rightarrow> pending_decodes U J j t) (\<lambda>_ _. True)"
    and create_frame: "touches (- under boot) (rb_create_transaction B t)"
    and creates: "io_triple (\<lambda>w. map_of (nodes w) p = j) (rb_create_transaction B t)
          (\<lambda>_ w. j = None \<and> slot_holds (tx_image U J t) (map_of (nodes w) p))
          (\<lambda>_ w. map_of (nodes w) p = j \<or> j = None \<and> slot_holds (tx_image U J t) (map_of (nodes w) p))"
    and update_frame: "touches (- under boot) (rb_update_transaction B t)"
    and updates: "io_triple (\<lambda>w. map_of (nodes w) p = j) (rb_update_transaction B t)
          (\<lambda>_ w. slot_holds (tx_image U J t) (map_of (nodes w) p))
          (\<lambda>_ w. map_of (nodes w) p = j \<or> slot_holds (tx_image U J t) (map_of (nodes w) p))"
    and remove_frame: "touches (- under boot) (rb_remove_transaction B)"
    and removes: "io_triple (\<lambda>w. map_of (nodes w) p = j) (rb_remove_transaction B)
          (\<lambda>_ w. map_of (nodes w) p = None) (\<lambda>_ w. map_of (nodes w) p = j \<or> map_of (nodes w) p = None)"
begin

lemmas quiet_frames = lock_frame layout_frame pending_frame package_frame target_frame factory_home_frame home_frame
  home_capacity_frame home_fallback_frame capacity_frame fallback_frame root_uuid_frame one_shot_frame protocol_frame
  kernel_frame source_frame regenerate_frame entry_frame arm_frame clear_frame

abbreviation state :: "(path \<Rightarrow> inode option) \<Rightarrow> (inode option \<Rightarrow> bool) \<Rightarrow> world \<Rightarrow> bool" where
  "state \<equiv> slot_state p boot"

lemma quiet_keeps:
  "touches (- insert p (under boot)) m \<Longrightarrow> io_triple (state M F) m (\<lambda>_. state M F) (\<lambda>_. state M F)"
  by (rule io_tripleI) (auto simp: slot_state_def agrees_off_def dest: touchesD)

lemma quiet_then:
  assumes "touches (- insert p (under boot)) m" and "\<And>x. io_triple (state M F) (f x) Q E"
    and "\<And>e w. state M F w \<Longrightarrow> E e w"
  shows "io_triple (state M F) (io_bind m f) Q E"
  by (rule triple_bind [OF triple_weaken [OF quiet_keeps [OF assms(1)]] assms(2)]) (use assms(3) in auto)

lemma notify_then: "io_triple (state M F) k Q E \<Longrightarrow> io_triple (state M F) (notify (progress a b c) k) Q E"
  unfolding notify_def by (rule triple_match [OF quiet_keeps [OF touches_none [OF progress_frame]]])

lemma slot_changes:
  assumes "touches (- under boot) m" and "\<And>j. F j \<Longrightarrow> io_triple (\<lambda>w. map_of (nodes w) p = j) m
      (\<lambda>x w. G x (map_of (nodes w) p)) (\<lambda>e w. H (map_of (nodes w) p))"
  shows "io_triple (state M F) m (\<lambda>x. state M (G x)) (\<lambda>_. state M H)"
  by (rule io_tripleI)
    (use assms in \<open>auto simp: slot_state_def agrees_off_def dest: touchesD io_tripleD_ok [OF assms(2) refl] io_tripleD_err [OF assms(2) refl]\<close>)

lemma arm_recorded_establishes:
  "io_triple (state M (slot_holds (tx_image U J t))) (arm_recorded U B progress t)
     (\<lambda>t' w. armed_from U t t' \<and> state M (slot_holds (tx_image U J t')) w) (\<lambda>_. state M (tx_recorded U J t))"
proof -
  let ?Q = "\<lambda>t' w. armed_from U t t' \<and> state M (slot_holds (tx_image U J t')) w" and ?E = "\<lambda>_. state M (tx_recorded U J t)"
  have still: "state M (slot_holds (tx_image U J t)) w \<Longrightarrow> ?E e w" for e w by (simp add: slot_state_def tx_recorded_def)
  have finished: "io_triple (state M (slot_holds (tx_image U J t'))) (io_bind (rb_arm_once B) (\<lambda>armed_entry.
      if armed_entry \<noteq> tx_grub_entry_id t' then io_throw e
      else notify (progress RpCommit 100 m) (io_return t'))) ?Q ?E" if "armed_from U t t'" for t' e m
    by (rule quiet_then [OF arm_frame], rule triple_if, rule triple_throw, use that in \<open>auto simp: slot_state_def tx_recorded_def\<close>,
        rule notify_then, rule triple_return) (use that in \<open>auto simp: slot_state_def\<close>)
  have update: "io_triple (state M (slot_holds (tx_image U J t))) (rb_update_transaction B t')
      (\<lambda>_. state M (slot_holds (tx_image U J t'))) ?E" if "armed_from U t t'" for t'
    by (rule slot_changes [OF update_frame], rule triple_weaken [OF updates]) (use that in \<open>auto simp: tx_recorded_def\<close>)
  have armed: "armed_from U t t'" if "transition U Armed now t = (t', Inr u)" for now t' u
    using that by (auto simp: armed_from_def)
  have clock: "touches (- insert p (under boot)) utc_now" by (rule io_rules)
  show ?thesis
    unfolding arm_recorded_def
    by (rule notify_then, rule quiet_then [OF regenerate_frame], rule quiet_then [OF entry_frame], rule quiet_then [OF clock])
      (auto simp: still split: prod.split sum.split intro!: triple_throw triple_bind [OF update finished] armed)
qed

lemma cleanup_keeps:
  "io_triple (state M (tx_recorded U J t)) (cleanup_failed_schedule B)
     (\<lambda>_. state M (\<lambda>j. j = None \<or> tx_recorded U J t j)) (\<lambda>_. state M (\<lambda>j. j = None \<or> tx_recorded U J t j))"
proof -
  have remove: "io_triple (state M (tx_recorded U J t)) (rb_remove_transaction B)
      (\<lambda>_. state M (\<lambda>j. j = None \<or> tx_recorded U J t j)) (\<lambda>_. state M (\<lambda>j. j = None \<or> tx_recorded U J t j))"
    by (rule slot_changes [OF remove_frame], rule triple_weaken [OF removes]) auto
  show ?thesis
    unfolding cleanup_failed_schedule_def Let_def
    by (rule triple_match [OF quiet_keeps [OF clear_frame]]; rule triple_match [OF remove];
        rule triple_match [OF quiet_keeps [OF regenerate_frame]])
      (auto intro!: triple_if triple_return triple_throw)
qed

lemma arm_establishes:
  "io_triple (state M (\<lambda>j. j = i)) (arm_transaction U B progress t)
     (\<lambda>t' w. i = None \<and> armed_from U t t' \<and> state M (slot_holds (tx_image U J t')) w)
     (\<lambda>_. state M (\<lambda>j. j = i \<or> i = None \<and> tx_recorded U J t j))"
proof -
  let ?Q = "\<lambda>t' w. i = None \<and> armed_from U t t' \<and> state M (slot_holds (tx_image U J t')) w"
    and ?E = "\<lambda>_ :: RollbackError. state M (\<lambda>j. j = i \<or> i = None \<and> tx_recorded U J t j)"
  have create: "io_triple (state M (\<lambda>j. j = i)) (rb_create_transaction B t)
      (\<lambda>_ w. state M (slot_holds (tx_image U J t)) w \<and> i = None) ?E"
  proof -
    have "io_triple (state M (\<lambda>j. j = i)) (rb_create_transaction B t)
        (\<lambda>_. state M (\<lambda>j. i = None \<and> slot_holds (tx_image U J t) j)) ?E"
      by (rule slot_changes [OF create_frame], rule triple_weaken [OF creates]) (auto simp: tx_recorded_def)
    then show ?thesis by (rule triple_weaken) (auto simp: slot_state_def)
  qed
  have cleaned: "io_triple (state M (tx_recorded U J t)) (io_match (cleanup_failed_schedule B) (\<lambda>c.
      case c of Inl x \<Rightarrow> io_throw (f x) | Inr _ \<Rightarrow> io_throw e)) Q
      (\<lambda>_. state M (\<lambda>j. j = None \<or> tx_recorded U J t j))" for e f and Q :: "RollbackTransaction \<Rightarrow> world \<Rightarrow> bool"
    by (rule triple_match [OF cleanup_keeps]) (auto intro!: triple_throw)
  show ?thesis
    unfolding arm_transaction_def
    by (rule notify_then, rule triple_bind [OF create], rule triple_pure, rule triple_match [OF arm_recorded_establishes])
      (auto intro!: triple_return notify_then cleaned)
qed

end

context rollback_contract
begin

text \<open>Up to the provisioning only the pending slot is followed.\<close>

abbreviation slot :: "inode option \<Rightarrow> world \<Rightarrow> bool" where
  "slot j w \<equiv> map_of (nodes w) p = j"

abbreviation failed :: "inode option \<Rightarrow> world \<Rightarrow> bool" where
  "failed j w \<equiv> left_by_failure U J j (map_of (nodes w) p)"

lemma slot_keeps: "touches (- {p}) m \<Longrightarrow> io_triple (slot j) m (\<lambda>_. slot j) (\<lambda>_. slot j)"
  by (rule io_tripleI) (auto dest: touchesD)

lemma quiet_slot: "touches (- insert p (under boot)) m \<Longrightarrow> touches (- {p}) m"
  by (erule touches_mono) auto

lemma slot_then:
  assumes "touches (- insert p (under boot)) m" and "\<And>x. io_triple (slot j) (f x) Q (\<lambda>_. failed j)"
  shows "io_triple (slot j) (io_bind m f) Q (\<lambda>_. failed j)"
  by (rule triple_bind [OF triple_weaken [OF slot_keeps [OF quiet_slot [OF assms(1)]]] assms(2)]) (auto simp: left_by_failure_def)

lemma slot_throw: "io_triple (slot j) (io_throw e) Q (\<lambda>_. failed j)"
  by (rule triple_throw) (simp add: left_by_failure_def)

lemma slot_notify: "io_triple (slot j) k Q E \<Longrightarrow> io_triple (slot j) (notify (progress a b c) k) Q E"
  unfolding notify_def by (rule triple_match [OF slot_keeps [OF touches_none [OF progress_frame]]])

lemma slot_lift: "(\<And>x. r = Inr x \<Longrightarrow> io_triple (slot j) (f x) Q (\<lambda>_. failed j)) \<Longrightarrow> io_triple (slot j) (io_bind (io_lift r) f) Q (\<lambda>_. failed j)"
  by (rule triple_lift) (auto simp: left_by_failure_def)

lemma slot_provision:
  assumes "\<And>a M. artifacts_stored sha boot M a \<Longrightarrow> io_triple (state M (\<lambda>i. i = j)) (f a) Q (\<lambda>_. failed j)"
  shows "io_triple (slot j) (io_bind (rb_provision_recovery_boot_artifacts B) f) Q (\<lambda>_. failed j)"
proof -
  have "io_triple (\<lambda>w. slot j w \<and> artifacts_stored sha boot (map_of (nodes w)) a) (f a) Q (\<lambda>_. failed j)" for a
  proof (rule io_tripleI)
    fix w assume "slot j w \<and> artifacts_stored sha boot (map_of (nodes w)) a"
    then have start: "artifacts_stored sha boot (map_of (nodes w)) a" "state (map_of (nodes w)) (\<lambda>i. i = j) w"
      by (simp_all add: slot_state_def agrees_off_def)
    show "Q x w'" if "f a w = (Inr x, w')" for x w' by (rule io_tripleD_ok [OF assms [OF start(1)] start(2) that])
    show "failed j w'" if "f a w = (Inl e, w')" for e w' by (rule io_tripleD_err [OF assms [OF start(1)] start(2) that])
  qed
  moreover have "io_triple (slot j) (rb_provision_recovery_boot_artifacts B)
      (\<lambda>a w. slot j w \<and> artifacts_stored sha boot (map_of (nodes w)) a) (\<lambda>_. failed j)"
    by (rule triple_weaken [OF triple_conj [OF provisions slot_keeps [OF provision_frame]]]) (auto simp: left_by_failure_def)
  ultimately show ?thesis by (rule triple_bind [rotated])
qed

lemma state_then:
  assumes "touches (- insert p (under boot)) m" and "\<And>x. io_triple (state M (\<lambda>i. i = j)) (f x) Q (\<lambda>_. failed j)"
  shows "io_triple (state M (\<lambda>i. i = j)) (io_bind m f) Q (\<lambda>_. failed j)"
  by (rule quiet_then [OF assms]) (auto simp: slot_state_def left_by_failure_def)

lemma state_new:
  assumes "\<And>i now. io_triple (state M (\<lambda>i. i = j)) (f (RollbackTransaction_new U i now target fallback root_uuid
      (ba_kernel_release a) (ba_kernel_sha256 a) (ba_initramfs_sha256 a) (ba_confirm_sha256 a))) Q (\<lambda>_. failed j)"
  shows "io_triple (state M (\<lambda>i. i = j)) (io_bind (new_rollback U target fallback root_uuid a) f) Q (\<lambda>_. failed j)"
  by (rule triple_bind [OF triple_new_rollback], simp add: slot_state_def agrees_off_def, rule triple_pure) (auto intro: assms)

lemma state_lift:
  "(\<And>x. r = Inr x \<Longrightarrow> io_triple (state M (\<lambda>i. i = j)) (f x) Q (\<lambda>_. failed j)) \<Longrightarrow>
     io_triple (state M (\<lambda>i. i = j)) (io_bind (io_lift r) f) Q (\<lambda>_. failed j)"
  by (rule triple_lift) (auto simp: slot_state_def left_by_failure_def)

lemma state_arm:
  assumes "artifacts_stored sha boot M a" and "records_artifacts t a" and "tx_phase t = Preparing"
    and "\<And>t' w. j = None \<Longrightarrow> rollback_armed U J sha p boot t' w \<Longrightarrow>
      \<exists>now. t' = t\<lparr>tx_phase := Armed, tx_updated_at := now\<rparr> \<Longrightarrow> Q t' w"
  shows "io_triple (state M (\<lambda>i. i = j)) (arm_transaction U B progress t) Q (\<lambda>_. failed j)"
proof (rule triple_weaken [OF arm_establishes])
  fix t' w assume *: "j = None \<and> armed_from U t t' \<and> state M (slot_holds (tx_image U J t')) w"
  then have "artifacts_stored sha boot (map_of (nodes w)) a"
    using assms(1) by (auto simp: slot_state_def agrees_off_def artifacts_stored_def under_def)
  moreover have "records_artifacts t' a"
    using * assms(2) by (auto dest!: armed_from_facts simp: records_artifacts_def)
  ultimately show "Q t' w"
    using * armed_from_facts [of U t t'] by (intro assms(4)) (auto simp: rollback_armed_def slot_state_def)
next
  fix e :: RollbackError and w
  assume "state M (\<lambda>i. i = j \<or> j = None \<and> tx_recorded U J t i) w"
  then show "failed j w"
    using assms(3) by (auto simp: slot_state_def left_by_failure_def tx_recorded_def dest: armed_from_facts)
qed simp

lemma environment_slot:
  assumes "\<And>report. io_triple (slot j) (f report) Q (\<lambda>_. failed j)"
  shows "io_triple (slot j) (io_bind (validate_environment B) f) Q (\<lambda>_. failed j)"
proof -
  have "touches (- insert p (under boot)) (validate_environment B)"
    unfolding validate_environment_def by (intro io_rules quiet_frames)
  then show ?thesis by (rule slot_then) (rule assms)
qed

lemma ready_slot:
  "io_triple (slot j) (validate_ready U B i factory reset)
     (\<lambda>(target, report, root_uuid, home) w. slot j w \<and> hyphenated U (dep_id target) = hyphenated U i \<and> (home \<noteq> None \<longleftrightarrow> reset))
     (\<lambda>_. failed j)"
proof -
  let ?Q = "\<lambda>(target, report, root_uuid, home) w. slot j w \<and> hyphenated U (dep_id target) = hyphenated U i \<and> (home \<noteq> None \<longleftrightarrow> reset)"
  have target: "io_triple (slot j) (rb_verify_target B i) (\<lambda>r w. slot j w \<and> hyphenated U (dep_id r) = hyphenated U i) (\<lambda>_. failed j)"
    by (rule triple_weaken [OF triple_conj [OF verifies slot_keeps [OF quiet_slot [OF target_frame]]]]) (auto simp: left_by_failure_def)
  have home: "io_triple (slot j) (if reset then io_bind (rb_verify_factory_home B report) (\<lambda>home.
        io_bind (rb_check_home_capacity B report) (\<lambda>_. io_return (Some home))) else io_return None)
      (\<lambda>h w. slot j w \<and> (h \<noteq> None \<longleftrightarrow> reset)) (\<lambda>_. failed j)" for report
    by (rule triple_if; (rule slot_then [OF factory_home_frame] slot_then [OF home_capacity_frame])?)
      (auto intro!: slot_then [OF home_capacity_frame] triple_return)
  show ?thesis
    unfolding validate_ready_def
    by (rule environment_slot, rule triple_bind [OF target], rule triple_pure, rule triple_if, rule slot_throw, rule triple_if,
        rule slot_throw, rule triple_bind [OF home], rule triple_pure, rule slot_then [OF root_uuid_frame],
        rule slot_then [OF capacity_frame], rule slot_then [OF protocol_frame], rule slot_then [OF source_frame],
        rule slot_then [OF one_shot_frame], rule triple_return) auto
qed

lemma schedule_established:
  "io_triple (slot j) (schedule_internal U B i factory reset purge progress)
     (\<lambda>t w. j = None \<and> rollback_armed U J sha p boot t w
        \<and> restores_system U i purge reset t) (\<lambda>_. failed j)"
proof -
  have arm: "io_triple (state M (\<lambda>i. i = j)) (arm_transaction U B progress
      (t'\<lparr>tx_purge_history := purge, tx_fallback_home_snapshot_id := hf\<rparr>))
      (\<lambda>t w. j = None \<and> rollback_armed U J sha p boot t w \<and> restores_system U i purge wanted t) (\<lambda>_. failed j)"
    if "artifacts_stored sha boot M a" "hyphenated U (dep_id target) = hyphenated U i" "home \<noteq> None \<longleftrightarrow> wanted"
      "reset_home_of U home (bind_target protocol k (RollbackTransaction_new U n now (dep_id target) fb root_uuid
        (ba_kernel_release a) (ba_kernel_sha256 a) (ba_initramfs_sha256 a) (ba_confirm_sha256 a))) = Inr t'"
    for M a target home protocol k n now fb root_uuid t' hf wanted
  proof -
    from reset_home_of_facts [OF that(4), of a] that(3)
    have "tx_phase t' = Preparing" "records_artifacts t' a" "tx_target_deployment_id t' = dep_id target"
      "\<not> tx_home_only t'" "tx_reset_home t' \<longleftrightarrow> wanted"
      by (simp_all add: new_rollback_facts)
    then show ?thesis
      using that(2) by (intro state_arm [OF that(1)]) (auto simp: records_artifacts_def restores_system_def)
  qed
  note arms = arm [where home = "Some q" and wanted = True for q] arm [where home = None and wanted = False]
  have fallback: "touches (- insert p (under boot)) (if reset then io_bind (rb_create_home_fallback B report)
      (\<lambda>r. io_return (Some (ps_id r))) else io_return None)" for report
    by (intro io_rules quiet_frames)
  show ?thesis
    unfolding schedule_internal_def
    by (rule slot_then [OF lock_frame], rule slot_notify, rule triple_bind [OF ready_slot])
      (auto intro!: triple_pure slot_then [OF protocol_frame] slot_then [OF kernel_frame] slot_provision notify_then
        state_then [OF fallback_frame] state_then [OF fallback] state_new state_lift arms)
qed

end

context rollback_contract
begin

lemma home_ready_slot:
  "io_triple (slot j) (check_home_ready B i) (\<lambda>home w. slot j w \<and> hyphenated U (ps_id home) = hyphenated U i) (\<lambda>_. failed j)"
proof -
  have home: "io_triple (slot j) (rb_verify_home B report i) (\<lambda>r w. slot j w \<and> hyphenated U (ps_id r) = hyphenated U i) (\<lambda>_. failed j)" for report
    by (rule triple_weaken [OF triple_conj [OF verifies_home slot_keeps [OF quiet_slot [OF home_frame]]]]) (auto simp: left_by_failure_def)
  show ?thesis
    unfolding check_home_ready_def
    by (rule environment_slot, rule triple_bind [OF home], rule triple_pure, rule slot_then [OF home_capacity_frame],
        rule slot_then [OF capacity_frame], rule slot_then [OF source_frame], rule slot_then [OF one_shot_frame],
        rule slot_then [OF root_uuid_frame], rule triple_return) simp
qed

lemma schedule_home_established:
  "io_triple (slot j) (schedule_home U B i progress)
     (\<lambda>t w. j = None \<and> rollback_armed U J sha p boot t w \<and> restores_home U i t) (\<lambda>_. failed j)"
proof -
  let ?Q = "\<lambda>t w. j = None \<and> rollback_armed U J sha p boot t w \<and> restores_home U i t"
  have arm: "io_triple (state M (\<lambda>i. i = j)) (arm_transaction U B progress (t'\<lparr>tx_fallback_home_snapshot_id := Some hf\<rparr>)) ?Q (\<lambda>_. failed j)"
    if "artifacts_stored sha boot M a" "hyphenated U (ps_id home) = hyphenated U i"
      "reset_home_of U (Some home) ((bind_target protocol k (RollbackTransaction_new U n now x x root_uuid
        (ba_kernel_release a) (ba_kernel_sha256 a) (ba_initramfs_sha256 a) (ba_confirm_sha256 a)))\<lparr>tx_home_only := True\<rparr>) = Inr t'"
    for M a home protocol k n now x root_uuid t' hf
  proof -
    have "records_artifacts (t\<lparr>tx_home_only := True\<rparr>) a = records_artifacts t a" for t by (simp add: records_artifacts_def)
    with reset_home_of_facts [OF that(3), of a]
    have "tx_phase t' = Preparing" "records_artifacts t' a" "tx_target_deployment_id t' = x" "tx_fallback_deployment_id t' = x"
      "tx_home_only t'" "tx_reset_home t'" "tx_factory_home_snapshot_id t' = Some (ps_id home)" "\<not> tx_purge_history t'"
      by (simp_all add: new_rollback_facts)
    then show ?thesis
      using that(2) by (intro state_arm [OF that(1)]) (auto simp: records_artifacts_def restores_home_def)
  qed
  have kernel: "touches (- insert p (under boot)) (if c then io_return [] else rb_target_kernel_release B anchor)" for c anchor
    by (intro io_rules quiet_frames)
  have stop: "io_triple (state M (\<lambda>i. i = j)) (io_throw e) Q (\<lambda>_. failed j)" for M and e :: RollbackError and Q :: "RollbackTransaction \<Rightarrow> world \<Rightarrow> bool"
    by (rule triple_throw) (simp add: slot_state_def left_by_failure_def)
  show ?thesis
    unfolding schedule_home_def
    by (rule slot_then [OF lock_frame], rule slot_notify, rule triple_bind [OF home_ready_slot], rule triple_pure)
      (auto intro!: slot_then [OF layout_frame] slot_then [OF root_uuid_frame] slot_provision notify_then triple_if stop
        state_then [OF home_fallback_frame] state_then [OF fallback_frame] state_then [OF protocol_frame] state_then [OF kernel]
        state_new state_lift arm)
qed

lemma cancel_established:
  "io_triple (slot j) (cancel B)
     (\<lambda>_ w. slot None w \<and> (\<exists>t. pending_decodes U J j t \<and> tx_phase t \<in> {Preparing, Armed}))
     (\<lambda>_ w. slot j w \<or> slot None w \<and> (\<exists>t. pending_decodes U J j t \<and> tx_phase t \<in> {Preparing, Armed}))"
proof -
  let ?C = "\<exists>t. pending_decodes U J j t \<and> tx_phase t \<in> {Preparing, Armed}"
  have load: "io_triple (slot j) (rb_pending B)
      (\<lambda>r w. slot j w \<and> (case r of None \<Rightarrow> j = None | Some t \<Rightarrow> pending_decodes U J j t)) (\<lambda>_. slot j)"
    by (rule triple_weaken [OF triple_conj [OF loads slot_keeps [OF quiet_slot [OF pending_frame]]]]) auto
  have quiet: "io_triple (slot k) m (\<lambda>_. slot k) (\<lambda>_. slot k)" if "touches (- insert p (under boot)) m" for m :: "(RollbackError, unit) io" and k
    by (rule slot_keeps [OF quiet_slot [OF that]])
  have quiet_then: "io_triple (slot k) (io_bind m f) Q E"
    if "touches (- insert p (under boot)) m" "\<And>x. io_triple (slot k) (f x) Q E" "\<And>e w. slot k w \<Longrightarrow> E e w"
    for m :: "(RollbackError, unit) io" and f :: "unit \<Rightarrow> (RollbackError, unit) io" and k Q E
    by (rule triple_bind [OF triple_weaken [OF quiet [OF that(1)]] that(2)]) (use that(3) in auto)
  have rest: "io_triple (slot j) (io_bind (rb_clear_once B) (\<lambda>_. io_bind (rb_remove_transaction B) (\<lambda>_. rb_regenerate_grub B)))
      (\<lambda>_. slot None) (\<lambda>_ w. slot j w \<or> slot None w)"
    by (rule quiet_then [OF clear_frame], rule triple_bind [OF removes], rule triple_weaken [OF quiet [OF regenerate_frame]]) auto
  show ?thesis
    unfolding cancel_def
    by (rule quiet_then [OF lock_frame], rule triple_bind [OF triple_weaken [OF load]], simp, assumption, simp, rule triple_pure)
      (auto split: option.split intro!: triple_throw triple_if triple_weaken [OF rest])
qed

end

subsection \<open>The system backend keeps the contract\<close>

lemma triple_tx_remove:
  "io_triple (\<lambda>w. map_of (nodes w) (pending_path d) = j) (tx_remove d)
     (\<lambda>_ w. map_of (nodes w) (pending_path d) = None)
     (\<lambda>_ w. map_of (nodes w) (pending_path d) = j \<or> map_of (nodes w) (pending_path d) = None)"
proof -
  let ?p = "pending_path d"
  let ?P = "\<lambda>w. map_of (nodes w) ?p = j" and ?N = "\<lambda>w. map_of (nodes w) ?p = None"
  have inspect: "io_triple ?P (symlink_metadata ?p) (\<lambda>_. ?P) (\<lambda>e w. ?P w \<and> (err_kind e = NotFound \<longrightarrow> ?N w))"
    by (auto simp: io_triple_def symlink_metadata_def syscall_def tick_def enoent_def split: option.splits)
  have remove: "io_triple ?P (remove_file ?p) (\<lambda>_. ?N) (\<lambda>e w. ?P w \<and> (err_kind e = NotFound \<longrightarrow> ?N w))"
    by (auto simp: io_triple_def remove_file_def syscall_def tick_def enoent_def split: option.splits if_splits file_type.splits)
  have sync: "io_triple ?N (io_map_err h (sync_directory d)) (\<lambda>_. ?N) (\<lambda>_. ?N)" for h :: "io_error \<Rightarrow> TransactionError"
    by (rule triple_map_err, rule triple_weaken [OF triple_query]) (auto intro: io_rules)
  note sync' = triple_weaken [OF sync]
  show ?thesis
    unfolding tx_remove_def
    by (rule triple_match [OF inspect])
      (auto intro!: triple_if triple_return triple_throw triple_match [OF remove] sync')
qed

lemma triple_hashes:
  "io_triple (\<lambda>w. map_of (nodes w) = M) (hash_regular_file sha256 p)
    (\<lambda>digest w. map_of (nodes w) = M \<and> slot_holds (\<lambda>b. sha256 b = digest) (M p)) (\<lambda>_ w. True)"
proof -
  have read: "io_triple (\<lambda>w. map_of (nodes w) = M) (io_map_err h (read_all p)) (\<lambda>b w. map_of (nodes w) = M \<and> slot_holds ((=) b) (M p)) (\<lambda>_ _. True)" for h
    by (rule triple_map_err)
      (auto simp: io_triple_def read_all_def syscall_def tick_def slot_holds_def split: option.splits file_type.splits)
  show ?thesis
    unfolding hash_regular_file_def
    by (rule triple_frozen_then, (intro io_rules)[1], rule triple_frozen_then, (intro io_rules)[1],
        rule triple_bind [OF read], rule triple_return) (auto simp: slot_holds_def)
qed

lemma provisioned_artifacts:
  "io_triple (\<lambda>_. True) (provision_recovery_boot_artifacts L I)
     (\<lambda>a w. artifacts_stored (bl_sha256 L) (bi_snapshot_root I @ [RECOVERY_BOOT_DIRECTORY]) (map_of (nodes w)) a) (\<lambda>_ _. True)"
proof -
  let ?boot = "bi_snapshot_root I @ [RECOVERY_BOOT_DIRECTORY]"
  have checked: "io_triple (\<lambda>w. map_of (nodes w) = M)
     (io_bind (ensure_protected_executable (?boot @ [RECOVERY_CONFIRM])) (\<lambda>_.
      io_bind (hash_regular_file (bl_sha256 L) (?boot @ [RECOVERY_KERNEL])) (\<lambda>k.
      io_bind (hash_regular_file (bl_sha256 L) (?boot @ [RECOVERY_INITRAMFS])) (\<lambda>n.
      io_bind (hash_regular_file (bl_sha256 L) (?boot @ [RECOVERY_CONFIRM])) (\<lambda>c.
      io_return \<lparr>ba_kernel_release = release, ba_kernel_sha256 = k, ba_initramfs_sha256 = n, ba_confirm_sha256 = c\<rparr>)))))
     (\<lambda>a w. artifacts_stored (bl_sha256 L) ?boot (map_of (nodes w)) a) (\<lambda>_ _. True)" for M release
    by (rule triple_bind [OF triple_weaken [OF triple_protected_executable] triple_pure], simp, assumption, simp,
        rule triple_bind [OF triple_hashes triple_pure], rule triple_bind [OF triple_hashes triple_pure],
        rule triple_bind [OF triple_hashes triple_pure], rule triple_return) (auto simp: artifacts_stored_def)
  show ?thesis
    unfolding provision_recovery_boot_artifacts_def provision_recovery_boot_artifacts_from_def Let_def
    by (rule triple_skip, rule triple_case_prod, rule triple_case_prod, rule triple_skip, rule triple_skip, rule triple_skip, rule triple_skip,
        rule triple_skip, rule triple_skip, rule triple_from_any [of "\<lambda>w. map_of (nodes w)"], rule checked)
qed

text \<open>
  The environment of the system backend: the runners of both snapshot engines, which agree on
  the names of identifiers, checks that change nothing, and tools that spare the recovery store.
\<close>

definition preparation_tools :: "string set" where
  "preparation_tools = {BLKID, GRUB_SCRIPT_CHECK, GRUB_EDITENV, MOUNTPOINT, LSINITRD, UPDATE_GRUB}"

locale rollback_environment =
  operation_environment "rv_ops V" "default_operation_engine (rv_run V)" silent_progress +
  home: home_runner "rv_home V" "default_personal_engine (rv_run V)" for V :: rollback_env +
  fixes progress :: rb_progress
  assumes same_names: "pl_uuid (rv_home V) = ol_uuid (rv_ops V)"
    and named: "hyphenated (ol_uuid (rv_ops V)) i \<noteq> []"
    and mount_flags_frame: "touches {} (rv_mount_flags V q)"
    and secure_boot_frame: "touches {} (rv_secure_boot V q r)"
    and tools_frame: "program \<in> preparation_tools \<Longrightarrow> touches (- under RECOVERY_STORE_ROOT) (rv_run V program arguments)"
    and report_frame: "touches {} (progress phase fraction message)"

abbreviation rollback_boot :: path where
  "rollback_boot \<equiv> RECOVERY_STORE_ROOT @ [RECOVERY_BOOT_DIRECTORY]"

definition rollback_quiet :: "path set" where
  "rollback_quiet = - insert (pending_path rv_transactions) (under rollback_boot)"

lemmas rollback_path_defs = rv_transactions_def pending_path_def transactions_dir_def RECOVERY_STORE_ROOT_def
  RECOVERY_BOOT_DIRECTORY_def under_def prefix_def

lemma quiet_paths:
  "engine_paths RECOVERY_STORE_ROOT \<subseteq> rollback_quiet" "home_dirs RECOVERY_STORE_ROOT \<subseteq> rollback_quiet"
  "- under RECOVERY_STORE_ROOT \<subseteq> rollback_quiet"
  "transactions_dir RECOVERY_STORE_ROOT @ [''recovery-prepare.lock''] \<in> rollback_quiet"
  "transactions_dir RECOVERY_STORE_ROOT @ [''start.lock''] \<in> rollback_quiet"
  by (auto simp: rollback_quiet_def engine_paths_def store_dirs_def operation_lock_def home_dirs_def personal_root_def
      personal_metadata_root_def personal_snapshots_root_def personal_lock_path_def rollback_path_defs)

lemma quiet_files:
  "creation_paths U RECOVERY_STORE_ROOT i \<subseteq> rollback_quiet" "home_paths U RECOVERY_STORE_ROOT i \<subseteq> rollback_quiet"
proof -
  have "record_paths U RECOVERY_STORE_ROOT i \<subseteq> rollback_quiet"
    by (rule subset_trans [OF record_paths_under]) (auto simp: rollback_quiet_def metadata_dir_def rollback_path_defs)
  then show "creation_paths U RECOVERY_STORE_ROOT i \<subseteq> rollback_quiet"
    unfolding creation_paths_def by (auto simp: rollback_quiet_def lineage_dir_def rollback_path_defs)
  show "home_paths U RECOVERY_STORE_ROOT i \<subseteq> rollback_quiet"
    by (auto simp: rollback_quiet_def home_paths_def home_record_paths_def snapshot_container_def personal_metadata_path_def
        personal_temporary_def rollback_path_defs)
qed

lemma touches_drawn_quiet:
  assumes "\<And>w. \<exists>i. \<forall>k. k \<notin> F i \<longrightarrow> map_of (nodes (snd (m w))) k = map_of (nodes w) k" and "\<And>i. F i \<subseteq> S"
  shows "touches S m"
  unfolding touches_def using assms by blast

lemma filename_id_names:
  "filename_id U (record_path U root i) = Inr j \<Longrightarrow> hyphenated U i \<noteq> [] \<Longrightarrow> hyphenated U j = hyphenated U i"
  using file_stem_json [of "hyphenated U i" "metadata_dir root"]
  by (auto simp: filename_id_def record_path_def Let_def split: option.splits if_splits)

lemma touches_case_list:
  "touches S a \<Longrightarrow> (\<And>x xs. touches S (f x xs)) \<Longrightarrow> touches S (case l of [] \<Rightarrow> a | x # xs \<Rightarrow> f x xs)"
  by (cases l) simp_all

context rollback_environment
begin

lemma engine_roots: "oe_snapshot_root (default_operation_engine (rv_run V)) = RECOVERY_STORE_ROOT"
  "pse_store_root (default_personal_engine (rv_run V)) = RECOVERY_STORE_ROOT"
  by (simp_all add: default_operation_engine_def default_personal_engine_def)

lemma tool_quiet:
  assumes "program \<in> preparation_tools"
  shows "touches rollback_quiet (bi_runner (default_boot_integration (rv_run V)) program arguments)"
    "touches rollback_quiet (rollback_run_command (rv_run V) program arguments)"
proof -
  have tool: "touches rollback_quiet (rv_run V program arguments)"
    by (rule touches_mono [OF tools_frame [OF assms] quiet_paths(3)])
  show "touches rollback_quiet (bi_runner (default_boot_integration (rv_run V)) program arguments)"
    unfolding default_boot_integration_def BootIntegration.simps by (rule touches_boot_output) (rule tool)
  show "touches rollback_quiet (rollback_run_command (rv_run V) program arguments)"
    unfolding rollback_run_command_def Let_def by (intro io_rules tool)
qed

lemma kernel_probe_quiet: "touches S (target_kernel_release U (ol_read_link (rv_ops V)) I target)"
  unfolding target_kernel_release_def by (intro io_rules kernel_link_quiet)

lemma verify_target_quiet: "touches rollback_quiet (rv_verify_target V i)"
proof -
  have "touches rollback_quiet (verify_deployment (rv_ops V) (default_operation_engine (rv_run V)) report i silent_progress)" for report
    by (rule touches_mono [OF touches_verify_deployment [OF operation_environment_axioms]]) (simp add: engine_roots quiet_paths)
  then show ?thesis
    unfolding rv_verify_target_def Let_def rv_target_kernel_def
    by (intro io_rules kernel_probe_quiet touches_none [OF secure_boot_frame])
qed

lemma boot_source_quiet:
  "touches rollback_quiet (verify_recovery_boot_source_from (default_boot_integration (rv_run V)) kernel_release boot_root confirm)"
  unfolding verify_recovery_boot_source_from_def verify_initramfs_compatibility_def boot_read_kernel_release_def Let_def
  by (intro io_rules tool_quiet) (simp_all add: preparation_tools_def)

end


sublocale rollback_environment \<subseteq> armed: rollback_contract "system_rollback_backend V" "ol_uuid (rv_ops V)" "ol_tx (rv_ops V)"
  "ol_sha256 (rv_ops V)" "pending_path rv_transactions" rollback_boot progress
proof (unfold_locales, fold rollback_quiet_def)
  let ?B = "system_rollback_backend V" and ?I = "default_boot_integration (rv_run V)" and ?U = "ol_uuid (rv_ops V)"
  note B = system_rollback_backend_def Let_def rollback_backend.simps
  note tools = tool_quiet preparation_tools_def [THEN equalityD2, THEN subsetD]
  show "touches rollback_quiet (rb_lock_preparation ?B)"
    unfolding B by (intro io_rules touches_mono [OF touches_acquire_preparation]) (simp add: quiet_paths)
  show "touches rollback_quiet (rb_layout ?B)" "touches rollback_quiet (rb_pending ?B)"
    "touches rollback_quiet (rb_package_transaction_pending ?B)"
    unfolding B by (intro io_rules)+
  show "touches rollback_quiet (rb_verify_target ?B i)" for i
    unfolding B by (rule verify_target_quiet)
  show "touches rollback_quiet (rb_verify_factory_home ?B report)" "touches rollback_quiet (rb_verify_home ?B report i)"
    "touches rollback_quiet (rb_check_home_capacity ?B report)" for report i
    unfolding B rv_verify_factory_home_def rv_verify_home_def
    by (intro io_rules touches_case_list home.home_verify_quiet home.home_capacity_quiet)+
  show "touches rollback_quiet (rb_create_home_fallback ?B report)" for report
  proof -
    have "touches rollback_quiet (personal_create (rv_home V) (default_personal_engine (rv_run V)) report title reason None False PersonalManual)" for title reason
      by (rule touches_drawn_quiet, rule home.personal_create_frame [OF surjective_pairing]) (simp add: engine_roots quiet_files quiet_paths)
    then show ?thesis unfolding B personal_create_manual_def by (intro io_rules)
  qed
  show "touches rollback_quiet (rb_check_fallback_capacity ?B report)" for report
    unfolding B check_pre_rollback_capacity_def
    by (intro io_rules reserve_quiet) (use quiet_paths(1) in \<open>auto simp: engine_roots engine_paths_def\<close>)
  show "touches rollback_quiet (rb_create_fallback ?B)"
  proof -
    have "touches rollback_quiet (create_snapshot (rv_ops V) (default_operation_engine (rv_run V)) report title reason None False PreRollback Ready silent_progress)" for report title reason
      unfolding create_snapshot_def
      by (rule touches_drawn_quiet, rule create_with_frame [OF surjective_pairing]) (simp add: engine_roots quiet_files quiet_paths)
    then show ?thesis unfolding B create_pre_rollback_def by (intro io_rules)
  qed
  have tools: "BLKID \<in> preparation_tools" "GRUB_SCRIPT_CHECK \<in> preparation_tools" "GRUB_EDITENV \<in> preparation_tools"
    "MOUNTPOINT \<in> preparation_tools" "LSINITRD \<in> preparation_tools" "UPDATE_GRUB \<in> preparation_tools"
    by (simp_all add: preparation_tools_def)
  have outside: "[''boot'', ''efi'', ''EFI''] \<in> rollback_quiet" "[''boot'', ''efi''] \<in> rollback_quiet"
    "[''boot'', ''efi'', ''EFI'', ''anduinos''] \<in> rollback_quiet" "GRUB_EXTERNAL_ENVIRONMENT \<in> rollback_quiet"
    by (auto simp: rollback_quiet_def rollback_path_defs GRUB_EXTERNAL_ENVIRONMENT_def)
  have directory: "touches S (boot_ensure_real_directory q c)" if "c \<Longrightarrow> q \<in> S" for S q c
    unfolding boot_ensure_real_directory_def by (cases c) (simp_all add: that, (intro io_rules that; simp)+)
  show "touches rollback_quiet (rb_root_filesystem_uuid ?B report)" for report
    unfolding B rv_root_filesystem_uuid_def by (intro io_rules tool_quiet tools)
  show "touches rollback_quiet (rb_verify_one_shot_support ?B)"
    unfolding B ensure_external_environment_block_def validate_environment_file_def protect_environment_file_def
      verify_external_environment_block_def
    by (intro io_rules tool_quiet tools directory) (simp_all add: outside)
  show "touches rollback_quiet (rb_target_recovery_protocol ?B target)" for target
    unfolding B target_recovery_protocol_def boot_read_kernel_release_def
    by (intro io_rules tool_quiet tools kernel_probe_quiet)
  show "touches rollback_quiet (rb_target_kernel_release ?B target)" for target
    unfolding B rv_target_kernel_def by (intro io_rules kernel_probe_quiet)
  show "touches rollback_quiet (rb_verify_recovery_boot_source ?B)"
    unfolding B verify_recovery_boot_source_def
    by (intro io_rules boot_source_quiet directory touches_none [OF mount_flags_frame]) (simp_all add: rv_boot_def mount_flags_frame touches_none)
  show "touches rollback_quiet (rb_regenerate_grub ?B)"
    unfolding B by (intro io_rules tool_quiet tools)
  show "touches rollback_quiet (rb_verify_grub_entry ?B t)" for t
    unfolding B verify_grub_config_def seek_start_def by (intro io_rules tool_quiet tools touches_syscall) simp
  show "touches rollback_quiet (rb_arm_once ?B)"
    unfolding B arm_pending_once_def verify_external_environment_block_def by (intro io_rules tool_quiet tools)
  show "touches rollback_quiet (rb_clear_once ?B)"
    unfolding B clear_pending_once_def by (intro io_rules tool_quiet tools)
  show "touches {} (progress phase fraction message)" for phase fraction message
    by (rule report_frame)
  show "touches (- {pending_path rv_transactions}) (rb_provision_recovery_boot_artifacts ?B)"
  proof -
    have boot: "under rollback_boot \<subseteq> - {pending_path rv_transactions}" "rollback_boot \<in> - {pending_path rv_transactions}"
      "rollback_quiet \<subseteq> - {pending_path rv_transactions}" "pending_path rv_transactions \<notin> under rollback_boot"
      "rollback_boot \<noteq> pending_path rv_transactions"
      by (auto simp: rollback_quiet_def rollback_path_defs)
    have copy: "touches (- {pending_path rv_transactions}) (copy_regular_file_atomic U source (rollback_boot @ [n]) m)" for U source n m
      by (rule touches_copy_regular_file_atomic, simp, simp only: butlast_snoc boot(1))
    show ?thesis
      unfolding B provision_recovery_boot_artifacts_def provision_recovery_boot_artifacts_from_def
      by (intro io_rules directory touches_mono [OF boot_source_quiet boot(3)] touches_none [OF mount_flags_frame])
        (simp_all add: rv_boot_def default_boot_integration_def mount_flags_frame touches_none copy boot del: append_assoc)
  qed
  show "io_triple (\<lambda>_. True) (rb_provision_recovery_boot_artifacts ?B)
      (\<lambda>a w. artifacts_stored (ol_sha256 (rv_ops V)) rollback_boot (map_of (nodes w)) a) (\<lambda>_ _. True)"
    unfolding B by (rule triple_map_err, rule triple_weaken [OF provisioned_artifacts])
      (simp_all add: rv_boot_def default_boot_integration_def)
  show "io_triple (\<lambda>_. True) (rb_verify_target ?B i) (\<lambda>r _. hyphenated ?U (dep_id r) = hyphenated ?U i) (\<lambda>_ _. True)" for i
  proof -
    have "io_triple (\<lambda>_. True) (io_map_err h (verify_deployment (rv_ops V) (default_operation_engine (rv_run V)) report i silent_progress))
        (\<lambda>r w. True \<and> hyphenated ?U (dep_id r) = hyphenated ?U i) (\<lambda>_ _. True)" for report and h :: "OperationError \<Rightarrow> RollbackError"
      by (rule triple_map_err, rule triple_weaken [OF verify_establishes])
        (auto simp: inode_records_def dest: filename_id_names [OF _ named])
    note verified = triple_bind [OF this triple_pure]
    show ?thesis
      unfolding B rv_verify_target_def
      by (rule triple_skip, rule verified, intro triple_skip triple_return)
  qed
  show "io_triple (\<lambda>_. True) (rb_verify_home ?B report i) (\<lambda>r _. hyphenated ?U (ps_id r) = hyphenated ?U i) (\<lambda>_ _. True)" for report i
  proof -
    have load: "io_triple (\<lambda>_. True) (engine_load (rv_home V) (default_personal_engine (rv_run V)) i)
        (\<lambda>r w. True \<and> hyphenated ?U (ps_id r) = hyphenated ?U i) (\<lambda>_ _. True)"
      by (rule triple_from_any [of "\<lambda>w. map_of (nodes w)"], rule triple_weaken [OF triple_engine_load])
        (auto simp: same_names named home_records_def)
    have "io_triple (\<lambda>_. True) (io_map_err h (personal_verify (rv_home V) (default_personal_engine (rv_run V)) report i))
        (\<lambda>r w. True \<and> hyphenated ?U (ps_id r) = hyphenated ?U i) (\<lambda>_ _. True)" for h :: "PersonalError \<Rightarrow> RollbackError"
      unfolding personal_verify_def Let_def
      by (rule triple_map_err, rule triple_skip, rule triple_bind [OF load triple_pure], rule triple_if, rule triple_throw, simp,
          rule triple_skip, rule triple_skip, rule triple_case_prod, rule triple_if, rule triple_throw, simp,
          rule triple_skip, rule triple_return) simp
    note verified = triple_bind [OF this triple_pure]
    show ?thesis
      unfolding B rv_verify_home_def by (rule verified, intro triple_skip triple_return)
  qed
  show "io_triple (\<lambda>w. map_of (nodes w) (pending_path rv_transactions) = j) (rb_pending ?B)
      (\<lambda>r _. case r of None \<Rightarrow> j = None | Some t \<Rightarrow> pending_decodes ?U (ol_tx (rv_ops V)) j t) (\<lambda>_ _. True)" for j
  proof -
    have load: "io_triple (\<lambda>w. map_of (nodes w) = M) (rb_pending ?B) (\<lambda>r _. case r of None \<Rightarrow> M (pending_path rv_transactions) = None
        | Some t \<Rightarrow> pending_decodes ?U (ol_tx (rv_ops V)) (M (pending_path rv_transactions)) t) (\<lambda>_ _. True)" for M
      unfolding B by (rule triple_map_err, rule triple_weaken [OF triple_load_pending]) auto
    show ?thesis
      by (rule io_tripleI) (use io_tripleD_ok [OF load refl] in auto)
  qed
  have store: "under rv_transactions \<subseteq> - under rollback_boot" "rollback_quiet \<subseteq> - under rollback_boot"
    "pending_path rv_transactions \<in> - under rollback_boot" "transactions_dir RECOVERY_STORE_ROOT @ [''start.lock''] \<in> - under rollback_boot"
    by (auto simp: rollback_quiet_def rollback_path_defs)
  have bound: "touches S (rv_verify_bound_home V h)" for S h
    unfolding rv_verify_bound_home_def by (intro io_rules home.home_verify_quiet)
  note target = verify_target_quiet [THEN touches_mono]
  show "touches (- under rollback_boot) (rb_create_transaction ?B t)" "touches (- under rollback_boot) (rb_update_transaction ?B t)" for t
    unfolding B rv_create_transaction_def
    by (intro io_rules bound target [OF store(2)] touches_acquire touches_mono [OF touches_tx_create store(1)]
        touches_mono [OF touches_tx_update_store store(1)] store)+
  show "touches (- under rollback_boot) (rb_remove_transaction ?B)"
    unfolding B by (intro io_rules touches_mono [OF touches_tx_remove]) (use store(3) in simp)
  let ?slot = "\<lambda>j w. map_of (nodes w) (pending_path rv_transactions) = j" and ?holds = "\<lambda>t w. slot_holds (tx_image ?U (ol_tx (rv_ops V)) t) (map_of (nodes w) (pending_path rv_transactions))"
  show "io_triple (?slot j) (rb_update_transaction ?B t) (\<lambda>_. ?holds t) (\<lambda>_ w. ?slot j w \<or> ?holds t w)" for j t
    unfolding B by (rule triple_map_err, rule triple_tx_update_store)
  show "io_triple (?slot j) (rb_remove_transaction ?B) (\<lambda>_ w. map_of (nodes w) (pending_path rv_transactions) = None)
      (\<lambda>_ w. ?slot j w \<or> map_of (nodes w) (pending_path rv_transactions) = None)" for j
    unfolding B by (rule triple_map_err, rule triple_tx_remove)
  show "io_triple (?slot j) (rb_create_transaction ?B t) (\<lambda>_ w. j = None \<and> ?holds t w) (\<lambda>_ w. ?slot j w \<or> j = None \<and> ?holds t w)" for j t
  proof -
    have keep: "io_triple (?slot j) (io_bind m f) Q (\<lambda>_ w. ?slot j w \<or> j = None \<and> ?holds t w)"
      if "touches (- {pending_path rv_transactions}) m" "\<And>x. io_triple (?slot j) (f x) Q (\<lambda>_ w. ?slot j w \<or> j = None \<and> ?holds t w)"
      for m :: "(RollbackError, 'x) io" and f :: "'x \<Rightarrow> (RollbackError, unit) io" and Q
      by (rule triple_bind [OF _ that(2)], rule io_tripleI) (auto dest: touchesD [OF that(1)])
    have others: "rollback_quiet \<subseteq> - {pending_path rv_transactions}" "transactions_dir RECOVERY_STORE_ROOT @ [''start.lock''] \<in> - {pending_path rv_transactions}"
      by (auto simp: rollback_quiet_def rollback_path_defs)
    show ?thesis
      unfolding B rv_create_transaction_def
      by (rule keep, intro io_rules touches_acquire others, rule keep, intro io_rules, rule triple_if, rule triple_throw, simp,
          rule keep [OF target [OF others(1)]], rule keep [OF target [OF others(1)]], rule keep [OF bound], rule keep [OF bound],
          rule triple_map_err, rule triple_tx_create)
  qed
qed


context rollback_environment
begin

lemmas system_schedules = armed.schedule_established armed.schedule_home_established
lemmas system_cancels = armed.cancel_established

end

subsection \<open>Properties\<close>



text \<open>
  C22. A rollback is cancelled only before early boot has begun: cancelling succeeds only when the
  pending file held a transaction that was being prepared or armed, and then leaves none; it never
  removes any other, whatever fails.
\<close>

theorem cancel_only_before_boot:
  assumes "rollback_environment V progress"
  defines "p \<equiv> pending_path rv_transactions" and "U \<equiv> ol_uuid (rv_ops V)" and "J \<equiv> ol_tx (rv_ops V)"
  shows "case cancel (system_rollback_backend V) w of (r, w') \<Rightarrow>
      (let cancelled = map_of (nodes w') p = None
             \<and> (\<exists>t. pending_decodes U J (map_of (nodes w) p) t \<and> tx_phase t \<in> {Preparing, Armed})
       in if r = Inr () then cancelled else map_of (nodes w') p = map_of (nodes w) p \<or> cancelled)"
  using rollback_environment.system_cancels [OF assms(1), of "map_of (nodes w) p"]
  unfolding io_triple_def p_def U_def J_def Let_def
  by (cases "fst (cancel (system_rollback_backend V) w)") (auto split: prod.splits)

subsection \<open>Witnesses\<close>

text \<open>Tools that succeed and say nothing, beside the simulated Btrfs.\<close>

definition quiet_tools :: programs where
  "quiet_tools program = (if program = BTRFS then simulated_home else (\<lambda>_. io_return (command_ok [])))"

definition simulated_rollback :: rollback_env where
  "simulated_rollback =
     \<lparr>rv_ops = witness_operation_libs, rv_home = home_libs, rv_mount_flags = (\<lambda>_. io_return 0), rv_run = quiet_tools,
      rv_secure_boot = (\<lambda>_ _. io_return ())\<rparr>"

definition rollback_silent :: rb_progress where "rollback_silent phase fraction message = io_return ()"

lemma quiet_tools_btrfs: "system_command_runner quiet_tools BTRFS = system_command_runner (\<lambda>_. simulated_home) BTRFS"
  by (rule ext) (simp add: system_command_runner_def quiet_tools_def)

interpretation simulated: rollback_environment simulated_rollback rollback_silent
proof -
  have ops: "operation_environment witness_operation_libs (default_operation_engine quiet_tools) silent_progress"
    using simulated_system_runner
    by (simp add: operation_environment_def operation_environment_axioms_def operation_runner_def snapshot_runner_def
        default_operation_engine_def quiet_tools_btrfs silent_progress_def touches_return)
  have home: "home_runner home_libs (default_personal_engine quiet_tools)"
    using home.home_runner_axioms
    by (simp add: home_runner_def home_runner_axioms_def snapshot_runner_def default_personal_engine_def home_engine_def quiet_tools_btrfs)
  have tools: "program \<noteq> BTRFS" if "program \<in> preparation_tools" for program
    using that by (auto simp: preparation_tools_def BTRFS_def BLKID_def GRUB_SCRIPT_CHECK_def GRUB_EDITENV_def
        MOUNTPOINT_def LSINITRD_def UPDATE_GRUB_def)
  have names: "pl_uuid home_libs = ol_uuid witness_operation_libs" "hyphenated (ol_uuid witness_operation_libs) i \<noteq> []" for i
    by (simp_all add: home_libs_def witness_operation_libs_def example_uuid_lib_def)
  show "rollback_environment simulated_rollback rollback_silent"
    by (intro rollback_environment.intro rollback_environment_axioms.intro)
      (simp_all add: simulated_rollback_def ops home names tools quiet_tools_def rollback_silent_def touches_return)
qed




text \<open>An armed rollback in the store of the running system, which cancelling removes.\<close>

definition armed_world :: world where
  "armed_world =
     (let f = (\<lambda>b. \<lparr>ftype = Regular b, mode = 0x180, uid = 0, gid = 0\<rparr>) in
      \<lparr>nodes = [(rv_transactions, plain_dir), (rv_transactions @ [''recovery-prepare.lock''], f []),
         (pending_path rv_transactions, f (''T'' @ newline))],
       ticks = 0, fault = (\<lambda>_. None), clock = (\<lambda>_. 0), entropy = (\<lambda>_. 1)\<rparr>)"

lemma cancel_runs: "\<exists>w'. cancel (system_rollback_backend simulated_rollback) armed_world = (Inr (), w')"
proof -
  have paths: "rv_transactions \<noteq> pending_path rv_transactions" "pending_path rv_transactions \<noteq> rv_transactions"
    "rv_transactions @ [''recovery-prepare.lock''] \<noteq> pending_path rv_transactions" "transactions_dir RECOVERY_STORE_ROOT = rv_transactions"
    by (simp_all add: pending_path_def rv_transactions_def)
  have files: "map_of (nodes armed_world) rv_transactions = Some plain_dir"
    "map_of (nodes armed_world) (rv_transactions @ [''recovery-prepare.lock'']) = Some \<lparr>ftype = Regular [], mode = 0x180, uid = 0, gid = 0\<rparr>"
    "map_of (nodes armed_world) (pending_path rv_transactions) = Some \<lparr>ftype = Regular (''T'' @ newline), mode = 0x180, uid = 0, gid = 0\<rparr>"
    "fault_free armed_world"
    by (simp_all add: armed_world_def pending_path_def fault_free_def)
  have tx: "tx_phase example_transaction = Armed" by (simp add: example_transaction_def)
  have lock: "acquire_preparation RECOVERY_STORE_ROOT armed_world = (Inr (), tick (tick (tick armed_world)))"
    by (simp add: acquire_preparation_def acquire_named_def io_exec files paths plain_dir_def flock_exclusive_def open_create_def Let_def)
  have none: "lines [] = []" "utf8_valid []" by code_simp+
  have quiet: "boot_output quiet_tools GRUB_EDITENV a w = (Inr [], w)" "rollback_run_command quiet_tools UPDATE_GRUB a w = (Inr [], w)" for a w
    by (simp_all add: boot_output_def rollback_run_command_def quiet_tools_def BTRFS_def GRUB_EDITENV_def UPDATE_GRUB_def command_ok_def
        none io_exec Let_def)
  have remove: "tx_remove rv_transactions w = (Inr (), (tick (tick (tick (tick w))))\<lparr>nodes := fs_remove (pending_path rv_transactions) (nodes w)\<rparr>)"
    if "fault_free w" "nodes w = nodes armed_world" for w
    using that by (simp add: tx_remove_def io_exec files paths regular_content_def remove_file_def sync_directory_def open_dir_def
        sync_all_def plain_dir_def fs_is_dir_def)
  show ?thesis
    by (simp add: cancel_def system_rollback_backend_def simulated_rollback_def witness_operation_libs_def io_exec lock
        example_load_pending files tx quiet none clear_pending_once_def default_boot_integration_def remove Let_def)
qed

theorem cancel_only_before_boot_witness:
  "\<exists>w'. cancel (system_rollback_backend simulated_rollback) armed_world = (Inr (), w')
     \<and> map_of (nodes w') (pending_path rv_transactions) = None"
proof -
  obtain w' where "cancel (system_rollback_backend simulated_rollback) armed_world = (Inr (), w')"
    using cancel_runs by blast
  with cancel_only_before_boot [OF simulated.rollback_environment_axioms, of armed_world] show ?thesis by (simp add: Let_def)
qed

end
